(* ===== verification/OompahPrelude.thy ===== *)
theory OompahPrelude
  imports Main "HOL-Library.Char_ord" "HOL-Library.List_Lexorder"
begin

text \<open>
  What every theory of the development shares: the exceptions the Python code raises as values
  of a sum type, sequencing of fallible computations, and the string methods of Python that the
  modelled modules call.

  A Python \<open>str\<close> is a \<^typ>\<open>string\<close>, one \<^typ>\<open>char\<close> for each code point below 256; code points
  above are outside the model.  An exception is modelled by its class; message texts are not
  modelled.
\<close>

section \<open>Exceptions and fallible computations\<close>

datatype py_exn =
    ValueError
  | TypeError
  | KeyError
  | OverflowError
  | AssertionError
  | StopIteration

type_synonym 'a result = "py_exn + 'a"

named_theorems result_simps \<open>equations that push a result through the sequencing operators\<close>

definition ebind :: "('e + 'a) \<Rightarrow> ('a \<Rightarrow> 'e + 'b) \<Rightarrow> 'e + 'b" where
  "ebind m f = (case m of Inl e \<Rightarrow> Inl e | Inr x \<Rightarrow> f x)"

lemma ebind_simps [simp, result_simps]:
  "ebind (Inl e) f = Inl e"
  "ebind (Inr x) f = f x"
  by (simp_all add: ebind_def)

lemma ebind_eq_Inr_iff: "ebind m f = Inr y \<longleftrightarrow> (\<exists>x. m = Inr x \<and> f x = Inr y)"
  by (cases m) auto

lemma ebind_eq_Inl_iff:
  "ebind m f = Inl e \<longleftrightarrow> m = Inl e \<or> (\<exists>x. m = Inr x \<and> f x = Inl e)"
  by (cases m) auto

lemma ebind_InrE:
  assumes "ebind m f = Inr y"
  obtains x where "m = Inr x" and "f x = Inr y"
  using assms by (auto simp: ebind_eq_Inr_iff)

text \<open>How a guard, a lookup and a call succeed: what a chain of checks that returned a value passed.\<close>

lemma if_Inl_eq_Inr: "(if b then Inl e else m) = Inr y \<longleftrightarrow> \<not> b \<and> m = Inr y"
  by simp

lemma option_Inl_eq_Inr:
  "(case x of None \<Rightarrow> Inl e | Some z \<Rightarrow> f z) = Inr y \<longleftrightarrow> (\<exists>z. x = Some z \<and> f z = Inr y)"
  by (cases x) auto

lemmas succeeds_iff = if_Inl_eq_Inr option_Inl_eq_Inr ebind_eq_Inr_iff

text \<open>A loop that calls a fallible function on each element stops at the first exception.\<close>

fun eseq :: "('a \<Rightarrow> 'e + 'b) \<Rightarrow> 'a list \<Rightarrow> 'e + 'b list" where
  "eseq f [] = Inr []"
| "eseq f (x # xs) = ebind (f x) (\<lambda>y. ebind (eseq f xs) (\<lambda>ys. Inr (y # ys)))"

lemma eseq_eq_Inr_iff: "eseq f xs = Inr ys \<longleftrightarrow> list_all2 (\<lambda>x y. f x = Inr y) xs ys"
  by (induction xs arbitrary: ys)
    (auto simp: ebind_eq_Inr_iff list_all2_Cons1)

lemma eseq_total: "(\<And>x. x \<in> set xs \<Longrightarrow> \<exists>y. f x = Inr y) \<Longrightarrow> \<exists>ys. eseq f xs = Inr ys"
proof (induction xs)
  case Nil
  show ?case by simp
next
  case (Cons x xs)
  then obtain y ys where "f x = Inr y" and "eseq f xs = Inr ys" by force
  then show ?case by simp
qed

lemma eseq_set:
  assumes "eseq f xs = Inr ys" and "y \<in> set ys"
  obtains x where "x \<in> set xs" and "f x = Inr y"
proof -
  from assms have "list_all2 (\<lambda>x y. f x = Inr y) xs ys" by (simp add: eseq_eq_Inr_iff)
  then have "\<exists>x \<in> set xs. f x = Inr y"
    using assms(2) by (induction xs ys rule: list_all2_induct) auto
  with that show ?thesis by blast
qed

definition is_ok :: "'e + 'a \<Rightarrow> bool" where
  "is_ok r = (case r of Inl _ \<Rightarrow> False | Inr _ \<Rightarrow> True)"

lemma is_ok_simps [simp]: "\<not> is_ok (Inl e)" "is_ok (Inr x)"
  by (simp_all add: is_ok_def)

section \<open>Python strings\<close>

text \<open>
  \<open>str.isspace\<close> on the first 256 code points: tab to carriage return, the four separators
  0x1c to 0x1f, space, next line (0x85) and no-break space (0xa0).
\<close>

definition is_space :: "char \<Rightarrow> bool" where
  "is_space c = (let n = (of_char c :: nat) in
     (9 \<le> n \<and> n \<le> 13) \<or> (28 \<le> n \<and> n \<le> 32) \<or> n = 133 \<or> n = 160)"

text \<open>\<open>str.strip()\<close>.\<close>

definition py_strip :: "string \<Rightarrow> string" where
  "py_strip s = rev (dropWhile is_space (rev (dropWhile is_space s)))"

text \<open>\<open>str.lower()\<close>: A to Z and the capital letters of Latin-1 (0xc0 to 0xde but 0xd7).\<close>

definition lower_char :: "char \<Rightarrow> char" where
  "lower_char c = (let n = (of_char c :: nat) in
     if (65 \<le> n \<and> n \<le> 90) \<or> (192 \<le> n \<and> n \<le> 222 \<and> n \<noteq> 215) then char_of (n + 32) else c)"

definition py_lower :: "string \<Rightarrow> string" where
  "py_lower s = map lower_char s"

text \<open>\<open>s.replace(a, b)\<close> for one-character \<open>a\<close> and \<open>b\<close>.\<close>

definition replace_char :: "char \<Rightarrow> char \<Rightarrow> string \<Rightarrow> string" where
  "replace_char a b s = map (\<lambda>c. if c = a then b else c) s"

text \<open>\<open>s.startswith(p)\<close> and \<open>p in s\<close>.\<close>

fun starts_with :: "string \<Rightarrow> string \<Rightarrow> bool" where
  "starts_with s [] = True"
| "starts_with [] (p # ps) = False"
| "starts_with (c # cs) (p # ps) = (c = p \<and> starts_with cs ps)"

fun contains_str :: "string \<Rightarrow> string \<Rightarrow> bool" where
  "contains_str [] p = (p = [])"
| "contains_str (c # cs) p = (starts_with (c # cs) p \<or> contains_str cs p)"

text \<open>\<open>all(c in digits for c in s)\<close> for the lower-case hexadecimal digits.\<close>

definition lower_hex :: "string \<Rightarrow> bool" where
  "lower_hex s = list_all (\<lambda>c. c \<in> set ''0123456789abcdef'') s"

lemma dropWhile_idem_hd: "dropWhile P s \<noteq> [] \<Longrightarrow> \<not> P (hd (dropWhile P s))"
  by (rule hd_dropWhile)

lemma dropWhile_twice [simp]: "dropWhile P (dropWhile P s) = dropWhile P s"
  by (induction s) auto

lemma dropWhile_fixed: "(xs \<noteq> [] \<Longrightarrow> \<not> P (hd xs)) \<Longrightarrow> dropWhile P xs = xs"
  by (cases xs) auto

text \<open>What stripping leaves starts and ends with a non-space, which makes it idempotent.\<close>

lemma hd_rev_dropWhile_rev:
  assumes "xs \<noteq> []" and "\<not> P (hd xs)"
  shows "rev (dropWhile P (rev xs)) \<noteq> [] \<and> hd (rev (dropWhile P (rev xs))) = hd xs"
proof -
  from assms have "dropWhile P (rev xs) \<noteq> []"
    by (auto simp: dropWhile_eq_Nil_conv)
  moreover have "\<exists>zs. xs = rev (dropWhile P (rev xs)) @ zs"
    using takeWhile_dropWhile_id [of P "rev xs"] by (metis rev_append rev_rev_ident)
  ultimately show ?thesis by (metis hd_append2 rev_is_Nil_conv)
qed

lemma py_strip_idem [simp]: "py_strip (py_strip s) = py_strip s"
proof (cases "dropWhile is_space s = []")
  case True
  show ?thesis unfolding py_strip_def True by simp
next
  case False
  let ?t = "dropWhile is_space s"
  let ?u = "rev (dropWhile is_space (rev ?t))"
  from False have "\<not> is_space (hd ?t)" by (rule dropWhile_idem_hd)
  with False have u: "?u \<noteq> [] \<and> hd ?u = hd ?t" by (rule hd_rev_dropWhile_rev)
  with \<open>\<not> is_space (hd ?t)\<close> have "dropWhile is_space ?u = ?u"
    by (intro dropWhile_fixed) simp
  then show ?thesis by (simp add: py_strip_def)
qed

lemma py_strip_Nil [simp]: "py_strip [] = []"
  by (simp add: py_strip_def)

lemma py_lower_Nil [simp]: "py_lower [] = []"
  by (simp add: py_lower_def)

lemma py_lower_eq_Nil_iff [simp]: "py_lower s = [] \<longleftrightarrow> s = []"
  by (simp add: py_lower_def)

lemma lower_char_idem [simp]: "lower_char (lower_char c) = lower_char c"
proof -
  have "(of_char c :: nat) < 256" by (metis nat_of_char_less_256)
  then show ?thesis by (auto simp: lower_char_def Let_def of_char_of)
qed

lemma py_lower_idem [simp]: "py_lower (py_lower s) = py_lower s"
  by (simp add: py_lower_def)

lemma replace_char_idem: "a \<noteq> b \<Longrightarrow> replace_char a b (replace_char a b s) = replace_char a b s"
  by (simp add: replace_char_def)

section \<open>Association lists\<close>

text \<open>\<open>d.get(k, default)\<close> on a dictionary held as an association list.\<close>

definition get_or :: "('k \<times> 'v) list \<Rightarrow> 'k \<Rightarrow> 'v \<Rightarrow> 'v" where
  "get_or d k v = (case map_of d k of None \<Rightarrow> v | Some x \<Rightarrow> x)"

lemma get_or_Nil [simp]: "get_or [] k v = v"
  by (simp add: get_or_def)

lemma get_or_Cons [simp]: "get_or ((k', x) # d) k v = (if k = k' then x else get_or d k v)"
  by (simp add: get_or_def)

lemma get_or_in: "get_or d k v = x \<Longrightarrow> x = v \<or> (k, x) \<in> set d"
  by (auto simp: get_or_def dest: map_of_SomeD split: option.splits)

section \<open>Evaluation on character literals\<close>

named_theorems char_eval \<open>case, space and digit tests of printable ASCII literals\<close>

lemma lower_char_eval [char_eval]:
  "lower_char (CHR '' '') = CHR '' ''"
  "lower_char (CHR ''!'') = CHR ''!''"
  "lower_char (CHR 0x22) = CHR 0x22"
  "lower_char (CHR ''#'') = CHR ''#''"
  "lower_char (CHR ''$'') = CHR ''$''"
  "lower_char (CHR ''%'') = CHR ''%''"
  "lower_char (CHR ''&'') = CHR ''&''"
  "lower_char (CHR 0x27) = CHR 0x27"
  "lower_char (CHR ''('') = CHR ''(''"
  "lower_char (CHR '')'') = CHR '')''"
  "lower_char (CHR ''*'') = CHR ''*''"
  "lower_char (CHR ''+'') = CHR ''+''"
  "lower_char (CHR '','') = CHR '',''"
  "lower_char (CHR ''-'') = CHR ''-''"
  "lower_char (CHR ''.'') = CHR ''.''"
  "lower_char (CHR ''/'') = CHR ''/''"
  "lower_char (CHR ''0'') = CHR ''0''"
  "lower_char (CHR ''1'') = CHR ''1''"
  "lower_char (CHR ''2'') = CHR ''2''"
  "lower_char (CHR ''3'') = CHR ''3''"
  "lower_char (CHR ''4'') = CHR ''4''"
  "lower_char (CHR ''5'') = CHR ''5''"
  "lower_char (CHR ''6'') = CHR ''6''"
  "lower_char (CHR ''7'') = CHR ''7''"
  "lower_char (CHR ''8'') = CHR ''8''"
  "lower_char (CHR ''9'') = CHR ''9''"
  "lower_char (CHR '':'') = CHR '':''"
  "lower_char (CHR '';'') = CHR '';''"
  "lower_char (CHR ''<'') = CHR ''<''"
  "lower_char (CHR ''='') = CHR ''=''"
  "lower_char (CHR ''>'') = CHR ''>''"
  "lower_char (CHR ''?'') = CHR ''?''"
  "lower_char (CHR ''@'') = CHR ''@''"
  "lower_char (CHR ''A'') = CHR ''a''"
  "lower_char (CHR ''B'') = CHR ''b''"
  "lower_char (CHR ''C'') = CHR ''c''"
  "lower_char (CHR ''D'') = CHR ''d''"
  "lower_char (CHR ''E'') = CHR ''e''"
  "lower_char (CHR ''F'') = CHR ''f''"
  "lower_char (CHR ''G'') = CHR ''g''"
  "lower_char (CHR ''H'') = CHR ''h''"
  "lower_char (CHR ''I'') = CHR ''i''"
  "lower_char (CHR ''J'') = CHR ''j''"
  "lower_char (CHR ''K'') = CHR ''k''"
  "lower_char (CHR ''L'') = CHR ''l''"
  "lower_char (CHR ''M'') = CHR ''m''"
  "lower_char (CHR ''N'') = CHR ''n''"
  "lower_char (CHR ''O'') = CHR ''o''"
  "lower_char (CHR ''P'') = CHR ''p''"
  "lower_char (CHR ''Q'') = CHR ''q''"
  "lower_char (CHR ''R'') = CHR ''r''"
  "lower_char (CHR ''S'') = CHR ''s''"
  "lower_char (CHR ''T'') = CHR ''t''"
  "lower_char (CHR ''U'') = CHR ''u''"
  "lower_char (CHR ''V'') = CHR ''v''"
  "lower_char (CHR ''W'') = CHR ''w''"
  "lower_char (CHR ''X'') = CHR ''x''"
  "lower_char (CHR ''Y'') = CHR ''y''"
  "lower_char (CHR ''Z'') = CHR ''z''"
  "lower_char (CHR ''['') = CHR ''[''"
  "lower_char (CHR 0x5C) = CHR 0x5C"
  "lower_char (CHR '']'') = CHR '']''"
  "lower_char (CHR ''^'') = CHR ''^''"
  "lower_char (CHR ''_'') = CHR ''_''"
  "lower_char (CHR 0x60) = CHR 0x60"
  "lower_char (CHR ''a'') = CHR ''a''"
  "lower_char (CHR ''b'') = CHR ''b''"
  "lower_char (CHR ''c'') = CHR ''c''"
  "lower_char (CHR ''d'') = CHR ''d''"
  "lower_char (CHR ''e'') = CHR ''e''"
  "lower_char (CHR ''f'') = CHR ''f''"
  "lower_char (CHR ''g'') = CHR ''g''"
  "lower_char (CHR ''h'') = CHR ''h''"
  "lower_char (CHR ''i'') = CHR ''i''"
  "lower_char (CHR ''j'') = CHR ''j''"
  "lower_char (CHR ''k'') = CHR ''k''"
  "lower_char (CHR ''l'') = CHR ''l''"
  "lower_char (CHR ''m'') = CHR ''m''"
  "lower_char (CHR ''n'') = CHR ''n''"
  "lower_char (CHR ''o'') = CHR ''o''"
  "lower_char (CHR ''p'') = CHR ''p''"
  "lower_char (CHR ''q'') = CHR ''q''"
  "lower_char (CHR ''r'') = CHR ''r''"
  "lower_char (CHR ''s'') = CHR ''s''"
  "lower_char (CHR ''t'') = CHR ''t''"
  "lower_char (CHR ''u'') = CHR ''u''"
  "lower_char (CHR ''v'') = CHR ''v''"
  "lower_char (CHR ''w'') = CHR ''w''"
  "lower_char (CHR ''x'') = CHR ''x''"
  "lower_char (CHR ''y'') = CHR ''y''"
  "lower_char (CHR ''z'') = CHR ''z''"
  "lower_char (CHR ''{'') = CHR ''{''"
  "lower_char (CHR ''|'') = CHR ''|''"
  "lower_char (CHR ''}'') = CHR ''}''"
  "lower_char (CHR ''~'') = CHR ''~''"
  by code_simp+

lemma is_space_eval [char_eval]:
  "is_space (CHR '' '') = True"
  "is_space (CHR ''!'') = False"
  "is_space (CHR 0x22) = False"
  "is_space (CHR ''#'') = False"
  "is_space (CHR ''$'') = False"
  "is_space (CHR ''%'') = False"
  "is_space (CHR ''&'') = False"
  "is_space (CHR 0x27) = False"
  "is_space (CHR ''('') = False"
  "is_space (CHR '')'') = False"
  "is_space (CHR ''*'') = False"
  "is_space (CHR ''+'') = False"
  "is_space (CHR '','') = False"
  "is_space (CHR ''-'') = False"
  "is_space (CHR ''.'') = False"
  "is_space (CHR ''/'') = False"
  "is_space (CHR ''0'') = False"
  "is_space (CHR ''1'') = False"
  "is_space (CHR ''2'') = False"
  "is_space (CHR ''3'') = False"
  "is_space (CHR ''4'') = False"
  "is_space (CHR ''5'') = False"
  "is_space (CHR ''6'') = False"
  "is_space (CHR ''7'') = False"
  "is_space (CHR ''8'') = False"
  "is_space (CHR ''9'') = False"
  "is_space (CHR '':'') = False"
  "is_space (CHR '';'') = False"
  "is_space (CHR ''<'') = False"
  "is_space (CHR ''='') = False"
  "is_space (CHR ''>'') = False"
  "is_space (CHR ''?'') = False"
  "is_space (CHR ''@'') = False"
  "is_space (CHR ''A'') = False"
  "is_space (CHR ''B'') = False"
  "is_space (CHR ''C'') = False"
  "is_space (CHR ''D'') = False"
  "is_space (CHR ''E'') = False"
  "is_space (CHR ''F'') = False"
  "is_space (CHR ''G'') = False"
  "is_space (CHR ''H'') = False"
  "is_space (CHR ''I'') = False"
  "is_space (CHR ''J'') = False"
  "is_space (CHR ''K'') = False"
  "is_space (CHR ''L'') = False"
  "is_space (CHR ''M'') = False"
  "is_space (CHR ''N'') = False"
  "is_space (CHR ''O'') = False"
  "is_space (CHR ''P'') = False"
  "is_space (CHR ''Q'') = False"
  "is_space (CHR ''R'') = False"
  "is_space (CHR ''S'') = False"
  "is_space (CHR ''T'') = False"
  "is_space (CHR ''U'') = False"
  "is_space (CHR ''V'') = False"
  "is_space (CHR ''W'') = False"
  "is_space (CHR ''X'') = False"
  "is_space (CHR ''Y'') = False"
  "is_space (CHR ''Z'') = False"
  "is_space (CHR ''['') = False"
  "is_space (CHR 0x5C) = False"
  "is_space (CHR '']'') = False"
  "is_space (CHR ''^'') = False"
  "is_space (CHR ''_'') = False"
  "is_space (CHR 0x60) = False"
  "is_space (CHR ''a'') = False"
  "is_space (CHR ''b'') = False"
  "is_space (CHR ''c'') = False"
  "is_space (CHR ''d'') = False"
  "is_space (CHR ''e'') = False"
  "is_space (CHR ''f'') = False"
  "is_space (CHR ''g'') = False"
  "is_space (CHR ''h'') = False"
  "is_space (CHR ''i'') = False"
  "is_space (CHR ''j'') = False"
  "is_space (CHR ''k'') = False"
  "is_space (CHR ''l'') = False"
  "is_space (CHR ''m'') = False"
  "is_space (CHR ''n'') = False"
  "is_space (CHR ''o'') = False"
  "is_space (CHR ''p'') = False"
  "is_space (CHR ''q'') = False"
  "is_space (CHR ''r'') = False"
  "is_space (CHR ''s'') = False"
  "is_space (CHR ''t'') = False"
  "is_space (CHR ''u'') = False"
  "is_space (CHR ''v'') = False"
  "is_space (CHR ''w'') = False"
  "is_space (CHR ''x'') = False"
  "is_space (CHR ''y'') = False"
  "is_space (CHR ''z'') = False"
  "is_space (CHR ''{'') = False"
  "is_space (CHR ''|'') = False"
  "is_space (CHR ''}'') = False"
  "is_space (CHR ''~'') = False"
  by code_simp+

lemmas str_eval = py_strip_def py_lower_def replace_char_def char_eval

end
