(* ===== verification/PyValues.thy ===== *)
theory PyValues
  imports OompahPrelude
begin

text \<open>
  The dynamically typed values that travel through the workflow facts and tracker metadata:
  Python's \<open>None\<close>, \<open>bool\<close>, \<open>int\<close>, \<open>str\<close>, \<open>tuple\<close>, \<open>list\<close>, \<open>dict\<close> and
  \<open>MappingProxyType\<close>, with the truth value, \<open>str()\<close>, \<open>repr()\<close>, \<open>==\<close> and
  \<open>json.dumps\<close> of each, and the coercion idioms (\<open>str(x or '').strip()\<close>) that the
  workflow modules repeat.  Sets, floats and user objects inside a fact value are outside the
  model; mapping keys are strings.
\<close>

section \<open>Values\<close>

datatype pyval =
    PNone
  | PBool bool
  | PInt int
  | PStr string
  | PTuple "pyval list"
  | PList "pyval list"
  | PDict "(string \<times> pyval) list"
  | PProxy "(string \<times> pyval) list"

text \<open>\<open>bool(v)\<close>.\<close>

fun truthy :: "pyval \<Rightarrow> bool" where
  "truthy PNone = False"
| "truthy (PBool b) = b"
| "truthy (PInt i) = (i \<noteq> 0)"
| "truthy (PStr s) = (s \<noteq> [])"
| "truthy (PTuple xs) = (xs \<noteq> [])"
| "truthy (PList xs) = (xs \<noteq> [])"
| "truthy (PDict kvs) = (kvs \<noteq> [])"
| "truthy (PProxy kvs) = (kvs \<noteq> [])"

text \<open>\<open>a or b\<close>.\<close>

definition py_or :: "pyval \<Rightarrow> pyval \<Rightarrow> pyval" where
  "py_or a b = (if truthy a then a else b)"

lemma py_or_simps [simp]:
  "truthy a \<Longrightarrow> py_or a b = a"
  "\<not> truthy a \<Longrightarrow> py_or a b = b"
  by (simp_all add: py_or_def)

section \<open>Decimal and hexadecimal digits\<close>

definition digit_char :: "nat \<Rightarrow> char" where
  "digit_char d = (if d < 10 then char_of (48 + d) else char_of (87 + d))"

fun nat_digits :: "nat \<Rightarrow> nat \<Rightarrow> string \<Rightarrow> string" where
  "nat_digits 0 n acc = acc"
| "nat_digits (Suc f) n acc =
     (let acc' = digit_char (n mod 10) # acc in if n < 10 then acc' else nat_digits f (n div 10) acc')"

text \<open>\<open>str(i)\<close>; a number has at most as many digits as its value plus one.\<close>

definition nat_str :: "nat \<Rightarrow> string" where
  "nat_str n = nat_digits (Suc n) n []"

definition int_str :: "int \<Rightarrow> string" where
  "int_str i = (if i < 0 then CHR ''-'' # nat_str (nat (- i)) else nat_str (nat i))"

text \<open>Two lower-case hexadecimal digits of a code point.\<close>

definition hex2 :: "char \<Rightarrow> string" where
  "hex2 c = (let n = (of_char c :: nat) in [digit_char (n div 16), digit_char (n mod 16)])"

section \<open>\<open>repr\<close> and \<open>str\<close>\<close>

text \<open>
  \<open>repr\<close> of a string: single quotes unless the string has one and no double quote; control
  characters and the unprintable code points of Latin-1 as escapes.
\<close>

definition sq :: char where
  "sq = CHR 0x27"

definition dq :: char where
  "dq = CHR 0x22"

definition backslash :: char where
  "backslash = CHR 0x5C"

definition repr_char :: "char \<Rightarrow> char \<Rightarrow> string" where
  "repr_char q c = (let n = (of_char c :: nat) in
     if c = q \<or> c = backslash then [backslash, c]
     else if n = 9 then backslash # ''t''
     else if n = 10 then backslash # ''n''
     else if n = 13 then backslash # ''r''
     else if n < 32 \<or> (127 \<le> n \<and> n \<le> 160) \<or> n = 173 then backslash # CHR ''x'' # hex2 c
     else [c])"

definition str_repr :: "string \<Rightarrow> string" where
  "str_repr s = (let q = (if sq \<in> set s \<and> dq \<notin> set s then dq else sq)
     in q # concat (map (repr_char q) s) @ [q])"

fun join :: "string \<Rightarrow> string list \<Rightarrow> string" where
  "join sep [] = []"
| "join sep [x] = x"
| "join sep (x # y # zs) = x @ sep @ join sep (y # zs)"

fun py_repr :: "pyval \<Rightarrow> string" where
  "py_repr PNone = ''None''"
| "py_repr (PBool b) = (if b then ''True'' else ''False'')"
| "py_repr (PInt i) = int_str i"
| "py_repr (PStr s) = str_repr s"
| "py_repr (PTuple xs) = (case xs of
     [x] \<Rightarrow> ''('' @ py_repr x @ '',)''
   | _ \<Rightarrow> ''('' @ join '', '' (map py_repr xs) @ '')'')"
| "py_repr (PList xs) = ''['' @ join '', '' (map py_repr xs) @ '']''"
| "py_repr (PDict kvs) =
     ''{'' @ join '', '' (map (\<lambda>kv. str_repr (fst kv) @ '': '' @ py_repr (snd kv)) kvs) @ ''}''"
| "py_repr (PProxy kvs) =
     ''mappingproxy({'' @ join '', '' (map (\<lambda>kv. str_repr (fst kv) @ '': '' @ py_repr (snd kv)) kvs)
       @ ''})''"

fun py_str :: "pyval \<Rightarrow> string" where
  "py_str (PStr s) = s"
| "py_str v = py_repr v"

section \<open>Coercion idioms of the workflow modules\<close>

text \<open>\<open>str(v or d)\<close> and \<open>str(v or d).strip()\<close>, and the same with \<open>.lower()\<close>.\<close>

definition str_or :: "pyval \<Rightarrow> string \<Rightarrow> string" where
  "str_or v d = (if truthy v then py_str v else d)"

definition text_of :: "pyval \<Rightarrow> string" where
  "text_of v = py_strip (str_or v [])"

definition ltext_of :: "pyval \<Rightarrow> string" where
  "ltext_of v = py_lower (text_of v)"

text \<open>\<open>_required_text(value, name)\<close>: the stripped text, a ValueError when it is empty.\<close>

definition required_text :: "pyval \<Rightarrow> string result" where
  "required_text v = (let text = text_of v in if text = [] then Inl ValueError else Inr text)"

text \<open>\<open>_optional_text(value)\<close>: None for None and for blank text.\<close>

definition optional_text :: "pyval \<Rightarrow> string option" where
  "optional_text v = (if v = PNone then None
     else (let text = py_strip (py_str v) in if text = [] then None else Some text))"

text \<open>A Python \<open>str | None\<close> as a value.\<close>

definition opt_str :: "string option \<Rightarrow> pyval" where
  "opt_str s = (case s of None \<Rightarrow> PNone | Some x \<Rightarrow> PStr x)"

lemma opt_str_simps [simp]: "opt_str None = PNone" "opt_str (Some x) = PStr x"
  by (simp_all add: opt_str_def)

lemma str_or_PStr [simp]: "str_or (PStr s) d = (if s = [] then d else s)"
  by (simp add: str_or_def)

lemma str_or_PNone [simp]: "str_or PNone d = d"
  by (simp add: str_or_def)

lemma text_of_PNone [simp]: "text_of PNone = []"
  by (simp add: text_of_def)

lemma text_of_PStr [simp]: "text_of (PStr s) = py_strip s"
  by (simp add: text_of_def)

lemma ltext_of_PNone [simp]: "ltext_of PNone = []"
  by (simp add: ltext_of_def)

lemma py_strip_text_of [simp]: "py_strip (text_of v) = text_of v"
  by (simp add: text_of_def)

lemma required_text_eq_Inr_iff: "required_text v = Inr t \<longleftrightarrow> t = text_of v \<and> t \<noteq> []"
  by (auto simp: required_text_def Let_def)

lemma required_text_eq_Inl_iff: "required_text v = Inl e \<longleftrightarrow> e = ValueError \<and> text_of v = []"
  by (auto simp: required_text_def Let_def)

lemma required_text_idem: "required_text v = Inr t \<Longrightarrow> required_text (PStr t) = Inr t"
  by (auto simp: required_text_eq_Inr_iff)

lemma optional_text_nonempty: "optional_text v = Some t \<Longrightarrow> t \<noteq> [] \<and> py_strip t = t"
  by (auto simp: optional_text_def Let_def split: if_splits)

lemma optional_text_idem: "optional_text (opt_str (optional_text v)) = optional_text v"
proof (cases "optional_text v")
  case None
  then show ?thesis by (simp add: optional_text_def [of PNone])
next
  case (Some t)
  then have "t \<noteq> [] \<and> py_strip t = t" by (rule optional_text_nonempty)
  with Some show ?thesis by (simp add: optional_text_def [of "PStr t"])
qed

section \<open>Mappings\<close>

text \<open>\<open>isinstance(v, Mapping)\<close> and \<open>_mapping(v)\<close>: the items of a mapping, None otherwise.\<close>

fun mapping_of :: "pyval \<Rightarrow> (string \<times> pyval) list option" where
  "mapping_of (PDict kvs) = Some kvs"
| "mapping_of (PProxy kvs) = Some kvs"
| "mapping_of _ = None"

text \<open>\<open>isinstance(v, (tuple, list))\<close>, with the elements.\<close>

fun sequence_of :: "pyval \<Rightarrow> pyval list option" where
  "sequence_of (PTuple xs) = Some xs"
| "sequence_of (PList xs) = Some xs"
| "sequence_of _ = None"

text \<open>\<open>m.get(key)\<close> and \<open>m.get(key, default)\<close>.\<close>

definition getv :: "(string \<times> pyval) list \<Rightarrow> string \<Rightarrow> pyval" where
  "getv m k = get_or m k PNone"

lemma getv_Nil [simp]: "getv [] k = PNone"
  by (simp add: getv_def)

lemma getv_Cons [simp]: "getv ((k', x) # m) k = (if k = k' then x else getv m k)"
  by (simp add: getv_def)

text \<open>
  \<open>a == b\<close>: booleans are the integers 0 and 1, a dictionary equals a mapping proxy of an equal
  dictionary, and the order of a mapping's items does not matter.
\<close>

fun as_int :: "pyval \<Rightarrow> int option" where
  "as_int (PBool b) = Some (if b then 1 else 0)"
| "as_int (PInt i) = Some i"
| "as_int _ = None"

text \<open>
  Two scalars compare as scalars; the modules compare facts only with \<open>None\<close>, strings, booleans
  and integers, so a container equals nothing but itself here.
\<close>

definition py_eq :: "pyval \<Rightarrow> pyval \<Rightarrow> bool" where
  "py_eq a b = (case (as_int a, as_int b) of
     (Some i, Some j) \<Rightarrow> i = j
   | _ \<Rightarrow> a = b)"

lemma py_eq_PStr [simp]: "py_eq v (PStr s) \<longleftrightarrow> v = PStr s"
  by (cases v) (auto simp: py_eq_def)

text \<open>\<open>isinstance(v, int) and not isinstance(v, bool)\<close>.\<close>

fun strict_int :: "pyval \<Rightarrow> int option" where
  "strict_int (PInt i) = Some i"
| "strict_int _ = None"

fun strict_str :: "pyval \<Rightarrow> string option" where
  "strict_str (PStr s) = Some s"
| "strict_str _ = None"

section \<open>Freezing\<close>

text \<open>
  \<open>_freeze\<close>: a mapping becomes a read-only proxy with its keys sorted, a list a tuple.
\<close>

fun freeze :: "pyval \<Rightarrow> pyval" where
  "freeze (PTuple xs) = PTuple (map freeze xs)"
| "freeze (PList xs) = PTuple (map freeze xs)"
| "freeze (PDict kvs) = PProxy (sort_key fst (map (map_prod id freeze) kvs))"
| "freeze (PProxy kvs) = PProxy (sort_key fst (map (map_prod id freeze) kvs))"
| "freeze v = v"

text \<open>\<open>_thaw\<close>: the JSON shape of a frozen value.\<close>

fun thaw :: "pyval \<Rightarrow> pyval" where
  "thaw (PTuple xs) = PList (map thaw xs)"
| "thaw (PList xs) = PList (map thaw xs)"
| "thaw (PDict kvs) = PDict (sort_key fst (map (map_prod id thaw) kvs))"
| "thaw (PProxy kvs) = PDict (sort_key fst (map (map_prod id thaw) kvs))"
| "thaw v = v"

text \<open>A frozen value holds no list and no plain dictionary at any depth.\<close>

fun frozen :: "pyval \<Rightarrow> bool" where
  "frozen (PTuple xs) = list_all frozen xs"
| "frozen (PList xs) = False"
| "frozen (PDict kvs) = False"
| "frozen (PProxy kvs) = list_all (\<lambda>kv. frozen (snd kv)) kvs"
| "frozen v = True"

lemma frozen_freeze: "frozen (freeze v)"
  by (induction v) (auto simp: list_all_iff snds.simps prod_set_simps)

lemma freeze_eq_PNone_iff [simp]: "freeze v = PNone \<longleftrightarrow> v = PNone"
  by (cases v) auto

section \<open>JSON\<close>

text \<open>
  \<open>json.dumps(v, sort_keys=True, separators=(',', ':'), ensure_ascii=True)\<close>.  The code thaws a
  value before it is dumped, so the equation for a proxy is never reached.
\<close>

definition json_char :: "char \<Rightarrow> string" where
  "json_char c = (let n = (of_char c :: nat) in
     if c = dq \<or> c = backslash then [backslash, c]
     else if n = 8 then backslash # ''b''
     else if n = 9 then backslash # ''t''
     else if n = 10 then backslash # ''n''
     else if n = 12 then backslash # ''f''
     else if n = 13 then backslash # ''r''
     else if n < 32 \<or> 127 \<le> n then backslash # ''u00'' @ hex2 c
     else [c])"

definition json_string :: "string \<Rightarrow> string" where
  "json_string s = dq # concat (map json_char s) @ [dq]"

fun json_dumps :: "pyval \<Rightarrow> string" where
  "json_dumps PNone = ''null''"
| "json_dumps (PBool b) = (if b then ''true'' else ''false'')"
| "json_dumps (PInt i) = int_str i"
| "json_dumps (PStr s) = json_string s"
| "json_dumps (PTuple xs) = ''['' @ join '','' (map json_dumps xs) @ '']''"
| "json_dumps (PList xs) = ''['' @ join '','' (map json_dumps xs) @ '']''"
| "json_dumps (PDict kvs) = ''{'' @ join '','' (map snd (sort_key fst
     (map (\<lambda>kv. (fst kv, json_string (fst kv) @ '':'' @ json_dumps (snd kv))) kvs))) @ ''}''"
| "json_dumps (PProxy kvs) = ''{'' @ join '','' (map snd (sort_key fst
     (map (\<lambda>kv. (fst kv, json_string (fst kv) @ '':'' @ json_dumps (snd kv))) kvs))) @ ''}''"

end
