(* ===== verification/Sha256.thy ===== *)
theory Sha256
  imports PyValues "HOL-Library.Word"
begin

text \<open>
  \<open>hashlib.sha256(text.encode('utf-8')).hexdigest()\<close>, the digest by which observations, facts,
  decisions and job specifications are identified: the UTF-8 encoding of a string, the padding,
  the message schedule and the compression function of FIPS 180-4 on 32-bit words, and the
  hexadecimal rendering.  Nothing in the development assumes that the digest is injective.
\<close>

unbundle bit_operations_syntax

type_synonym u32 = "32 word"

definition sha_k :: "u32 list" where
  "sha_k = [
    1116352408, 1899447441, 3049323471, 3921009573, 961987163, 1508970993, 2453635748, 2870763221,
    3624381080, 310598401, 607225278, 1426881987, 1925078388, 2162078206, 2614888103, 3248222580,
    3835390401, 4022224774, 264347078, 604807628, 770255983, 1249150122, 1555081692, 1996064986,
    2554220882, 2821834349, 2952996808, 3210313671, 3336571891, 3584528711, 113926993, 338241895,
    666307205, 773529912, 1294757372, 1396182291, 1695183700, 1986661051, 2177026350, 2456956037,
    2730485921, 2820302411, 3259730800, 3345764771, 3516065817, 3600352804, 4094571909, 275423344,
    430227734, 506948616, 659060556, 883997877, 958139571, 1322822218, 1537002063, 1747873779,
    1955562222, 2024104815, 2227730452, 2361852424, 2428436474, 2756734187, 3204031479, 3329325298]"

definition sha_h0 :: "u32 list" where
  "sha_h0 = [1779033703, 3144134277, 1013904242, 2773480762,
             1359893119, 2600822924, 528734635, 1541459225]"

definition rotr :: "nat \<Rightarrow> u32 \<Rightarrow> u32" where
  "rotr n x = drop_bit n x OR push_bit (32 - n) x"

definition small_sigma0 :: "u32 \<Rightarrow> u32" where
  "small_sigma0 x = rotr 7 x XOR rotr 18 x XOR drop_bit 3 x"

definition small_sigma1 :: "u32 \<Rightarrow> u32" where
  "small_sigma1 x = rotr 17 x XOR rotr 19 x XOR drop_bit 10 x"

definition big_sigma0 :: "u32 \<Rightarrow> u32" where
  "big_sigma0 x = rotr 2 x XOR rotr 13 x XOR rotr 22 x"

definition big_sigma1 :: "u32 \<Rightarrow> u32" where
  "big_sigma1 x = rotr 6 x XOR rotr 11 x XOR rotr 25 x"

text \<open>The message schedule, newest word first while it grows.\<close>

fun schedule_grow :: "nat \<Rightarrow> u32 list \<Rightarrow> u32 list" where
  "schedule_grow 0 w = rev w"
| "schedule_grow (Suc n) w =
     schedule_grow n ((small_sigma1 (w ! 1) + w ! 6 + small_sigma0 (w ! 14) + w ! 15) # w)"

datatype sha_state = Sha u32 u32 u32 u32 u32 u32 u32 u32

fun sha_round :: "u32 \<times> u32 \<Rightarrow> sha_state \<Rightarrow> sha_state" where
  "sha_round (k, w) (Sha a b c d e f g h) =
     (let t1 = h + big_sigma1 e + ((e AND f) XOR (NOT e AND g)) + k + w;
          t2 = big_sigma0 a + ((a AND b) XOR (a AND c) XOR (b AND c))
      in Sha (t1 + t2) a b c (d + t1) e f g)"

fun sha_words :: "sha_state \<Rightarrow> u32 list" where
  "sha_words (Sha a b c d e f g h) = [a, b, c, d, e, f, g, h]"

fun sha_of :: "u32 list \<Rightarrow> sha_state" where
  "sha_of (a # b # c # d # e # f # g # h # _) = Sha a b c d e f g h"
| "sha_of _ = Sha 0 0 0 0 0 0 0 0"

definition sha_compress :: "u32 list \<Rightarrow> u32 list \<Rightarrow> u32 list" where
  "sha_compress h block = map2 (+) h
     (sha_words (fold sha_round (zip sha_k (schedule_grow 48 (rev block))) (sha_of h)))"

text \<open>Bytes are natural numbers below 256.\<close>

fun words_of_bytes :: "nat list \<Rightarrow> u32 list" where
  "words_of_bytes (a # b # c # d # rest) =
     word_of_nat (((a * 256 + b) * 256 + c) * 256 + d) # words_of_bytes rest"
| "words_of_bytes _ = []"

definition byte_at :: "nat \<Rightarrow> nat \<Rightarrow> nat" where
  "byte_at n i = n div 256 ^ i mod 256"

definition sha_pad :: "nat list \<Rightarrow> nat list" where
  "sha_pad bs = bs @ 128 # replicate ((119 - length bs mod 64) mod 64) 0
     @ map (byte_at (8 * length bs)) [7, 6, 5, 4, 3, 2, 1, 0]"

fun sha_blocks :: "nat \<Rightarrow> u32 list \<Rightarrow> u32 list \<Rightarrow> u32 list" where
  "sha_blocks 0 h ws = h"
| "sha_blocks (Suc n) h ws = sha_blocks n (sha_compress h (take 16 ws)) (drop 16 ws)"

definition sha256_words :: "nat list \<Rightarrow> u32 list" where
  "sha256_words bs = (let ws = words_of_bytes (sha_pad bs) in sha_blocks (length ws div 16) sha_h0 ws)"

definition hex_word :: "u32 \<Rightarrow> string" where
  "hex_word w = map (\<lambda>i. digit_char (unat w div 16 ^ i mod 16)) [7, 6, 5, 4, 3, 2, 1, 0]"

text \<open>UTF-8 of the first 256 code points.\<close>

definition utf8 :: "string \<Rightarrow> nat list" where
  "utf8 s = concat (map (\<lambda>c. let n = (of_char c :: nat) in
     if n < 128 then [n] else [192 + n div 64, 128 + n mod 64]) s)"

definition sha256_hex :: "string \<Rightarrow> string" where
  "sha256_hex s = concat (map hex_word (sha256_words (utf8 s)))"

section \<open>Shape of a digest\<close>

lemma digit_char_hex_all: "list_all (\<lambda>d. digit_char d \<in> set ''0123456789abcdef'') [0..<16]"
  by code_simp

lemma digit_char_hex: "d < 16 \<Longrightarrow> digit_char d \<in> set ''0123456789abcdef''"
  using digit_char_hex_all by (simp add: list_all_iff)

lemma length_sha_words [simp]: "length (sha_words s) = 8"
  by (cases s) simp

lemma length_sha_compress: "length h = 8 \<Longrightarrow> length (sha_compress h b) = 8"
  by (simp add: sha_compress_def)

lemma length_sha_blocks: "length h = 8 \<Longrightarrow> length (sha_blocks n h ws) = 8"
  by (induction n arbitrary: h ws) (simp_all add: length_sha_compress)

lemma length_sha256_words: "length (sha256_words bs) = 8"
  by (simp add: sha256_words_def Let_def length_sha_blocks sha_h0_def)

lemma length_hex_words: "length (concat (map hex_word ws)) = 8 * length ws"
  by (induction ws) (simp_all add: hex_word_def)

lemma length_sha256_hex [simp]: "length (sha256_hex s) = 64"
  by (simp add: sha256_hex_def length_hex_words length_sha256_words)

lemma lower_hex_hex_word: "c \<in> set (hex_word w) \<Longrightarrow> c \<in> set ''0123456789abcdef''"
  unfolding hex_word_def set_map by (elim imageE) (auto intro!: digit_char_hex simp del: list.set)

lemma lower_hex_sha256_hex [simp]: "lower_hex (sha256_hex s)"
  unfolding sha256_hex_def lower_hex_def list_all_iff by (auto dest!: lower_hex_hex_word)

lemma sha256_hex_nonempty [simp]: "sha256_hex s \<noteq> []"
  using length_sha256_hex [of s] by (metis list.size(3) zero_neq_numeral)

end
