(* ===== verification/PyTime.thy ===== *)
theory PyTime
  imports PyValues
begin

text \<open>
  Timestamps.  The workflow modules store a timestamp as the ISO-8601 text of a UTC
  \<open>datetime\<close>, and compare and add on the parsed value.  An \<open>instant\<close> is that value: the number
  of microseconds since 1970-01-01T00:00:00+00:00.  \<open>parse_time\<close> is the helper \<open>_parse_time\<close> of
  the workflow modules on top of \<open>datetime.fromisoformat\<close> (calendar and week dates, basic and
  extended times, fractions, UTC offsets); \<open>render_time\<close> is \<open>isoformat()\<close> of a UTC datetime.
\<close>

type_synonym instant = int

section \<open>The calendar\<close>

definition is_leap :: "int \<Rightarrow> bool" where
  "is_leap y = (y mod 4 = 0 \<and> (y mod 100 \<noteq> 0 \<or> y mod 400 = 0))"

definition days_before_year :: "int \<Rightarrow> int" where
  "days_before_year y = (let p = y - 1 in p * 365 + p div 4 - p div 100 + p div 400)"

definition days_in_month :: "int \<Rightarrow> int \<Rightarrow> int" where
  "days_in_month y m =
     (if m = 2 then (if is_leap y then 29 else 28) else if m \<in> {4, 6, 9, 11} then 30 else 31)"

definition days_before_month :: "int \<Rightarrow> int \<Rightarrow> int" where
  "days_before_month y m = sum_list (map (days_in_month y) [1..m - 1])"

text \<open>\<open>date.toordinal()\<close>; 1970-01-01 is day 719163.\<close>

definition ymd2ord :: "int \<Rightarrow> int \<Rightarrow> int \<Rightarrow> int" where
  "ymd2ord y m d = days_before_year y + days_before_month y m + d"

definition epoch_ord :: int where
  "epoch_ord = 719163"

definition day_us :: int where
  "day_us = 86400000000"

definition second_us :: int where
  "second_us = 1000000"

text \<open>\<open>datetime.min\<close> and \<open>datetime.max\<close> in UTC; results outside raise OverflowError.\<close>

definition min_instant :: instant where
  "min_instant = (1 - epoch_ord) * day_us"

definition max_instant :: instant where
  "max_instant = (3652060 - epoch_ord) * day_us - 1"

definition check_instant :: "int \<Rightarrow> instant result" where
  "check_instant t = (if min_instant \<le> t \<and> t \<le> max_instant then Inr t else Inl OverflowError)"

text \<open>\<open>when + timedelta(seconds=n)\<close>.\<close>

definition add_seconds :: "instant \<Rightarrow> int \<Rightarrow> instant result" where
  "add_seconds t n = check_instant (t + n * second_us)"

section \<open>Parsing\<close>

definition is_digit :: "char \<Rightarrow> bool" where
  "is_digit c = (let n = (of_char c :: nat) in 48 \<le> n \<and> n \<le> 57)"

definition digit_val :: "char \<Rightarrow> int" where
  "digit_val c = int (of_char c) - 48"

definition digits_val :: "string \<Rightarrow> int" where
  "digits_val s = foldl (\<lambda>a c. a * 10 + digit_val c) 0 s"

text \<open>Exactly \<open>n\<close> digits at the front.\<close>

definition take_digits :: "nat \<Rightarrow> string \<Rightarrow> (int \<times> string) option" where
  "take_digits n s = (if length s < n \<or> \<not> list_all is_digit (take n s) then None
     else Some (digits_val (take n s), drop n s))"

text \<open>Where the date ends (\<open>_find_isoformat_datetime_separator\<close>), for texts of length 7 or more.\<close>

definition separator_index :: "string \<Rightarrow> nat option" where
  "separator_index s = (let n = length s in
     if n = 7 then Some 7
     else if s ! 4 = CHR ''-'' then
       (if s ! 5 = CHR ''W'' then
          (if 8 < n \<and> s ! 8 = CHR ''-'' then
             (if n = 9 then None else if 10 < n \<and> is_digit (s ! 10) then Some 8 else Some 10)
           else Some 8)
        else Some 10)
     else if s ! 4 = CHR ''W'' then
       (let idx = 7 + length (takeWhile is_digit (drop 7 s)) in
        if idx < 9 then Some idx else if even idx then Some 7 else Some 8)
     else Some 8)"

text \<open>The Monday that starts week 1 of an ISO year, and the number of its weeks.\<close>

definition iso_week1_monday :: "int \<Rightarrow> int" where
  "iso_week1_monday y = (let first = ymd2ord y 1 1; wd = (first + 6) mod 7; monday = first - wd
     in if wd > 3 then monday + 7 else monday)"

definition week_ord :: "int \<Rightarrow> int \<Rightarrow> int \<Rightarrow> int option" where
  "week_ord y w d = (if y < 1 \<or> 9999 < y \<or> d < 1 \<or> 7 < d then None
     else if (1 \<le> w \<and> w \<le> 52) \<or>
             (w = 53 \<and> (ymd2ord y 1 1 mod 7 = 4 \<or> (ymd2ord y 1 1 mod 7 = 3 \<and> is_leap y)))
     then (let n = iso_week1_monday y + (w - 1) * 7 + (d - 1) in
           if 1 \<le> n \<and> n \<le> 3652059 then Some n else None)
     else None)"

definition date_ord :: "int \<Rightarrow> int \<Rightarrow> int \<Rightarrow> int option" where
  "date_ord y m d = (if 1 \<le> y \<and> y \<le> 9999 \<and> 1 \<le> m \<and> m \<le> 12 \<and> 1 \<le> d \<and> d \<le> days_in_month y m
     then Some (ymd2ord y m d) else None)"

text \<open>\<open>_parse_isoformat_date\<close>: the day's ordinal.\<close>

definition parse_date :: "string \<Rightarrow> int option" where
  "parse_date s = (case take_digits 4 s of None \<Rightarrow> None | Some (y, r) \<Rightarrow>
     let sep = (case r of c # _ \<Rightarrow> c = CHR ''-'' | [] \<Rightarrow> False);
         r1 = (if sep then drop 1 r else r)
     in if r1 \<noteq> [] \<and> hd r1 = CHR ''W'' then
          (case take_digits 2 (tl r1) of None \<Rightarrow> None | Some (w, r3) \<Rightarrow>
             if r3 = [] then week_ord y w 1
             else if (hd r3 = CHR ''-'') \<noteq> sep then None
             else (case take_digits 1 (if sep then drop 1 r3 else r3) of
                 Some (d, []) \<Rightarrow> week_ord y w d | _ \<Rightarrow> None))
        else
          (case take_digits 2 r1 of None \<Rightarrow> None | Some (m, r3) \<Rightarrow>
             if r3 = [] \<or> (hd r3 = CHR ''-'') \<noteq> sep then None
             else (case take_digits 2 (if sep then drop 1 r3 else r3) of
                 Some (d, []) \<Rightarrow> date_ord y m d | _ \<Rightarrow> None)))"

text \<open>A fraction of a second: up to six digits count, the others must be digits too.\<close>

definition parse_fraction :: "string \<Rightarrow> int option" where
  "parse_fraction s = (if s = [] \<or> \<not> list_all is_digit s then None
     else (let t = take 6 s in Some (digits_val t * 10 ^ (6 - length t))))"

text \<open>\<open>_parse_hh_mm_ss_ff\<close>: hours, minutes, seconds, microseconds.\<close>

definition parse_clock :: "string \<Rightarrow> (int \<times> int \<times> int \<times> int) option" where
  "parse_clock s = (case take_digits 2 s of None \<Rightarrow> None | Some (h, r1) \<Rightarrow>
     if r1 = [] then Some (h, 0, 0, 0)
     else (let sep = (hd r1 = CHR '':'') in
       case take_digits 2 (if sep then drop 1 r1 else r1) of None \<Rightarrow> None | Some (mi, r2) \<Rightarrow>
       if r2 = [] then Some (h, mi, 0, 0)
       else if sep \<and> hd r2 \<noteq> CHR '':'' then None
       else (case take_digits 2 (if sep then drop 1 r2 else r2) of None \<Rightarrow> None | Some (sec, r3) \<Rightarrow>
         if r3 = [] then Some (h, mi, sec, 0)
         else if hd r3 \<in> {CHR ''.'', CHR '',''}
           then (case parse_fraction (drop 1 r3) of None \<Rightarrow> None | Some us \<Rightarrow> Some (h, mi, sec, us))
         else None)))"

definition clock_us :: "int \<times> int \<times> int \<times> int \<Rightarrow> int" where
  "clock_us c = (case c of (h, mi, sec, us) \<Rightarrow> ((h * 60 + mi) * 60 + sec) * second_us + us)"

definition valid_clock :: "int \<times> int \<times> int \<times> int \<Rightarrow> bool" where
  "valid_clock c = (case c of (h, mi, sec, us) \<Rightarrow> h < 24 \<and> mi < 60 \<and> sec < 60)"

text \<open>
  \<open>_parse_isoformat_time\<close>: the microseconds since midnight and, when there is one, the offset
  from UTC.  A minus sign is looked for before a plus sign.
\<close>

definition parse_offset :: "int \<Rightarrow> string \<Rightarrow> int option" where
  "parse_offset sign s = (case parse_clock s of None \<Rightarrow> None | Some c \<Rightarrow>
     if clock_us c < day_us then Some (sign * clock_us c) else None)"

definition parse_tod :: "string \<Rightarrow> (int \<times> int option) option" where
  "parse_tod s = (
     let mark = (if CHR ''-'' \<in> set s then Some (CHR ''-'')
                 else if CHR ''+'' \<in> set s then Some (CHR ''+'') else None)
     in case mark of
       None \<Rightarrow> (case parse_clock s of None \<Rightarrow> None
         | Some c \<Rightarrow> if valid_clock c then Some (clock_us c, None) else None)
     | Some m \<Rightarrow> (case (parse_clock (takeWhile (\<lambda>c. c \<noteq> m) s),
            parse_offset (if m = CHR ''-'' then - 1 else 1) (drop 1 (dropWhile (\<lambda>c. c \<noteq> m) s))) of
         (Some c, Some off) \<Rightarrow> if valid_clock c then Some (clock_us c, Some off) else None
       | _ \<Rightarrow> None))"

text \<open>
  \<open>datetime.fromisoformat\<close>: microseconds of the local time since the epoch and the offset.
\<close>

definition fromisoformat :: "string \<Rightarrow> (int \<times> int option) option" where
  "fromisoformat s = (if length s < 7 then None
     else case separator_index s of None \<Rightarrow> None | Some i \<Rightarrow>
       (case parse_date (take i s) of None \<Rightarrow> None | Some n \<Rightarrow>
         let base = (n - epoch_ord) * day_us; t = drop (Suc i) s in
         if t = [] then Some (base, None)
         else (case parse_tod t of None \<Rightarrow> None | Some (us, off) \<Rightarrow> Some (base + us, off))))"

definition expand_z :: "string \<Rightarrow> string" where
  "expand_z s = concat (map (\<lambda>c. if c = CHR ''Z'' then ''+00:00'' else [c]) s)"

text \<open>
  \<open>_parse_time(value, name)\<close>: a required ISO-8601 text with an offset, as a UTC datetime.
\<close>

definition parse_time :: "pyval \<Rightarrow> instant result" where
  "parse_time v = ebind (required_text v) (\<lambda>raw.
     case fromisoformat (expand_z raw) of
       None \<Rightarrow> Inl ValueError
     | Some (us, None) \<Rightarrow> Inl ValueError
     | Some (us, Some off) \<Rightarrow> check_instant (us - off))"

section \<open>Rendering\<close>

text \<open>\<open>date.fromordinal\<close> (\<open>_ord2ymd\<close>).\<close>

definition ord2ymd :: "int \<Rightarrow> int \<times> int \<times> int" where
  "ord2ymd n0 = (
     let n = n0 - 1;
         n400 = n div 146097; n = n mod 146097;
         n100 = n div 36524; n = n mod 36524;
         n4 = n div 1461; n = n mod 1461;
         n1 = n div 365; n = n mod 365;
         year = n400 * 400 + 1 + n100 * 100 + n4 * 4 + n1
     in if n1 = 4 \<or> n100 = 4 then (year - 1, 12, 31)
        else (let m = (n + 50) div 32;
                  m' = (if days_before_month year m > n then m - 1 else m)
              in (year, m', n - days_before_month year m' + 1)))"

definition pad_int :: "nat \<Rightarrow> int \<Rightarrow> string" where
  "pad_int w i = (let s = nat_str (nat i) in replicate (w - length s) (CHR ''0'') @ s)"

text \<open>\<open>_render_time\<close>: \<open>isoformat()\<close> of the UTC datetime at an instant.\<close>

definition render_time :: "instant \<Rightarrow> string" where
  "render_time t = (
     let day = t div day_us; us = t mod day_us; (y, m, d) = ord2ymd (day + epoch_ord);
         s = us div second_us; frac = us mod second_us
     in pad_int 4 y @ ''-'' @ pad_int 2 m @ ''-'' @ pad_int 2 d @ ''T''
        @ pad_int 2 (s div 3600) @ '':'' @ pad_int 2 (s div 60 mod 60) @ '':'' @ pad_int 2 (s mod 60)
        @ (if frac = 0 then [] else ''.'' @ pad_int 6 frac) @ ''+00:00'')"

section \<open>Bounds\<close>

lemma check_instant_eq_Inr_iff:
  "check_instant t = Inr u \<longleftrightarrow> u = t \<and> min_instant \<le> t \<and> t \<le> max_instant"
  by (auto simp: check_instant_def)

lemma check_instant_eq_Inl_iff:
  "check_instant t = Inl e \<longleftrightarrow> e = OverflowError \<and> \<not> (min_instant \<le> t \<and> t \<le> max_instant)"
  by (auto simp: check_instant_def)

lemma add_seconds_Inr:
  "add_seconds t n = Inr u \<Longrightarrow> u = t + n * second_us \<and> min_instant \<le> u \<and> u \<le> max_instant"
  by (auto simp: add_seconds_def check_instant_eq_Inr_iff)

lemma add_seconds_strict: "add_seconds t n = Inr u \<Longrightarrow> 0 < n \<Longrightarrow> t < u"
  by (auto dest!: add_seconds_Inr simp: second_us_def)

lemma parse_time_range: "parse_time v = Inr t \<Longrightarrow> min_instant \<le> t \<and> t \<le> max_instant"
  by (auto simp: parse_time_def ebind_eq_Inr_iff check_instant_eq_Inr_iff
      split: option.splits prod.splits)

lemma parse_time_blank: "text_of v = [] \<Longrightarrow> parse_time v = Inl ValueError"
  by (simp add: parse_time_def required_text_def)

end
