(* ===== verification/TimeRoundtrip.thy ===== *)
theory TimeRoundtrip
  imports PyTime
begin

text \<open>
  Rendering an instant and parsing the text back gives the instant, so a UTC \<open>datetime\<close> and its
  normalised ISO-8601 text carry the same information.
\<close>

section \<open>Decimal digits\<close>

lemma nat_digits_acc: "nat_digits f n acc = nat_digits f n [] @ acc"
proof (induction f arbitrary: n acc)
  case (Suc f)
  show ?case
    by (simp add: Let_def Suc.IH [of _ "digit_char _ # acc"] Suc.IH [of _ "[digit_char _]"])
qed simp

lemma nat_digits_fuel: "n < f \<Longrightarrow> nat_digits f n [] = nat_digits (Suc n) n []"
proof (induction n arbitrary: f rule: less_induct)
  case (less n)
  then obtain g where f: "f = Suc g" "n \<le> g" by (cases f) auto
  show ?case
  proof (cases "n < 10")
    case True
    then show ?thesis by (simp add: f)
  next
    case False
    then have "n div 10 < n" and "n div 10 < g" using f by auto
    then have "nat_digits g (n div 10) [] = nat_digits n (n div 10) []"
      using less.IH [of "n div 10" g] less.IH [of "n div 10" n] by simp
    with False show ?thesis
      by (simp add: f nat_digits_acc [of g _ "[_]"] nat_digits_acc [of n _ "[_]"])
  qed
qed

lemma nat_str_rec:
  "nat_str n = (if n < 10 then [digit_char n] else nat_str (n div 10) @ [digit_char (n mod 10)])"
proof (cases "n < 10")
  case True
  then show ?thesis by (simp add: nat_str_def)
next
  case False
  then have "nat_digits n (n div 10) [] = nat_str (n div 10)"
    unfolding nat_str_def by (intro nat_digits_fuel) auto
  with False show ?thesis
    by (simp add: nat_str_def [of n] nat_digits_acc [of n _ "[_]"])
qed

declare nat_str_rec [code]

lemma digit_char_props:
  assumes "d < 10"
  shows "is_digit (digit_char d)" and "digit_val (digit_char d) = int d"
  using assms by (auto simp: digit_char_def is_digit_def digit_val_def Let_def)

lemma digits_val_snoc: "digits_val (s @ [c]) = digits_val s * 10 + digit_val c"
  by (simp add: digits_val_def)

lemma digits_val_nat_str: "digits_val (nat_str n) = int n \<and> list_all is_digit (nat_str n)"
proof (induction n rule: less_induct)
  case (less n)
  show ?case
  proof (cases "n < 10")
    case True
    then show ?thesis by (subst (1 2) nat_str_rec) (simp add: digits_val_def digit_char_props)
  next
    case False
    then have "digits_val (nat_str (n div 10)) = int (n div 10) \<and> list_all is_digit (nat_str (n div 10))"
      by (intro less.IH) auto
    moreover have "int n = int (n div 10) * 10 + int (n mod 10)"
      by (metis div_mult_mod_eq of_nat_add of_nat_mult of_nat_numeral)
    ultimately show ?thesis
      using False by (subst (1 2) nat_str_rec) (simp add: digits_val_snoc digit_char_props)
  qed
qed

lemma length_nat_str: "n < 10 ^ Suc w \<Longrightarrow> length (nat_str n) \<le> Suc w"
proof (induction w arbitrary: n)
  case 0
  then show ?case by (subst nat_str_rec) simp
next
  case (Suc w)
  then have "n div 10 < 10 ^ Suc w" by (simp add: div_less_iff_less_mult mult.commute)
  from Suc.IH [OF this] show ?case by (subst nat_str_rec) simp
qed

lemma digits_val_zeros: "digits_val (replicate k (CHR ''0'') @ s) = digits_val s"
proof -
  have "foldl (\<lambda>a c. a * 10 + digit_val c) 0 (replicate k (CHR ''0'')) = 0"
    by (induction k) (simp_all add: digit_val_def)
  then show ?thesis by (simp add: digits_val_def)
qed

text \<open>A padded number has exactly the digits asked for.\<close>

lemma pad_int_digits:
  assumes "0 \<le> i" and "i < 10 ^ Suc w"
  shows "length (pad_int (Suc w) i) = Suc w" and "list_all is_digit (pad_int (Suc w) i)"
    and "digits_val (pad_int (Suc w) i) = i"
proof -
  have "nat i < 10 ^ Suc w" using assms by (metis nat_less_iff of_nat_numeral of_nat_power)
  then have "length (nat_str (nat i)) \<le> Suc w" by (rule length_nat_str)
  then show "length (pad_int (Suc w) i) = Suc w" by (simp add: pad_int_def Let_def)
  have "is_digit (CHR ''0'')" by (simp add: is_digit_def)
  then show "list_all is_digit (pad_int (Suc w) i)"
    using digits_val_nat_str [of "nat i"] by (auto simp: pad_int_def Let_def list_all_iff)
  show "digits_val (pad_int (Suc w) i) = i"
    using assms(1) digits_val_nat_str [of "nat i"] by (simp add: pad_int_def Let_def digits_val_zeros)
qed

lemma pad_int_weaken:
  assumes "0 \<le> i" and "i < 10 ^ Suc w" and "\<And>c. is_digit c \<Longrightarrow> P c"
  shows "list_all P (pad_int (Suc w) i)"
  using pad_int_digits(2) [OF assms(1,2)] assms(3) by (auto simp: list_all_iff)

lemma take_digits_pad:
  assumes "0 \<le> i" and "i < 10 ^ Suc w"
  shows "take_digits (Suc w) (pad_int (Suc w) i @ r) = Some (i, r)"
  using pad_int_digits [OF assms] by (simp add: take_digits_def)

lemma is_digit_neq:
  assumes "is_digit c"
  shows "c \<noteq> CHR ''-''" "c \<noteq> CHR ''W''" "c \<noteq> CHR ''+''" "c \<noteq> CHR '':''" "c \<noteq> CHR ''.''"
    "c \<noteq> CHR '',''" "c \<noteq> CHR ''Z''" "\<not> is_space c"
  using assms by (auto simp: is_digit_def is_space_def Let_def)

section \<open>The calendar\<close>

lemma days_before_month_simps:
  "days_before_month y 1 = 0"
  "days_before_month y 2 = 31"
  "days_before_month y 3 = 59 + (if is_leap y then 1 else 0)"
  "days_before_month y 4 = 90 + (if is_leap y then 1 else 0)"
  "days_before_month y 5 = 120 + (if is_leap y then 1 else 0)"
  "days_before_month y 6 = 151 + (if is_leap y then 1 else 0)"
  "days_before_month y 7 = 181 + (if is_leap y then 1 else 0)"
  "days_before_month y 8 = 212 + (if is_leap y then 1 else 0)"
  "days_before_month y 9 = 243 + (if is_leap y then 1 else 0)"
  "days_before_month y 10 = 273 + (if is_leap y then 1 else 0)"
  "days_before_month y 11 = 304 + (if is_leap y then 1 else 0)"
  "days_before_month y 12 = 334 + (if is_leap y then 1 else 0)"
  by (simp_all add: days_before_month_def days_in_month_def upto.simps)

text \<open>The month that \<open>_ord2ymd\<close> estimates and corrects holds the day of the year.\<close>

definition month_of :: "int \<Rightarrow> int \<Rightarrow> int" where
  "month_of y r = (let m = (r + 50) div 32 in if days_before_month y m > r then m - 1 else m)"

lemma month_of_bounds:
  assumes "0 \<le> r" and "r \<le> 364"
  shows "1 \<le> month_of y r \<and> month_of y r \<le> 12
    \<and> days_before_month y (month_of y r) \<le> r
    \<and> r < days_before_month y (month_of y r) + days_in_month y (month_of y r)"
proof -
  define m where "m = (r + 50) div 32"
  have b: "32 * m \<le> r + 50" "r + 50 < 32 * m + 32" using m_def by auto
  with assms have "1 \<le> m" "m \<le> 12" by linarith+
  then have "m \<in> set [1..12]" by simp
  then have "m \<in> {1, 2, 3, 4, 5, 6, 7, 8, 9, 10, 11, 12}" by (simp add: upto.simps del: set_upto)
  then show ?thesis
    unfolding month_of_def m_def [symmetric] Let_def
    using b assms by (elim insertE emptyE; simp add: days_before_month_simps days_in_month_def)
qed

text \<open>The Gregorian cycles: the year of a day and its place in that year.\<close>

lemma days_before_year_cycles:
  assumes "0 \<le> b" "b < 4" "0 \<le> c" "c < 25" "0 \<le> d" "d < 4"
  shows "days_before_year (a * 400 + 1 + b * 100 + c * 4 + d) = a * 146097 + b * 36524 + c * 1461 + d * 365"
    and "is_leap (a * 400 + 1 + b * 100 + c * 4 + d) \<longleftrightarrow> d = 3 \<and> (c \<noteq> 24 \<or> b = 3)"
proof -
  let ?p = "a * 400 + b * 100 + c * 4 + d"
  have "?p div 4 = a * 100 + b * 25 + c" "?p div 100 = a * 4 + b" "?p div 400 = a"
    using assms by linarith+
  then show "days_before_year (a * 400 + 1 + b * 100 + c * 4 + d) = a * 146097 + b * 36524 + c * 1461 + d * 365"
    by (simp add: days_before_year_def Let_def algebra_simps)
  have m4: "(a * 400 + 1 + b * 100 + c * 4 + d) mod 4 = (d + 1) mod 4"
    using mod_mult_self3 [of "a * 100 + b * 25 + c" 4 "d + 1"] by (simp add: algebra_simps)
  have m100: "(a * 400 + 1 + b * 100 + c * 4 + d) mod 100 = (c * 4 + d + 1) mod 100"
    using mod_mult_self3 [of "a * 4 + b" 100 "c * 4 + d + 1"] by (simp add: algebra_simps)
  have m400: "(a * 400 + 1 + b * 100 + c * 4 + d) mod 400 = (b * 100 + c * 4 + d + 1) mod 400"
    using mod_mult_self3 [of a 400 "b * 100 + c * 4 + d + 1"] by (simp add: algebra_simps)
  have e4: "(d + 1) mod 4 = 0 \<longleftrightarrow> d = 3" using assms by presburger
  have e100: "(c * 4 + d + 1) mod 100 = 0 \<longleftrightarrow> c = 24 \<and> d = 3"
    using assms by presburger
  have e400: "(b * 100 + c * 4 + d + 1) mod 400 = 0 \<longleftrightarrow> b = 3 \<and> c = 24 \<and> d = 3"
  proof -
    have "0 < b * 100 + c * 4 + d + 1" "b * 100 + c * 4 + d + 1 \<le> 400" using assms by auto
    then have "(b * 100 + c * 4 + d + 1) mod 400 = 0 \<longleftrightarrow> b * 100 + c * 4 + d + 1 = 400"
      by (metis mod_pos_pos_trivial mod_self order_le_less order_less_irrefl order_less_imp_le)
    also have "\<dots> \<longleftrightarrow> b = 3 \<and> c = 24 \<and> d = 3"
    proof
      assume e: "b * 100 + c * 4 + d + 1 = 400"
      with assms have "b = 3" by linarith
      moreover from this e assms have "c = 24" by linarith
      ultimately show "b = 3 \<and> c = 24 \<and> d = 3" using e by linarith
    qed simp
    finally show ?thesis .
  qed
  show "is_leap (a * 400 + 1 + b * 100 + c * 4 + d) \<longleftrightarrow> d = 3 \<and> (c \<noteq> 24 \<or> b = 3)"
    unfolding is_leap_def m4 m100 m400 e4 e100 e400 by auto
qed

lemma ord2ymd_valid:
  assumes "1 \<le> n" and "n \<le> 3652059" and "ord2ymd n = (y, m, d)"
  shows "1 \<le> y \<and> y \<le> 9999 \<and> 1 \<le> m \<and> m \<le> 12 \<and> 1 \<le> d \<and> d \<le> days_in_month y m
    \<and> ymd2ord y m d = n"
proof -
  define a where "a = (n - 1) div 146097"
  define n2 where "n2 = (n - 1) mod 146097"
  define b where "b = n2 div 36524"
  define n3 where "n3 = n2 mod 36524"
  define c where "c = n3 div 1461"
  define n4 where "n4 = n3 mod 1461"
  define e where "e = n4 div 365"
  define r where "r = n4 mod 365"
  define year where "year = a * 400 + 1 + b * 100 + c * 4 + e"
  have n: "n - 1 = a * 146097 + n2" "n2 = b * 36524 + n3" "n3 = c * 1461 + n4" "n4 = e * 365 + r"
    by (simp_all add: a_def n2_def b_def n3_def c_def n4_def e_def r_def)
  have n2: "0 \<le> n2" "n2 < 146097" and n3: "0 \<le> n3" "n3 < 36524" and n4: "0 \<le> n4" "n4 < 1461"
    and r: "0 \<le> r" "r < 365"
    by (simp_all add: n2_def n3_def n4_def r_def)
  have a: "0 \<le> a" "a \<le> 24" using assms(1,2) n n2 by linarith+
  have b: "0 \<le> b" "b \<le> 4" using n n2 n3 by linarith+
  have c: "0 \<le> c" "c < 25" using n n3 n4 by linarith+
  have e: "0 \<le> e" "e \<le> 4" using n n4 r by linarith+
  have o: "ord2ymd n = (if e = 4 \<or> b = 4 then (year - 1, 12, 31)
      else (year, month_of year r, r - days_before_month year (month_of year r) + 1))"
    by (simp add: ord2ymd_def Let_def month_of_def a_def n2_def b_def n3_def c_def n4_def e_def r_def
        year_def)
  show ?thesis
  proof (cases "e = 4 \<or> b = 4")
    case False
    then have yr: "days_before_year year = a * 146097 + b * 36524 + c * 1461 + e * 365"
      using b c e unfolding year_def by (intro days_before_year_cycles(1)) auto
    have mo: "y = year" "m = month_of year r" "d = r - days_before_month year (month_of year r) + 1"
      using False assms(3) o by auto
    have "b \<le> 3" "e \<le> 3" using b e False by auto
    then have "year \<le> 9999" using a c n r assms(2) unfolding year_def by linarith
    then show ?thesis
      using month_of_bounds [of r year] r a b c e n yr unfolding mo ymd2ord_def by (auto simp: year_def)
  next
    case True
    then have mo: "y = year - 1" "m = 12" "d = 31" using assms(3) o by auto
    from True have "(b = 4 \<and> n3 = 0 \<and> c = 0 \<and> e = 0 \<and> r = 0) \<or> (b < 4 \<and> e = 4 \<and> r = 0)"
    proof
      assume "b = 4"
      then have "n3 = 0" using n n2 n3 by linarith
      then show ?thesis using \<open>b = 4\<close> by (simp add: c_def n4_def e_def r_def)
    next
      assume "e = 4"
      then have "r = 0" using n n4 r by linarith
      moreover have "b \<noteq> 4" 
      proof
        assume "b = 4"
        then have "n3 = 0" using n n2 n3 by linarith
        with \<open>e = 4\<close> show False by (simp add: n4_def e_def)
      qed
      ultimately show ?thesis using \<open>e = 4\<close> b by auto
    qed
    then have "ymd2ord (year - 1) 12 31 = n \<and> 1 \<le> year - 1 \<and> year - 1 \<le> 9999"
    proof
      assume h: "b = 4 \<and> n3 = 0 \<and> c = 0 \<and> e = 0 \<and> r = 0"
      have y: "year - 1 = a * 400 + 1 + 3 * 100 + 24 * 4 + 3" using h by (simp add: year_def)
      have "a \<le> 23" using n h assms(2) by linarith
      then show ?thesis
        using days_before_year_cycles [of 3 24 3 a] n h a unfolding y ymd2ord_def
        by (simp add: days_before_month_simps)
    next
      assume h: "b < 4 \<and> e = 4 \<and> r = 0"
      have cc: "c \<noteq> 24 \<or> b = 3"
      proof (rule ccontr)
        assume "\<not> (c \<noteq> 24 \<or> b = 3)"
        with h n n3 show False by linarith
      qed
      have y: "year - 1 = a * 400 + 1 + b * 100 + c * 4 + 3" using h by (simp add: year_def)
      have "b \<le> 3" using h by simp
      then have "a * 400 + 1 + b * 100 + c * 4 + 3 \<le> 9999" using n h a c assms(2) by linarith
      then show ?thesis
        using days_before_year_cycles [of b c 3 a] n h a b c cc unfolding y ymd2ord_def
        by (simp add: days_before_month_simps)
    qed
    then show ?thesis by (simp add: mo days_in_month_def)
  qed
qed

section \<open>Text\<close>

lemma pad4:
  assumes "0 \<le> i" "i < 10000"
  obtains a b c d where "pad_int 4 i = [a, b, c, d]" "is_digit a" "is_digit b" "is_digit c" "is_digit d"
    and "digits_val [a, b, c, d] = i"
proof -
  have w: "(4::nat) = Suc 3" by simp
  have "length (pad_int 4 i) = 4" "list_all is_digit (pad_int 4 i)" "digits_val (pad_int 4 i) = i"
    unfolding w using pad_int_digits [of i 3] assms by simp_all
  then show ?thesis
    using that by (auto simp: length_Suc_conv numeral_eq_Suc)
qed

lemma pad2:
  assumes "0 \<le> i" "i < 100"
  obtains a b where "pad_int 2 i = [a, b]" "is_digit a" "is_digit b" and "digits_val [a, b] = i"
proof -
  have w: "(2::nat) = Suc 1" by simp
  have "length (pad_int 2 i) = 2" "list_all is_digit (pad_int 2 i)" "digits_val (pad_int 2 i) = i"
    unfolding w using pad_int_digits [of i 1] assms by simp_all
  then show ?thesis
    using that by (auto simp: length_Suc_conv numeral_eq_Suc)
qed

lemma parse_date_render:
  assumes "date_ord y m d = Some n"
  shows "parse_date (pad_int 4 y @ ''-'' @ pad_int 2 m @ ''-'' @ pad_int 2 d) = Some n"
proof -
  from assms have r: "0 \<le> y" "y < 10000" "0 \<le> m" "m < 100" "0 \<le> d" "d < 100"
    by (auto simp: date_ord_def days_in_month_def split: if_splits)
  obtain a1 a2 a3 a4 where a: "pad_int 4 y = [a1, a2, a3, a4]" "is_digit a1" "is_digit a2"
    "is_digit a3" "is_digit a4" "digits_val [a1, a2, a3, a4] = y" using pad4 [OF r(1,2)] .
  obtain b1 b2 where b: "pad_int 2 m = [b1, b2]" "is_digit b1" "is_digit b2" "digits_val [b1, b2] = m"
    using pad2 [OF r(3,4)] .
  obtain c1 c2 where c: "pad_int 2 d = [c1, c2]" "is_digit c1" "is_digit c2" "digits_val [c1, c2] = d"
    using pad2 [OF r(5,6)] .
  have nw: "b1 \<noteq> CHR ''W''" using b(2) by (rule is_digit_neq)
  show ?thesis
    using a b c assms nw
    by (simp add: parse_date_def take_digits_def)
qed

lemma parse_clock_render:
  assumes "0 \<le> h" "h < 100" "0 \<le> mi" "mi < 100" "0 \<le> sec" "sec < 100" "0 \<le> us" "us < 1000000"
  shows "parse_clock (pad_int 2 h @ '':'' @ pad_int 2 mi @ '':'' @ pad_int 2 sec
    @ (if us = 0 then [] else ''.'' @ pad_int 6 us)) = Some (h, mi, sec, us)"
proof -
  obtain a1 a2 where a: "pad_int 2 h = [a1, a2]" "is_digit a1" "is_digit a2" "digits_val [a1, a2] = h"
    using pad2 [OF assms(1,2)] .
  obtain b1 b2 where b: "pad_int 2 mi = [b1, b2]" "is_digit b1" "is_digit b2" "digits_val [b1, b2] = mi"
    using pad2 [OF assms(3,4)] .
  obtain c1 c2 where c: "pad_int 2 sec = [c1, c2]" "is_digit c1" "is_digit c2" "digits_val [c1, c2] = sec"
    using pad2 [OF assms(5,6)] .
  have w: "(6::nat) = Suc 5" by simp
  have p: "length (pad_int 6 us) = 6" "list_all is_digit (pad_int 6 us)" "digits_val (pad_int 6 us) = us"
    unfolding w using pad_int_digits [of us 5] assms(7,8) by simp_all
  then have "parse_fraction (pad_int 6 us) = Some us"
    by (auto simp: parse_fraction_def Let_def)
  with a b c show ?thesis by (simp add: parse_clock_def take_digits_def)
qed

lemma parse_tod_render:
  assumes "0 \<le> us" and "us < day_us"
  shows "parse_tod (pad_int 2 (us div second_us div 3600) @ '':''
    @ pad_int 2 (us div second_us div 60 mod 60) @ '':'' @ pad_int 2 (us div second_us mod 60)
    @ (if us mod second_us = 0 then [] else ''.'' @ pad_int 6 (us mod second_us)) @ ''+00:00'')
    = Some (us, Some 0)" (is "parse_tod (?h @ _ @ ?m @ _ @ ?s @ ?f @ _) = _")
proof -
  define s where "s = us div second_us"
  define frac where "frac = us mod second_us"
  have f: "0 \<le> frac" "frac < 1000000" and s: "0 \<le> s" "s < 86400" and us: "us = s * 1000000 + frac"
    using assms by (auto simp: s_def frac_def second_us_def day_us_def)
  have h: "0 \<le> s div 3600" "s div 3600 < 24" using s by auto
  have sec: "(s div 3600 * 60 + s div 60 mod 60) * 60 + s mod 60 = s"
    by (simp add: zdiv_zmult2_eq [of 60 s 60, simplified])
  define t where "t = pad_int 2 (s div 3600) @ '':'' @ pad_int 2 (s div 60 mod 60) @ '':''
    @ pad_int 2 (s mod 60) @ (if frac = 0 then [] else ''.'' @ pad_int 6 frac)"
  have c: "parse_clock t = Some (s div 3600, s div 60 mod 60, s mod 60, frac)"
    unfolding t_def using h f by (intro parse_clock_render) auto
  have chars: "list_all (\<lambda>c. is_digit c \<or> c = CHR '':'' \<or> c = CHR ''.'') t"
    unfolding t_def using h f by (simp add: pad_int_weaken numeral_eq_Suc)
  have no: "CHR ''-'' \<notin> set t" "CHR ''+'' \<notin> set t"
    using chars by (auto simp: list_all_iff is_digit_def)
  have tw: "takeWhile (\<lambda>c. c \<noteq> CHR ''+'') (t @ ''+00:00'') = t"
    using no(2) by (subst takeWhile_append2) auto
  have dw: "dropWhile (\<lambda>c. c \<noteq> CHR ''+'') (t @ ''+00:00'') = ''+00:00''"
    using no(2) by (subst dropWhile_append2) auto
  have off: "parse_offset 1 ''00:00'' = Some 0"
    by (simp add: parse_offset_def parse_clock_def take_digits_def is_digit_def digits_val_def
        digit_val_def clock_us_def day_us_def)
  have "valid_clock (s div 3600, s div 60 mod 60, s mod 60, frac)"
    using h by (simp add: valid_clock_def)
  moreover have "clock_us (s div 3600, s div 60 mod 60, s mod 60, frac) = us"
    using sec by (simp add: clock_us_def us second_us_def)
  ultimately have "parse_tod (t @ ''+00:00'') = Some (us, Some 0)"
    using no c off by (simp add: parse_tod_def tw dw)
  then show ?thesis unfolding t_def s_def frac_def append_assoc .
qed

text \<open>The whole text.\<close>

lemma fromisoformat_render:
  assumes "min_instant \<le> t" and "t \<le> max_instant"
  shows "fromisoformat (render_time t) = Some (t, Some 0)"
    and "list_all (\<lambda>c. \<not> is_space c \<and> c \<noteq> CHR ''Z'') (render_time t)" and "render_time t \<noteq> []"
proof -
  define n where "n = t div day_us + epoch_ord"
  define us where "us = t mod day_us"
  have us: "0 \<le> us" "us < day_us" by (simp_all add: us_def day_us_def)
  have t: "(n - epoch_ord) * day_us + us = t" by (simp add: n_def us_def)
  have n: "1 \<le> n" "n \<le> 3652059"
    using assms by (simp_all add: n_def min_instant_def max_instant_def day_us_def epoch_ord_def)
  obtain y m d where ymd: "ord2ymd n = (y, m, d)" by (cases "ord2ymd n") auto
  have v: "1 \<le> y" "y \<le> 9999" "1 \<le> m" "m \<le> 12" "1 \<le> d" "d \<le> days_in_month y m" "ymd2ord y m d = n"
    using ord2ymd_valid [OF n ymd] by auto
  then have date: "date_ord y m d = Some n" by (simp add: date_ord_def)
  have d31: "d \<le> 31" using v by (auto simp: days_in_month_def split: if_splits)
  define ds where "ds = pad_int 4 y @ ''-'' @ pad_int 2 m @ ''-'' @ pad_int 2 d"
  define ts where "ts = pad_int 2 (us div second_us div 3600) @ '':''
    @ pad_int 2 (us div second_us div 60 mod 60) @ '':'' @ pad_int 2 (us div second_us mod 60)
    @ (if us mod second_us = 0 then [] else ''.'' @ pad_int 6 (us mod second_us)) @ ''+00:00''"
  have r: "render_time t = ds @ ''T'' @ ts"
    by (simp add: render_time_def Let_def ymd n_def [symmetric] us_def [symmetric] ds_def ts_def)
  have len: "length (pad_int 4 y) = 4" "length (pad_int 2 m) = 2" "length (pad_int 2 d) = 2"
    using pad_int_digits(1) [of y 3] pad_int_digits(1) [of m 1] pad_int_digits(1) [of d 1] v d31
    by (simp_all add: numeral_eq_Suc)
  then have ld: "length ds = 10" by (simp add: ds_def)
  have m0: "0 \<le> m" "m < 100" using v by auto
  obtain b1 b2 where b: "pad_int 2 m = [b1, b2]" "is_digit b1" using pad2 [OF m0] .
  have "ds ! 4 = CHR ''-''" "ds ! 5 = b1" using len b by (simp_all add: ds_def nth_append)
  then have c: "(ds @ ''T'' @ ts) ! 4 = CHR ''-''" "(ds @ ''T'' @ ts) ! 5 \<noteq> CHR ''W''"
    using ld b(2) is_digit_neq(2) by (auto simp: nth_append)
  have sep: "separator_index (ds @ ''T'' @ ts) = Some 10"
    using c ld by (simp add: separator_index_def Let_def)
  have pd: "parse_date ds = Some n" unfolding ds_def using date by (rule parse_date_render)
  have pt: "parse_tod ts = Some (us, Some 0)" unfolding ts_def using us by (rule parse_tod_render)
  have "ts \<noteq> []" by (simp add: ts_def)
  then show "fromisoformat (render_time t) = Some (t, Some 0)"
    unfolding r fromisoformat_def sep using ld pd pt t by simp
  have hms: "us div second_us div 3600 < 100" "0 \<le> us div second_us div 3600"
    using us by (auto simp: second_us_def day_us_def)
  have "list_all (\<lambda>c. is_digit c \<or> c \<in> set ''-T:.+0'') (render_time t)"
    unfolding r ds_def ts_def using v d31 hms
    by (simp add: pad_int_weaken numeral_eq_Suc second_us_def)
  moreover have "\<not> is_space c \<and> c \<noteq> CHR ''Z''" if "is_digit c \<or> c \<in> set ''-T:.+0''" for c
    using that is_digit_neq(7,8) [of c] by (auto simp: char_eval)
  ultimately show "list_all (\<lambda>c. \<not> is_space c \<and> c \<noteq> CHR ''Z'') (render_time t)"
    unfolding list_all_iff by blast
  show "render_time t \<noteq> []" by (simp add: r)
qed

lemma py_strip_id: "list_all (\<lambda>c. \<not> is_space c) s \<Longrightarrow> py_strip s = s"
proof -
  assume a: "list_all (\<lambda>c. \<not> is_space c) s"
  have d: "dropWhile is_space xs = xs" if "list_all (\<lambda>c. \<not> is_space c) xs" for xs
    using that by (cases xs) auto
  have "list_all (\<lambda>c. \<not> is_space c) (rev s)" using a by (simp add: list_all_iff)
  then show ?thesis using a by (simp add: py_strip_def d)
qed

lemma expand_z_id: "list_all (\<lambda>c. c \<noteq> CHR ''Z'') s \<Longrightarrow> expand_z s = s"
  by (induction s) (auto simp: expand_z_def)

lemma parse_render:
  assumes "min_instant \<le> t" and "t \<le> max_instant"
  shows "parse_time (PStr (render_time t)) = Inr t"
proof -
  have "list_all (\<lambda>c. \<not> is_space c) (render_time t)" "list_all (\<lambda>c. c \<noteq> CHR ''Z'') (render_time t)"
    using fromisoformat_render(2) [OF assms] by (auto simp: list_all_iff)
  then show ?thesis
    using fromisoformat_render(1,3) [OF assms] assms
    by (simp add: parse_time_def required_text_def py_strip_id expand_z_id check_instant_def)
qed

text \<open>The normalised text of every timestamp the modules accept parses back to the same instant, and
  parsing a text that was already normalised changes nothing.\<close>

theorem timestamp_roundtrip:
  assumes "parse_time v = Inr t"
  shows "parse_time (PStr (render_time t)) = Inr t"
  using parse_time_range [OF assms] by (simp add: parse_render)

theorem timestamp_roundtrip_witness:
  "parse_time (PStr (render_time 1709208000123456)) = Inr 1709208000123456"
proof -
  have "parse_time (PStr ''2024-02-29T12:00:00.123456Z'') = Inr 1709208000123456"
    by (simp add: parse_time_def required_text_def Let_def py_strip_def expand_z_def fromisoformat_def separator_index_def parse_date_def take_digits_def is_digit_def digits_val_def digit_val_def date_ord_def char_eval parse_tod_def parse_clock_def parse_offset_def parse_fraction_def clock_us_def valid_clock_def ymd2ord_def days_before_year_def days_in_month_def days_before_month_simps is_leap_def epoch_ord_def day_us_def second_us_def check_instant_def min_instant_def max_instant_def)
  from timestamp_roundtrip [OF this] show ?thesis .
qed

end
