(* ===== verification/WorkflowContract.thy ===== *)
theory WorkflowContract
  imports PyValues
begin

text \<open>
  oompah/workflow_contract.py: the canonical task statuses, the contract of each status (phase,
  default disposition, owners, reassessment), the transition graph with the evidence each edge
  requires, the alias table that turns tracker text into a status, and the validator that the
  module runs at import.

  A status is a string, as in the code: a tracker may use statuses of its own.  A frozenset literal
  is written as a list without duplicates, in the order of the source.
\<close>

section \<open>Statuses\<close>

abbreviation PROPOSED :: string where
  "PROPOSED \<equiv> ''Proposed''"

abbreviation BACKLOG :: string where
  "BACKLOG \<equiv> ''Backlog''"

abbreviation OPEN :: string where
  "OPEN \<equiv> ''Open''"

abbreviation IN_PROGRESS :: string where
  "IN_PROGRESS \<equiv> ''In Progress''"

abbreviation NEEDS_ANSWER :: string where
  "NEEDS_ANSWER \<equiv> ''Needs Answer''"

abbreviation NEEDS_HUMAN :: string where
  "NEEDS_HUMAN \<equiv> ''Needs Human''"

abbreviation NEEDS_CI_FIX :: string where
  "NEEDS_CI_FIX \<equiv> ''Needs CI Fix''"

abbreviation NEEDS_REBASE :: string where
  "NEEDS_REBASE \<equiv> ''Needs Rebase''"

abbreviation IN_REVIEW :: string where
  "IN_REVIEW \<equiv> ''In Review''"

abbreviation IN_VALIDATION :: string where
  "IN_VALIDATION \<equiv> ''In Validation''"

abbreviation READY_TO_INTEGRATE :: string where
  "READY_TO_INTEGRATE \<equiv> ''Ready to Integrate''"

abbreviation DECOMPOSED :: string where
  "DECOMPOSED \<equiv> ''Decomposed''"

abbreviation DUPLICATE_CANDIDATE :: string where
  "DUPLICATE_CANDIDATE \<equiv> ''Duplicate Candidate''"

abbreviation DONE :: string where
  "DONE \<equiv> ''Done''"

abbreviation MERGED :: string where
  "MERGED \<equiv> ''Merged''"

abbreviation ARCHIVED :: string where
  "ARCHIVED \<equiv> ''Archived''"

definition CANONICAL_STATUSES :: "string list" where
  "CANONICAL_STATUSES = [
    PROPOSED, BACKLOG, OPEN, IN_PROGRESS, NEEDS_ANSWER, NEEDS_HUMAN, NEEDS_CI_FIX, NEEDS_REBASE,
    IN_REVIEW, IN_VALIDATION, READY_TO_INTEGRATE, DECOMPOSED, DUPLICATE_CANDIDATE, DONE, MERGED,
    ARCHIVED]"

abbreviation DEFAULT_STATUS :: string where
  "DEFAULT_STATUS \<equiv> BACKLOG"

section \<open>Enumerations\<close>

datatype execution_phase =
    Phase_INTAKE
  | Phase_PRIORITIZATION
  | Phase_DISPATCH
  | Phase_IMPLEMENTATION
  | Phase_WAITING
  | Phase_REPAIR
  | Phase_REVIEW
  | Phase_VALIDATION
  | Phase_INTEGRATION
  | Phase_ROLLUP
  | Phase_DUPLICATE_REVIEW
  | Phase_COMPLETE

fun execution_phase_value :: "execution_phase \<Rightarrow> string" where
  "execution_phase_value Phase_INTAKE = ''intake''"
| "execution_phase_value Phase_PRIORITIZATION = ''prioritization''"
| "execution_phase_value Phase_DISPATCH = ''dispatch''"
| "execution_phase_value Phase_IMPLEMENTATION = ''implementation''"
| "execution_phase_value Phase_WAITING = ''waiting''"
| "execution_phase_value Phase_REPAIR = ''repair''"
| "execution_phase_value Phase_REVIEW = ''review''"
| "execution_phase_value Phase_VALIDATION = ''validation''"
| "execution_phase_value Phase_INTEGRATION = ''integration''"
| "execution_phase_value Phase_ROLLUP = ''rollup''"
| "execution_phase_value Phase_DUPLICATE_REVIEW = ''duplicate_review''"
| "execution_phase_value Phase_COMPLETE = ''complete''"

datatype task_disposition =
    Disp_RUNNABLE
  | Disp_OWNED
  | Disp_BLOCKED
  | Disp_RETRY_SCHEDULED
  | Disp_ACTION_REQUIRED
  | Disp_TERMINAL

fun task_disposition_value :: "task_disposition \<Rightarrow> string" where
  "task_disposition_value Disp_RUNNABLE = ''runnable''"
| "task_disposition_value Disp_OWNED = ''owned''"
| "task_disposition_value Disp_BLOCKED = ''blocked''"
| "task_disposition_value Disp_RETRY_SCHEDULED = ''retry_scheduled''"
| "task_disposition_value Disp_ACTION_REQUIRED = ''action_required''"
| "task_disposition_value Disp_TERMINAL = ''terminal''"

datatype workflow_owner =
    Owner_INTAKE
  | Owner_PROJECT_OWNER
  | Owner_DISPATCHER
  | Owner_IMPLEMENTER
  | Owner_DIRECT_OWNER
  | Owner_REQUESTOR
  | Owner_OPERATOR
  | Owner_REPAIR_WORKER
  | Owner_REVIEW_MONITOR
  | Owner_AUDITOR
  | Owner_INTEGRATOR
  | Owner_ROLLUP
  | Owner_DUPLICATE_INVESTIGATOR
  | Owner_NONE

fun workflow_owner_value :: "workflow_owner \<Rightarrow> string" where
  "workflow_owner_value Owner_INTAKE = ''intake''"
| "workflow_owner_value Owner_PROJECT_OWNER = ''project_owner''"
| "workflow_owner_value Owner_DISPATCHER = ''dispatcher''"
| "workflow_owner_value Owner_IMPLEMENTER = ''implementer''"
| "workflow_owner_value Owner_DIRECT_OWNER = ''direct_owner''"
| "workflow_owner_value Owner_REQUESTOR = ''requestor''"
| "workflow_owner_value Owner_OPERATOR = ''operator''"
| "workflow_owner_value Owner_REPAIR_WORKER = ''repair_worker''"
| "workflow_owner_value Owner_REVIEW_MONITOR = ''review_monitor''"
| "workflow_owner_value Owner_AUDITOR = ''auditor''"
| "workflow_owner_value Owner_INTEGRATOR = ''integrator''"
| "workflow_owner_value Owner_ROLLUP = ''rollup''"
| "workflow_owner_value Owner_DUPLICATE_INVESTIGATOR = ''duplicate_investigator''"
| "workflow_owner_value Owner_NONE = ''none''"

datatype reassessment_trigger =
    Trig_INTAKE_EVENT
  | Trig_OWNER_PROMOTION
  | Trig_DISPATCH_TICK
  | Trig_LEASE_EXPIRY
  | Trig_REQUESTOR_RESPONSE
  | Trig_OPERATOR_ACTION
  | Trig_RETRY_DUE
  | Trig_REVIEW_EVENT_OR_POLL
  | Trig_AUDIT_EVENT_OR_LEASE
  | Trig_INTEGRATION_JOB_OR_LEASE
  | Trig_CHILD_OR_DEPENDENCY_EVENT
  | Trig_DUPLICATE_VERDICT_OR_LEASE
  | Trig_LANDING_EVENT_OR_POLL
  | Trig_NEVER

fun reassessment_trigger_value :: "reassessment_trigger \<Rightarrow> string" where
  "reassessment_trigger_value Trig_INTAKE_EVENT = ''intake_event''"
| "reassessment_trigger_value Trig_OWNER_PROMOTION = ''owner_promotion''"
| "reassessment_trigger_value Trig_DISPATCH_TICK = ''dispatch_tick''"
| "reassessment_trigger_value Trig_LEASE_EXPIRY = ''lease_expiry''"
| "reassessment_trigger_value Trig_REQUESTOR_RESPONSE = ''requestor_response''"
| "reassessment_trigger_value Trig_OPERATOR_ACTION = ''operator_action''"
| "reassessment_trigger_value Trig_RETRY_DUE = ''retry_due''"
| "reassessment_trigger_value Trig_REVIEW_EVENT_OR_POLL = ''review_event_or_poll''"
| "reassessment_trigger_value Trig_AUDIT_EVENT_OR_LEASE = ''audit_event_or_lease''"
| "reassessment_trigger_value Trig_INTEGRATION_JOB_OR_LEASE = ''integration_job_or_lease''"
| "reassessment_trigger_value Trig_CHILD_OR_DEPENDENCY_EVENT = ''child_or_dependency_event''"
| "reassessment_trigger_value Trig_DUPLICATE_VERDICT_OR_LEASE = ''duplicate_verdict_or_lease''"
| "reassessment_trigger_value Trig_LANDING_EVENT_OR_POLL = ''landing_event_or_poll''"
| "reassessment_trigger_value Trig_NEVER = ''never''"

datatype transition_requirement =
    Req_ACTIONABLE_DESCRIPTION
  | Req_PROJECT_OWNER_AUTHORITY
  | Req_DEPENDENCIES_SATISFIED
  | Req_VALID_OWNER_LEASE
  | Req_IMPLEMENTATION_GENERATION
  | Req_ACCEPTED_SUBMISSION
  | Req_REVIEW_EVIDENCE
  | Req_AUDIT_REQUEST
  | Req_AUDIT_PASS
  | Req_LANDING_EVIDENCE
  | Req_CONTAINMENT_EVIDENCE
  | Req_CHILDREN_CREATED
  | Req_CHILDREN_COMPLETE
  | Req_DUPLICATE_VERDICT
  | Req_OPERATOR_REASON
  | Req_EXPECTED_VERSION

fun transition_requirement_value :: "transition_requirement \<Rightarrow> string" where
  "transition_requirement_value Req_ACTIONABLE_DESCRIPTION = ''actionable_description''"
| "transition_requirement_value Req_PROJECT_OWNER_AUTHORITY = ''project_owner_authority''"
| "transition_requirement_value Req_DEPENDENCIES_SATISFIED = ''dependencies_satisfied''"
| "transition_requirement_value Req_VALID_OWNER_LEASE = ''valid_owner_lease''"
| "transition_requirement_value Req_IMPLEMENTATION_GENERATION = ''implementation_generation''"
| "transition_requirement_value Req_ACCEPTED_SUBMISSION = ''accepted_submission''"
| "transition_requirement_value Req_REVIEW_EVIDENCE = ''review_evidence''"
| "transition_requirement_value Req_AUDIT_REQUEST = ''audit_request''"
| "transition_requirement_value Req_AUDIT_PASS = ''audit_pass''"
| "transition_requirement_value Req_LANDING_EVIDENCE = ''landing_evidence''"
| "transition_requirement_value Req_CONTAINMENT_EVIDENCE = ''containment_evidence''"
| "transition_requirement_value Req_CHILDREN_CREATED = ''children_created''"
| "transition_requirement_value Req_CHILDREN_COMPLETE = ''children_complete''"
| "transition_requirement_value Req_DUPLICATE_VERDICT = ''duplicate_verdict''"
| "transition_requirement_value Req_OPERATOR_REASON = ''operator_reason''"
| "transition_requirement_value Req_EXPECTED_VERSION = ''expected_version''"


section \<open>Contract records\<close>

record reassessment_contract =
  rc_trigger :: reassessment_trigger
  rc_slo_key :: "string option"
  rc_stall_reason_code :: "string option"
  rc_durable :: bool

record status_contract =
  sc_status :: string
  sc_phase :: execution_phase
  sc_disposition :: task_disposition
  sc_owners :: "workflow_owner list"
  sc_reassessment :: reassessment_contract
  sc_dispatchable :: bool
  sc_working :: bool
  sc_waiting :: bool
  sc_review :: bool
  sc_tracker_terminal :: bool
  sc_lifecycle_final :: bool
  sc_blocked_by :: "string option"

record transition_rule =
  tr_from_status :: string
  tr_to_status :: string
  tr_requirements :: "transition_requirement list"
  tr_reason_code :: string
  tr_idempotent :: bool

record workflow_invariant =
  wi_code :: string
  wi_kind :: string
  wi_applies_to :: "task_disposition list"

section \<open>The status table and its projections\<close>

definition STATUS_CONTRACTS :: "(string \<times> status_contract) list" where
  "STATUS_CONTRACTS = [
    (PROPOSED, \<lparr>sc_status = PROPOSED, sc_phase = Phase_INTAKE, sc_disposition = Disp_BLOCKED,
       sc_owners = [Owner_INTAKE],
       sc_reassessment = \<lparr>rc_trigger = Trig_INTAKE_EVENT, rc_slo_key = Some ''intake_reassessment'',
         rc_stall_reason_code = Some ''awaiting_intake_decision'', rc_durable = True\<rparr>,
       sc_dispatchable = False, sc_working = False, sc_waiting = False, sc_review = False,
       sc_tracker_terminal = False, sc_lifecycle_final = False, sc_blocked_by = Some ''intake_acceptance''\<rparr>),
    (BACKLOG, \<lparr>sc_status = BACKLOG, sc_phase = Phase_PRIORITIZATION, sc_disposition = Disp_BLOCKED,
       sc_owners = [Owner_PROJECT_OWNER],
       sc_reassessment = \<lparr>rc_trigger = Trig_OWNER_PROMOTION, rc_slo_key = Some ''prioritization_visibility'',
         rc_stall_reason_code = Some ''awaiting_owner_promotion'', rc_durable = True\<rparr>,
       sc_dispatchable = False, sc_working = False, sc_waiting = False, sc_review = False,
       sc_tracker_terminal = False, sc_lifecycle_final = False, sc_blocked_by = Some ''project_owner_priority''\<rparr>),
    (OPEN, \<lparr>sc_status = OPEN, sc_phase = Phase_DISPATCH, sc_disposition = Disp_RUNNABLE,
       sc_owners = [Owner_DISPATCHER],
       sc_reassessment = \<lparr>rc_trigger = Trig_DISPATCH_TICK, rc_slo_key = Some ''dispatch_latency'',
         rc_stall_reason_code = Some ''dispatch_not_selected'', rc_durable = True\<rparr>,
       sc_dispatchable = True, sc_working = False, sc_waiting = False, sc_review = False,
       sc_tracker_terminal = False, sc_lifecycle_final = False, sc_blocked_by = None\<rparr>),
    (IN_PROGRESS, \<lparr>sc_status = IN_PROGRESS, sc_phase = Phase_IMPLEMENTATION, sc_disposition = Disp_OWNED,
       sc_owners = [Owner_IMPLEMENTER, Owner_DIRECT_OWNER],
       sc_reassessment = \<lparr>rc_trigger = Trig_LEASE_EXPIRY, rc_slo_key = Some ''implementation_lease'',
         rc_stall_reason_code = Some ''implementation_owner_stale'', rc_durable = True\<rparr>,
       sc_dispatchable = False, sc_working = True, sc_waiting = False, sc_review = False,
       sc_tracker_terminal = False, sc_lifecycle_final = False, sc_blocked_by = None\<rparr>),
    (NEEDS_ANSWER, \<lparr>sc_status = NEEDS_ANSWER, sc_phase = Phase_WAITING, sc_disposition = Disp_ACTION_REQUIRED,
       sc_owners = [Owner_REQUESTOR],
       sc_reassessment = \<lparr>rc_trigger = Trig_REQUESTOR_RESPONSE, rc_slo_key = Some ''requestor_visibility'',
         rc_stall_reason_code = Some ''awaiting_requestor_answer'', rc_durable = True\<rparr>,
       sc_dispatchable = False, sc_working = False, sc_waiting = True, sc_review = False,
       sc_tracker_terminal = False, sc_lifecycle_final = False, sc_blocked_by = Some ''requestor_answer''\<rparr>),
    (NEEDS_HUMAN, \<lparr>sc_status = NEEDS_HUMAN, sc_phase = Phase_WAITING, sc_disposition = Disp_ACTION_REQUIRED,
       sc_owners = [Owner_OPERATOR],
       sc_reassessment = \<lparr>rc_trigger = Trig_OPERATOR_ACTION, rc_slo_key = Some ''operator_visibility'',
         rc_stall_reason_code = Some ''awaiting_operator_action'', rc_durable = True\<rparr>,
       sc_dispatchable = False, sc_working = False, sc_waiting = True, sc_review = False,
       sc_tracker_terminal = False, sc_lifecycle_final = False, sc_blocked_by = Some ''operator_action''\<rparr>),
    (NEEDS_CI_FIX, \<lparr>sc_status = NEEDS_CI_FIX, sc_phase = Phase_REPAIR, sc_disposition = Disp_RUNNABLE,
       sc_owners = [Owner_REPAIR_WORKER, Owner_DISPATCHER],
       sc_reassessment = \<lparr>rc_trigger = Trig_DISPATCH_TICK, rc_slo_key = Some ''repair_dispatch_latency'',
         rc_stall_reason_code = Some ''ci_repair_not_selected'', rc_durable = True\<rparr>,
       sc_dispatchable = True, sc_working = False, sc_waiting = False, sc_review = True,
       sc_tracker_terminal = False, sc_lifecycle_final = False, sc_blocked_by = None\<rparr>),
    (NEEDS_REBASE, \<lparr>sc_status = NEEDS_REBASE, sc_phase = Phase_REPAIR, sc_disposition = Disp_RUNNABLE,
       sc_owners = [Owner_REPAIR_WORKER, Owner_DISPATCHER],
       sc_reassessment = \<lparr>rc_trigger = Trig_DISPATCH_TICK, rc_slo_key = Some ''repair_dispatch_latency'',
         rc_stall_reason_code = Some ''rebase_repair_not_selected'', rc_durable = True\<rparr>,
       sc_dispatchable = True, sc_working = False, sc_waiting = False, sc_review = True,
       sc_tracker_terminal = False, sc_lifecycle_final = False, sc_blocked_by = None\<rparr>),
    (IN_REVIEW, \<lparr>sc_status = IN_REVIEW, sc_phase = Phase_REVIEW, sc_disposition = Disp_OWNED,
       sc_owners = [Owner_REVIEW_MONITOR],
       sc_reassessment = \<lparr>rc_trigger = Trig_REVIEW_EVENT_OR_POLL, rc_slo_key = Some ''review_reassessment'',
         rc_stall_reason_code = Some ''review_monitor_stale'', rc_durable = True\<rparr>,
       sc_dispatchable = False, sc_working = False, sc_waiting = False, sc_review = True,
       sc_tracker_terminal = False, sc_lifecycle_final = False, sc_blocked_by = None\<rparr>),
    (IN_VALIDATION, \<lparr>sc_status = IN_VALIDATION, sc_phase = Phase_VALIDATION, sc_disposition = Disp_OWNED,
       sc_owners = [Owner_AUDITOR],
       sc_reassessment = \<lparr>rc_trigger = Trig_AUDIT_EVENT_OR_LEASE, rc_slo_key = Some ''audit_lease'',
         rc_stall_reason_code = Some ''audit_owner_stale'', rc_durable = True\<rparr>,
       sc_dispatchable = False, sc_working = False, sc_waiting = False, sc_review = False,
       sc_tracker_terminal = False, sc_lifecycle_final = False, sc_blocked_by = None\<rparr>),
    (READY_TO_INTEGRATE, \<lparr>sc_status = READY_TO_INTEGRATE, sc_phase = Phase_INTEGRATION, sc_disposition = Disp_RETRY_SCHEDULED,
       sc_owners = [Owner_INTEGRATOR],
       sc_reassessment = \<lparr>rc_trigger = Trig_INTEGRATION_JOB_OR_LEASE, rc_slo_key = Some ''integration_lease'',
         rc_stall_reason_code = Some ''integration_job_stale'', rc_durable = True\<rparr>,
       sc_dispatchable = False, sc_working = False, sc_waiting = False, sc_review = False,
       sc_tracker_terminal = False, sc_lifecycle_final = False, sc_blocked_by = None\<rparr>),
    (DECOMPOSED, \<lparr>sc_status = DECOMPOSED, sc_phase = Phase_ROLLUP, sc_disposition = Disp_BLOCKED,
       sc_owners = [Owner_ROLLUP],
       sc_reassessment = \<lparr>rc_trigger = Trig_CHILD_OR_DEPENDENCY_EVENT, rc_slo_key = Some ''rollup_reassessment'',
         rc_stall_reason_code = Some ''decomposed_children_stale'', rc_durable = True\<rparr>,
       sc_dispatchable = False, sc_working = False, sc_waiting = False, sc_review = False,
       sc_tracker_terminal = False, sc_lifecycle_final = False, sc_blocked_by = Some ''child_completion''\<rparr>),
    (DUPLICATE_CANDIDATE, \<lparr>sc_status = DUPLICATE_CANDIDATE, sc_phase = Phase_DUPLICATE_REVIEW, sc_disposition = Disp_OWNED,
       sc_owners = [Owner_DUPLICATE_INVESTIGATOR],
       sc_reassessment = \<lparr>rc_trigger = Trig_DUPLICATE_VERDICT_OR_LEASE, rc_slo_key = Some ''duplicate_investigation_lease'',
         rc_stall_reason_code = Some ''duplicate_investigation_stale'', rc_durable = True\<rparr>,
       sc_dispatchable = False, sc_working = False, sc_waiting = False, sc_review = False,
       sc_tracker_terminal = False, sc_lifecycle_final = False, sc_blocked_by = None\<rparr>),
    (DONE, \<lparr>sc_status = DONE, sc_phase = Phase_COMPLETE, sc_disposition = Disp_TERMINAL,
       sc_owners = [Owner_ROLLUP],
       sc_reassessment = \<lparr>rc_trigger = Trig_LANDING_EVENT_OR_POLL, rc_slo_key = Some ''landing_reassessment'',
         rc_stall_reason_code = Some ''completed_work_not_landed'', rc_durable = True\<rparr>,
       sc_dispatchable = False, sc_working = False, sc_waiting = False, sc_review = False,
       sc_tracker_terminal = True, sc_lifecycle_final = False, sc_blocked_by = None\<rparr>),
    (MERGED, \<lparr>sc_status = MERGED, sc_phase = Phase_COMPLETE, sc_disposition = Disp_TERMINAL,
       sc_owners = [Owner_NONE],
       sc_reassessment = \<lparr>rc_trigger = Trig_NEVER, rc_slo_key = None,
         rc_stall_reason_code = None, rc_durable = True\<rparr>,
       sc_dispatchable = False, sc_working = False, sc_waiting = False, sc_review = False,
       sc_tracker_terminal = True, sc_lifecycle_final = True, sc_blocked_by = None\<rparr>),
    (ARCHIVED, \<lparr>sc_status = ARCHIVED, sc_phase = Phase_COMPLETE, sc_disposition = Disp_TERMINAL,
       sc_owners = [Owner_NONE],
       sc_reassessment = \<lparr>rc_trigger = Trig_NEVER, rc_slo_key = None,
         rc_stall_reason_code = None, rc_durable = True\<rparr>,
       sc_dispatchable = False, sc_working = False, sc_waiting = False, sc_review = False,
       sc_tracker_terminal = True, sc_lifecycle_final = True, sc_blocked_by = None\<rparr>)]"

definition DISPATCHABLE_STATUSES :: "string list" where
  "DISPATCHABLE_STATUSES = map fst (filter (\<lambda>(s, c). sc_dispatchable c) STATUS_CONTRACTS)"

definition WORKING_STATUSES :: "string list" where
  "WORKING_STATUSES = map fst (filter (\<lambda>(s, c). sc_working c) STATUS_CONTRACTS)"

definition WAITING_STATUSES :: "string list" where
  "WAITING_STATUSES = map fst (filter (\<lambda>(s, c). sc_waiting c) STATUS_CONTRACTS)"

definition REVIEW_STATUSES :: "string list" where
  "REVIEW_STATUSES = map fst (filter (\<lambda>(s, c). sc_review c) STATUS_CONTRACTS)"

definition TERMINAL_STATUSES :: "string list" where
  "TERMINAL_STATUSES = map fst (filter (\<lambda>(s, c). sc_tracker_terminal c) STATUS_CONTRACTS)"

definition LIFECYCLE_FINAL_STATUSES :: "string list" where
  "LIFECYCLE_FINAL_STATUSES = map fst (filter (\<lambda>(s, c). sc_lifecycle_final c) STATUS_CONTRACTS)"

section \<open>Aliases\<close>

text \<open>\<open>str(status or "").strip().lower()\<close> with hyphens and underscores as spaces.\<close>

definition status_key :: "pyval \<Rightarrow> string" where
  "status_key v = replace_char (CHR ''_'') (CHR '' '') (replace_char (CHR ''-'') (CHR '' '') (ltext_of v))"

definition STATUS_ALIASES :: "(string \<times> string) list" where
  "STATUS_ALIASES = [
    ('''', DEFAULT_STATUS),
    (''proposed'', PROPOSED),
    (''to do'', BACKLOG),
    (''todo'', BACKLOG),
    (''deferred'', BACKLOG),
    (''backlog'', BACKLOG),
    (''open'', OPEN),
    (''in progress'', IN_PROGRESS),
    (''doing'', IN_PROGRESS),
    (''started'', IN_PROGRESS),
    (''asking question'', NEEDS_ANSWER),
    (''needs answer'', NEEDS_ANSWER),
    (''needs info'', NEEDS_ANSWER),
    (''needs information'', NEEDS_ANSWER),
    (''human only'', NEEDS_HUMAN),
    (''needs human'', NEEDS_HUMAN),
    (''ci fix'', NEEDS_CI_FIX),
    (''needs ci fix'', NEEDS_CI_FIX),
    (''merge conflict'', NEEDS_REBASE),
    (''needs rebase'', NEEDS_REBASE),
    (''in review'', IN_REVIEW),
    (''review'', IN_REVIEW),
    (''in validation'', IN_VALIDATION),
    (''validation'', IN_VALIDATION),
    (''ready to integrate'', READY_TO_INTEGRATE),
    (''ready for integration'', READY_TO_INTEGRATE),
    (''decomposed'', DECOMPOSED),
    (''duplicate candidate'', DUPLICATE_CANDIDATE),
    (''closed'', DONE),
    (''done'', DONE),
    (''merged'', MERGED),
    (''archive:yes'', ARCHIVED),
    (''archived'', ARCHIVED)]"

definition canonicalize_status :: "pyval \<Rightarrow> string" where
  "canonicalize_status v = (case map_of STATUS_ALIASES (status_key v) of
     Some s \<Rightarrow> s
   | None \<Rightarrow> (let t = py_strip (str_or v DEFAULT_STATUS) in if t = [] then DEFAULT_STATUS else t))"

text \<open>The canonical statuses followed by the distinct custom ones.\<close>

fun custom_statuses :: "string list \<Rightarrow> string list \<Rightarrow> string list" where
  "custom_statuses seen [] = []"
| "custom_statuses seen (raw # rest) =
     (let v = py_strip raw in
      if v = [] then custom_statuses seen rest
      else (let key = status_key (PStr (canonicalize_status (PStr v))) in
        if key \<in> set seen then custom_statuses seen rest
        else v # custom_statuses (key # seen) rest))"

definition canonical_statuses_with :: "string list \<Rightarrow> string list" where
  "canonical_statuses_with existing =
     CANONICAL_STATUSES @ custom_statuses (map (\<lambda>s. status_key (PStr s)) CANONICAL_STATUSES) existing"

definition status_contract_of :: "pyval \<Rightarrow> status_contract option" where
  "status_contract_of v = map_of STATUS_CONTRACTS (canonicalize_status v)"

definition is_dispatchable_status :: "pyval \<Rightarrow> bool" where
  "is_dispatchable_status v = (case status_contract_of v of None \<Rightarrow> False | Some c \<Rightarrow> sc_dispatchable c)"

definition is_working_status :: "pyval \<Rightarrow> bool" where
  "is_working_status v = (case status_contract_of v of None \<Rightarrow> False | Some c \<Rightarrow> sc_working c)"

definition is_terminal_status :: "pyval \<Rightarrow> bool" where
  "is_terminal_status v = (case status_contract_of v of None \<Rightarrow> False | Some c \<Rightarrow> sc_tracker_terminal c)"

definition is_lifecycle_final_status :: "pyval \<Rightarrow> bool" where
  "is_lifecycle_final_status v =
     (case status_contract_of v of None \<Rightarrow> False | Some c \<Rightarrow> sc_lifecycle_final c)"

text \<open>The position in the display order, -1 for a custom status.\<close>

fun index_of :: "string \<Rightarrow> string list \<Rightarrow> int option" where
  "index_of s [] = None"
| "index_of s (x # xs) = (if s = x then Some 0 else map_option (\<lambda>i. i + 1) (index_of s xs))"

definition status_rank :: "pyval \<Rightarrow> int" where
  "status_rank v = (case index_of (canonicalize_status v) CANONICAL_STATUSES of
     None \<Rightarrow> - 1 | Some i \<Rightarrow> i)"

definition more_advanced_status :: "pyval \<Rightarrow> pyval \<Rightarrow> pyval" where
  "more_advanced_status a b = (if status_rank a \<ge> status_rank b then a else b)"

section \<open>Transitions\<close>

definition VALID_TRANSITIONS :: "(string \<times> string list) list" where
  "VALID_TRANSITIONS = [
    (PROPOSED, [BACKLOG, OPEN, DECOMPOSED, DUPLICATE_CANDIDATE, ARCHIVED]),
    (BACKLOG, [OPEN, IN_PROGRESS, DUPLICATE_CANDIDATE, ARCHIVED]),
    (OPEN, [IN_PROGRESS, DUPLICATE_CANDIDATE, DECOMPOSED, NEEDS_HUMAN, NEEDS_CI_FIX, NEEDS_REBASE, READY_TO_INTEGRATE, DONE, ARCHIVED]),
    (IN_PROGRESS, [OPEN, NEEDS_ANSWER, NEEDS_HUMAN, NEEDS_CI_FIX, NEEDS_REBASE, IN_REVIEW, IN_VALIDATION, READY_TO_INTEGRATE, DECOMPOSED]),
    (NEEDS_ANSWER, [OPEN, IN_PROGRESS, NEEDS_HUMAN, ARCHIVED]),
    (NEEDS_HUMAN, [OPEN, IN_PROGRESS, NEEDS_ANSWER, DUPLICATE_CANDIDATE, ARCHIVED]),
    (NEEDS_CI_FIX, [OPEN, IN_PROGRESS, IN_REVIEW, IN_VALIDATION, READY_TO_INTEGRATE, NEEDS_HUMAN, ARCHIVED]),
    (NEEDS_REBASE, [OPEN, IN_PROGRESS, IN_REVIEW, IN_VALIDATION, READY_TO_INTEGRATE, NEEDS_HUMAN, ARCHIVED]),
    (IN_REVIEW, [OPEN, IN_PROGRESS, NEEDS_CI_FIX, NEEDS_REBASE, IN_VALIDATION, READY_TO_INTEGRATE, NEEDS_HUMAN, MERGED, ARCHIVED]),
    (IN_VALIDATION, [OPEN, IN_PROGRESS, NEEDS_CI_FIX, NEEDS_REBASE, IN_REVIEW, READY_TO_INTEGRATE, NEEDS_HUMAN, DONE, MERGED, ARCHIVED]),
    (READY_TO_INTEGRATE, [OPEN, IN_PROGRESS, NEEDS_CI_FIX, NEEDS_REBASE, IN_REVIEW, IN_VALIDATION, NEEDS_HUMAN, ARCHIVED]),
    (DECOMPOSED, [ARCHIVED]),
    (DUPLICATE_CANDIDATE, [PROPOSED, BACKLOG, OPEN, NEEDS_HUMAN, ARCHIVED]),
    (DONE, [OPEN, NEEDS_CI_FIX, NEEDS_REBASE, IN_REVIEW, IN_VALIDATION, MERGED, ARCHIVED]),
    (MERGED, [OPEN, NEEDS_CI_FIX, NEEDS_REBASE, IN_REVIEW, ARCHIVED]),
    (ARCHIVED, [])]"

text \<open>
  \<open>_requirements_for\<close>: the evidence an edge requires, one group for each rule of the code; the
  Python set drops repetitions, as \<open>remdups\<close> does.
\<close>

definition requirements_for :: "string \<Rightarrow> string \<Rightarrow> transition_requirement list" where
  "requirements_for src tgt = remdups (
     [Req_EXPECTED_VERSION]
     @ (if tgt \<in> {BACKLOG, OPEN} \<and> src \<in> {PROPOSED, BACKLOG}
        then [Req_PROJECT_OWNER_AUTHORITY, Req_ACTIONABLE_DESCRIPTION] else [])
     @ (if tgt = IN_PROGRESS
        then [Req_DEPENDENCIES_SATISFIED, Req_VALID_OWNER_LEASE, Req_IMPLEMENTATION_GENERATION]
             @ (if src = BACKLOG then [Req_PROJECT_OWNER_AUTHORITY, Req_ACTIONABLE_DESCRIPTION] else [])
        else [])
     @ (if tgt = READY_TO_INTEGRATE then [Req_ACCEPTED_SUBMISSION] else [])
     @ (if tgt = IN_VALIDATION then [Req_AUDIT_REQUEST] else [])
     @ (if tgt \<in> {DONE, MERGED, ARCHIVED} then [Req_AUDIT_PASS] else [])
     @ (if tgt = MERGED then [Req_LANDING_EVIDENCE, Req_CONTAINMENT_EVIDENCE] else [])
     @ (if tgt = DECOMPOSED then [Req_CHILDREN_CREATED] else [])
     @ (if src = DECOMPOSED then [Req_CHILDREN_COMPLETE] else [])
     @ (if src = DUPLICATE_CANDIDATE then [Req_DUPLICATE_VERDICT] else [])
     @ (if tgt = NEEDS_HUMAN then [Req_OPERATOR_REASON] else []))"

definition make_rule :: "string \<Rightarrow> string \<Rightarrow> transition_rule" where
  "make_rule src tgt = \<lparr>tr_from_status = src, tr_to_status = tgt,
     tr_requirements = requirements_for src tgt,
     tr_reason_code = replace_char (CHR '' '') (CHR ''_'') (status_key (PStr src)) @ ''_to_''
       @ replace_char (CHR '' '') (CHR ''_'') (status_key (PStr tgt)),
     tr_idempotent = False\<rparr>"

definition TRANSITION_RULES :: "((string \<times> string) \<times> transition_rule) list" where
  "TRANSITION_RULES = concat (map (\<lambda>(src, tgts).
     map (\<lambda>tgt. ((src, tgt), make_rule src tgt)) tgts) VALID_TRANSITIONS)"

definition IDEMPOTENT_TRANSITIONS :: "(string \<times> string) list" where
  "IDEMPOTENT_TRANSITIONS = []"

definition transition_rule_of :: "pyval \<Rightarrow> pyval \<Rightarrow> transition_rule option" where
  "transition_rule_of a b = map_of TRANSITION_RULES (canonicalize_status a, canonicalize_status b)"

definition is_valid_transition :: "pyval \<Rightarrow> pyval \<Rightarrow> bool \<Rightarrow> bool" where
  "is_valid_transition a b allow_idempotent = (
     let src = canonicalize_status a; tgt = canonicalize_status b in
     if src = tgt then allow_idempotent \<and> (src, tgt) \<in> set IDEMPOTENT_TRANSITIONS
     else tgt \<in> set (get_or VALID_TRANSITIONS src []))"

section \<open>Workflow invariants\<close>

definition SAFETY_INVARIANTS :: "workflow_invariant list" where
  "SAFETY_INVARIANTS = [
    \<lparr>wi_code = ''single_status_writer'', wi_kind = ''safety'', wi_applies_to = []\<rparr>,
    \<lparr>wi_code = ''expected_version_compare_and_swap'', wi_kind = ''safety'', wi_applies_to = []\<rparr>,
    \<lparr>wi_code = ''single_active_owner'', wi_kind = ''safety'', wi_applies_to = [Disp_OWNED]\<rparr>,
    \<lparr>wi_code = ''stale_generation_fenced'', wi_kind = ''safety'', wi_applies_to = []\<rparr>,
    \<lparr>wi_code = ''terminal_evidence_required'', wi_kind = ''safety'', wi_applies_to = [Disp_TERMINAL]\<rparr>,
    \<lparr>wi_code = ''containment_before_rollup'', wi_kind = ''safety'', wi_applies_to = []\<rparr>,
    \<lparr>wi_code = ''hard_start_dependencies_gate_ownership'', wi_kind = ''safety'', wi_applies_to = []\<rparr>,
    \<lparr>wi_code = ''final_states_do_not_auto_reopen'', wi_kind = ''safety'', wi_applies_to = [Disp_TERMINAL]\<rparr>]"

definition LIVENESS_INVARIANTS :: "workflow_invariant list" where
  "LIVENESS_INVARIANTS = [
    \<lparr>wi_code = ''total_disposition'', wi_kind = ''liveness'', wi_applies_to = []\<rparr>,
    \<lparr>wi_code = ''owned_has_lease'', wi_kind = ''liveness'', wi_applies_to = [Disp_OWNED]\<rparr>,
    \<lparr>wi_code = ''retry_has_wakeup'', wi_kind = ''liveness'', wi_applies_to = [Disp_RETRY_SCHEDULED]\<rparr>,
    \<lparr>wi_code = ''blocked_has_prerequisite'', wi_kind = ''liveness'', wi_applies_to = [Disp_BLOCKED]\<rparr>,
    \<lparr>wi_code = ''action_required_is_visible'', wi_kind = ''liveness'', wi_applies_to = [Disp_ACTION_REQUIRED]\<rparr>,
    \<lparr>wi_code = ''bounded_wait_is_reassessed'', wi_kind = ''liveness'', wi_applies_to = []\<rparr>,
    \<lparr>wi_code = ''restart_reconstructs_work'', wi_kind = ''liveness'', wi_applies_to = []\<rparr>]"

end
