(* ===== verification/ContractProofs.thy ===== *)
theory ContractProofs
  imports WorkflowContract
begin

text \<open>
  The structural validator of oompah/workflow_contract.py, what it guarantees for any tables it
  accepts, and the facts of the shipped tables: the import-time assertion holds, the rule table and
  the transition graph agree, every edge is version-fenced, terminal edges need an audit, and no
  status short of a final one is a dead end.
\<close>

section \<open>The validator\<close>

datatype contract_error =
    DuplicateStatuses
  | ContractsMismatch "string list" "string list"
  | TransitionsMismatch "string list" "string list"
  | KeyStatusMismatch string
  | NoOwner string
  | FinalNotTerminal string
  | FinalHasTrigger string
  | BlockedWithoutPrerequisite string
  | NonFinalWithoutPath string
  | NonFinalWithoutSlo string
  | SelfTransition string
  | UnknownTargets string "string list"
  | MissingRule string string
  | NoVersionFence string string
  | ExtraRules "(string \<times> string) list"
  | AliasUnknown string string
  | InvariantCodesNotUnique

text \<open>\<open>not x\<close> for a \<open>str | None\<close>.\<close>

definition blank_opt :: "string option \<Rightarrow> bool" where
  "blank_opt x = (x = None \<or> x = Some [])"

definition diff_list :: "'a list \<Rightarrow> 'a list \<Rightarrow> 'a list" where
  "diff_list xs ys = filter (\<lambda>x. x \<notin> set ys) xs"

lemma diff_list_Nil_iff: "diff_list xs ys = [] \<longleftrightarrow> set xs \<subseteq> set ys"
  by (auto simp: diff_list_def filter_empty_conv)

definition keyset_errors ::
  "(string list \<Rightarrow> string list \<Rightarrow> contract_error) \<Rightarrow> string list \<Rightarrow> contract_error list" where
  "keyset_errors mk keys = (let missing = diff_list CANONICAL_STATUSES keys;
       extra = diff_list keys CANONICAL_STATUSES
     in if missing = [] \<and> extra = [] then [] else [mk missing extra])"

definition status_errors :: "string \<times> status_contract \<Rightarrow> contract_error list" where
  "status_errors kc = (case kc of (s, c) \<Rightarrow>
     (if sc_status c \<noteq> s then [KeyStatusMismatch s] else [])
     @ (if sc_owners c = [] then [NoOwner s] else [])
     @ (if sc_lifecycle_final c \<and> \<not> sc_tracker_terminal c then [FinalNotTerminal s] else [])
     @ (if sc_lifecycle_final c \<and> rc_trigger (sc_reassessment c) \<noteq> Trig_NEVER
        then [FinalHasTrigger s] else [])
     @ (if sc_disposition c = Disp_BLOCKED \<and> blank_opt (sc_blocked_by c)
        then [BlockedWithoutPrerequisite s] else [])
     @ (if \<not> sc_lifecycle_final c \<and> rc_trigger (sc_reassessment c) = Trig_NEVER
        then [NonFinalWithoutPath s] else [])
     @ (if \<not> sc_lifecycle_final c \<and> blank_opt (rc_slo_key (sc_reassessment c))
        then [NonFinalWithoutSlo s] else []))"

definition edge_errors ::
  "((string \<times> string) \<times> transition_rule) list \<Rightarrow> string \<Rightarrow> string \<Rightarrow> contract_error list" where
  "edge_errors rules src tgt = (case map_of rules (src, tgt) of
     None \<Rightarrow> [MissingRule src tgt]
   | Some r \<Rightarrow> if Req_EXPECTED_VERSION \<notin> set (tr_requirements r) then [NoVersionFence src tgt] else [])"

definition source_errors ::
  "((string \<times> string) \<times> transition_rule) list \<Rightarrow> string \<times> string list \<Rightarrow> contract_error list" where
  "source_errors rules st = (case st of (src, tgts) \<Rightarrow>
     (if src \<in> set tgts then [SelfTransition src] else [])
     @ (let unknown = diff_list tgts CANONICAL_STATUSES in
        if unknown \<noteq> [] then [UnknownTargets src unknown] else [])
     @ concat (map (edge_errors rules src) tgts))"

definition edges_of :: "(string \<times> string list) list \<Rightarrow> (string \<times> string) list" where
  "edges_of transitions = concat (map (\<lambda>(src, tgts). map (Pair src) tgts) transitions)"

definition validate_workflow_contract ::
  "(string \<times> status_contract) list \<Rightarrow> (string \<times> string list) list \<Rightarrow>
   ((string \<times> string) \<times> transition_rule) list \<Rightarrow> (string \<times> string) list \<Rightarrow> contract_error list" where
  "validate_workflow_contract contracts transitions rules aliases =
     (if distinct CANONICAL_STATUSES then [] else [DuplicateStatuses])
     @ keyset_errors ContractsMismatch (map fst contracts)
     @ keyset_errors TransitionsMismatch (map fst transitions)
     @ concat (map status_errors contracts)
     @ concat (map (source_errors rules) transitions)
     @ (let extra = diff_list (map fst rules) (edges_of transitions) in
        if extra \<noteq> [] then [ExtraRules extra] else [])
     @ concat (map (\<lambda>(a, t). if t \<notin> set CANONICAL_STATUSES then [AliasUnknown a t] else []) aliases)
     @ (if distinct (map wi_code (SAFETY_INVARIANTS @ LIVENESS_INVARIANTS)) then []
        else [InvariantCodesNotUnique])"

text \<open>\<open>assert_valid_workflow_contract\<close>, run when the module is imported.\<close>

definition assert_valid_workflow_contract :: "unit result" where
  "assert_valid_workflow_contract =
     (if validate_workflow_contract STATUS_CONTRACTS VALID_TRANSITIONS TRANSITION_RULES STATUS_ALIASES = []
      then Inr () else Inl ValueError)"

section \<open>What an accepted contract guarantees\<close>

lemma keyset_errors_Nil: "keyset_errors mk keys = [] \<longleftrightarrow> set keys = set CANONICAL_STATUSES"
  by (auto simp: keyset_errors_def Let_def diff_list_Nil_iff)

lemma status_errors_Nil:
  "status_errors (s, c) = [] \<longleftrightarrow>
     sc_status c = s \<and> sc_owners c \<noteq> []
     \<and> (sc_lifecycle_final c \<longrightarrow> sc_tracker_terminal c \<and> rc_trigger (sc_reassessment c) = Trig_NEVER)
     \<and> (\<not> sc_lifecycle_final c \<longrightarrow> rc_trigger (sc_reassessment c) \<noteq> Trig_NEVER
          \<and> \<not> blank_opt (rc_slo_key (sc_reassessment c)))
     \<and> (sc_disposition c = Disp_BLOCKED \<longrightarrow> \<not> blank_opt (sc_blocked_by c))"
  by (auto simp: status_errors_def)

lemma edge_errors_Nil:
  "edge_errors rules src tgt = [] \<longleftrightarrow>
     (\<exists>r. map_of rules (src, tgt) = Some r \<and> Req_EXPECTED_VERSION \<in> set (tr_requirements r))"
  by (auto simp: edge_errors_def split: option.splits)

lemma source_errors_Nil:
  "source_errors rules (src, tgts) = [] \<longleftrightarrow>
     src \<notin> set tgts \<and> set tgts \<subseteq> set CANONICAL_STATUSES
     \<and> (\<forall>tgt \<in> set tgts. \<exists>r. map_of rules (src, tgt) = Some r
          \<and> Req_EXPECTED_VERSION \<in> set (tr_requirements r))"
  by (auto simp: source_errors_def Let_def diff_list_Nil_iff edge_errors_Nil)

lemma edges_of_iff: "(a, b) \<in> set (edges_of ts) \<longleftrightarrow> (\<exists>tgts. (a, tgts) \<in> set ts \<and> b \<in> set tgts)"
  by (auto simp: edges_of_def)

section \<open>The shipped tables\<close>

text \<open>The rule table holds one rule for each edge of the graph, and no other.\<close>

lemma TRANSITION_RULES_eq:
  "TRANSITION_RULES = map (\<lambda>e. (e, make_rule (fst e) (snd e))) (edges_of VALID_TRANSITIONS)"
  by (simp add: TRANSITION_RULES_def edges_of_def map_concat comp_def split_def)

lemma map_of_graph: "map_of (map (\<lambda>k. (k, f k)) ks) k = (if k \<in> set ks then Some (f k) else None)"
  by (induction ks) auto

lemma lookup_rule:
  "map_of TRANSITION_RULES (a, b) =
     (if (a, b) \<in> set (edges_of VALID_TRANSITIONS) then Some (make_rule a b) else None)"
  unfolding TRANSITION_RULES_eq map_of_graph by simp

lemma rule_version_fence: "Req_EXPECTED_VERSION \<in> set (tr_requirements (make_rule a b))"
  by (simp add: make_rule_def requirements_for_def)

lemma distinct_canonical [simp]: "distinct CANONICAL_STATUSES"
  by (simp add: CANONICAL_STATUSES_def)

lemma contract_keys: "map fst STATUS_CONTRACTS = CANONICAL_STATUSES"
  by (simp add: STATUS_CONTRACTS_def CANONICAL_STATUSES_def)

lemma transition_keys: "map fst VALID_TRANSITIONS = CANONICAL_STATUSES"
  by (simp add: VALID_TRANSITIONS_def CANONICAL_STATUSES_def)

lemma contract_rows: "list_all (\<lambda>sc. status_errors sc = []) STATUS_CONTRACTS"
  by (simp add: STATUS_CONTRACTS_def status_errors_Nil blank_opt_def)

lemma transition_rows_canonical:
  "list_all (\<lambda>st. fst st \<notin> set (snd st) \<and> set (snd st) \<subseteq> set CANONICAL_STATUSES) VALID_TRANSITIONS"
  by (simp add: VALID_TRANSITIONS_def CANONICAL_STATUSES_def)

lemma alias_rows: "list_all (\<lambda>at. snd at \<in> set CANONICAL_STATUSES) STATUS_ALIASES"
  by (simp add: STATUS_ALIASES_def CANONICAL_STATUSES_def)

lemma invariant_codes_distinct: "distinct (map wi_code (SAFETY_INVARIANTS @ LIVENESS_INVARIANTS))"
  by (simp add: SAFETY_INVARIANTS_def LIVENESS_INVARIANTS_def)

lemma transition_row_ok:
  assumes "(src, tgts) \<in> set VALID_TRANSITIONS"
  shows "source_errors TRANSITION_RULES (src, tgts) = []"
proof -
  have "(src, tgt) \<in> set (edges_of VALID_TRANSITIONS)" if "tgt \<in> set tgts" for tgt
    using assms that by (auto simp: edges_of_iff)
  moreover have "src \<notin> set tgts \<and> set tgts \<subseteq> set CANONICAL_STATUSES"
    using assms transition_rows_canonical by (force simp: list_all_iff)
  ultimately show ?thesis
    by (auto simp: source_errors_Nil lookup_rule rule_version_fence)
qed

lemma shipped_contract_valid:
  "validate_workflow_contract STATUS_CONTRACTS VALID_TRANSITIONS TRANSITION_RULES STATUS_ALIASES = []"
proof -
  have "concat (map status_errors STATUS_CONTRACTS) = []"
    using contract_rows by (simp add: list_all_iff)
  moreover have "concat (map (source_errors TRANSITION_RULES) VALID_TRANSITIONS) = []"
    by (auto simp: transition_row_ok)
  moreover have "diff_list (map fst TRANSITION_RULES) (edges_of VALID_TRANSITIONS) = []"
    by (auto simp: TRANSITION_RULES_eq diff_list_Nil_iff)
  moreover have "concat (map (\<lambda>(a, t). if t \<notin> set CANONICAL_STATUSES then [AliasUnknown a t] else [])
      STATUS_ALIASES) = []"
    using alias_rows by (auto simp: list_all_iff)
  ultimately show ?thesis
    using invariant_codes_distinct
    by (simp add: validate_workflow_contract_def keyset_errors_Nil contract_keys transition_keys)
qed

lemma validated_edge:
  assumes "validate_workflow_contract cs ts rs al = []" and "(a, b) \<in> set (edges_of ts)"
  shows "a \<noteq> b \<and> b \<in> set CANONICAL_STATUSES
     \<and> (\<exists>r. map_of rs (a, b) = Some r \<and> Req_EXPECTED_VERSION \<in> set (tr_requirements r))"
proof -
  from assms(2) obtain tgts where t: "(a, tgts) \<in> set ts" "b \<in> set tgts"
    by (auto simp: edges_of_iff)
  from assms(1) t(1) have "source_errors rs (a, tgts) = []"
    by (force simp: validate_workflow_contract_def)
  with t(2) show ?thesis by (auto simp: source_errors_Nil)
qed

lemma validated_status:
  assumes "validate_workflow_contract cs ts rs al = []" and "(s, c) \<in> set cs"
  shows "status_errors (s, c) = []"
  using assms by (force simp: validate_workflow_contract_def)

lemma validated_rules:
  assumes "validate_workflow_contract cs ts rs al = []" and "map_of rs (a, b) = Some r"
  shows "(a, b) \<in> set (edges_of ts)"
proof -
  from assms(1) have "set (map fst rs) \<subseteq> set (edges_of ts)"
    by (simp add: validate_workflow_contract_def Let_def diff_list_Nil_iff split: if_splits)
  moreover from assms(2) have "(a, b) \<in> set (map fst rs)" by (force dest: map_of_SomeD)
  ultimately show ?thesis by blast
qed

section \<open>Canonical text\<close>

lemma status_key_PStr:
  "status_key (PStr s) =
     replace_char (CHR ''_'') (CHR '' '') (replace_char (CHR ''-'') (CHR '' '') (py_lower (py_strip s)))"
  by (cases "s = []") (simp_all add: status_key_def ltext_of_def text_of_def)

lemma alias_canonical:
  "s \<in> set CANONICAL_STATUSES \<Longrightarrow> map_of STATUS_ALIASES (status_key (PStr s)) = Some s"
  unfolding CANONICAL_STATUSES_def list.set insert_iff empty_iff
  by (elim disjE; simp add: status_key_PStr str_eval STATUS_ALIASES_def)

lemma canonicalize_canonical [simp]:
  "s \<in> set CANONICAL_STATUSES \<Longrightarrow> canonicalize_status (PStr s) = s"
  by (simp add: canonicalize_status_def alias_canonical)

text \<open>A value either canonicalizes to a canonical status or keeps its own stripped text.\<close>

lemma status_key_text_of: "status_key v = status_key (PStr (text_of v))"
  by (cases "text_of v = []") (simp_all add: status_key_def ltext_of_def)

lemma blank_key: "text_of v = [] \<Longrightarrow> canonicalize_status v = DEFAULT_STATUS"
  by (simp add: canonicalize_status_def status_key_def ltext_of_def replace_char_def STATUS_ALIASES_def)

lemma canonicalize_cases:
  obtains (known) "canonicalize_status v \<in> set CANONICAL_STATUSES"
  | (custom) "canonicalize_status v = text_of v" and "text_of v \<noteq> []"
      and "map_of STATUS_ALIASES (status_key v) = None"
proof (cases "map_of STATUS_ALIASES (status_key v)")
  case (Some s)
  then have "(status_key v, s) \<in> set STATUS_ALIASES" by (rule map_of_SomeD)
  with alias_rows Some show ?thesis
    by (intro known) (auto simp: canonicalize_status_def list_all_iff)
next
  case None
  have "text_of v \<noteq> []"
  proof
    assume "text_of v = []"
    then have "status_key v = []" by (simp add: status_key_def ltext_of_def replace_char_def)
    with None show False by (simp add: STATUS_ALIASES_def)
  qed
  moreover from this have "truthy v" by (auto simp: text_of_def str_or_def split: if_splits)
  ultimately show ?thesis
    using None by (intro custom) (simp_all add: canonicalize_status_def text_of_def str_or_def)
qed

lemma is_valid_transition_iff:
  "is_valid_transition a b False \<longleftrightarrow>
     (canonicalize_status a, canonicalize_status b) \<in> set (edges_of VALID_TRANSITIONS)"
proof -
  have d: "distinct (map fst VALID_TRANSITIONS)" by (simp add: transition_keys)
  have e: "(x, y) \<in> set (edges_of VALID_TRANSITIONS) \<longleftrightarrow> y \<in> set (get_or VALID_TRANSITIONS x [])" for x y
    using d by (auto simp: edges_of_iff get_or_def map_of_eq_Some_iff map_of_eq_None_iff split: option.splits)
  have "(x, x) \<notin> set (edges_of VALID_TRANSITIONS)" for x
    using transition_rows_canonical by (auto simp: edges_of_iff list_all_iff)
  then show ?thesis by (auto simp: is_valid_transition_def Let_def e [symmetric])
qed

text \<open>The lifecycle as a step relation.\<close>

inductive lifecycle_step :: "string \<Rightarrow> string \<Rightarrow> bool" where
  step: "s \<in> set CANONICAL_STATUSES \<Longrightarrow> is_valid_transition (PStr s) (PStr t) False \<Longrightarrow>
    t = canonicalize_status (PStr t) \<Longrightarrow> lifecycle_step s t"

inductive_simps lifecycle_step_iff: "lifecycle_step s t"

lemma lifecycle_step_edge: "lifecycle_step s t \<longleftrightarrow> (s, t) \<in> set (edges_of VALID_TRANSITIONS)"
proof -
  have "s \<in> set CANONICAL_STATUSES \<and> t \<in> set CANONICAL_STATUSES"
    if edge: "(s, t) \<in> set (edges_of VALID_TRANSITIONS)"
  proof -
    from edge obtain ts where row: "(s, ts) \<in> set VALID_TRANSITIONS" "t \<in> set ts"
      by (auto simp: edges_of_iff)
    then have "s \<in> set (map fst VALID_TRANSITIONS)" by force
    moreover from row have "t \<in> set CANONICAL_STATUSES"
      using transition_rows_canonical by (force simp: list_all_iff)
    ultimately show ?thesis by (simp add: transition_keys)
  qed
  then show ?thesis by (auto simp: lifecycle_step_iff is_valid_transition_iff)
qed

lemma terminal_status_cases:
  "is_terminal_status b \<Longrightarrow> canonicalize_status b \<in> {DONE, MERGED, ARCHIVED}"
  by (auto simp: is_terminal_status_def status_contract_of_def STATUS_CONTRACTS_def
      split: option.splits if_splits)

lemma validated_rules_subset:
  assumes "validate_workflow_contract cs ts rs al = []"
  shows "set (map fst rs) \<subseteq> set (edges_of ts)"
  using assms by (simp add: validate_workflow_contract_def Let_def diff_list_Nil_iff split: if_splits)

lemma reaches_archived:
  assumes "s \<in> set CANONICAL_STATUSES"
  shows "lifecycle_step\<^sup>*\<^sup>* s ARCHIVED"
proof -
  have e: "lifecycle_step OPEN ARCHIVED" "lifecycle_step IN_PROGRESS OPEN"
    by (simp_all add: lifecycle_step_edge edges_of_def VALID_TRANSITIONS_def)
  from assms have "s = ARCHIVED \<or> s = IN_PROGRESS \<or> lifecycle_step s ARCHIVED"
    by (auto simp: CANONICAL_STATUSES_def lifecycle_step_edge edges_of_def VALID_TRANSITIONS_def)
  with e show ?thesis
    by (meson converse_rtranclp_into_rtranclp r_into_rtranclp rtranclp.rtrancl_refl)
qed

section \<open>Properties of the contract\<close>

text \<open>The assertion the module runs at import succeeds: the validator reports nothing on the shipped
  contracts, transition graph, rule table, alias table and invariant lists.\<close>

theorem import_assertion_holds: "assert_valid_workflow_contract = Inr ()"
  by (simp add: assert_valid_workflow_contract_def shipped_contract_valid)

text \<open>Canonicalization is idempotent and never blank on any tracker value, and the contract of a status
  is the contract of its canonical text.\<close>

theorem canonicalize_status_idem:
  "canonicalize_status (PStr (canonicalize_status v)) = canonicalize_status v
   \<and> canonicalize_status v \<noteq> []
   \<and> status_contract_of (PStr (canonicalize_status v)) = status_contract_of v"
proof -
  have "canonicalize_status (PStr (canonicalize_status v)) = canonicalize_status v"
  proof (cases v rule: canonicalize_cases)
    case known
    then show ?thesis by simp
  next
    case custom
    have "status_key (PStr (text_of v)) = status_key v" by (rule status_key_text_of [symmetric])
    with custom show ?thesis
      by (simp add: canonicalize_status_def [of "PStr _"] str_or_def)
  qed
  moreover have "canonicalize_status v \<noteq> []"
    by (cases v rule: canonicalize_cases) (auto simp: CANONICAL_STATUSES_def)
  ultimately show ?thesis by (simp add: status_contract_of_def)
qed

text \<open>The transition graph and the rule table agree: a move is valid exactly when a rule exists for the
  canonical pair, and allowing idempotent moves admits nothing more, the idempotent set being empty.\<close>

theorem transition_graph_matches_rules:
  "is_valid_transition a b False = (transition_rule_of a b \<noteq> None)
   \<and> is_valid_transition a b True = (transition_rule_of a b \<noteq> None)"
proof -
  have "is_valid_transition a b True = is_valid_transition a b False"
    by (simp add: is_valid_transition_def Let_def IDEMPOTENT_TRANSITIONS_def)
  then show ?thesis by (simp add: is_valid_transition_iff transition_rule_of_def lookup_rule)
qed

text \<open>Every edge the table grants is version-fenced and records its own endpoints; an edge into a
  tracker-terminal status needs a passed audit, into Merged also landing and containment evidence, and
  into In Progress satisfied dependencies and a valid owner lease.\<close>

theorem granted_edges_carry_evidence:
  assumes "transition_rule_of a b = Some r"
  shows "Req_EXPECTED_VERSION \<in> set (tr_requirements r)
    \<and> tr_from_status r = canonicalize_status a \<and> tr_to_status r = canonicalize_status b
    \<and> (is_terminal_status b \<longrightarrow> Req_AUDIT_PASS \<in> set (tr_requirements r))
    \<and> (canonicalize_status b = MERGED \<longrightarrow>
         {Req_LANDING_EVIDENCE, Req_CONTAINMENT_EVIDENCE} \<subseteq> set (tr_requirements r))
    \<and> (canonicalize_status b = IN_PROGRESS \<longrightarrow>
         {Req_DEPENDENCIES_SATISFIED, Req_VALID_OWNER_LEASE} \<subseteq> set (tr_requirements r))"
proof -
  from assms have r: "r = make_rule (canonicalize_status a) (canonicalize_status b)"
    by (simp add: transition_rule_of_def lookup_rule split: if_splits)
  have t: "is_terminal_status b \<Longrightarrow> canonicalize_status b \<in> {DONE, MERGED, ARCHIVED}"
    by (rule terminal_status_cases)
  show ?thesis
    using t by (auto simp: r make_rule_def requirements_for_def)
qed

theorem granted_edges_carry_evidence_witness:
  "\<exists>r. transition_rule_of (PStr ''in validation'') (PStr ''merged'') = Some r
     \<and> {Req_LANDING_EVIDENCE, Req_CONTAINMENT_EVIDENCE} \<subseteq> set (tr_requirements r)"
proof -
  have c: "canonicalize_status (PStr ''in validation'') = IN_VALIDATION"
    "canonicalize_status (PStr ''merged'') = MERGED"
    by (simp_all add: canonicalize_status_def status_key_PStr str_eval STATUS_ALIASES_def)
  have "(IN_VALIDATION, MERGED) \<in> set (edges_of VALID_TRANSITIONS)"
    by (simp add: edges_of_def VALID_TRANSITIONS_def)
  then have "transition_rule_of (PStr ''in validation'') (PStr ''merged'') = Some (make_rule IN_VALIDATION MERGED)"
    by (simp add: transition_rule_of_def c lookup_rule)
  with granted_edges_carry_evidence [OF this] c show ?thesis by simp
qed

text \<open>No status is a dead end: from every canonical status the lifecycle can reach Archived, and Archived
  is the only status without an outgoing edge.\<close>

theorem no_dead_end_statuses:
  assumes "s \<in> set CANONICAL_STATUSES"
  shows "lifecycle_step\<^sup>*\<^sup>* s ARCHIVED \<and> ((\<exists>t. lifecycle_step s t) \<longleftrightarrow> s \<noteq> ARCHIVED)"
proof -
  have "lifecycle_step\<^sup>*\<^sup>* s ARCHIVED" using assms by (rule reaches_archived)
  moreover have "\<not> lifecycle_step ARCHIVED t" for t
    by (simp add: lifecycle_step_edge edges_of_def VALID_TRANSITIONS_def)
  ultimately show ?thesis by (metis converse_rtranclpE)
qed

theorem no_dead_end_statuses_witness:
  "lifecycle_step\<^sup>*\<^sup>* IN_PROGRESS ARCHIVED \<and> (\<exists>t. lifecycle_step IN_PROGRESS t)"
  using no_dead_end_statuses [of IN_PROGRESS] by (simp add: CANONICAL_STATUSES_def)

text \<open>C38. What the validator guarantees for any tables it accepts: rules and edges coincide, no edge is a
  self-loop or leaves the canonical statuses, every rule is version-fenced, and every contract sits under
  its own key with an owner, a reassessment path exactly when it is not final, and a named prerequisite
  when it is blocked.\<close>

theorem accepted_contract_sound:
  assumes "validate_workflow_contract cs ts rs al = []"
  shows "set (map fst rs) = set (edges_of ts)
    \<and> (\<forall>(a, b) \<in> set (edges_of ts). a \<noteq> b \<and> b \<in> set CANONICAL_STATUSES)
    \<and> (\<forall>k r. map_of rs k = Some r \<longrightarrow> Req_EXPECTED_VERSION \<in> set (tr_requirements r))
    \<and> (\<forall>(s, c) \<in> set cs. sc_status c = s \<and> sc_owners c \<noteq> []
         \<and> (sc_lifecycle_final c \<longleftrightarrow> rc_trigger (sc_reassessment c) = Trig_NEVER)
         \<and> (sc_disposition c = Disp_BLOCKED \<longrightarrow> \<not> blank_opt (sc_blocked_by c)))"
proof (intro conjI)
  have "set (edges_of ts) \<subseteq> fst ` set rs"
    using validated_edge [OF assms] by (force dest: map_of_SomeD)
  moreover have "set (map fst rs) \<subseteq> set (edges_of ts)" by (rule validated_rules_subset [OF assms])
  ultimately show "set (map fst rs) = set (edges_of ts)" by auto
  show "\<forall>(a, b) \<in> set (edges_of ts). a \<noteq> b \<and> b \<in> set CANONICAL_STATUSES"
    using validated_edge [OF assms] by auto
  show "\<forall>k r. map_of rs k = Some r \<longrightarrow> Req_EXPECTED_VERSION \<in> set (tr_requirements r)"
  proof (intro allI impI)
    fix k r assume "map_of rs k = Some r"
    then show "Req_EXPECTED_VERSION \<in> set (tr_requirements r)"
      using validated_rules [OF assms] validated_edge [OF assms] by (cases k) fastforce
  qed
  show "\<forall>(s, c) \<in> set cs. sc_status c = s \<and> sc_owners c \<noteq> []
         \<and> (sc_lifecycle_final c \<longleftrightarrow> rc_trigger (sc_reassessment c) = Trig_NEVER)
         \<and> (sc_disposition c = Disp_BLOCKED \<longrightarrow> \<not> blank_opt (sc_blocked_by c))"
    using validated_status [OF assms] by (fastforce simp: status_errors_Nil)
qed

theorem accepted_contract_sound_witness:
  "set (map fst TRANSITION_RULES) = set (edges_of VALID_TRANSITIONS)"
  using accepted_contract_sound [OF shipped_contract_valid] by blast

end
