(* ===== verification/WorkflowReasons.thy ===== *)
theory WorkflowReasons
  imports ContractProofs TimeRoundtrip Sha256
begin

text \<open>
  oompah/workflow_reasons.py: the reason taxonomy, the liveness objectives with their validated
  overrides, the construction, validation and JSON form of a reason instance, and the structural
  validator that the module runs at import.

  A mapping argument is an association list in iteration order.  The \<open>observed_at\<close> argument of
  \<open>build_workflow_reason\<close> is a \<open>datetime\<close>, naive or aware; an aware one is its UTC instant.
\<close>

section \<open>Enumerations and records\<close>

datatype reason_class = Class_NORMAL | Class_INFORMATIONAL | Class_ACTION_REQUIRED

fun reason_class_value :: "reason_class \<Rightarrow> string" where
  "reason_class_value Class_NORMAL = ''normal''"
| "reason_class_value Class_INFORMATIONAL = ''informational''"
| "reason_class_value Class_ACTION_REQUIRED = ''action_required''"

datatype alert_severity = Sev_NONE | Sev_INFO | Sev_WARNING | Sev_CRITICAL

fun alert_severity_value :: "alert_severity \<Rightarrow> string" where
  "alert_severity_value Sev_NONE = ''none''"
| "alert_severity_value Sev_INFO = ''info''"
| "alert_severity_value Sev_WARNING = ''warning''"
| "alert_severity_value Sev_CRITICAL = ''critical''"

datatype responsible_subsystem =
    Sub_INTAKE | Sub_PROJECT_OWNER | Sub_DISPATCHER | Sub_IMPLEMENTATION | Sub_REQUESTOR
  | Sub_OPERATOR | Sub_REVIEW_MONITOR | Sub_AUDITOR | Sub_INTEGRATOR | Sub_ROLLUP
  | Sub_DUPLICATE_INVESTIGATOR | Sub_RESTART_RECONCILER | Sub_LIVENESS_CONTROLLER

fun responsible_subsystem_value :: "responsible_subsystem \<Rightarrow> string" where
  "responsible_subsystem_value Sub_INTAKE = ''intake''"
| "responsible_subsystem_value Sub_PROJECT_OWNER = ''project_owner''"
| "responsible_subsystem_value Sub_DISPATCHER = ''dispatcher''"
| "responsible_subsystem_value Sub_IMPLEMENTATION = ''implementation''"
| "responsible_subsystem_value Sub_REQUESTOR = ''requestor''"
| "responsible_subsystem_value Sub_OPERATOR = ''operator''"
| "responsible_subsystem_value Sub_REVIEW_MONITOR = ''review_monitor''"
| "responsible_subsystem_value Sub_AUDITOR = ''auditor''"
| "responsible_subsystem_value Sub_INTEGRATOR = ''integrator''"
| "responsible_subsystem_value Sub_ROLLUP = ''rollup''"
| "responsible_subsystem_value Sub_DUPLICATE_INVESTIGATOR = ''duplicate_investigator''"
| "responsible_subsystem_value Sub_RESTART_RECONCILER = ''restart_reconciler''"
| "responsible_subsystem_value Sub_LIVENESS_CONTROLLER = ''liveness_controller''"

record liveness_slo =
  slo_key :: string
  slo_seconds :: int
  slo_breach :: string
  slo_description :: string

record liveness_policy =
  lp_epoch :: string
  lp_slos :: "(string \<times> liveness_slo) list"
  lp_seconds :: "(string \<times> int) list"

record reason_definition =
  rd_code :: string
  rd_statuses :: "string list"
  rd_class :: reason_class
  rd_severity :: alert_severity
  rd_subsystem :: responsible_subsystem
  rd_slo_key :: string
  rd_evidence :: "string list"
  rd_summary :: string
  rd_remedy :: "string option"

record workflow_reason =
  wr_code :: string
  wr_status :: string
  wr_class :: reason_class
  wr_severity :: alert_severity
  wr_subsystem :: string
  wr_observed_at :: string
  wr_reassess_at :: string
  wr_evidence :: "(string \<times> pyval) list"
  wr_remedy :: "string option"
  wr_schema_version :: int
  wr_taxonomy_version :: string
  wr_unknown_code :: bool

abbreviation REASON_SCHEMA_VERSION :: int where
  "REASON_SCHEMA_VERSION \<equiv> 1"

abbreviation REASON_TAXONOMY_VERSION :: string where
  "REASON_TAXONOMY_VERSION \<equiv> ''1.0''"

section \<open>Liveness objectives\<close>

definition mk_slo :: "string \<Rightarrow> int \<Rightarrow> string \<Rightarrow> liveness_slo" where
  "mk_slo key seconds description = \<lparr>slo_key = key, slo_seconds = seconds,
     slo_breach = ''liveness.reassessment_overdue'', slo_description = description\<rparr>"

definition LIVENESS_SLOS :: "(string \<times> liveness_slo) list" where
  "LIVENESS_SLOS = map (\<lambda>item. (slo_key item, item)) [
    mk_slo ''intake_reassessment'' 900 ''Refresh pending intake decisions.'',
    mk_slo ''prioritization_visibility'' 3600 ''Refresh owner prioritization visibility.'',
    mk_slo ''dispatch_latency'' 120 ''Reconsider eligible implementation work.'',
    mk_slo ''implementation_lease'' 900 ''Renew or recover implementation ownership.'',
    mk_slo ''requestor_visibility'' 3600 ''Refresh requestor-answer visibility.'',
    mk_slo ''operator_visibility'' 900 ''Refresh operator-action visibility.'',
    mk_slo ''repair_dispatch_latency'' 120 ''Reconsider eligible repair work.'',
    mk_slo ''review_reassessment'' 300 ''Refresh review and CI evidence.'',
    mk_slo ''audit_lease'' 600 ''Renew or recover audit ownership.'',
    mk_slo ''integration_lease'' 600 ''Renew or recover integration ownership.'',
    mk_slo ''rollup_reassessment'' 120 ''Recompute child and containment rollup.'',
    mk_slo ''duplicate_investigation_lease'' 600 ''Renew or recover duplicate review.'',
    mk_slo ''landing_reassessment'' 300 ''Refresh target-branch landing evidence.'',
    mk_slo ''restart_convergence'' 120 ''Reconstruct and reconcile durable work after restart.'']"

text \<open>\<open>int(raw)\<close> on the values an override may hold; \<open>int\<close> of a text accepts a sign and digits that
  single underscores may separate.\<close>

fun underscore_digits :: "bool \<Rightarrow> string \<Rightarrow> string option" where
  "underscore_digits after_digit [] = (if after_digit then Some [] else None)"
| "underscore_digits after_digit (c # cs) =
     (if is_digit c then map_option (\<lambda>ds. c # ds) (underscore_digits True cs)
      else if c = CHR ''_'' \<and> after_digit then underscore_digits False cs
      else None)"

definition int_of_text :: "string \<Rightarrow> int result" where
  "int_of_text raw = (let s = py_strip raw;
       neg = (s \<noteq> [] \<and> hd s = CHR ''-'');
       body = (if s \<noteq> [] \<and> hd s \<in> {CHR ''-'', CHR ''+''} then tl s else s)
     in case underscore_digits False body of
          None \<Rightarrow> Inl ValueError
        | Some ds \<Rightarrow> Inr (if neg then - digits_val ds else digits_val ds))"

fun py_int :: "pyval \<Rightarrow> int result" where
  "py_int (PInt i) = Inr i"
| "py_int (PBool b) = Inr (if b then 1 else 0)"
| "py_int (PStr s) = int_of_text s"
| "py_int _ = Inl TypeError"

text \<open>The effective ceiling of one objective: the override when there is one.\<close>

definition slo_override :: "(string \<times> pyval) list \<Rightarrow> string \<times> liveness_slo \<Rightarrow>
    (string \<times> liveness_slo) result" where
  "slo_override normalized kd = (case kd of (key, dflt) \<Rightarrow>
     let raw = get_or normalized key (PInt (slo_seconds dflt)) in
     case raw of PBool b \<Rightarrow> Inl ValueError
     | _ \<Rightarrow> (case py_int raw of
          Inl e \<Rightarrow> Inl ValueError
        | Inr seconds \<Rightarrow> if seconds < 1 then Inl ValueError
            else Inr (key, dflt\<lparr>slo_seconds := seconds\<rparr>)))"

definition build_liveness_slos ::
  "(string \<times> pyval) list option \<Rightarrow> (string \<times> liveness_slo) list result" where
  "build_liveness_slos overrides = (
     let normalized = (case overrides of None \<Rightarrow> [] | Some d \<Rightarrow> d) in
     if \<not> set (map fst normalized) \<subseteq> set (map fst LIVENESS_SLOS) then Inl ValueError
     else eseq (slo_override normalized) LIVENESS_SLOS)"

definition build_liveness_policy :: "(string \<times> pyval) list option \<Rightarrow> liveness_policy result" where
  "build_liveness_policy overrides = ebind (build_liveness_slos overrides) (\<lambda>slos.
     let seconds = map (\<lambda>(key, slo). (key, slo_seconds slo)) slos in
     Inr \<lparr>lp_epoch = sha256_hex (json_dumps (PDict (map (\<lambda>(k, n). (k, PInt n)) seconds))),
          lp_slos = slos, lp_seconds = seconds\<rparr>)"

section \<open>The taxonomy\<close>

definition NONFINAL_STATUSES :: "string list" where
  "NONFINAL_STATUSES = filter (\<lambda>s. s \<notin> set LIFECYCLE_FINAL_STATUSES) CANONICAL_STATUSES"

fun default_severity :: "reason_class \<Rightarrow> alert_severity" where
  "default_severity Class_NORMAL = Sev_NONE"
| "default_severity Class_INFORMATIONAL = Sev_INFO"
| "default_severity Class_ACTION_REQUIRED = Sev_WARNING"

definition mk_reason :: "string \<Rightarrow> string list \<Rightarrow> reason_class \<Rightarrow> responsible_subsystem \<Rightarrow> string \<Rightarrow>
    string list \<Rightarrow> string \<Rightarrow> string option \<Rightarrow> alert_severity option \<Rightarrow> reason_definition" where
  "mk_reason code statuses cls subsystem slo evidence_fields summary remedy severity =
     \<lparr>rd_code = code, rd_statuses = statuses, rd_class = cls,
      rd_severity = (case severity of None \<Rightarrow> default_severity cls | Some s \<Rightarrow> s),
      rd_subsystem = subsystem, rd_slo_key = slo, rd_evidence = evidence_fields, rd_summary = summary,
      rd_remedy = remedy\<rparr>"

definition REASONS_1 :: "reason_definition list" where
  "REASONS_1 = [
    mk_reason ''intake.awaiting_decision'' [PROPOSED] Class_NORMAL Sub_INTAKE ''intake_reassessment''
      [''intake_state'']
      ''Intake is evaluating the request.''
      None None,
    mk_reason ''prioritization.awaiting_owner'' [BACKLOG] Class_NORMAL Sub_PROJECT_OWNER ''prioritization_visibility''
      [''priority'']
      ''Accepted work is waiting for owner prioritization.''
      None None,
    mk_reason ''dispatch.eligible'' [OPEN, NEEDS_CI_FIX, NEEDS_REBASE] Class_NORMAL Sub_DISPATCHER ''dispatch_latency''
      [''candidate_generation'']
      ''Work is eligible for a dispatch decision.''
      None None,
    mk_reason ''dispatch.dependencies_blocked'' [OPEN, NEEDS_CI_FIX, NEEDS_REBASE] Class_INFORMATIONAL Sub_DISPATCHER ''dispatch_latency''
      [''blocking_task_ids'']
      ''A named dependency currently prevents ownership.''
      None None,
    mk_reason ''dispatch.capacity_wait'' [OPEN, NEEDS_CI_FIX, NEEDS_REBASE] Class_NORMAL Sub_DISPATCHER ''dispatch_latency''
      [''capacity_used'', ''capacity_limit'']
      ''Eligible work is waiting for available capacity.''
      None None,
    mk_reason ''implementation.active'' [IN_PROGRESS] Class_NORMAL Sub_IMPLEMENTATION ''implementation_lease''
      [''owner_id'', ''generation'', ''lease_expires_at'']
      ''An implementation owner holds the current generation.''
      None None,
    mk_reason ''implementation.recovery_scheduled'' [IN_PROGRESS, OPEN] Class_INFORMATIONAL Sub_IMPLEMENTATION ''implementation_lease''
      [''generation'', ''retry_at'']
      ''Normal recovery is scheduled for interrupted implementation work.''
      None None,
    mk_reason ''requestor.answer_required'' [NEEDS_ANSWER] Class_ACTION_REQUIRED Sub_REQUESTOR ''requestor_visibility''
      [''question_id'']
      ''The requestor must answer a specific question.''
      (Some ''Answer the recorded question so the task can be reassessed.'') None,
    mk_reason ''operator.action_required'' [NEEDS_HUMAN] Class_ACTION_REQUIRED Sub_OPERATOR ''operator_visibility''
      [''action_code'', ''action_detail'']
      ''A named operator action is required.''
      (Some ''Perform the recorded action or provide an explicit disposition.'') None,
    mk_reason ''review.monitoring'' [IN_REVIEW] Class_NORMAL Sub_REVIEW_MONITOR ''review_reassessment''
      [''review_id'', ''head_sha'']
      ''Review, CI, and mergeability are being monitored.''
      None None,
    mk_reason ''review.ci_pending'' [IN_REVIEW] Class_NORMAL Sub_REVIEW_MONITOR ''review_reassessment''
      [''review_id'', ''head_sha'', ''ci'']
      ''Review CI is pending or has not registered a verdict yet.''
      None None,
    mk_reason ''review.draft_wait'' [IN_REVIEW] Class_NORMAL Sub_REVIEW_MONITOR ''review_reassessment''
      [''review_id'', ''head_sha'']
      ''The draft review is being monitored without merge or repair actions.''
      None None,
    mk_reason ''review.ready_to_merge'' [IN_REVIEW] Class_NORMAL Sub_REVIEW_MONITOR ''review_reassessment''
      [''review_id'', ''head_sha'', ''ci'']
      ''The exact review head passed CI and a durable merge action is queued.''
      None None,
    mk_reason ''review.ci_fix_required'' [IN_REVIEW] Class_INFORMATIONAL Sub_REVIEW_MONITOR ''repair_dispatch_latency''
      [''review_id'', ''head_sha'', ''ci'']
      ''Review CI failed and a durable repair action is queued.''
      None None]"

definition REASONS_2 :: "reason_definition list" where
  "REASONS_2 = [
    mk_reason ''review.rebase_required'' [IN_REVIEW] Class_INFORMATIONAL Sub_REVIEW_MONITOR ''repair_dispatch_latency''
      [''review_id'', ''head_sha'', ''mergeable_state'']
      ''Review mergeability requires a durable conflict repair action.''
      None None,
    mk_reason ''review.capacity_wait'' [IN_REVIEW] Class_INFORMATIONAL Sub_REVIEW_MONITOR ''review_reassessment''
      [''capacity_used'', ''capacity_limit'']
      ''Review progression is waiting for capacity to be observed again.''
      None None,
    mk_reason ''review.closed_unmerged'' [IN_REVIEW] Class_INFORMATIONAL Sub_REVIEW_MONITOR ''repair_dispatch_latency''
      [''review_id'', ''source_branch'', ''target_branch'']
      ''The review closed without landing and is queued for repair.''
      None None,
    mk_reason ''review.missing_artifact'' [IN_REVIEW] Class_INFORMATIONAL Sub_REVIEW_MONITOR ''review_reassessment''
      [''source_branch'', ''target_branch'']
      ''The provider returned no review artifact; reassessment remains durable.''
      None None,
    mk_reason ''review.landing_refresh'' [IN_REVIEW] Class_INFORMATIONAL Sub_REVIEW_MONITOR ''landing_reassessment''
      [''review_id'', ''head_sha'', ''target_branch'']
      ''The review is merged but target landing proof is still being refreshed.''
      None None,
    mk_reason ''review.head_changed'' [IN_REVIEW] Class_INFORMATIONAL Sub_REVIEW_MONITOR ''repair_dispatch_latency''
      [''recorded_head'', ''current_head'']
      ''The source head changed after the recorded review and needs a fresh review.''
      None None,
    mk_reason ''review.merge_target_mismatch'' [IN_REVIEW] Class_ACTION_REQUIRED Sub_OPERATOR ''operator_visibility''
      [''expected_target'', ''observed_target'']
      ''The review targets a different branch than the task configuration.''
      (Some (''Correct the review target or update the task'' @ [CHR 0x27] @ ''s target-branch evidence, then reassess.'')) None,
    mk_reason ''review.source_deleted'' [IN_REVIEW] Class_ACTION_REQUIRED Sub_OPERATOR ''operator_visibility''
      [''source_branch'', ''review_id'']
      ''The review source branch disappeared without durable landing proof.''
      (Some ''Confirm the merge, restore the source review, or explicitly archive the task.'') None,
    mk_reason ''review.provider_unavailable'' [IN_REVIEW] Class_INFORMATIONAL Sub_REVIEW_MONITOR ''review_reassessment''
      [''provider'', ''error_code'']
      ''The review provider is unavailable; the prior decision remains fenced and will retry.''
      None None,
    mk_reason ''validation.queued'' [IN_VALIDATION] Class_NORMAL Sub_AUDITOR ''audit_lease''
      [''audit_id'', ''requested_target'']
      ''Validation is queued for an independent auditor.''
      None None,
    mk_reason ''validation.active'' [IN_VALIDATION] Class_NORMAL Sub_AUDITOR ''audit_lease''
      [''audit_id'', ''owner_id'', ''lease_expires_at'']
      ''An auditor owns the current validation attempt.''
      None None,
    mk_reason ''validation.retry_scheduled'' [IN_VALIDATION] Class_INFORMATIONAL Sub_AUDITOR ''audit_lease''
      [''audit_id'', ''retry_at'']
      ''Normal validation recovery is scheduled.''
      None None,
    mk_reason ''integration.queued'' [READY_TO_INTEGRATE] Class_NORMAL Sub_INTEGRATOR ''integration_lease''
      [''job_id'', ''head_sha'', ''target_branch'']
      ''Accepted work is queued for integration.''
      None None,
    mk_reason ''integration.active'' [READY_TO_INTEGRATE] Class_NORMAL Sub_INTEGRATOR ''integration_lease''
      [''job_id'', ''owner_id'', ''lease_expires_at'']
      ''An integrator owns the current integration attempt.''
      None None]"

definition REASONS_3 :: "reason_definition list" where
  "REASONS_3 = [
    mk_reason ''integration.retry_scheduled'' [READY_TO_INTEGRATE] Class_INFORMATIONAL Sub_INTEGRATOR ''integration_lease''
      [''job_id'', ''retry_at'']
      ''Normal integration recovery is scheduled.''
      None None,
    mk_reason ''rollup.waiting_children'' [DECOMPOSED] Class_NORMAL Sub_ROLLUP ''rollup_reassessment''
      [''incomplete_child_ids'']
      ''The decomposed wrapper is waiting for child completion.''
      None None,
    mk_reason ''duplicate.investigating'' [DUPLICATE_CANDIDATE] Class_NORMAL Sub_DUPLICATE_INVESTIGATOR ''duplicate_investigation_lease''
      [''investigation_id'', ''lease_expires_at'']
      ''A duplicate investigator is comparing candidate work.''
      None None,
    mk_reason ''ownership.conflict'' NONFINAL_STATUSES Class_ACTION_REQUIRED Sub_OPERATOR ''operator_visibility''
      [''owner_ids'', ''task_id'']
      ''Multiple ownership claims cannot safely be reconciled automatically.''
      (Some ''Revoke the stale claim or choose the single authoritative owner.'') None,
    mk_reason ''ownership.impossible'' NONFINAL_STATUSES Class_ACTION_REQUIRED Sub_OPERATOR ''operator_visibility''
      [''task_id'']
      ''No safe ownership authority can be established for the task.''
      (Some ''Repair the ownership record and provide one valid authority.'') None,
    mk_reason ''graph.impossible'' NONFINAL_STATUSES Class_ACTION_REQUIRED Sub_OPERATOR ''operator_visibility''
      [''task_id'', ''cycle_members'']
      ''The dependency graph contains a cycle that cannot make progress.''
      (Some ''Break the named dependency cycle before dispatch can continue.'') None,
    mk_reason ''retry.exhausted'' NONFINAL_STATUSES Class_ACTION_REQUIRED Sub_OPERATOR ''operator_visibility''
      [''task_id'', ''attempts'']
      ''Automatic recovery used its bounded attempt budget.''
      (Some ''Inspect the recorded failure evidence and choose a recovery action.'') None,
    mk_reason ''automation.unavailable'' NONFINAL_STATUSES Class_ACTION_REQUIRED Sub_OPERATOR ''operator_visibility''
      [''task_id'']
      ''The workflow needs recovery but no durable recovery action is available.''
      (Some ''Install or repair the responsible recovery worker.'') None,
    mk_reason ''evidence.conflicting_task_facts'' NONFINAL_STATUSES Class_ACTION_REQUIRED Sub_OPERATOR ''operator_visibility''
      [''task_id'']
      ''One snapshot contained conflicting task facts.''
      (Some ''Reconcile the task snapshot before allowing an automatic transition.'') None,
    mk_reason ''controller.evaluation_failed'' NONFINAL_STATUSES Class_ACTION_REQUIRED Sub_OPERATOR ''operator_visibility''
      [''task_id'', ''error'']
      ''The controller could not safely evaluate the task evidence.''
      (Some ''Repair the evidence source and rerun the bounded workflow pass.'') None,
    mk_reason ''landing.waiting'' [DONE] Class_NORMAL Sub_ROLLUP ''landing_reassessment''
      [''head_sha'', ''target_branch'']
      ''Completed work is waiting for target-branch landing or rollup.''
      None None,
    mk_reason ''restart.reconciling'' NONFINAL_STATUSES Class_INFORMATIONAL Sub_RESTART_RECONCILER ''restart_convergence''
      [''service_instance_id'', ''facts_version'']
      ''Durable work is being reconstructed after restart.''
      None None,
    mk_reason ''liveness.reassessment_overdue'' NONFINAL_STATUSES Class_ACTION_REQUIRED Sub_LIVENESS_CONTROLLER ''operator_visibility''
      [''previous_reason_code'', ''deadline'', ''overdue_seconds'']
      ''A bounded reassessment deadline was missed.''
      (Some ''Inspect the responsible subsystem and rearm or resolve its durable work.'') None]"

definition REASONS :: "reason_definition list" where
  "REASONS = REASONS_1 @ REASONS_2 @ REASONS_3"

text \<open>\<open>REASON_DEFINITIONS.get(code)\<close>; a dict built from pairs keeps the last of equal keys.\<close>

definition reason_definition_for :: "string \<Rightarrow> reason_definition option" where
  "reason_definition_for code = map_of (rev (map (\<lambda>d. (rd_code d, d)) REASONS)) code"

section \<open>Reason instances\<close>

datatype py_datetime = Naive int | Aware instant

definition missing_fields :: "reason_definition \<Rightarrow> (string \<times> pyval) list \<Rightarrow> string list" where
  "missing_fields d evidence = filter (\<lambda>f. f \<notin> set (map fst evidence)) (rd_evidence d)"

definition build_workflow_reason ::
  "pyval \<Rightarrow> pyval \<Rightarrow> py_datetime \<Rightarrow> (string \<times> pyval) list \<Rightarrow> int option \<Rightarrow>
   (string \<times> pyval) list option \<Rightarrow> workflow_reason result" where
  "build_workflow_reason code status observed_at evidence reassessment_seconds liveness_slo_seconds = (
     case reason_definition_for (text_of code) of None \<Rightarrow> Inl ValueError | Some d \<Rightarrow>
     let canonical = canonicalize_status status in
     if canonical \<notin> set (rd_statuses d) then Inl ValueError
     else if missing_fields d evidence \<noteq> [] then Inl ValueError
     else ebind (build_liveness_slos liveness_slo_seconds) (\<lambda>slos.
       case map_of slos (rd_slo_key d) of None \<Rightarrow> Inl KeyError | Some slo \<Rightarrow>
       let seconds = (case reassessment_seconds of None \<Rightarrow> slo_seconds slo | Some n \<Rightarrow> n) in
       if seconds \<le> 0 \<or> seconds > slo_seconds slo then Inl ValueError
       else (case observed_at of Naive _ \<Rightarrow> Inl ValueError | Aware observed \<Rightarrow>
         ebind (add_seconds observed seconds) (\<lambda>reassess.
           Inr \<lparr>wr_code = rd_code d, wr_status = canonical, wr_class = rd_class d,
             wr_severity = rd_severity d,
             wr_subsystem = responsible_subsystem_value (rd_subsystem d),
             wr_observed_at = render_time observed, wr_reassess_at = render_time reassess,
             wr_evidence = evidence, wr_remedy = rd_remedy d,
             wr_schema_version = REASON_SCHEMA_VERSION,
             wr_taxonomy_version = REASON_TAXONOMY_VERSION, wr_unknown_code = False\<rparr>))))"

datatype reason_error =
    BadTimestamp | ReassessNotLater | UnmarkedUnknownCode | KnownMarkedUnknown | StatusNotApplicable
  | ClassMismatch | SeverityMismatch | MissingEvidence "string list" | SloExceeded

text \<open>
  \<open>validate_workflow_reason\<close>; a ValueError of a timestamp is itself the only violation reported.
  \<open>total_seconds()\<close> is compared exactly (the float of the code is exact below 2 to the 53 microseconds).
\<close>

definition validate_workflow_reason ::
  "workflow_reason \<Rightarrow> (string \<times> pyval) list option \<Rightarrow> reason_error list result" where
  "validate_workflow_reason r liveness_slo_seconds = (
     case ebind (parse_time (PStr (wr_observed_at r))) (\<lambda>o'.
            ebind (parse_time (PStr (wr_reassess_at r))) (\<lambda>a. Inr (o', a))) of
       Inl ValueError \<Rightarrow> Inr [BadTimestamp]
     | Inl e \<Rightarrow> Inl e
     | Inr (observed, reassess) \<Rightarrow>
       let late = (if reassess \<le> observed then [ReassessNotLater] else []) in
       (case reason_definition_for (wr_code r) of
          None \<Rightarrow> Inr (late @ (if \<not> wr_unknown_code r then [UnmarkedUnknownCode] else []))
        | Some d \<Rightarrow>
          ebind (build_liveness_slos liveness_slo_seconds) (\<lambda>slos.
            case map_of slos (rd_slo_key d) of None \<Rightarrow> Inl KeyError | Some slo \<Rightarrow>
            Inr (late
              @ (if wr_unknown_code r then [KnownMarkedUnknown] else [])
              @ (if wr_status r \<notin> set (rd_statuses d) then [StatusNotApplicable] else [])
              @ (if wr_class r \<noteq> rd_class d then [ClassMismatch] else [])
              @ (if wr_severity r \<noteq> rd_severity d then [SeverityMismatch] else [])
              @ (let missing = missing_fields d (wr_evidence r) in
                 if missing \<noteq> [] then [MissingEvidence missing] else [])
              @ (if reassess - observed > slo_seconds slo * second_us then [SloExceeded] else [])))))"

text \<open>\<open>WorkflowReason.to_dict\<close>.\<close>

definition reason_to_dict :: "workflow_reason \<Rightarrow> pyval" where
  "reason_to_dict r = PDict [
     (''schema_version'', PInt (wr_schema_version r)),
     (''taxonomy_version'', PStr (wr_taxonomy_version r)),
     (''code'', PStr (wr_code r)),
     (''status'', PStr (wr_status r)),
     (''classification'', PStr (reason_class_value (wr_class r))),
     (''severity'', PStr (alert_severity_value (wr_severity r))),
     (''subsystem'', PStr (wr_subsystem r)),
     (''observed_at'', PStr (wr_observed_at r)),
     (''reassess_at'', PStr (wr_reassess_at r)),
     (''evidence'', PDict (sort_key fst (wr_evidence r))),
     (''operator_remedy'', opt_str (wr_remedy r)),
     (''unknown_code'', PBool (wr_unknown_code r))]"

text \<open>\<open>ReasonClass(value)\<close> and \<open>AlertSeverity(value)\<close>.\<close>

definition reason_class_of :: "pyval \<Rightarrow> reason_class result" where
  "reason_class_of v = (
     if v = PStr ''normal'' then Inr Class_NORMAL
     else if v = PStr ''informational'' then Inr Class_INFORMATIONAL
     else if v = PStr ''action_required'' then Inr Class_ACTION_REQUIRED
     else Inl ValueError)"

definition alert_severity_of :: "pyval \<Rightarrow> alert_severity result" where
  "alert_severity_of v = (
     if v = PStr ''none'' then Inr Sev_NONE
     else if v = PStr ''info'' then Inr Sev_INFO
     else if v = PStr ''warning'' then Inr Sev_WARNING
     else if v = PStr ''critical'' then Inr Sev_CRITICAL
     else Inl ValueError)"

text \<open>\<open>WorkflowReason.from_dict\<close>.\<close>

definition schema_version_of :: "pyval \<Rightarrow> int result" where
  "schema_version_of v = (case py_int v of
     Inl e \<Rightarrow> Inl ValueError
   | Inr n \<Rightarrow> if n < 1 then Inl ValueError else Inr n)"

definition reason_from_dict :: "pyval \<Rightarrow> workflow_reason result" where
  "reason_from_dict v = (case mapping_of v of None \<Rightarrow> Inl ValueError | Some raw \<Rightarrow>
     ebind (schema_version_of (get_or raw ''schema_version'' (PInt REASON_SCHEMA_VERSION))) (\<lambda>schema.
     ebind (required_text (getv raw ''code'')) (\<lambda>code.
     let status = canonicalize_status (getv raw ''status'') in
     if status \<notin> set CANONICAL_STATUSES then Inl ValueError else
     ebind (parse_time (getv raw ''observed_at'')) (\<lambda>observed.
     ebind (parse_time (getv raw ''reassess_at'')) (\<lambda>reassess.
     if reassess \<le> observed then Inl ValueError else
     (case mapping_of (get_or raw ''evidence'' (PDict [])) of None \<Rightarrow> Inl ValueError | Some evidence \<Rightarrow>
     let known = reason_definition_for code in
     ebind (reason_class_of (py_or (getv raw ''classification'')
       (PStr (reason_class_value (case known of Some d \<Rightarrow> rd_class d | None \<Rightarrow> Class_INFORMATIONAL)))))
       (\<lambda>cls.
     ebind (alert_severity_of (py_or (getv raw ''severity'')
       (PStr (alert_severity_value (case known of Some d \<Rightarrow> rd_severity d | None \<Rightarrow> Sev_INFO)))))
       (\<lambda>severity.
     let subsystem = py_strip (str_or (getv raw ''subsystem'')
       (responsible_subsystem_value
         (case known of Some d \<Rightarrow> rd_subsystem d | None \<Rightarrow> Sub_LIVENESS_CONTROLLER))) in
     if subsystem = [] then Inl ValueError else
     Inr \<lparr>wr_code = code, wr_status = status, wr_class = cls, wr_severity = severity,
       wr_subsystem = subsystem, wr_observed_at = render_time observed,
       wr_reassess_at = render_time reassess, wr_evidence = evidence,
       wr_remedy = (let remedy = getv raw ''operator_remedy'' in
         if remedy = PNone then None else Some (py_strip (py_str remedy))),
       wr_schema_version = schema,
       wr_taxonomy_version = str_or (getv raw ''taxonomy_version'') REASON_TAXONOMY_VERSION,
       wr_unknown_code = (known = None \<or> truthy (get_or raw ''unknown_code'' (PBool False)))\<rparr>)))))))
     )"

section \<open>The validator of the taxonomy\<close>

text \<open>\<open>_CODE_PATTERN\<close>: two or more dot-separated words of lower-case letters, digits and underscores,
  each starting with a letter.\<close>

fun split_on :: "char \<Rightarrow> string \<Rightarrow> string \<Rightarrow> string list" where
  "split_on sep acc [] = [rev acc]"
| "split_on sep acc (c # cs) = (if c = sep then rev acc # split_on sep [] cs else split_on sep (c # acc) cs)"

definition is_lower_letter :: "char \<Rightarrow> bool" where
  "is_lower_letter c = (c \<in> set ''abcdefghijklmnopqrstuvwxyz'')"

definition code_word :: "string \<Rightarrow> bool" where
  "code_word w = (w \<noteq> [] \<and> is_lower_letter (hd w)
     \<and> list_all (\<lambda>c. is_lower_letter c \<or> c \<in> set ''0123456789_'') (tl w))"

definition valid_code :: "string \<Rightarrow> bool" where
  "valid_code code = (let ws = split_on (CHR ''.'') [] code in 2 \<le> length ws \<and> list_all code_word ws)"

datatype taxonomy_error =
    CodesNotUnique | SloKeyMismatch string | SloUnbounded string | InvalidCode string
  | NoStatuses string | UnknownStatuses string | UnknownSlo string | NormalAlerts string
  | RecoveryWarns string | ActionWithoutRemedy string | UncoveredStatuses "string list"
  | StatusWithoutSlo string

definition slo_errors :: "string \<times> liveness_slo \<Rightarrow> taxonomy_error list" where
  "slo_errors ks = (case ks of (key, slo) \<Rightarrow>
     (if key \<noteq> slo_key slo then [SloKeyMismatch key] else [])
     @ (if slo_seconds slo \<le> 0 then [SloUnbounded key] else []))"

definition definition_errors :: "reason_definition \<Rightarrow> taxonomy_error list" where
  "definition_errors d = (let code = rd_code d in
     (if \<not> valid_code code then [InvalidCode code] else [])
     @ (if rd_statuses d = [] then [NoStatuses code] else [])
     @ (if \<not> set (rd_statuses d) \<subseteq> set CANONICAL_STATUSES then [UnknownStatuses code] else [])
     @ (if rd_slo_key d \<notin> set (map fst LIVENESS_SLOS) then [UnknownSlo code] else [])
     @ (if rd_class d = Class_NORMAL \<and> rd_severity d \<noteq> Sev_NONE then [NormalAlerts code] else [])
     @ (if contains_str code ''recovery'' \<and> rd_severity d \<in> {Sev_WARNING, Sev_CRITICAL}
        then [RecoveryWarns code] else [])
     @ (if rd_class d = Class_ACTION_REQUIRED \<and> blank_opt (rd_remedy d)
        then [ActionWithoutRemedy code] else []))"

definition status_slo_errors :: "string \<Rightarrow> taxonomy_error list" where
  "status_slo_errors s = (case map_of STATUS_CONTRACTS s of None \<Rightarrow> []
   | Some c \<Rightarrow> (case rc_slo_key (sc_reassessment c) of
       None \<Rightarrow> [StatusWithoutSlo s]
     | Some k \<Rightarrow> if k = [] \<or> k \<notin> set (map fst LIVENESS_SLOS) then [StatusWithoutSlo s] else []))"

definition validate_reason_taxonomy :: "taxonomy_error list" where
  "validate_reason_taxonomy =
     (if distinct (map rd_code REASONS) then [] else [CodesNotUnique])
     @ concat (map slo_errors LIVENESS_SLOS)
     @ concat (map definition_errors REASONS)
     @ (let covered = concat (map rd_statuses (filter (\<lambda>d. rd_code d \<noteq> ''restart.reconciling'') REASONS));
            missing = filter (\<lambda>s. s \<notin> set covered) NONFINAL_STATUSES
        in if missing \<noteq> [] then [UncoveredStatuses missing] else [])
     @ concat (map status_slo_errors NONFINAL_STATUSES)"

text \<open>The check at the end of the module.\<close>

definition assert_valid_taxonomy :: "unit result" where
  "assert_valid_taxonomy = (if validate_reason_taxonomy = [] then Inr () else Inl ValueError)"

end
