(* ===== verification/ReasonProofs.thy ===== *)
theory ReasonProofs
  imports WorkflowReasons
begin

text \<open>
  Facts of oompah/workflow_reasons.py: the taxonomy passes its own validator, objectives stay bounded
  and complete under overrides, a reason that was built validates, and the JSON form round-trips.
\<close>

section \<open>The taxonomy\<close>

lemma nonfinal_eq: "NONFINAL_STATUSES = [
    PROPOSED, BACKLOG, OPEN, IN_PROGRESS, NEEDS_ANSWER, NEEDS_HUMAN, NEEDS_CI_FIX, NEEDS_REBASE,
    IN_REVIEW, IN_VALIDATION, READY_TO_INTEGRATE, DECOMPOSED, DUPLICATE_CANDIDATE, DONE]"
  by (simp add: NONFINAL_STATUSES_def LIFECYCLE_FINAL_STATUSES_def CANONICAL_STATUSES_def STATUS_CONTRACTS_def)

lemma nonfinal_canonical: "set NONFINAL_STATUSES \<subseteq> set CANONICAL_STATUSES"
  by (auto simp: NONFINAL_STATUSES_def)

lemma slo_keys: "map fst LIVENESS_SLOS = [''intake_reassessment'', ''prioritization_visibility'',
    ''dispatch_latency'', ''implementation_lease'', ''requestor_visibility'', ''operator_visibility'',
    ''repair_dispatch_latency'', ''review_reassessment'', ''audit_lease'', ''integration_lease'',
    ''rollup_reassessment'', ''duplicate_investigation_lease'', ''landing_reassessment'',
    ''restart_convergence'']"
  by (simp add: LIVENESS_SLOS_def mk_slo_def)

text \<open>The validator's verdict on one row, as conditions the simplifier decides field by field.\<close>

definition canonical :: "string \<Rightarrow> bool" where
  "canonical s = (s \<in> set CANONICAL_STATUSES)"

lemma canonical_eval:
  "canonical PROPOSED" "canonical BACKLOG" "canonical OPEN" "canonical IN_PROGRESS"
  "canonical NEEDS_ANSWER" "canonical NEEDS_HUMAN" "canonical NEEDS_CI_FIX" "canonical NEEDS_REBASE"
  "canonical IN_REVIEW" "canonical IN_VALIDATION" "canonical READY_TO_INTEGRATE"
  "canonical DECOMPOSED" "canonical DUPLICATE_CANDIDATE" "canonical DONE" "canonical MERGED"
  "canonical ARCHIVED"
  by (simp_all add: canonical_def CANONICAL_STATUSES_def)

lemma mk_reason_ok:
  "definition_errors (mk_reason code statuses cls subsystem slo ev summary remedy severity) = []
   \<longleftrightarrow> valid_code code \<and> statuses \<noteq> [] \<and> list_all canonical statuses
     \<and> slo \<in> set (map fst LIVENESS_SLOS)
     \<and> (cls = Class_NORMAL \<longrightarrow> severity = None \<or> severity = Some Sev_NONE)
     \<and> (contains_str code ''recovery'' \<longrightarrow>
          (case severity of None \<Rightarrow> default_severity cls | Some s \<Rightarrow> s) \<notin> {Sev_WARNING, Sev_CRITICAL})
     \<and> (cls = Class_ACTION_REQUIRED \<longrightarrow> remedy \<noteq> None \<and> remedy \<noteq> Some [])"
  by (auto simp: definition_errors_def mk_reason_def Let_def blank_opt_def list_all_iff canonical_def
      split: option.splits)

lemma is_lower_letter_eval [char_eval]:
  "is_lower_letter (CHR ''a'') = True"
  "is_lower_letter (CHR ''b'') = True"
  "is_lower_letter (CHR ''c'') = True"
  "is_lower_letter (CHR ''d'') = True"
  "is_lower_letter (CHR ''e'') = True"
  "is_lower_letter (CHR ''f'') = True"
  "is_lower_letter (CHR ''g'') = True"
  "is_lower_letter (CHR ''h'') = True"
  "is_lower_letter (CHR ''i'') = True"
  "is_lower_letter (CHR ''j'') = True"
  "is_lower_letter (CHR ''k'') = True"
  "is_lower_letter (CHR ''l'') = True"
  "is_lower_letter (CHR ''m'') = True"
  "is_lower_letter (CHR ''n'') = True"
  "is_lower_letter (CHR ''o'') = True"
  "is_lower_letter (CHR ''p'') = True"
  "is_lower_letter (CHR ''q'') = True"
  "is_lower_letter (CHR ''r'') = True"
  "is_lower_letter (CHR ''s'') = True"
  "is_lower_letter (CHR ''t'') = True"
  "is_lower_letter (CHR ''u'') = True"
  "is_lower_letter (CHR ''v'') = True"
  "is_lower_letter (CHR ''w'') = True"
  "is_lower_letter (CHR ''x'') = True"
  "is_lower_letter (CHR ''y'') = True"
  "is_lower_letter (CHR ''z'') = True"
  "is_lower_letter (CHR ''.'') = False"
  "is_lower_letter (CHR ''_'') = False"
  by (simp_all add: is_lower_letter_def)

lemma nonfinal_ok: "NONFINAL_STATUSES \<noteq> []" "list_all canonical NONFINAL_STATUSES"
  using nonfinal_canonical by (auto simp: list_all_iff nonfinal_eq canonical_def)

lemmas row_eval = nonfinal_ok valid_code_def code_word_def char_eval slo_keys canonical_eval

lemma rows_1: "list_all (\<lambda>d. definition_errors d = []) REASONS_1"
  unfolding REASONS_1_def list.pred_inject
  by (intro conjI TrueI, unfold mk_reason_ok) (simp_all add: row_eval)

lemma rows_2: "list_all (\<lambda>d. definition_errors d = []) REASONS_2"
  unfolding REASONS_2_def list.pred_inject
  by (intro conjI TrueI, unfold mk_reason_ok) (simp_all add: row_eval)

lemma rows_3: "list_all (\<lambda>d. definition_errors d = []) REASONS_3"
  unfolding REASONS_3_def list.pred_inject
  by (intro conjI TrueI, unfold mk_reason_ok) (simp_all add: row_eval)

lemma rows_ok: "d \<in> set REASONS \<Longrightarrow> definition_errors d = []"
  using rows_1 rows_2 rows_3 by (auto simp: REASONS_def list_all_iff)

lemma rd_mk_reason [simp]:
  "rd_code (mk_reason c st cl su sl ev sm rm sv) = c"
  "rd_statuses (mk_reason c st cl su sl ev sm rm sv) = st"
  "rd_remedy (mk_reason c st cl su sl ev sm rm sv) = rm"
  by (simp_all add: mk_reason_def)

lemma reason_codes: "map rd_code REASONS = [
    ''intake.awaiting_decision'',
    ''prioritization.awaiting_owner'',
    ''dispatch.eligible'',
    ''dispatch.dependencies_blocked'',
    ''dispatch.capacity_wait'',
    ''implementation.active'',
    ''implementation.recovery_scheduled'',
    ''requestor.answer_required'',
    ''operator.action_required'',
    ''review.monitoring'',
    ''review.ci_pending'',
    ''review.draft_wait'',
    ''review.ready_to_merge'',
    ''review.ci_fix_required'',
    ''review.rebase_required'',
    ''review.capacity_wait'',
    ''review.closed_unmerged'',
    ''review.missing_artifact'',
    ''review.landing_refresh'',
    ''review.head_changed'',
    ''review.merge_target_mismatch'',
    ''review.source_deleted'',
    ''review.provider_unavailable'',
    ''validation.queued'',
    ''validation.active'',
    ''validation.retry_scheduled'',
    ''integration.queued'',
    ''integration.active'',
    ''integration.retry_scheduled'',
    ''rollup.waiting_children'',
    ''duplicate.investigating'',
    ''ownership.conflict'',
    ''ownership.impossible'',
    ''graph.impossible'',
    ''retry.exhausted'',
    ''automation.unavailable'',
    ''evidence.conflicting_task_facts'',
    ''controller.evaluation_failed'',
    ''landing.waiting'',
    ''restart.reconciling'',
    ''liveness.reassessment_overdue'']"
  by (simp add: REASONS_def REASONS_1_def REASONS_2_def REASONS_3_def)

lemma reason_codes_distinct: "distinct (map rd_code REASONS)"
  unfolding reason_codes by simp

lemma nonfinal_row:
  "\<exists>d \<in> set REASONS. rd_code d = ''retry.exhausted'' \<and> rd_statuses d = NONFINAL_STATUSES"
  unfolding REASONS_def REASONS_3_def by simp

lemma nonfinal_covered:
  "filter (\<lambda>s. s \<notin> set (concat (map rd_statuses (filter (\<lambda>d. rd_code d \<noteq> ''restart.reconciling'') REASONS))))
     NONFINAL_STATUSES = []"
  using nonfinal_row by (force simp: filter_empty_conv)

lemma slo_rows: "concat (map slo_errors LIVENESS_SLOS) = []"
  by (simp add: LIVENESS_SLOS_def mk_slo_def slo_errors_def)

lemma status_slos: "concat (map status_slo_errors NONFINAL_STATUSES) = []"
  by (simp add: nonfinal_eq status_slo_errors_def STATUS_CONTRACTS_def slo_keys)

lemma taxonomy_valid: "validate_reason_taxonomy = []"
proof -
  have "concat (map definition_errors REASONS) = []" using rows_ok by simp
  then show ?thesis
    by (simp only: validate_reason_taxonomy_def reason_codes_distinct slo_rows status_slos
        nonfinal_covered Let_def if_True simp_thms append_Nil if_False)
qed

section \<open>Looking a reason up\<close>

lemma reason_definition_for_iff:
  "reason_definition_for code = Some d \<longleftrightarrow> d \<in> set REASONS \<and> rd_code d = code"
proof -
  have "distinct (map fst (rev (map (\<lambda>d. (rd_code d, d)) REASONS)))"
    using reason_codes_distinct by (simp add: comp_def flip: rev_map)
  then show ?thesis
    unfolding reason_definition_for_def by (subst map_of_eq_Some_iff) auto
qed

lemma definition_errors_Nil:
  "definition_errors d = [] \<longleftrightarrow> valid_code (rd_code d) \<and> rd_statuses d \<noteq> []
     \<and> set (rd_statuses d) \<subseteq> set CANONICAL_STATUSES \<and> rd_slo_key d \<in> set (map fst LIVENESS_SLOS)
     \<and> \<not> (rd_class d = Class_NORMAL \<and> rd_severity d \<noteq> Sev_NONE)
     \<and> \<not> (contains_str (rd_code d) ''recovery'' \<and> rd_severity d \<in> {Sev_WARNING, Sev_CRITICAL})
     \<and> \<not> (rd_class d = Class_ACTION_REQUIRED \<and> blank_opt (rd_remedy d))"
  by (simp add: definition_errors_def Let_def)

lemma reason_row:
  assumes "reason_definition_for code = Some d"
  shows "rd_code d = code" "set (rd_statuses d) \<subseteq> set CANONICAL_STATUSES"
    "rd_slo_key d \<in> set (map fst LIVENESS_SLOS)"
proof -
  from assms have "d \<in> set REASONS" "rd_code d = code" by (simp_all add: reason_definition_for_iff)
  then show "rd_code d = code" "set (rd_statuses d) \<subseteq> set CANONICAL_STATUSES"
    "rd_slo_key d \<in> set (map fst LIVENESS_SLOS)"
    using rows_ok [of d] by (simp_all add: definition_errors_Nil)
qed

section \<open>Objectives under overrides\<close>

lemma slo_override_Inr:
  assumes "slo_override ov (k, d) = Inr (k', d')"
  shows "k' = k \<and> 1 \<le> slo_seconds d' \<and> slo_key d' = slo_key d \<and> slo_breach d' = slo_breach d
    \<and> py_int (get_or ov k (PInt (slo_seconds d))) = Inr (slo_seconds d')"
  using assms by (auto simp: slo_override_def Let_def split: pyval.splits sum.splits if_splits)

lemma build_slos_rows:
  assumes "build_liveness_slos ov = Inr slos"
  shows "list_all2 (\<lambda>x y. slo_override (case ov of None \<Rightarrow> [] | Some d \<Rightarrow> d) x = Inr y) LIVENESS_SLOS slos"
  using assms by (auto simp: build_liveness_slos_def eseq_eq_Inr_iff split: if_splits)

lemma build_slos_keys:
  assumes "build_liveness_slos ov = Inr slos"
  shows "map fst slos = map fst LIVENESS_SLOS"
  using build_slos_rows [OF assms]
proof (induction rule: list_all2_induct)
  case (Cons x xs y ys)
  then show ?case by (cases x; cases y) (auto dest: slo_override_Inr)
qed simp

lemma build_slos_lookup:
  assumes "build_liveness_slos ov = Inr slos" and "k \<in> set (map fst LIVENESS_SLOS)"
  obtains slo where "map_of slos k = Some slo" and "1 \<le> slo_seconds slo"
proof -
  have "k \<in> set (map fst slos)" using assms build_slos_keys by metis
  then obtain slo where m: "map_of slos k = Some slo" by (metis map_of_eq_None_iff image_set not_None_eq)
  then have "(k, slo) \<in> set slos" by (rule map_of_SomeD)
  moreover have "eseq (slo_override (case ov of None \<Rightarrow> [] | Some d \<Rightarrow> d)) LIVENESS_SLOS = Inr slos"
    using build_slos_rows [OF assms(1)] by (simp add: eseq_eq_Inr_iff)
  ultimately obtain x where "slo_override (case ov of None \<Rightarrow> [] | Some d \<Rightarrow> d) x = Inr (k, slo)"
    using eseq_set by metis
  then have "1 \<le> slo_seconds slo" by (cases x) (auto dest: slo_override_Inr)
  with m that show ?thesis by blast
qed

section \<open>Building, validating and parsing a reason\<close>

lemma build_reasonE:
  assumes "build_workflow_reason code status at ev secs ov = Inr r"
  obtains d slos slo t n u where
    "reason_definition_for (text_of code) = Some d" "at = Aware t"
    "canonicalize_status status \<in> set (rd_statuses d)" "missing_fields d ev = []"
    "build_liveness_slos ov = Inr slos" "map_of slos (rd_slo_key d) = Some slo"
    "0 < n" "n \<le> slo_seconds slo" "add_seconds t n = Inr u"
    "r = \<lparr>wr_code = rd_code d, wr_status = canonicalize_status status, wr_class = rd_class d,
       wr_severity = rd_severity d, wr_subsystem = responsible_subsystem_value (rd_subsystem d),
       wr_observed_at = render_time t, wr_reassess_at = render_time u, wr_evidence = ev,
       wr_remedy = rd_remedy d, wr_schema_version = REASON_SCHEMA_VERSION,
       wr_taxonomy_version = REASON_TAXONOMY_VERSION, wr_unknown_code = False\<rparr>"
proof -
  have at: "(case at of Naive _ \<Rightarrow> Inl ValueError | Aware t \<Rightarrow> f t) = Inr y \<longleftrightarrow>
      (\<exists>t. at = Aware t \<and> f t = Inr y)" for f :: "instant \<Rightarrow> workflow_reason result" and y
    by (cases at) auto
  show ?thesis
    using assms unfolding build_workflow_reason_def Let_def succeeds_iff at
    by (elim exE conjE, intro that) (auto simp: not_le not_less)
qed

lemma remedies_stripped:
  "list_all (\<lambda>d. case rd_remedy d of None \<Rightarrow> True | Some m \<Rightarrow> py_strip m = m) REASONS"
  unfolding REASONS_def REASONS_1_def REASONS_2_def REASONS_3_def append_Cons append_Nil
    list.pred_inject rd_mk_reason option.case
  by (intro conjI TrueI) (simp_all add: py_strip_def char_eval)

lemma remedy_stripped:
  assumes "reason_definition_for code = Some d" and "rd_remedy d = Some m"
  shows "py_strip m = m"
proof -
  from assms(1) have "d \<in> set REASONS" by (simp add: reason_definition_for_iff)
  with remedies_stripped have "case rd_remedy d of None \<Rightarrow> True | Some m \<Rightarrow> py_strip m = m"
    by (simp only: list_all_iff) 
  with assms(2) show ?thesis by simp
qed

lemma subsystem_text [simp]:
  "py_strip (responsible_subsystem_value s) = responsible_subsystem_value s"
  "responsible_subsystem_value s \<noteq> []"
  by (cases s; simp add: py_strip_def char_eval)+

lemma reason_class_of_value [simp]: "reason_class_of (PStr (reason_class_value c)) = Inr c"
  by (cases c) (simp_all add: reason_class_of_def)

lemma alert_severity_of_value [simp]: "alert_severity_of (PStr (alert_severity_value s)) = Inr s"
  by (cases s) (simp_all add: alert_severity_of_def)

lemma enum_text [simp]: "reason_class_value c \<noteq> []" "alert_severity_value s \<noteq> []"
  by (cases c; simp) (cases s; simp)

text \<open>A concrete reason, for the witnesses.\<close>

lemma default_slos: "build_liveness_slos None = Inr LIVENESS_SLOS"
  by (simp add: build_liveness_slos_def LIVENESS_SLOS_def mk_slo_def slo_override_def)

lemma dispatch_eligible_row:
  "\<exists>d. reason_definition_for ''dispatch.eligible'' = Some d \<and> rd_statuses d = [OPEN, NEEDS_CI_FIX, NEEDS_REBASE]
     \<and> rd_evidence d = [''candidate_generation''] \<and> rd_slo_key d = ''dispatch_latency''"
proof -
  have "\<exists>d \<in> set REASONS. rd_code d = ''dispatch.eligible''
      \<and> rd_statuses d = [OPEN, NEEDS_CI_FIX, NEEDS_REBASE]
      \<and> rd_evidence d = [''candidate_generation''] \<and> rd_slo_key d = ''dispatch_latency''"
    unfolding REASONS_def REASONS_1_def by (simp add: mk_reason_def)
  then show ?thesis by (auto simp: reason_definition_for_iff)
qed

lemma sample_reason:
  "\<exists>r. build_workflow_reason (PStr '' dispatch.eligible'') (PStr ''Open'') (Aware 0)
     [(''candidate_generation'', PInt 3)] (Some 60) None = Inr r"
proof -
  obtain d where d: "reason_definition_for ''dispatch.eligible'' = Some d"
    "rd_statuses d = [OPEN, NEEDS_CI_FIX, NEEDS_REBASE]" "rd_evidence d = [''candidate_generation'']"
    "rd_slo_key d = ''dispatch_latency''" using dispatch_eligible_row by blast
  have t: "py_strip '' dispatch.eligible'' = ''dispatch.eligible''" by (simp add: str_eval)
  have c: "canonicalize_status (PStr OPEN) = OPEN" by (simp add: CANONICAL_STATUSES_def)
  have s: "map_of LIVENESS_SLOS ''dispatch_latency'' = Some (mk_slo ''dispatch_latency'' 120
      ''Reconsider eligible implementation work.'')"
    by (simp add: LIVENESS_SLOS_def mk_slo_def)
  have a: "add_seconds 0 60 = Inr 60000000"
    by (simp add: add_seconds_def check_instant_def min_instant_def max_instant_def second_us_def
        epoch_ord_def day_us_def)
  show ?thesis
    by (simp add: build_workflow_reason_def t d c s a missing_fields_def default_slos Let_def mk_slo_def)
qed

lemma instant_0: "min_instant \<le> 0" "0 \<le> max_instant"
  by (simp_all add: min_instant_def max_instant_def epoch_ord_def day_us_def)

section \<open>Properties of the reasons\<close>

text \<open>The check the module runs at import succeeds: reason codes are unique and well-formed, every
  reason applies to canonical statuses and names a defined objective, normal and recovery reasons never
  alert, action-required reasons carry a remedy, and every non-final status has a reason and a bounded
  reassessment objective.\<close>

theorem taxonomy_assertion_holds: "assert_valid_taxonomy = Inr ()"
  by (simp add: assert_valid_taxonomy_def taxonomy_valid)

text \<open>Overrides never remove or unbound an objective: an accepted policy has exactly the default keys
  in their order, every ceiling is at least one second, and an objective without an override keeps its
  default.\<close>

theorem overridden_slos_bounded:
  assumes "build_liveness_slos (Some ov) = Inr slos"
  shows "map fst slos = map fst LIVENESS_SLOS
    \<and> (\<forall>(k, s) \<in> set slos. 1 \<le> slo_seconds s
         \<and> (k \<notin> set (map fst ov) \<longrightarrow> (k, s) \<in> set LIVENESS_SLOS))"
proof -
  have "\<exists>d. (k, d) \<in> set LIVENESS_SLOS \<and> slo_override ov (k, d) = Inr (k, s)"
    if member: "(k, s) \<in> set slos" for k s
  proof -
    have "eseq (slo_override ov) LIVENESS_SLOS = Inr slos"
      using build_slos_rows [OF assms] by (simp add: eseq_eq_Inr_iff)
    then obtain x where "x \<in> set LIVENESS_SLOS" "slo_override ov x = Inr (k, s)"
      using eseq_set [OF _ member] by metis
    moreover obtain k' d where "x = (k', d)" by (cases x)
    ultimately show ?thesis using slo_override_Inr [of ov k' d k s] by blast
  qed
  moreover have "(k, d) = (k, s)" if "slo_override ov (k, d) = Inr (k, s)" "k \<notin> set (map fst ov)" for k d s
  proof -
    have "get_or ov k (PInt (slo_seconds d)) = PInt (slo_seconds d)"
      using that(2) by (simp add: get_or_def map_of_eq_None_iff [THEN iffD2])
    with that(1) show ?thesis by (auto simp: slo_override_def split: if_splits)
  qed
  ultimately show ?thesis
    using build_slos_keys [OF assms] by (fastforce dest: slo_override_Inr)
qed

theorem overridden_slos_bounded_witness:
  "\<exists>slos. build_liveness_slos (Some [(''audit_lease'', PInt 60)]) = Inr slos
     \<and> map fst slos = map fst LIVENESS_SLOS"
proof -
  have "\<exists>slos. build_liveness_slos (Some [(''audit_lease'', PInt 60)]) = Inr slos"
    by (simp add: build_liveness_slos_def LIVENESS_SLOS_def mk_slo_def slo_override_def)
  then show ?thesis using overridden_slos_bounded by blast
qed

text \<open>A reason that \<open>build_workflow_reason\<close> returns has no violation under the same overrides.\<close>

theorem built_reason_validates:
  assumes "build_workflow_reason code status (Aware t) ev secs ov = Inr r"
    and "min_instant \<le> t" and "t \<le> max_instant"
  shows "validate_workflow_reason r ov = Inr []"
  using assms(1)
proof (cases rule: build_reasonE)
  case (1 d slos slo t' n u)
  have u: "u = t + n * second_us" "min_instant \<le> u" "u \<le> max_instant"
    using 1 by (auto dest: add_seconds_Inr)
  have lt: "t < u" using 1 by (auto intro: add_seconds_strict)
  have p: "parse_time (PStr (render_time t)) = Inr t" "parse_time (PStr (render_time u)) = Inr u"
    using assms u by (simp_all add: parse_render)
  have d: "reason_definition_for (rd_code d) = Some d"
    using 1(1) reason_row(1) by fastforce
  have "u - t \<le> slo_seconds slo * second_us" using u(1) 1 by (simp add: second_us_def)
  with 1 lt p d show ?thesis by (simp add: validate_workflow_reason_def Let_def)
qed

theorem built_reason_validates_witness:
  "\<exists>r. build_workflow_reason (PStr '' dispatch.eligible'') (PStr ''Open'') (Aware 0)
     [(''candidate_generation'', PInt 3)] (Some 60) None = Inr r
     \<and> validate_workflow_reason r None = Inr []"
  using sample_reason built_reason_validates [OF _ instant_0] by blast

text \<open>The JSON form of a built reason parses back to it, with its evidence in key order.\<close>

theorem built_reason_roundtrip:
  assumes "build_workflow_reason code status (Aware t) ev secs ov = Inr r"
    and "min_instant \<le> t" and "t \<le> max_instant"
  shows "reason_from_dict (reason_to_dict r) = Inr (r\<lparr>wr_evidence := sort_key fst ev\<rparr>)"
  using assms(1)
proof (cases rule: build_reasonE)
  case (1 d slos slo t' n u)
  have u: "u = t + n * second_us" "min_instant \<le> u" "u \<le> max_instant"
    using 1 by (auto dest: add_seconds_Inr)
  have lt: "t < u" using 1 by (auto intro: add_seconds_strict)
  have p: "parse_time (PStr (render_time t)) = Inr t" "parse_time (PStr (render_time u)) = Inr u"
    using assms u by (simp_all add: parse_render)
  have c: "rd_code d = text_of code" "reason_definition_for (rd_code d) = Some d"
    "canonicalize_status status \<in> set CANONICAL_STATUSES"
    using 1(1,3) reason_row(1,2) by fastforce+
  have "text_of code \<noteq> []"
  proof
    assume "text_of code = []"
    with 1(1) have "[] \<in> set (map rd_code REASONS)" by (force simp: reason_definition_for_iff)
    then show False by (simp add: reason_codes)
  qed
  then have rc: "required_text (PStr (rd_code d)) = Inr (rd_code d)"
    by (simp add: c(1) required_text_def)
  have rem: "(let m = opt_str (rd_remedy d) in if m = PNone then None else Some (py_strip (py_str m)))
      = rd_remedy d"
    using remedy_stripped [OF 1(1)] by (cases "rd_remedy d") simp_all
  show ?thesis
    using 1 c rc lt p rem
    by (simp add: reason_to_dict_def reason_from_dict_def schema_version_of_def)
qed

theorem built_reason_roundtrip_witness:
  "\<exists>r. build_workflow_reason (PStr '' dispatch.eligible'') (PStr ''Open'') (Aware 0)
     [(''candidate_generation'', PInt 3)] (Some 60) None = Inr r
     \<and> reason_from_dict (reason_to_dict r) = Inr (r\<lparr>wr_evidence := [(''candidate_generation'', PInt 3)]\<rparr>)"
proof -
  from sample_reason obtain r where r: "build_workflow_reason (PStr '' dispatch.eligible'') (PStr ''Open'')
     (Aware 0) [(''candidate_generation'', PInt 3)] (Some 60) None = Inr r" by blast
  from built_reason_roundtrip [OF this instant_0] r show ?thesis by simp
qed

end
