(* ===== verification/TaskStatuses.thy ===== *)
theory TaskStatuses
  imports ContractProofs
begin

text \<open>
  oompah/statuses.py: the status of an epic derived from the statuses of its children, and what the
  derivation promises.
\<close>

definition ROLLUP_ACTIVE :: "string list" where
  "ROLLUP_ACTIVE = [IN_PROGRESS, NEEDS_ANSWER, NEEDS_HUMAN, NEEDS_CI_FIX, NEEDS_REBASE, IN_REVIEW,
     IN_VALIDATION, READY_TO_INTEGRATE, DUPLICATE_CANDIDATE]"

text \<open>A child's status is a \<open>str | None\<close>; proposed and decomposed children do not count.\<close>

definition counted_children :: "pyval list \<Rightarrow> string list" where
  "counted_children child_states = filter (\<lambda>s. s \<notin> {PROPOSED, DECOMPOSED})
     (map canonicalize_status (filter (\<lambda>s. s \<noteq> PNone) child_states))"

definition epic_rollup_state :: "pyval list \<Rightarrow> string option" where
  "epic_rollup_state child_states = (
     let canon = counted_children child_states in
     if canon = [] then None
     else (let cset = set canon in
       if cset \<subseteq> {MERGED, ARCHIVED} then Some MERGED
       else if cset \<subseteq> set TERMINAL_STATUSES then Some DONE
       else if cset \<inter> set ROLLUP_ACTIVE \<noteq> {} then Some IN_PROGRESS
       else if OPEN \<in> cset then Some OPEN
       else if cset \<subseteq> {PROPOSED, BACKLOG} then (if BACKLOG \<in> cset then Some BACKLOG else Some PROPOSED)
       else Some IN_PROGRESS))"

lemma terminal_statuses_eq: "set TERMINAL_STATUSES = {DONE, MERGED, ARCHIVED}"
  by (simp add: TERMINAL_STATUSES_def STATUS_CONTRACTS_def)

lemma counted_children_iff:
  "s \<in> set (counted_children cs) \<longleftrightarrow>
     (\<exists>c \<in> set cs. c \<noteq> PNone \<and> s = canonicalize_status c \<and> s \<noteq> PROPOSED \<and> s \<noteq> DECOMPOSED)"
  by (auto simp: counted_children_def)

text \<open>
  An epic rolls up to Merged or Done only when every counted child is finished: Merged exactly when
  some child counts and all that do are merged or archived, Done exactly when all are terminal and one
  is not yet merged; Backlog, Open and the absence of a state never hide a child that is being worked on.
\<close>

theorem rollup_never_overstates:
  "(epic_rollup_state cs = Some MERGED \<longleftrightarrow>
      counted_children cs \<noteq> [] \<and> set (counted_children cs) \<subseteq> {MERGED, ARCHIVED})
   \<and> (epic_rollup_state cs = Some DONE \<longleftrightarrow>
      DONE \<in> set (counted_children cs) \<and> set (counted_children cs) \<subseteq> {DONE, MERGED, ARCHIVED})
   \<and> (epic_rollup_state cs \<in> {None, Some BACKLOG, Some OPEN} \<longrightarrow>
      set (counted_children cs) \<inter> set ROLLUP_ACTIVE = {})
   \<and> epic_rollup_state cs \<notin> {Some PROPOSED, Some ARCHIVED}"
proof -
  let ?c = "set (counted_children cs)"
  have p: "PROPOSED \<notin> ?c" by (simp add: counted_children_def)
  have two: "x \<notin> C \<Longrightarrow> C \<subseteq> {x, y} \<Longrightarrow> C \<noteq> {} \<Longrightarrow> y \<in> C" for x y and C :: "string set" by blast
  have sub: "C \<subseteq> {y, z} \<Longrightarrow> C \<subseteq> {x, y, z}" for x y z and C :: "string set" by blast
  have one: "C \<subseteq> {x, y, z} \<Longrightarrow> \<not> C \<subseteq> {y, z} \<Longrightarrow> x \<in> C" for x y z and C :: "string set" by blast
  have dn: "DONE \<in> ?c \<Longrightarrow> \<not> ?c \<subseteq> {MERGED, ARCHIVED}" by auto
  note r = epic_rollup_state_def Let_def terminal_statuses_eq
  show ?thesis
    using two [OF p, of BACKLOG] one [of ?c DONE MERGED ARCHIVED] sub [of ?c MERGED ARCHIVED DONE] dn
    by (simp add: r) blast
qed

theorem rollup_never_overstates_witness:
  "epic_rollup_state [PStr MERGED, PNone, PStr PROPOSED] = Some MERGED
   \<and> epic_rollup_state [PStr MERGED, PStr BACKLOG] \<noteq> Some DONE"
proof -
  have a: "counted_children [PStr MERGED, PNone, PStr PROPOSED] = [MERGED]"
    by (simp add: counted_children_def CANONICAL_STATUSES_def)
  have b: "counted_children [PStr MERGED, PStr BACKLOG] = [MERGED, BACKLOG]"
    by (simp add: counted_children_def CANONICAL_STATUSES_def)
  show ?thesis
    using rollup_never_overstates [of "[PStr MERGED, PNone, PStr PROPOSED]"]
      rollup_never_overstates [of "[PStr MERGED, PStr BACKLOG]"] a b by simp
qed

text \<open>The order and the multiplicity of the children do not matter.\<close>

lemma rollup_set:
  assumes "set cs = set ds"
  shows "epic_rollup_state cs = epic_rollup_state ds"
proof -
  have s: "set (counted_children cs) = set (counted_children ds)"
    using assms by (simp add: counted_children_def)
  then have "counted_children cs = [] \<longleftrightarrow> counted_children ds = []" by (metis set_empty)
  with s show ?thesis by (simp add: epic_rollup_state_def)
qed

end
