(* ===== verification/FactModel.thy ===== *)
theory FactModel
  imports Complex_Main TimeRoundtrip Sha256 "HOL-Library.Product_Lexorder"
begin

text \<open>
  oompah/workflow_fact_model.py: the immutable evidence snapshot that the workflow evaluator reads.
  A constructor of the code is a fallible function that validates and normalises its arguments; the
  records hold what \<open>__post_init__\<close> leaves in the object.  Timestamps are the normalised ISO-8601
  text, values are frozen, revisions are SHA-256 digests of canonical JSON.

  An enumeration argument (\<open>FactDomain | str\<close>) is its string value, as \<open>str\<close> enumerations compare and
  convert by value.
\<close>

section \<open>Digests\<close>

definition canonical_json :: "pyval \<Rightarrow> string" where
  "canonical_json v = json_dumps (thaw v)"

definition digest :: "pyval \<Rightarrow> string" where
  "digest v = sha256_hex (canonical_json v)"

section \<open>Enumerations\<close>

datatype fact_domain =
    Dom_TASK | Dom_DEPENDENCIES | Dom_CONTAINMENT | Dom_INTEGRATION | Dom_TERMINAL_AUDIT
  | Dom_REVIEW_CI | Dom_LANDING | Dom_IMPLEMENTATION_AUTHORITY | Dom_DUPLICATE_INVESTIGATION
  | Dom_RETRY_BUDGET | Dom_CONFIG

fun fact_domain_value :: "fact_domain \<Rightarrow> string" where
  "fact_domain_value Dom_TASK = ''task''"
| "fact_domain_value Dom_DEPENDENCIES = ''dependencies''"
| "fact_domain_value Dom_CONTAINMENT = ''containment''"
| "fact_domain_value Dom_INTEGRATION = ''integration''"
| "fact_domain_value Dom_TERMINAL_AUDIT = ''terminal_audit''"
| "fact_domain_value Dom_REVIEW_CI = ''review_ci''"
| "fact_domain_value Dom_LANDING = ''landing''"
| "fact_domain_value Dom_IMPLEMENTATION_AUTHORITY = ''implementation_authority''"
| "fact_domain_value Dom_DUPLICATE_INVESTIGATION = ''duplicate_investigation''"
| "fact_domain_value Dom_RETRY_BUDGET = ''retry_budget''"
| "fact_domain_value Dom_CONFIG = ''config''"

text \<open>\<open>REQUIRED_FACT_DOMAINS\<close>, in the order of the values.\<close>

definition FACT_DOMAINS :: "fact_domain list" where
  "FACT_DOMAINS = [Dom_CONFIG, Dom_CONTAINMENT, Dom_DEPENDENCIES, Dom_DUPLICATE_INVESTIGATION,
     Dom_IMPLEMENTATION_AUTHORITY, Dom_INTEGRATION, Dom_LANDING, Dom_RETRY_BUDGET, Dom_REVIEW_CI,
     Dom_TASK, Dom_TERMINAL_AUDIT]"

datatype fact_state = State_KNOWN | State_MISSING | State_STALE | State_ERROR

fun fact_state_value :: "fact_state \<Rightarrow> string" where
  "fact_state_value State_KNOWN = ''known''"
| "fact_state_value State_MISSING = ''missing''"
| "fact_state_value State_STALE = ''stale''"
| "fact_state_value State_ERROR = ''error''"

definition FACT_STATES :: "fact_state list" where
  "FACT_STATES = [State_KNOWN, State_MISSING, State_STALE, State_ERROR]"

datatype landing_state = Landing_LANDED | Landing_NOT_LANDED | Landing_UNKNOWN

fun landing_state_value :: "landing_state \<Rightarrow> string" where
  "landing_state_value Landing_LANDED = ''landed''"
| "landing_state_value Landing_NOT_LANDED = ''not_landed''"
| "landing_state_value Landing_UNKNOWN = ''unknown''"

definition LANDING_STATES :: "landing_state list" where
  "LANDING_STATES = [Landing_LANDED, Landing_NOT_LANDED, Landing_UNKNOWN]"

text \<open>\<open>Enum(value)\<close> for a string enumeration: the member with that value, else a ValueError.\<close>

definition enum_of :: "('a \<Rightarrow> string) \<Rightarrow> 'a list \<Rightarrow> pyval \<Rightarrow> 'a result" where
  "enum_of val members v = (case find (\<lambda>m. v = PStr (val m)) members of
     None \<Rightarrow> Inl ValueError | Some m \<Rightarrow> Inr m)"

definition fact_domain_of :: "pyval \<Rightarrow> fact_domain result" where
  "fact_domain_of = enum_of fact_domain_value FACT_DOMAINS"

definition fact_state_of :: "pyval \<Rightarrow> fact_state result" where
  "fact_state_of = enum_of fact_state_value FACT_STATES"

definition landing_state_of :: "pyval \<Rightarrow> landing_state result" where
  "landing_state_of = enum_of landing_state_value LANDING_STATES"

section \<open>Observations\<close>

text \<open>A timestamp argument, parsed and normalised.\<close>

definition normal_time :: "pyval \<Rightarrow> string result" where
  "normal_time v = ebind (parse_time v) (\<lambda>t. Inr (render_time t))"

record fact_observation =
  fo_domain :: fact_domain
  fo_state :: fact_state
  fo_value :: pyval
  fo_observed_at :: string
  fo_source :: string
  fo_error_code :: "string option"
  fo_revision :: string
  fo_schema_version :: pyval

abbreviation WORKFLOW_FACTS_SCHEMA_VERSION :: pyval where
  "WORKFLOW_FACTS_SCHEMA_VERSION \<equiv> PInt 1"

abbreviation LANDING_FACT_SCHEMA_VERSION :: pyval where
  "LANDING_FACT_SCHEMA_VERSION \<equiv> PInt 1"

definition compute_revision ::
  "pyval \<Rightarrow> fact_domain \<Rightarrow> fact_state \<Rightarrow> pyval \<Rightarrow> string \<Rightarrow> string option \<Rightarrow> string" where
  "compute_revision schema domain state value source error_code = digest (PDict [
     (''schema_version'', schema),
     (''domain'', PStr (fact_domain_value domain)),
     (''state'', PStr (fact_state_value state)),
     (''value'', value),
     (''source'', PStr source),
     (''error_code'', opt_str error_code)])"

text \<open>\<open>FactObservation.__post_init__\<close>.\<close>

definition make_observation ::
  "pyval \<Rightarrow> pyval \<Rightarrow> pyval \<Rightarrow> pyval \<Rightarrow> pyval \<Rightarrow> pyval \<Rightarrow> pyval \<Rightarrow> pyval \<Rightarrow> fact_observation result" where
  "make_observation domain state value observed_at source error_code revision schema =
     ebind (fact_domain_of domain) (\<lambda>d.
     ebind (fact_state_of state) (\<lambda>s.
     ebind (normal_time observed_at) (\<lambda>when.
     ebind (required_text source) (\<lambda>src.
     let err = optional_text error_code; frozen = freeze value;
         expected = compute_revision schema d s frozen src err in
     if \<not> py_eq schema WORKFLOW_FACTS_SCHEMA_VERSION then Inl ValueError
     else if s = State_MISSING \<and> frozen \<noteq> PNone then Inl ValueError
     else if s \<in> {State_KNOWN, State_STALE} \<and> frozen = PNone then Inl ValueError
     else if s = State_ERROR \<and> err = None then Inl ValueError
     else if s \<noteq> State_ERROR \<and> err \<noteq> None then Inl ValueError
     else if revision \<noteq> PNone \<and> py_str revision \<noteq> expected then Inl ValueError
     else Inr \<lparr>fo_domain = d, fo_state = s, fo_value = frozen, fo_observed_at = when, fo_source = src,
       fo_error_code = err, fo_revision = expected, fo_schema_version = schema\<rparr>))))"

text \<open>The four named constructors.\<close>

definition observation_known :: "fact_domain \<Rightarrow> pyval \<Rightarrow> pyval \<Rightarrow> pyval \<Rightarrow> fact_observation result" where
  "observation_known domain value observed_at source =
     make_observation (PStr (fact_domain_value domain)) (PStr ''known'') value observed_at source
       PNone PNone WORKFLOW_FACTS_SCHEMA_VERSION"

definition observation_missing :: "fact_domain \<Rightarrow> pyval \<Rightarrow> pyval \<Rightarrow> fact_observation result" where
  "observation_missing domain observed_at source =
     make_observation (PStr (fact_domain_value domain)) (PStr ''missing'') PNone observed_at source
       PNone PNone WORKFLOW_FACTS_SCHEMA_VERSION"

definition observation_stale :: "fact_domain \<Rightarrow> pyval \<Rightarrow> pyval \<Rightarrow> pyval \<Rightarrow> fact_observation result" where
  "observation_stale domain value observed_at source =
     make_observation (PStr (fact_domain_value domain)) (PStr ''stale'') value observed_at source
       PNone PNone WORKFLOW_FACTS_SCHEMA_VERSION"

definition observation_error :: "fact_domain \<Rightarrow> pyval \<Rightarrow> pyval \<Rightarrow> pyval \<Rightarrow> fact_observation result" where
  "observation_error domain observed_at source error_code =
     make_observation (PStr (fact_domain_value domain)) (PStr ''error'') PNone observed_at source
       error_code PNone WORKFLOW_FACTS_SCHEMA_VERSION"

definition observation_to_dict :: "fact_observation \<Rightarrow> pyval" where
  "observation_to_dict o' = PDict [
     (''schema_version'', fo_schema_version o'),
     (''domain'', PStr (fact_domain_value (fo_domain o'))),
     (''state'', PStr (fact_state_value (fo_state o'))),
     (''value'', thaw (fo_value o')),
     (''observed_at'', PStr (fo_observed_at o')),
     (''source'', PStr (fo_source o')),
     (''error_code'', opt_str (fo_error_code o')),
     (''revision'', PStr (fo_revision o'))]"

text \<open>\<open>cls(**dict(raw))\<close>: a TypeError for an unknown or a missing keyword.\<close>

definition keywords_ok :: "string list \<Rightarrow> string list \<Rightarrow> (string \<times> pyval) list \<Rightarrow> bool" where
  "keywords_ok required optional raw = (set required \<subseteq> set (map fst raw)
     \<and> set (map fst raw) \<subseteq> set (required @ optional))"

definition observation_from_dict :: "pyval \<Rightarrow> fact_observation result" where
  "observation_from_dict v = (case mapping_of v of None \<Rightarrow> Inl ValueError | Some raw \<Rightarrow>
     if \<not> keywords_ok [''domain'', ''state'', ''value'', ''observed_at'', ''source'']
            [''error_code'', ''revision'', ''schema_version''] raw then Inl TypeError
     else make_observation (getv raw ''domain'') (getv raw ''state'') (getv raw ''value'')
            (getv raw ''observed_at'') (getv raw ''source'') (getv raw ''error_code'')
            (getv raw ''revision'') (get_or raw ''schema_version'' WORKFLOW_FACTS_SCHEMA_VERSION))"

section \<open>Landing facts\<close>

record landing_fact =
  lf_source :: string
  lf_target :: string
  lf_revision :: "string option"
  lf_proof :: pyval
  lf_observed_at :: string
  lf_project_id :: string
  lf_evidence_revision :: string
  lf_state :: landing_state
  lf_durable :: pyval
  lf_error_code :: "string option"
  lf_schema_version :: pyval

definition compute_evidence_revision ::
  "pyval \<Rightarrow> string \<Rightarrow> string \<Rightarrow> string \<Rightarrow> string option \<Rightarrow> landing_state \<Rightarrow> pyval \<Rightarrow> pyval \<Rightarrow>
   string option \<Rightarrow> string" where
  "compute_evidence_revision schema source target project_id revision state proof' durable error_code =
     digest (PDict [
       (''schema_version'', schema),
       (''source'', PStr source),
       (''target'', PStr target),
       (''project_id'', PStr project_id),
       (''revision'', opt_str revision),
       (''state'', PStr (landing_state_value state)),
       (''proof'', proof'),
       (''durable'', durable),
       (''error_code'', opt_str error_code)])"

text \<open>\<open>LandingFact.__post_init__\<close>.\<close>

definition make_landing ::
  "pyval \<Rightarrow> pyval \<Rightarrow> pyval \<Rightarrow> pyval \<Rightarrow> pyval \<Rightarrow> pyval \<Rightarrow> pyval \<Rightarrow> pyval \<Rightarrow> pyval \<Rightarrow> pyval \<Rightarrow> pyval \<Rightarrow>
   landing_fact result" where
  "make_landing source target revision proof' observed_at project_id evidence_revision state durable
     error_code schema =
     ebind (required_text source) (\<lambda>src.
     ebind (required_text target) (\<lambda>tgt.
     ebind (required_text project_id) (\<lambda>pid.
     let rev = optional_text revision in
     ebind (landing_state_of state) (\<lambda>s.
     ebind (normal_time observed_at) (\<lambda>when.
     if \<not> py_eq schema LANDING_FACT_SCHEMA_VERSION then Inl ValueError
     else (let frozen = freeze proof' in
       case mapping_of frozen of None \<Rightarrow> Inl ValueError | Some p \<Rightarrow>
       if optional_text (getv p ''kind'') = None then Inl ValueError
       else (let err = optional_text error_code;
                 expected = compute_evidence_revision schema src tgt pid rev s frozen durable err in
         if err \<noteq> None \<and> s \<noteq> Landing_UNKNOWN then Inl ValueError
         else if truthy durable \<and> s \<noteq> Landing_LANDED then Inl ValueError
         else if evidence_revision \<noteq> PNone \<and> evidence_revision \<noteq> PStr expected then Inl ValueError
         else Inr \<lparr>lf_source = src, lf_target = tgt, lf_revision = rev, lf_proof = frozen,
           lf_observed_at = when, lf_project_id = pid, lf_evidence_revision = expected, lf_state = s,
           lf_durable = durable, lf_error_code = err, lf_schema_version = schema\<rparr>)))))))"

definition landing_to_dict :: "landing_fact \<Rightarrow> pyval" where
  "landing_to_dict l = PDict [
     (''schema_version'', lf_schema_version l),
     (''source'', PStr (lf_source l)),
     (''target'', PStr (lf_target l)),
     (''project_id'', PStr (lf_project_id l)),
     (''revision'', opt_str (lf_revision l)),
     (''proof'', thaw (lf_proof l)),
     (''observed_at'', PStr (lf_observed_at l)),
     (''evidence_revision'', PStr (lf_evidence_revision l)),
     (''state'', PStr (landing_state_value (lf_state l))),
     (''durable'', lf_durable l),
     (''error_code'', opt_str (lf_error_code l))]"

definition landing_from_dict :: "pyval \<Rightarrow> landing_fact result" where
  "landing_from_dict v = (case mapping_of v of None \<Rightarrow> Inl ValueError | Some raw \<Rightarrow>
     if \<not> keywords_ok [''source'', ''target'', ''revision'', ''proof'', ''observed_at'', ''project_id'']
            [''evidence_revision'', ''state'', ''durable'', ''error_code'', ''schema_version''] raw
     then Inl TypeError
     else make_landing (getv raw ''source'') (getv raw ''target'') (getv raw ''revision'')
            (getv raw ''proof'') (getv raw ''observed_at'') (getv raw ''project_id'')
            (getv raw ''evidence_revision'') (get_or raw ''state'' (PStr ''unknown''))
            (get_or raw ''durable'' (PBool False)) (getv raw ''error_code'')
            (get_or raw ''schema_version'' LANDING_FACT_SCHEMA_VERSION))"

section \<open>Collected values and landing requests\<close>

text \<open>The staleness bound is a \<open>float\<close>; \<open>rat\<close> holds its exact value.\<close>

record collected_value =
  cv_value :: pyval
  cv_observed_at :: string
  cv_source :: string
  cv_stale_after_seconds :: "rat option"

definition make_collected :: "pyval \<Rightarrow> pyval \<Rightarrow> pyval \<Rightarrow> rat option \<Rightarrow> collected_value result" where
  "make_collected value observed_at source stale_after =
     ebind (normal_time observed_at) (\<lambda>when.
     ebind (required_text source) (\<lambda>src.
     if (case stale_after of None \<Rightarrow> False | Some n \<Rightarrow> n \<le> 0) then Inl ValueError
     else Inr \<lparr>cv_value = value, cv_observed_at = when, cv_source = src,
       cv_stale_after_seconds = stale_after\<rparr>))"

record landing_request =
  lr_source :: string
  lr_target :: string
  lr_revision :: "string option"
  lr_prior :: "landing_fact option"
  lr_prefer_live_source :: bool
  lr_authoritative_target :: bool
  lr_trusted_target_revision :: "string option"

definition is_hex_char :: "char \<Rightarrow> bool" where
  "is_hex_char c = (c \<in> set ''0123456789abcdefABCDEF'')"

text \<open>\<open>_GIT_REVISION_RE.fullmatch\<close>.\<close>

definition git_revision :: "string \<Rightarrow> bool" where
  "git_revision s = (7 \<le> length s \<and> length s \<le> 64 \<and> list_all is_hex_char s)"

definition safe_ref :: "pyval \<Rightarrow> string result" where
  "safe_ref v = ebind (required_text v) (\<lambda>s.
     if starts_with s ''-'' \<or> CHR 0x00 \<in> set s \<or> CHR 0x0D \<in> set s \<or> CHR 0x0A \<in> set s
     then Inl ValueError else Inr s)"

definition git_revision_of :: "pyval \<Rightarrow> string option result" where
  "git_revision_of v = (case optional_text v of None \<Rightarrow> Inr None
   | Some s \<Rightarrow> if git_revision s then Inr (Some (py_lower s)) else Inl ValueError)"

definition make_landing_request ::
  "pyval \<Rightarrow> pyval \<Rightarrow> pyval \<Rightarrow> landing_fact option \<Rightarrow> bool \<Rightarrow> bool \<Rightarrow> pyval \<Rightarrow> landing_request result" where
  "make_landing_request source target revision prior prefer_live authoritative trusted =
     ebind (safe_ref source) (\<lambda>src.
     ebind (safe_ref target) (\<lambda>tgt.
     ebind (git_revision_of revision) (\<lambda>rev.
     ebind (git_revision_of trusted) (\<lambda>trev.
     Inr \<lparr>lr_source = src, lr_target = tgt, lr_revision = rev, lr_prior = prior,
       lr_prefer_live_source = prefer_live, lr_authoritative_target = authoritative,
       lr_trusted_target_revision = trev\<rparr>))))"

section \<open>Snapshots\<close>

text \<open>
  The constructor accepts a snapshot only when it has exactly one observation for each domain, so
  \<open>wf_fact\<close> is a function of the domain.
\<close>

record workflow_facts =
  wf_project_id :: string
  wf_task_id :: string
  wf_collected_at :: string
  wf_fact :: "fact_domain \<Rightarrow> fact_observation"
  wf_landings :: "landing_fact list"
  wf_facts_version :: string
  wf_schema_version :: pyval

definition landing_key :: "landing_fact \<Rightarrow> string \<times> string \<times> string" where
  "landing_key l = (lf_source l, lf_target l, case lf_revision l of None \<Rightarrow> [] | Some r \<Rightarrow> r)"

definition compute_facts_version ::
  "pyval \<Rightarrow> string \<Rightarrow> string \<Rightarrow> (fact_domain \<Rightarrow> fact_observation) \<Rightarrow> landing_fact list \<Rightarrow> string" where
  "compute_facts_version schema project_id task_id obs landings = digest (PDict [
     (''schema_version'', schema),
     (''project_id'', PStr project_id),
     (''task_id'', PStr task_id),
     (''observations'', PDict (map (\<lambda>d. (fact_domain_value d, PStr (fo_revision (obs d)))) FACT_DOMAINS)),
     (''landings'', PList (map (\<lambda>l. PStr (lf_evidence_revision l)) landings))])"

text \<open>\<open>list(v)\<close>.\<close>

fun py_list :: "pyval \<Rightarrow> pyval list result" where
  "py_list (PTuple xs) = Inr xs"
| "py_list (PList xs) = Inr xs"
| "py_list (PStr s) = Inr (map (\<lambda>c. PStr [c]) s)"
| "py_list (PDict kvs) = Inr (map (PStr \<circ> fst) kvs)"
| "py_list (PProxy kvs) = Inr (map (PStr \<circ> fst) kvs)"
| "py_list _ = Inl TypeError"

text \<open>The normalised observations, in the order of the argument.\<close>

definition check_observation :: "pyval \<times> fact_observation \<Rightarrow> (fact_domain \<times> fact_observation) result" where
  "check_observation ko = (case ko of (key, o') \<Rightarrow>
     ebind (fact_domain_of key) (\<lambda>d. if fo_domain o' \<noteq> d then Inl ValueError else Inr (d, o')))"

text \<open>The landing observation must list the evidence revisions of the landings.\<close>

definition check_landing_observation :: "fact_observation \<Rightarrow> landing_fact list \<Rightarrow> unit result" where
  "check_landing_observation o' landings =
     (if fo_state o' = State_KNOWN then
        (case mapping_of (fo_value o') of None \<Rightarrow> Inl ValueError | Some m \<Rightarrow>
           ebind (py_list (get_or m ''evidence_revisions'' (PTuple []))) (\<lambda>observed.
             if observed \<noteq> map (\<lambda>l. PStr (lf_evidence_revision l)) landings then Inl ValueError
             else Inr ()))
      else if landings \<noteq> [] then Inl ValueError else Inr ())"

text \<open>\<open>WorkflowFacts.__post_init__\<close>.\<close>

definition make_facts ::
  "pyval \<Rightarrow> pyval \<Rightarrow> pyval \<Rightarrow> (pyval \<times> fact_observation) list \<Rightarrow> landing_fact list \<Rightarrow> pyval \<Rightarrow> pyval \<Rightarrow>
   workflow_facts result" where
  "make_facts project_id task_id collected_at observations landings facts_version schema =
     ebind (required_text project_id) (\<lambda>pid.
     ebind (required_text task_id) (\<lambda>tid.
     ebind (normal_time collected_at) (\<lambda>when.
     if \<not> py_eq schema WORKFLOW_FACTS_SCHEMA_VERSION then Inl ValueError
     else ebind (eseq check_observation observations) (\<lambda>pairs.
       let normalized = map_of (rev pairs) in
       if \<not> list_all (\<lambda>d. normalized d \<noteq> None) FACT_DOMAINS then Inl ValueError
       else if \<not> list_all (\<lambda>l. lf_project_id l = pid) landings then Inl ValueError
       else (let obs = (\<lambda>d. the (normalized d)); ls = sort_key landing_key landings;
                 expected = compute_facts_version schema pid tid obs ls in
         ebind (check_landing_observation (obs Dom_LANDING) ls) (\<lambda>_.
         if facts_version \<noteq> PNone \<and> facts_version \<noteq> PStr expected then Inl ValueError
         else Inr \<lparr>wf_project_id = pid, wf_task_id = tid, wf_collected_at = when, wf_fact = obs,
           wf_landings = ls, wf_facts_version = expected, wf_schema_version = schema\<rparr>))))))"

definition facts_to_dict :: "workflow_facts \<Rightarrow> pyval" where
  "facts_to_dict f = PDict [
     (''schema_version'', wf_schema_version f),
     (''project_id'', PStr (wf_project_id f)),
     (''task_id'', PStr (wf_task_id f)),
     (''collected_at'', PStr (wf_collected_at f)),
     (''facts_version'', PStr (wf_facts_version f)),
     (''observations'', PDict (map (\<lambda>d. (fact_domain_value d, observation_to_dict (wf_fact f d))) FACT_DOMAINS)),
     (''landings'', PList (map landing_to_dict (wf_landings f)))]"

text \<open>\<open>WorkflowFacts.from_dict\<close>; \<open>landings\<close> must be a list, not a tuple.\<close>

definition facts_from_dict :: "pyval \<Rightarrow> workflow_facts result" where
  "facts_from_dict v = (case mapping_of v of None \<Rightarrow> Inl ValueError | Some raw \<Rightarrow>
     (case (mapping_of (getv raw ''observations''), get_or raw ''landings'' (PList [])) of
        (Some observations, PList landings) \<Rightarrow>
          ebind (eseq (\<lambda>(k, o'). ebind (fact_domain_of (PStr k)) (\<lambda>d.
              ebind (observation_from_dict o') (\<lambda>x. Inr (PStr (fact_domain_value d), x)))) observations)
            (\<lambda>obs.
          ebind (eseq landing_from_dict landings) (\<lambda>ls.
          make_facts (getv raw ''project_id'') (getv raw ''task_id'') (getv raw ''collected_at'')
            obs ls (getv raw ''facts_version'')
            (get_or raw ''schema_version'' WORKFLOW_FACTS_SCHEMA_VERSION)))
      | _ \<Rightarrow> Inl ValueError))"

definition stable_json :: "workflow_facts \<Rightarrow> string" where
  "stable_json f = canonical_json (facts_to_dict f)"

end
