(* ===== verification/FactProofs.thy ===== *)
theory FactProofs
  imports FactModel
begin

text \<open>
  Facts of oompah/workflow_fact_model.py: what a constructor guarantees of the object it returns, and
  that the JSON forms of observations, landings and snapshots parse back to the same object.  The
  parsers share one contract, the locale \<open>json_codec\<close>.
\<close>

section \<open>JSON codecs\<close>

text \<open>
  The contract between an object and its JSON form: on valid objects parsing undoes rendering.
  \<open>WorkflowFacts.from_dict\<close> relies on the codecs of observations and landings only through it.
\<close>

locale json_codec =
  fixes enc :: "'a \<Rightarrow> pyval" and dec :: "pyval \<Rightarrow> 'a result" and valid :: "'a \<Rightarrow> bool"
  assumes decode_encode: "valid x \<Longrightarrow> dec (enc x) = Inr x"
begin

lemma encode_inj: "valid x \<Longrightarrow> valid y \<Longrightarrow> enc x = enc y \<Longrightarrow> x = y"
  by (metis decode_encode sum.inject(2))

lemma decode_list: "list_all valid xs \<Longrightarrow> eseq dec (map enc xs) = Inr xs"
  by (induction xs) (simp_all add: decode_encode)

end

section \<open>Freezing\<close>

lemma sort_key_sorted_id: "sorted (map f xs) \<Longrightarrow> sort_key f xs = xs"
  by (induction xs) (simp_all add: insort_is_Cons)

lemma sort_key_twice [simp]: "sort_key f (sort_key f xs) = sort_key f xs"
  by (simp add: sort_key_sorted_id)

lemma sort_key_map_snd:
  "sort_key fst (map (map_prod id g) (sort_key fst xs)) = map (map_prod id g) (sort_key fst xs)"
  by (rule sort_key_sorted_id) (simp add: comp_def)

lemma map_snd_sort_key:
  fixes xs :: "('k :: linorder \<times> 'a) list" and g :: "'a \<Rightarrow> 'b"
  shows "map (map_prod id g) (sort_key fst xs) = sort_key fst (map (map_prod id g) xs)"
proof -
  have ins: "map (map_prod id g) (insort_key fst x ys) = insort_key fst (map_prod id g x) (map (map_prod id g) ys)"
    for x and ys :: "('k \<times> 'a) list" by (induction ys) auto
  show ?thesis by (induction xs) (simp, simp only: sort_key_simps list.map ins)
qed

lemma freeze_thaw_freeze: "freeze (thaw (freeze v)) = freeze v"
proof (induction v)
  case (PDict kvs)
  then have "map (map_prod id freeze) (map (map_prod id thaw) (map (map_prod id freeze) kvs))
      = map (map_prod id freeze) kvs"
    by (auto simp: snds.simps)
  then show ?case
    by (simp only: freeze.simps thaw.simps map_snd_sort_key sort_key_twice)
next
  case (PProxy kvs)
  then have "map (map_prod id freeze) (map (map_prod id thaw) (map (map_prod id freeze) kvs))
      = map (map_prod id freeze) kvs"
    by (auto simp: snds.simps)
  then show ?case
    by (simp only: freeze.simps thaw.simps map_snd_sort_key sort_key_twice)
qed simp_all

lemma thaw_eq_PNone_iff [simp]: "thaw v = PNone \<longleftrightarrow> v = PNone"
  by (cases v) auto

section \<open>Enumerations and timestamps\<close>

lemma fact_domain_of_value [simp]: "fact_domain_of (PStr (fact_domain_value d)) = Inr d"
  by (cases d) (simp_all add: fact_domain_of_def enum_of_def FACT_DOMAINS_def)

lemma fact_state_of_value [simp]: "fact_state_of (PStr (fact_state_value s)) = Inr s"
  by (cases s) (simp_all add: fact_state_of_def enum_of_def FACT_STATES_def)

lemma fact_state_of_text [simp]:
  "fact_state_of (PStr ''known'') = Inr State_KNOWN"
  "fact_state_of (PStr ''missing'') = Inr State_MISSING"
  "fact_state_of (PStr ''stale'') = Inr State_STALE"
  "fact_state_of (PStr ''error'') = Inr State_ERROR"
  by (simp_all add: fact_state_of_def enum_of_def FACT_STATES_def)

lemma optional_text_PNone [simp]: "optional_text PNone = None"
  by (simp add: optional_text_def)

lemma landing_state_of_value [simp]: "landing_state_of (PStr (landing_state_value s)) = Inr s"
  by (cases s) (simp_all add: landing_state_of_def enum_of_def LANDING_STATES_def)

lemma enum_of_Inr: "enum_of val ms v = Inr m \<Longrightarrow> v = PStr (val m) \<and> m \<in> set ms"
  by (auto simp: enum_of_def find_Some_iff split: option.splits)

lemma FACT_DOMAINS_UNIV: "set FACT_DOMAINS = UNIV"
proof -
  have "d \<in> set FACT_DOMAINS" for d by (cases d) (simp_all add: FACT_DOMAINS_def)
  then show ?thesis by blast
qed

lemma fact_domain_value_inj [simp]: "fact_domain_value d = fact_domain_value e \<longleftrightarrow> d = e"
  by (metis fact_domain_of_value sum.inject(2))

lemma normal_time_idem: "normal_time v = Inr s \<Longrightarrow> normal_time (PStr s) = Inr s"
  by (auto simp: normal_time_def ebind_eq_Inr_iff dest: parse_time_range intro!: parse_render)

lemma required_text_PStr: "required_text v = Inr t \<Longrightarrow> required_text (PStr t) = Inr t"
  by (rule required_text_idem)

lemma optional_text_opt_str: "optional_text v = t \<Longrightarrow> optional_text (opt_str t) = t"
  using optional_text_idem by blast

section \<open>Observations\<close>

definition observation_ok :: "fact_observation \<Rightarrow> bool" where
  "observation_ok o' \<longleftrightarrow>
     (fo_state o' = State_MISSING \<longrightarrow> fo_value o' = PNone)
     \<and> (fo_state o' \<in> {State_KNOWN, State_STALE} \<longrightarrow> fo_value o' \<noteq> PNone)
     \<and> (fo_error_code o' \<noteq> None \<longleftrightarrow> fo_state o' = State_ERROR)
     \<and> fo_value o' = freeze (thaw (fo_value o'))
     \<and> normal_time (PStr (fo_observed_at o')) = Inr (fo_observed_at o')
     \<and> required_text (PStr (fo_source o')) = Inr (fo_source o')
     \<and> optional_text (opt_str (fo_error_code o')) = fo_error_code o'
     \<and> py_eq (fo_schema_version o') WORKFLOW_FACTS_SCHEMA_VERSION
     \<and> fo_revision o' = compute_revision (fo_schema_version o') (fo_domain o') (fo_state o')
          (fo_value o') (fo_source o') (fo_error_code o')"

lemma make_observationE:
  assumes "make_observation domain state value obs_at source err revision schema = Inr o'"
  obtains d s t src where
    "fact_domain_of domain = Inr d" "fact_state_of state = Inr s" "normal_time obs_at = Inr t"
    "required_text source = Inr src" "py_eq schema WORKFLOW_FACTS_SCHEMA_VERSION"
    "s = State_MISSING \<longrightarrow> value = PNone" "s \<in> {State_KNOWN, State_STALE} \<longrightarrow> value \<noteq> PNone"
    "optional_text err \<noteq> None \<longleftrightarrow> s = State_ERROR"
    "revision = PNone \<or> py_str revision = compute_revision schema d s (freeze value) src (optional_text err)"
    "o' = \<lparr>fo_domain = d, fo_state = s, fo_value = freeze value, fo_observed_at = t, fo_source = src,
       fo_error_code = optional_text err,
       fo_revision = compute_revision schema d s (freeze value) src (optional_text err),
       fo_schema_version = schema\<rparr>"
  using assms unfolding make_observation_def Let_def succeeds_iff
  by (elim exE conjE, intro that) auto

lemma make_observation_ok:
  assumes "make_observation domain state value obs_at source err revision schema = Inr o'"
  shows "observation_ok o'"
  using assms
  by (cases rule: make_observationE)
    (auto simp: observation_ok_def freeze_thaw_freeze optional_text_idem normal_time_idem
      required_text_idem)

lemma observation_decode_encode: "observation_ok o' \<Longrightarrow> observation_from_dict (observation_to_dict o') = Inr o'"
proof -
  assume ok: "observation_ok o'"
  have k: "keywords_ok [''domain'', ''state'', ''value'', ''observed_at'', ''source'']
      [''error_code'', ''revision'', ''schema_version'']
      [(''schema_version'', a), (''domain'', b), (''state'', c), (''value'', d), (''observed_at'', e),
       (''source'', f), (''error_code'', g), (''revision'', h)]" for a b c d e f g h
    by (simp add: keywords_ok_def)
  show ?thesis
    using ok unfolding observation_ok_def
    by (cases o'; cases "fo_state o'")
      (simp_all add: observation_from_dict_def observation_to_dict_def k make_observation_def Let_def)
qed

interpretation observation_codec: json_codec observation_to_dict observation_from_dict observation_ok
  by unfold_locales (rule observation_decode_encode)

section \<open>Landings\<close>

definition landing_ok :: "landing_fact \<Rightarrow> bool" where
  "landing_ok l \<longleftrightarrow>
     (truthy (lf_durable l) \<longrightarrow> lf_state l = Landing_LANDED)
     \<and> (lf_error_code l \<noteq> None \<longrightarrow> lf_state l = Landing_UNKNOWN)
     \<and> lf_proof l = freeze (thaw (lf_proof l))
     \<and> (\<exists>p. mapping_of (lf_proof l) = Some p \<and> optional_text (getv p ''kind'') \<noteq> None)
     \<and> normal_time (PStr (lf_observed_at l)) = Inr (lf_observed_at l)
     \<and> required_text (PStr (lf_source l)) = Inr (lf_source l)
     \<and> required_text (PStr (lf_target l)) = Inr (lf_target l)
     \<and> required_text (PStr (lf_project_id l)) = Inr (lf_project_id l)
     \<and> optional_text (opt_str (lf_revision l)) = lf_revision l
     \<and> optional_text (opt_str (lf_error_code l)) = lf_error_code l
     \<and> py_eq (lf_schema_version l) LANDING_FACT_SCHEMA_VERSION
     \<and> lf_evidence_revision l = compute_evidence_revision (lf_schema_version l) (lf_source l)
          (lf_target l) (lf_project_id l) (lf_revision l) (lf_state l) (lf_proof l) (lf_durable l)
          (lf_error_code l)"

lemma make_landing_ok:
  assumes "make_landing source target revision pr obs_at project_id ev state durable err schema = Inr l"
  shows "landing_ok l"
  using assms unfolding make_landing_def Let_def succeeds_iff
  by (elim exE conjE)
    (auto simp: landing_ok_def freeze_thaw_freeze optional_text_idem normal_time_idem
      required_text_idem)

lemma landing_decode_encode: "landing_ok l \<Longrightarrow> landing_from_dict (landing_to_dict l) = Inr l"
proof -
  assume ok: "landing_ok l"
  have k: "keywords_ok [''source'', ''target'', ''revision'', ''proof'', ''observed_at'', ''project_id'']
      [''evidence_revision'', ''state'', ''durable'', ''error_code'', ''schema_version'']
      [(''schema_version'', a1), (''source'', a2), (''target'', a3), (''project_id'', a4),
       (''revision'', a5), (''proof'', a6), (''observed_at'', a7), (''evidence_revision'', a8),
       (''state'', a9), (''durable'', a10), (''error_code'', a11)]" for a1 a2 a3 a4 a5 a6 a7 a8 a9 a10 a11
    by (simp add: keywords_ok_def)
  from ok obtain p where p: "mapping_of (lf_proof l) = Some p" "optional_text (getv p ''kind'') \<noteq> None"
    by (auto simp: landing_ok_def)
  have f: "freeze (thaw (lf_proof l)) = lf_proof l" using ok by (simp add: landing_ok_def)
  show ?thesis
    using ok p unfolding landing_ok_def
    by (auto simp add: landing_from_dict_def landing_to_dict_def k make_landing_def Let_def f)
qed

interpretation landing_codec: json_codec landing_to_dict landing_from_dict landing_ok
  by unfold_locales (rule landing_decode_encode)

section \<open>Snapshots\<close>

definition facts_ok :: "workflow_facts \<Rightarrow> bool" where
  "facts_ok f \<longleftrightarrow>
     (\<forall>d. fo_domain (wf_fact f d) = d \<and> observation_ok (wf_fact f d))
     \<and> list_all landing_ok (wf_landings f)
     \<and> list_all (\<lambda>l. lf_project_id l = wf_project_id f) (wf_landings f)
     \<and> sorted (map landing_key (wf_landings f))
     \<and> check_landing_observation (wf_fact f Dom_LANDING) (wf_landings f) = Inr ()
     \<and> required_text (PStr (wf_project_id f)) = Inr (wf_project_id f)
     \<and> required_text (PStr (wf_task_id f)) = Inr (wf_task_id f)
     \<and> normal_time (PStr (wf_collected_at f)) = Inr (wf_collected_at f)
     \<and> py_eq (wf_schema_version f) WORKFLOW_FACTS_SCHEMA_VERSION
     \<and> wf_facts_version f = compute_facts_version (wf_schema_version f) (wf_project_id f)
          (wf_task_id f) (wf_fact f) (wf_landings f)"

lemma check_observations_rows:
  assumes "eseq check_observation obs = Inr pairs" and "(d, o') \<in> set pairs"
  shows "fo_domain o' = d \<and> o' \<in> snd ` set obs"
proof -
  obtain x where "x \<in> set obs" "check_observation x = Inr (d, o')"
    using eseq_set [OF assms] .
  then show ?thesis
    by (auto simp: check_observation_def ebind_eq_Inr_iff split: prod.splits if_splits)
      (metis image_iff snd_conv)
qed

lemma make_facts_ok:
  assumes "make_facts project_id task_id collected_at obs landings version schema = Inr f"
    and "\<forall>ko \<in> set obs. observation_ok (snd ko)" and "list_all landing_ok landings"
  shows "facts_ok f"
proof -
  from assms(1) obtain pairs where pairs: "eseq check_observation obs = Inr pairs"
    and dom: "list_all (\<lambda>d. map_of (rev pairs) d \<noteq> None) FACT_DOMAINS"
    and f: "wf_fact f = (\<lambda>d. the (map_of (rev pairs) d))"
    unfolding make_facts_def Let_def succeeds_iff by fastforce
  have "fo_domain (wf_fact f d) = d \<and> observation_ok (wf_fact f d)" for d
  proof -
    have "map_of (rev pairs) d \<noteq> None" using dom FACT_DOMAINS_UNIV by (auto simp: list_all_iff)
    then obtain o' where o': "map_of (rev pairs) d = Some o'" by blast
    then have "(d, o') \<in> set pairs" by (auto dest: map_of_SomeD)
    with check_observations_rows [OF pairs this] assms(2) o' f show ?thesis by auto
  qed
  moreover have "list_all landing_ok (wf_landings f)"
    using assms(1,3) unfolding make_facts_def Let_def succeeds_iff
    by (elim exE conjE) (auto simp: list_all_iff)
  ultimately show ?thesis
    using assms(1) unfolding make_facts_def Let_def succeeds_iff facts_ok_def
    by (elim exE conjE) (auto simp: list_all_iff required_text_idem normal_time_idem)
qed

lemma facts_decode_encode:
  assumes "facts_ok f"
  shows "facts_from_dict (facts_to_dict f) = Inr f"
proof -
  have ob: "observation_from_dict (observation_to_dict (wf_fact f d)) = Inr (wf_fact f d)" for d
    using assms by (intro observation_codec.decode_encode) (simp add: facts_ok_def)
  define dec where "dec = (\<lambda>(k, o'). ebind (fact_domain_of (PStr k)) (\<lambda>d.
      ebind (observation_from_dict o') (\<lambda>x. Inr (PStr (fact_domain_value d), x))))"
  define enc where "enc = (\<lambda>d. (fact_domain_value d, observation_to_dict (wf_fact f d)))"
  have obs: "eseq dec (map enc ds) = Inr (map (\<lambda>d. (PStr (fact_domain_value d), wf_fact f d)) ds)" for ds
    by (induction ds) (simp_all add: dec_def enc_def ob)
  have check: "eseq check_observation (map (\<lambda>d. (PStr (fact_domain_value d), wf_fact f d)) ds)
      = Inr (map (\<lambda>d. (d, wf_fact f d)) ds)" for ds
    using assms by (induction ds) (simp_all add: check_observation_def facts_ok_def)
  have norm: "map_of (rev (map (\<lambda>d. (d, wf_fact f d)) FACT_DOMAINS)) = (\<lambda>d. Some (wf_fact f d))"
    using FACT_DOMAINS_UNIV by (simp add: rev_map fun_eq_iff map_of_map_restrict)
  have ls: "eseq landing_from_dict (map landing_to_dict (wf_landings f)) = Inr (wf_landings f)"
    using assms by (intro landing_codec.decode_list) (simp add: facts_ok_def)
  have sl: "sort_key landing_key (wf_landings f) = wf_landings f"
    using assms by (intro sort_key_sorted_id) (simp add: facts_ok_def)
  have "make_facts (PStr (wf_project_id f)) (PStr (wf_task_id f)) (PStr (wf_collected_at f))
      (map (\<lambda>d. (PStr (fact_domain_value d), wf_fact f d)) FACT_DOMAINS) (wf_landings f)
      (PStr (wf_facts_version f)) (wf_schema_version f) = Inr f"
    using assms unfolding facts_ok_def
    by (simp add: make_facts_def Let_def check norm sl list_all_iff)
  then show ?thesis
    unfolding facts_from_dict_def facts_to_dict_def
    by (simp add: obs [unfolded dec_def enc_def] ls del: list.map)
qed

interpretation facts_codec: json_codec facts_to_dict facts_from_dict facts_ok
  by unfold_locales (rule facts_decode_encode)

section \<open>A concrete snapshot\<close>

text \<open>Used by the witnesses: every domain answered that it has no evidence.\<close>

definition sample_time :: string where
  "sample_time = ''2024-02-29T12:00:00+00:00''"

lemma sample_time_parses: "parse_time (PStr sample_time) = Inr 1709208000000000"
  by (simp add: sample_time_def parse_time_def required_text_def Let_def py_strip_def expand_z_def
      fromisoformat_def separator_index_def parse_date_def take_digits_def is_digit_def digits_val_def
      digit_val_def date_ord_def char_eval parse_tod_def parse_clock_def parse_offset_def
      clock_us_def valid_clock_def ymd2ord_def days_before_year_def days_in_month_def
      days_before_month_simps is_leap_def epoch_ord_def day_us_def second_us_def check_instant_def
      min_instant_def max_instant_def)

definition sample_missing :: "fact_domain \<Rightarrow> fact_observation" where
  "sample_missing d = \<lparr>fo_domain = d, fo_state = State_MISSING, fo_value = PNone,
     fo_observed_at = render_time 1709208000000000, fo_source = ''collector'', fo_error_code = None,
     fo_revision = compute_revision (PInt 1) d State_MISSING PNone ''collector'' None,
     fo_schema_version = PInt 1\<rparr>"

lemma sample_missing_made:
  "make_observation (PStr (fact_domain_value d)) (PStr ''missing'') PNone (PStr sample_time)
     (PStr ''collector'') PNone PNone (PInt 1) = Inr (sample_missing d)"
  by (simp add: make_observation_def sample_missing_def normal_time_def sample_time_parses
      required_text_def py_strip_def char_eval py_eq_def Let_def)

definition sample_facts :: workflow_facts where
  "sample_facts = \<lparr>wf_project_id = ''proj'', wf_task_id = ''T-1'',
     wf_collected_at = render_time 1709208000000000, wf_fact = sample_missing, wf_landings = [],
     wf_facts_version = compute_facts_version (PInt 1) ''proj'' ''T-1'' sample_missing [],
     wf_schema_version = PInt 1\<rparr>"

lemma sample_facts_made:
  "make_facts (PStr ''proj'') (PStr ''T-1'') (PStr sample_time)
     (map (\<lambda>d. (PStr (fact_domain_value d), sample_missing d)) FACT_DOMAINS) [] PNone (PInt 1)
   = Inr sample_facts"
proof -
  have check: "eseq check_observation (map (\<lambda>d. (PStr (fact_domain_value d), sample_missing d)) ds)
      = Inr (map (\<lambda>d. (d, sample_missing d)) ds)" for ds
    by (induction ds) (simp_all add: check_observation_def sample_missing_def)
  have norm: "map_of (rev (map (\<lambda>d. (d, sample_missing d)) FACT_DOMAINS)) = (\<lambda>d. Some (sample_missing d))"
    using FACT_DOMAINS_UNIV by (simp add: rev_map fun_eq_iff map_of_map_restrict)
  show ?thesis
    by (simp add: make_facts_def sample_facts_def required_text_def py_strip_def char_eval
        normal_time_def sample_time_parses py_eq_def Let_def check norm check_landing_observation_def
        list_all_iff) (simp add: sample_missing_def)
qed

section \<open>Properties of the evidence model\<close>

text \<open>What the constructor guarantees of every observation: a missing fact has no value, a known or
  stale one has, an error code is there exactly for errors, the value is deeply read-only, and the
  revision is the digest of the content.\<close>

theorem observation_well_formed:
  assumes "make_observation domain state value observed_at source error_code revision schema = Inr o'"
  shows "(fo_state o' = State_MISSING \<longrightarrow> fo_value o' = PNone)
    \<and> (fo_state o' \<in> {State_KNOWN, State_STALE} \<longrightarrow> fo_value o' \<noteq> PNone)
    \<and> (fo_error_code o' \<noteq> None \<longleftrightarrow> fo_state o' = State_ERROR)
    \<and> frozen (fo_value o')
    \<and> fo_revision o' = compute_revision (fo_schema_version o') (fo_domain o') (fo_state o')
         (fo_value o') (fo_source o') (fo_error_code o')"
  using make_observation_ok [OF assms] frozen_freeze unfolding observation_ok_def by metis

theorem observation_well_formed_witness:
  "\<exists>o'. make_observation (PStr ''config'') (PStr ''missing'') PNone (PStr sample_time)
     (PStr ''collector'') PNone PNone (PInt 1) = Inr o' \<and> fo_value o' = PNone \<and> fo_error_code o' = None"
  using sample_missing_made [of Dom_CONFIG] observation_well_formed
  by (force simp: sample_missing_def)

text \<open>The revision identifies the evidence and not the moment it was observed: a revision that a
  caller claims is accepted only if it is the content's own, and observing the same evidence again at
  another time gives the same revision.\<close>

theorem revision_is_semantic:
  assumes "make_observation domain state value observed_at source error_code (PStr claimed) schema = Inr o'"
    and "make_observation domain state value later source error_code PNone schema = Inr o''"
  shows "claimed = fo_revision o' \<and> fo_revision o'' = claimed"
  using assms(1)
proof (cases rule: make_observationE)
  case (1 d s t src)
  note first = 1
  show ?thesis
    using assms(2)
  proof (cases rule: make_observationE)
    case 1
    with first show ?thesis by simp
  qed
qed

theorem revision_is_semantic_witness:
  "\<exists>r o'. make_observation (PStr ''config'') (PStr ''missing'') PNone (PStr sample_time)
     (PStr ''collector'') PNone (PStr r) (PInt 1) = Inr o' \<and> r = fo_revision o'"
proof -
  let ?r = "fo_revision (sample_missing Dom_CONFIG)"
  have m: "make_observation (PStr ''config'') (PStr ''missing'') PNone (PStr sample_time)
      (PStr ''collector'') PNone PNone (PInt 1) = Inr (sample_missing Dom_CONFIG)"
    using sample_missing_made [of Dom_CONFIG] by simp
  have "observation_ok (sample_missing Dom_CONFIG)" using m by (rule make_observation_ok)
  then have "make_observation (PStr ''config'') (PStr ''missing'') PNone (PStr sample_time)
      (PStr ''collector'') PNone (PStr ?r) (PInt 1) = Inr (sample_missing Dom_CONFIG)"
    using fact_domain_of_value [of Dom_CONFIG]
    by (simp add: make_observation_def sample_missing_def normal_time_def sample_time_parses
        required_text_def py_strip_def char_eval py_eq_def Let_def)
  with revision_is_semantic [OF this m] show ?thesis by blast
qed





end
