(* ===== verification/Integration.thy ===== *)
theory Integration
  imports WorkflowReasons FactModel
begin

text \<open>
  The part of oompah/integration.py that the workflow evaluator rests on: the integration record and
  its validation, the identity of an auto-filed epic-rebase helper, the two predicates that decide
  whether its published branch may be audited or still needs completion, and the marker that binds a
  review requeue to one exact generation.  Also the fields of oompah/models.py's \<open>Issue\<close> that this code
  and the evaluator read.
\<close>

section \<open>Records\<close>

abbreviation INTEGRATION_RECORD_VERSION :: int where
  "INTEGRATION_RECORD_VERSION \<equiv> 2"

definition INTEGRATION_STATES :: "string list" where
  "INTEGRATION_STATES = [''working'', ''ready'', ''queued'', ''integrating'', ''blocked'', ''integrated'',
     ''needs_human'']"

definition INTEGRATION_MODES :: "string list" where
  "INTEGRATION_MODES = [''queue'', ''standalone'']"

definition ACCEPTED_SUBMISSION_STATES :: "string list" where
  "ACCEPTED_SUBMISSION_STATES = filter (\<lambda>s. s \<noteq> ''working'') INTEGRATION_STATES"

abbreviation REVIEW_GENERATION_REQUEUE_WAIT_REASON :: string where
  "REVIEW_GENERATION_REQUEUE_WAIT_REASON \<equiv> ''review_generation_requeue''"

record integration_record =
  ir_state :: string
  ir_mode :: "string option"
  ir_post_landed_parent_id :: "string option"
  ir_task_branch :: "string option"
  ir_base_branch :: "string option"
  ir_base_sha :: "string option"
  ir_head_sha :: "string option"
  ir_integrated_sha :: "string option"
  ir_maintenance_publication_proven :: bool
  ir_attempts :: int
  ir_submitted_at :: "string option"
  ir_updated_at :: "string option"
  ir_last_error :: "string option"
  ir_dependency_heads :: "(string \<times> string) list"
  ir_backoff_until :: "string option"
  ir_repair_failure_reason :: "string option"
  ir_gate_outcome :: "string option"
  ir_gate_cancellation :: "(string \<times> string) list option"
  ir_canonical_landing_evidence :: "(string \<times> pyval) list option"
  ir_wait_reason :: "string option"
  ir_wait_generation :: "string option"
  ir_required_base_missing :: "string list"
  ir_version :: int

text \<open>\<open>IntegrationRecord.__post_init__\<close>.\<close>

definition check_integration_record :: "integration_record \<Rightarrow> integration_record result" where
  "check_integration_record r =
     (if ir_version r \<noteq> INTEGRATION_RECORD_VERSION then Inl ValueError
      else if ir_state r \<notin> set INTEGRATION_STATES then Inl ValueError
      else if (case ir_mode r of None \<Rightarrow> False | Some m \<Rightarrow> m \<notin> set INTEGRATION_MODES) then Inl ValueError
      else if ir_post_landed_parent_id r \<noteq> None \<and> ir_mode r \<noteq> Some ''standalone'' then Inl ValueError
      else if ir_attempts r < 0 then Inl ValueError
      else Inr r)"

text \<open>The fields of an \<open>Issue\<close> that the modelled code reads.\<close>

record issue =
  iss_id :: string
  iss_identifier :: string
  iss_title :: string
  iss_state :: string
  iss_target_branch :: "string option"
  iss_issue_type :: string
  iss_parent_id :: "string option"
  iss_project_id :: "string option"
  iss_integration :: "integration_record option"
  iss_epic_rebase_target :: pyval
  iss_epic_rebase_authority :: pyval
  iss_create_once :: pyval
  iss_work_branch :: "string option"
  iss_head_sha :: "string option"

datatype task = Task_issue issue | Task_mapping "(string \<times> pyval) list"

text \<open>The inner function \<open>field\<close>: a key of a mapping, an attribute of an issue.\<close>

definition issue_attr :: "issue \<Rightarrow> string \<Rightarrow> pyval" where
  "issue_attr i name =
     (if name = ''id'' then PStr (iss_id i)
      else if name = ''identifier'' then PStr (iss_identifier i)
      else if name = ''title'' then PStr (iss_title i)
      else if name = ''state'' then PStr (iss_state i)
      else if name = ''target_branch'' then opt_str (iss_target_branch i)
      else if name = ''issue_type'' then PStr (iss_issue_type i)
      else if name = ''parent_id'' then opt_str (iss_parent_id i)
      else if name = ''project_id'' then opt_str (iss_project_id i)
      else if name = ''epic_rebase_target'' then iss_epic_rebase_target i
      else if name = ''epic_rebase_authority'' then iss_epic_rebase_authority i
      else if name = ''create_once'' then iss_create_once i
      else if name = ''work_branch'' then opt_str (iss_work_branch i)
      else if name = ''head_sha'' then opt_str (iss_head_sha i)
      else PNone)"

fun field :: "task \<Rightarrow> string \<Rightarrow> pyval" where
  "field (Task_issue i) name = issue_attr i name"
| "field (Task_mapping m) name = getv m name"

text \<open>An integration argument: a mapping, a record, some other value, or nothing.\<close>

datatype integration_ref = Ref_mapping "(string \<times> pyval) list" | Ref_record integration_record | Ref_other

definition record_attr :: "integration_record \<Rightarrow> string \<Rightarrow> pyval" where
  "record_attr r name =
     (if name = ''state'' then PStr (ir_state r)
      else if name = ''mode'' then opt_str (ir_mode r)
      else if name = ''task_branch'' then opt_str (ir_task_branch r)
      else if name = ''base_branch'' then opt_str (ir_base_branch r)
      else if name = ''head_sha'' then opt_str (ir_head_sha r)
      else if name = ''integrated_sha'' then opt_str (ir_integrated_sha r)
      else if name = ''maintenance_publication_proven'' then PBool (ir_maintenance_publication_proven r)
      else PNone)"

fun ref_field :: "integration_ref \<Rightarrow> string \<Rightarrow> pyval" where
  "ref_field (Ref_mapping m) name = getv m name"
| "ref_field (Ref_record r) name = record_attr r name"
| "ref_field Ref_other name = PNone"

text \<open>\<open>field(issue, "integration")\<close>, None when it is None.\<close>

fun task_integration :: "task \<Rightarrow> integration_ref option" where
  "task_integration (Task_issue i) = map_option Ref_record (iss_integration i)"
| "task_integration (Task_mapping m) = (let v = getv m ''integration'' in
     if v = PNone then None
     else (case mapping_of v of Some kvs \<Rightarrow> Some (Ref_mapping kvs) | None \<Rightarrow> Some Ref_other))"

section \<open>Text helpers\<close>

text \<open>\<open>re.fullmatch(r"[0-9a-f]{40}|[0-9a-f]{64}", s)\<close>, the exact Git object ids.\<close>

definition exact_sha :: "string \<Rightarrow> bool" where
  "exact_sha s = ((length s = 40 \<or> length s = 64) \<and> lower_hex s)"

text \<open>\<open>v in {...}\<close> for a set of strings: an unhashable value raises TypeError.\<close>

fun hashable :: "pyval \<Rightarrow> bool" where
  "hashable (PTuple xs) = list_all hashable xs"
| "hashable (PList xs) = False"
| "hashable (PDict kvs) = False"
| "hashable (PProxy kvs) = False"
| "hashable v = True"

definition in_text_set :: "pyval \<Rightarrow> string list \<Rightarrow> bool result" where
  "in_text_set v ss = (if \<not> hashable v then Inl TypeError else Inr (v \<in> set (map PStr ss)))"

text \<open>\<open>re.sub(r"[^A-Za-z0-9._-]+", "_", s)\<close>: each run of other characters becomes one underscore.\<close>

definition branch_char :: "char \<Rightarrow> bool" where
  "branch_char c = (let n = (of_char c :: nat) in
     (65 \<le> n \<and> n \<le> 90) \<or> (97 \<le> n \<and> n \<le> 122) \<or> (48 \<le> n \<and> n \<le> 57) \<or> c \<in> set ''._-'')"

fun sub_runs :: "bool \<Rightarrow> string \<Rightarrow> string" where
  "sub_runs in_run [] = []"
| "sub_runs in_run (c # cs) =
     (if branch_char c then c # sub_runs False cs
      else if in_run then sub_runs True cs
      else CHR ''_'' # sub_runs True cs)"

text \<open>\<open>s.strip("._-")\<close>.\<close>

definition strip_punct :: "string \<Rightarrow> string" where
  "strip_punct s = (let p = (\<lambda>c. c \<in> set ''._-'') in rev (dropWhile p (rev (dropWhile p s))))"

definition conventional_epic_branch :: "string \<Rightarrow> string" where
  "conventional_epic_branch parent = ''epic-'' @ strip_punct (sub_runs False parent)"

section \<open>Epic-rebase helpers\<close>

text \<open>\<open>exact_version\<close>: the integer 1, not \<open>True\<close>.\<close>

definition exact_version :: "(string \<times> pyval) list \<Rightarrow> bool" where
  "exact_version m = (getv m ''version'' = PInt 1)"

definition reservation_marker :: "string \<Rightarrow> string \<Rightarrow> string \<Rightarrow> string" where
  "reservation_marker project_id parent generation = ''oompah-epic-rebase-reservation-v1:''
     @ sha256_hex (join [CHR 0x00] [project_id, parent, generation])"

text \<open>The conjunction of checks on the three metadata records, up to the resolution.\<close>

definition helper_metadata_ok ::
  "string \<Rightarrow> string \<Rightarrow> string \<Rightarrow> (string \<times> pyval) list \<Rightarrow> (string \<times> pyval) list \<Rightarrow>
   (string \<times> pyval) list \<Rightarrow> bool" where
  "helper_metadata_ok parent identifier observed_project_id creation target authority = (
     let creation_project_id = text_of (getv creation ''project_id'');
         project_id = (if observed_project_id \<noteq> [] then observed_project_id else creation_project_id);
         epic_branch = text_of (getv target ''epic_branch'');
         target_branch = text_of (getv target ''target_branch'');
         generation = ltext_of (getv authority ''generation'');
         epic_head = ltext_of (getv authority ''epic_head'');
         target_head = ltext_of (getv authority ''target_head'');
         marker = text_of (getv creation ''creation_marker'')
     in parent \<noteq> [] \<and> identifier \<noteq> [] \<and> project_id \<noteq> []
        \<and> creation_project_id = project_id
        \<and> (observed_project_id = [] \<or> observed_project_id = creation_project_id)
        \<and> exact_version creation \<and> exact_version target \<and> exact_version authority
        \<and> getv creation ''operation_kind'' = PStr ''epic_rebase_helper''
        \<and> length generation = 64 \<and> lower_hex generation
        \<and> marker = reservation_marker project_id parent generation
        \<and> getv authority ''task_id'' = PStr identifier
        \<and> getv target ''epic_identifier'' = PStr parent
        \<and> getv authority ''epic_identifier'' = PStr parent
        \<and> epic_branch \<noteq> [] \<and> getv authority ''epic_branch'' = PStr epic_branch
        \<and> target_branch \<noteq> [] \<and> getv authority ''target_branch'' = PStr target_branch
        \<and> exact_sha epic_head \<and> exact_sha target_head)"

definition is_direct_epic_maintenance_issue :: "task \<Rightarrow> bool result" where
  "is_direct_epic_maintenance_issue t = (
     let parent = text_of (field t ''parent_id'');
         identifier = text_of (py_or (field t ''identifier'') (field t ''id''));
         observed_project_id = text_of (field t ''project_id'');
         creation = field t ''create_once'';
         target = field t ''epic_rebase_target'';
         authority = field t ''epic_rebase_authority''
     in if creation \<noteq> PNone \<or> target \<noteq> PNone \<or> authority \<noteq> PNone then
          (case (mapping_of creation, mapping_of target, mapping_of authority) of
             (Some c, Some tg, Some a) \<Rightarrow>
               if \<not> helper_metadata_ok parent identifier observed_project_id c tg a then Inr False
               else ebind (in_text_set (getv tg ''resolution'') [''authoritative_parent'', ''confirmed_top_level''])
                 (\<lambda>resolved.
                 if \<not> resolved then Inr False
                 else (let work_branch = text_of (field t ''work_branch'');
                           configured_target = text_of (field t ''target_branch'')
                   in Inr ((work_branch = [] \<or> work_branch = text_of (getv tg ''epic_branch''))
                      \<and> (configured_target = [] \<or> configured_target = text_of (getv tg ''target_branch'')))))
           | _ \<Rightarrow> Inr False)
        else (let title = ltext_of (field t ''title'') in
          if parent = [] \<or> \<not> starts_with title ''rebase '' then Inr False
          else Inr (contains_str title (py_lower (conventional_epic_branch parent)))))"

text \<open>The epic branch and the target that the two readiness predicates expect.\<close>

definition helper_epic_branch :: "task \<Rightarrow> string" where
  "helper_epic_branch t = (case mapping_of (field t ''epic_rebase_target'') of
     Some tg \<Rightarrow> text_of (getv tg ''epic_branch'')
   | None \<Rightarrow> conventional_epic_branch (text_of (field t ''parent_id'')))"

definition integration_or_own :: "task \<Rightarrow> integration_ref option \<Rightarrow> integration_ref option" where
  "integration_or_own t integration = (case integration of Some r \<Rightarrow> Some r | None \<Rightarrow> task_integration t)"

definition direct_epic_maintenance_handoff_ready ::
  "task \<Rightarrow> integration_ref option \<Rightarrow> bool result" where
  "direct_epic_maintenance_handoff_ready t integration =
     ebind (is_direct_epic_maintenance_issue t) (\<lambda>direct.
     if \<not> direct then Inr False
     else (case integration_or_own t integration of None \<Rightarrow> Inr False | Some record \<Rightarrow>
       let epic_branch = helper_epic_branch t;
           state = ltext_of (ref_field record ''state'');
           mode = ltext_of (ref_field record ''mode'');
           task_branch = text_of (ref_field record ''task_branch'');
           base_branch = text_of (ref_field record ''base_branch'');
           head = ltext_of (ref_field record ''head_sha'');
           integrated = ltext_of (ref_field record ''integrated_sha'');
           proven = (ref_field record ''maintenance_publication_proven'' = PBool True)
       in if \<not> (state = ''integrated'' \<and> mode = ''queue'' \<and> proven \<and> task_branch = epic_branch
               \<and> base_branch = epic_branch \<and> head = integrated \<and> exact_sha head) then Inr False
          else (let expectations = [(''work_branch'', task_branch), (''head_sha'', head)]
                    @ (case mapping_of (field t ''epic_rebase_target'') of
                         Some tg \<Rightarrow> [(''target_branch'', text_of (getv tg ''target_branch''))]
                       | None \<Rightarrow> [])
            in Inr (list_all (\<lambda>(name, expected). let observed = text_of (field t name) in
                 observed = [] \<or> py_lower observed = py_lower expected) expectations))))"

definition direct_epic_maintenance_completion_ready ::
  "task \<Rightarrow> integration_ref option \<Rightarrow> bool result" where
  "direct_epic_maintenance_completion_ready t integration =
     ebind (is_direct_epic_maintenance_issue t) (\<lambda>direct.
     if \<not> direct then Inr False
     else (case integration_or_own t integration of None \<Rightarrow> Inr False | Some record \<Rightarrow>
       let epic_branch = helper_epic_branch t;
           target_branch = (case mapping_of (field t ''epic_rebase_target'') of
             Some tg \<Rightarrow> text_of (getv tg ''target_branch'')
           | None \<Rightarrow> text_of (field t ''target_branch''));
           task_branch = text_of (ref_field record ''task_branch'');
           base_branch = text_of (ref_field record ''base_branch'');
           head = ltext_of (ref_field record ''head_sha'');
           integrated = ltext_of (ref_field record ''integrated_sha'')
       in Inr (ltext_of (ref_field record ''state'') = ''ready''
           \<and> ltext_of (ref_field record ''mode'') = ''queue''
           \<and> ref_field record ''maintenance_publication_proven'' \<noteq> PBool True
           \<and> epic_branch \<noteq> [] \<and> target_branch \<noteq> [] \<and> task_branch = epic_branch
           \<and> base_branch = target_branch \<and> exact_sha head \<and> integrated = [])))"

section \<open>Review generations\<close>

definition review_generation_requeue_marker :: "pyval \<Rightarrow> pyval \<Rightarrow> pyval \<Rightarrow> string option" where
  "review_generation_requeue_marker review_id head_sha base_sha = (
     let review = text_of review_id; head = ltext_of head_sha; base = ltext_of base_sha in
     if review = [] \<or> \<not> exact_sha head \<or> \<not> exact_sha base then None
     else Some (''review:'' @ sha256_hex (join [CHR 0x00] [review, head, base])))"

definition requeue_standalone_review_generation ::
  "integration_record \<Rightarrow> pyval \<Rightarrow> pyval \<Rightarrow> pyval \<Rightarrow> pyval \<Rightarrow> integration_record result" where
  "requeue_standalone_review_generation r review_id head_sha base_sha updated_at = (
     let head = ltext_of head_sha; base = ltext_of base_sha;
         marker = review_generation_requeue_marker review_id (PStr head) (PStr base)
     in if ir_mode r \<notin> {None, Some ''standalone''} \<or> marker = None \<or> text_of updated_at = []
        then Inl ValueError
        else check_integration_record (r\<lparr>
          ir_state := ''ready'',
          ir_mode := (case ir_mode r of None \<Rightarrow> Some ''standalone'' | Some m \<Rightarrow> Some m),
          ir_base_sha := Some base, ir_head_sha := Some head, ir_integrated_sha := None,
          ir_maintenance_publication_proven := False, ir_attempts := 0,
          ir_updated_at := Some (py_strip (py_str updated_at)), ir_last_error := None,
          ir_dependency_heads := [], ir_backoff_until := None, ir_repair_failure_reason := None,
          ir_gate_outcome := None, ir_gate_cancellation := None, ir_canonical_landing_evidence := None,
          ir_wait_reason := Some REVIEW_GENERATION_REQUEUE_WAIT_REASON, ir_wait_generation := marker,
          ir_required_base_missing := []\<rparr>))"

end
