(* ===== verification/WorkDecision.thy ===== *)
theory WorkDecision
  imports Integration TaskStatuses
begin

text \<open>
  The data of oompah/work_decision.py: permitted actions, unmet prerequisites, the decision record with
  the checks of its constructor, its JSON form and its two revisions, the view of the evaluated task,
  and the helpers that the evaluation branches share.

  Every branch of the code returns \<open>_decision(task, facts, ...)\<close>; the keyword arguments of that call are
  a \<open>decision_args\<close>, so that a branch function picks the arguments and \<open>decision\<close> makes the record.
\<close>

section \<open>Reason codes and actions\<close>

abbreviation WORK_DECISION_SCHEMA_VERSION :: pyval where
  "WORK_DECISION_SCHEMA_VERSION \<equiv> PInt 1"

definition SATISFIED_DEPENDENCY_STATUSES :: "string list" where
  "SATISFIED_DEPENDENCY_STATUSES = [DONE, MERGED, ARCHIVED]"

definition IMPLEMENTATION_ACTION_JOBS :: "string list" where
  "IMPLEMENTATION_ACTION_JOBS = [''implementation_start'', ''direct_owner_claim'', ''duplicate_screening'',
    ''focus_handoff'', ''worker_exit'', ''validation_submission'', ''authority_revocation'',
    ''implementation_retry'', ''implementation_recovery'']"

definition REVIEW_ACTION_JOBS :: "string list" where
  "REVIEW_ACTION_JOBS = [''review_monitor'', ''review_merge'', ''review_refresh'', ''review_ci_repair'',
    ''review_conflict_repair'', ''review_closed_repair'', ''review_head_reconciliation'',
    ''review_landing_refresh'', ''review_terminal_stage'', ''review_capacity_recheck'']"

datatype permitted_action =
    Act_ACCEPT_INTAKE
  | Act_PROMOTE_OPEN
  | Act_CLAIM_IMPLEMENTATION
  | Act_WAIT_DEPENDENCY
  | Act_RECOVER_IMPLEMENTATION
  | Act_CONTINUE_IMPLEMENTATION
  | Act_RECONCILE_IMPLEMENTATION
  | Act_ANSWER_REQUEST
  | Act_RESOLVE_OPERATOR_ACTION
  | Act_CLAIM_REPAIR
  | Act_REFRESH_REVIEW
  | Act_MERGE_REVIEW
  | Act_ROUTE_CI_FIX
  | Act_ROUTE_REBASE
  | Act_CLAIM_AUDIT
  | Act_RETRY_AUDIT
  | Act_CLAIM_INTEGRATION
  | Act_RECONCILE_TARGET
  | Act_ROLLUP_CHILDREN
  | Act_INVESTIGATE_DUPLICATE
  | Act_REFRESH_LANDING
  | Act_REQUEST_DONE
  | Act_REQUEST_MERGED

fun permitted_action_value :: "permitted_action \<Rightarrow> string" where
  "permitted_action_value Act_ACCEPT_INTAKE = ''accept_intake''"
| "permitted_action_value Act_PROMOTE_OPEN = ''promote_open''"
| "permitted_action_value Act_CLAIM_IMPLEMENTATION = ''claim_implementation''"
| "permitted_action_value Act_WAIT_DEPENDENCY = ''wait_dependency''"
| "permitted_action_value Act_RECOVER_IMPLEMENTATION = ''recover_implementation''"
| "permitted_action_value Act_CONTINUE_IMPLEMENTATION = ''continue_implementation''"
| "permitted_action_value Act_RECONCILE_IMPLEMENTATION = ''reconcile_implementation''"
| "permitted_action_value Act_ANSWER_REQUEST = ''answer_request''"
| "permitted_action_value Act_RESOLVE_OPERATOR_ACTION = ''resolve_operator_action''"
| "permitted_action_value Act_CLAIM_REPAIR = ''claim_repair''"
| "permitted_action_value Act_REFRESH_REVIEW = ''refresh_review''"
| "permitted_action_value Act_MERGE_REVIEW = ''merge_review''"
| "permitted_action_value Act_ROUTE_CI_FIX = ''route_ci_fix''"
| "permitted_action_value Act_ROUTE_REBASE = ''route_rebase''"
| "permitted_action_value Act_CLAIM_AUDIT = ''claim_audit''"
| "permitted_action_value Act_RETRY_AUDIT = ''retry_audit''"
| "permitted_action_value Act_CLAIM_INTEGRATION = ''claim_integration''"
| "permitted_action_value Act_RECONCILE_TARGET = ''reconcile_target''"
| "permitted_action_value Act_ROLLUP_CHILDREN = ''rollup_children''"
| "permitted_action_value Act_INVESTIGATE_DUPLICATE = ''investigate_duplicate''"
| "permitted_action_value Act_REFRESH_LANDING = ''refresh_landing''"
| "permitted_action_value Act_REQUEST_DONE = ''request_done''"
| "permitted_action_value Act_REQUEST_MERGED = ''request_merged''"

definition PERMITTED_ACTIONS :: "permitted_action list" where
  "PERMITTED_ACTIONS = [
    Act_ACCEPT_INTAKE, Act_PROMOTE_OPEN, Act_CLAIM_IMPLEMENTATION,
    Act_WAIT_DEPENDENCY, Act_RECOVER_IMPLEMENTATION, Act_CONTINUE_IMPLEMENTATION,
    Act_RECONCILE_IMPLEMENTATION, Act_ANSWER_REQUEST, Act_RESOLVE_OPERATOR_ACTION,
    Act_CLAIM_REPAIR, Act_REFRESH_REVIEW, Act_MERGE_REVIEW,
    Act_ROUTE_CI_FIX, Act_ROUTE_REBASE, Act_CLAIM_AUDIT,
    Act_RETRY_AUDIT, Act_CLAIM_INTEGRATION, Act_RECONCILE_TARGET,
    Act_ROLLUP_CHILDREN, Act_INVESTIGATE_DUPLICATE, Act_REFRESH_LANDING,
    Act_REQUEST_DONE, Act_REQUEST_MERGED]"

definition FIXED_DECISION_REASON_CODES :: "string list" where
  "FIXED_DECISION_REASON_CODES = [
    ''coordination.policy_denied'', ''controller.evaluation_failed'',
    ''dispatch.dependencies_blocked'', ''dispatch.eligible'',
    ''dispatch.hierarchy_wait'', ''duplicate.confirmed'',
    ''duplicate.investigating'', ''duplicate.recovery_scheduled'',
    ''duplicate.screening_disabled'', ''evidence.conflicting_task_facts'',
    ''evidence.containment_malformed'', ''evidence.dependencies_malformed'',
    ''evidence.project_or_task_mismatch'', ''evidence.task_fact_identity_mismatch'',
    ''evidence.task_status_mismatch'', ''implementation.active'',
    ''implementation.action_scheduled'', ''implementation.recovery_scheduled'',
    ''implementation.submission_recovery_parked'', ''intake.awaiting_decision'',
    ''integration.active'', ''integration.dependencies_blocked'',
    ''integration.gate_blocked'', ''integration.live_claim_precedes_history'',
    ''integration.landing_proven'', ''integration.landing_unproven'',
    ''integration.owner_retirement_pending'', ''integration.queued'',
    ''integration.required_base_missing'', ''integration.retry_scheduled'',
    ''landing.evidence_unknown'', ''landing.target_evidence_missing'',
    ''landing.waiting'', ''maintenance.publication_completion_pending'',
    ''maintenance.publication_proven'', ''graph.impossible'',
    ''liveness.reassessment_overdue'', ''operator.action_required'',
    ''ownership.conflict'', ''ownership.impossible'',
    ''prioritization.awaiting_owner'', ''requestor.answer_required'',
    ''retry.exhausted'', ''automation.unavailable'',
    ''review.ci_fix_required'', ''review.ci_pending'',
    ''review.capacity_wait'', ''review.closed_unmerged'',
    ''review.draft_wait'', ''review.head_changed'',
    ''review.landing_refresh'', ''review.merge_target_mismatch'',
    ''review.missing_artifact'', ''review.monitoring'',
    ''review.provider_unavailable'', ''review.rebase_required'',
    ''review.ready_to_merge'', ''review.source_deleted'',
    ''rollup.children_complete'', ''rollup.children_missing'',
    ''rollup.status_reconciliation'', ''rollup.waiting_parent_landing'',
    ''rollup.waiting_children'', ''standalone.delivery_eligible'',
    ''standalone.remote_identity_ambiguous'', ''standalone.remote_identity_unavailable'',
    ''standalone.resubmission_required'', ''terminal.final'',
    ''terminal.immediate_target_landing_proven'', ''terminal.preserve_verified_merged'',
    ''terminal.provenance_invalid'', ''terminal.provenance_retained'',
    ''validation.active'', ''validation.queued'',
    ''validation.retry_scheduled'', ''workflow.unknown_status'']"

text \<open>The code of an observation: \<open>evidence.<domain>_<state>\<close>.\<close>

definition evidence_code :: "fact_domain \<Rightarrow> fact_state \<Rightarrow> string" where
  "evidence_code d s = ''evidence.'' @ fact_domain_value d @ ''_'' @ fact_state_value s"

definition KNOWN_DECISION_REASON_CODES :: "string list" where
  "KNOWN_DECISION_REASON_CODES = FIXED_DECISION_REASON_CODES
     @ concat (map (\<lambda>d. map (evidence_code d) FACT_STATES) FACT_DOMAINS)"

section \<open>Unmet prerequisites\<close>

record unmet_prerequisite =
  up_code :: string
  up_subject :: string
  up_observed :: "string option"

definition mk_unmet :: "pyval \<Rightarrow> pyval \<Rightarrow> pyval \<Rightarrow> unmet_prerequisite result" where
  "mk_unmet code subject observed =
     ebind (required_text code) (\<lambda>c. ebind (required_text subject) (\<lambda>s.
       Inr \<lparr>up_code = c, up_subject = s, up_observed = optional_text observed\<rparr>))"

definition unmet_to_dict :: "unmet_prerequisite \<Rightarrow> pyval" where
  "unmet_to_dict u = PDict [(''code'', PStr (up_code u)), (''subject'', PStr (up_subject u)),
     (''observed'', opt_str (up_observed u))]"

text \<open>\<open>cls(**dict(raw))\<close> of a mapping; any other item is a TypeError.\<close>

definition unmet_from_dict :: "pyval \<Rightarrow> unmet_prerequisite result" where
  "unmet_from_dict v = (case mapping_of v of None \<Rightarrow> Inl TypeError | Some raw \<Rightarrow>
     if \<not> keywords_ok [''code'', ''subject''] [''observed''] raw then Inl TypeError
     else mk_unmet (getv raw ''code'') (getv raw ''subject'') (getv raw ''observed''))"

section \<open>Decisions\<close>

record work_decision =
  wd_project_id :: string
  wd_task_id :: string
  wd_status :: string
  wd_disposition :: task_disposition
  wd_reason_code :: string
  wd_owner :: workflow_owner
  wd_unmet :: "unmet_prerequisite list"
  wd_evidence_revision :: string
  wd_next_reassessment_at :: "string option"
  wd_actions :: "permitted_action list"
  wd_action_required :: pyval
  wd_alert :: alert_severity
  wd_jobs :: "string list"
  wd_recommended :: "string option"
  wd_revision :: string
  wd_schema_version :: pyval

definition DISPOSITIONS :: "task_disposition list" where
  "DISPOSITIONS = [Disp_RUNNABLE, Disp_OWNED, Disp_BLOCKED, Disp_RETRY_SCHEDULED, Disp_ACTION_REQUIRED,
     Disp_TERMINAL]"

definition OWNERS :: "workflow_owner list" where
  "OWNERS = [Owner_INTAKE, Owner_PROJECT_OWNER, Owner_DISPATCHER, Owner_IMPLEMENTER, Owner_DIRECT_OWNER,
     Owner_REQUESTOR, Owner_OPERATOR, Owner_REPAIR_WORKER, Owner_REVIEW_MONITOR, Owner_AUDITOR,
     Owner_INTEGRATOR, Owner_ROLLUP, Owner_DUPLICATE_INVESTIGATOR, Owner_NONE]"

definition disposition_of :: "pyval \<Rightarrow> task_disposition result" where
  "disposition_of = enum_of task_disposition_value DISPOSITIONS"

definition owner_of :: "pyval \<Rightarrow> workflow_owner result" where
  "owner_of = enum_of workflow_owner_value OWNERS"

definition action_of :: "pyval \<Rightarrow> permitted_action result" where
  "action_of = enum_of permitted_action_value PERMITTED_ACTIONS"

text \<open>\<open>to_dict\<close> without the decision revision, and with it.\<close>

definition decision_items :: "work_decision \<Rightarrow> (string \<times> pyval) list" where
  "decision_items d = [
     (''schema_version'', wd_schema_version d),
     (''project_id'', PStr (wd_project_id d)),
     (''task_id'', PStr (wd_task_id d)),
     (''status'', PStr (wd_status d)),
     (''disposition'', PStr (task_disposition_value (wd_disposition d))),
     (''reason_code'', PStr (wd_reason_code d)),
     (''responsible_owner'', PStr (workflow_owner_value (wd_owner d))),
     (''unmet_prerequisites'', PList (map unmet_to_dict (wd_unmet d))),
     (''evidence_revision'', PStr (wd_evidence_revision d)),
     (''next_reassessment_at'', opt_str (wd_next_reassessment_at d)),
     (''permitted_actions'', PList (map (PStr \<circ> permitted_action_value) (wd_actions d))),
     (''action_required'', wd_action_required d),
     (''alert_level'', PStr (alert_severity_value (wd_alert d))),
     (''durable_jobs'', PList (map PStr (wd_jobs d))),
     (''recommended_status'', opt_str (wd_recommended d))]"

definition decision_to_dict :: "work_decision \<Rightarrow> pyval" where
  "decision_to_dict d = PDict (decision_items d @ [(''decision_revision'', PStr (wd_revision d))])"

definition compute_decision_revision :: "work_decision \<Rightarrow> string" where
  "compute_decision_revision d = sha256_hex (json_dumps (PDict (decision_items d)))"

definition visible_alert :: "alert_severity \<Rightarrow> bool" where
  "visible_alert a = (a = Sev_WARNING \<or> a = Sev_CRITICAL)"

definition unmet_key :: "unmet_prerequisite \<Rightarrow> string \<times> string \<times> string" where
  "unmet_key u = (up_code u, up_subject u, case up_observed u of None \<Rightarrow> [] | Some x \<Rightarrow> x)"

text \<open>\<open>sorted(set)\<close> of a set of items by a key that tells them apart.\<close>

definition sorted_set :: "('a \<Rightarrow> 'k :: linorder) \<Rightarrow> 'a list \<Rightarrow> 'a list" where
  "sorted_set key xs = sort_key key (remdups xs)"

definition optional_time :: "pyval \<Rightarrow> string option result" where
  "optional_time v = (if v = PNone then Inr None else ebind (normal_time v) (\<lambda>s. Inr (Some s)))"

text \<open>The last checks of the constructor, on the normalised record.\<close>

definition check_decision :: "work_decision \<Rightarrow> pyval \<Rightarrow> work_decision result" where
  "check_decision d claimed =
     (if \<not> py_eq (wd_schema_version d) WORK_DECISION_SCHEMA_VERSION then Inl ValueError
      else if \<not> py_eq (wd_action_required d) (PBool (wd_disposition d = Disp_ACTION_REQUIRED))
      then Inl ValueError
      else if truthy (wd_action_required d) \<and> \<not> visible_alert (wd_alert d) then Inl ValueError
      else if \<not> truthy (wd_action_required d) \<and> visible_alert (wd_alert d) then Inl ValueError
      else if claimed \<noteq> PNone \<and> claimed \<noteq> PStr (compute_decision_revision d) then Inl ValueError
      else Inr (d\<lparr>wd_revision := compute_decision_revision d\<rparr>))"

text \<open>\<open>WorkDecision.__post_init__\<close>.\<close>

definition make_decision ::
  "pyval \<Rightarrow> pyval \<Rightarrow> pyval \<Rightarrow> pyval \<Rightarrow> pyval \<Rightarrow> pyval \<Rightarrow> unmet_prerequisite list \<Rightarrow> pyval \<Rightarrow> pyval \<Rightarrow>
   pyval list \<Rightarrow> pyval \<Rightarrow> pyval \<Rightarrow> pyval list \<Rightarrow> pyval \<Rightarrow> pyval \<Rightarrow> pyval \<Rightarrow> work_decision result" where
  "make_decision project_id task_id status disposition reason_code owner unmet evidence_revision
     next_reassessment_at actions action_required alert jobs recommended revision schema =
     ebind (required_text project_id) (\<lambda>pid.
     ebind (required_text task_id) (\<lambda>tid.
     ebind (disposition_of disposition) (\<lambda>disp.
     ebind (required_text reason_code) (\<lambda>code.
     if code \<notin> set KNOWN_DECISION_REASON_CODES then Inl ValueError else
     ebind (owner_of owner) (\<lambda>own.
     ebind (required_text evidence_revision) (\<lambda>ev.
     ebind (optional_time next_reassessment_at) (\<lambda>next.
     ebind (eseq action_of actions) (\<lambda>acts.
     ebind (alert_severity_of alert) (\<lambda>al.
     ebind (eseq required_text jobs) (\<lambda>js.
     check_decision \<lparr>wd_project_id = pid, wd_task_id = tid, wd_status = canonicalize_status status,
       wd_disposition = disp, wd_reason_code = code, wd_owner = own,
       wd_unmet = sort_key unmet_key unmet, wd_evidence_revision = ev,
       wd_next_reassessment_at = next, wd_actions = sorted_set permitted_action_value acts,
       wd_action_required = action_required, wd_alert = al, wd_jobs = sorted_set id js,
       wd_recommended = (case optional_text recommended of None \<Rightarrow> None
         | Some r \<Rightarrow> Some (canonicalize_status (PStr r))),
       wd_revision = [], wd_schema_version = schema\<rparr> revision))))))))))"

definition DECISION_REQUIRED_KEYS :: "string list" where
  "DECISION_REQUIRED_KEYS = [''project_id'', ''task_id'', ''status'', ''disposition'', ''reason_code'',
     ''responsible_owner'', ''unmet_prerequisites'', ''evidence_revision'', ''next_reassessment_at'',
     ''permitted_actions'', ''action_required'', ''alert_level'']"

text \<open>
  \<open>WorkDecision.from_dict\<close>: the three sequence fields default to empty ones.
\<close>

definition decision_from_dict :: "pyval \<Rightarrow> work_decision result" where
  "decision_from_dict v = (case mapping_of v of None \<Rightarrow> Inl ValueError | Some raw \<Rightarrow>
     ebind (py_list (get_or raw ''unmet_prerequisites'' (PTuple []))) (\<lambda>us.
     ebind (eseq unmet_from_dict us) (\<lambda>unmet.
     ebind (py_list (get_or raw ''permitted_actions'' (PTuple []))) (\<lambda>acts.
     ebind (py_list (get_or raw ''durable_jobs'' (PTuple []))) (\<lambda>jobs.
     let keys = map fst raw @ [''unmet_prerequisites'', ''permitted_actions'', ''durable_jobs''] in
     if \<not> set DECISION_REQUIRED_KEYS \<subseteq> set keys
        \<or> \<not> set keys \<subseteq> set (DECISION_REQUIRED_KEYS @ [''durable_jobs'', ''recommended_status'',
             ''decision_revision'', ''schema_version'']) then Inl TypeError
     else make_decision (getv raw ''project_id'') (getv raw ''task_id'') (getv raw ''status'')
       (getv raw ''disposition'') (getv raw ''reason_code'') (getv raw ''responsible_owner'') unmet
       (getv raw ''evidence_revision'') (getv raw ''next_reassessment_at'') acts
       (getv raw ''action_required'') (getv raw ''alert_level'') jobs
       (getv raw ''recommended_status'') (getv raw ''decision_revision'')
       (get_or raw ''schema_version'' WORK_DECISION_SCHEMA_VERSION))))))"

text \<open>\<open>decision_scheduling_revision\<close>: the revision without the deadline, with the policy epoch.\<close>

definition decision_scheduling_revision :: "work_decision \<Rightarrow> pyval \<Rightarrow> string result" where
  "decision_scheduling_revision d policy_epoch =
     ebind (required_text policy_epoch) (\<lambda>epoch.
     let recurring = (wd_next_reassessment_at d \<noteq> None) in
     Inr (sha256_hex (json_dumps (PDict (
       filter (\<lambda>kv. fst kv \<noteq> ''next_reassessment_at'') (decision_items d)
       @ [(''recurrence'', PDict [
            (''enabled'', PBool recurring),
            (''policy_epoch'', if recurring then PStr epoch else PNone)])])))))"

section \<open>The evaluated task\<close>

record task_view =
  tv_project_id :: string
  tv_task_id :: string
  tv_status :: string
  tv_parent_id :: "string option"
  tv_issue_type :: string
  tv_target_branch :: "string option"

fun view_of_task :: "task \<Rightarrow> task_view result" where
  "view_of_task (Task_issue i) = Inr \<lparr>
     tv_project_id = (case iss_project_id i of None \<Rightarrow> [] | Some p \<Rightarrow> p),
     tv_task_id = iss_identifier i,
     tv_status = canonicalize_status (PStr (iss_state i)),
     tv_parent_id = optional_text (opt_str (iss_parent_id i)),
     tv_issue_type = (if iss_issue_type i = [] then ''task'' else iss_issue_type i),
     tv_target_branch = optional_text (opt_str (iss_target_branch i))\<rparr>"
| "view_of_task (Task_mapping m) =
     ebind (required_text (get_or m ''identifier'' (getv m ''task_id''))) (\<lambda>tid. Inr \<lparr>
       tv_project_id = str_or (getv m ''project_id'') [],
       tv_task_id = tid,
       tv_status = canonicalize_status (get_or m ''status'' (getv m ''state'')),
       tv_parent_id = optional_text (getv m ''parent_id''),
       tv_issue_type = str_or (getv m ''issue_type'') ''task'',
       tv_target_branch = optional_text (getv m ''target_branch'')\<rparr>)"

text \<open>\<open>a or b or ""\<close> over optional attributes.\<close>

definition first_text :: "string option list \<Rightarrow> string" where
  "first_text xs = (case find (\<lambda>x. x \<noteq> None \<and> x \<noteq> Some []) xs of Some (Some s) \<Rightarrow> s | _ \<Rightarrow> [])"

fun terminal_landing_identity :: "task \<Rightarrow> (string \<times> string \<times> string) option" where
  "terminal_landing_identity (Task_issue i) = (
     let r = iss_integration i; attr = (\<lambda>f. case r of None \<Rightarrow> None | Some x \<Rightarrow> f x);
         source = py_strip (first_text [attr ir_task_branch, iss_work_branch i]);
         target = py_strip (first_text [attr ir_base_branch, iss_target_branch i]);
         revision = py_lower (py_strip (first_text [attr ir_integrated_sha, attr ir_head_sha, iss_head_sha i]))
     in if source \<noteq> [] \<and> target \<noteq> [] \<and> revision \<noteq> [] then Some (source, target, revision) else None)"
| "terminal_landing_identity (Task_mapping m) = (
     let r = (case mapping_of (getv m ''integration'') of None \<Rightarrow> [] | Some kvs \<Rightarrow> kvs);
         source = text_of (py_or (getv r ''task_branch'') (getv m ''work_branch''));
         target = text_of (py_or (getv r ''base_branch'') (getv m ''target_branch''));
         revision = ltext_of (py_or (getv r ''integrated_sha'')
           (py_or (getv r ''head_sha'') (getv m ''head_sha'')))
     in if source \<noteq> [] \<and> target \<noteq> [] \<and> revision \<noteq> [] then Some (source, target, revision) else None)"

section \<open>Shared helpers\<close>

text \<open>\<open>_mapping(observation.value)\<close> of a known observation, and of any observation.\<close>

definition known_mapping :: "workflow_facts \<Rightarrow> fact_domain \<Rightarrow> (string \<times> pyval) list option" where
  "known_mapping f d = (let o' = wf_fact f d in
     if fo_state o' = State_KNOWN then mapping_of (fo_value o') else None)"

text \<open>\<open>(value or {})\<close>.\<close>

definition or_empty :: "(string \<times> pyval) list option \<Rightarrow> (string \<times> pyval) list" where
  "or_empty m = (case m of None \<Rightarrow> [] | Some kvs \<Rightarrow> kvs)"

definition epic_immediate_target_landings :: "workflow_facts \<Rightarrow> landing_fact list" where
  "epic_immediate_target_landings f = (
     let value = or_empty (known_mapping f Dom_CONTAINMENT);
         source = text_of (getv value ''epic_branch'');
         target = text_of (getv value ''target_branch'')
     in if source = [] \<or> target = [] then []
        else filter (\<lambda>l. lf_source l = source \<and> lf_target l = target) (wf_landings f))"

definition status_slo_key :: "string \<Rightarrow> string option" where
  "status_slo_key status = (case map_of STATUS_CONTRACTS status of None \<Rightarrow> None
     | Some c \<Rightarrow> rc_slo_key (sc_reassessment c))"

text \<open>\<open>_reassessment\<close> under a policy.\<close>

definition deadline_under ::
  "(string \<times> pyval) list option \<Rightarrow> string \<Rightarrow> string \<Rightarrow> string result" where
  "deadline_under overrides key collected_at =
     ebind (build_liveness_slos overrides) (\<lambda>slos.
     case map_of slos key of None \<Rightarrow> Inl KeyError | Some slo \<Rightarrow>
     ebind (parse_time (PStr collected_at)) (\<lambda>t.
     ebind (add_seconds t (slo_seconds slo)) (\<lambda>u. Inr (render_time u))))"

definition reassessment :: "string \<Rightarrow> string \<Rightarrow> string option result" where
  "reassessment status collected_at = (case status_slo_key status of
     None \<Rightarrow> Inr None
   | Some key \<Rightarrow> ebind (deadline_under None key collected_at) (\<lambda>s. Inr (Some s)))"

definition unresolved_item :: "string \<Rightarrow> pyval \<Rightarrow> unmet_prerequisite list result" where
  "unresolved_item kind item = (case mapping_of item of
     None \<Rightarrow> ebind (mk_unmet (PStr ''dependencies.malformed'') (PStr kind) PNone) (\<lambda>u. Inr [u])
   | Some entry \<Rightarrow>
       let identifier = str_or (py_or (getv entry ''identifier'') (getv entry ''id'')) ''unknown'';
           status = canonicalize_status (getv entry ''status'')
       in if status \<notin> set SATISFIED_DEPENDENCY_STATUSES
          then ebind (mk_unmet (PStr (''dependencies.'' @ kind @ ''_incomplete'')) (PStr identifier)
                 (PStr status)) (\<lambda>u. Inr [u])
          else Inr [])"

text \<open>The inner function \<open>unresolved\<close> of \<open>_prerequisites\<close>.\<close>

definition unresolved :: "(string \<times> pyval) list \<Rightarrow> string \<Rightarrow> unmet_prerequisite list result" where
  "unresolved value kind = (case sequence_of (get_or value kind (PTuple [])) of
     None \<Rightarrow> ebind (mk_unmet (PStr ''dependencies.malformed'') (PStr kind) PNone) (\<lambda>u. Inr [u])
   | Some items \<Rightarrow> ebind (eseq (unresolved_item kind) items) (\<lambda>us. Inr (concat us)))"

text \<open>\<open>_prerequisites\<close>: the unmet finish and hard-start dependencies.\<close>

definition prerequisites ::
  "workflow_facts \<Rightarrow> (unmet_prerequisite list \<times> unmet_prerequisite list) result" where
  "prerequisites f = (let o' = wf_fact f Dom_DEPENDENCIES in
     if fo_state o' \<noteq> State_KNOWN then
       ebind (mk_unmet (PStr (''dependencies.'' @ fact_state_value (fo_state o')))
         (PStr ''dependencies'') (opt_str (fo_error_code o'))) (\<lambda>u. Inr ([u], [u]))
     else (case mapping_of (fo_value o') of
       None \<Rightarrow> ebind (mk_unmet (PStr ''dependencies.malformed'') (PStr ''dependencies'') PNone)
         (\<lambda>u. Inr ([u], [u]))
     | Some value \<Rightarrow> ebind (unresolved value ''finish'') (\<lambda>finish.
         ebind (unresolved value ''hard_start'') (\<lambda>hard. Inr (finish, hard)))))"

text \<open>\<open>_valid_lease\<close>: only the ValueError of the parser is caught.\<close>

definition valid_lease :: "(string \<times> pyval) list \<Rightarrow> instant \<Rightarrow> bool result" where
  "valid_lease value now = (let expiry = getv value ''lease_expires_at'' in
     if \<not> truthy expiry then Inr False
     else (case parse_time expiry of
         Inr t \<Rightarrow> Inr (t > now)
       | Inl e \<Rightarrow> if e = ValueError then Inr False else Inl e))"

definition valid_active_job :: "(string \<times> pyval) list \<Rightarrow> bool" where
  "valid_active_job value = (getv value ''actively_working'' = PBool True
     \<and> text_of (py_or (getv value ''active_job_id'') (py_or (getv value ''job_id'') (getv value ''audit_id'')))
       \<noteq> [])"

definition PREFERRED_OWNERS :: "workflow_owner list" where
  "PREFERRED_OWNERS = [Owner_DISPATCHER, Owner_IMPLEMENTER, Owner_REPAIR_WORKER, Owner_REVIEW_MONITOR,
     Owner_AUDITOR, Owner_INTEGRATOR, Owner_ROLLUP, Owner_DUPLICATE_INVESTIGATOR, Owner_PROJECT_OWNER,
     Owner_INTAKE, Owner_REQUESTOR, Owner_OPERATOR, Owner_NONE]"

text \<open>\<open>_owner_for_status\<close>; \<open>next\<close> of an empty generator raises StopIteration.\<close>

definition owner_for_status :: "string \<Rightarrow> workflow_owner result" where
  "owner_for_status status = (case map_of STATUS_CONTRACTS status of
     None \<Rightarrow> Inr Owner_OPERATOR
   | Some c \<Rightarrow> if sc_owners c = [] then Inr Owner_OPERATOR
       else (case find (\<lambda>o'. o' \<in> set (sc_owners c)) PREFERRED_OWNERS of
           None \<Rightarrow> Inl StopIteration | Some o' \<Rightarrow> Inr o'))"

section \<open>Making a decision\<close>

text \<open>The keyword arguments of \<open>_decision\<close>; the prerequisites are constructed when they are passed.\<close>

record decision_args =
  da_disposition :: task_disposition
  da_reason :: string
  da_owner :: "workflow_owner option"
  da_unmet :: "unmet_prerequisite list result"
  da_actions :: "permitted_action list"
  da_alert :: alert_severity
  da_jobs :: "string list"
  da_recommended :: "string option"
  da_reassess :: bool

text \<open>The arguments every call gives, the others at their defaults.\<close>

definition args :: "task_disposition \<Rightarrow> string \<Rightarrow> decision_args" where
  "args disposition reason = \<lparr>da_disposition = disposition, da_reason = reason, da_owner = None,
     da_unmet = Inr [], da_actions = [], da_alert = Sev_NONE, da_jobs = [], da_recommended = None,
     da_reassess = True\<rparr>"

definition unmet :: "string \<Rightarrow> string \<Rightarrow> string option \<Rightarrow> unmet_prerequisite list result" where
  "unmet code subject observed =
     ebind (mk_unmet (PStr code) (PStr subject) (opt_str observed)) (\<lambda>u. Inr [u])"

definition decision :: "task_view \<Rightarrow> workflow_facts \<Rightarrow> decision_args \<Rightarrow> work_decision result" where
  "decision task facts a =
     ebind (da_unmet a) (\<lambda>us.
     ebind (case da_owner a of Some o' \<Rightarrow> Inr o' | None \<Rightarrow> owner_for_status (tv_status task)) (\<lambda>own.
     ebind (if da_reassess a then reassessment (tv_status task) (wf_collected_at facts) else Inr None)
       (\<lambda>next.
     make_decision (PStr (wf_project_id facts)) (PStr (wf_task_id facts)) (PStr (tv_status task))
       (PStr (task_disposition_value (da_disposition a))) (PStr (da_reason a))
       (PStr (workflow_owner_value own)) us (PStr (wf_facts_version facts)) (opt_str next)
       (map (PStr \<circ> permitted_action_value) (da_actions a))
       (PBool (da_disposition a = Disp_ACTION_REQUIRED)) (PStr (alert_severity_value (da_alert a)))
       (map PStr (da_jobs a)) (opt_str (da_recommended a)) PNone WORK_DECISION_SCHEMA_VERSION)))"

text \<open>\<open>_fact_wait\<close>: a bounded wait for one domain's evidence.\<close>

definition fact_wait ::
  "workflow_facts \<Rightarrow> fact_domain \<Rightarrow> workflow_owner \<Rightarrow> permitted_action \<Rightarrow> string \<Rightarrow> decision_args" where
  "fact_wait facts d owner action job = (let o' = wf_fact facts d in
     (args Disp_RETRY_SCHEDULED
        (if d = Dom_REVIEW_CI \<and> fo_state o' = State_ERROR then ''review.provider_unavailable''
         else evidence_code d (fo_state o')))
     \<lparr>da_owner := Some owner,
      da_unmet := unmet (''evidence.'' @ fact_state_value (fo_state o')) (fact_domain_value d)
        (fo_error_code o'),
      da_actions := [action], da_alert := Sev_INFO, da_jobs := [job]\<rparr>)"

end
