(* ===== verification/DecisionBranches.thy ===== *)
theory DecisionBranches
  imports WorkDecision
begin

text \<open>
  The branches of oompah/work_decision.py: one choice of decision arguments for each status, with the
  guards in the order of the code.  A choice fails only where the code can raise: the expiry of a lease
  outside the calendar, the construction of a prerequisite, a set lookup of an unhashable value.
\<close>

section \<open>Implementation\<close>

definition AUTHORITY_INDEPENDENT_ACTIONS :: "string list" where
  "AUTHORITY_INDEPENDENT_ACTIONS = [''direct_owner_claim'', ''duplicate_screening'', ''focus_handoff'',
     ''implementation_recovery'', ''implementation_start'', ''validation_submission'']"

text \<open>The pending action of the configuration, empty unless it is an implementation job.\<close>

definition pending_implementation_action :: "(string \<times> pyval) list option \<Rightarrow> string" where
  "pending_implementation_action config = (
     let action = text_of (getv (or_empty config) ''implementation_pending_action'')
     in if action \<in> set IMPLEMENTATION_ACTION_JOBS then action else [])"

definition implementation_choice :: "workflow_facts \<Rightarrow> instant \<Rightarrow> decision_args result" where
  "implementation_choice facts now = (
     let config = known_mapping facts Dom_CONFIG;
         pending = pending_implementation_action config;
         authority = known_mapping facts Dom_IMPLEMENTATION_AUTHORITY in
     ebind (if pending = [] then Inr False
            else if pending \<in> set AUTHORITY_INDEPENDENT_ACTIONS then Inr True
            else (case authority of None \<Rightarrow> Inr False | Some v \<Rightarrow> valid_lease v now)) (\<lambda>scheduled.
     if scheduled then
       Inr ((args Disp_RETRY_SCHEDULED ''implementation.action_scheduled'')
         \<lparr>da_owner := Some Owner_DISPATCHER, da_actions := [Act_RECONCILE_IMPLEMENTATION],
          da_alert := Sev_INFO, da_jobs := [pending]\<rparr>)
     else if starts_with (text_of (getv (or_empty config) ''accepted_submission_recovery_state''))
               ''accepted_submission_'' then
       Inr ((args Disp_BLOCKED ''implementation.submission_recovery_parked'')
         \<lparr>da_owner := Some Owner_DISPATCHER, da_actions := [Act_RECONCILE_IMPLEMENTATION],
          da_alert := Sev_INFO\<rparr>)
     else (case authority of
       None \<Rightarrow> Inr (fact_wait facts Dom_IMPLEMENTATION_AUTHORITY Owner_DISPATCHER
         Act_RECOVER_IMPLEMENTATION ''implementation_recovery'')
     | Some value \<Rightarrow>
       let transition_pending = truthy (getv value ''transition_pending'') in
       if transition_pending \<and> getv value ''state'' = PStr ''retry_wait'' then
         Inr ((args Disp_RETRY_SCHEDULED ''implementation.action_scheduled'')
           \<lparr>da_owner := Some Owner_DISPATCHER, da_actions := [Act_RECONCILE_IMPLEMENTATION],
            da_alert := Sev_INFO\<rparr>)
       else ebind (if transition_pending
                   then in_text_set (getv value ''state'') [''submitted'', ''revoked'', ''completed'']
                   else Inr False) (\<lambda>closing.
       if closing then
         Inr ((args Disp_OWNED ''implementation.active'')
           \<lparr>da_owner := Some Owner_DISPATCHER, da_actions := [Act_CONTINUE_IMPLEMENTATION]\<rparr>)
       else ebind (if valid_active_job value then Inr True else valid_lease value now) (\<lambda>owned.
       if owned then
         Inr ((args Disp_OWNED
             (if truthy (getv (or_empty config) ''coordination_policy_denied'')
              then ''coordination.policy_denied'' else ''implementation.active''))
           \<lparr>da_owner := Some (if getv value ''ownership_source'' = PStr ''direct_owner''
              then Owner_DIRECT_OWNER else Owner_IMPLEMENTER),
            da_actions := [Act_CONTINUE_IMPLEMENTATION]\<rparr>)
       else
         Inr ((args Disp_RETRY_SCHEDULED ''implementation.recovery_scheduled'')
           \<lparr>da_owner := Some Owner_DISPATCHER, da_actions := [Act_RECOVER_IMPLEMENTATION],
            da_alert := Sev_INFO, da_jobs := [''implementation_recovery'']\<rparr>))))))"

section \<open>Review\<close>

text \<open>\<open>str.casefold()\<close> for comparing two texts: lower case, with sharp s as two letters.\<close>

definition py_casefold :: "string \<Rightarrow> string" where
  "py_casefold s = concat (map (\<lambda>c. if c = CHR 0xDF then ''ss'' else [lower_char c]) s)"

text \<open>The durable positive landings that match every identity that is known.\<close>

definition exact_landings :: "workflow_facts \<Rightarrow> string \<Rightarrow> string \<Rightarrow> string \<Rightarrow> landing_fact list" where
  "exact_landings facts source target head = filter (\<lambda>l.
     lf_state l = Landing_LANDED \<and> truthy (lf_durable l)
     \<and> (source = [] \<or> lf_source l = source)
     \<and> (target = [] \<or> lf_target l = target)
     \<and> (head = [] \<or> lf_revision l = Some head)) (wf_landings facts)"

text \<open>What \<open>_review_decision\<close> reads from the facts before it branches.\<close>

record review_view =
  rv_value :: "(string \<times> pyval) list"
  rv_state :: string
  rv_expected_target :: string
  rv_expected_source :: string
  rv_observed_target :: string
  rv_recorded_head :: string
  rv_current_head :: string
  rv_observed_head :: string
  rv_expected_head :: string
  rv_integration :: "(string \<times> pyval) list"
  rv_recorded_base :: string
  rv_observed_base :: string
  rv_marker :: "string option"
  rv_recorded_review :: string

definition review_view_of :: "task_view \<Rightarrow> workflow_facts \<Rightarrow> (string \<times> pyval) list \<Rightarrow> review_view" where
  "review_view_of task facts value = (
     let task_fact = or_empty (mapping_of (fo_value (wf_fact facts Dom_TASK)));
         integration = or_empty (known_mapping facts Dom_INTEGRATION);
         recorded_head = ltext_of (getv task_fact ''review_head'');
         current_head = ltext_of (getv task_fact ''head_sha'');
         observed_head = ltext_of (getv value ''head_sha'');
         observed_base = ltext_of (getv value ''base_sha'')
     in \<lparr>rv_value = value,
         rv_state = py_lower (py_strip (str_or (getv value ''state'') ''open'')),
         rv_expected_target = text_of (py_or (opt_str (tv_target_branch task)) (getv task_fact ''target_branch'')),
         rv_expected_source = py_strip (str_or (py_or (getv task_fact ''work_branch'')
           (getv task_fact ''branch_name'')) (tv_task_id task)),
         rv_observed_target = text_of (getv value ''target_branch''),
         rv_recorded_head = recorded_head, rv_current_head = current_head,
         rv_observed_head = observed_head,
         rv_expected_head = (if recorded_head \<noteq> [] then recorded_head else current_head),
         rv_integration = integration,
         rv_recorded_base = ltext_of (getv integration ''base_sha''),
         rv_observed_base = observed_base,
         rv_marker = review_generation_requeue_marker (getv value ''review_id'') (PStr observed_head)
           (PStr observed_base),
         rv_recorded_review = text_of (getv task_fact ''review_number'')\<rparr>)"

text \<open>The head that moved away from the recorded one, empty when none did.\<close>

definition changed_head :: "review_view \<Rightarrow> string" where
  "changed_head r = (
     if rv_expected_head r \<noteq> [] \<and> rv_observed_head r \<noteq> [] \<and> rv_expected_head r \<noteq> rv_observed_head r
     then rv_observed_head r
     else if rv_recorded_head r \<noteq> [] \<and> rv_current_head r \<noteq> [] \<and> rv_recorded_head r \<noteq> rv_current_head r
     then rv_current_head r
     else [])"

definition changed_base :: "review_view \<Rightarrow> bool" where
  "changed_base r = (rv_recorded_base r \<noteq> [] \<and> rv_observed_base r \<noteq> []
     \<and> rv_recorded_base r \<noteq> rv_observed_base r)"

definition missing_base_identity :: "review_view \<Rightarrow> bool" where
  "missing_base_identity r = (
     let value = rv_value r; integration = rv_integration r;
         recorded_base_branch = text_of (getv integration ''base_branch'');
         source_repository = py_casefold (text_of (getv value ''source_repository''));
         target_repository = py_casefold (text_of (getv value ''target_repository''))
     in ltext_of (getv integration ''state'') \<in> set ACCEPTED_SUBMISSION_STATES
        \<and> py_lower (py_strip (str_or (getv integration ''mode'') ''standalone'')) = ''standalone''
        \<and> rv_marker r \<noteq> None
        \<and> rv_expected_head r \<noteq> []
        \<and> ltext_of (getv integration ''head_sha'') = rv_expected_head r
        \<and> rv_observed_head r = rv_expected_head r
        \<and> rv_recorded_review r \<noteq> []
        \<and> text_of (getv value ''review_id'') = rv_recorded_review r
        \<and> rv_expected_source r \<noteq> []
        \<and> text_of (getv value ''source_branch'') = rv_expected_source r
        \<and> text_of (getv integration ''task_branch'') = rv_expected_source r
        \<and> rv_expected_target r \<noteq> []
        \<and> rv_observed_target r = rv_expected_target r
        \<and> recorded_base_branch \<in> {[], rv_expected_target r}
        \<and> source_repository \<noteq> [] \<and> source_repository = target_repository
        \<and> (rv_recorded_base r = [] \<or> recorded_base_branch = []))"

definition pending_generation :: "review_view \<Rightarrow> bool" where
  "pending_generation r = (
     getv (rv_integration r) ''wait_reason'' = PStr REVIEW_GENERATION_REQUEUE_WAIT_REASON
     \<and> (case rv_marker r of None \<Rightarrow> False
        | Some m \<Rightarrow> getv (rv_integration r) ''wait_generation'' = PStr m))"

definition or_text :: "string \<Rightarrow> string \<Rightarrow> string" where
  "or_text a b = (if a \<noteq> [] then a else b)"

text \<open>A landed review completes a child at Done, everything else at Merged.\<close>

definition landed_review_status :: "task_view \<Rightarrow> string" where
  "landed_review_status task =
     (if tv_parent_id task \<noteq> None \<and> py_lower (py_strip (tv_issue_type task)) \<noteq> ''epic''
      then DONE else MERGED)"

definition landed_review_args :: "task_view \<Rightarrow> decision_args" where
  "landed_review_args task = (args Disp_TERMINAL ''terminal.immediate_target_landing_proven'')
     \<lparr>da_owner := Some Owner_REVIEW_MONITOR,
      da_actions := [if landed_review_status task = DONE then Act_REQUEST_DONE else Act_REQUEST_MERGED],
      da_jobs := [''review_terminal_stage''], da_recommended := Some (landed_review_status task)\<rparr>"

definition operator_action ::
  "string \<Rightarrow> unmet_prerequisite list result \<Rightarrow> decision_args" where
  "operator_action reason us = (args Disp_ACTION_REQUIRED reason)
     \<lparr>da_owner := Some Owner_OPERATOR, da_unmet := us, da_actions := [Act_RESOLVE_OPERATOR_ACTION],
      da_alert := Sev_WARNING\<rparr>"

text \<open>The generation checks, before the review's own state matters.\<close>

definition review_generation_choice :: "review_view \<Rightarrow> decision_args option" where
  "review_generation_choice r = (
     if rv_observed_target r \<noteq> [] \<and> rv_expected_target r \<noteq> []
        \<and> rv_observed_target r \<noteq> rv_expected_target r then
       Some ((operator_action ''review.merge_target_mismatch''
           (unmet ''review.merge_target_mismatch'' (rv_expected_target r) (Some (rv_observed_target r))))
         \<lparr>da_recommended := Some NEEDS_HUMAN\<rparr>)
     else if changed_head r \<noteq> [] \<or> changed_base r \<or> missing_base_identity r \<or> pending_generation r then
       Some ((args Disp_RETRY_SCHEDULED ''review.head_changed'')
         \<lparr>da_owner := Some Owner_REVIEW_MONITOR,
          da_unmet := unmet ''review.head_changed''
            (rv_expected_head r @ ''@'' @ or_text (rv_recorded_base r) ''<missing-base>'')
            (Some (or_text (changed_head r) (or_text (rv_observed_head r) (rv_expected_head r))
               @ ''@'' @ or_text (rv_observed_base r) ''<missing-base>'')),
          da_actions := [Act_ROUTE_REBASE], da_alert := Sev_INFO,
          da_jobs := [''review_head_reconciliation''], da_recommended := Some READY_TO_INTEGRATE\<rparr>)
     else None)"

text \<open>A review that is gone, merged or closed.\<close>

definition review_state_choice ::
  "task_view \<Rightarrow> workflow_facts \<Rightarrow> review_view \<Rightarrow> decision_args option" where
  "review_state_choice task facts r = (
     let value = rv_value r; state = rv_state r;
         landed = exact_landings facts (rv_expected_source r) (rv_expected_target r) (rv_expected_head r)
     in if state \<in> {''missing'', ''not_found'', ''none''} \<or> getv value ''present'' = PBool False then
          Some (if landed \<noteq> [] then landed_review_args task
            else if truthy (getv value ''source_deleted'') then
              (operator_action ''review.source_deleted'' (unmet ''review.source_deleted''
                 (str_or (getv value ''source_branch'') ''review_source'') None))
                \<lparr>da_recommended := Some NEEDS_HUMAN\<rparr>
            else (args Disp_RETRY_SCHEDULED ''review.missing_artifact'')
              \<lparr>da_owner := Some Owner_REVIEW_MONITOR,
               da_unmet := unmet ''review.missing_artifact''
                 (str_or (getv value ''source_branch'') ''review'') None,
               da_actions := [Act_REFRESH_REVIEW], da_alert := Sev_INFO, da_jobs := [''review_refresh'']\<rparr>)
        else if state \<in> {''merged'', ''closed_merged''} then
          Some (if landed \<noteq> [] then landed_review_args task
            else (args Disp_RETRY_SCHEDULED ''review.landing_refresh'')
              \<lparr>da_owner := Some Owner_REVIEW_MONITOR,
               da_unmet := unmet ''review.landing_unknown'' (or_text (rv_expected_target r) ''review_target'') None,
               da_actions := [Act_REFRESH_LANDING], da_alert := Sev_INFO,
               da_jobs := [''review_landing_refresh'']\<rparr>)
        else if state \<in> {''closed'', ''closed_unmerged''} then
          Some ((args Disp_OWNED ''review.closed_unmerged'')
            \<lparr>da_owner := Some Owner_REPAIR_WORKER, da_actions := [Act_CLAIM_REPAIR],
             da_jobs := [''review_closed_repair''], da_recommended := Some OPEN\<rparr>)
        else None)"

definition review_owned :: "string \<Rightarrow> permitted_action \<Rightarrow> string \<Rightarrow> decision_args" where
  "review_owned reason action job = (args Disp_OWNED reason)
     \<lparr>da_owner := Some Owner_REVIEW_MONITOR, da_actions := [action], da_jobs := [job]\<rparr>"

text \<open>An open review: draft, CI verdict, conflicts.\<close>

definition review_ci_choice :: "(string \<times> pyval) list \<Rightarrow> decision_args" where
  "review_ci_choice value = (
     let ci = py_lower (py_strip (str_or (getv value ''ci'') ''unknown'')) in
     if truthy (getv value ''draft'') then
       review_owned ''review.draft_wait'' Act_REFRESH_REVIEW ''review_monitor''
     else if ci \<in> {''failed'', ''failure''} then
       (review_owned ''review.ci_fix_required'' Act_ROUTE_CI_FIX ''review_ci_repair'')
         \<lparr>da_recommended := Some NEEDS_CI_FIX\<rparr>
     else if truthy (getv value ''conflict'') \<or> truthy (getv value ''needs_rebase'')
          \<or> getv value ''mergeable'' = PBool False
          \<or> ltext_of (getv value ''mergeable_state'') \<in> {''dirty'', ''behind''} then
       (review_owned ''review.rebase_required'' Act_ROUTE_REBASE ''review_conflict_repair'')
         \<lparr>da_recommended := Some NEEDS_REBASE\<rparr>
     else if ci \<in> {''pending'', ''unknown'', []} then
       review_owned ''review.ci_pending'' Act_REFRESH_REVIEW ''review_monitor''
     else if ci \<in> {''passed'', ''success'', ''successful''} then
       (if truthy (getv value ''auto_merge_enabled'')
        then review_owned ''review.monitoring'' Act_REFRESH_REVIEW ''review_monitor''
        else review_owned ''review.ready_to_merge'' Act_MERGE_REVIEW ''review_merge'')
     else review_owned ''review.monitoring'' Act_REFRESH_REVIEW ''review_monitor'')"

definition review_choice :: "task_view \<Rightarrow> workflow_facts \<Rightarrow> decision_args" where
  "review_choice task facts = (case known_mapping facts Dom_REVIEW_CI of
     None \<Rightarrow> fact_wait facts Dom_REVIEW_CI Owner_REVIEW_MONITOR Act_REFRESH_REVIEW ''review_refresh''
   | Some value \<Rightarrow> let r = review_view_of task facts value in
       (case review_generation_choice r of Some a \<Rightarrow> a
        | None \<Rightarrow> (case review_state_choice task facts r of Some a \<Rightarrow> a
          | None \<Rightarrow> review_ci_choice value)))"

section \<open>Validation\<close>

definition validation_choice :: "workflow_facts \<Rightarrow> instant \<Rightarrow> decision_args result" where
  "validation_choice facts now = (case known_mapping facts Dom_TERMINAL_AUDIT of
     None \<Rightarrow> Inr (fact_wait facts Dom_TERMINAL_AUDIT Owner_AUDITOR Act_RETRY_AUDIT ''terminal_audit_recovery'')
   | Some value \<Rightarrow>
     if truthy (getv value ''quarantined'') \<or> truthy (getv value ''unsafe'') then
       Inr (operator_action ''operator.action_required''
         (unmet (str_or (getv value ''action_code'') ''audit.evidence_unsafe'') ''terminal_audit'' None))
     else if truthy (getv value ''action_required'') then
       Inr (operator_action ''operator.action_required''
         (unmet (str_or (getv value ''action_code'') ''audit.action_required'') ''terminal_audit'' None))
     else if getv value ''phase'' = PStr ''active'' then
       ebind (if valid_active_job value then Inr True else valid_lease value now) (\<lambda>live.
       if live then
         Inr ((args Disp_OWNED ''validation.active'')
           \<lparr>da_owner := Some Owner_AUDITOR, da_actions := [Act_RETRY_AUDIT]\<rparr>)
       else
         Inr ((args Disp_RETRY_SCHEDULED ''validation.retry_scheduled'')
           \<lparr>da_owner := Some Owner_AUDITOR, da_actions := [Act_RETRY_AUDIT], da_alert := Sev_INFO,
            da_jobs := [''terminal_audit_recovery'']\<rparr>))
     else (let retry = truthy (getv value ''retry_at'') in
       Inr ((args Disp_RETRY_SCHEDULED (if retry then ''validation.retry_scheduled'' else ''validation.queued''))
         \<lparr>da_owner := Some Owner_AUDITOR, da_actions := [Act_CLAIM_AUDIT],
          da_alert := (if retry then Sev_INFO else Sev_NONE), da_jobs := [''terminal_audit'']\<rparr>)))"

end
