(* ===== verification/DeliveryBranches.thy ===== *)
theory DeliveryBranches
  imports DecisionBranches
begin

text \<open>
  The delivery branches of oompah/work_decision.py: integration, rollup of children, landing of
  completed work, and the retained-provenance marker of a terminal task.
\<close>

section \<open>Integration\<close>

definition integrator :: "decision_args \<Rightarrow> decision_args" where
  "integrator a = a\<lparr>da_owner := Some Owner_INTEGRATOR\<rparr>"

text \<open>Authority, required ancestry, dependencies and operator holds, in that order.\<close>

definition integration_guard_choice ::
  "workflow_facts \<Rightarrow> unmet_prerequisite list \<Rightarrow> unmet_prerequisite list \<Rightarrow> decision_args option" where
  "integration_guard_choice facts finish hard_start = (
     let authority = wf_fact facts Dom_IMPLEMENTATION_AUTHORITY;
         authority_value = known_mapping facts Dom_IMPLEMENTATION_AUTHORITY
     in if fo_state authority = State_ERROR \<or> (fo_state authority = State_KNOWN \<and> authority_value = None) then
          Some (integrator (args Disp_RETRY_SCHEDULED
              (evidence_code Dom_IMPLEMENTATION_AUTHORITY (fo_state authority)))
            \<lparr>da_unmet := unmet (''evidence.'' @ fact_state_value (fo_state authority))
               ''implementation_authority'' (fo_error_code authority),
             da_actions := [Act_CLAIM_INTEGRATION], da_alert := Sev_INFO\<rparr>)
        else if authority_value \<noteq> None
             \<and> getv (or_empty authority_value) ''ownership_source'' = PStr ''direct_owner''
             \<and> text_of (getv (or_empty authority_value) ''generation'') \<noteq> [] then
          Some ((args Disp_OWNED ''integration.owner_retirement_pending'')
            \<lparr>da_owner := Some Owner_DIRECT_OWNER,
             da_unmet := unmet ''integration.owner_retirement_pending''
               (py_str (getv (or_empty authority_value) ''generation'')) None,
             da_actions := [Act_CONTINUE_IMPLEMENTATION]\<rparr>)
        else (case known_mapping facts Dom_INTEGRATION of
          None \<Rightarrow> Some (fact_wait facts Dom_INTEGRATION Owner_INTEGRATOR Act_CLAIM_INTEGRATION
            ''integration_recovery'')
        | Some value \<Rightarrow>
          (case sequence_of (getv value ''required_base_missing'') of
            Some (x # xs) \<Rightarrow>
              Some (integrator (args Disp_RETRY_SCHEDULED ''integration.required_base_missing'')
                \<lparr>da_unmet := eseq (\<lambda>item. mk_unmet (PStr ''integration.required_base_missing'')
                   (PStr (py_str item)) PNone) (x # xs),
                 da_actions := [Act_RECONCILE_TARGET], da_alert := Sev_INFO,
                 da_jobs := [''epic_branch_reconciliation'']\<rparr>)
          | _ \<Rightarrow>
            if finish \<noteq> [] \<or> hard_start \<noteq> [] then
              Some (integrator (args Disp_BLOCKED ''integration.dependencies_blocked'')
                \<lparr>da_unmet := Inr (finish @ hard_start), da_actions := [Act_WAIT_DEPENDENCY]\<rparr>)
            else if truthy (getv value ''live_claim_precedes_history'') then
              Some (integrator (args Disp_OWNED ''integration.live_claim_precedes_history'')
                \<lparr>da_actions := [Act_CLAIM_INTEGRATION], da_jobs := [''integration_attempt'']\<rparr>)
            else if truthy (getv value ''action_required'') then
              Some (operator_action ''operator.action_required''
                (unmet (str_or (getv value ''action_code'') ''integration.action_required'')
                   ''integration'' None))
            else None)))"

text \<open>An integrated record: the first landing of its revision on its target decides.\<close>

definition integrated_choice ::
  "task_view \<Rightarrow> workflow_facts \<Rightarrow> (string \<times> pyval) list \<Rightarrow> decision_args" where
  "integrated_choice task facts value = (
     let expected_revision = text_of (py_or (getv value ''integrated_sha'') (getv value ''head_sha''));
         target = text_of (py_or (getv value ''base_branch'') (opt_str (tv_target_branch task)));
         landing = find (\<lambda>l. (expected_revision = [] \<or> lf_revision l = Some expected_revision)
           \<and> (target = [] \<or> lf_target l = target)) (wf_landings facts)
     in if (case landing of None \<Rightarrow> False | Some l \<Rightarrow> lf_state l = Landing_LANDED) then
          integrator (args Disp_RETRY_SCHEDULED ''integration.landing_proven'')
            \<lparr>da_actions := [Act_CLAIM_INTEGRATION], da_jobs := [''integration_terminal_stage''],
             da_recommended := Some IN_VALIDATION\<rparr>
        else
          integrator (args Disp_RETRY_SCHEDULED ''integration.landing_unproven'')
            \<lparr>da_unmet := unmet ''integration.landing_unproven'' (or_text target ''integration_target'')
               (map_option (landing_state_value \<circ> lf_state) landing),
             da_actions := [Act_RECONCILE_TARGET], da_alert := Sev_INFO,
             da_jobs := [''integration_landing_refresh'']\<rparr>)"

text \<open>A ready standalone record on its exact route: the state of its accepted submission decides.\<close>

definition standalone_choice ::
  "task_view \<Rightarrow> workflow_facts \<Rightarrow> (string \<times> pyval) list \<Rightarrow> decision_args" where
  "standalone_choice task facts value = (
     let config = or_empty (known_mapping facts Dom_CONFIG);
         recovery_state = text_of (getv config ''accepted_submission_recovery_state'');
         accepted_head = text_of (py_or (getv config ''accepted_submission_head'') (getv value ''head_sha''));
         observed_branch_head = text_of (getv config ''accepted_submission_branch_head'');
         observed_review_head = text_of (getv config ''accepted_submission_review_head'');
         subject = or_text accepted_head (tv_task_id task)
     in if recovery_state = ''accepted_submission_branch_advanced'' then
          operator_action ''standalone.resubmission_required'' (unmet ''standalone.resubmission_required''
            subject (Some (or_text observed_branch_head (or_text observed_review_head recovery_state))))
        else if recovery_state = ''accepted_submission_remote_ambiguous'' then
          integrator (args Disp_BLOCKED ''standalone.remote_identity_ambiguous'')
            \<lparr>da_unmet := unmet ''standalone.remote_identity_ambiguous'' subject
               (Some (or_text observed_review_head (or_text observed_branch_head recovery_state))),
             da_actions := [Act_CLAIM_INTEGRATION], da_alert := Sev_INFO\<rparr>
        else if recovery_state \<in> {''accepted_submission_branch_unavailable'',
             ''accepted_submission_claim_changed'', ''accepted_submission_claim_retiring''} then
          integrator (args Disp_BLOCKED ''standalone.remote_identity_unavailable'')
            \<lparr>da_unmet := unmet ''standalone.remote_identity_unavailable'' subject (Some recovery_state),
             da_actions := [Act_CLAIM_INTEGRATION], da_alert := Sev_INFO\<rparr>
        else
          integrator (args Disp_RETRY_SCHEDULED ''standalone.delivery_eligible'')
            \<lparr>da_actions := [Act_CLAIM_INTEGRATION], da_jobs := [''standalone_delivery'']\<rparr>)"

definition exact_standalone_route :: "task_view \<Rightarrow> (string \<times> pyval) list \<Rightarrow> bool" where
  "exact_standalone_route task value = (
     let parent = py_strip (first_text [tv_parent_id task]);
         explicit_target = py_strip (first_text [tv_target_branch task]);
         integration_target = text_of (getv value ''base_branch'')
     in parent = []
        \<or> (explicit_target \<noteq> [] \<and> integration_target \<noteq> [] \<and> explicit_target = integration_target
            \<and> text_of (getv value ''post_landed_parent_id'') = parent))"

definition integration_claim :: "string \<Rightarrow> alert_severity \<Rightarrow> string \<Rightarrow> decision_args" where
  "integration_claim reason alert job = integrator (args Disp_RETRY_SCHEDULED reason)
     \<lparr>da_actions := [Act_CLAIM_INTEGRATION], da_alert := alert, da_jobs := [job]\<rparr>"

text \<open>The record's own state: standalone delivery, a live attempt, a blocked gate, the queue.\<close>

definition integration_state_choice ::
  "task_view \<Rightarrow> workflow_facts \<Rightarrow> (string \<times> pyval) list \<Rightarrow> instant \<Rightarrow> decision_args result" where
  "integration_state_choice task facts value now = (
     let mode = ltext_of (getv value ''mode''); state = ltext_of (getv value ''state'');
         has_parent = (py_strip (first_text [tv_parent_id task]) \<noteq> []);
         retry = truthy (getv value ''retry_at'')
     in if mode = ''standalone'' \<and> state = ''ready'' \<and> exact_standalone_route task value then
          Inr (standalone_choice task facts value)
        else if state \<in> {''integrating'', ''active''} then
          ebind (valid_lease value now) (\<lambda>live.
          if live then
            Inr (integrator (args Disp_OWNED ''integration.active'') \<lparr>da_actions := [Act_CLAIM_INTEGRATION]\<rparr>)
          else Inr (integration_claim ''integration.retry_scheduled'' Sev_INFO ''integration_recovery''))
        else if getv value ''state'' = PStr ''blocked'' \<and> \<not> truthy (getv value ''retry_forced'') then
          Inr (operator_action ''integration.gate_blocked'' (unmet ''integration.gate_blocked''
            (tv_task_id task) (Some (str_or (getv value ''last_error'') ''gate_blocked''))))
        else if state = ''blocked'' \<and> truthy (getv value ''retry_forced'') then
          Inr (integration_claim ''integration.queued'' Sev_NONE ''integration_attempt'')
        else if state \<in> {''ready'', ''queued''} \<and> (mode \<in> {[], ''queue''} \<or> has_parent) then
          Inr (integration_claim (if retry then ''integration.retry_scheduled'' else ''integration.queued'')
            (if retry then Sev_INFO else Sev_NONE) ''integration_attempt'')
        else Inr (integration_claim ''integration.retry_scheduled'' Sev_INFO ''integration_recovery''))"

definition integration_choice ::
  "task_view \<Rightarrow> workflow_facts \<Rightarrow> instant \<Rightarrow> unmet_prerequisite list \<Rightarrow> unmet_prerequisite list \<Rightarrow>
   decision_args result" where
  "integration_choice task facts now finish hard_start = (
     case integration_guard_choice facts finish hard_start of Some a \<Rightarrow> Inr a
     | None \<Rightarrow> let value = or_empty (known_mapping facts Dom_INTEGRATION) in
         if getv value ''state'' = PStr ''integrated'' then Inr (integrated_choice task facts value)
         else integration_state_choice task facts value now)"

section \<open>Rollup\<close>

definition retained_terminal_child_waiver ::
  "(string \<times> pyval) list \<Rightarrow> string \<Rightarrow> string \<Rightarrow> (string \<times> pyval) list option" where
  "retained_terminal_child_waiver child project_id parent_id = (
     case mapping_of (getv child ''retained_terminal_provenance'') of None \<Rightarrow> None | Some raw \<Rightarrow>
     let identifier = text_of (getv child ''identifier'');
         source = text_of (getv child ''landing_source'');
         target = text_of (getv child ''landing_target'');
         child_revision = ltext_of (getv child ''revision'');
         authority_version = ltext_of (getv child ''authority_version'');
         status = canonicalize_status (getv child ''status'')
     in if project_id \<noteq> [] \<and> parent_id \<noteq> [] \<and> identifier \<noteq> [] \<and> source \<noteq> [] \<and> target \<noteq> []
           \<and> getv raw ''schema_version'' = PInt 1
           \<and> getv raw ''kind'' = PStr ''owner_terminal_provenance''
           \<and> getv raw ''project_id'' = PStr project_id
           \<and> getv raw ''parent_id'' = PStr parent_id
           \<and> py_eq (getv raw ''parent_id'') (getv child ''parent_id'')
           \<and> getv raw ''task_id'' = PStr identifier
           \<and> getv raw ''status'' = PStr status \<and> status = DONE
           \<and> getv raw ''landing_source'' = PStr source
           \<and> getv raw ''landing_target'' = PStr target
           \<and> strict_str (getv raw ''revision'') \<noteq> None
           \<and> ltext_of (getv raw ''revision'') = child_revision
           \<and> 40 \<le> length child_revision \<and> length child_revision \<le> 64 \<and> lower_hex child_revision
           \<and> getv raw ''authority_version'' = PStr authority_version
           \<and> length authority_version = 64 \<and> lower_hex authority_version
           \<and> getv raw ''marker_version'' = PInt 1
           \<and> (case strict_int (getv raw ''provenance_authority_generation'') of
                None \<Rightarrow> False | Some g \<Rightarrow> 0 \<le> g)
           \<and> strict_str (getv raw ''authorized_by'') \<noteq> None \<and> text_of (getv raw ''authorized_by'') \<noteq> []
           \<and> strict_str (getv raw ''actor_source'') \<noteq> None \<and> text_of (getv raw ''actor_source'') \<noteq> []
        then Some raw else None)"

text \<open>What one child leaves open: nothing, unfinished work, or landing evidence still to be collected.\<close>

datatype child_verdict =
    Child_done
  | Child_incomplete unmet_prerequisite
  | Child_landing_unknown unmet_prerequisite

definition incomplete_child :: "string \<Rightarrow> string \<Rightarrow> string option \<Rightarrow> child_verdict result" where
  "incomplete_child code subject observed =
     ebind (mk_unmet (PStr code) (PStr subject) (opt_str observed)) (\<lambda>u. Inr (Child_incomplete u))"

definition unknown_child :: "string \<Rightarrow> string \<Rightarrow> string option \<Rightarrow> child_verdict result" where
  "unknown_child code subject observed =
     ebind (mk_unmet (PStr code) (PStr subject) (opt_str observed)) (\<lambda>u. Inr (Child_landing_unknown u))"

text \<open>The landing evidence of a child that must have landed.\<close>

definition child_landing_verdict ::
  "workflow_facts \<Rightarrow> (string \<times> pyval) list \<Rightarrow> string \<Rightarrow> child_verdict result" where
  "child_landing_verdict facts child identifier = (
     let source = text_of (getv child ''landing_source'');
         target = text_of (getv child ''landing_target'');
         matching = filter (\<lambda>l. (source = [] \<or> lf_source l = source)
           \<and> (target = [] \<or> lf_target l = target)) (wf_landings facts);
         observation = wf_fact facts Dom_LANDING;
         subject = or_text source identifier @ ''->'' @ or_text target ''target''
     in if fo_state observation \<noteq> State_KNOWN then
          unknown_child (''landing.'' @ fact_state_value (fo_state observation)) subject
            (fo_error_code observation)
        else if list_ex (\<lambda>l. lf_state l = Landing_LANDED) matching then Inr Child_done
        else if list_ex (\<lambda>l. lf_state l = Landing_UNKNOWN) matching \<or> matching = [] then
          unknown_child ''landing.unknown'' subject None
        else incomplete_child ''landing.not_landed'' subject None)"

text \<open>One round of the loop over the children.\<close>

definition child_verdict_of :: "workflow_facts \<Rightarrow> bool \<Rightarrow> pyval \<Rightarrow> child_verdict result" where
  "child_verdict_of facts target_relative raw_child = (
     let child = or_empty (mapping_of raw_child);
         identifier = str_or (getv child ''identifier'') ''unknown'';
         kind = str_or (getv child ''kind'') ''normal'';
         status = canonicalize_status (getv child ''status'');
         maintenance = (truthy (getv child ''maintenance'') \<or> kind = ''maintenance'');
         archived = (kind = ''archived'' \<or> status = ARCHIVED);
         nested = (kind = ''nested_epic''
           \<or> (kind = ''nested'' \<and> py_lower (str_or (getv child ''issue_type'') []) = ''epic''));
         incomplete = incomplete_child ''rollup.child_incomplete'' identifier (Some status)
     in if \<not> target_relative then
          (if status \<notin> set SATISFIED_DEPENDENCY_STATUSES then incomplete else Inr Child_done)
        else if archived then Inr Child_done
        else if \<not> nested \<and> \<not> maintenance \<and> status \<noteq> ''Done'' then incomplete
        else if \<not> nested \<and> maintenance then
          (if status \<notin> set SATISFIED_DEPENDENCY_STATUSES then incomplete else Inr Child_done)
        else if \<not> nested \<and> \<not> truthy (getv child ''requires_landing'') then Inr Child_done
        else if retained_terminal_child_waiver child (wf_project_id facts) (wf_task_id facts) \<noteq> None
        then Inr Child_done
        else child_landing_verdict facts child identifier)"

definition target_relative_children :: "pyval list \<Rightarrow> bool" where
  "target_relative_children children = list_ex (\<lambda>item. case mapping_of item of
     None \<Rightarrow> False
   | Some m \<Rightarrow> ''requires_landing'' \<in> set (map fst m)
       \<or> str_or (getv m ''kind'') [] \<in> {''nested'', ''nested_epic'', ''maintenance''}) children"

fun incomplete_of :: "child_verdict \<Rightarrow> unmet_prerequisite list" where
  "incomplete_of (Child_incomplete u) = [u]"
| "incomplete_of _ = []"

fun landing_unknown_of :: "child_verdict \<Rightarrow> unmet_prerequisite list" where
  "landing_unknown_of (Child_landing_unknown u) = [u]"
| "landing_unknown_of _ = []"

text \<open>After the loop: open evidence, open work, the epic's own landing, completion.\<close>

definition rollup_outcome ::
  "workflow_facts \<Rightarrow> (string \<times> pyval) list \<Rightarrow> bool \<Rightarrow> child_verdict list \<Rightarrow> decision_args" where
  "rollup_outcome facts value target_relative verdicts = (
     let landing_unknown = concat (map landing_unknown_of verdicts);
         incomplete = concat (map incomplete_of verdicts);
         verification = (if target_relative then ''child_landing_verification'' else ''rollup_reconciliation'');
         epic_source = text_of (getv value ''epic_branch'');
         epic_target = text_of (getv value ''target_branch'');
         own = (target_relative \<and> epic_source \<noteq> [] \<and> epic_target \<noteq> []);
         epic_landing = (if own then find (\<lambda>l. lf_source l = epic_source \<and> lf_target l = epic_target)
           (wf_landings facts) else None)
     in if landing_unknown \<noteq> [] then
          (args Disp_RETRY_SCHEDULED ''landing.evidence_unknown'')
            \<lparr>da_owner := Some Owner_ROLLUP, da_unmet := Inr landing_unknown,
             da_actions := [Act_REFRESH_LANDING], da_alert := Sev_INFO, da_jobs := [verification]\<rparr>
        else if incomplete \<noteq> [] then
          (args Disp_BLOCKED ''rollup.waiting_children'')
            \<lparr>da_owner := Some Owner_ROLLUP, da_unmet := Inr incomplete,
             da_actions := (if target_relative then [Act_REFRESH_LANDING, Act_ROLLUP_CHILDREN]
               else [Act_ROLLUP_CHILDREN]),
             da_jobs := [verification]\<rparr>
        else if own \<and> (case epic_landing of None \<Rightarrow> False | Some l \<Rightarrow> lf_state l = Landing_LANDED) then
          (args Disp_RUNNABLE ''terminal.immediate_target_landing_proven'')
            \<lparr>da_owner := Some Owner_ROLLUP, da_actions := [Act_REQUEST_MERGED], da_jobs := [''epic_auto_close'']\<rparr>
        else if own \<and> (case epic_landing of None \<Rightarrow> True | Some l \<Rightarrow> lf_state l = Landing_UNKNOWN) then
          (args Disp_RETRY_SCHEDULED ''landing.evidence_unknown'')
            \<lparr>da_owner := Some Owner_ROLLUP,
             da_unmet := unmet ''landing.unknown'' (epic_source @ ''->'' @ epic_target)
               (case epic_landing of None \<Rightarrow> None | Some l \<Rightarrow> lf_error_code l),
             da_actions := [Act_REFRESH_LANDING], da_alert := Sev_INFO,
             da_jobs := [''epic_terminal_validation'']\<rparr>
        else
          (args Disp_RUNNABLE ''rollup.children_complete'')
            \<lparr>da_owner := Some Owner_ROLLUP, da_actions := [Act_ROLLUP_CHILDREN],
             da_jobs := [if target_relative then ''rollup_review_creation'' else ''rollup_reconciliation'']\<rparr>)"

definition rollup_choice :: "task_view \<Rightarrow> workflow_facts \<Rightarrow> decision_args result" where
  "rollup_choice task facts = (
     let wait = fact_wait facts Dom_CONTAINMENT Owner_ROLLUP Act_ROLLUP_CHILDREN ''rollup_reconciliation'' in
     case known_mapping facts Dom_CONTAINMENT of
       None \<Rightarrow> Inr wait
     | Some value \<Rightarrow>
       (case sequence_of (get_or value ''children'' (PTuple [])) of
          None \<Rightarrow> Inr wait
        | Some children \<Rightarrow>
          if children = [] then
            Inr ((args Disp_RETRY_SCHEDULED ''rollup.children_missing'')
              \<lparr>da_owner := Some Owner_ROLLUP, da_unmet := unmet ''rollup.children_missing'' (tv_task_id task) None,
               da_actions := [Act_ROLLUP_CHILDREN], da_alert := Sev_INFO,
               da_jobs := [''rollup_reconciliation'']\<rparr>)
          else if getv value ''acyclic'' = PBool False then
            Inr (operator_action ''operator.action_required''
              (unmet ''containment.cycle'' (str_or (getv value ''cycle'') (tv_task_id task)) None))
          else (let target_relative = target_relative_children children in
            ebind (eseq (child_verdict_of facts target_relative) children) (\<lambda>verdicts.
              Inr (rollup_outcome facts value target_relative verdicts)))))"

end
