(* ===== verification/EvaluateTask.thy ===== *)
theory EvaluateTask
  imports DeliveryBranches
begin

text \<open>
  The rest of oompah/work_decision.py: landing of completed work, the terminal-provenance marker, and
  \<open>evaluate_task\<close>, which composes the branches.
\<close>

section \<open>Landing\<close>

text \<open>A child of an epic stays at Done until the parent itself is merged or archived.\<close>

definition parent_wait :: "task_view \<Rightarrow> workflow_facts \<Rightarrow> decision_args option" where
  "parent_wait task facts = (case tv_parent_id task of None \<Rightarrow> None | Some parent \<Rightarrow>
     let value = or_empty (known_mapping facts Dom_TASK);
         parent_identity = text_of (getv value ''parent_identifier'');
         parent_status = canonicalize_status (getv value ''parent_status'');
         parent_issue_type = ltext_of (getv value ''parent_issue_type'');
         parent_error = text_of (getv value ''parent_error'')
     in if parent_identity \<noteq> parent \<or> parent_issue_type \<noteq> ''epic'' \<or> parent_status \<notin> {MERGED, ARCHIVED} then
          Some ((args Disp_BLOCKED ''rollup.waiting_parent_landing'')
            \<lparr>da_owner := Some Owner_ROLLUP,
             da_unmet := unmet ''rollup.parent_not_terminal'' parent
               (Some (or_text parent_error (or_text parent_status ''parent_authority_unavailable''))),
             da_actions := [Act_REFRESH_LANDING]\<rparr>)
        else None)"

definition rollup_retry :: "string \<Rightarrow> unmet_prerequisite list result \<Rightarrow> string \<Rightarrow> decision_args" where
  "rollup_retry reason us job = (args Disp_RETRY_SCHEDULED reason)
     \<lparr>da_owner := Some Owner_ROLLUP, da_unmet := us, da_actions := [Act_REFRESH_LANDING],
      da_alert := Sev_INFO, da_jobs := [job]\<rparr>"

text \<open>The candidates are there: landed, unknown, or known not to have landed.\<close>

definition candidates_choice ::
  "task_view \<Rightarrow> workflow_facts \<Rightarrow> bool \<Rightarrow> string \<Rightarrow> landing_fact list \<Rightarrow> decision_args" where
  "candidates_choice task facts epic refresh_job candidates = (
     let landed = filter (\<lambda>l. lf_state l = Landing_LANDED) candidates;
         unknown = filter (\<lambda>l. lf_state l = Landing_UNKNOWN) candidates;
         edge = (\<lambda>l. lf_source l @ ''->'' @ lf_target l)
     in if landed \<noteq> [] then
          (case (if epic then None else parent_wait task facts) of Some a \<Rightarrow> a
           | None \<Rightarrow> (args Disp_TERMINAL ''terminal.immediate_target_landing_proven'')
               \<lparr>da_owner := Some Owner_ROLLUP, da_actions := [Act_REQUEST_MERGED],
                da_jobs := [if epic then ''epic_auto_close'' else ''parent_rollup_review''],
                da_recommended := Some MERGED\<rparr>)
        else if unknown \<noteq> [] then
          rollup_retry ''landing.evidence_unknown''
            (eseq (\<lambda>l. mk_unmet (PStr ''landing.unknown'') (PStr (edge l)) (opt_str (lf_error_code l))) unknown)
            refresh_job
        else
          (args Disp_BLOCKED ''landing.waiting'')
            \<lparr>da_owner := Some Owner_ROLLUP,
             da_unmet := eseq (\<lambda>l. mk_unmet (PStr ''landing.not_landed'') (PStr (edge l)) PNone) candidates,
             da_actions := [Act_REFRESH_LANDING]\<rparr>)"

definition landing_choice :: "task_view \<Rightarrow> workflow_facts \<Rightarrow> decision_args" where
  "landing_choice task facts = (
     let epic = (py_lower (py_strip (tv_issue_type task)) = ''epic'');
         refresh_job = (if epic then ''epic_terminal_validation'' else ''integration_landing_refresh'');
         containment = or_empty (mapping_of (fo_value (wf_fact facts Dom_CONTAINMENT)));
         expected_source = text_of (getv containment ''epic_branch'');
         expected_target = (if epic then text_of (getv containment ''target_branch'')
           else first_text [tv_target_branch task]);
         candidates = (if epic then epic_immediate_target_landings facts
           else filter (\<lambda>l. tv_target_branch task = None \<or> Some (lf_target l) = tv_target_branch task)
             (wf_landings facts))
     in if epic \<and> fo_state (wf_fact facts Dom_CONTAINMENT) \<noteq> State_KNOWN then
          fact_wait facts Dom_CONTAINMENT Owner_ROLLUP Act_REFRESH_LANDING refresh_job
        else if epic \<and> (expected_source = [] \<or> expected_target = []) then
          rollup_retry ''evidence.containment_malformed'' (unmet ''evidence.malformed'' ''containment'' None)
            refresh_job
        else if candidates = [] \<and> wf_landings facts \<noteq> [] then
          rollup_retry ''landing.target_evidence_missing''
            (unmet ''landing.target_evidence_missing'' (or_text expected_target ''configured_target'') None)
            refresh_job
        else if candidates = [] then
          fact_wait facts Dom_LANDING Owner_ROLLUP Act_REFRESH_LANDING refresh_job
        else candidates_choice task facts epic refresh_job candidates)"

section \<open>Terminal provenance\<close>

definition provenance_invalid :: "task_view \<Rightarrow> string \<Rightarrow> decision_args" where
  "provenance_invalid task error_code =
     (operator_action ''terminal.provenance_invalid''
        (unmet ''terminal.provenance_invalid'' (tv_task_id task) (Some error_code)))
     \<lparr>da_reassess := False\<rparr>"

fun is_bool :: "pyval \<Rightarrow> bool" where
  "is_bool (PBool b) = True"
| "is_bool _ = False"

definition MARKER_ONLY_FIELDS :: "string list" where
  "MARKER_ONLY_FIELDS = [''marker_version'', ''authorized_by'', ''actor_source'', ''marked_at'', ''updated_at'']"

text \<open>The identity every provenance payload must carry, and that of a marker.\<close>

definition provenance_common_valid :: "workflow_facts \<Rightarrow> (string \<times> pyval) list \<Rightarrow> bool" where
  "provenance_common_valid facts raw = (
     is_bool (getv raw ''marker_present'') \<and> is_bool (getv raw ''retained'')
     \<and> is_bool (getv raw ''malformed'')
     \<and> getv raw ''schema_version'' = PInt 1
     \<and> getv raw ''project_id'' = PStr (wf_project_id facts)
     \<and> getv raw ''task_id'' = PStr (wf_task_id facts)
     \<and> (case strict_int (getv raw ''authority_generation'') of None \<Rightarrow> False | Some g \<Rightarrow> 0 \<le> g))"

definition provenance_marker_valid :: "(string \<times> pyval) list \<Rightarrow> bool" where
  "provenance_marker_valid raw = (
     getv raw ''marker_version'' = PInt 1
     \<and> strict_str (getv raw ''authorized_by'') \<noteq> None \<and> text_of (getv raw ''authorized_by'') \<noteq> []
     \<and> strict_str (getv raw ''actor_source'') \<noteq> None \<and> text_of (getv raw ''actor_source'') \<noteq> []
     \<and> strict_str (getv raw ''marked_at'') \<noteq> None
     \<and> strict_str (getv raw ''updated_at'') \<noteq> None \<and> text_of (getv raw ''updated_at'') \<noteq> [])"

definition marker_choice ::
  "task_view \<Rightarrow> workflow_facts \<Rightarrow> (string \<times> pyval) list \<Rightarrow> decision_args option" where
  "marker_choice task facts raw = (
     let mismatch = Some (provenance_invalid task ''identity_or_authority_mismatch'');
         generation = (case strict_int (getv raw ''authority_generation'') of None \<Rightarrow> 0 | Some g \<Rightarrow> g);
         retained = getv raw ''retained''
     in if getv raw ''malformed'' = PBool True then Some (provenance_invalid task ''malformed'')
        else if \<not> provenance_common_valid facts raw then mismatch
        else if getv raw ''marker_present'' = PBool False then
          (if retained = PBool False \<and> generation = 0 \<and> tv_status task = DONE
              \<and> set MARKER_ONLY_FIELDS \<inter> set (map fst raw) = {} then None else mismatch)
        else if \<not> provenance_marker_valid raw then mismatch
        else if retained = PBool False then (if 1 \<le> generation then None else mismatch)
        else if text_of (getv raw ''marked_at'') = [] then mismatch
        else if tv_status task \<noteq> DONE then
          Some (provenance_invalid task (''retained_marker_with_'' @ tv_status task))
        else
          Some ((args Disp_TERMINAL ''terminal.provenance_retained'')
            \<lparr>da_owner := Some Owner_NONE, da_reassess := False\<rparr>))"

definition terminal_provenance_choice :: "task_view \<Rightarrow> workflow_facts \<Rightarrow> decision_args option" where
  "terminal_provenance_choice task facts = (
     let observation = wf_fact facts Dom_TERMINAL_AUDIT;
         mismatch = Some (provenance_invalid task ''identity_or_authority_mismatch'')
     in if fo_state observation \<noteq> State_KNOWN then None
        else (case mapping_of (fo_value observation) of None \<Rightarrow> mismatch | Some value \<Rightarrow>
          if ''terminal_provenance'' \<notin> set (map fst value) then None
          else (case mapping_of (getv value ''terminal_provenance'') of None \<Rightarrow> mismatch
            | Some raw \<Rightarrow> marker_choice task facts raw)))"

section \<open>Evaluation\<close>

text \<open>Identity, final statuses and the task's own fact.\<close>

definition final_choice :: "task \<Rightarrow> task_view \<Rightarrow> workflow_facts \<Rightarrow> decision_args" where
  "final_choice t view facts = (
     let exact_landing = (tv_status view = MERGED
           \<and> (case terminal_landing_identity t of None \<Rightarrow> False
              | Some (source, target, revision) \<Rightarrow> list_ex (\<lambda>l. lf_state l = Landing_LANDED
                  \<and> truthy (lf_durable l) \<and> lf_source l = source \<and> lf_target l = target
                  \<and> lf_revision l = Some revision) (wf_landings facts)))
     in (args Disp_TERMINAL (if exact_landing then ''terminal.preserve_verified_merged'' else ''terminal.final''))
          \<lparr>da_owner := Some Owner_NONE, da_reassess := False\<rparr>)"

definition identity_choice ::
  "task \<Rightarrow> task_view \<Rightarrow> workflow_facts \<Rightarrow> decision_args option result" where
  "identity_choice t view facts = (
     if tv_task_id view \<noteq> wf_task_id facts
        \<or> (tv_project_id view \<noteq> [] \<and> tv_project_id view \<noteq> wf_project_id facts) then
       Inr (Some (operator_action ''evidence.project_or_task_mismatch''
         (unmet ''evidence.identity_mismatch'' (tv_task_id view) None)))
     else if tv_status view \<in> set LIFECYCLE_FINAL_STATUSES then Inr (Some (final_choice t view facts))
     else (case known_mapping facts Dom_TASK of
       None \<Rightarrow> ebind (owner_for_status (tv_status view)) (\<lambda>owner.
         Inr (Some (fact_wait facts Dom_TASK owner Act_RECOVER_IMPLEMENTATION ''facts_refresh'')))
     | Some value \<Rightarrow>
       let fact_identifier = str_or (py_or (getv value ''identifier'') (getv value ''task_id'')) [];
           fact_project = str_or (getv value ''project_id'') (wf_project_id facts);
           fact_status = canonicalize_status (getv value ''status'')
       in Inr (
         if fact_identifier \<noteq> wf_task_id facts \<or> fact_project \<noteq> wf_project_id facts then
           Some (operator_action ''evidence.task_fact_identity_mismatch''
             (unmet ''evidence.task_fact_identity_mismatch'' (or_text fact_identifier ''missing'')
               (Some fact_project)))
         else if fact_status \<noteq> tv_status view then
           Some ((args Disp_RETRY_SCHEDULED ''evidence.task_status_mismatch'')
             \<lparr>da_unmet := unmet ''evidence.status_changed'' (tv_task_id view) (Some fact_status),
              da_actions := [Act_RECOVER_IMPLEMENTATION], da_alert := Sev_INFO, da_jobs := [''facts_refresh'']\<rparr>)
         else if tv_status view \<notin> set (map fst STATUS_CONTRACTS) then
           Some (operator_action ''workflow.unknown_status''
             (unmet ''workflow.unknown_status'' (tv_status view) None))
         else None)))"

text \<open>Direct epic maintenance: the handoff proof, parent convergence, completion.\<close>

definition maintenance_choice ::
  "task \<Rightarrow> task_view \<Rightarrow> workflow_facts \<Rightarrow> decision_args option result" where
  "maintenance_choice t view facts = (
     let integration = or_empty (known_mapping facts Dom_INTEGRATION);
         config = known_mapping facts Dom_CONFIG;
         rebased = getv (or_empty config) ''direct_epic_maintenance_parent_rebased'' in
     ebind (if integration = [] then Inr False
            else direct_epic_maintenance_handoff_ready t (Some (Ref_mapping integration))) (\<lambda>handoff.
     let parent_unproven = (handoff \<and> ((config \<noteq> None \<and> rebased = PBool False)
           \<or> (tv_status view = DONE \<and> (config = None \<or> rebased \<noteq> PBool True)))) in
     ebind (if tv_status view \<in> {OPEN, NEEDS_CI_FIX, NEEDS_REBASE, IN_VALIDATION, READY_TO_INTEGRATE, DONE}
               \<and> integration \<noteq> []
            then ebind (direct_epic_maintenance_completion_ready t (Some (Ref_mapping integration)))
              (\<lambda>completion. Inr (completion \<or> parent_unproven
                 \<or> (tv_status view = READY_TO_INTEGRATE \<and> handoff)))
            else Inr False) (\<lambda>pending.
     if pending then
       Inr (Some (integrator (args Disp_RETRY_SCHEDULED ''maintenance.publication_completion_pending'')
         \<lparr>da_actions := [Act_RECONCILE_TARGET], da_jobs := [''direct_epic_maintenance_completion'']\<rparr>))
     else if tv_status view = DONE \<and> integration \<noteq> [] \<and> handoff then
       Inr (Some ((args Disp_TERMINAL ''maintenance.publication_proven'')
         \<lparr>da_owner := Some Owner_NONE, da_reassess := False\<rparr>))
     else Inr None)))"

definition DEPENDENCY_SENSITIVE :: "string list" where
  "DEPENDENCY_SENSITIVE = [OPEN, NEEDS_CI_FIX, NEEDS_REBASE, READY_TO_INTEGRATE]"

text \<open>Statuses that start or deliver work need a readable dependency fact.\<close>

definition dependency_choice :: "task_view \<Rightarrow> workflow_facts \<Rightarrow> decision_args option result" where
  "dependency_choice view facts = (
     if tv_status view \<notin> set DEPENDENCY_SENSITIVE then Inr None
     else (let owner = (if tv_status view = READY_TO_INTEGRATE then Inr Owner_INTEGRATOR
                        else owner_for_status (tv_status view)) in
       if fo_state (wf_fact facts Dom_DEPENDENCIES) \<noteq> State_KNOWN then
         ebind owner (\<lambda>o'. Inr (Some (fact_wait facts Dom_DEPENDENCIES o' Act_WAIT_DEPENDENCY
           ''dependency_refresh'')))
       else if (case mapping_of (fo_value (wf_fact facts Dom_DEPENDENCIES)) of None \<Rightarrow> True
           | Some value \<Rightarrow> list_ex (\<lambda>key. sequence_of (get_or value key (PTuple [])) = None)
               [''finish'', ''hard_start'']) then
         ebind owner (\<lambda>o'. Inr (Some ((args Disp_RETRY_SCHEDULED ''evidence.dependencies_malformed'')
           \<lparr>da_owner := Some o', da_unmet := unmet ''evidence.malformed'' ''dependencies'' None,
            da_actions := [Act_WAIT_DEPENDENCY], da_alert := Sev_INFO, da_jobs := [''dependency_refresh'']\<rparr>)))
       else Inr None))"

text \<open>Open and repair statuses: screening, submission recovery, hard-start dependencies, dispatch.\<close>

definition dispatch_choice ::
  "task \<Rightarrow> task_view \<Rightarrow> workflow_facts \<Rightarrow> unmet_prerequisite list \<Rightarrow> decision_args result" where
  "dispatch_choice t view facts hard_start = (
     let integration = or_empty (known_mapping facts Dom_INTEGRATION);
         config = or_empty (known_mapping facts Dom_CONFIG);
         duplicate_state = ltext_of (getv config ''duplicate_screening_state'');
         pending = text_of (getv config ''implementation_pending_action'');
         recovery_state = text_of (getv config ''accepted_submission_recovery_state'');
         repair = (tv_status view \<in> {NEEDS_CI_FIX, NEEDS_REBASE}) in
     ebind (if integration = [] then Inr False
            else direct_epic_maintenance_handoff_ready t (Some (Ref_mapping integration))) (\<lambda>handoff.
     Inr (
       if handoff then
         (args Disp_OWNED ''maintenance.publication_proven'')
           \<lparr>da_owner := Some Owner_AUDITOR, da_actions := [Act_CLAIM_AUDIT], da_jobs := [''terminal_audit_done''],
            da_recommended := Some IN_VALIDATION\<rparr>
       else if tv_status view = OPEN \<and> duplicate_state = ''running'' then
         (args Disp_OWNED ''duplicate.investigating'')
           \<lparr>da_owner := Some Owner_DUPLICATE_INVESTIGATOR, da_actions := [Act_INVESTIGATE_DUPLICATE]\<rparr>
       else if pending = ''validation_submission'' then
         (args Disp_RETRY_SCHEDULED ''implementation.action_scheduled'')
           \<lparr>da_owner := Some Owner_DISPATCHER, da_actions := [Act_RECONCILE_IMPLEMENTATION],
            da_alert := Sev_INFO, da_jobs := [pending]\<rparr>
       else if starts_with recovery_state ''accepted_submission_'' then
         (args Disp_BLOCKED ''implementation.submission_recovery_parked'')
           \<lparr>da_owner := Some Owner_DISPATCHER,
            da_unmet := unmet ''implementation.submission_recovery_parked'' recovery_state None,
            da_actions := [Act_RECONCILE_IMPLEMENTATION], da_alert := Sev_INFO\<rparr>
       else if hard_start \<noteq> [] then
         (args Disp_BLOCKED ''dispatch.dependencies_blocked'')
           \<lparr>da_unmet := Inr hard_start, da_actions := [Act_WAIT_DEPENDENCY]\<rparr>
       else if tv_status view = OPEN \<and> pending \<in> {''duplicate_screening'', ''worker_exit''} then
         (args Disp_RETRY_SCHEDULED (if pending = ''duplicate_screening'' then ''duplicate.recovery_scheduled''
             else ''implementation.action_scheduled''))
           \<lparr>da_owner := Some (if pending = ''duplicate_screening'' then Owner_DUPLICATE_INVESTIGATOR
              else Owner_DISPATCHER),
            da_actions := [if pending = ''duplicate_screening'' then Act_INVESTIGATE_DUPLICATE
              else Act_RECONCILE_IMPLEMENTATION],
            da_alert := Sev_INFO, da_jobs := [pending]\<rparr>
       else
         (args Disp_RUNNABLE ''dispatch.eligible'')
           \<lparr>da_owner := Some (if repair then Owner_REPAIR_WORKER else Owner_DISPATCHER),
            da_actions := [if repair then Act_CLAIM_REPAIR else Act_CLAIM_IMPLEMENTATION],
            da_jobs := [''implementation_start'']\<rparr>)))"

definition duplicate_choice :: "workflow_facts \<Rightarrow> instant \<Rightarrow> decision_args result" where
  "duplicate_choice facts now = (
     let config = known_mapping facts Dom_CONFIG;
         duplicate_state = ltext_of (getv (or_empty config) ''duplicate_screening_state'');
         duplicate_verdict = ltext_of (getv (or_empty config) ''duplicate_screening_verdict'');
         pending = text_of (getv (or_empty config) ''implementation_pending_action'');
         value = or_empty (known_mapping facts Dom_DUPLICATE_INVESTIGATION)
     in if pending = ''worker_exit'' then
          Inr ((args Disp_RETRY_SCHEDULED ''implementation.action_scheduled'')
            \<lparr>da_owner := Some Owner_DISPATCHER, da_actions := [Act_RECONCILE_IMPLEMENTATION],
             da_alert := Sev_INFO, da_jobs := [pending]\<rparr>)
        else if duplicate_state = ''checked'' \<and> duplicate_verdict = ''duplicate_candidate'' then
          Inr ((args Disp_ACTION_REQUIRED ''duplicate.confirmed'')
            \<lparr>da_owner := Some Owner_PROJECT_OWNER, da_actions := [Act_RESOLVE_OPERATOR_ACTION],
             da_alert := Sev_WARNING\<rparr>)
        else if config \<noteq> None \<and> getv (or_empty config) ''duplicate_screening_enabled'' = PBool False then
          Inr (operator_action ''duplicate.screening_disabled'' (Inr []))
        else
          ebind (if value = [] then Inr False
                 else if valid_active_job value then Inr True else valid_lease value now) (\<lambda>live.
          Inr (if live then
              (args Disp_OWNED ''duplicate.investigating'')
                \<lparr>da_owner := Some Owner_DUPLICATE_INVESTIGATOR, da_actions := [Act_INVESTIGATE_DUPLICATE]\<rparr>
            else
              (args Disp_RETRY_SCHEDULED ''duplicate.recovery_scheduled'')
                \<lparr>da_owner := Some Owner_DUPLICATE_INVESTIGATOR, da_actions := [Act_INVESTIGATE_DUPLICATE],
                 da_alert := Sev_INFO, da_jobs := [''duplicate_screening'']\<rparr>)))"

text \<open>The branch of each status.\<close>

definition status_choice ::
  "task \<Rightarrow> task_view \<Rightarrow> workflow_facts \<Rightarrow> instant \<Rightarrow> unmet_prerequisite list \<Rightarrow> unmet_prerequisite list \<Rightarrow>
   decision_args result" where
  "status_choice t view facts now finish hard_start = (
     let status = tv_status view in
     if status = PROPOSED then
       Inr ((args Disp_BLOCKED ''intake.awaiting_decision'')
         \<lparr>da_owner := Some Owner_INTAKE, da_actions := [Act_ACCEPT_INTAKE]\<rparr>)
     else if status = BACKLOG then
       Inr ((args Disp_BLOCKED ''prioritization.awaiting_owner'')
         \<lparr>da_owner := Some Owner_PROJECT_OWNER, da_actions := [Act_PROMOTE_OPEN]\<rparr>)
     else if status \<in> {OPEN, NEEDS_CI_FIX, NEEDS_REBASE} then dispatch_choice t view facts hard_start
     else if status = IN_PROGRESS then implementation_choice facts now
     else if status = NEEDS_ANSWER then
       Inr ((args Disp_ACTION_REQUIRED ''requestor.answer_required'')
         \<lparr>da_owner := Some Owner_REQUESTOR, da_actions := [Act_ANSWER_REQUEST], da_alert := Sev_WARNING\<rparr>)
     else if status = NEEDS_HUMAN then Inr (operator_action ''operator.action_required'' (Inr []))
     else if status = IN_REVIEW then Inr (review_choice view facts)
     else if status = IN_VALIDATION then validation_choice facts now
     else if status = READY_TO_INTEGRATE then integration_choice view facts now finish hard_start
     else if status = DECOMPOSED then rollup_choice view facts
     else if status = DUPLICATE_CANDIDATE then duplicate_choice facts now
     else if status = DONE then Inr (landing_choice view facts)
     else Inl AssertionError)"

text \<open>Try a check; a check that decides ends the evaluation.\<close>

definition or_else :: "decision_args option result \<Rightarrow> decision_args result \<Rightarrow> decision_args result" where
  "or_else m k = ebind m (\<lambda>r. case r of Some a \<Rightarrow> Inr a | None \<Rightarrow> k)"

definition evaluate_choice ::
  "task \<Rightarrow> task_view \<Rightarrow> workflow_facts \<Rightarrow> instant \<Rightarrow> decision_args result" where
  "evaluate_choice t view facts now =
     or_else (identity_choice t view facts)
     (or_else (Inr (terminal_provenance_choice view facts))
     (or_else (maintenance_choice t view facts)
     (if py_lower (tv_issue_type view) = ''epic'' \<and> tv_status view \<noteq> DONE then rollup_choice view facts
      else or_else (dependency_choice view facts)
        (ebind (prerequisites facts) (\<lambda>(finish, hard_start).
          status_choice t view facts now finish hard_start)))))"

text \<open>\<open>now\<close>: a datetime, or the collection time when it is not given.\<close>

definition decision_now :: "py_datetime option \<Rightarrow> workflow_facts \<Rightarrow> instant result" where
  "decision_now now facts = (case now of
     None \<Rightarrow> parse_time (PStr (wf_collected_at facts))
   | Some (Naive t) \<Rightarrow> Inl ValueError
   | Some (Aware t) \<Rightarrow> Inr t)"

definition evaluate_task_default_policy ::
  "task \<Rightarrow> workflow_facts \<Rightarrow> py_datetime option \<Rightarrow> work_decision result" where
  "evaluate_task_default_policy t facts now =
     ebind (view_of_task t) (\<lambda>view.
     ebind (decision_now now facts) (\<lambda>instant.
     ebind (evaluate_choice t view facts instant) (\<lambda>a.
     decision view facts a)))"

text \<open>\<open>replace(decision, next_reassessment_at=deadline, decision_revision=None)\<close>.\<close>

definition replace_deadline :: "work_decision \<Rightarrow> string \<Rightarrow> work_decision result" where
  "replace_deadline d deadline =
     make_decision (PStr (wd_project_id d)) (PStr (wd_task_id d)) (PStr (wd_status d))
       (PStr (task_disposition_value (wd_disposition d))) (PStr (wd_reason_code d))
       (PStr (workflow_owner_value (wd_owner d))) (wd_unmet d) (PStr (wd_evidence_revision d))
       (PStr deadline) (map (PStr \<circ> permitted_action_value) (wd_actions d)) (wd_action_required d)
       (PStr (alert_severity_value (wd_alert d))) (map PStr (wd_jobs d)) (opt_str (wd_recommended d))
       PNone (wd_schema_version d)"

definition evaluate_task ::
  "task \<Rightarrow> workflow_facts \<Rightarrow> py_datetime option \<Rightarrow> (string \<times> pyval) list option \<Rightarrow> work_decision result" where
  "evaluate_task t facts now overrides =
     ebind (evaluate_task_default_policy t facts now) (\<lambda>d.
     case (wd_next_reassessment_at d, status_slo_key (wd_status d)) of
       (Some previous, Some key) \<Rightarrow>
         ebind (deadline_under overrides key (wf_collected_at facts)) (\<lambda>deadline.
         if deadline = previous then Inr d else replace_deadline d deadline)
     | _ \<Rightarrow> Inr d)"

end
