(* ===== verification/DecisionProofs.thy ===== *)
theory DecisionProofs
  imports EvaluateTask FactProofs ReasonProofs
begin

text \<open>
  What every decision of oompah/work_decision.py guarantees, whatever branch made it: the checks of the
  constructor, the JSON form, and the well-formedness of the arguments that each branch chooses.
\<close>

section \<open>Reason codes\<close>

definition known_code :: "string \<Rightarrow> bool" where
  "known_code c = (c \<in> set KNOWN_DECISION_REASON_CODES)"

lemma known_code_eval [simp]:
  "known_code ''coordination.policy_denied''"
  "known_code ''controller.evaluation_failed''"
  "known_code ''dispatch.dependencies_blocked''"
  "known_code ''dispatch.eligible''"
  "known_code ''dispatch.hierarchy_wait''"
  "known_code ''duplicate.confirmed''"
  "known_code ''duplicate.investigating''"
  "known_code ''duplicate.recovery_scheduled''"
  "known_code ''duplicate.screening_disabled''"
  "known_code ''evidence.conflicting_task_facts''"
  "known_code ''evidence.containment_malformed''"
  "known_code ''evidence.dependencies_malformed''"
  "known_code ''evidence.project_or_task_mismatch''"
  "known_code ''evidence.task_fact_identity_mismatch''"
  "known_code ''evidence.task_status_mismatch''"
  "known_code ''implementation.active''"
  "known_code ''implementation.action_scheduled''"
  "known_code ''implementation.recovery_scheduled''"
  "known_code ''implementation.submission_recovery_parked''"
  "known_code ''intake.awaiting_decision''"
  "known_code ''integration.active''"
  "known_code ''integration.dependencies_blocked''"
  "known_code ''integration.gate_blocked''"
  "known_code ''integration.live_claim_precedes_history''"
  "known_code ''integration.landing_proven''"
  "known_code ''integration.landing_unproven''"
  "known_code ''integration.owner_retirement_pending''"
  "known_code ''integration.queued''"
  "known_code ''integration.required_base_missing''"
  "known_code ''integration.retry_scheduled''"
  "known_code ''landing.evidence_unknown''"
  "known_code ''landing.target_evidence_missing''"
  "known_code ''landing.waiting''"
  "known_code ''maintenance.publication_completion_pending''"
  "known_code ''maintenance.publication_proven''"
  "known_code ''graph.impossible''"
  "known_code ''liveness.reassessment_overdue''"
  "known_code ''operator.action_required''"
  "known_code ''ownership.conflict''"
  "known_code ''ownership.impossible''"
  "known_code ''prioritization.awaiting_owner''"
  "known_code ''requestor.answer_required''"
  "known_code ''retry.exhausted''"
  "known_code ''automation.unavailable''"
  "known_code ''review.ci_fix_required''"
  "known_code ''review.ci_pending''"
  "known_code ''review.capacity_wait''"
  "known_code ''review.closed_unmerged''"
  "known_code ''review.draft_wait''"
  "known_code ''review.head_changed''"
  "known_code ''review.landing_refresh''"
  "known_code ''review.merge_target_mismatch''"
  "known_code ''review.missing_artifact''"
  "known_code ''review.monitoring''"
  "known_code ''review.provider_unavailable''"
  "known_code ''review.rebase_required''"
  "known_code ''review.ready_to_merge''"
  "known_code ''review.source_deleted''"
  "known_code ''rollup.children_complete''"
  "known_code ''rollup.children_missing''"
  "known_code ''rollup.status_reconciliation''"
  "known_code ''rollup.waiting_parent_landing''"
  "known_code ''rollup.waiting_children''"
  "known_code ''standalone.delivery_eligible''"
  "known_code ''standalone.remote_identity_ambiguous''"
  "known_code ''standalone.remote_identity_unavailable''"
  "known_code ''standalone.resubmission_required''"
  "known_code ''terminal.final''"
  "known_code ''terminal.immediate_target_landing_proven''"
  "known_code ''terminal.preserve_verified_merged''"
  "known_code ''terminal.provenance_invalid''"
  "known_code ''terminal.provenance_retained''"
  "known_code ''validation.active''"
  "known_code ''validation.queued''"
  "known_code ''validation.retry_scheduled''"
  "known_code ''workflow.unknown_status''"
  by (simp_all add: known_code_def KNOWN_DECISION_REASON_CODES_def FIXED_DECISION_REASON_CODES_def)

lemma known_evidence_code [simp]: "known_code (evidence_code d s)"
proof -
  have "s \<in> set FACT_STATES" by (cases s) (simp_all add: FACT_STATES_def)
  then show ?thesis
    using FACT_DOMAINS_UNIV by (auto simp: known_code_def KNOWN_DECISION_REASON_CODES_def)
qed

lemma fixed_codes_stripped: "list_all (\<lambda>c. py_strip c = c \<and> c \<noteq> []) FIXED_DECISION_REASON_CODES"
  unfolding FIXED_DECISION_REASON_CODES_def list.pred_inject
  by (intro conjI TrueI) (simp_all add: py_strip_def char_eval)

lemma evidence_code_stripped: "py_strip (evidence_code d s) = evidence_code d s"
proof -
  have f: "fact_domain_value d \<noteq> []" by (cases d) simp_all
  have l: "rev (evidence_code d s) = rev (fact_state_value s) @ ''_'' @ rev (fact_domain_value d) @ ''.ecnedive''"
    by (simp add: evidence_code_def)
  have "dropWhile is_space (rev (evidence_code d s)) = rev (evidence_code d s)"
    unfolding l by (cases s) (simp_all add: char_eval)
  moreover have "dropWhile is_space (evidence_code d s) = evidence_code d s"
    by (simp add: evidence_code_def char_eval)
  ultimately show ?thesis by (simp add: py_strip_def)
qed

lemma known_code_stripped: "known_code c \<Longrightarrow> py_strip c = c \<and> c \<noteq> []"
  using fixed_codes_stripped evidence_code_stripped
  by (auto simp: known_code_def KNOWN_DECISION_REASON_CODES_def list_all_iff evidence_code_def)

section \<open>Enumerations\<close>

lemma disposition_of_value [simp]: "disposition_of (PStr (task_disposition_value x)) = Inr x"
  by (cases x) (simp_all add: disposition_of_def enum_of_def DISPOSITIONS_def)

lemma owner_of_value [simp]: "owner_of (PStr (workflow_owner_value x)) = Inr x"
  by (cases x) (simp_all add: owner_of_def enum_of_def OWNERS_def)

lemma action_of_value [simp]: "action_of (PStr (permitted_action_value x)) = Inr x"
  by (cases x) (simp_all add: action_of_def enum_of_def PERMITTED_ACTIONS_def)

lemma permitted_action_value_inj: "permitted_action_value x = permitted_action_value y \<Longrightarrow> x = y"
  by (metis action_of_value sum.inject(2))

lemma actions_of_values [simp]: "eseq action_of (map (PStr \<circ> permitted_action_value) xs) = Inr xs"
  by (induction xs) simp_all

section \<open>Sorted sets\<close>

lemma set_sorted_set [simp]: "set (sorted_set key xs) = set xs"
  by (simp add: sorted_set_def)

lemma sorted_set_idem [simp]: "sorted_set key (sorted_set key xs) = sorted_set key xs"
  by (simp add: sorted_set_def distinct_remdups_id)

lemma sorted_set_props: "sorted (map key (sorted_set key xs)) \<and> distinct (sorted_set key xs)"
  by (simp add: sorted_set_def)

section \<open>What the constructor guarantees\<close>

definition unmet_ok :: "unmet_prerequisite \<Rightarrow> bool" where
  "unmet_ok u \<longleftrightarrow> required_text (PStr (up_code u)) = Inr (up_code u)
     \<and> required_text (PStr (up_subject u)) = Inr (up_subject u)
     \<and> optional_text (opt_str (up_observed u)) = up_observed u"

lemma mk_unmet_ok: "mk_unmet a b c = Inr u \<Longrightarrow> unmet_ok u"
  by (auto simp: mk_unmet_def ebind_eq_Inr_iff unmet_ok_def required_text_idem optional_text_idem)

lemma unmet_decode_encode: "unmet_ok u \<Longrightarrow> unmet_from_dict (unmet_to_dict u) = Inr u"
  by (cases u) (simp add: unmet_ok_def unmet_from_dict_def unmet_to_dict_def keywords_ok_def mk_unmet_def)

interpretation unmet_codec: json_codec unmet_to_dict unmet_from_dict unmet_ok
  by unfold_locales (rule unmet_decode_encode)

text \<open>Alert and disposition agree: only action-required decisions alert visibly, and all of them do.\<close>

definition decision_ok :: "work_decision \<Rightarrow> bool" where
  "decision_ok d \<longleftrightarrow>
     required_text (PStr (wd_project_id d)) = Inr (wd_project_id d)
     \<and> required_text (PStr (wd_task_id d)) = Inr (wd_task_id d)
     \<and> canonicalize_status (PStr (wd_status d)) = wd_status d
     \<and> required_text (PStr (wd_reason_code d)) = Inr (wd_reason_code d)
     \<and> known_code (wd_reason_code d)
     \<and> sorted (map unmet_key (wd_unmet d))
     \<and> required_text (PStr (wd_evidence_revision d)) = Inr (wd_evidence_revision d)
     \<and> optional_time (opt_str (wd_next_reassessment_at d)) = Inr (wd_next_reassessment_at d)
     \<and> sorted_set permitted_action_value (wd_actions d) = wd_actions d
     \<and> py_eq (wd_action_required d) (PBool (wd_disposition d = Disp_ACTION_REQUIRED))
     \<and> (truthy (wd_action_required d) \<longleftrightarrow> wd_disposition d = Disp_ACTION_REQUIRED)
     \<and> (visible_alert (wd_alert d) \<longleftrightarrow> wd_disposition d = Disp_ACTION_REQUIRED)
     \<and> eseq required_text (map PStr (wd_jobs d)) = Inr (wd_jobs d)
     \<and> sorted_set id (wd_jobs d) = wd_jobs d
     \<and> (case optional_text (opt_str (wd_recommended d)) of None \<Rightarrow> None
        | Some r \<Rightarrow> Some (canonicalize_status (PStr r))) = wd_recommended d
     \<and> py_eq (wd_schema_version d) WORK_DECISION_SCHEMA_VERSION
     \<and> wd_revision d = compute_decision_revision d"

lemma py_eq_truthy: "py_eq v (PBool b) \<Longrightarrow> truthy v = b"
  by (cases v) (auto simp: py_eq_def split: if_splits)

lemma compute_revision_ignores [simp]:
  "compute_decision_revision (d\<lparr>wd_revision := r\<rparr>) = compute_decision_revision d"
  by (simp add: compute_decision_revision_def decision_items_def)

lemma canonicalize_idem: "canonicalize_status (PStr (canonicalize_status v)) = canonicalize_status v"
proof (cases v rule: canonicalize_cases)
  case known
  then show ?thesis by simp
next
  case custom
  have "status_key (PStr (text_of v)) = status_key v" by (rule status_key_text_of [symmetric])
  with custom show ?thesis by (simp add: canonicalize_status_def [of "PStr _"] str_or_def)
qed

lemma canonical_statuses_stripped: "list_all (\<lambda>s. py_strip s = s \<and> s \<noteq> []) CANONICAL_STATUSES"
  unfolding CANONICAL_STATUSES_def list.pred_inject
  by (intro conjI TrueI) (simp_all add: py_strip_def char_eval)

lemma canonicalize_stripped:
  "py_strip (canonicalize_status v) = canonicalize_status v \<and> canonicalize_status v \<noteq> []"
proof (cases v rule: canonicalize_cases)
  case known
  then show ?thesis using canonical_statuses_stripped by (simp add: list_all_iff)
qed simp

lemma optional_canonical:
  "optional_text (PStr (canonicalize_status v)) = Some (canonicalize_status v)"
  using canonicalize_stripped [of v] by (simp add: optional_text_def)

lemma eseq_map_id: "\<forall>s \<in> set ss. f (g s) = Inr s \<Longrightarrow> eseq f (map g ss) = Inr ss"
  by (induction ss) simp_all

lemma required_texts_sorted:
  assumes "eseq required_text vs = Inr ss"
  shows "eseq required_text (map PStr (sorted_set id ss)) = Inr (sorted_set id ss)"
proof (rule eseq_map_id)
  show "\<forall>s \<in> set (sorted_set id ss). required_text (PStr s) = Inr s"
    using assms eseq_set required_text_idem by (metis set_sorted_set)
qed

lemma optional_time_idem: "optional_time v = Inr s \<Longrightarrow> optional_time (opt_str s) = Inr s"
  by (auto simp: optional_time_def ebind_eq_Inr_iff dest: normal_time_idem split: if_splits)

lemma optional_canonical_idem:
  "r = (case optional_text v of None \<Rightarrow> None | Some x \<Rightarrow> Some (canonicalize_status (PStr x))) \<Longrightarrow>
   (case optional_text (opt_str r) of None \<Rightarrow> None | Some x \<Rightarrow> Some (canonicalize_status (PStr x))) = r"
  by (cases "optional_text v") (simp_all add: optional_canonical canonicalize_idem)

lemma check_decision_Inr:
  "check_decision d claimed = Inr e \<longleftrightarrow>
     py_eq (wd_schema_version d) WORK_DECISION_SCHEMA_VERSION
     \<and> py_eq (wd_action_required d) (PBool (wd_disposition d = Disp_ACTION_REQUIRED))
     \<and> (visible_alert (wd_alert d) \<longleftrightarrow> truthy (wd_action_required d))
     \<and> (claimed = PNone \<or> claimed = PStr (compute_decision_revision d))
     \<and> e = d\<lparr>wd_revision := compute_decision_revision d\<rparr>"
  by (auto simp: check_decision_def)

lemma make_decision_ok:
  assumes "make_decision a b c d e f us g h i j k l m n s = Inr w"
  shows "decision_ok w"
  using assms unfolding make_decision_def succeeds_iff check_decision_Inr
  by (elim exE conjE, auto simp: decision_ok_def required_text_idem canonicalize_idem known_code_def
      optional_time_idem optional_canonical_idem required_texts_sorted py_eq_truthy)
    (simp_all add: compute_decision_revision_def decision_items_def)

lemma decision_decode_encode:
  assumes "decision_ok d" and "list_all unmet_ok (wd_unmet d)"
  shows "decision_from_dict (decision_to_dict d) = Inr d"
proof -
  have us: "eseq unmet_from_dict (map unmet_to_dict (wd_unmet d)) = Inr (wd_unmet d)"
    using assms(2) by (rule unmet_codec.decode_list)
  have key: "set DECISION_REQUIRED_KEYS \<subseteq> set (map fst (decision_items d @ [(''decision_revision'', x)])
      @ [''unmet_prerequisites'', ''permitted_actions'', ''durable_jobs''])" for x
    by (simp add: DECISION_REQUIRED_KEYS_def decision_items_def)
  have key2: "set (map fst (decision_items d @ [(''decision_revision'', x)])
      @ [''unmet_prerequisites'', ''permitted_actions'', ''durable_jobs'']) \<subseteq>
      set (DECISION_REQUIRED_KEYS @ [''durable_jobs'', ''recommended_status'',
             ''decision_revision'', ''schema_version''])" for x
    by (simp add: DECISION_REQUIRED_KEYS_def decision_items_def)
  have g: "getv (decision_items d @ [(''decision_revision'', x)]) ''project_id'' = PStr (wd_project_id d)"
    "getv (decision_items d @ [(''decision_revision'', x)]) ''task_id'' = PStr (wd_task_id d)"
    "getv (decision_items d @ [(''decision_revision'', x)]) ''status'' = PStr (wd_status d)"
    "getv (decision_items d @ [(''decision_revision'', x)]) ''disposition'' =
       PStr (task_disposition_value (wd_disposition d))"
    "getv (decision_items d @ [(''decision_revision'', x)]) ''reason_code'' = PStr (wd_reason_code d)"
    "getv (decision_items d @ [(''decision_revision'', x)]) ''responsible_owner'' =
       PStr (workflow_owner_value (wd_owner d))"
    "getv (decision_items d @ [(''decision_revision'', x)]) ''evidence_revision'' = PStr (wd_evidence_revision d)"
    "getv (decision_items d @ [(''decision_revision'', x)]) ''next_reassessment_at'' =
       opt_str (wd_next_reassessment_at d)"
    "getv (decision_items d @ [(''decision_revision'', x)]) ''action_required'' = wd_action_required d"
    "getv (decision_items d @ [(''decision_revision'', x)]) ''alert_level'' =
       PStr (alert_severity_value (wd_alert d))"
    "getv (decision_items d @ [(''decision_revision'', x)]) ''recommended_status'' = opt_str (wd_recommended d)"
    "getv (decision_items d @ [(''decision_revision'', x)]) ''decision_revision'' = x"
    "get_or (decision_items d @ [(''decision_revision'', x)]) ''schema_version'' y = wd_schema_version d"
    "get_or (decision_items d @ [(''decision_revision'', x)]) ''unmet_prerequisites'' y =
       PList (map unmet_to_dict (wd_unmet d))"
    "get_or (decision_items d @ [(''decision_revision'', x)]) ''permitted_actions'' y =
       PList (map (PStr \<circ> permitted_action_value) (wd_actions d))"
    "get_or (decision_items d @ [(''decision_revision'', x)]) ''durable_jobs'' y = PList (map PStr (wd_jobs d))"
    for x y by (simp_all add: decision_items_def)
  have sk: "sort_key unmet_key (wd_unmet d) = wd_unmet d"
    using assms(1) by (intro sort_key_sorted_id) (simp add: decision_ok_def)
  have rev: "compute_decision_revision (d\<lparr>wd_revision := []\<rparr>) = wd_revision d"
    using assms(1) by (simp add: decision_ok_def)
  have "make_decision (PStr (wd_project_id d)) (PStr (wd_task_id d)) (PStr (wd_status d))
       (PStr (task_disposition_value (wd_disposition d))) (PStr (wd_reason_code d))
       (PStr (workflow_owner_value (wd_owner d))) (wd_unmet d) (PStr (wd_evidence_revision d))
       (opt_str (wd_next_reassessment_at d)) (map (PStr \<circ> permitted_action_value) (wd_actions d))
       (wd_action_required d) (PStr (alert_severity_value (wd_alert d))) (map PStr (wd_jobs d))
       (opt_str (wd_recommended d)) (PStr (wd_revision d)) (wd_schema_version d)
     = check_decision (d\<lparr>wd_revision := []\<rparr>) (PStr (wd_revision d))"
    using assms(1) sk unfolding decision_ok_def make_decision_def by (cases d) (simp add: known_code_def)
  also have "\<dots> = Inr d"
    using assms(1) rev by (simp add: check_decision_Inr decision_ok_def)
  finally show ?thesis
    unfolding decision_from_dict_def decision_to_dict_def mapping_of.simps option.case g
    using us by (simp add: key key2 Let_def del: set_map map_append set_append)
qed

end
