(* ===== verification/BranchProofs.thy ===== *)
theory BranchProofs
  imports DecisionProofs
begin

text \<open>
  Every branch of the evaluator chooses well-formed arguments, and what a decision takes from the
  arguments it was made of.
\<close>

section \<open>Well-formed arguments\<close>

definition plain :: "string \<Rightarrow> bool" where
  "plain s \<longleftrightarrow> py_strip s = s \<and> s \<noteq> []"

lemma plain_job_eval [simp]:
  "plain ''authority_revocation''"
  "plain ''child_landing_verification''"
  "plain ''dependency_refresh''"
  "plain ''direct_epic_maintenance_completion''"
  "plain ''direct_owner_claim''"
  "plain ''duplicate_screening''"
  "plain ''epic_auto_close''"
  "plain ''epic_branch_reconciliation''"
  "plain ''epic_terminal_validation''"
  "plain ''facts_refresh''"
  "plain ''focus_handoff''"
  "plain ''implementation_recovery''"
  "plain ''implementation_retry''"
  "plain ''implementation_start''"
  "plain ''integration_attempt''"
  "plain ''integration_landing_refresh''"
  "plain ''integration_recovery''"
  "plain ''integration_terminal_stage''"
  "plain ''parent_rollup_review''"
  "plain ''review_ci_repair''"
  "plain ''review_closed_repair''"
  "plain ''review_conflict_repair''"
  "plain ''review_head_reconciliation''"
  "plain ''review_landing_refresh''"
  "plain ''review_merge''"
  "plain ''review_monitor''"
  "plain ''review_refresh''"
  "plain ''review_terminal_stage''"
  "plain ''rollup_reconciliation''"
  "plain ''rollup_review_creation''"
  "plain ''standalone_delivery''"
  "plain ''terminal_audit''"
  "plain ''terminal_audit_done''"
  "plain ''terminal_audit_recovery''"
  "plain ''validation_submission''"
  "plain ''worker_exit''"
  by (simp_all add: plain_def py_strip_def char_eval)

lemma plain_status_eval [simp]: "s \<in> set CANONICAL_STATUSES \<Longrightarrow> plain s"
  using canonical_statuses_stripped by (simp add: list_all_iff plain_def)

definition args_ok :: "decision_args \<Rightarrow> bool" where
  "args_ok a \<longleftrightarrow> known_code (da_reason a)
     \<and> (visible_alert (da_alert a) \<longleftrightarrow> da_disposition a = Disp_ACTION_REQUIRED)
     \<and> list_all plain (da_jobs a)
     \<and> (case da_recommended a of None \<Rightarrow> True | Some r \<Rightarrow> r \<in> set CANONICAL_STATUSES)"

lemma visible_alert_eval [simp]:
  "visible_alert Sev_WARNING" "visible_alert Sev_CRITICAL" "\<not> visible_alert Sev_INFO"
  "\<not> visible_alert Sev_NONE"
  by (simp_all add: visible_alert_def)

lemma canonical_members [simp]:
  "NEEDS_HUMAN \<in> set CANONICAL_STATUSES" "READY_TO_INTEGRATE \<in> set CANONICAL_STATUSES"
  "OPEN \<in> set CANONICAL_STATUSES" "NEEDS_CI_FIX \<in> set CANONICAL_STATUSES"
  "NEEDS_REBASE \<in> set CANONICAL_STATUSES" "IN_VALIDATION \<in> set CANONICAL_STATUSES"
  "MERGED \<in> set CANONICAL_STATUSES" "DONE \<in> set CANONICAL_STATUSES"
  by (simp_all add: CANONICAL_STATUSES_def)

lemmas args_eval = args_ok_def args_def operator_action_def integrator_def

lemma fact_wait_fields [simp]:
  "known_code (da_reason (fact_wait f d w act job))"
  "da_disposition (fact_wait f d w act job) = Disp_RETRY_SCHEDULED"
  "da_alert (fact_wait f d w act job) = Sev_INFO"
  "da_jobs (fact_wait f d w act job) = [job]"
  "da_recommended (fact_wait f d w act job) = None"
  "da_reassess (fact_wait f d w act job)"
  "da_owner (fact_wait f d w act job) = Some w"
  "da_actions (fact_wait f d w act job) = [act]"
  by (simp_all add: fact_wait_def args_def Let_def)

section \<open>Every result satisfies\<close>

text \<open>
  \<open>yields P m\<close>: whatever \<open>m\<close> returns satisfies \<open>P\<close>.  Its introduction rules follow the shape of
  a branch function, so a fact about every choice is one pass over the function.
\<close>

definition yields :: "('a \<Rightarrow> bool) \<Rightarrow> 'a result \<Rightarrow> bool" where
  "yields P m = (case m of Inl e \<Rightarrow> True | Inr a \<Rightarrow> P a)"

named_theorems yields_intros

lemma yieldsD: "yields P m \<Longrightarrow> m = Inr a \<Longrightarrow> P a"
  by (simp add: yields_def)

lemma yieldsI: "(\<And>a. m = Inr a \<Longrightarrow> P a) \<Longrightarrow> yields P m"
  by (simp add: yields_def split: sum.split)

lemma yields_simps [simp]: "yields P (Inr a) = P a" "yields P (Inl e)"
  by (simp_all add: yields_def)

lemma yields_Inr [yields_intros]: "P a \<Longrightarrow> yields P (Inr a)"
  by simp

lemma yields_bind [yields_intros]: "(\<And>x. m = Inr x \<Longrightarrow> yields P (f x)) \<Longrightarrow> yields P (ebind m f)"
  by (cases m) (simp_all add: ebind_def)

lemma yields_if [yields_intros]:
  "(c \<Longrightarrow> yields P a) \<Longrightarrow> (\<not> c \<Longrightarrow> yields P b) \<Longrightarrow> yields P (if c then a else b)"
  by simp

lemma yields_option [yields_intros]:
  "(v = None \<Longrightarrow> yields P a) \<Longrightarrow> (\<And>x. v = Some x \<Longrightarrow> yields P (f x)) \<Longrightarrow>
   yields P (case v of None \<Rightarrow> a | Some x \<Rightarrow> f x)"
  by (cases v) simp_all

lemma yields_pair [yields_intros]: "(\<And>x y. v = (x, y) \<Longrightarrow> yields P (f x y)) \<Longrightarrow> yields P (case v of (x, y) \<Rightarrow> f x y)"
  by (cases v) simp

lemma yields_or_else [yields_intros]:
  "yields (pred_option P) m \<Longrightarrow> (m = Inr None \<Longrightarrow> yields P k) \<Longrightarrow> yields P (or_else m k)"
  unfolding or_else_def by (cases m) (auto split: option.split)

lemma all_if [yields_intros]:
  "(c \<Longrightarrow> pred_option P a) \<Longrightarrow> (\<not> c \<Longrightarrow> pred_option P b) \<Longrightarrow> pred_option P (if c then a else b)"
  by simp

lemma all_Some [yields_intros]: "P a \<Longrightarrow> pred_option P (Some a)"
  by simp

lemma all_None [yields_intros]: "pred_option P None"
  by simp

lemma all_option [yields_intros]:
  "(v = None \<Longrightarrow> pred_option P a) \<Longrightarrow> (\<And>x. v = Some x \<Longrightarrow> pred_option P (f x)) \<Longrightarrow>
   pred_option P (case v of None \<Rightarrow> a | Some x \<Rightarrow> f x)"
  by (cases v) simp_all

section \<open>The branches\<close>

lemma pending_action_plain:
  "pending_implementation_action config \<noteq> [] \<Longrightarrow> plain (pending_implementation_action config)"
  by (simp add: pending_implementation_action_def Let_def plain_def)

lemma args_ok_cases [yields_intros]:
  "(c \<Longrightarrow> args_ok a) \<Longrightarrow> (\<not> c \<Longrightarrow> args_ok b) \<Longrightarrow> args_ok (if c then a else b)"
  "(v = None \<Longrightarrow> args_ok a) \<Longrightarrow> (\<And>x. v = Some x \<Longrightarrow> args_ok (f x)) \<Longrightarrow>
   args_ok (case v of None \<Rightarrow> a | Some x \<Rightarrow> f x)"
  by (simp, cases v, simp_all)

lemma fact_wait_ok [simp]: "args_ok (fact_wait f d w act job) \<longleftrightarrow> plain job"
  by (simp add: args_ok_def)

lemma implementation_choice_ok: "yields args_ok (implementation_choice facts now)"
  unfolding implementation_choice_def Let_def
  by (intro yields_intros) (auto simp: args_eval dest: pending_action_plain split: if_splits)

lemma review_choice_ok: "args_ok (review_choice task facts)"
proof -
  have l: "args_ok (landed_review_args task)"
    by (simp add: landed_review_args_def landed_review_status_def args_eval)
  have g: "pred_option args_ok (review_generation_choice r)" for r
    unfolding review_generation_choice_def by (intro yields_intros) (simp_all add: args_eval)
  have s: "pred_option args_ok (review_state_choice task facts r)" for r
    unfolding review_state_choice_def Let_def by (intro yields_intros l) (simp_all add: args_eval)
  have c: "args_ok (review_ci_choice value)" for "value"
    unfolding review_ci_choice_def Let_def review_owned_def
    by (intro yields_intros) (simp_all add: args_eval)
  show ?thesis
    unfolding review_choice_def Let_def
  proof (intro yields_intros c)
    show "args_ok a" if "review_generation_choice r = Some a" for a r
      using g [of r] that by simp
    show "args_ok a" if "review_state_choice task facts r = Some a" for a r
      using s [of r] that by simp
  qed simp
qed

lemma validation_choice_ok: "yields args_ok (validation_choice facts now)"
  unfolding validation_choice_def Let_def by (intro yields_intros) (simp_all add: args_eval)

lemma integration_guard_choice_ok: "pred_option args_ok (integration_guard_choice facts finish hard_start)"
  unfolding integration_guard_choice_def Let_def
  by (intro yields_intros) (auto simp: args_eval split: option.split list.split)

lemma integrated_choice_ok: "args_ok (integrated_choice task facts value)"
  by (simp add: integrated_choice_def Let_def args_eval)

lemma standalone_choice_ok: "args_ok (standalone_choice task facts value)"
  unfolding standalone_choice_def Let_def by (intro yields_intros) (simp_all add: args_eval)

lemma integration_state_choice_ok: "yields args_ok (integration_state_choice task facts value now)"
  unfolding integration_state_choice_def Let_def integration_claim_def
  by (intro yields_intros standalone_choice_ok) (simp_all add: args_eval)

lemma integration_choice_ok: "yields args_ok (integration_choice task facts now finish hard_start)"
  unfolding integration_choice_def Let_def
proof (intro yields_intros integrated_choice_ok integration_state_choice_ok)
  show "args_ok a" if "integration_guard_choice facts finish hard_start = Some a" for a
    using integration_guard_choice_ok [of facts finish hard_start] that by simp
qed

lemma rollup_outcome_ok: "args_ok (rollup_outcome facts value rel verdicts)"
  unfolding rollup_outcome_def Let_def by (intro yields_intros) (simp_all add: args_eval)

lemma rollup_choice_ok: "yields args_ok (rollup_choice task facts)"
  unfolding rollup_choice_def Let_def
  by (intro yields_intros rollup_outcome_ok) (simp_all add: args_eval)

lemma parent_wait_ok: "pred_option args_ok (parent_wait task facts)"
  unfolding parent_wait_def Let_def by (intro yields_intros) (simp_all add: args_eval)

lemma candidates_choice_ok: "plain job \<Longrightarrow> args_ok (candidates_choice task facts epic job ls)"
  unfolding candidates_choice_def Let_def rollup_retry_def using parent_wait_ok [of task facts]
  by (intro yields_intros) (simp_all add: args_eval split: if_splits)

lemma landing_choice_ok: "args_ok (landing_choice task facts)"
  unfolding landing_choice_def Let_def rollup_retry_def
  by (intro yields_intros candidates_choice_ok) (simp_all add: args_eval)

lemma terminal_provenance_choice_ok: "pred_option args_ok (terminal_provenance_choice task facts)"
  unfolding terminal_provenance_choice_def marker_choice_def provenance_invalid_def Let_def
  by (intro yields_intros) (simp_all add: args_eval)

lemma identity_choice_ok: "yields (pred_option args_ok) (identity_choice t view facts)"
  unfolding identity_choice_def final_choice_def Let_def
  by (intro yields_intros) (simp_all add: args_eval)

lemma maintenance_choice_ok: "yields (pred_option args_ok) (maintenance_choice t view facts)"
  unfolding maintenance_choice_def Let_def by (intro yields_intros) (simp_all add: args_eval)

lemma dependency_choice_ok: "yields (pred_option args_ok) (dependency_choice view facts)"
  unfolding dependency_choice_def Let_def by (intro yields_intros) (simp_all add: args_eval)

lemma dispatch_choice_ok: "yields args_ok (dispatch_choice t view facts hard_start)"
  unfolding dispatch_choice_def Let_def by (intro yields_intros) (auto simp: args_eval)

lemma duplicate_choice_ok: "yields args_ok (duplicate_choice facts now)"
  unfolding duplicate_choice_def Let_def by (intro yields_intros) (simp_all add: args_eval)

lemmas choice_ok = implementation_choice_ok review_choice_ok validation_choice_ok integration_choice_ok
  rollup_choice_ok landing_choice_ok terminal_provenance_choice_ok identity_choice_ok maintenance_choice_ok
  dependency_choice_ok dispatch_choice_ok duplicate_choice_ok

lemma status_choice_ok: "yields args_ok (status_choice t view facts now finish hard_start)"
  unfolding status_choice_def Let_def
  by (intro yields_intros choice_ok) (simp_all add: args_eval)

lemma evaluate_choice_ok: "yields args_ok (evaluate_choice t view facts now)"
  unfolding evaluate_choice_def
  by (intro yields_intros choice_ok status_choice_ok)

end
