(* ===== verification/DecisionOrigin.thy ===== *)
theory DecisionOrigin
  imports BranchProofs
begin

text \<open>
  How a decision of oompah/work_decision.py comes about: which of its fields come from the arguments of
  the branch that made it, and which decisions of consequence each branch can make, under which evidence.
\<close>

section \<open>What a decision takes from its arguments\<close>

lemma disposition_value_inj [simp]:
  "task_disposition_value x = task_disposition_value y \<longleftrightarrow> x = y"
  by (metis disposition_of_value sum.inject(2))

lemma eseq_required_plain: "list_all plain js \<Longrightarrow> eseq required_text (map PStr js) = Inr js"
  by (induction js) (simp_all add: plain_def required_text_def)

lemma optional_canonical_known:
  "r \<in> set CANONICAL_STATUSES \<Longrightarrow> optional_text (PStr r) = Some r"
  using plain_status_eval [of r] by (simp add: plain_def optional_text_def)

text \<open>The fields of a decision that come from the arguments it was made of.\<close>

definition made_of :: "decision_args \<Rightarrow> work_decision \<Rightarrow> bool" where
  "made_of a d \<longleftrightarrow> wd_disposition d = da_disposition a \<and> wd_reason_code d = da_reason a
     \<and> wd_alert d = da_alert a \<and> set (wd_jobs d) = set (da_jobs a)
     \<and> set (wd_actions d) = set (da_actions a) \<and> wd_recommended d = da_recommended a
     \<and> (\<exists>us. da_unmet a = Inr us \<and> set (wd_unmet d) = set us)"

lemma rendered_optional_time:
  "min_instant \<le> t \<Longrightarrow> t \<le> max_instant \<Longrightarrow>
   optional_time (PStr (render_time t)) = Inr (Some (render_time t))"
  by (simp add: optional_time_def normal_time_def parse_render)

lemma deadline_under_text:
  "deadline_under ov key t0 = Inr s \<Longrightarrow> optional_time (PStr s) = Inr (Some s)"
  by (auto simp: deadline_under_def succeeds_iff dest!: add_seconds_Inr intro!: rendered_optional_time)

lemma reassessment_text: "reassessment status t0 = Inr n \<Longrightarrow> optional_time (opt_str n) = Inr n"
  by (auto simp: reassessment_def ebind_eq_Inr_iff optional_time_def [of PNone] dest: deadline_under_text
      split: option.splits)

lemma decision_made_of:
  assumes d: "decision view facts a = Inr d" and ok: "args_ok a"
    and view: "canonicalize_status (PStr (tv_status view)) = tv_status view"
  shows "made_of a d" and "wd_status d = tv_status view" and "decision_ok d"
    and "(if da_reassess a then reassessment (tv_status view) (wf_collected_at facts) else Inr None)
           = Inr (wd_next_reassessment_at d)"
    and "wd_task_id d = text_of (PStr (wf_task_id facts))"
    and "wd_evidence_revision d = text_of (PStr (wf_facts_version facts))"
proof -
  have rec: "(case optional_text (opt_str (da_recommended a)) of None \<Rightarrow> None
      | Some r \<Rightarrow> Some (canonicalize_status (PStr r))) = da_recommended a"
    using ok by (auto simp: args_ok_def optional_canonical_known split: option.splits)
  have jobs: "eseq required_text (map PStr (da_jobs a)) = Inr (da_jobs a)"
    using ok eseq_required_plain by (simp add: args_ok_def)
  have code: "required_text (PStr (da_reason a)) = Inr (da_reason a)"
    using ok known_code_stripped by (simp add: args_ok_def required_text_def)
  obtain us own n where us: "da_unmet a = Inr us"
    and n: "(if da_reassess a then reassessment (tv_status view) (wf_collected_at facts) else Inr None) = Inr n"
    and m: "make_decision (PStr (wf_project_id facts)) (PStr (wf_task_id facts)) (PStr (tv_status view))
       (PStr (task_disposition_value (da_disposition a))) (PStr (da_reason a))
       (PStr (workflow_owner_value own)) us (PStr (wf_facts_version facts)) (opt_str n)
       (map (PStr \<circ> permitted_action_value) (da_actions a))
       (PBool (da_disposition a = Disp_ACTION_REQUIRED)) (PStr (alert_severity_value (da_alert a)))
       (map PStr (da_jobs a)) (opt_str (da_recommended a)) PNone WORK_DECISION_SCHEMA_VERSION = Inr d"
    using d unfolding decision_def succeeds_iff by blast
  have n': "optional_time (opt_str n) = Inr n"
    using n by (auto simp: optional_time_def [of PNone] dest: reassessment_text split: if_splits)
  show "decision_ok d" by (rule make_decision_ok [OF m])
  note m' = m [unfolded make_decision_def succeeds_iff check_decision_Inr]
  show "made_of a d" "wd_status d = tv_status view" "wd_task_id d = text_of (PStr (wf_task_id facts))"
    "wd_evidence_revision d = text_of (PStr (wf_facts_version facts))"
    using m' by (auto simp: jobs code rec view us made_of_def required_text_eq_Inr_iff)
  show "(if da_reassess a then reassessment (tv_status view) (wf_collected_at facts) else Inr None)
      = Inr (wd_next_reassessment_at d)"
    unfolding n using m' n' by auto
qed

lemma view_status_canonical:
  "view_of_task t = Inr view \<Longrightarrow> canonicalize_status (PStr (tv_status view)) = tv_status view"
  by (cases t) (auto simp: ebind_eq_Inr_iff canonicalize_idem)

text \<open>Moving the deadline to another rendered instant keeps everything else.\<close>

lemma replace_deadline_same:
  assumes "replace_deadline d s = Inr e" and "decision_ok d" and "optional_time (PStr s) = Inr (Some s)"
  shows "\<exists>r. e = d\<lparr>wd_next_reassessment_at := Some s, wd_revision := r\<rparr>"
  using assms unfolding replace_deadline_def make_decision_def succeeds_iff check_decision_Inr decision_ok_def
  by (cases d) (auto simp: sort_key_sorted_id)

lemma replace_deadline_ok: "replace_deadline d s = Inr e \<Longrightarrow> decision_ok e"
  unfolding replace_deadline_def by (rule make_decision_ok)

lemma made_of_deadline [simp]:
  "made_of a (d\<lparr>wd_next_reassessment_at := n, wd_revision := r\<rparr>) = made_of a d"
  by (simp add: made_of_def)

text \<open>How every decision of \<open>evaluate_task\<close> came about.\<close>

lemma evaluate_taskE:
  assumes "evaluate_task t facts now ov = Inr d"
  obtains view i a where "view_of_task t = Inr view" and "decision_now now facts = Inr i"
    and "evaluate_choice t view facts i = Inr a" and "args_ok a" and "made_of a d"
    and "wd_status d = tv_status view" and "decision_ok d"
    and "wd_task_id d = text_of (PStr (wf_task_id facts))"
    and "wd_evidence_revision d = text_of (PStr (wf_facts_version facts))"
    and "(case (if da_reassess a then status_slo_key (wd_status d) else None) of
           None \<Rightarrow> wd_next_reassessment_at d = None
         | Some key \<Rightarrow> \<exists>s. wd_next_reassessment_at d = Some s
             \<and> deadline_under ov key (wf_collected_at facts) = Inr s)"
proof -
  obtain view i a d0 where v: "view_of_task t = Inr view" and i: "decision_now now facts = Inr i"
    and a: "evaluate_choice t view facts i = Inr a" and d0: "decision view facts a = Inr d0"
    and rest: "(case (wd_next_reassessment_at d0, status_slo_key (wd_status d0)) of
       (Some previous, Some key) \<Rightarrow>
         ebind (deadline_under ov key (wf_collected_at facts)) (\<lambda>deadline.
         if deadline = previous then Inr d0 else replace_deadline d0 deadline)
     | _ \<Rightarrow> Inr d0) = Inr d"
    using assms unfolding evaluate_task_def evaluate_task_default_policy_def ebind_eq_Inr_iff by blast
  have ok: "args_ok a" using evaluate_choice_ok a by (rule yieldsD)
  note m = decision_made_of [OF d0 ok view_status_canonical [OF v]]
  have next_at: "wd_next_reassessment_at d0 = None \<longleftrightarrow>
      (if da_reassess a then status_slo_key (wd_status d0) else None) = None"
    using m(2,4) by (auto simp: reassessment_def ebind_eq_Inr_iff split: if_splits option.splits) metis+
  show ?thesis
  proof (cases "if da_reassess a then status_slo_key (wd_status d0) else None")
    case None
    then have e: "d = d0" "wd_next_reassessment_at d0 = None" using rest next_at by simp_all
    show ?thesis
      using m None e by (intro that [OF v i a ok]) (simp_all only: e option.case)
  next
    case (Some key)
    then have key: "status_slo_key (wd_status d0) = Some key" "da_reassess a"
      by (simp_all split: if_splits)
    obtain s where s: "wd_next_reassessment_at d0 = Some s" using next_at Some by auto
    obtain deadline where dl: "deadline_under ov key (wf_collected_at facts) = Inr deadline"
      and d: "(if deadline = s then Inr d0 else replace_deadline d0 deadline) = Inr d"
      using rest s key by (auto simp: ebind_eq_Inr_iff)
    show ?thesis
    proof (cases "deadline = s")
      case True
      then have "d = d0" using d by simp
      then show ?thesis
        using m key s dl True by (intro that [OF v i a ok]) simp_all
    next
      case False
      then have r: "replace_deadline d0 deadline = Inr d" using d by simp
      obtain rev' where "d = d0\<lparr>wd_next_reassessment_at := Some deadline, wd_revision := rev'\<rparr>"
        using replace_deadline_same [OF r m(3) deadline_under_text [OF dl]] by blast
      then show ?thesis
        using m key dl replace_deadline_ok [OF r] by (intro that [OF v i a ok]) simp_all
    qed
  qed
qed

section \<open>Decisions of consequence\<close>

text \<open>
  A quiet decision waits, retries, repairs or asks for help.  The others release work, finish a task, or
  schedule the jobs that merge and deliver.
\<close>

definition DELIVERY_JOBS :: "string list" where
  "DELIVERY_JOBS = [''review_merge'', ''integration_attempt'', ''standalone_delivery'']"

definition quiet :: "decision_args \<Rightarrow> bool" where
  "quiet a \<longleftrightarrow> da_disposition a \<noteq> Disp_RUNNABLE \<and> da_disposition a \<noteq> Disp_TERMINAL
     \<and> da_recommended a \<noteq> Some MERGED \<and> da_recommended a \<noteq> Some DONE
     \<and> list_all (\<lambda>j. j \<notin> set DELIVERY_JOBS) (da_jobs a)"

lemmas quiet_eval = quiet_def args_def operator_action_def integrator_def DELIVERY_JOBS_def

text \<open>Dependencies of one kind are discharged: the fact is known, readable, and every entry is satisfied.\<close>

definition dependencies_discharged :: "workflow_facts \<Rightarrow> string \<Rightarrow> bool" where
  "dependencies_discharged facts kind = (case known_mapping facts Dom_DEPENDENCIES of
     None \<Rightarrow> False
   | Some value \<Rightarrow> (case sequence_of (get_or value kind (PTuple [])) of
       None \<Rightarrow> False
     | Some items \<Rightarrow> list_all (\<lambda>item. case mapping_of item of
         None \<Rightarrow> False
       | Some entry \<Rightarrow> canonicalize_status (getv entry ''status'') \<in> set SATISFIED_DEPENDENCY_STATUSES)
         items))"

lemma unresolved_item_Nil:
  "unresolved_item kind item = Inr [] \<Longrightarrow> (case mapping_of item of None \<Rightarrow> False
     | Some entry \<Rightarrow> canonicalize_status (getv entry ''status'') \<in> set SATISFIED_DEPENDENCY_STATUSES)"
  by (auto simp: unresolved_item_def Let_def ebind_eq_Inr_iff split: option.splits if_splits)

lemma unresolved_items_Nil:
  assumes "eseq (unresolved_item kind) items = Inr us" and "concat us = []"
  shows "list_all (\<lambda>item. case mapping_of item of None \<Rightarrow> False
     | Some entry \<Rightarrow> canonicalize_status (getv entry ''status'') \<in> set SATISFIED_DEPENDENCY_STATUSES) items"
  using assms
proof (induction items arbitrary: us)
  case (Cons x xs)
  then obtain u vs where "unresolved_item kind x = Inr u" "eseq (unresolved_item kind) xs = Inr vs"
    "us = u # vs" by (auto simp: ebind_eq_Inr_iff)
  with Cons show ?case using unresolved_item_Nil [of kind x] by simp
qed simp

lemma unresolved_Nil:
  assumes "unresolved value kind = Inr []"
  shows "\<exists>items. sequence_of (get_or value kind (PTuple [])) = Some items
     \<and> list_all (\<lambda>item. case mapping_of item of None \<Rightarrow> False
     | Some entry \<Rightarrow> canonicalize_status (getv entry ''status'') \<in> set SATISFIED_DEPENDENCY_STATUSES) items"
  using assms unresolved_items_Nil
  by (force simp: unresolved_def ebind_eq_Inr_iff split: option.splits)

lemma prerequisites_Nil:
  assumes "prerequisites facts = Inr (finish, hard_start)"
  shows "finish = [] \<Longrightarrow> dependencies_discharged facts ''finish''"
    and "hard_start = [] \<Longrightarrow> dependencies_discharged facts ''hard_start''"
  using assms
  by (auto simp: prerequisites_def Let_def ebind_eq_Inr_iff dependencies_discharged_def known_mapping_def
      split: if_splits option.splits dest!: unresolved_Nil)

section \<open>The evidence each branch needs\<close>

definition has_landed :: "workflow_facts \<Rightarrow> bool" where
  "has_landed facts = list_ex (\<lambda>l. lf_state l = Landing_LANDED) (wf_landings facts)"

text \<open>
  An open review may be merged: it passed CI, is no draft, has no conflict, targets the expected branch,
  and neither its head nor its base moved since they were recorded.
\<close>

definition agree :: "string \<Rightarrow> string \<Rightarrow> bool" where
  "agree a b = (a = [] \<or> b = [] \<or> a = b)"

definition review_mergeable :: "task_view \<Rightarrow> workflow_facts \<Rightarrow> bool" where
  "review_mergeable task facts = (case known_mapping facts Dom_REVIEW_CI of None \<Rightarrow> False
     | Some value \<Rightarrow> let r = review_view_of task facts value in
         agree (rv_observed_target r) (rv_expected_target r)
         \<and> agree (rv_expected_head r) (rv_observed_head r)
         \<and> agree (rv_recorded_head r) (rv_current_head r)
         \<and> agree (rv_recorded_base r) (rv_observed_base r)
         \<and> \<not> truthy (getv value ''draft'') \<and> \<not> truthy (getv value ''conflict'')
         \<and> \<not> truthy (getv value ''needs_rebase'') \<and> getv value ''mergeable'' \<noteq> PBool False
         \<and> \<not> truthy (getv value ''auto_merge_enabled'')
         \<and> rv_state r \<notin> {''missing'', ''not_found'', ''none'', ''merged'', ''closed_merged'', ''closed'',
              ''closed_unmerged''}
         \<and> py_lower (py_strip (str_or (getv value ''ci'') ''unknown'')) \<in> {''passed'', ''success'', ''successful''})"

text \<open>No child of the epic is left open: specified on the child alone, without the loop of the code.\<close>

definition child_landed :: "workflow_facts \<Rightarrow> (string \<times> pyval) list \<Rightarrow> bool" where
  "child_landed facts child = (fo_state (wf_fact facts Dom_LANDING) = State_KNOWN
     \<and> list_ex (\<lambda>l. lf_state l = Landing_LANDED
         \<and> (text_of (getv child ''landing_source'') = [] \<or> lf_source l = text_of (getv child ''landing_source''))
         \<and> (text_of (getv child ''landing_target'') = [] \<or> lf_target l = text_of (getv child ''landing_target'')))
       (wf_landings facts))"

definition child_discharged :: "workflow_facts \<Rightarrow> bool \<Rightarrow> pyval \<Rightarrow> bool" where
  "child_discharged facts target_relative raw = (
     let child = or_empty (mapping_of raw); status = canonicalize_status (getv child ''status'');
         kind = str_or (getv child ''kind'') ''normal'' in
     if \<not> target_relative then status \<in> {DONE, MERGED, ARCHIVED}
     else status = ARCHIVED \<or> kind = ''archived''
       \<or> status \<in> {DONE, MERGED, ARCHIVED} \<and> (truthy (getv child ''maintenance'')
           \<or> kind = ''maintenance'' \<or> \<not> truthy (getv child ''requires_landing''))
       \<or> retained_terminal_child_waiver child (wf_project_id facts) (wf_task_id facts) \<noteq> None
       \<or> child_landed facts child)"

definition children_discharged :: "workflow_facts \<Rightarrow> bool" where
  "children_discharged facts = (case known_mapping facts Dom_CONTAINMENT of None \<Rightarrow> False
     | Some value \<Rightarrow> getv value ''acyclic'' \<noteq> PBool False
         \<and> (case sequence_of (get_or value ''children'' (PTuple [])) of None \<Rightarrow> False
            | Some children \<Rightarrow> children \<noteq> []
                \<and> list_all (child_discharged facts (target_relative_children children)) children))"

text \<open>Delivery of a record: its fact is known, nothing of the base is missing, no direct owner holds it.\<close>

definition delivery_ready :: "workflow_facts \<Rightarrow> bool" where
  "delivery_ready facts = (case known_mapping facts Dom_INTEGRATION of None \<Rightarrow> False
     | Some value \<Rightarrow>
         (case sequence_of (getv value ''required_base_missing'') of None \<Rightarrow> True | Some xs \<Rightarrow> xs = [])
         \<and> fo_state (wf_fact facts Dom_IMPLEMENTATION_AUTHORITY) \<noteq> State_ERROR
         \<and> (case known_mapping facts Dom_IMPLEMENTATION_AUTHORITY of None \<Rightarrow> True
            | Some authority \<Rightarrow> getv authority ''ownership_source'' \<noteq> PStr ''direct_owner''
                \<or> text_of (getv authority ''generation'') = []))"

section \<open>The quiet branches\<close>

lemma fact_wait_quiet [simp]: "job \<notin> set DELIVERY_JOBS \<Longrightarrow> quiet (fact_wait facts d w act job)"
  by (simp add: quiet_def)

lemma pending_not_delivery: "pending_implementation_action config \<notin> set DELIVERY_JOBS"
  by (auto simp: pending_implementation_action_def Let_def IMPLEMENTATION_ACTION_JOBS_def DELIVERY_JOBS_def)

lemma quiet_cases [yields_intros]:
  "(c \<Longrightarrow> quiet a) \<Longrightarrow> (\<not> c \<Longrightarrow> quiet b) \<Longrightarrow> quiet (if c then a else b)"
  by simp

lemma implementation_quiet: "yields quiet (implementation_choice facts now)"
  using pending_not_delivery [of "known_mapping facts Dom_CONFIG"]
  unfolding implementation_choice_def Let_def by (intro yields_intros) (simp_all add: quiet_eval)

lemma validation_quiet: "yields quiet (validation_choice facts now)"
  unfolding validation_choice_def Let_def by (intro yields_intros) (simp_all add: quiet_eval)

lemma duplicate_quiet: "yields quiet (duplicate_choice facts now)"
  unfolding duplicate_choice_def Let_def by (intro yields_intros) (simp_all add: quiet_eval)

lemma dependency_quiet: "yields (pred_option quiet) (dependency_choice view facts)"
  unfolding dependency_choice_def Let_def by (intro yields_intros) (simp_all add: quiet_eval)

section \<open>The branches of consequence\<close>

lemma review_origin:
  "quiet (review_choice task facts)
   \<or> (review_choice task facts = landed_review_args task \<and> has_landed facts)
   \<or> (review_choice task facts = review_owned ''review.ready_to_merge'' Act_MERGE_REVIEW ''review_merge''
       \<and> review_mergeable task facts)"
proof (cases "known_mapping facts Dom_REVIEW_CI")
  case None
  then show ?thesis by (simp add: review_choice_def DELIVERY_JOBS_def)
next
  case (Some "value")
  let ?r = "review_view_of task facts value"
  have v: "rv_value ?r = value" by (simp add: review_view_of_def Let_def)
  have g: "pred_option quiet (review_generation_choice ?r)"
    unfolding review_generation_choice_def by (intro yields_intros) (simp_all add: quiet_eval)
  have landed: "exact_landings facts x y z \<noteq> [] \<Longrightarrow> has_landed facts" for x y z
    by (auto simp: exact_landings_def has_landed_def list_ex_iff filter_empty_conv)
  have s: "pred_option (\<lambda>a. quiet a \<or> (a = landed_review_args task \<and> has_landed facts))
      (review_state_choice task facts ?r)"
    unfolding review_state_choice_def Let_def v
    by (intro yields_intros) (auto simp: quiet_eval dest: landed split: if_splits)
  have c: "quiet (review_ci_choice value)
      \<or> (review_ci_choice value = review_owned ''review.ready_to_merge'' Act_MERGE_REVIEW ''review_merge''
         \<and> \<not> truthy (getv value ''draft'') \<and> \<not> truthy (getv value ''conflict'')
         \<and> \<not> truthy (getv value ''needs_rebase'') \<and> getv value ''mergeable'' \<noteq> PBool False
         \<and> \<not> truthy (getv value ''auto_merge_enabled'')
         \<and> py_lower (py_strip (str_or (getv value ''ci'') ''unknown'')) \<in> {''passed'', ''success'', ''successful''})"
    by (simp add: review_ci_choice_def Let_def quiet_eval review_owned_def)
  have ag: "agree (rv_observed_target ?r) (rv_expected_target ?r)
         \<and> agree (rv_expected_head ?r) (rv_observed_head ?r)
         \<and> agree (rv_recorded_head ?r) (rv_current_head ?r)
         \<and> agree (rv_recorded_base ?r) (rv_observed_base ?r)"
    if "review_generation_choice ?r = None"
    using that by (auto simp: review_generation_choice_def changed_head_def changed_base_def agree_def
        split: if_splits)
  have st: "rv_state ?r \<notin> {''missing'', ''not_found'', ''none'', ''merged'', ''closed_merged'', ''closed'',
              ''closed_unmerged''}" if "review_state_choice task facts ?r = None"
    using that by (auto simp: review_state_choice_def Let_def split: if_splits)
  show ?thesis
  proof (cases "review_generation_choice ?r")
    case (Some a)
    then show ?thesis using g \<open>known_mapping facts Dom_REVIEW_CI = Some value\<close>
      by (simp add: review_choice_def)
  next
    case gen: None
    show ?thesis
    proof (cases "review_state_choice task facts ?r")
      case (Some a)
      then show ?thesis using s gen \<open>known_mapping facts Dom_REVIEW_CI = Some value\<close>
        by (auto simp: review_choice_def)
    next
      case state: None
      then have "review_choice task facts = review_ci_choice value"
        using gen Some by (simp add: review_choice_def)
      then show ?thesis using c ag [OF gen] st [OF state] Some
        by (auto simp: review_mergeable_def Let_def)
    qed
  qed
qed

lemma integration_guard_origin:
  "pred_option (\<lambda>a. quiet a \<or> (da_jobs a = [''integration_attempt''] \<and> da_disposition a = Disp_OWNED
       \<and> da_recommended a = None \<and> finish = [] \<and> hard_start = [] \<and> delivery_ready facts))
     (integration_guard_choice facts finish hard_start)"
  unfolding integration_guard_choice_def Let_def
  by (auto simp: quiet_eval delivery_ready_def or_empty_def split: if_split option.split list.split)

lemma integration_guard_passed:
  "integration_guard_choice facts finish hard_start = None \<Longrightarrow>
   finish = [] \<and> hard_start = [] \<and> delivery_ready facts"
  unfolding integration_guard_choice_def Let_def
  by (auto simp: delivery_ready_def or_empty_def split: if_splits option.splits list.splits)

definition delivers :: "decision_args \<Rightarrow> bool" where
  "delivers a \<longleftrightarrow> da_jobs a \<in> {[''integration_attempt''], [''standalone_delivery'']}
     \<and> da_disposition a \<in> {Disp_OWNED, Disp_RETRY_SCHEDULED} \<and> da_recommended a = None"

lemma standalone_origin: "quiet (standalone_choice task facts value) \<or> delivers (standalone_choice task facts value)"
  by (simp add: standalone_choice_def Let_def quiet_eval delivers_def)

lemma integration_origin:
  "yields (\<lambda>a. quiet a \<or> (delivers a \<and> finish = [] \<and> hard_start = [] \<and> delivery_ready facts))
     (integration_choice task facts now finish hard_start)"
proof -
  have s: "yields (\<lambda>a. quiet a \<or> delivers a) (integration_state_choice task facts value now)" for "value"
    unfolding integration_state_choice_def integration_claim_def Let_def
    by (intro yields_intros standalone_origin) (simp_all add: quiet_eval delivers_def)
  have i: "quiet (integrated_choice task facts value)" for "value"
    by (simp add: integrated_choice_def Let_def quiet_eval)
  show ?thesis
  proof (cases "integration_guard_choice facts finish hard_start")
    case None
    then show ?thesis
      using i s integration_guard_passed [OF None]
      by (simp add: integration_choice_def Let_def)
  next
    case (Some a)
    then show ?thesis
      using integration_guard_origin [of finish hard_start facts]
      by (auto simp: integration_choice_def delivers_def)
  qed
qed

lemma child_done:
  assumes "child_verdict_of facts rel raw = Inr Child_done"
  shows "child_discharged facts rel raw"
proof -
  have never: "incomplete_child c s obs \<noteq> Inr Child_done" "unknown_child c s obs \<noteq> Inr Child_done" for c s obs
    by (auto simp: incomplete_child_def unknown_child_def ebind_eq_Inr_iff)
  have l: "child_landing_verdict facts child i = Inr Child_done \<Longrightarrow> child_landed facts child" for child i
    by (auto simp: child_landing_verdict_def Let_def never child_landed_def list_ex_iff split: if_splits)
  show ?thesis
    using assms never l [of "or_empty (mapping_of raw)"]
    by (auto simp: child_verdict_of_def Let_def child_discharged_def SATISFIED_DEPENDENCY_STATUSES_def
        split: if_splits)
qed

lemma verdicts_done:
  assumes "eseq (child_verdict_of facts rel) children = Inr vs"
    and "concat (map incomplete_of vs) = []" and "concat (map landing_unknown_of vs) = []"
  shows "list_all (child_discharged facts rel) children"
  using assms
proof (induction children arbitrary: vs)
  case (Cons x xs)
  then obtain v ws where v: "child_verdict_of facts rel x = Inr v"
    and ws: "eseq (child_verdict_of facts rel) xs = Inr ws" and vs: "vs = v # ws"
    by (auto simp: ebind_eq_Inr_iff)
  from vs Cons.prems have "v = Child_done" by (cases v) simp_all
  with v have "child_discharged facts rel x" by (simp add: child_done)
  moreover have "list_all (child_discharged facts rel) xs" using Cons.IH [OF ws] Cons.prems vs by simp
  ultimately show ?case by simp
qed simp

definition rolls_up :: "decision_args \<Rightarrow> bool" where
  "rolls_up a \<longleftrightarrow> da_disposition a = Disp_RUNNABLE \<and> da_recommended a = None
     \<and> da_reason a \<in> {''rollup.children_complete'', ''terminal.immediate_target_landing_proven''}
     \<and> list_all (\<lambda>j. j \<notin> set DELIVERY_JOBS) (da_jobs a)
     \<and> da_owner a = Some Owner_ROLLUP"

lemma rollup_outcome_origin:
  "quiet (rollup_outcome facts value rel vs)
   \<or> (rolls_up (rollup_outcome facts value rel vs)
      \<and> concat (map incomplete_of vs) = [] \<and> concat (map landing_unknown_of vs) = [])"
  by (auto simp: rollup_outcome_def Let_def quiet_eval rolls_up_def)

lemma rollup_origin:
  "yields (\<lambda>a. quiet a \<or> (rolls_up a \<and> children_discharged facts)) (rollup_choice task facts)"
  unfolding rollup_choice_def Let_def
proof (intro yields_intros)
  fix "value" children vs
  assume v: "known_mapping facts Dom_CONTAINMENT = Some value"
    and c: "sequence_of (get_or value ''children'' (PTuple [])) = Some children"
    and ne: "children \<noteq> []" and ac: "getv value ''acyclic'' \<noteq> PBool False"
    and vs: "eseq (child_verdict_of facts (target_relative_children children)) children = Inr vs"
  show "quiet (rollup_outcome facts value (target_relative_children children) vs)
      \<or> (rolls_up (rollup_outcome facts value (target_relative_children children) vs)
         \<and> children_discharged facts)"
    using rollup_outcome_origin [of facts "value" "target_relative_children children" vs] verdicts_done [OF vs]
      v c ne ac by (auto simp: children_discharged_def)
qed (simp_all add: quiet_eval)

definition lands :: "workflow_facts \<Rightarrow> decision_args \<Rightarrow> bool" where
  "lands facts a \<longleftrightarrow> da_disposition a = Disp_TERMINAL
     \<and> da_reason a = ''terminal.immediate_target_landing_proven''
     \<and> list_all (\<lambda>j. j \<notin> set DELIVERY_JOBS) (da_jobs a) \<and> has_landed facts"

lemma parent_wait_quiet: "pred_option quiet (parent_wait task facts)"
  unfolding parent_wait_def Let_def by (intro yields_intros) (simp_all add: quiet_eval)

lemma filtered_landed:
  "filter (\<lambda>l. lf_state l = Landing_LANDED) ls \<noteq> [] \<Longrightarrow> set ls \<subseteq> set (wf_landings facts) \<Longrightarrow> has_landed facts"
  by (auto simp: has_landed_def list_ex_iff filter_empty_conv)

lemma candidates_origin:
  assumes "set ls \<subseteq> set (wf_landings facts)"
  shows "quiet (candidates_choice task facts epic job ls) \<or> lands facts (candidates_choice task facts epic job ls)
     \<or> job \<in> set DELIVERY_JOBS"
proof (cases "filter (\<lambda>l. lf_state l = Landing_LANDED) ls = []")
  case True
  then show ?thesis
    by (simp add: candidates_choice_def rollup_retry_def Let_def quiet_def args_def)
next
  case False
  with filtered_landed assms have "has_landed facts" by blast
  then show ?thesis
    using False parent_wait_quiet [of task facts]
    by (auto simp: candidates_choice_def Let_def lands_def args_def DELIVERY_JOBS_def split: option.split)
qed

lemma landing_origin: "quiet (landing_choice task facts) \<or> lands facts (landing_choice task facts)"
proof -
  have c: "quiet (candidates_choice task facts epic (if epic then ''epic_terminal_validation''
        else ''integration_landing_refresh'') ls)
     \<or> lands facts (candidates_choice task facts epic (if epic then ''epic_terminal_validation''
        else ''integration_landing_refresh'') ls)"
    if "set ls \<subseteq> set (wf_landings facts)" for epic ls
    using candidates_origin [OF that, of task epic "if epic then ''epic_terminal_validation''
        else ''integration_landing_refresh''"] by (auto simp: DELIVERY_JOBS_def)
  have e: "set (epic_immediate_target_landings facts) \<subseteq> set (wf_landings facts)"
    by (auto simp: epic_immediate_target_landings_def Let_def)
  have cases: "(g \<Longrightarrow> quiet a \<or> lands facts a) \<Longrightarrow> (\<not> g \<Longrightarrow> quiet b \<or> lands facts b) \<Longrightarrow>
      quiet (if g then a else b) \<or> lands facts (if g then a else b)" for g a b by simp
  show ?thesis
    unfolding landing_choice_def Let_def
    using e by (intro cases c) (auto simp: rollup_retry_def quiet_eval)
qed

text \<open>A retained marker that answers for this task at this status.\<close>

definition marker_retained :: "task_view \<Rightarrow> workflow_facts \<Rightarrow> bool" where
  "marker_retained task facts = (case known_mapping facts Dom_TERMINAL_AUDIT of None \<Rightarrow> False
     | Some value \<Rightarrow> (case mapping_of (getv value ''terminal_provenance'') of None \<Rightarrow> False
       | Some raw \<Rightarrow> getv raw ''retained'' = PBool True \<and> getv raw ''marker_present'' = PBool True
           \<and> getv raw ''project_id'' = PStr (wf_project_id facts)
           \<and> getv raw ''task_id'' = PStr (wf_task_id facts)
           \<and> text_of (getv raw ''authorized_by'') \<noteq> [] \<and> text_of (getv raw ''marked_at'') \<noteq> []
           \<and> tv_status task = DONE))"

lemma is_bool_cases: "is_bool v \<Longrightarrow> v \<noteq> PBool False \<Longrightarrow> v = PBool True"
  by (cases v) auto

lemma provenance_origin:
  "pred_option (\<lambda>a. quiet a \<or> (da_disposition a = Disp_TERMINAL \<and> da_reason a = ''terminal.provenance_retained''
       \<and> da_jobs a = [] \<and> da_recommended a = None \<and> marker_retained task facts))
     (terminal_provenance_choice task facts)"
proof -
  let ?P = "\<lambda>a. quiet a \<or> (da_disposition a = Disp_TERMINAL \<and> da_reason a = ''terminal.provenance_retained''
       \<and> da_jobs a = [] \<and> da_recommended a = None \<and> marker_retained task facts)"
  have i: "quiet (provenance_invalid task e)" for e
    by (simp add: provenance_invalid_def quiet_eval)
  have m: "pred_option ?P (marker_choice task facts raw)"
    if v: "known_mapping facts Dom_TERMINAL_AUDIT = Some value"
      and raw: "mapping_of (getv value ''terminal_provenance'') = Some raw" for "value" raw
    unfolding marker_choice_def Let_def
    using v raw is_bool_cases [of "getv raw ''retained''"] is_bool_cases [of "getv raw ''marker_present''"]
    by (auto simp: i provenance_common_valid_def provenance_marker_valid_def marker_retained_def args_def)
  show ?thesis
    unfolding terminal_provenance_choice_def Let_def
    by (intro yields_intros m) (auto simp: i known_mapping_def)
qed

lemma identity_origin:
  "yields (pred_option (\<lambda>a. quiet a \<or> (a = final_choice t view facts
       \<and> tv_status view \<in> set LIFECYCLE_FINAL_STATUSES))) (identity_choice t view facts)"
  unfolding identity_choice_def Let_def
  by (intro yields_intros) (simp_all add: quiet_eval)

lemma identity_passed:
  "identity_choice t view facts = Inr None \<Longrightarrow> tv_status view \<notin> set LIFECYCLE_FINAL_STATUSES
     \<and> tv_task_id view = wf_task_id facts \<and> known_mapping facts Dom_TASK \<noteq> None
     \<and> canonicalize_status (getv (or_empty (known_mapping facts Dom_TASK)) ''status'') = tv_status view
     \<and> tv_status view \<in> set (map fst STATUS_CONTRACTS)"
  unfolding identity_choice_def Let_def
  by (auto simp: or_empty_def ebind_eq_Inr_iff split: if_splits option.splits)

lemma maintenance_origin:
  "yields (pred_option (\<lambda>a. quiet a \<or> (da_disposition a = Disp_TERMINAL
       \<and> da_reason a = ''maintenance.publication_proven'' \<and> da_jobs a = [] \<and> da_recommended a = None
       \<and> tv_status view = DONE \<and> known_mapping facts Dom_INTEGRATION \<noteq> None
       \<and> direct_epic_maintenance_handoff_ready t
           (Some (Ref_mapping (or_empty (known_mapping facts Dom_INTEGRATION)))) = Inr True)))
     (maintenance_choice t view facts)"
  unfolding maintenance_choice_def Let_def
  by (intro yields_intros) (auto simp: quiet_eval or_empty_def split: if_splits option.splits)

lemma dispatch_origin:
  "yields (\<lambda>a. quiet a \<or> (da_disposition a = Disp_RUNNABLE \<and> da_reason a = ''dispatch.eligible''
       \<and> da_jobs a = [''implementation_start''] \<and> da_recommended a = None \<and> hard_start = []
       \<and> \<not> starts_with (text_of (getv (or_empty (known_mapping facts Dom_CONFIG))
             ''accepted_submission_recovery_state'')) ''accepted_submission_''))
     (dispatch_choice t view facts hard_start)"
  unfolding dispatch_choice_def Let_def
  by (intro yields_intros) (auto simp: quiet_eval)

section \<open>Every decision of consequence and its evidence\<close>

definition eligible :: "decision_args \<Rightarrow> bool" where
  "eligible a \<longleftrightarrow> da_disposition a = Disp_RUNNABLE \<and> da_reason a = ''dispatch.eligible''
     \<and> da_jobs a = [''implementation_start''] \<and> da_recommended a = None"

definition finishes :: "string \<Rightarrow> decision_args \<Rightarrow> bool" where
  "finishes reason a \<longleftrightarrow> da_disposition a = Disp_TERMINAL \<and> da_reason a = reason \<and> da_jobs a = []
     \<and> da_recommended a = None"

definition fact_agrees :: "task_view \<Rightarrow> workflow_facts \<Rightarrow> bool" where
  "fact_agrees view facts \<longleftrightarrow> known_mapping facts Dom_TASK \<noteq> None
     \<and> canonicalize_status (getv (or_empty (known_mapping facts Dom_TASK)) ''status'') = tv_status view"

definition delivery_evidence :: "task_view \<Rightarrow> workflow_facts \<Rightarrow> decision_args \<Rightarrow> bool" where
  "delivery_evidence view facts a \<longleftrightarrow>
     (tv_status view \<in> {OPEN, NEEDS_CI_FIX, NEEDS_REBASE} \<and> eligible a
        \<and> dependencies_discharged facts ''hard_start'')
     \<or> (tv_status view = IN_REVIEW \<and> a = landed_review_args view \<and> has_landed facts)
     \<or> (tv_status view = IN_REVIEW \<and> review_mergeable view facts
        \<and> a = review_owned ''review.ready_to_merge'' Act_MERGE_REVIEW ''review_merge'')
     \<or> (tv_status view = READY_TO_INTEGRATE \<and> delivers a \<and> dependencies_discharged facts ''finish''
        \<and> dependencies_discharged facts ''hard_start'' \<and> delivery_ready facts)
     \<or> (rolls_up a \<and> children_discharged facts)
     \<or> (tv_status view = DONE \<and> lands facts a)"

definition evidence :: "task \<Rightarrow> task_view \<Rightarrow> workflow_facts \<Rightarrow> decision_args \<Rightarrow> bool" where
  "evidence t view facts a \<longleftrightarrow>
     (tv_status view \<in> set LIFECYCLE_FINAL_STATUSES \<and> a = final_choice t view facts)
     \<or> fact_agrees view facts \<and>
       ((finishes ''terminal.provenance_retained'' a \<and> marker_retained view facts)
        \<or> (finishes ''maintenance.publication_proven'' a \<and> tv_status view = DONE
           \<and> direct_epic_maintenance_handoff_ready t
               (Some (Ref_mapping (or_empty (known_mapping facts Dom_INTEGRATION)))) = Inr True)
        \<or> delivery_evidence view facts a)"

lemma yields_weaken: "yields P m \<Longrightarrow> (\<And>a. m = Inr a \<Longrightarrow> P a \<Longrightarrow> Q a) \<Longrightarrow> yields Q m"
  by (cases m) simp_all

lemma all_weaken: "pred_option P m \<Longrightarrow> (\<And>a. P a \<Longrightarrow> Q a) \<Longrightarrow> pred_option Q m"
  by (cases m) simp_all

lemma status_origin:
  assumes p: "prerequisites facts = Inr (finish, hard_start)"
  shows "yields (\<lambda>a. quiet a \<or> delivery_evidence view facts a)
    (status_choice t view facts now finish hard_start)"
  unfolding status_choice_def Let_def
  apply (intro yields_intros)
  subgoal by (simp add: quiet_eval)
  subgoal by (simp add: quiet_eval)
  subgoal
    by (rule yields_weaken [OF dispatch_origin])
      (use prerequisites_Nil [OF p] in \<open>auto simp: delivery_evidence_def eligible_def\<close>)
  subgoal by (rule yields_weaken [OF implementation_quiet]) simp
  subgoal by (simp add: quiet_eval)
  subgoal by (simp add: quiet_eval)
  subgoal using review_origin [of view facts] by (auto simp: delivery_evidence_def)
  subgoal by (rule yields_weaken [OF validation_quiet]) simp
  subgoal
    by (rule yields_weaken [OF integration_origin])
      (use prerequisites_Nil [OF p] in \<open>auto simp: delivery_evidence_def\<close>)
  subgoal by (rule yields_weaken [OF rollup_origin]) (auto simp: delivery_evidence_def)
  subgoal by (rule yields_weaken [OF duplicate_quiet]) simp
  subgoal using landing_origin [of view facts] by (auto simp: delivery_evidence_def)
  by simp

lemma evaluate_origin: "yields (\<lambda>a. quiet a \<or> evidence t view facts a) (evaluate_choice t view facts now)"
  unfolding evaluate_choice_def
proof (intro yields_or_else)
  show "yields (pred_option (\<lambda>a. quiet a \<or> evidence t view facts a)) (identity_choice t view facts)"
    by (rule yields_weaken [OF identity_origin]) (auto simp: evidence_def elim!: all_weaken)
next
  assume id: "identity_choice t view facts = Inr None"
  then have agrees: "fact_agrees view facts" using identity_passed by (simp add: fact_agrees_def)
  note e = evidence_def finishes_def agrees
  show "yields (pred_option (\<lambda>a. quiet a \<or> evidence t view facts a))
      (Inr (terminal_provenance_choice view facts))"
    using provenance_origin [of view facts] by (auto simp: e elim!: all_weaken)
  show "yields (pred_option (\<lambda>a. quiet a \<or> evidence t view facts a)) (maintenance_choice t view facts)"
    by (rule yields_weaken [OF maintenance_origin]) (auto simp: e elim!: all_weaken)
  show "yields (\<lambda>a. quiet a \<or> evidence t view facts a)
     (if py_lower (tv_issue_type view) = ''epic'' \<and> tv_status view \<noteq> DONE then rollup_choice view facts
      else or_else (dependency_choice view facts)
        (ebind (prerequisites facts) (\<lambda>(finish, hard_start).
          status_choice t view facts now finish hard_start)))"
  proof (intro yields_if yields_or_else yields_bind yields_pair)
    show "yields (\<lambda>a. quiet a \<or> evidence t view facts a) (rollup_choice view facts)"
      by (rule yields_weaken [OF rollup_origin]) (auto simp: e delivery_evidence_def)
    show "yields (pred_option (\<lambda>a. quiet a \<or> evidence t view facts a)) (dependency_choice view facts)"
      by (rule yields_weaken [OF dependency_quiet]) (auto elim!: all_weaken)
    fix p finish hard_start
    assume "prerequisites facts = Inr p" and "p = (finish, hard_start)"
    then show "yields (\<lambda>a. quiet a \<or> evidence t view facts a)
        (status_choice t view facts now finish hard_start)"
      by (intro yields_weaken [OF status_origin]) (auto simp: e)
  qed
qed

section \<open>Prerequisites are well-formed\<close>

definition settled :: "decision_args \<Rightarrow> bool" where
  "settled a = yields (list_all unmet_ok) (da_unmet a)"

lemma settled_unmet [simp]: "yields (list_all unmet_ok) (unmet c s obs)"
  by (auto simp: unmet_def ebind_eq_Inr_iff mk_unmet_ok intro!: yieldsI)

lemma settled_eseq [simp]: "yields (list_all unmet_ok) (eseq (\<lambda>x. mk_unmet (f x) (g x) (h x)) xs)"
  by (induction xs) (auto simp: ebind_eq_Inr_iff mk_unmet_ok yields_def split: sum.splits intro!: yieldsI)

lemma settled_cases [yields_intros]:
  "(c \<Longrightarrow> settled a) \<Longrightarrow> (\<not> c \<Longrightarrow> settled b) \<Longrightarrow> settled (if c then a else b)"
  "(v = None \<Longrightarrow> settled a) \<Longrightarrow> (\<And>x. v = Some x \<Longrightarrow> settled (f x)) \<Longrightarrow>
   settled (case v of None \<Rightarrow> a | Some x \<Rightarrow> f x)"
  by (simp, cases v, simp_all)

lemmas settled_eval = settled_def args_def operator_action_def integrator_def

lemma fact_wait_settled [simp]:
  "yields (list_all unmet_ok) (da_unmet (fact_wait f d w act job))" "settled (fact_wait f d w act job)"
  by (simp_all add: fact_wait_def settled_eval Let_def)

lemma unresolved_ok: "unresolved value kind = Inr us \<Longrightarrow> list_all unmet_ok us"
proof -
  have item: "unresolved_item kind x = Inr vs \<Longrightarrow> list_all unmet_ok vs" for x vs
    by (auto simp: unresolved_item_def Let_def ebind_eq_Inr_iff mk_unmet_ok split: option.splits if_splits)
  have "eseq (unresolved_item kind) items = Inr vs \<Longrightarrow> list_all unmet_ok (concat vs)" for items vs
    by (induction items arbitrary: vs) (auto simp: ebind_eq_Inr_iff dest: item)
  then show "unresolved value kind = Inr us \<Longrightarrow> list_all unmet_ok us"
    by (auto simp: unresolved_def ebind_eq_Inr_iff mk_unmet_ok split: option.splits)
qed

lemma prerequisites_ok:
  "prerequisites facts = Inr (finish, hard_start) \<Longrightarrow> list_all unmet_ok finish \<and> list_all unmet_ok hard_start"
  by (auto simp: prerequisites_def Let_def ebind_eq_Inr_iff mk_unmet_ok dest: unresolved_ok
      split: if_splits option.splits)

lemma review_settled: "settled (review_choice task facts)"
proof -
  have g: "pred_option settled (review_generation_choice r)" for r
    unfolding review_generation_choice_def by (intro yields_intros) (simp_all add: settled_eval)
  have s: "pred_option settled (review_state_choice task facts r)" for r
    unfolding review_state_choice_def landed_review_args_def Let_def
    by (intro yields_intros) (simp_all add: settled_eval)
  have c: "settled (review_ci_choice value)" for "value"
    by (simp add: review_ci_choice_def review_owned_def Let_def settled_eval)
  show ?thesis
    unfolding review_choice_def Let_def
  proof (intro yields_intros c)
    show "settled a" if "review_generation_choice r = Some a" for a r using g [of r] that by simp
    show "settled a" if "review_state_choice task facts r = Some a" for a r using s [of r] that by simp
  qed simp
qed

lemma integration_settled:
  assumes "list_all unmet_ok finish" and "list_all unmet_ok hard_start"
  shows "yields settled (integration_choice task facts now finish hard_start)"
proof -
  have g: "pred_option settled (integration_guard_choice facts finish hard_start)"
    using assms settled_eseq unfolding integration_guard_choice_def Let_def
    by (intro yields_intros) (auto simp: settled_eval simp del: eseq.simps split: option.split list.split)
  have st: "settled (standalone_choice task facts value)" for "value"
    unfolding standalone_choice_def Let_def by (intro yields_intros) (simp_all add: settled_eval)
  have s: "yields settled (integration_state_choice task facts value now)" for "value"
    unfolding integration_state_choice_def integration_claim_def Let_def
    by (intro yields_intros st) (simp_all add: settled_eval)
  have i: "settled (integrated_choice task facts value)" for "value"
    by (simp add: integrated_choice_def Let_def settled_eval)
  show ?thesis
    using g i s by (auto simp: integration_choice_def Let_def split: option.split)
qed

lemma rollup_settled: "yields settled (rollup_choice task facts)"
proof -
  have v: "list_all unmet_ok (incomplete_of x) \<and> list_all unmet_ok (landing_unknown_of x)"
    if "child_verdict_of facts rel raw = Inr x" for rel raw x
  proof -
    have m: "yields (\<lambda>x. list_all unmet_ok (incomplete_of x) \<and> list_all unmet_ok (landing_unknown_of x))
        (incomplete_child c s obs)"
      "yields (\<lambda>x. list_all unmet_ok (incomplete_of x) \<and> list_all unmet_ok (landing_unknown_of x))
        (unknown_child c s obs)" for c s obs
      by (auto simp: incomplete_child_def unknown_child_def ebind_eq_Inr_iff mk_unmet_ok intro!: yieldsI)
    have "yields (\<lambda>x. list_all unmet_ok (incomplete_of x) \<and> list_all unmet_ok (landing_unknown_of x))
        (child_verdict_of facts rel raw)"
      unfolding child_verdict_of_def child_landing_verdict_def Let_def
      by (intro yields_if m) simp_all
    with that show ?thesis by (simp add: yields_def)
  qed
  have vs: "list_all unmet_ok (concat (map incomplete_of vs)) \<and> list_all unmet_ok (concat (map landing_unknown_of vs))"
    if "eseq (child_verdict_of facts rel) cs = Inr vs" for rel cs vs
    using that by (induction cs arbitrary: vs) (auto simp: ebind_eq_Inr_iff dest: v)
  show ?thesis
    unfolding rollup_choice_def rollup_outcome_def Let_def
    by (intro yields_intros) (auto simp: settled_eval dest: vs)
qed

lemma landing_settled: "settled (landing_choice task facts)"
proof -
  have p: "pred_option settled (parent_wait task facts)"
    unfolding parent_wait_def Let_def by (intro yields_intros) (simp_all add: settled_eval)
  have c: "settled (candidates_choice task facts epic job ls)" for epic job ls
    unfolding candidates_choice_def rollup_retry_def Let_def
    using p by (intro yields_intros) (auto simp: settled_eval simp del: eseq.simps split: if_splits)
  show ?thesis
    unfolding landing_choice_def rollup_retry_def Let_def
    by (intro yields_intros c) (simp_all add: settled_eval)
qed

lemma evaluate_settled: "yields settled (evaluate_choice t view facts now)"
proof -
  have s: "yields settled (status_choice t view facts now finish hard_start)"
    if p: "prerequisites facts = Inr (finish, hard_start)" for finish hard_start
  proof -
    have d: "yields settled (dispatch_choice t view facts hard_start)"
      unfolding dispatch_choice_def Let_def
      by (intro yields_intros) (use prerequisites_ok [OF p] in \<open>simp_all add: settled_eval\<close>)
    have i: "yields settled (implementation_choice facts now)"
      unfolding implementation_choice_def Let_def by (intro yields_intros) (simp_all add: settled_eval)
    have v: "yields settled (validation_choice facts now)"
      unfolding validation_choice_def Let_def by (intro yields_intros) (simp_all add: settled_eval)
    have u: "yields settled (duplicate_choice facts now)"
      unfolding duplicate_choice_def Let_def by (intro yields_intros) (simp_all add: settled_eval)
    show ?thesis
      unfolding status_choice_def Let_def
      using prerequisites_ok [OF p]
      by (intro yields_intros d i v u review_settled integration_settled rollup_settled landing_settled)
        (simp_all add: settled_eval)
  qed
  have i: "yields (pred_option settled) (identity_choice t view facts)"
    unfolding identity_choice_def final_choice_def Let_def by (intro yields_intros) (simp_all add: settled_eval)
  have p: "pred_option settled (terminal_provenance_choice view facts)"
    unfolding terminal_provenance_choice_def marker_choice_def provenance_invalid_def Let_def
    by (intro yields_intros) (simp_all add: settled_eval)
  have m: "yields (pred_option settled) (maintenance_choice t view facts)"
    unfolding maintenance_choice_def Let_def by (intro yields_intros) (simp_all add: settled_eval)
  have d: "yields (pred_option settled) (dependency_choice view facts)"
    unfolding dependency_choice_def Let_def by (intro yields_intros) (simp_all add: settled_eval)
  show ?thesis
    unfolding evaluate_choice_def by (intro yields_intros i p m d rollup_settled s) simp_all
qed

end
