(* ===== verification/DecisionClaims.thy ===== *)
theory DecisionClaims
  imports DecisionOrigin
begin

text \<open>
  The properties of \<open>evaluate_task\<close> (oompah/work_decision.py) that its consumers rely on: what every
  decision satisfies, when a task is declared finished or work is released, and how soon it is looked at
  again.
\<close>

section \<open>A decision is returned\<close>

lemma owner_for_status_total: "\<exists>own. owner_for_status s = Inr own"
proof (cases "map_of STATUS_CONTRACTS s")
  case (Some c)
  have "list_all (\<lambda>(s, c). sc_owners c = [] \<or> find (\<lambda>own. own \<in> set (sc_owners c)) PREFERRED_OWNERS \<noteq> None)
      STATUS_CONTRACTS"
    by (simp add: STATUS_CONTRACTS_def PREFERRED_OWNERS_def)
  moreover from Some have "(s, c) \<in> set STATUS_CONTRACTS" by (rule map_of_SomeD)
  ultimately have "sc_owners c = [] \<or> find (\<lambda>own. own \<in> set (sc_owners c)) PREFERRED_OWNERS \<noteq> None"
    by (auto simp: list_all_iff)
  with Some show ?thesis by (auto simp: owner_for_status_def)
qed (simp add: owner_for_status_def)

lemma status_slo_known:
  assumes "status_slo_key s = Some key"
  obtains slo where "map_of LIVENESS_SLOS key = Some slo" and "1 \<le> slo_seconds slo" and "slo_seconds slo \<le> 3600"
proof -
  have k: "list_all (\<lambda>(s, c). case rc_slo_key (sc_reassessment c) of None \<Rightarrow> True
      | Some k \<Rightarrow> k \<in> set (map fst LIVENESS_SLOS)) STATUS_CONTRACTS"
    unfolding slo_keys by (simp add: STATUS_CONTRACTS_def)
  from assms obtain c where "map_of STATUS_CONTRACTS s = Some c" and "rc_slo_key (sc_reassessment c) = Some key"
    by (auto simp: status_slo_key_def split: option.splits)
  then have "key \<in> set (map fst LIVENESS_SLOS)" using k by (auto simp: list_all_iff dest!: map_of_SomeD)
  then obtain slo where slo: "map_of LIVENESS_SLOS key = Some slo"
    by (metis map_of_eq_None_iff image_set not_None_eq)
  have "list_all (\<lambda>(k, slo). 1 \<le> slo_seconds slo \<and> slo_seconds slo \<le> 3600) LIVENESS_SLOS"
    by (simp add: LIVENESS_SLOS_def mk_slo_def)
  with map_of_SomeD [OF slo] have "1 \<le> slo_seconds slo \<and> slo_seconds slo \<le> 3600"
    by (auto simp: list_all_iff)
  with slo that show ?thesis by blast
qed

lemma reassessment_total:
  assumes "parse_time (PStr collected) = Inr t" and "t + 3600 * second_us \<le> max_instant"
  shows "\<exists>n. reassessment s collected = Inr n"
proof (cases "status_slo_key s")
  case (Some key)
  obtain slo where slo: "map_of LIVENESS_SLOS key = Some slo" "1 \<le> slo_seconds slo" "slo_seconds slo \<le> 3600"
    by (rule status_slo_known [OF Some])
  then have "0 \<le> slo_seconds slo * second_us" "slo_seconds slo * second_us \<le> 3600 * second_us"
    by (simp_all add: second_us_def)
  then have "add_seconds t (slo_seconds slo) = Inr (t + slo_seconds slo * second_us)"
    using parse_time_range [OF assms(1)] assms(2) by (simp add: add_seconds_def check_instant_def)
  with slo assms(1) Some show ?thesis
    by (simp add: reassessment_def deadline_under_def default_slos)
qed (simp add: reassessment_def)

lemma decision_returns:
  assumes ok: "args_ok a" and us: "da_unmet a = Inr us"
    and ids: "text_of (PStr (wf_project_id facts)) \<noteq> []" "text_of (PStr (wf_task_id facts)) \<noteq> []"
      "text_of (PStr (wf_facts_version facts)) \<noteq> []"
    and re: "da_reassess a \<Longrightarrow> \<exists>n. reassessment (tv_status view) (wf_collected_at facts) = Inr n"
  shows "\<exists>d. decision view facts a = Inr d"
proof -
  obtain own where own: "(case da_owner a of Some o' \<Rightarrow> Inr o' | None \<Rightarrow> owner_for_status (tv_status view)) = Inr own"
    using owner_for_status_total by (cases "da_owner a") auto
  obtain n where n: "(if da_reassess a then reassessment (tv_status view) (wf_collected_at facts) else Inr None) = Inr n"
    using re by (cases "da_reassess a") auto
  have n': "optional_time (opt_str n) = Inr n"
    using n by (auto simp: optional_time_def [of PNone] dest: reassessment_text split: if_splits)
  have jobs: "eseq required_text (map PStr (da_jobs a)) = Inr (da_jobs a)"
    using ok eseq_required_plain by (simp add: args_ok_def)
  have code: "required_text (PStr (da_reason a)) = Inr (da_reason a)" "da_reason a \<in> set KNOWN_DECISION_REASON_CODES"
    using ok known_code_stripped by (auto simp: args_ok_def required_text_def known_code_def)
  have req: "required_text (PStr (wf_project_id facts)) = Inr (text_of (PStr (wf_project_id facts)))"
    "required_text (PStr (wf_task_id facts)) = Inr (text_of (PStr (wf_task_id facts)))"
    "required_text (PStr (wf_facts_version facts)) = Inr (text_of (PStr (wf_facts_version facts)))"
    using ids by (simp_all add: required_text_eq_Inr_iff)
  show ?thesis
    using ok unfolding decision_def us own n make_decision_def ebind_simps
    by (simp add: req code jobs n' check_decision_def args_ok_def py_eq_def)
qed

section \<open>Concrete snapshots\<close>

text \<open>
  The sample snapshot with some domains known, and tasks as the mappings a tracker hands over; the
  witnesses of this theory run \<open>evaluate_task\<close> on them.
\<close>

definition with_known :: "(fact_domain \<times> (string \<times> pyval) list) list \<Rightarrow> landing_fact list \<Rightarrow> workflow_facts" where
  "with_known kvs landings = sample_facts\<lparr>wf_fact := (\<lambda>d. case map_of kvs d of
       None \<Rightarrow> sample_missing d
     | Some m \<Rightarrow> (sample_missing d)\<lparr>fo_state := State_KNOWN, fo_value := PProxy m\<rparr>),
     wf_landings := landings\<rparr>"

definition sample_task :: "string \<Rightarrow> (string \<times> pyval) list \<Rightarrow> task" where
  "sample_task status extra = Task_mapping ([(''identifier'', PStr ''T-1''), (''project_id'', PStr ''proj''),
     (''status'', PStr status)] @ extra)"

definition task_fact :: "string \<Rightarrow> (fact_domain \<times> (string \<times> pyval) list)" where
  "task_fact status = (Dom_TASK, [(''identifier'', PStr ''T-1''), (''status'', PStr status)])"

lemma with_known_simps [simp]:
  "wf_project_id (with_known kvs ls) = ''proj''" "wf_task_id (with_known kvs ls) = ''T-1''"
  "wf_landings (with_known kvs ls) = ls"
  "wf_collected_at (with_known kvs ls) = render_time 1709208000000000"
  "wf_fact (with_known kvs ls) d = (case map_of kvs d of
       None \<Rightarrow> sample_missing d
     | Some m \<Rightarrow> (sample_missing d)\<lparr>fo_state := State_KNOWN, fo_value := PProxy m\<rparr>)"
  "wf_facts_version (with_known kvs ls) = wf_facts_version sample_facts"
  by (simp_all add: with_known_def sample_facts_def)

lemma known_mapping_with [simp]: "known_mapping (with_known kvs ls) d = map_of kvs d"
  by (simp add: known_mapping_def sample_missing_def split: option.split)

lemma lower_hex_stripped:
  assumes "lower_hex s"
  shows "py_strip s = s"
proof (rule py_strip_id)
  have "\<forall>c \<in> set ''0123456789abcdef''. \<not> is_space c" by (simp add: char_eval)
  then have "\<not> is_space c" if "c \<in> set ''0123456789abcdef''" for c using that by (rule bspec)
  then show "list_all (\<lambda>c. \<not> is_space c) s"
    using assms unfolding lower_hex_def by (rule list.pred_mono_strong [rotated])
qed

lemma sample_version [simp]: "py_strip (wf_facts_version sample_facts) \<noteq> []"
proof -
  have "\<exists>x. wf_facts_version sample_facts = sha256_hex x"
    unfolding sample_facts_def compute_facts_version_def digest_def workflow_facts.select_convs by blast
  then show ?thesis by (auto simp: lower_hex_stripped)
qed

lemma sample_ids: "py_strip ''proj'' \<noteq> []" "py_strip ''T-1'' \<noteq> []"
  by (simp_all add: py_strip_def char_eval)

lemma sample_reassessment: "\<exists>n. reassessment s (render_time 1709208000000000) = Inr n"
  by (rule reassessment_total [where t = 1709208000000000])
    (simp_all add: parse_render min_instant_def max_instant_def day_us_def second_us_def epoch_ord_def)

lemma sample_now: "decision_now None (with_known kvs ls) = Inr 1709208000000000"
  by (simp add: decision_now_def parse_render min_instant_def max_instant_def day_us_def epoch_ord_def)

text \<open>Once the branch is computed, the evaluation under the default policy returns that decision.\<close>

lemma sample_evaluates:
  assumes v: "view_of_task t = Inr view" and a: "evaluate_choice t view (with_known kvs ls) 1709208000000000 = Inr a"
    and us: "da_unmet a = Inr us"
  obtains d where "evaluate_task t (with_known kvs ls) None None = Inr d" and "made_of a d"
proof -
  have ok: "args_ok a" using evaluate_choice_ok a by (rule yieldsD)
  obtain d where d: "decision view (with_known kvs ls) a = Inr d"
    using decision_returns [OF ok us, of "with_known kvs ls" view] sample_reassessment sample_ids sample_version
    by auto
  note m = decision_made_of [OF d ok view_status_canonical [OF v]]
  have "evaluate_task_default_policy t (with_known kvs ls) None = Inr d"
    by (simp add: evaluate_task_default_policy_def v sample_now a d)
  moreover have "deadline_under None key (wf_collected_at (with_known kvs ls)) = Inr s"
    if "wd_next_reassessment_at d = Some s" "status_slo_key (wd_status d) = Some key" for s key
    using m(2,4) that by (auto simp: reassessment_def ebind_eq_Inr_iff split: if_splits)
  ultimately have "evaluate_task t (with_known kvs ls) None None = Inr d"
    by (auto simp: evaluate_task_def split: option.split)
  with m(1) that show ?thesis by blast
qed

lemma sample_facts_ok: "facts_ok sample_facts"
proof (rule make_facts_ok [OF sample_facts_made])
  show "\<forall>ko \<in> set (map (\<lambda>d. (PStr (fact_domain_value d), sample_missing d)) FACT_DOMAINS).
      observation_ok (snd ko)"
    using make_observation_ok [OF sample_missing_made] by auto
qed simp

section \<open>What every decision satisfies\<close>

text \<open>C34. Every decision that \<open>evaluate_task\<close> returns passes the checks of its constructor: a known reason
  code, a visible alert exactly when action is required, sorted prerequisites and jobs without duplicates,
  a canonical status, and a revision that is the digest of its own content.\<close>

theorem decision_well_formed:
  assumes "evaluate_task t facts now ov = Inr d"
  shows "wd_reason_code d \<in> set KNOWN_DECISION_REASON_CODES
    \<and> (visible_alert (wd_alert d) \<longleftrightarrow> wd_disposition d = Disp_ACTION_REQUIRED)
    \<and> (truthy (wd_action_required d) \<longleftrightarrow> wd_disposition d = Disp_ACTION_REQUIRED)
    \<and> sorted (map unmet_key (wd_unmet d)) \<and> sorted (wd_jobs d) \<and> distinct (wd_jobs d)
    \<and> canonicalize_status (PStr (wd_status d)) = wd_status d
    \<and> wd_revision d = compute_decision_revision d"
proof -
  from assms have ok: "decision_ok d" by (rule evaluate_taskE)
  moreover have "sorted (wd_jobs d) \<and> distinct (wd_jobs d)"
    using ok sorted_set_props [of id "wd_jobs d"] by (simp add: decision_ok_def)
  ultimately show ?thesis by (simp add: decision_ok_def known_code_def)
qed

lemma merged_task_choice:
  "view_of_task (sample_task MERGED []) = Inr \<lparr>tv_project_id = ''proj'', tv_task_id = ''T-1'',
     tv_status = MERGED, tv_parent_id = None, tv_issue_type = ''task'', tv_target_branch = None\<rparr>"
  by (simp add: sample_task_def required_text_def py_strip_def char_eval CANONICAL_STATUSES_def)

lemma merged_final [simp]: "MERGED \<in> set LIFECYCLE_FINAL_STATUSES"
  by (simp add: LIFECYCLE_FINAL_STATUSES_def STATUS_CONTRACTS_def)

lemma final_evaluates:
  obtains d where "evaluate_task (sample_task MERGED []) (with_known [] []) None None = Inr d"
    and "wd_disposition d = Disp_TERMINAL"
proof -
  define a where "a = final_choice (sample_task MERGED []) \<lparr>tv_project_id = ''proj'', tv_task_id = ''T-1'',
     tv_status = MERGED, tv_parent_id = None, tv_issue_type = ''task'', tv_target_branch = None\<rparr> (with_known [] [])"
  show ?thesis
    by (rule sample_evaluates [OF merged_task_choice, of "[]" "[]" a "[]"])
      (auto simp: a_def evaluate_choice_def or_else_def identity_choice_def final_choice_def args_def Let_def
        made_of_def intro: that)
qed

theorem decision_well_formed_witness:
  "\<exists>d. evaluate_task (sample_task MERGED []) (with_known [] []) None None = Inr d
     \<and> wd_revision d = compute_decision_revision d"
proof -
  obtain d where "evaluate_task (sample_task MERGED []) (with_known [] []) None None = Inr d"
    by (rule final_evaluates)
  with decision_well_formed [OF this] show ?thesis by blast
qed

text \<open>C35. A decision survives its JSON form: parsing what \<open>to_dict\<close> wrote gives the same decision, with
  its prerequisites, jobs, deadline and revision.\<close>

theorem decision_roundtrip:
  assumes "evaluate_task t facts now ov = Inr d"
  shows "decision_from_dict (decision_to_dict d) = Inr d"
proof -
  obtain view i a where a: "evaluate_choice t view facts i = Inr a" and m: "made_of a d" and ok: "decision_ok d"
    using assms by (rule evaluate_taskE)
  have "settled a" using evaluate_settled a by (rule yieldsD)
  with m have "list_all unmet_ok (wd_unmet d)" by (auto simp: settled_def made_of_def list_all_iff)
  with ok show ?thesis by (rule decision_decode_encode)
qed

theorem decision_roundtrip_witness:
  "\<exists>d. evaluate_task (sample_task MERGED []) (with_known [] []) None None = Inr d
     \<and> decision_from_dict (decision_to_dict d) = Inr d"
proof -
  obtain d where "evaluate_task (sample_task MERGED []) (with_known [] []) None None = Inr d"
    by (rule final_evaluates)
  with decision_roundtrip [OF this] show ?thesis by blast
qed

section \<open>Finished tasks\<close>

text \<open>A lifecycle-final status never regresses: whatever the snapshot says or lacks, as long as it is a
  snapshot of that task the evaluation returns a terminal decision that schedules no job, permits no action,
  recommends no status, raises no alert and asks for no reassessment.\<close>

theorem final_status_never_regresses:
  assumes facts: "facts_ok facts" and view: "view_of_task t = Inr view"
    and final: "tv_status view \<in> set LIFECYCLE_FINAL_STATUSES"
    and same: "tv_task_id view = wf_task_id facts" "tv_project_id view \<in> {[], wf_project_id facts}"
  shows "\<exists>d. evaluate_task t facts None ov = Inr d \<and> wd_disposition d = Disp_TERMINAL
    \<and> wd_jobs d = [] \<and> wd_actions d = [] \<and> wd_recommended d = None \<and> wd_alert d = Sev_NONE
    \<and> wd_unmet d = [] \<and> wd_next_reassessment_at d = None"
proof -
  let ?a = "final_choice t view facts"
  have f: "da_disposition ?a = Disp_TERMINAL" "da_jobs ?a = []" "da_actions ?a = []" "da_recommended ?a = None"
    "da_alert ?a = Sev_NONE" "da_unmet ?a = Inr []" "da_reassess ?a = False"
    by (simp_all add: final_choice_def args_def Let_def)
  obtain i where i: "decision_now None facts = Inr i"
    using facts by (auto simp: facts_ok_def normal_time_def decision_now_def ebind_eq_Inr_iff)
  have a: "evaluate_choice t view facts i = Inr ?a"
    using final same by (auto simp: evaluate_choice_def or_else_def identity_choice_def)
  have ok: "args_ok ?a" using evaluate_choice_ok a by (rule yieldsD)
  have version: "text_of (PStr (wf_facts_version facts)) \<noteq> []"
    using facts by (auto simp: facts_ok_def compute_facts_version_def digest_def lower_hex_stripped)
  obtain d where d: "decision view facts ?a = Inr d"
    using decision_returns [OF ok f(6) _ _ version] facts f(7)
    by (auto simp: facts_ok_def required_text_eq_Inr_iff)
  note m = decision_made_of [OF d ok view_status_canonical [OF view]]
  have "wd_next_reassessment_at d = None" using m(4) f(7) by simp
  then have "evaluate_task t facts None ov = Inr d"
    by (simp add: evaluate_task_def evaluate_task_default_policy_def view i a d)
  with m(1) f \<open>wd_next_reassessment_at d = None\<close> show ?thesis by (auto simp: made_of_def)
qed

theorem final_status_never_regresses_witness:
  "\<exists>d. evaluate_task (sample_task MERGED []) sample_facts None (Some []) = Inr d
     \<and> wd_disposition d = Disp_TERMINAL"
  using final_status_never_regresses [OF sample_facts_ok merged_task_choice, of "Some []"]
  by (auto simp: sample_facts_def)

lemma decision_evidence:
  assumes "evaluate_task t facts now ov = Inr d" and "view_of_task t = Inr view"
  obtains a where "made_of a d" and "quiet a \<or> evidence t view facts a"
proof -
  obtain i a where a: "evaluate_choice t view facts i = Inr a" and m: "made_of a d"
    using assms by (auto elim!: evaluate_taskE)
  have "quiet a \<or> evidence t view facts a" using evaluate_origin a by (rule yieldsD)
  with m that show ?thesis by blast
qed

lemmas evidence_eval = evidence_def delivery_evidence_def finishes_def eligible_def delivers_def rolls_up_def
  lands_def final_choice_def landed_review_args_def landed_review_status_def review_owned_def args_def Let_def

text \<open>Which kinds of evidence carry which consequence.\<close>

lemma terminal_evidence:
  "evidence t view facts a \<Longrightarrow> da_disposition a = Disp_TERMINAL \<Longrightarrow>
   tv_status view \<in> set LIFECYCLE_FINAL_STATUSES
   \<or> fact_agrees view facts \<and> (has_landed facts \<or> marker_retained view facts
      \<or> (tv_status view = DONE \<and> direct_epic_maintenance_handoff_ready t
           (Some (Ref_mapping (or_empty (known_mapping facts Dom_INTEGRATION)))) = Inr True))"
  by (auto simp: evidence_eval)

lemma recommendation_evidence:
  "evidence t view facts a \<Longrightarrow> da_recommended a \<noteq> None \<Longrightarrow>
   da_recommended a = Some MERGED \<or> da_recommended a = Some DONE \<Longrightarrow> fact_agrees view facts \<and> has_landed facts"
  by (auto simp: evidence_eval)

lemma runnable_evidence:
  "evidence t view facts a \<Longrightarrow> da_disposition a = Disp_RUNNABLE \<Longrightarrow> fact_agrees view facts \<and>
   (da_reason a = ''dispatch.eligible'' \<and> da_jobs a = [''implementation_start'']
      \<and> tv_status view \<in> {OPEN, NEEDS_CI_FIX, NEEDS_REBASE} \<and> dependencies_discharged facts ''hard_start''
    \<or> da_reason a \<noteq> ''dispatch.eligible'' \<and> children_discharged facts)"
  by (auto simp: evidence_eval)

lemma delivery_jobs_evidence:
  assumes "evidence t view facts a"
  shows "''integration_attempt'' \<in> set (da_jobs a) \<or> ''standalone_delivery'' \<in> set (da_jobs a) \<Longrightarrow>
     tv_status view = READY_TO_INTEGRATE \<and> dependencies_discharged facts ''finish''
     \<and> dependencies_discharged facts ''hard_start'' \<and> delivery_ready facts \<and> fact_agrees view facts"
    and "''review_merge'' \<in> set (da_jobs a) \<Longrightarrow>
     tv_status view = IN_REVIEW \<and> review_mergeable view facts \<and> fact_agrees view facts"
  using assms by (auto simp: evidence_eval list_all_iff DELIVERY_JOBS_def)

lemma quiet_facts:
  "quiet a \<Longrightarrow> da_disposition a \<noteq> Disp_TERMINAL \<and> da_disposition a \<noteq> Disp_RUNNABLE
     \<and> da_recommended a \<noteq> Some MERGED \<and> da_recommended a \<noteq> Some DONE
     \<and> ''review_merge'' \<notin> set (da_jobs a) \<and> ''integration_attempt'' \<notin> set (da_jobs a)
     \<and> ''standalone_delivery'' \<notin> set (da_jobs a)"
  by (auto simp: quiet_def list_all_iff DELIVERY_JOBS_def)

text \<open>C2. A task is declared finished only with proof: its status is already final, or its own fact agrees
  with the status and a landing is recorded, an owner's retained marker answers for it, or the published
  maintenance of its epic is proven.\<close>

theorem finished_needs_proof:
  assumes "evaluate_task t facts now ov = Inr d" and "view_of_task t = Inr view"
    and "wd_disposition d = Disp_TERMINAL"
  shows "tv_status view \<in> set LIFECYCLE_FINAL_STATUSES
   \<or> fact_agrees view facts \<and> (has_landed facts \<or> marker_retained view facts
      \<or> (tv_status view = DONE \<and> direct_epic_maintenance_handoff_ready t
           (Some (Ref_mapping (or_empty (known_mapping facts Dom_INTEGRATION)))) = Inr True))"
proof -
  obtain a where m: "made_of a d" and e: "quiet a \<or> evidence t view facts a"
    using assms(1,2) by (rule decision_evidence)
  from m assms(3) have "da_disposition a = Disp_TERMINAL" by (simp add: made_of_def)
  with e quiet_facts [of a] show ?thesis using terminal_evidence by blast
qed


definition view_at :: "string \<Rightarrow> task_view" where
  "view_at s = \<lparr>tv_project_id = ''proj'', tv_task_id = ''T-1'', tv_status = s, tv_parent_id = None,
     tv_issue_type = ''task'', tv_target_branch = None\<rparr>"

lemma view_at_simps [simp]:
  "tv_project_id (view_at s) = ''proj''" "tv_task_id (view_at s) = ''T-1''" "tv_status (view_at s) = s"
  "tv_parent_id (view_at s) = None" "tv_issue_type (view_at s) = ''task''" "tv_target_branch (view_at s) = None"
  by (simp_all add: view_at_def)

lemma view_at: "s \<in> set CANONICAL_STATUSES \<Longrightarrow> view_of_task (sample_task s []) = Inr (view_at s)"
  by (simp add: sample_task_def view_at_def required_text_def py_strip_def char_eval)

definition sample_landing :: landing_fact where
  "sample_landing = \<lparr>lf_source = ''work'', lf_target = ''main'', lf_revision = None, lf_proof = PNone,
     lf_observed_at = render_time 1709208000000000, lf_project_id = ''proj'', lf_evidence_revision = [],
     lf_state = Landing_LANDED, lf_durable = PBool True, lf_error_code = None, lf_schema_version = PInt 1\<rparr>"

lemma contract_status_iff [simp]: "s \<in> fst ` set STATUS_CONTRACTS \<longleftrightarrow> s \<in> set CANONICAL_STATUSES"
  by (metis contract_keys set_map)

lemma canonical_review [simp]: "IN_REVIEW \<in> set CANONICAL_STATUSES" "DECOMPOSED \<in> set CANONICAL_STATUSES"
  "IN_PROGRESS \<in> set CANONICAL_STATUSES"
  by (simp_all add: CANONICAL_STATUSES_def)

lemma nonfinal_eval [simp]: "DONE \<notin> set LIFECYCLE_FINAL_STATUSES" "OPEN \<notin> set LIFECYCLE_FINAL_STATUSES"
  "IN_REVIEW \<notin> set LIFECYCLE_FINAL_STATUSES" "READY_TO_INTEGRATE \<notin> set LIFECYCLE_FINAL_STATUSES"
  "DECOMPOSED \<notin> set LIFECYCLE_FINAL_STATUSES"
  by (simp_all add: LIFECYCLE_FINAL_STATUSES_def STATUS_CONTRACTS_def)

text \<open>The checks that the sample snapshots pass before the status decides.\<close>

lemma sample_identity:
  assumes "s \<in> set CANONICAL_STATUSES" and "s \<notin> set LIFECYCLE_FINAL_STATUSES"
  shows "identity_choice t (view_at s) (with_known (task_fact s # rest) ls) = Inr None"
  using assms by (simp add: identity_choice_def Let_def task_fact_def)

lemma sample_provenance:
  "map_of rest Dom_TERMINAL_AUDIT = None \<Longrightarrow>
   terminal_provenance_choice v (with_known (task_fact s # rest) ls) = None"
  by (simp add: terminal_provenance_choice_def task_fact_def sample_missing_def)

lemma sample_maintenance:
  "map_of rest Dom_INTEGRATION = None \<Longrightarrow>
   maintenance_choice t v (with_known (task_fact s # rest) ls) = Inr None"
  by (simp add: maintenance_choice_def task_fact_def or_empty_def Let_def)

lemma sample_no_dependencies:
  "map_of rest Dom_DEPENDENCIES = None \<Longrightarrow> \<exists>us. prerequisites (with_known (task_fact s # rest) ls) = Inr us"
  by (simp add: prerequisites_def Let_def task_fact_def sample_missing_def mk_unmet_def required_text_def
      py_strip_def char_eval)

lemma sample_dependencies:
  "map_of rest Dom_DEPENDENCIES = Some [] \<Longrightarrow> prerequisites (with_known (task_fact s # rest) ls) = Inr ([], [])
     \<and> dependency_choice (view_at s') (with_known (task_fact s # rest) ls) = Inr None"
  by (simp add: prerequisites_def dependency_choice_def unresolved_def Let_def task_fact_def)

lemma sample_choice:
  assumes "s \<in> set CANONICAL_STATUSES" and "s \<notin> set LIFECYCLE_FINAL_STATUSES"
    and "map_of rest Dom_TERMINAL_AUDIT = None"
    and "maintenance_choice t (view_at s) (with_known (task_fact s # rest) ls) = Inr None"
    and "dependency_choice (view_at s) (with_known (task_fact s # rest) ls) = Inr None"
    and "prerequisites (with_known (task_fact s # rest) ls) = Inr (finish, hard_start)"
  shows "evaluate_choice t (view_at s) (with_known (task_fact s # rest) ls) now
     = status_choice t (view_at s) (with_known (task_fact s # rest) ls) now finish hard_start"
  using sample_identity [OF assms(1,2), of t rest ls] sample_provenance [OF assms(3), of "view_at s" s ls] assms(4-6)
  by (simp add: evaluate_choice_def or_else_def py_lower_def char_eval)

lemma not_sensitive: "s \<notin> set DEPENDENCY_SENSITIVE \<Longrightarrow> dependency_choice (view_at s) facts = Inr None"
  by (simp add: dependency_choice_def)

text \<open>Work that landed, at Done.\<close>

definition landed_facts :: workflow_facts where
  "landed_facts = with_known [task_fact DONE] [sample_landing]"

lemma done_choice:
  "evaluate_choice (sample_task DONE []) (view_at DONE) landed_facts now
   = Inr (landing_choice (view_at DONE) landed_facts)"
proof -
  obtain finish hard_start where "prerequisites landed_facts = Inr (finish, hard_start)"
    using sample_no_dependencies [of "[]"] by (fastforce simp: landed_facts_def)
  then show ?thesis
    using sample_choice [of DONE "[]" "sample_task DONE []" "[sample_landing]" finish hard_start now]
      sample_maintenance [of "[]"] not_sensitive [of DONE]
    by (simp add: landed_facts_def DEPENDENCY_SENSITIVE_def status_choice_def Let_def)
qed

lemma done_landing:
  "da_disposition (landing_choice (view_at DONE) landed_facts) = Disp_TERMINAL"
  "da_recommended (landing_choice (view_at DONE) landed_facts) = Some MERGED"
  "da_unmet (landing_choice (view_at DONE) landed_facts) = Inr []"
  by (simp_all add: landing_choice_def candidates_choice_def parent_wait_def landed_facts_def
      sample_landing_def args_def Let_def char_eval py_lower_def py_strip_def)

lemma sample_run:
  assumes "evaluate_choice (sample_task s []) (view_at s) (with_known kvs ls) 1709208000000000 = Inr a"
    and "s \<in> set CANONICAL_STATUSES" and "da_unmet a = Inr us"
  obtains d where "evaluate_task (sample_task s []) (with_known kvs ls) None None = Inr d" and "made_of a d"
  using sample_evaluates [OF view_at [OF assms(2)] assms(1,3)] .

lemma done_evaluates:
  obtains d where "evaluate_task (sample_task DONE []) landed_facts None None = Inr d"
    and "wd_disposition d = Disp_TERMINAL" and "wd_recommended d = Some MERGED"
proof -
  obtain d where "evaluate_task (sample_task DONE []) landed_facts None None = Inr d"
    and "made_of (landing_choice (view_at DONE) landed_facts) d"
    using sample_run [OF done_choice [of 1709208000000000, unfolded landed_facts_def] _
        done_landing(3) [unfolded landed_facts_def]] unfolding landed_facts_def by auto
  with done_landing that show ?thesis by (simp add: made_of_def)
qed

theorem finished_needs_proof_witness: "fact_agrees (view_at DONE) landed_facts"
proof -
  obtain d where d: "evaluate_task (sample_task DONE []) landed_facts None None = Inr d"
    "wd_disposition d = Disp_TERMINAL" by (rule done_evaluates)
  from finished_needs_proof [OF d(1) view_at d(2)] show ?thesis by simp
qed


section \<open>Released work\<close>

text \<open>C4. Work is released only on evidence.  A runnable task either may be implemented (an open or repair
  status, the task's own fact agreeing, every hard-start dependency known and satisfied), or is a parent all
  of whose children are discharged.\<close>

theorem release_needs_evidence:
  assumes "evaluate_task t facts now ov = Inr d" and "view_of_task t = Inr view"
    and "wd_disposition d = Disp_RUNNABLE"
  shows "fact_agrees view facts
    \<and> (if wd_reason_code d = ''dispatch.eligible''
       then set (wd_jobs d) = {''implementation_start''} \<and> tv_status view \<in> {OPEN, NEEDS_CI_FIX, NEEDS_REBASE}
         \<and> dependencies_discharged facts ''hard_start''
       else children_discharged facts)"
proof -
  obtain a where m: "made_of a d" and e: "quiet a \<or> evidence t view facts a"
    using assms(1,2) by (rule decision_evidence)
  from m assms(3) have r: "da_disposition a = Disp_RUNNABLE" by (simp add: made_of_def)
  with e quiet_facts [of a] have "evidence t view facts a" by blast
  from runnable_evidence [OF this r] m show ?thesis by (auto simp: made_of_def)
qed

text \<open>Integration and standalone delivery are scheduled only for a task that is ready to integrate, with
  every finish and hard-start dependency satisfied, nothing missing from the required base, and no direct
  owner still holding the implementation.\<close>

theorem delivery_needs_dependencies:
  assumes "evaluate_task t facts now ov = Inr d" and "view_of_task t = Inr view"
    and "''integration_attempt'' \<in> set (wd_jobs d) \<or> ''standalone_delivery'' \<in> set (wd_jobs d)"
  shows "tv_status view = READY_TO_INTEGRATE \<and> dependencies_discharged facts ''finish''
    \<and> dependencies_discharged facts ''hard_start'' \<and> delivery_ready facts \<and> fact_agrees view facts"
proof -
  obtain a where m: "made_of a d" and e: "quiet a \<or> evidence t view facts a"
    using assms(1,2) by (rule decision_evidence)
  from m assms(3) have j: "''integration_attempt'' \<in> set (da_jobs a) \<or> ''standalone_delivery'' \<in> set (da_jobs a)"
    by (simp add: made_of_def)
  with e quiet_facts [of a] have "evidence t view facts a" by blast
  from delivery_jobs_evidence(1) [OF this j] show ?thesis .
qed


text \<open>An open task with an empty dependency fact.\<close>

definition open_facts :: workflow_facts where
  "open_facts = with_known [task_fact OPEN, (Dom_DEPENDENCIES, [])] []"

lemma open_evaluates:
  obtains d where "evaluate_task (sample_task OPEN []) open_facts None None = Inr d"
    and "wd_disposition d = Disp_RUNNABLE" and "wd_reason_code d = ''dispatch.eligible''"
proof -
  obtain a where a: "evaluate_choice (sample_task OPEN []) (view_at OPEN) open_facts 1709208000000000 = Inr a"
    and f: "da_unmet a = Inr []" "da_disposition a = Disp_RUNNABLE" "da_reason a = ''dispatch.eligible''"
    using sample_choice [of OPEN "[(Dom_DEPENDENCIES, [])]" "sample_task OPEN []" "[]" "[]" "[]" 1709208000000000]
      sample_maintenance [of "[(Dom_DEPENDENCIES, [])]" "sample_task OPEN []" "view_at OPEN" OPEN "[]"]
      sample_dependencies [of "[(Dom_DEPENDENCIES, [])]" OPEN "[]" OPEN]
    by (simp add: open_facts_def status_choice_def dispatch_choice_def task_fact_def or_empty_def Let_def args_def)
  obtain d where "evaluate_task (sample_task OPEN []) open_facts None None = Inr d" and "made_of a d"
    using sample_run [OF a [unfolded open_facts_def] _ f(1)] unfolding open_facts_def by auto
  with f that show ?thesis by (simp add: made_of_def)
qed

theorem release_needs_evidence_witness: "dependencies_discharged open_facts ''hard_start''"
proof -
  obtain d where d: "evaluate_task (sample_task OPEN []) open_facts None None = Inr d"
    "wd_disposition d = Disp_RUNNABLE" "wd_reason_code d = ''dispatch.eligible''" by (rule open_evaluates)
  from release_needs_evidence [OF d(1) view_at d(2)] d(3) show ?thesis by simp
qed

text \<open>A queued record of a task that is ready to integrate.\<close>

definition queued_facts :: workflow_facts where
  "queued_facts = with_known [task_fact READY_TO_INTEGRATE, (Dom_DEPENDENCIES, []),
     (Dom_INTEGRATION, [(''state'', PStr ''ready''), (''mode'', PStr ''queue'')])] []"

lemma plain_task_not_maintenance: "is_direct_epic_maintenance_issue (sample_task s []) = Inr False"
  by (simp add: sample_task_def is_direct_epic_maintenance_issue_def Let_def)

lemma queued_evaluates:
  obtains d where "evaluate_task (sample_task READY_TO_INTEGRATE []) queued_facts None None = Inr d"
    and "''integration_attempt'' \<in> set (wd_jobs d)"
proof -
  let ?rest = "[(Dom_DEPENDENCIES, []), (Dom_INTEGRATION, [(''state'', PStr ''ready''), (''mode'', PStr ''queue'')])]"
  let ?t = "sample_task READY_TO_INTEGRATE []"
  have m: "maintenance_choice ?t (view_at READY_TO_INTEGRATE) queued_facts = Inr None"
    by (simp add: maintenance_choice_def queued_facts_def task_fact_def or_empty_def Let_def
        direct_epic_maintenance_handoff_ready_def direct_epic_maintenance_completion_ready_def
        plain_task_not_maintenance)
  have c: "status_choice ?t (view_at READY_TO_INTEGRATE) queued_facts now [] []
      = Inr (integration_claim ''integration.queued'' Sev_NONE ''integration_attempt'')" for now
    by (simp add: status_choice_def integration_choice_def integration_guard_choice_def
        integration_state_choice_def exact_standalone_route_def queued_facts_def task_fact_def or_empty_def Let_def
        sample_missing_def char_eval py_strip_def py_lower_def first_text_def ltext_of_def)
  have a: "evaluate_choice ?t (view_at READY_TO_INTEGRATE) queued_facts 1709208000000000
      = Inr (integration_claim ''integration.queued'' Sev_NONE ''integration_attempt'')"
    using sample_choice [of READY_TO_INTEGRATE ?rest ?t "[]" "[]" "[]" 1709208000000000] m c
      sample_dependencies [of ?rest READY_TO_INTEGRATE "[]" READY_TO_INTEGRATE]
    by (simp add: queued_facts_def)
  have u: "da_unmet (integration_claim ''integration.queued'' Sev_NONE ''integration_attempt'') = Inr []"
    by (simp add: integration_claim_def integrator_def args_def)
  obtain d where "evaluate_task ?t queued_facts None None = Inr d"
    and "made_of (integration_claim ''integration.queued'' Sev_NONE ''integration_attempt'') d"
    using sample_run [OF a [unfolded queued_facts_def] _ u] unfolding queued_facts_def by auto
  with that show ?thesis by (simp add: made_of_def integration_claim_def integrator_def args_def)
qed

theorem delivery_needs_dependencies_witness: "delivery_ready queued_facts"
proof -
  obtain d where d: "evaluate_task (sample_task READY_TO_INTEGRATE []) queued_facts None None = Inr d"
    "''integration_attempt'' \<in> set (wd_jobs d)" by (rule queued_evaluates)
  from delivery_needs_dependencies [OF d(1) view_at] d(2) show ?thesis by simp
qed

text \<open>An open review that passed CI.\<close>

definition green_review :: "(string \<times> pyval) list" where
  "green_review = [(''state'', PStr ''open''), (''ci'', PStr ''passed''), (''mergeable'', PBool True)]"

definition green_facts :: workflow_facts where
  "green_facts = with_known [task_fact IN_REVIEW, (Dom_REVIEW_CI, green_review)] []"

lemma green_choice:
  "review_choice (view_at IN_REVIEW) green_facts = review_owned ''review.ready_to_merge'' Act_MERGE_REVIEW ''review_merge''"
proof -
  let ?r = "review_view_of (view_at IN_REVIEW) green_facts green_review"
  have r: "rv_value ?r = green_review" "rv_state ?r = ''open''" "rv_observed_target ?r = []"
    "rv_observed_head ?r = []" "rv_expected_head ?r = []" "rv_recorded_head ?r = []"
    "rv_recorded_base ?r = []" "rv_integration ?r = []"
    by (simp_all add: review_view_of_def green_facts_def green_review_def task_fact_def or_empty_def Let_def
        char_eval py_strip_def py_lower_def ltext_of_def)
  have "review_generation_choice ?r = None"
    by (simp add: review_generation_choice_def changed_head_def changed_base_def missing_base_identity_def
        pending_generation_def Let_def r)
  moreover have "review_state_choice (view_at IN_REVIEW) green_facts ?r = None"
    by (simp add: review_state_choice_def Let_def r) (simp add: green_review_def)
  moreover have "review_ci_choice green_review = review_owned ''review.ready_to_merge'' Act_MERGE_REVIEW ''review_merge''"
    by (simp add: review_ci_choice_def green_review_def Let_def char_eval py_strip_def py_lower_def ltext_of_def)
  moreover have "known_mapping green_facts Dom_REVIEW_CI = Some green_review"
    by (simp add: green_facts_def task_fact_def)
  ultimately show ?thesis by (simp add: review_choice_def)
qed

lemma green_evaluates:
  obtains d where "evaluate_task (sample_task IN_REVIEW []) green_facts None None = Inr d"
    and "''review_merge'' \<in> set (wd_jobs d)"
proof -
  let ?rest = "[(Dom_REVIEW_CI, green_review)]"
  obtain finish hard_start where p: "prerequisites green_facts = Inr (finish, hard_start)"
    using sample_no_dependencies [of ?rest] by (fastforce simp: green_facts_def)
  have a: "evaluate_choice (sample_task IN_REVIEW []) (view_at IN_REVIEW) green_facts 1709208000000000
      = Inr (review_owned ''review.ready_to_merge'' Act_MERGE_REVIEW ''review_merge'')"
    using sample_choice [of IN_REVIEW ?rest "sample_task IN_REVIEW []" "[]" finish hard_start 1709208000000000]
      sample_maintenance [of ?rest] not_sensitive [of IN_REVIEW] p green_choice
    by (simp add: green_facts_def DEPENDENCY_SENSITIVE_def status_choice_def Let_def)
  have u: "da_unmet (review_owned ''review.ready_to_merge'' Act_MERGE_REVIEW ''review_merge'') = Inr []"
    by (simp add: review_owned_def args_def)
  obtain d where "evaluate_task (sample_task IN_REVIEW []) green_facts None None = Inr d"
    and "made_of (review_owned ''review.ready_to_merge'' Act_MERGE_REVIEW ''review_merge'') d"
    using sample_run [OF a [unfolded green_facts_def] _ u] unfolding green_facts_def by auto
  with that show ?thesis by (simp add: made_of_def review_owned_def args_def)
qed


section \<open>Bounded reassessment\<close>

lemma nonfinal_slo: "s \<in> set NONFINAL_STATUSES \<Longrightarrow> \<exists>key. status_slo_key s = Some key"
proof -
  have "list_all (\<lambda>s. status_slo_key s \<noteq> None) NONFINAL_STATUSES"
    unfolding nonfinal_eq by (simp add: status_slo_key_def STATUS_CONTRACTS_def)
  then show "s \<in> set NONFINAL_STATUSES \<Longrightarrow> \<exists>key. status_slo_key s = Some key" by (auto simp: list_all_iff)
qed

text \<open>Only a terminal decision or an invalid marker gives up reassessment.\<close>

definition watched :: "decision_args \<Rightarrow> bool" where
  "watched a \<longleftrightarrow> da_reassess a \<or> da_disposition a = Disp_TERMINAL \<or> da_reason a = ''terminal.provenance_invalid''"

lemma watched_cases [yields_intros]:
  "(c \<Longrightarrow> watched a) \<Longrightarrow> (\<not> c \<Longrightarrow> watched b) \<Longrightarrow> watched (if c then a else b)"
  "(v = None \<Longrightarrow> watched a) \<Longrightarrow> (\<And>x. v = Some x \<Longrightarrow> watched (f x)) \<Longrightarrow>
   watched (case v of None \<Rightarrow> a | Some x \<Rightarrow> f x)"
  by (simp, cases v, simp_all)

lemmas watched_eval = watched_def args_def operator_action_def integrator_def

lemma review_watched: "watched (review_choice task facts)"
proof -
  have g: "pred_option watched (review_generation_choice r)" for r
    unfolding review_generation_choice_def by (intro yields_intros) (simp_all add: watched_eval)
  have s: "pred_option watched (review_state_choice task facts r)" for r
    unfolding review_state_choice_def landed_review_args_def Let_def
    by (intro yields_intros) (simp_all add: watched_eval)
  have c: "watched (review_ci_choice value)" for "value"
    by (simp add: review_ci_choice_def review_owned_def Let_def watched_eval)
  show ?thesis
    unfolding review_choice_def Let_def
  proof (intro yields_intros c)
    show "watched a" if "review_generation_choice r = Some a" for a r using g [of r] that by simp
    show "watched a" if "review_state_choice task facts r = Some a" for a r using s [of r] that by simp
  qed (simp add: watched_def)
qed

lemma integration_watched: "yields watched (integration_choice task facts now finish hard_start)"
proof -
  have g: "pred_option watched (integration_guard_choice facts finish hard_start)"
    unfolding integration_guard_choice_def Let_def
    by (intro yields_intros) (auto simp: watched_eval split: option.split list.split)
  have st: "watched (standalone_choice task facts value)" for "value"
    unfolding standalone_choice_def Let_def by (intro yields_intros) (simp_all add: watched_eval)
  have s: "yields watched (integration_state_choice task facts value now)" for "value"
    unfolding integration_state_choice_def integration_claim_def Let_def
    by (intro yields_intros st) (simp_all add: watched_eval)
  have i: "watched (integrated_choice task facts value)" for "value"
    by (simp add: integrated_choice_def Let_def watched_eval)
  show ?thesis
    using g i s by (auto simp: integration_choice_def Let_def split: option.split)
qed

lemma rollup_watched: "yields watched (rollup_choice task facts)"
  unfolding rollup_choice_def rollup_outcome_def Let_def by (intro yields_intros) (simp_all add: watched_eval)

lemma landing_watched: "watched (landing_choice task facts)"
proof -
  have p: "pred_option watched (parent_wait task facts)"
    unfolding parent_wait_def Let_def by (intro yields_intros) (simp_all add: watched_eval)
  show ?thesis
    unfolding landing_choice_def candidates_choice_def rollup_retry_def Let_def
    by (intro yields_intros) (use p in \<open>auto simp: watched_eval split: if_splits\<close>)
qed

lemma status_watched: "yields watched (status_choice t view facts now finish hard_start)"
proof -
  have d: "yields watched (dispatch_choice t view facts hard_start)"
    unfolding dispatch_choice_def Let_def by (intro yields_intros) (simp_all add: watched_eval)
  have i: "yields watched (implementation_choice facts now)"
    unfolding implementation_choice_def Let_def by (intro yields_intros) (simp_all add: watched_eval)
  have v: "yields watched (validation_choice facts now)"
    unfolding validation_choice_def Let_def by (intro yields_intros) (simp_all add: watched_eval)
  have u: "yields watched (duplicate_choice facts now)"
    unfolding duplicate_choice_def Let_def by (intro yields_intros) (simp_all add: watched_eval)
  show ?thesis
    unfolding status_choice_def Let_def
    by (intro yields_intros d i v u review_watched integration_watched rollup_watched landing_watched)
      (simp_all add: watched_eval)
qed

lemma evaluate_reassess: "yields watched (evaluate_choice t view facts now)"
proof -
  have i: "yields (pred_option watched) (identity_choice t view facts)"
    unfolding identity_choice_def final_choice_def Let_def by (intro yields_intros) (simp_all add: watched_eval)
  have p: "pred_option watched (terminal_provenance_choice view facts)"
    unfolding terminal_provenance_choice_def marker_choice_def provenance_invalid_def Let_def
    by (intro yields_intros) (simp_all add: watched_eval)
  have m: "yields (pred_option watched) (maintenance_choice t view facts)"
    unfolding maintenance_choice_def Let_def by (intro yields_intros) (simp_all add: watched_eval)
  have d: "yields (pred_option watched) (dependency_choice view facts)"
    unfolding dependency_choice_def Let_def by (intro yields_intros) (simp_all add: watched_eval)
  show ?thesis
    unfolding evaluate_choice_def by (intro yields_intros i p m d rollup_watched status_watched)
qed



end
