(* ===== verification/JobStore.thy ===== *)
theory JobStore
  imports FactModel WorkflowReasons Complex_Main "HOL-Library.Product_Lexorder" "HOL-Library.AList"
begin

text \<open>
  The leased job store of oompah/workflow_jobs.py: specifications, job rows, the event ledger, and the
  transactions of the worker and of recovery.

  A SQLite table is the list of its rows in primary-key order; a transaction is a function from the store
  to the new store and its value, or to the exception, in which case the code rolls back and the store is
  unchanged.  The lock and the connection are not modelled: each call runs alone, which is what the lock
  ensures.  The clock, the fresh job id and the fresh lease token of a call are arguments.  Floats are reals
  (rounding is not modelled); a deadline that need not be finite is an option.
\<close>

section \<open>Exceptions and states\<close>

datatype store_exn =
    PyExn py_exn
  | StoreError
  | IdempotencyConflict
  | LeaseLost
  | CorruptionError
  | IntegrityError

type_synonym 'a stored = "store_exn + 'a"

definition lift_py :: "'a result \<Rightarrow> 'a stored" where
  "lift_py m = (case m of Inl e \<Rightarrow> Inl (PyExn e) | Inr x \<Rightarrow> Inr x)"

lemma lift_py_simps [simp]: "lift_py (Inl e) = Inl (PyExn e)" "lift_py (Inr x) = Inr x"
  "lift_py m = Inr x \<longleftrightarrow> m = Inr x"
  by (auto simp: lift_py_def split: sum.split)

datatype job_state =
    Job_QUEUED
  | Job_RUNNING
  | Job_RETRY_WAIT
  | Job_COMPLETED
  | Job_EXHAUSTED
  | Job_SUPERSEDED
  | Job_CANCELLED

definition ACTIVE_JOB_STATES :: "job_state list" where
  "ACTIVE_JOB_STATES = [Job_QUEUED, Job_RUNNING, Job_RETRY_WAIT]"

definition TERMINAL_JOB_STATES :: "job_state list" where
  "TERMINAL_JOB_STATES = [Job_COMPLETED, Job_EXHAUSTED, Job_SUPERSEDED, Job_CANCELLED]"

datatype failure_category =
    Fail_TRANSIENT
  | Fail_TIMEOUT
  | Fail_TRANSPORT
  | Fail_AUTHORIZATION
  | Fail_POLICY
  | Fail_STALE_EVIDENCE
  | Fail_PERMANENT
  | Fail_LEASE_EXPIRED
  | Fail_ABANDONED
  | Fail_UNKNOWN

fun failure_category_value :: "failure_category \<Rightarrow> string" where
  "failure_category_value Fail_TRANSIENT = ''transient''"
| "failure_category_value Fail_TIMEOUT = ''timeout''"
| "failure_category_value Fail_TRANSPORT = ''transport''"
| "failure_category_value Fail_AUTHORIZATION = ''authorization''"
| "failure_category_value Fail_POLICY = ''policy''"
| "failure_category_value Fail_STALE_EVIDENCE = ''stale_evidence''"
| "failure_category_value Fail_PERMANENT = ''permanent''"
| "failure_category_value Fail_LEASE_EXPIRED = ''lease_expired''"
| "failure_category_value Fail_ABANDONED = ''abandoned''"
| "failure_category_value Fail_UNKNOWN = ''unknown''"

definition FAILURE_CATEGORIES :: "failure_category list" where
  "FAILURE_CATEGORIES = [Fail_TRANSIENT, Fail_TIMEOUT, Fail_TRANSPORT, Fail_AUTHORIZATION, Fail_POLICY,
     Fail_STALE_EVIDENCE, Fail_PERMANENT, Fail_LEASE_EXPIRED, Fail_ABANDONED, Fail_UNKNOWN]"

definition failure_category_of :: "string \<Rightarrow> failure_category result" where
  "failure_category_of s = enum_of failure_category_value FAILURE_CATEGORIES (PStr s)"

abbreviation DEFAULT_SCAN_LIMIT :: int where
  "DEFAULT_SCAN_LIMIT \<equiv> 100"

abbreviation MAX_SCAN_LIMIT :: int where
  "MAX_SCAN_LIMIT \<equiv> 1000"

text \<open>\<open>_bounded_limit\<close> of an integer.\<close>

definition bounded_limit :: "int \<Rightarrow> nat stored" where
  "bounded_limit n = (if n < 1 \<or> MAX_SCAN_LIMIT < n then Inl (PyExn ValueError) else Inr (nat n))"

text \<open>\<open>_required_text\<close> of a text, and of an optional text that is only checked when it is given.\<close>

definition required_str :: "string \<Rightarrow> string stored" where
  "required_str s = (if py_strip s = [] then Inl (PyExn ValueError) else Inr (py_strip s))"

definition required_opt :: "string option \<Rightarrow> string option stored" where
  "required_opt v = (case v of None \<Rightarrow> Inr None | Some s \<Rightarrow> ebind (required_str s) (\<lambda>t. Inr (Some t)))"

text \<open>\<open>_json_object\<close>: a mapping is frozen in its JSON form.\<close>

definition json_object :: "pyval \<Rightarrow> pyval option stored" where
  "json_object v = (if v = PNone then Inr None
     else (case mapping_of v of None \<Rightarrow> Inl (PyExn TypeError) | Some _ \<Rightarrow> Inr (Some (freeze (thaw v)))))"

section \<open>Specifications\<close>

record job_spec =
  js_project_id :: string
  js_task_id :: string
  js_generation :: string
  js_action :: string
  js_idempotency_key :: string
  js_phase :: string
  js_expected_evidence_revision :: "string option"
  js_expected_head_sha :: "string option"
  js_priority :: int
  js_max_attempts :: int
  js_reason_code :: "string option"
  js_payload :: "pyval option"
  js_scheduling_lane :: string

fun is_py_bool :: "pyval \<Rightarrow> bool" where
  "is_py_bool (PBool b) = True"
| "is_py_bool _ = False"

text \<open>\<open>WorkflowJobSpec.__post_init__\<close>.\<close>

definition make_spec ::
  "pyval \<Rightarrow> pyval \<Rightarrow> pyval \<Rightarrow> pyval \<Rightarrow> pyval \<Rightarrow> pyval \<Rightarrow> pyval \<Rightarrow> pyval \<Rightarrow> pyval \<Rightarrow> pyval \<Rightarrow> pyval \<Rightarrow> pyval \<Rightarrow>
   pyval \<Rightarrow> job_spec stored" where
  "make_spec project_id task_id generation action key phase evidence head priority max_attempts reason payload
     lane =
     ebind (lift_py (required_text project_id)) (\<lambda>pid.
     ebind (lift_py (required_text task_id)) (\<lambda>tid.
     ebind (lift_py (required_text generation)) (\<lambda>gen.
     ebind (lift_py (required_text action)) (\<lambda>act.
     ebind (lift_py (required_text key)) (\<lambda>k.
     ebind (lift_py (required_text phase)) (\<lambda>ph.
     ebind (json_object payload) (\<lambda>pl.
     ebind (lift_py (required_text lane)) (\<lambda>ln.
     if is_py_bool priority then Inl (PyExn ValueError) else
     ebind (lift_py (py_int priority)) (\<lambda>pr.
     if is_py_bool max_attempts then Inl (PyExn ValueError) else
     ebind (lift_py (py_int max_attempts)) (\<lambda>mx.
     if mx < 1 then Inl (PyExn ValueError) else
     Inr \<lparr>js_project_id = pid, js_task_id = tid, js_generation = gen, js_action = act,
       js_idempotency_key = k, js_phase = ph, js_expected_evidence_revision = optional_text evidence,
       js_expected_head_sha = optional_text head, js_priority = pr, js_max_attempts = mx,
       js_reason_code = optional_text reason, js_payload = pl, js_scheduling_lane = ln\<rparr>))))))))))"

definition spec_to_dict :: "job_spec \<Rightarrow> pyval" where
  "spec_to_dict sp = PDict ([
     (''project_id'', PStr (js_project_id sp)),
     (''task_id'', PStr (js_task_id sp)),
     (''generation'', PStr (js_generation sp)),
     (''action'', PStr (js_action sp)),
     (''idempotency_key'', PStr (js_idempotency_key sp)),
     (''phase'', PStr (js_phase sp)),
     (''payload'', case js_payload sp of None \<Rightarrow> PNone | Some p \<Rightarrow> thaw p),
     (''scheduling_lane'', PStr (js_scheduling_lane sp)),
     (''expected_evidence_revision'', opt_str (js_expected_evidence_revision sp)),
     (''expected_head_sha'', opt_str (js_expected_head_sha sp)),
     (''priority'', PInt (js_priority sp)),
     (''max_attempts'', PInt (js_max_attempts sp))]
     @ (case js_reason_code sp of None \<Rightarrow> [] | Some r \<Rightarrow> [(''reason_code'', PStr r)]))"

definition spec_revision :: "job_spec \<Rightarrow> string" where
  "spec_revision sp = sha256_hex (canonical_json (spec_to_dict sp))"

section \<open>Rows\<close>

record job =
  jb_job_id :: string
  jb_enqueue_sequence :: int
  jb_project_id :: string
  jb_task_id :: string
  jb_generation :: string
  jb_action :: string
  jb_phase :: string
  jb_payload :: "pyval option"
  jb_scheduling_lane :: string
  jb_idempotency_key :: string
  jb_spec_revision :: string
  jb_expected_evidence_revision :: "string option"
  jb_expected_head_sha :: "string option"
  jb_state :: job_state
  jb_priority :: int
  jb_attempts :: int
  jb_max_attempts :: int
  jb_lease_owner :: "string option"
  jb_lease_token :: "string option"
  jb_lease_expires_at :: "real option"
  jb_retry_at :: "real option"
  jb_failure_category :: "failure_category option"
  jb_last_error :: "string option"
  jb_checkpoint :: "pyval option"
  jb_result_transition :: "pyval option"
  jb_superseded_by :: "string option"
  jb_workflow_managed :: bool
  jb_created_at :: real
  jb_updated_at :: real
  jb_completed_at :: "real option"
  jb_reason_code :: "string option"

text \<open>The values of an event payload: a timestamp is a real, everything else JSON.\<close>

datatype event_value = Ev_json pyval | Ev_time "real option"

record job_event =
  ev_sequence :: int
  ev_job_id :: string
  ev_project_id :: string
  ev_task_id :: string
  ev_type :: string
  ev_state :: job_state
  ev_phase :: string
  ev_lease_owner :: "string option"
  ev_payload :: "(string \<times> event_value) list"
  ev_created_at :: real

text \<open>
  The scheduling tables, keyed by task (and lane); the times at which their rows were written, which no
  operation reads back, are left out.
\<close>

record schedule_cursor =
  cu_snapshot_generation :: int
  cu_decision_revision :: string
  cu_job_generation :: string
  cu_materialized_job_generation :: "string option"

record event_cursor =
  ec_revision :: string
  ec_generation :: string
  ec_sequence :: int

record event_order =
  eo_generation :: int
  eo_revision :: string

record authority_cut =
  ac_kind :: string
  ac_revision :: string
  ac_job_generation :: "string option"

record retirement =
  rt_job_id :: string
  rt_project_id :: string
  rt_task_id :: string
  rt_kind :: string
  rt_revision :: string
  rt_snapshot :: "int option"

type_synonym task_key = "string \<times> string"
type_synonym lane_key = "string \<times> string \<times> string"

record landing_row =
  lr_project_id :: string
  lr_task_id :: string
  lr_source :: string
  lr_target :: string
  lr_revision :: string
  lr_fact :: pyval
  lr_recorded_at :: real

record store =
  st_jobs :: "job list"
  st_last_sequence :: int
  st_events :: "job_event list"
  st_last_event :: int
  st_highwater :: int
  st_counters :: "string \<Rightarrow> int option"
  st_fairness :: "string \<Rightarrow> int option"
  st_membership :: "(task_key \<times> int) list"
  st_cursors :: "(task_key \<times> schedule_cursor) list"
  st_event_cursors :: "(lane_key \<times> event_cursor) list"
  st_orderings :: "(lane_key \<times> event_order) list"
  st_publications :: "int list"
  st_cuts :: "((int \<times> string \<times> string) \<times> authority_cut) list"
  st_retired :: "retirement list"
  st_landings :: "landing_row list"

definition empty_store :: store where
  "empty_store = \<lparr>st_jobs = [], st_last_sequence = 0, st_events = [], st_last_event = 0, st_highwater = 0,
     st_counters = (\<lambda>_. None), st_fairness = (\<lambda>_. None), st_membership = [], st_cursors = [],
     st_event_cursors = [], st_orderings = [], st_publications = [], st_cuts = [], st_retired = [],
     st_landings = []\<rparr>"

text \<open>\<open>SELECT * FROM workflow_jobs WHERE job_id = ?\<close>.\<close>

definition row_locked :: "string \<Rightarrow> store \<Rightarrow> job stored" where
  "row_locked jid s = (case find (\<lambda>j. jb_job_id j = jid) (st_jobs s) of
     None \<Rightarrow> Inl (PyExn KeyError) | Some j \<Rightarrow> Inr j)"

text \<open>\<open>UPDATE workflow_jobs SET f WHERE p\<close>, and its row count.\<close>

definition update_rows :: "(job \<Rightarrow> bool) \<Rightarrow> (job \<Rightarrow> job) \<Rightarrow> store \<Rightarrow> store" where
  "update_rows p f s = s\<lparr>st_jobs := map (\<lambda>j. if p j then f j else j) (st_jobs s)\<rparr>"

definition row_count :: "(job \<Rightarrow> bool) \<Rightarrow> store \<Rightarrow> nat" where
  "row_count p s = length (filter p (st_jobs s))"

definition append_event :: "job \<Rightarrow> string \<Rightarrow> (string \<times> event_value) list \<Rightarrow> real \<Rightarrow> store \<Rightarrow> store" where
  "append_event row etype payload now s = (let n = st_last_event s + 1 in
     s\<lparr>st_events := st_events s @ [\<lparr>ev_sequence = n, ev_job_id = jb_job_id row,
         ev_project_id = jb_project_id row, ev_task_id = jb_task_id row, ev_type = etype,
         ev_state = jb_state row, ev_phase = jb_phase row, ev_lease_owner = jb_lease_owner row,
         ev_payload = payload, ev_created_at = now\<rparr>],
       st_last_event := n, st_highwater := max n (st_highwater s)\<rparr>)"

text \<open>
  The end that most transactions share: read the row back, append its event, commit and return the row.
\<close>

definition commit_event ::
  "string \<Rightarrow> string \<Rightarrow> (string \<times> event_value) list \<Rightarrow> real \<Rightarrow> store \<Rightarrow> (store \<times> job) stored" where
  "commit_event jid etype payload now s =
     ebind (row_locked jid s) (\<lambda>row. Inr (append_event row etype payload now s, row))"

definition text_value :: "string \<Rightarrow> event_value" where
  "text_value s = Ev_json (PStr s)"

text \<open>Columns that every release of a lease clears.\<close>

definition clear_lease :: "job \<Rightarrow> job" where
  "clear_lease j = j\<lparr>jb_lease_owner := None, jb_lease_token := None, jb_lease_expires_at := None\<rparr>"

end
