(* ===== verification/JobLeases.thy ===== *)
theory JobLeases
  imports JobStore
begin

text \<open>
  Taking leases in oompah/workflow_jobs.py: enqueueing, recovery of expired and abandoned leases, and the
  claim of the next eligible job.
\<close>

section \<open>Enqueueing\<close>

definition new_job :: "job_spec \<Rightarrow> string \<Rightarrow> bool \<Rightarrow> int \<Rightarrow> real \<Rightarrow> job" where
  "new_job sp jid managed n now = \<lparr>jb_job_id = jid, jb_enqueue_sequence = n,
     jb_project_id = js_project_id sp, jb_task_id = js_task_id sp, jb_generation = js_generation sp,
     jb_action = js_action sp, jb_phase = js_phase sp, jb_payload = js_payload sp,
     jb_scheduling_lane = js_scheduling_lane sp, jb_idempotency_key = js_idempotency_key sp,
     jb_spec_revision = spec_revision sp,
     jb_expected_evidence_revision = js_expected_evidence_revision sp,
     jb_expected_head_sha = js_expected_head_sha sp, jb_state = Job_QUEUED, jb_priority = js_priority sp,
     jb_attempts = 0, jb_max_attempts = js_max_attempts sp, jb_lease_owner = None, jb_lease_token = None,
     jb_lease_expires_at = None, jb_retry_at = None, jb_failure_category = None, jb_last_error = None,
     jb_checkpoint = None, jb_result_transition = None, jb_superseded_by = None,
     jb_workflow_managed = managed, jb_created_at = now, jb_updated_at = now, jb_completed_at = None,
     jb_reason_code = js_reason_code sp\<rparr>"

definition managed_row :: "job \<Rightarrow> job" where
  "managed_row j = j\<lparr>jb_workflow_managed := True\<rparr>"

definition find_key :: "string \<Rightarrow> string \<Rightarrow> store \<Rightarrow> job option" where
  "find_key project key s = find (\<lambda>j. jb_project_id j = project \<and> jb_idempotency_key j = key) (st_jobs s)"

text \<open>\<open>_enqueue_locked\<close>; \<open>fresh_id\<close> is what the id factory returns.\<close>

definition enqueue_locked ::
  "job_spec \<Rightarrow> bool \<Rightarrow> string \<Rightarrow> real \<Rightarrow> store \<Rightarrow> (store \<times> job \<times> bool) stored" where
  "enqueue_locked sp managed fresh_id now s = (
     case find_key (js_project_id sp) (js_idempotency_key sp) s of
       Some existing \<Rightarrow>
         if jb_spec_revision existing \<noteq> spec_revision sp then Inl IdempotencyConflict
         else if managed \<and> \<not> jb_workflow_managed existing then
           (let s' = update_rows (\<lambda>j. jb_job_id j = jb_job_id existing)
                managed_row s
            in ebind (row_locked (jb_job_id existing) s') (\<lambda>row. Inr (s', row, False)))
         else Inr (s, existing, False)
     | None \<Rightarrow>
         ebind (required_str fresh_id) (\<lambda>jid.
         if list_ex (\<lambda>j. jb_job_id j = jid) (st_jobs s) then Inl IntegrityError
         else (let n = st_last_sequence s + 1;
                   s1 = s\<lparr>st_jobs := st_jobs s @ [new_job sp jid managed n now], st_last_sequence := n\<rparr>
           in ebind (commit_event jid ''enqueued'' [] now s1) (\<lambda>(s2, row). Inr (s2, row, True)))))"

definition enqueue :: "job_spec \<Rightarrow> string \<Rightarrow> real \<Rightarrow> store \<Rightarrow> (store \<times> job) stored" where
  "enqueue sp fresh_id now s =
     ebind (enqueue_locked sp False fresh_id now s) (\<lambda>(s', row, created). Inr (s', row))"

section \<open>Recovery\<close>

definition audit_finalizing :: "job \<Rightarrow> bool" where
  "audit_finalizing j = (jb_action j = ''terminal_audit'' \<and> jb_phase j = ''finalizing'')"

definition recovered_row ::
  "failure_category \<Rightarrow> string \<Rightarrow> real \<Rightarrow> string option \<Rightarrow> bool \<Rightarrow> job \<Rightarrow> job" where
  "recovered_row category err now phase exhausted j = (clear_lease j)
     \<lparr>jb_state := (if exhausted then Job_EXHAUSTED else Job_QUEUED), jb_retry_at := None,
      jb_phase := (case phase of None \<Rightarrow> jb_phase j | Some p \<Rightarrow> p),
      jb_failure_category := Some category, jb_last_error := Some err, jb_updated_at := now,
      jb_completed_at := (if exhausted then Some now else None)\<rparr>"

text \<open>\<open>WHERE job_id = ? AND state = 'running' AND lease_token = ?\<close> of a row that was read.\<close>

definition same_lease :: "job \<Rightarrow> job \<Rightarrow> bool" where
  "same_lease row j = (jb_job_id j = jb_job_id row \<and> jb_state j = Job_RUNNING
     \<and> jb_lease_token j \<noteq> None \<and> jb_lease_token j = jb_lease_token row)"

text \<open>\<open>_recover_rows_locked\<close>; SQL compares a NULL token to nothing, so such a row is left.\<close>

fun recover_rows ::
  "failure_category \<Rightarrow> string \<Rightarrow> real \<Rightarrow> string option \<Rightarrow> job list \<Rightarrow> store \<Rightarrow> (store \<times> nat) stored" where
  "recover_rows category err now phase [] s = Inr (s, 0)"
| "recover_rows category err now phase (row # rows) s =
     (if audit_finalizing row then recover_rows category err now phase rows s
      else (let exhausted = (jb_attempts row \<ge> jb_max_attempts row)
        in if row_count (same_lease row) s \<noteq> 1 then recover_rows category err now phase rows s
           else ebind (commit_event (jb_job_id row) (if exhausted then ''exhausted'' else ''recovered'')
                  [(''failure_category'', text_value (failure_category_value category))] now
                  (update_rows (same_lease row) (recovered_row category err now phase exhausted) s)) (\<lambda>(s', _).
                ebind (recover_rows category err now phase rows s') (\<lambda>(s'', n). Inr (s'', Suc n)))))"

text \<open>An optional filter on a column: every value required, and at least one.\<close>

definition normalized_filter :: "string list option \<Rightarrow> string list option stored" where
  "normalized_filter vs = (case vs of None \<Rightarrow> Inr None
     | Some xs \<Rightarrow> ebind (eseq required_str xs) (\<lambda>ys. if ys = [] then Inl (PyExn ValueError) else Inr (Some ys)))"

definition matches :: "'a option \<Rightarrow> 'a \<Rightarrow> bool" where
  "matches v x = (case v of None \<Rightarrow> True | Some y \<Rightarrow> x = y)"

definition among :: "'a list option \<Rightarrow> 'a \<Rightarrow> bool" where
  "among vs x = (case vs of None \<Rightarrow> True | Some ys \<Rightarrow> x \<in> set ys)"

definition expired :: "real \<Rightarrow> job \<Rightarrow> bool" where
  "expired now j = (jb_state j = Job_RUNNING \<and> \<not> audit_finalizing j
     \<and> (case jb_lease_expires_at j of None \<Rightarrow> False | Some t \<Rightarrow> t \<le> now))"

definition expiry_key :: "job \<Rightarrow> real \<times> int" where
  "expiry_key j = ((case jb_lease_expires_at j of None \<Rightarrow> 0 | Some t \<Rightarrow> t), jb_enqueue_sequence j)"

definition recover_expired_locked ::
  "real \<Rightarrow> nat \<Rightarrow> string option \<Rightarrow> string list option \<Rightarrow> string list option \<Rightarrow> store \<Rightarrow>
   (store \<times> nat) stored" where
  "recover_expired_locked now limit project_id actions phases s =
     ebind (required_opt project_id) (\<lambda>project.
     ebind (normalized_filter actions) (\<lambda>acts.
     ebind (normalized_filter phases) (\<lambda>phs.
     recover_rows Fail_LEASE_EXPIRED ''workflow job lease expired before acknowledgement'' now None
       (take limit (sort_key expiry_key (filter (\<lambda>j. expired now j \<and> matches project (jb_project_id j)
          \<and> among acts (jb_action j) \<and> among phs (jb_phase j)) (st_jobs s)))) s)))"

definition recover_expired ::
  "string option \<Rightarrow> string list option \<Rightarrow> string list option \<Rightarrow> real \<Rightarrow> int \<Rightarrow> store \<Rightarrow>
   (store \<times> nat) stored" where
  "recover_expired project_id actions phases now limit s =
     ebind (bounded_limit limit) (\<lambda>n. recover_expired_locked now n project_id actions phases s)"

definition recover_abandoned ::
  "string option \<Rightarrow> string option \<Rightarrow> string option \<Rightarrow> string list option \<Rightarrow> string list option \<Rightarrow> real \<Rightarrow>
   int \<Rightarrow> store \<Rightarrow> (store \<times> nat) stored" where
  "recover_abandoned lease_owner phase project_id actions phases now limit s =
     ebind (bounded_limit limit) (\<lambda>n.
     ebind (normalized_filter actions) (\<lambda>acts.
     ebind (normalized_filter phases) (\<lambda>phs.
     ebind (required_opt lease_owner) (\<lambda>owner.
     ebind (required_opt project_id) (\<lambda>project.
     recover_rows Fail_ABANDONED ''workflow job lease was abandoned during restart'' now phase
       (take n (filter (\<lambda>j. jb_state j = Job_RUNNING
          \<and> (case owner of None \<Rightarrow> True | Some w \<Rightarrow> jb_lease_owner j = Some w)
          \<and> matches project (jb_project_id j) \<and> among acts (jb_action j) \<and> among phs (jb_phase j)
          \<and> \<not> audit_finalizing j) (st_jobs s))) s)))))"

definition reclaimed_row :: "string \<Rightarrow> string \<Rightarrow> real \<Rightarrow> real \<Rightarrow> job \<Rightarrow> job" where
  "reclaimed_row owner token lease_seconds now j = j\<lparr>jb_lease_owner := Some owner, jb_lease_token := Some token,
     jb_lease_expires_at := Some (now + lease_seconds), jb_updated_at := now\<rparr>"

definition reclaim_abandoned ::
  "string \<Rightarrow> string \<Rightarrow> string \<Rightarrow> real \<Rightarrow> string option \<Rightarrow> string \<Rightarrow> real \<Rightarrow> store \<Rightarrow> (store \<times> job) stored" where
  "reclaim_abandoned job_id lease_token lease_owner lease_seconds expected_phase fresh_token now s =
     ebind (required_str job_id) (\<lambda>jid.
     ebind (required_str lease_token) (\<lambda>previous.
     ebind (required_str lease_owner) (\<lambda>owner.
     if lease_seconds \<le> 0 then Inl (PyExn ValueError) else
     ebind (required_opt expected_phase) (\<lambda>phase.
     ebind (row_locked jid s) (\<lambda>existing.
     if jb_state existing \<noteq> Job_RUNNING \<or> jb_lease_token existing \<noteq> Some previous
        \<or> \<not> matches phase (jb_phase existing) then Inl LeaseLost
     else commit_event jid ''reclaimed''
       [(''previous_lease_owner'', Ev_json (opt_str (jb_lease_owner existing)))] now
       (update_rows (\<lambda>j. jb_job_id j = jid \<and> jb_state j = Job_RUNNING \<and> jb_lease_token j = Some previous)
         (reclaimed_row owner fresh_token lease_seconds now) s))))))"

section \<open>Claiming\<close>

record claim_request =
  cr_project_id :: "string option"
  cr_project_ids :: "string list option"
  cr_task_id :: "string option"
  cr_generation :: "string option"
  cr_actions :: "string list option"
  cr_compatible :: "string list option"
  cr_snapshot :: "int option"

text \<open>The parameters of the one eligibility predicate, as \<open>_claim_candidate_filter\<close> normalises them.\<close>

definition normalized_claim :: "claim_request \<Rightarrow> claim_request stored" where
  "normalized_claim r =
     (if cr_project_id r \<noteq> None \<and> cr_project_ids r \<noteq> None then Inl (PyExn ValueError) else
     ebind (normalized_filter (cr_project_ids r)) (\<lambda>projects.
     ebind (case cr_compatible r of None \<Rightarrow> Inr [] | Some xs \<Rightarrow> eseq required_str xs) (\<lambda>compatible.
     ebind (required_opt (cr_project_id r)) (\<lambda>project.
     ebind (required_opt (cr_task_id r)) (\<lambda>task.
     ebind (required_opt (cr_generation r)) (\<lambda>generation.
     ebind (case cr_actions r of None \<Rightarrow> Inr [] | Some xs \<Rightarrow> eseq required_str xs) (\<lambda>actions.
     if (case cr_snapshot r of None \<Rightarrow> False | Some n \<Rightarrow> n < 1) then Inl (PyExn ValueError)
     else Inr \<lparr>cr_project_id = project,
       cr_project_ids = map_option (\<lambda>ps. sort (remdups ps)) projects, cr_task_id = task,
       cr_generation = generation, cr_actions = (if actions = [] then None else Some actions),
       cr_compatible = (if compatible = [] then None else Some compatible), cr_snapshot = cr_snapshot r\<rparr>)))))))"

text \<open>A managed job belongs to the published snapshot and to the materialised generation of its task.\<close>

definition published_cut :: "store \<Rightarrow> bool" where
  "published_cut s = (case st_counters s ''workflow_snapshot_accepted_generation'' of None \<Rightarrow> False
     | Some a \<Rightarrow> st_counters s ''workflow_snapshot_published_generation'' = Some a)"

definition managed_current :: "store \<Rightarrow> job \<Rightarrow> bool" where
  "managed_current s j = (
     (case (map_of (st_membership s) (jb_project_id j, jb_task_id j),
            map_of (st_cursors s) (jb_project_id j, jb_task_id j)) of
        (Some g, Some c) \<Rightarrow> cu_snapshot_generation c = g \<and> cu_job_generation c = jb_generation j
          \<and> cu_materialized_job_generation c = Some (jb_generation j)
      | _ \<Rightarrow> False)
     \<and> published_cut s)"

text \<open>Another running job of the same task blocks the claim, unless its action is declared compatible.\<close>

definition task_busy :: "store \<Rightarrow> string list option \<Rightarrow> job \<Rightarrow> bool" where
  "task_busy s compatible j = list_ex (\<lambda>o'. jb_project_id o' = jb_project_id j \<and> jb_task_id o' = jb_task_id j
     \<and> jb_state o' = Job_RUNNING
     \<and> (case compatible of None \<Rightarrow> True | Some acts \<Rightarrow> jb_action o' \<notin> set acts)) (st_jobs s)"

definition due :: "real \<Rightarrow> job \<Rightarrow> bool" where
  "due now j = (jb_state j = Job_QUEUED
     \<or> jb_state j = Job_RETRY_WAIT \<and> (case jb_retry_at j of None \<Rightarrow> False | Some t \<Rightarrow> t \<le> now))"

definition snapshot_bound :: "store \<Rightarrow> int option \<Rightarrow> bool" where
  "snapshot_bound s snapshot = (case snapshot of None \<Rightarrow> True
     | Some n \<Rightarrow> st_counters s ''workflow_snapshot_accepted_generation'' = Some n
         \<and> st_counters s ''workflow_snapshot_published_generation'' = Some n)"

definition candidate :: "store \<Rightarrow> claim_request \<Rightarrow> real \<Rightarrow> job \<Rightarrow> bool" where
  "candidate s r now j = (due now j \<and> jb_attempts j < jb_max_attempts j
     \<and> (\<not> jb_workflow_managed j \<or> managed_current s j)
     \<and> \<not> task_busy s (cr_compatible r) j
     \<and> matches (cr_project_id r) (jb_project_id j) \<and> matches (cr_task_id r) (jb_task_id j)
     \<and> matches (cr_generation r) (jb_generation j) \<and> among (cr_project_ids r) (jb_project_id j)
     \<and> among (cr_actions r) (jb_action j) \<and> snapshot_bound s (cr_snapshot r))"

text \<open>The order: fairness of the project, priority, due time, age.\<close>

definition claim_key :: "store \<Rightarrow> bool \<Rightarrow> job \<Rightarrow> int \<times> int \<times> real \<times> int" where
  "claim_key s fair j = ((if fair then (case st_fairness s (jb_project_id j) of None \<Rightarrow> 0 | Some n \<Rightarrow> n) else 0),
     jb_priority j, (case jb_retry_at j of None \<Rightarrow> jb_created_at j | Some t \<Rightarrow> t), jb_enqueue_sequence j)"

definition next_counter :: "string \<Rightarrow> store \<Rightarrow> store \<times> int" where
  "next_counter key s = (let n = (case st_counters s key of None \<Rightarrow> 0 | Some m \<Rightarrow> m) + 1 in
     (s\<lparr>st_counters := (st_counters s)(key := Some n)\<rparr>, n))"

definition note_fairness :: "string \<Rightarrow> store \<Rightarrow> store" where
  "note_fairness project s = (case next_counter ''workflow_fair_claim_sequence'' s of (s', n) \<Rightarrow>
     s'\<lparr>st_fairness := (st_fairness s')(project := Some n)\<rparr>)"

fun recover_projects ::
  "real \<Rightarrow> nat \<Rightarrow> string list option \<Rightarrow> string option list \<Rightarrow> store \<Rightarrow> store stored" where
  "recover_projects now limit actions [] s = Inr s"
| "recover_projects now limit actions (p # ps) s =
     ebind (recover_expired_locked now limit p actions None s) (\<lambda>(s', _). recover_projects now limit actions ps s')"

definition claimed_row :: "string \<Rightarrow> string \<Rightarrow> real \<Rightarrow> real \<Rightarrow> job \<Rightarrow> job" where
  "claimed_row owner token lease_seconds now j = j\<lparr>jb_state := Job_RUNNING, jb_lease_owner := Some owner,
     jb_lease_token := Some token, jb_lease_expires_at := Some (now + lease_seconds), jb_retry_at := None,
     jb_attempts := jb_attempts j + 1, jb_updated_at := now\<rparr>"

text \<open>Lease the first candidate of a store whose expired rows were recovered.\<close>

definition claim_candidate ::
  "claim_request \<Rightarrow> bool \<Rightarrow> string \<Rightarrow> string \<Rightarrow> real \<Rightarrow> real \<Rightarrow> store \<Rightarrow> (store \<times> job option) stored" where
  "claim_candidate r fair owner token lease_seconds now s = (
     case sort_key (claim_key s fair) (filter (candidate s r now) (st_jobs s)) of
       [] \<Rightarrow> Inr (s, None)
     | selected # _ \<Rightarrow>
         let s1 = update_rows (\<lambda>j. jb_job_id j = jb_job_id selected \<and> jb_state j = jb_state selected)
                (claimed_row owner token lease_seconds now) s
         in ebind (row_locked (jb_job_id selected) s1) (\<lambda>row.
            Inr (append_event row ''claimed'' [(''attempt'', Ev_json (PInt (jb_attempts row)))] now
              (if fair then note_fairness (jb_project_id row) s1 else s1), Some row)))"

definition claim_next ::
  "string \<Rightarrow> real \<Rightarrow> claim_request \<Rightarrow> bool \<Rightarrow> string \<Rightarrow> real \<Rightarrow> int \<Rightarrow> store \<Rightarrow> (store \<times> job option) stored" where
  "claim_next lease_owner lease_seconds req fair_across_projects fresh_token now recovery_limit s =
     ebind (required_str lease_owner) (\<lambda>owner.
     if lease_seconds \<le> 0 then Inl (PyExn ValueError) else
     ebind (bounded_limit recovery_limit) (\<lambda>limit.
     ebind (normalized_claim req) (\<lambda>r.
     ebind (recover_projects now limit (cr_actions r)
         (case cr_project_ids r of None \<Rightarrow> [cr_project_id req] | Some ps \<Rightarrow> map Some ps) s) (\<lambda>s1.
     claim_candidate r (fair_across_projects \<and> cr_project_id req = None) owner fresh_token lease_seconds now s1))))"

definition has_claimable :: "claim_request \<Rightarrow> real \<Rightarrow> store \<Rightarrow> bool stored" where
  "has_claimable req now s =
     ebind (normalized_claim req) (\<lambda>r. Inr (list_ex (candidate s r now) (st_jobs s)))"

end
