(* ===== verification/JobReleases.thy ===== *)
theory JobReleases
  imports JobLeases
begin

text \<open>
  Using and giving up leases in oompah/workflow_jobs.py: the token check of every owned operation, heartbeat
  and checkpoint, completion with its landing evidence, failure, the two deferrals and the requeue that give
  the attempt back, quarantine and its settlement, and the operations that fence a generation from outside.

  Every operation reads the row with \<open>_owned_row_locked\<close>, which strips the job id and the token, and
  then updates with the id (and, in some, the token) exactly as the caller passed it; the model keeps both.
\<close>

section \<open>The token check\<close>

definition owned_row :: "string \<Rightarrow> string \<Rightarrow> real \<Rightarrow> store \<Rightarrow> job stored" where
  "owned_row job_id lease_token now s =
     ebind (required_str job_id) (\<lambda>jid.
     ebind (row_locked jid s) (\<lambda>row.
     if jb_state row \<noteq> Job_RUNNING then Inl LeaseLost else
     ebind (required_str lease_token) (\<lambda>token.
     if jb_lease_token row \<noteq> Some token then Inl LeaseLost
     else (case jb_lease_expires_at row of None \<Rightarrow> Inl LeaseLost
       | Some t \<Rightarrow> if t \<le> now then Inl LeaseLost else Inr row))))"

text \<open>\<open>owns_live_lease\<close> turns a lost lease or a blank argument into \<open>False\<close>; an unknown id still raises.\<close>

definition owns_live_lease :: "string \<Rightarrow> string \<Rightarrow> real \<Rightarrow> store \<Rightarrow> bool stored" where
  "owns_live_lease job_id lease_token now s = (case owned_row job_id lease_token now s of
     Inr _ \<Rightarrow> Inr True
   | Inl e \<Rightarrow> if e \<in> {LeaseLost, StoreError, CorruptionError, IdempotencyConflict, PyExn ValueError}
       then Inr False else Inl e)"

text \<open>The end of an owned operation: \<open>UPDATE \<dots> WHERE job_id = ?\<close> with the id as passed, then the event.\<close>

definition write_owned ::
  "string \<Rightarrow> (job \<Rightarrow> job) \<Rightarrow> string \<Rightarrow> (string \<times> event_value) list \<Rightarrow> real \<Rightarrow> store \<Rightarrow> (store \<times> job) stored" where
  "write_owned job_id f etype payload now s =
     commit_event job_id etype payload now (update_rows (\<lambda>j. jb_job_id j = job_id) f s)"

section \<open>Heartbeat and checkpoint\<close>

definition renewed_row :: "real \<Rightarrow> real \<Rightarrow> job \<Rightarrow> job" where
  "renewed_row lease_seconds now j =
     j\<lparr>jb_lease_expires_at := Some (now + lease_seconds), jb_updated_at := now\<rparr>"

definition renew :: "real \<Rightarrow> string \<Rightarrow> string \<Rightarrow> real \<Rightarrow> store \<Rightarrow> (store \<times> job) stored" where
  "renew lease_seconds job_id lease_token now s =
     (if lease_seconds \<le> 0 then Inl (PyExn ValueError) else
      ebind (owned_row job_id lease_token now s) (\<lambda>_.
      write_owned job_id (renewed_row lease_seconds now) ''renewed'' [] now s))"

definition checkpointed_row :: "string \<Rightarrow> pyval option \<Rightarrow> real \<Rightarrow> job \<Rightarrow> job" where
  "checkpointed_row phase cp now j = j\<lparr>jb_phase := phase, jb_checkpoint := cp, jb_updated_at := now\<rparr>"

definition checkpoint ::
  "string \<Rightarrow> pyval \<Rightarrow> string \<Rightarrow> string \<Rightarrow> real \<Rightarrow> store \<Rightarrow> (store \<times> job) stored" where
  "checkpoint phase value job_id lease_token now s =
     ebind (json_object value) (\<lambda>cp.
     if cp = None then Inl (PyExn AssertionError) else
     ebind (required_str phase) (\<lambda>ph.
     ebind (owned_row job_id lease_token now s) (\<lambda>_.
     write_owned job_id (checkpointed_row ph cp now) ''checkpointed''
       [(''checkpoint'', Ev_json (case cp of None \<Rightarrow> PNone | Some v \<Rightarrow> v))] now s)))"

section \<open>Landing evidence\<close>

text \<open>\<open>_landing_fact_rows\<close>.\<close>

definition landing_row_of :: "string \<Rightarrow> bool \<Rightarrow> pyval \<Rightarrow> landing_fact stored" where
  "landing_row_of project_id require_durable raw =
     ebind (json_object raw) (\<lambda>v.
     case v of None \<Rightarrow> Inl (PyExn ValueError) | Some value \<Rightarrow>
     (case landing_from_dict value of
        Inl e \<Rightarrow> Inl (if e \<in> {TypeError, ValueError} then StoreError else PyExn e)
      | Inr l \<Rightarrow>
          if lf_project_id l \<noteq> project_id then Inl StoreError
          else if require_durable \<and> \<not> truthy (lf_durable l) then Inl StoreError
          else Inr l))"

definition landing_fact_rows :: "string \<Rightarrow> bool \<Rightarrow> pyval list \<Rightarrow> landing_fact list stored" where
  "landing_fact_rows project_id require_durable facts = eseq (landing_row_of project_id require_durable) facts"

text \<open>The content of a stored fact without the time it was observed.\<close>

fun landing_content :: "pyval \<Rightarrow> string" where
  "landing_content (PDict kvs) = canonical_json (PDict (filter (\<lambda>(k, _). k \<noteq> ''observed_at'') kvs))"
| "landing_content v = canonical_json v"

definition same_landing :: "string \<Rightarrow> string \<Rightarrow> landing_fact \<Rightarrow> landing_row \<Rightarrow> bool" where
  "same_landing project_id task_id l r = (lr_project_id r = project_id \<and> lr_task_id r = task_id
     \<and> lr_source r = lf_source l \<and> lr_target r = lf_target l \<and> lr_revision r = lf_evidence_revision l)"

fun insert_landings ::
  "string \<Rightarrow> string \<Rightarrow> real \<Rightarrow> landing_fact list \<Rightarrow> store \<Rightarrow> (store \<times> nat) stored" where
  "insert_landings project_id task_id now [] s = Inr (s, 0)"
| "insert_landings project_id task_id now (l # ls) s = (
     case find (same_landing project_id task_id l) (st_landings s) of
       None \<Rightarrow>
         ebind (insert_landings project_id task_id now ls
             (s\<lparr>st_landings := st_landings s @ [\<lparr>lr_project_id = project_id, lr_task_id = task_id,
                lr_source = lf_source l, lr_target = lf_target l, lr_revision = lf_evidence_revision l,
                lr_fact = landing_to_dict l, lr_recorded_at = now\<rparr>]\<rparr>))
           (\<lambda>(s', n). Inr (s', Suc n))
     | Some r \<Rightarrow>
         if landing_content (lr_fact r) \<noteq> landing_content (landing_to_dict l) then Inl CorruptionError
         else insert_landings project_id task_id now ls s)"

definition record_landing_facts ::
  "string \<Rightarrow> string \<Rightarrow> pyval list \<Rightarrow> real \<Rightarrow> store \<Rightarrow> (store \<times> nat) stored" where
  "record_landing_facts project_id task_id facts now s =
     ebind (required_str project_id) (\<lambda>project.
     ebind (required_str task_id) (\<lambda>task.
     ebind (landing_fact_rows project False facts) (\<lambda>rows.
     insert_landings project task now rows s)))"

section \<open>Completion and failure\<close>

definition completed_row :: "pyval option \<Rightarrow> real \<Rightarrow> job \<Rightarrow> job" where
  "completed_row result now j = (clear_lease j)\<lparr>jb_state := Job_COMPLETED, jb_phase := ''complete'',
     jb_result_transition := result, jb_updated_at := now, jb_completed_at := Some now\<rparr>"

definition complete_job ::
  "pyval \<Rightarrow> pyval list \<Rightarrow> string \<Rightarrow> string \<Rightarrow> real \<Rightarrow> store \<Rightarrow> (store \<times> job) stored" where
  "complete_job result_transition landing_facts job_id lease_token now s =
     ebind (json_object result_transition) (\<lambda>result.
     ebind (owned_row job_id lease_token now s) (\<lambda>owned.
     ebind (landing_fact_rows (jb_project_id owned) True landing_facts) (\<lambda>rows.
     ebind (insert_landings (jb_project_id owned) (jb_task_id owned) now rows s) (\<lambda>(s1, inserted).
     write_owned job_id (completed_row result now) ''completed''
       ((case result of None \<Rightarrow> [] | Some v \<Rightarrow> [(''result_transition'', Ev_json v)])
        @ (if rows = [] then [] else
            [(''landing_facts'', Ev_json (PInt (int (length rows)))),
             (''landing_facts_inserted'', Ev_json (PInt (int inserted)))])) now s1))))"

definition failed_row ::
  "failure_category \<Rightarrow> string \<Rightarrow> bool \<Rightarrow> real \<Rightarrow> string option \<Rightarrow> real \<Rightarrow> job \<Rightarrow> job" where
  "failed_row category err can_retry retry_delay phase now j = (clear_lease j)
     \<lparr>jb_state := (if can_retry then Job_RETRY_WAIT else Job_EXHAUSTED),
      jb_retry_at := (if can_retry then Some (now + retry_delay) else None),
      jb_phase := (case phase of None \<Rightarrow> jb_phase j | Some p \<Rightarrow> p),
      jb_failure_category := Some category, jb_last_error := Some err, jb_updated_at := now,
      jb_completed_at := (if can_retry then None else Some now)\<rparr>"

definition fail_job ::
  "string \<Rightarrow> string \<Rightarrow> bool \<Rightarrow> real \<Rightarrow> string option \<Rightarrow> string \<Rightarrow> string \<Rightarrow> real \<Rightarrow> store \<Rightarrow>
   (store \<times> job) stored" where
  "fail_job category err retryable retry_delay phase job_id lease_token now s =
     ebind (lift_py (failure_category_of category)) (\<lambda>failure.
     ebind (required_str err) (\<lambda>message.
     if retry_delay < 0 then Inl (PyExn ValueError) else
     ebind (required_opt phase) (\<lambda>ph.
     ebind (owned_row job_id lease_token now s) (\<lambda>owned.
     let can_retry = (retryable \<and> jb_attempts owned < jb_max_attempts owned)
     in write_owned job_id (failed_row failure message can_retry retry_delay ph now)
          (if can_retry then ''retry_scheduled'' else ''exhausted'')
          [(''failure_category'', text_value (failure_category_value failure)),
           (''retry_at'', Ev_time (if can_retry then Some (now + retry_delay) else None))] now s))))"

section \<open>Giving the attempt back\<close>

definition restored :: "job \<Rightarrow> int" where
  "restored j = max (jb_attempts j - 1) 0"

definition requeued_row :: "string \<Rightarrow> real \<Rightarrow> job \<Rightarrow> job" where
  "requeued_row phase now j = (clear_lease j)\<lparr>jb_state := Job_QUEUED, jb_phase := phase,
     jb_attempts := restored j, jb_retry_at := None, jb_failure_category := None, jb_last_error := None,
     jb_checkpoint := None, jb_result_transition := None, jb_updated_at := now, jb_completed_at := None\<rparr>"

definition requeue_owned_without_attempt ::
  "string \<Rightarrow> string \<Rightarrow> string \<Rightarrow> string \<Rightarrow> string \<Rightarrow> real \<Rightarrow> store \<Rightarrow> (store \<times> job) stored" where
  "requeue_owned_without_attempt expected_phase phase reason job_id lease_token now s =
     ebind (required_str expected_phase) (\<lambda>required.
     ebind (required_str phase) (\<lambda>ph.
     ebind (required_str reason) (\<lambda>message.
     ebind (owned_row job_id lease_token now s) (\<lambda>owned.
     if jb_phase owned \<noteq> required then Inl LeaseLost else
     commit_event job_id ''lifecycle_requeued''
       [(''reason'', text_value message), (''restored_attempts'', Ev_json (PInt (restored owned)))] now
       (update_rows (\<lambda>j. jb_job_id j = job_id \<and> jb_state j = Job_RUNNING
            \<and> jb_lease_token j = Some lease_token \<and> jb_phase j = required)
          (requeued_row ph now) s)))))"

definition deferred_row :: "real \<Rightarrow> real \<Rightarrow> job \<Rightarrow> job" where
  "deferred_row retry_delay now j = (clear_lease j)\<lparr>jb_state := Job_RETRY_WAIT, jb_attempts := restored j,
     jb_retry_at := Some (now + retry_delay), jb_failure_category := None, jb_last_error := None,
     jb_updated_at := now, jb_completed_at := None\<rparr>"

abbreviation MAX_ADMINISTRATIVE_BACKOFF_EXPONENT :: nat where
  "MAX_ADMINISTRATIVE_BACKOFF_EXPONENT \<equiv> 10"

definition prior_deferrals :: "string \<Rightarrow> store \<Rightarrow> nat" where
  "prior_deferrals job_id s =
     length (filter (\<lambda>e. ev_job_id e = job_id \<and> ev_type e = ''administrative_deferred'') (st_events s))"

definition backoff :: "real \<Rightarrow> nat \<Rightarrow> real" where
  "backoff delay prior = delay * 2 ^ (min prior MAX_ADMINISTRATIVE_BACKOFF_EXPONENT)"

text \<open>\<open>WHERE job_id = ? AND state = 'running' AND lease_token = ?\<close>, which must find the one row.\<close>

definition leased_row :: "string \<Rightarrow> string \<Rightarrow> job \<Rightarrow> bool" where
  "leased_row job_id lease_token j =
     (jb_job_id j = job_id \<and> jb_state j = Job_RUNNING \<and> jb_lease_token j = Some lease_token)"

definition defer_owned_without_attempt ::
  "string \<Rightarrow> real \<Rightarrow> string \<Rightarrow> string \<Rightarrow> real \<Rightarrow> store \<Rightarrow> (store \<times> job) stored" where
  "defer_owned_without_attempt reason retry_delay job_id lease_token now s =
     ebind (required_str reason) (\<lambda>message.
     if retry_delay < 0 then Inl (PyExn ValueError) else
     ebind (owned_row job_id lease_token now s) (\<lambda>owned.
     let prior = prior_deferrals job_id s; delay = backoff retry_delay prior
     in if row_count (leased_row job_id lease_token) s \<noteq> 1 then Inl LeaseLost else
        commit_event job_id ''administrative_deferred''
          [(''reason'', text_value message), (''restored_attempts'', Ev_json (PInt (restored owned))),
           (''deferral_count'', Ev_json (PInt (int prior + 1))),
           (''retry_delay_seconds'', Ev_time (Some delay)), (''retry_at'', Ev_time (Some (now + delay)))] now
          (update_rows (leased_row job_id lease_token) (deferred_row delay now) s)))"

definition deadline_row :: "string \<Rightarrow> bool \<Rightarrow> real \<Rightarrow> string option \<Rightarrow> real \<Rightarrow> job \<Rightarrow> job" where
  "deadline_row message overdue deadline replacement now j = (clear_lease j)
     \<lparr>jb_state := (if overdue then Job_SUPERSEDED else Job_RETRY_WAIT), jb_attempts := restored j,
      jb_retry_at := (if overdue then None else Some deadline), jb_failure_category := None,
      jb_last_error := Some message, jb_superseded_by := replacement, jb_updated_at := now,
      jb_completed_at := (if overdue then Some now else None)\<rparr>"

text \<open>\<open>None\<close> is a deadline that is not finite.\<close>

definition defer_owned_until ::
  "string \<Rightarrow> real option \<Rightarrow> string \<Rightarrow> string \<Rightarrow> real \<Rightarrow> store \<Rightarrow> (store \<times> job) stored" where
  "defer_owned_until reason retry_at job_id lease_token now s =
     ebind (required_str reason) (\<lambda>message.
     case retry_at of None \<Rightarrow> Inl (PyExn ValueError) | Some deadline \<Rightarrow>
     ebind (owned_row job_id lease_token now s) (\<lambda>owned.
     let overdue = (deadline \<le> now);
         replacement = (if overdue then Some (''reassess:'' @ jb_generation owned) else None)
     in if row_count (leased_row job_id lease_token) s \<noteq> 1 then Inl LeaseLost else
        commit_event job_id (if overdue then ''reassessment_due'' else ''reassessment_deferred'')
          [(''reason'', text_value message), (''restored_attempts'', Ev_json (PInt (restored owned))),
           (''retry_at'', Ev_time (Some deadline)), (''replacement_generation'', Ev_json (opt_str replacement))]
          now
          (update_rows (leased_row job_id lease_token) (deadline_row message overdue deadline replacement now) s)))"

section \<open>Cancelling and superseding\<close>

definition cancelled_row :: "string \<Rightarrow> real \<Rightarrow> job \<Rightarrow> job" where
  "cancelled_row message now j = (clear_lease j)\<lparr>jb_state := Job_CANCELLED, jb_retry_at := None,
     jb_last_error := Some message, jb_updated_at := now, jb_completed_at := Some now\<rparr>"

definition cancel_owned :: "string \<Rightarrow> string \<Rightarrow> string \<Rightarrow> real \<Rightarrow> store \<Rightarrow> (store \<times> job) stored" where
  "cancel_owned reason job_id lease_token now s =
     ebind (required_str job_id) (\<lambda>jid.
     ebind (required_str reason) (\<lambda>message.
     ebind (owned_row jid lease_token now s) (\<lambda>_.
     write_owned jid (\<lambda>j. (cancelled_row message now j)\<lparr>jb_phase := ''complete''\<rparr>) ''cancelled''
       [(''reason'', text_value message)] now s)))"

definition quarantined :: "job \<Rightarrow> bool" where
  "quarantined j = (jb_state j = Job_RUNNING \<and> jb_phase j = ''quarantined'')"

text \<open>
  The frame of \<open>supersede\<close> and \<open>cancel\<close>: the generation must match, a terminal row is returned as it is,
  and a quarantined call is not fenced from outside.
\<close>

definition fence_generation ::
  "string \<Rightarrow> string \<Rightarrow> (job \<Rightarrow> job) \<Rightarrow> string \<Rightarrow> (string \<times> event_value) list \<Rightarrow> real \<Rightarrow> store \<Rightarrow>
   (store \<times> job) stored" where
  "fence_generation job_id expected f etype payload now s =
     ebind (row_locked job_id s) (\<lambda>existing.
     if jb_generation existing \<noteq> expected then Inl StoreError
     else if jb_state existing \<in> set TERMINAL_JOB_STATES then Inr (s, existing)
     else if quarantined existing then Inl StoreError
     else commit_event job_id etype payload now
            (update_rows (\<lambda>j. jb_job_id j = job_id \<and> jb_generation j = expected) f s))"

definition superseded_row :: "string \<Rightarrow> string \<Rightarrow> real \<Rightarrow> job \<Rightarrow> job" where
  "superseded_row replacement message now j = (clear_lease j)\<lparr>jb_state := Job_SUPERSEDED, jb_retry_at := None,
     jb_superseded_by := Some replacement, jb_last_error := Some message, jb_updated_at := now,
     jb_completed_at := Some now\<rparr>"

definition supersede ::
  "string \<Rightarrow> string \<Rightarrow> string \<Rightarrow> string \<Rightarrow> real \<Rightarrow> store \<Rightarrow> (store \<times> job) stored" where
  "supersede job_id generation replacement_generation reason now s =
     ebind (required_str generation) (\<lambda>expected.
     ebind (required_str replacement_generation) (\<lambda>replacement.
     ebind (required_str reason) (\<lambda>message.
     fence_generation job_id expected (superseded_row replacement message now) ''superseded''
       [(''replacement_generation'', text_value replacement), (''reason'', text_value message)] now s)))"

definition cancel :: "string \<Rightarrow> string \<Rightarrow> string \<Rightarrow> real \<Rightarrow> store \<Rightarrow> (store \<times> job) stored" where
  "cancel job_id generation reason now s =
     ebind (required_str generation) (\<lambda>expected.
     ebind (required_str reason) (\<lambda>message.
     fence_generation job_id expected (cancelled_row message now) ''cancelled''
       [(''reason'', text_value message)] now s))"

fun supersede_rows :: "string \<Rightarrow> string \<Rightarrow> real \<Rightarrow> job list \<Rightarrow> store \<Rightarrow> (store \<times> nat) stored" where
  "supersede_rows current message now [] s = Inr (s, 0)"
| "supersede_rows current message now (selected # rows) s =
     (if quarantined selected then supersede_rows current message now rows s
      else ebind (write_owned (jb_job_id selected) (superseded_row current message now) ''superseded''
              [(''replacement_generation'', text_value current), (''reason'', text_value message)] now s)
            (\<lambda>(s', _). ebind (supersede_rows current message now rows s') (\<lambda>(s'', n). Inr (s'', Suc n))))"

definition supersede_task_generation ::
  "string \<Rightarrow> string \<Rightarrow> string \<Rightarrow> string \<Rightarrow> real \<Rightarrow> int \<Rightarrow> store \<Rightarrow> (store \<times> nat) stored" where
  "supersede_task_generation project_id task_id keep_generation reason now limit s =
     ebind (bounded_limit limit) (\<lambda>bounded.
     ebind (required_str project_id) (\<lambda>project.
     ebind (required_str task_id) (\<lambda>task.
     ebind (required_str keep_generation) (\<lambda>current.
     ebind (required_str reason) (\<lambda>message.
     supersede_rows current message now (take bounded (filter (\<lambda>j. jb_project_id j = project
        \<and> jb_task_id j = task \<and> jb_generation j \<noteq> current \<and> jb_state j \<in> set ACTIVE_JOB_STATES)
        (st_jobs s))) s)))))"

section \<open>Rearming\<close>

definition rearmed_row :: "string \<Rightarrow> real \<Rightarrow> job \<Rightarrow> job" where
  "rearmed_row phase now j = (clear_lease j)\<lparr>jb_state := Job_QUEUED, jb_phase := phase, jb_attempts := 0,
     jb_retry_at := None, jb_failure_category := None, jb_last_error := None, jb_checkpoint := None,
     jb_result_transition := None, jb_superseded_by := None, jb_updated_at := now, jb_completed_at := None\<rparr>"

definition rearm_exhausted_job ::
  "string \<Rightarrow> string \<Rightarrow> string \<Rightarrow> string \<Rightarrow> real \<Rightarrow> store \<Rightarrow> (store \<times> job) stored" where
  "rearm_exhausted_job job_id generation phase reason now s =
     ebind (required_str job_id) (\<lambda>jid.
     ebind (required_str generation) (\<lambda>expected.
     ebind (required_str phase) (\<lambda>queued_phase.
     ebind (required_str reason) (\<lambda>message.
     ebind (row_locked jid s) (\<lambda>existing.
     if jb_generation existing \<noteq> expected then Inl StoreError
     else if jb_state existing \<in> set ACTIVE_JOB_STATES then Inr (s, existing)
     else if jb_state existing \<notin> {Job_COMPLETED, Job_EXHAUSTED} then Inl StoreError
     else (let s1 = update_rows (\<lambda>j. jb_job_id j = jid \<and> jb_generation j = expected)
                 (rearmed_row queued_phase now) s
       in commit_event jid ''rearmed'' [(''reason'', text_value message)] now
            (s1\<lparr>st_retired := filter (\<lambda>r. rt_job_id r \<noteq> jid) (st_retired s1)\<rparr>)))))))"

section \<open>Quarantine\<close>

definition quarantined_row :: "failure_category \<Rightarrow> string \<Rightarrow> real \<Rightarrow> job \<Rightarrow> job" where
  "quarantined_row category message now j = j\<lparr>jb_phase := ''quarantined'', jb_lease_expires_at := None,
     jb_retry_at := None, jb_failure_category := Some category, jb_last_error := Some message,
     jb_updated_at := now\<rparr>"

definition quarantine_owned ::
  "string \<Rightarrow> string \<Rightarrow> string \<Rightarrow> string \<Rightarrow> real \<Rightarrow> store \<Rightarrow> (store \<times> job) stored" where
  "quarantine_owned category err job_id lease_token now s =
     ebind (lift_py (failure_category_of category)) (\<lambda>failure.
     ebind (required_str err) (\<lambda>message.
     ebind (required_str job_id) (\<lambda>jid.
     ebind (row_locked jid s) (\<lambda>row.
     if jb_state row \<noteq> Job_RUNNING then Inl LeaseLost else
     ebind (required_str lease_token) (\<lambda>token.
     if jb_lease_token row \<noteq> Some token then Inl LeaseLost else
     commit_event job_id ''quarantined''
       [(''failure_category'', text_value (failure_category_value failure)), (''error'', text_value message)] now
       (update_rows (leased_row job_id lease_token) (quarantined_row failure message now) s))))))"

text \<open>\<open>d[k] = v\<close> and \<open>d.pop(k, None)\<close> of a dict.\<close>

definition dict_set :: "string \<Rightarrow> pyval \<Rightarrow> (string \<times> pyval) list \<Rightarrow> (string \<times> pyval) list" where
  "dict_set k v d = (if list_ex (\<lambda>(k', _). k' = k) d then map (\<lambda>(k', x). (k', if k' = k then v else x)) d
     else d @ [(k, v)])"

definition dict_pop :: "string \<Rightarrow> (string \<times> pyval) list \<Rightarrow> (string \<times> pyval) list" where
  "dict_pop k d = filter (\<lambda>(k', _). k' \<noteq> k) d"

text \<open>\<open>dict(_decode_json_object(\<dots>) or {})\<close>, and the column it is written back to.\<close>

definition checkpoint_entries :: "job \<Rightarrow> (string \<times> pyval) list stored" where
  "checkpoint_entries j = (case jb_checkpoint j of None \<Rightarrow> Inr []
     | Some v \<Rightarrow> (case mapping_of v of None \<Rightarrow> Inl CorruptionError | Some d \<Rightarrow> Inr d))"

definition checkpoint_column :: "(string \<times> pyval) list \<Rightarrow> pyval option" where
  "checkpoint_column d = Some (freeze (thaw (PDict d)))"

text \<open>The quarantine of a job that exactly this token holds.\<close>

definition quarantine_row :: "string \<Rightarrow> string \<Rightarrow> store \<Rightarrow> job stored" where
  "quarantine_row jid token s =
     ebind (row_locked jid s) (\<lambda>row.
     if \<not> quarantined row \<or> jb_lease_token row \<noteq> Some token then Inl LeaseLost else Inr row)"

definition returned_row :: "string \<Rightarrow> (string \<times> pyval) list \<Rightarrow> real \<Rightarrow> job \<Rightarrow> job" where
  "returned_row phase cp now j = (clear_lease j)\<lparr>jb_state := Job_QUEUED, jb_phase := phase,
     jb_checkpoint := checkpoint_column cp, jb_retry_at := None, jb_attempts := restored j,
     jb_failure_category := None, jb_last_error := None, jb_updated_at := now, jb_completed_at := None\<rparr>"

definition settled_failure_row ::
  "failure_category \<Rightarrow> string \<Rightarrow> bool \<Rightarrow> real \<Rightarrow> (string \<times> pyval) list \<Rightarrow> real \<Rightarrow> job \<Rightarrow> job" where
  "settled_failure_row category message exhausted retry_delay cp now j = (clear_lease j)
     \<lparr>jb_state := (if exhausted then Job_EXHAUSTED else Job_RETRY_WAIT), jb_phase := ''quarantine_recovered'',
      jb_checkpoint := checkpoint_column cp,
      jb_retry_at := (if exhausted then None else Some (now + retry_delay)),
      jb_failure_category := Some category, jb_last_error := Some message, jb_updated_at := now,
      jb_completed_at := (if exhausted then Some now else None)\<rparr>"

definition settled_row ::
  "(string \<times> pyval) list option \<Rightarrow> bool \<Rightarrow> failure_category \<Rightarrow> string \<Rightarrow> bool \<Rightarrow> real \<Rightarrow>
   (string \<times> pyval) list \<Rightarrow> real \<Rightarrow> job \<Rightarrow> job" where
  "settled_row effect succeeded category message exhausted retry_delay cp now = (case effect of
     Some d \<Rightarrow> returned_row ''effect_returned'' (dict_set ''effect'' (PDict d) cp) now
   | None \<Rightarrow> if succeeded then returned_row ''quarantine_recovered'' cp now
       else settled_failure_row category message exhausted retry_delay cp now)"

definition settle_quarantined_call ::
  "string \<Rightarrow> pyval option \<Rightarrow> string \<Rightarrow> string option \<Rightarrow> bool \<Rightarrow> real \<Rightarrow> string \<Rightarrow> string \<Rightarrow> real \<Rightarrow> store \<Rightarrow>
   (store \<times> job) stored" where
  "settle_quarantined_call operation receipt category err retryable retry_delay job_id lease_token now s =
     ebind (required_str job_id) (\<lambda>jid.
     ebind (required_str lease_token) (\<lambda>token.
     ebind (required_str operation) (\<lambda>call_operation.
     if retry_delay < 0 then Inl (PyExn ValueError) else
     ebind (case receipt of None \<Rightarrow> Inr None
         | Some v \<Rightarrow> (case mapping_of v of None \<Rightarrow> Inl (PyExn TypeError) | Some d \<Rightarrow> Inr (Some d))) (\<lambda>effect.
     ebind (lift_py (failure_category_of category)) (\<lambda>failure.
     let succeeded = (effect \<noteq> None \<or> err = None);
         message = (case err of None \<Rightarrow> [] | Some e \<Rightarrow> py_strip e)
     in if \<not> succeeded \<and> message = [] then Inl (PyExn ValueError) else
     ebind (quarantine_row jid token s) (\<lambda>selected.
     ebind (checkpoint_entries selected) (\<lambda>entries.
     let cp = dict_pop ''quarantine_recycle'' entries;
         exhausted = (\<not> retryable \<or> jb_attempts selected \<ge> jb_max_attempts selected)
     in commit_event jid ''quarantine_settled''
          [(''operation'', text_value call_operation),
           (''outcome'', text_value (if succeeded then ''returned'' else ''failed''))] now
          (update_rows (\<lambda>j. jb_job_id j = jid \<and> quarantined j \<and> jb_lease_token j = Some token)
            (settled_row effect succeeded failure message exhausted retry_delay cp now) s))))))))"

definition marked_row :: "(string \<times> pyval) list \<Rightarrow> real \<Rightarrow> job \<Rightarrow> job" where
  "marked_row cp now j = j\<lparr>jb_checkpoint := checkpoint_column cp, jb_updated_at := now\<rparr>"

definition recycle_marked :: "string \<Rightarrow> string \<Rightarrow> pyval \<Rightarrow> bool" where
  "recycle_marked owner token marker = (case mapping_of marker of None \<Rightarrow> False
     | Some m \<Rightarrow> str_or (getv m ''lease_owner'') [] = owner \<and> str_or (getv m ''lease_token'') [] = token)"

text \<open>\<open>requested_at\<close> is the JSON value of the timestamp.\<close>

definition mark_quarantine_recycle_requested ::
  "pyval \<Rightarrow> string \<Rightarrow> string \<Rightarrow> real \<Rightarrow> store \<Rightarrow> (store \<times> job) stored" where
  "mark_quarantine_recycle_requested requested_at job_id lease_token now s =
     ebind (required_str job_id) (\<lambda>jid.
     ebind (required_str lease_token) (\<lambda>token.
     ebind (quarantine_row jid token s) (\<lambda>selected.
     ebind (checkpoint_entries selected) (\<lambda>entries.
     let marker = getv entries ''quarantine_recycle'';
         owner = (case jb_lease_owner selected of None \<Rightarrow> [] | Some w \<Rightarrow> w)
     in if recycle_marked owner token marker then Inr (s, selected) else
        commit_event jid ''quarantine_recycle_requested''
          [(''lease_owner'', text_value owner), (''replaced_stale_marker'', Ev_json (PBool (marker \<noteq> PNone)))] now
          (update_rows (\<lambda>j. jb_job_id j = jid \<and> quarantined j \<and> jb_lease_token j = Some token)
            (marked_row (dict_set ''quarantine_recycle''
               (PDict [(''lease_owner'', PStr owner), (''lease_token'', PStr token),
                  (''requested_at'', requested_at)]) entries) now) s)))))"

end
