(* ===== verification/JobLifecycle.thy ===== *)
theory JobLifecycle
  imports JobReleases "HOL-Library.Sublist"
begin

text \<open>
  What the transactions of the job store are allowed to do, stated apart from them: the life of one row as
  a step relation over the columns, the single writes a transaction is made of, and the invariant of the
  store that every write keeps.
\<close>

section \<open>A well-formed row\<close>

text \<open>Nobody holds the row, and which of the time and result columns a state fills in.\<close>

definition unleased :: "job \<Rightarrow> bool" where
  "unleased j \<longleftrightarrow> jb_lease_owner j = None \<and> jb_lease_token j = None \<and> jb_lease_expires_at j = None"

definition leased :: "job \<Rightarrow> bool" where
  "leased j \<longleftrightarrow> jb_lease_owner j \<noteq> None \<and> jb_lease_token j \<noteq> None
     \<and> (jb_lease_expires_at j = None \<longrightarrow> jb_phase j = ''quarantined'')"

fun state_ok :: "job_state \<Rightarrow> job \<Rightarrow> bool" where
  "state_ok Job_RUNNING j \<longleftrightarrow> leased j \<and> 0 < jb_attempts j \<and> jb_retry_at j = None
     \<and> jb_completed_at j = None \<and> jb_superseded_by j = None \<and> jb_result_transition j = None"
| "state_ok Job_QUEUED j \<longleftrightarrow> unleased j \<and> jb_attempts j < jb_max_attempts j \<and> jb_retry_at j = None
     \<and> jb_completed_at j = None \<and> jb_superseded_by j = None \<and> jb_result_transition j = None"
| "state_ok Job_RETRY_WAIT j \<longleftrightarrow> unleased j \<and> jb_attempts j < jb_max_attempts j \<and> jb_retry_at j \<noteq> None
     \<and> jb_completed_at j = None \<and> jb_superseded_by j = None \<and> jb_result_transition j = None"
| "state_ok Job_SUPERSEDED j \<longleftrightarrow> unleased j \<and> jb_retry_at j = None \<and> jb_completed_at j \<noteq> None
     \<and> jb_superseded_by j \<noteq> None \<and> jb_result_transition j = None"
| "state_ok Job_COMPLETED j \<longleftrightarrow> unleased j \<and> jb_retry_at j = None \<and> jb_completed_at j \<noteq> None
     \<and> jb_superseded_by j = None \<and> 0 < jb_attempts j"
| "state_ok _ j \<longleftrightarrow> unleased j \<and> jb_retry_at j = None \<and> jb_completed_at j \<noteq> None
     \<and> jb_superseded_by j = None \<and> jb_result_transition j = None"

definition job_ok :: "job \<Rightarrow> bool" where
  "job_ok j \<longleftrightarrow> py_strip (jb_job_id j) = jb_job_id j \<and> jb_job_id j \<noteq> []
     \<and> 0 \<le> jb_attempts j \<and> jb_attempts j \<le> jb_max_attempts j \<and> 0 < jb_max_attempts j
     \<and> state_ok (jb_state j) j"

section \<open>The life of a row\<close>

text \<open>
  One change of one row.  \<open>T\<close> is the set of the lease tokens that the step may hand out.
\<close>

inductive job_move :: "string set \<Rightarrow> job \<Rightarrow> job \<Rightarrow> bool" for T where
  move_managed: "job_move T j (managed_row j)"
| move_claimed: "jb_state j \<in> {Job_QUEUED, Job_RETRY_WAIT} \<Longrightarrow> jb_attempts j < jb_max_attempts j \<Longrightarrow> token \<in> T
    \<Longrightarrow> job_move T j (claimed_row owner token secs now j)"
| move_reclaimed: "jb_state j = Job_RUNNING \<Longrightarrow> token \<in> T \<Longrightarrow> job_move T j (reclaimed_row owner token secs now j)"
| move_renewed: "jb_state j = Job_RUNNING \<Longrightarrow> job_move T j (renewed_row secs now j)"
| move_checkpointed: "jb_state j = Job_RUNNING \<Longrightarrow> jb_lease_expires_at j \<noteq> None
    \<Longrightarrow> job_move T j (checkpointed_row ph cp now j)"
| move_quarantined: "jb_state j = Job_RUNNING \<Longrightarrow> job_move T j (quarantined_row cat err now j)"
| move_marked: "jb_state j = Job_RUNNING \<Longrightarrow> job_move T j (marked_row cp now j)"
| move_recovered: "jb_state j = Job_RUNNING
    \<Longrightarrow> job_move T j (recovered_row cat err now ph (jb_attempts j \<ge> jb_max_attempts j) j)"
| move_completed: "jb_state j = Job_RUNNING \<Longrightarrow> job_move T j (completed_row res now j)"
| move_failed: "jb_state j = Job_RUNNING \<Longrightarrow> (retry \<Longrightarrow> jb_attempts j < jb_max_attempts j)
    \<Longrightarrow> job_move T j (failed_row cat err retry delay ph now j)"
| move_requeued: "jb_state j = Job_RUNNING \<Longrightarrow> job_move T j (requeued_row ph now j)"
| move_deferred: "jb_state j = Job_RUNNING \<Longrightarrow> job_move T j (deferred_row delay now j)"
| move_deadline: "jb_state j = Job_RUNNING \<Longrightarrow> (replacement \<noteq> None \<longleftrightarrow> overdue)
    \<Longrightarrow> job_move T j (deadline_row err overdue deadline replacement now j)"
| move_returned: "jb_state j = Job_RUNNING \<Longrightarrow> job_move T j (returned_row ph entries now j)"
| move_settled: "jb_state j = Job_RUNNING \<Longrightarrow> (\<not> exhausted \<Longrightarrow> jb_attempts j < jb_max_attempts j)
    \<Longrightarrow> job_move T j (settled_failure_row cat err exhausted delay entries now j)"
| move_stopped: "jb_state j = Job_RUNNING \<Longrightarrow> job_move T j ((cancelled_row err now j)\<lparr>jb_phase := ph\<rparr>)"
| move_cancelled: "jb_state j \<in> set ACTIVE_JOB_STATES \<Longrightarrow> job_move T j (cancelled_row err now j)"
| move_superseded: "jb_state j \<in> set ACTIVE_JOB_STATES \<Longrightarrow> job_move T j (superseded_row gen err now j)"
| move_rearmed: "jb_state j \<in> {Job_COMPLETED, Job_EXHAUSTED}
    \<Longrightarrow> job_move T j (rearmed_row ph now j)"

inductive_cases job_moveE: "job_move T j j'"

lemmas row_defs = managed_row_def claimed_row_def reclaimed_row_def renewed_row_def checkpointed_row_def
  quarantined_row_def marked_row_def recovered_row_def completed_row_def failed_row_def requeued_row_def
  deferred_row_def deadline_row_def returned_row_def settled_failure_row_def cancelled_row_def
  superseded_row_def rearmed_row_def clear_lease_def restored_def

lemmas job_states = ACTIVE_JOB_STATES_def TERMINAL_JOB_STATES_def

text \<open>The columns that no operation rewrites.\<close>

definition identity_of :: "job \<Rightarrow> string \<times> int \<times> string \<times> string \<times> string \<times> string \<times> string \<times> string" where
  "identity_of j = (jb_job_id j, jb_enqueue_sequence j, jb_project_id j, jb_task_id j, jb_generation j,
     jb_action j, jb_idempotency_key j, jb_spec_revision j)"

lemma job_move_identity: "job_move T j j' \<Longrightarrow> identity_of j' = identity_of j \<and> jb_max_attempts j' = jb_max_attempts j"
  by (induction rule: job_move.induct) (simp_all add: row_defs identity_of_def)

lemma job_move_mono: "job_move T j j' \<Longrightarrow> T \<subseteq> T' \<Longrightarrow> job_move T' j j'"
  by (induction rule: job_move.induct) (auto intro: job_move.intros)

lemma job_move_ok: "job_move T j j' \<Longrightarrow> job_ok j \<Longrightarrow> job_ok j'"
proof (induction rule: job_move.induct)
  case (move_managed j)
  then show ?case by (cases "jb_state j") (simp_all add: job_ok_def row_defs unleased_def leased_def)
next
  case (move_cancelled j err now)
  then show ?case by (auto simp: job_ok_def row_defs unleased_def leased_def job_states)
next
  case (move_superseded j gen err now)
  then show ?case by (auto simp: job_ok_def row_defs unleased_def leased_def job_states)
next
  case (move_claimed j token owner secs now)
  then show ?case by (auto simp: job_ok_def row_defs unleased_def leased_def)
next
  case (move_rearmed j ph now)
  then show ?case by (auto simp: job_ok_def row_defs unleased_def leased_def)
next
  case (move_failed j retry cat err delay ph now)
  then show ?case by (cases retry) (simp_all add: job_ok_def row_defs unleased_def leased_def)
next
  case (move_settled j exhausted cat err delay entries now)
  then show ?case by (cases exhausted) (simp_all add: job_ok_def row_defs unleased_def leased_def)
next
  case (move_deadline j replacement overdue err deadline now)
  then show ?case by (cases overdue) (auto simp add: job_ok_def row_defs unleased_def leased_def)
next
  case (move_checkpointed j ph cp now)
  then show ?case by (auto simp add: job_ok_def row_defs unleased_def leased_def)
next
  case (move_recovered j cat err now ph)
  then show ?case by (cases "jb_attempts j \<ge> jb_max_attempts j")
    (simp_all add: job_ok_def row_defs unleased_def leased_def)
qed (simp_all add: job_ok_def row_defs unleased_def leased_def)

text \<open>A token of a row after a move is new or was there before, on the same row.\<close>

lemma job_move_token: "job_move T j j' \<Longrightarrow> jb_lease_token j' = Some t \<Longrightarrow> t \<in> T \<or> jb_lease_token j = Some t"
  by (induction rule: job_move.induct) (auto simp: row_defs)

lemma job_move_final: "job_move T j j' \<Longrightarrow> jb_state j \<in> {Job_SUPERSEDED, Job_CANCELLED} \<Longrightarrow> j' = managed_row j"
  by (induction rule: job_move.induct) (auto simp: job_states)

section \<open>The writes of a transaction\<close>

definition ledger_key :: "landing_row \<Rightarrow> string \<times> string \<times> string \<times> string \<times> string" where
  "ledger_key r = (lr_project_id r, lr_task_id r, lr_source r, lr_target r, lr_revision r)"

inductive written :: "bool \<Rightarrow> string set \<Rightarrow> store \<Rightarrow> store \<Rightarrow> bool" for b T where
  write_rows: "(\<And>j. j \<in> set (st_jobs s) \<Longrightarrow> p j \<Longrightarrow> job_move T j (f j)) \<Longrightarrow> written b T s (update_rows p f s)"
| write_insert: "0 < js_max_attempts sp \<Longrightarrow> py_strip jid = jid \<Longrightarrow> jid \<noteq> []
    \<Longrightarrow> \<not> list_ex (\<lambda>j. jb_job_id j = jid) (st_jobs s)
    \<Longrightarrow> find_key (js_project_id sp) (js_idempotency_key sp) s = None
    \<Longrightarrow> written b T s (s\<lparr>st_jobs := st_jobs s @ [new_job sp jid managed (st_last_sequence s + 1) now],
          st_last_sequence := st_last_sequence s + 1\<rparr>)"
| write_event: "row \<in> set (st_jobs s) \<Longrightarrow> written b T s (append_event row etype payload now s)"
| write_fairness: "written b T s (note_fairness project s)"
| write_landing: "ledger_key r \<notin> ledger_key ` set (st_landings s)
    \<Longrightarrow> written b T s (s\<lparr>st_landings := st_landings s @ [r]\<rparr>)"
| write_retired: "written b T s (s\<lparr>st_retired := rs\<rparr>)"
| write_schedule: "b \<Longrightarrow> written b T s (s\<lparr>st_counters := cs, st_membership := ms, st_cursors := us,
      st_event_cursors := es, st_orderings := os, st_publications := ps, st_cuts := ts, st_retired := rs\<rparr>)"

text \<open>
  Any number of writes: of a worker's operation, which leaves the scheduling tables alone, and of any call.
\<close>

definition evolves_in :: "bool \<Rightarrow> string set \<Rightarrow> store \<Rightarrow> store \<Rightarrow> bool" where
  "evolves_in b T = (written b T)\<^sup>*\<^sup>*"

abbreviation evolves :: "string set \<Rightarrow> store \<Rightarrow> store \<Rightarrow> bool" where
  "evolves \<equiv> evolves_in False"

abbreviation steers :: "string set \<Rightarrow> store \<Rightarrow> store \<Rightarrow> bool" where
  "steers \<equiv> evolves_in True"

lemma writes_mono: "written b T s s' \<Longrightarrow> T \<subseteq> T' \<Longrightarrow> written b T' s s'"
  by (induction rule: written.induct) (auto intro: written.intros job_move_mono)

lemma evolves_refl [simp, intro]: "evolves_in b T s s"
  by (simp add: evolves_in_def)

lemma evolves_trans [trans]: "evolves_in b T s s' \<Longrightarrow> evolves_in b T s' s'' \<Longrightarrow> evolves_in b T s s''"
  by (simp add: evolves_in_def)

lemma evolves_write: "written b T s s' \<Longrightarrow> evolves_in b T s s'"
  by (simp add: evolves_in_def r_into_rtranclp)

lemma evolves_mono: "evolves_in b T s s' \<Longrightarrow> T \<subseteq> T' \<Longrightarrow> evolves_in b T' s s'"
  unfolding evolves_in_def by (induction rule: rtranclp_induct)
    (auto intro: writes_mono rtranclp.rtrancl_into_rtrancl)

lemma evolves_induct [consumes 1, case_names refl step]:
  assumes "evolves_in b T s s'" and "P s" and "\<And>u v. evolves_in b T s u \<Longrightarrow> written b T u v \<Longrightarrow> P u \<Longrightarrow> P v"
  shows "P s'"
  using assms(1) unfolding evolves_in_def by (induction rule: rtranclp_induct) (auto intro: assms simp: evolves_in_def)

section \<open>The invariant of the store\<close>

definition store_ok :: "store \<Rightarrow> bool" where
  "store_ok s \<longleftrightarrow>
     (\<forall>j \<in> set (st_jobs s). job_ok j)
   \<and> distinct (map jb_job_id (st_jobs s))
   \<and> distinct (map (\<lambda>j. (jb_project_id j, jb_idempotency_key j)) (st_jobs s))
   \<and> sorted_wrt (<) (map jb_enqueue_sequence (st_jobs s))
   \<and> (\<forall>j \<in> set (st_jobs s). jb_enqueue_sequence j \<le> st_last_sequence s)
   \<and> sorted_wrt (<) (map ev_sequence (st_events s))
   \<and> (\<forall>e \<in> set (st_events s). ev_sequence e \<le> st_last_event s \<and> ev_job_id e \<in> jb_job_id ` set (st_jobs s))
   \<and> st_last_event s \<le> st_highwater s
   \<and> distinct (map ledger_key (st_landings s))"

lemma store_ok_jobs: "store_ok s \<Longrightarrow> j \<in> set (st_jobs s) \<Longrightarrow> job_ok j"
  by (simp add: store_ok_def)

lemma store_ok_empty: "store_ok empty_store"
  by (simp add: store_ok_def empty_store_def)

lemma update_rows_columns:
  assumes "\<And>j. j \<in> set (st_jobs s) \<Longrightarrow> p j \<Longrightarrow> g (f j) = g j"
  shows "map g (st_jobs (update_rows p f s)) = map g (st_jobs s)"
  using assms by (simp add: update_rows_def)

lemma strict_sorted_snoc: "sorted_wrt (<) (xs @ [x]) \<longleftrightarrow> sorted_wrt (<) xs \<and> (\<forall>y \<in> set xs. y < x)"
  for x :: int
  by (simp add: sorted_wrt_append)

lemma writes_ok: "written b T s s' \<Longrightarrow> store_ok s \<Longrightarrow> store_ok s'"
proof (induction rule: written.induct)
  case (write_rows s p f)
  let ?s = "update_rows p f s"
  have same: "map g (st_jobs ?s) = map g (st_jobs s)" if "\<And>j j'. identity_of j' = identity_of j \<Longrightarrow> g j' = g j"
    for g :: "job \<Rightarrow> 'b"
    using write_rows(1) job_move_identity that by (intro update_rows_columns) blast
  have ids: "map jb_job_id (st_jobs ?s) = map jb_job_id (st_jobs s)"
    and seqs: "map jb_enqueue_sequence (st_jobs ?s) = map jb_enqueue_sequence (st_jobs s)"
    and keys: "map (\<lambda>j. (jb_project_id j, jb_idempotency_key j)) (st_jobs ?s)
      = map (\<lambda>j. (jb_project_id j, jb_idempotency_key j)) (st_jobs s)"
    by (rule same; simp add: identity_of_def)+
  have rows: "job_ok j" if "j \<in> set (st_jobs ?s)" for j
    using that write_rows by (auto simp: update_rows_def store_ok_def intro: job_move_ok)
  have "\<forall>n \<in> set (map jb_enqueue_sequence (st_jobs ?s)). n \<le> st_last_sequence s"
    unfolding seqs using write_rows(2) by (auto simp: store_ok_def)
  then have "\<forall>j \<in> set (st_jobs ?s). jb_enqueue_sequence j \<le> st_last_sequence s"
    by simp
  moreover have "jb_job_id ` set (st_jobs ?s) = jb_job_id ` set (st_jobs s)"
    using ids by (metis list.set_map)
  moreover have "st_last_sequence ?s = st_last_sequence s" "st_events ?s = st_events s"
    "st_last_event ?s = st_last_event s" "st_highwater ?s = st_highwater s" "st_landings ?s = st_landings s"
    by (simp_all add: update_rows_def)
  ultimately show ?case
    using rows ids seqs keys write_rows(2) unfolding store_ok_def by auto
next
  case (write_insert sp jid s managed now)
  have "job_ok (new_job sp jid managed n now)" for n
    using write_insert by (simp add: job_ok_def new_job_def unleased_def)
  moreover have "(js_project_id sp, js_idempotency_key sp)
      \<notin> (\<lambda>j. (jb_project_id j, jb_idempotency_key j)) ` set (st_jobs s)"
    using write_insert(5) by (auto simp: find_key_def find_None_iff)
  ultimately show ?case
    using write_insert unfolding store_ok_def
    by (auto simp: new_job_def list_ex_iff strict_sorted_snoc)
next
  case (write_event row s etype payload now)
  then show ?case
    unfolding store_ok_def by (auto simp: append_event_def Let_def strict_sorted_snoc le_less_trans)
next
  case (write_fairness s project)
  then show ?case by (simp add: store_ok_def note_fairness_def next_counter_def Let_def)
next
  case (write_landing r s)
  then show ?case by (simp add: store_ok_def)
qed (simp_all add: store_ok_def)

lemma evolves_ok: "evolves_in b T s s' \<Longrightarrow> store_ok s \<Longrightarrow> store_ok s'"
  by (induction rule: evolves_induct) (auto intro: writes_ok)

end
