(* ===== verification/JobRefinement.thy ===== *)
theory JobRefinement
  imports JobLifecycle
begin

text \<open>
  Every operation of the job store refines the life of a row: a call that returns is a sequence of the
  writes of JobLifecycle.  The operations a worker calls with its token share the contract stated as the
  locales \<open>leased_operation\<close> and \<open>releasing_operation\<close>; the facts about a lost or a used
  token are proved there once and hold for each of them.
\<close>

section \<open>Reading and writing rows\<close>

lemma row_lockedD: "row_locked jid s = Inr j \<Longrightarrow> j \<in> set (st_jobs s) \<and> jb_job_id j = jid"
  by (auto simp: row_locked_def find_Some_iff split: option.splits)

lemma row_unique: "store_ok s \<Longrightarrow> j \<in> set (st_jobs s) \<Longrightarrow> j' \<in> set (st_jobs s) \<Longrightarrow> jb_job_id j = jb_job_id j'
    \<Longrightarrow> j = j'"
  unfolding store_ok_def by (auto dest: inj_onD simp: distinct_map)

lemma row_locked_iff: "store_ok s \<Longrightarrow> row_locked jid s = Inr j \<longleftrightarrow> j \<in> set (st_jobs s) \<and> jb_job_id j = jid"
proof (intro iffI row_lockedD, assumption)
  assume ok: "store_ok s" and j: "j \<in> set (st_jobs s) \<and> jb_job_id j = jid"
  show "row_locked jid s = Inr j"
  proof (cases "row_locked jid s")
    case (Inl e)
    then show ?thesis using j by (auto simp: row_locked_def find_None_iff split: option.splits)
  next
    case (Inr j')
    then show ?thesis using row_unique[OF ok] row_lockedD j by metis
  qed
qed

lemma required_str_Inr [simp]: "required_str s = Inr t \<longleftrightarrow> t = py_strip s \<and> t \<noteq> []"
  by (auto simp: required_str_def)

lemma owned_rowD:
  "owned_row jid token now s = Inr j \<Longrightarrow> j \<in> set (st_jobs s) \<and> jb_job_id j = py_strip jid
     \<and> jb_state j = Job_RUNNING \<and> jb_lease_token j = Some (py_strip token)
     \<and> (\<exists>t. jb_lease_expires_at j = Some t \<and> now < t)"
  by (auto simp: owned_row_def succeeds_iff dest!: row_lockedD split: if_splits option.splits)

text \<open>An id that names a row is stripped, so the row it names is the one that was checked.\<close>

lemma owned_row_same:
  assumes ok: "store_ok s" and owned: "owned_row jid token now s = Inr j"
    and j': "j' \<in> set (st_jobs s)" "jb_job_id j' = jid"
  shows "j' = j"
proof -
  have "py_strip jid = jid" using store_ok_jobs[OF ok j'(1)] j'(2) by (simp add: job_ok_def)
  then have "jb_job_id j' = jb_job_id j" using owned_rowD[OF owned] j'(2) by simp
  then show ?thesis using owned_rowD[OF owned] by (intro row_unique[OF ok j'(1)]) blast+
qed

lemma commit_eventD:
  "commit_event jid etype payload now s = Inr (s', row) \<Longrightarrow>
     row \<in> set (st_jobs s) \<and> jb_job_id row = jid \<and> s' = append_event row etype payload now s"
  by (auto simp: commit_event_def ebind_eq_Inr_iff dest: row_lockedD)

lemma append_event_jobs [simp]: "st_jobs (append_event row etype payload now s) = st_jobs s"
  by (simp add: append_event_def Let_def)

lemma commit_evolves: "commit_event jid etype payload now s = Inr (s', row) \<Longrightarrow> evolves T s s'"
  using commit_eventD[of jid etype payload now s s' row] by (auto intro!: evolves_write write_event)

lemma update_commit_evolves:
  assumes "commit_event jid etype payload now (update_rows p f s) = Inr (s', row)"
    and "\<And>j. j \<in> set (st_jobs s) \<Longrightarrow> p j \<Longrightarrow> job_move T j (f j)"
  shows "evolves T s s'"
proof -
  have "evolves T s (update_rows p f s)" using assms(2) by (intro evolves_write write_rows)
  also have "evolves T (update_rows p f s) s'" using assms(1) by (rule commit_evolves)
  finally show ?thesis .
qed

lemma write_owned_evolves:
  assumes "write_owned jid f etype payload now s = Inr (s', row)"
    and "\<And>j. j \<in> set (st_jobs s) \<Longrightarrow> jb_job_id j = jid \<Longrightarrow> job_move T j (f j)"
  shows "evolves T s s'"
  using assms(1) unfolding write_owned_def by (rule update_commit_evolves) (rule assms(2))

section \<open>What a write leaves alone\<close>

lemma writes_rows:
  "written b T s s' \<Longrightarrow> j \<in> set (st_jobs s) \<Longrightarrow>
     \<exists>j' \<in> set (st_jobs s'). j' = j \<or> job_move T j j'"
  by (induction rule: written.induct) (auto simp: update_rows_def append_event_def note_fairness_def next_counter_def Let_def)

text \<open>The history of a row: each row lives on, under the same identity, along moves.\<close>

lemma evolves_rows:
  "evolves_in b T s s' \<Longrightarrow> j \<in> set (st_jobs s) \<Longrightarrow> \<exists>j' \<in> set (st_jobs s'). (job_move T)\<^sup>*\<^sup>* j j'"
proof (induction rule: evolves_induct)
  case (step u v)
  then obtain j' where "j' \<in> set (st_jobs u)" "(job_move T)\<^sup>*\<^sup>* j j'" by blast
  with writes_rows[OF step(2)] show ?case by (metis rtranclp.rtrancl_into_rtrancl)
qed blast

lemma moves_identity: "(job_move T)\<^sup>*\<^sup>* j j' \<Longrightarrow> identity_of j' = identity_of j \<and> jb_max_attempts j' = jb_max_attempts j"
  by (induction rule: rtranclp_induct) (auto dest: job_move_identity)

lemma writes_events: "written b T s s' \<Longrightarrow> prefix (st_events s) (st_events s') \<and> st_highwater s \<le> st_highwater s'"
  by (induction rule: written.induct) (auto simp: update_rows_def append_event_def note_fairness_def next_counter_def Let_def)

lemma evolves_events: "evolves_in b T s s' \<Longrightarrow> prefix (st_events s) (st_events s') \<and> st_highwater s \<le> st_highwater s'"
  by (induction rule: evolves_induct) (auto dest!: writes_events intro: prefix_order.trans)

text \<open>A token that is not on a row and is not handed out again never comes back to it.\<close>

lemma writes_token:
  assumes "written b T s s'" and "t \<notin> T"
    and "\<And>j. j \<in> set (st_jobs s) \<Longrightarrow> jb_job_id j = jid \<Longrightarrow> jb_lease_token j \<noteq> Some t"
  shows "j \<in> set (st_jobs s') \<Longrightarrow> jb_job_id j = jid \<Longrightarrow> jb_lease_token j \<noteq> Some t"
  using assms
proof (induction rule: written.induct)
  case (write_rows s p f)
  from write_rows.prems(1) obtain i where i: "i \<in> set (st_jobs s)" "j = (if p i then f i else i)"
    by (auto simp: update_rows_def)
  have "job_move T i j \<or> j = i" using write_rows.hyps i by auto
  moreover have "jb_job_id j = jb_job_id i"
    using calculation job_move_identity by (auto simp: identity_of_def)
  ultimately show ?case using write_rows.prems i(1) job_move_token by metis
qed (auto simp: new_job_def append_event_def note_fairness_def next_counter_def Let_def)

lemma evolves_token:
  assumes "evolves_in b T s s'" and "t \<notin> T"
    and "\<And>j. j \<in> set (st_jobs s) \<Longrightarrow> jb_job_id j = jid \<Longrightarrow> jb_lease_token j \<noteq> Some t"
  shows "\<forall>j \<in> set (st_jobs s'). jb_job_id j = jid \<longrightarrow> jb_lease_token j \<noteq> Some t"
  using assms(1)
proof (induction rule: evolves_induct)
  case refl
  then show ?case using assms(3) by blast
next
  case (step u v)
  then show ?case using writes_token[OF step(2) assms(2)] by blast
qed

section \<open>The contract of an owned operation\<close>

locale leased_operation =
  fixes op :: "string \<Rightarrow> string \<Rightarrow> real \<Rightarrow> store \<Rightarrow> (store \<times> job) stored"
  assumes needs_lease: "op jid token now s = Inr (s', row) \<Longrightarrow> \<exists>owned. owned_row jid token now s = Inr owned"
    and refines: "store_ok s \<Longrightarrow> op jid token now s = Inr (s', row) \<Longrightarrow> evolves {} s s'"
begin

lemma keeps_ok: "store_ok s \<Longrightarrow> op jid token now s = Inr (s', row) \<Longrightarrow> store_ok s'"
  using refines evolves_ok by blast

lemma lease_held:
  assumes "op jid token now s = Inr (s', row)"
  shows "\<exists>j \<in> set (st_jobs s). jb_job_id j = py_strip jid \<and> jb_state j = Job_RUNNING
    \<and> jb_lease_token j = Some (py_strip token) \<and> (\<exists>t. jb_lease_expires_at j = Some t \<and> now < t)"
  using needs_lease[OF assms] owned_rowD by blast

lemma fenced:
  assumes "\<And>j. j \<in> set (st_jobs s) \<Longrightarrow> jb_job_id j = py_strip jid \<Longrightarrow> jb_lease_token j \<noteq> Some (py_strip token)"
  shows "\<not> is_ok (op jid token now s)"
proof (cases "op jid token now s")
  case (Inr r)
  then show ?thesis using lease_held[of jid token now s "fst r" "snd r"] assms by auto
qed simp

text \<open>Whoever lost the row to another holder is fenced for good.\<close>

lemma fenced_later:
  assumes "evolves_in b T s s'" and "py_strip token \<notin> T"
    and "\<And>j. j \<in> set (st_jobs s) \<Longrightarrow> jb_job_id j = py_strip jid \<Longrightarrow> jb_lease_token j \<noteq> Some (py_strip token)"
  shows "\<not> is_ok (op jid token now s')"
  using evolves_token[OF assms] by (intro fenced) blast

end

text \<open>An operation that gives the lease up: the row it returns holds no lease.\<close>

locale releasing_operation = leased_operation +
  assumes releases: "store_ok s \<Longrightarrow> py_strip token = token \<Longrightarrow> op jid token now s = Inr (s', row)
    \<Longrightarrow> row \<in> set (st_jobs s') \<and> jb_job_id row = py_strip jid \<and> jb_state row \<noteq> Job_RUNNING"
begin

lemma used_up:
  assumes ok: "store_ok s" and token: "py_strip token = token" and op: "op jid token now s = Inr (s', row)"
    and j: "j \<in> set (st_jobs s')" "jb_job_id j = py_strip jid"
  shows "jb_lease_token j \<noteq> Some (py_strip token)"
proof -
  have ok': "store_ok s'" using keeps_ok[OF ok op] .
  then have "j = row" using releases[OF ok token op] j row_unique by metis
  then have "jb_state j \<noteq> Job_RUNNING" using releases[OF ok token op] by simp
  then show ?thesis
    using store_ok_jobs[OF ok' j(1)] by (cases "jb_state j") (auto simp: job_ok_def unleased_def)
qed

text \<open>A lease is used up once: whatever happens next, the same token opens nothing on that row.\<close>

lemma spent:
  assumes "store_ok s" "py_strip token = token" "op jid token now s = Inr (s', row)"
    and "evolves_in b T s' s''" "token \<notin> T"
  shows "\<not> is_ok (owned_row jid token later s'')"
proof (cases "owned_row jid token later s''")
  case (Inr j)
  then have "j \<in> set (st_jobs s'')" "jb_job_id j = py_strip jid" "jb_lease_token j = Some (py_strip token)"
    using owned_rowD by blast+
  then show ?thesis
    using evolves_token[OF assms(4), of "py_strip token" "py_strip jid"] used_up[OF assms(1-3)] assms(2,5) by auto
qed simp

end

end
