(* ===== verification/JobOperations.thy ===== *)
theory JobOperations
  imports JobRefinement
begin

text \<open>
  Each operation of the job store against its contract: refinement of the life of a row, the interpretation
  of the two locales by the operations that a worker calls with its token, and what each claim returns.
\<close>

section \<open>Operations that hold the lease\<close>

lemma owned_move:
  assumes "store_ok s" and "owned_row jid token now s = Inr owned"
    and "j \<in> set (st_jobs s)" and "jb_job_id j = jid"
  shows "j = owned \<and> jb_state j = Job_RUNNING \<and> jb_lease_expires_at j \<noteq> None"
  using owned_row_same[OF assms] owned_rowD[OF assms(2)] by auto

interpretation renewing: leased_operation "renew secs" for secs
proof
  fix jid token now s s' row
  assume op: "renew secs jid token now s = Inr (s', row)"
  then obtain owned where owned: "owned_row jid token now s = Inr owned"
    and w: "write_owned jid (renewed_row secs now) ''renewed'' [] now s = Inr (s', row)"
    by (auto simp: renew_def succeeds_iff)
  from owned show "\<exists>owned. owned_row jid token now s = Inr owned" ..
  assume "store_ok s"
  then show "evolves {} s s'"
    using w owned_move[OF _ owned] by (auto intro!: write_owned_evolves move_renewed)
qed

interpretation checkpointing: leased_operation "checkpoint phase value" for phase "value"
proof
  fix jid token now s s' row
  assume op: "checkpoint phase value jid token now s = Inr (s', row)"
  then obtain owned cp payload where owned: "owned_row jid token now s = Inr owned"
    and w: "write_owned jid (checkpointed_row (py_strip phase) cp now) ''checkpointed'' payload now s = Inr (s', row)"
    by (auto simp: checkpoint_def succeeds_iff)
  from owned show "\<exists>owned. owned_row jid token now s = Inr owned" ..
  assume "store_ok s"
  then show "evolves {} s s'"
    using w owned_move[OF _ owned] by (auto intro!: write_owned_evolves move_checkpointed)
qed

section \<open>Operations that release it\<close>

lemma landings_evolve: "insert_landings project task now ls s = Inr (s', n) \<Longrightarrow>
    evolves T s s' \<and> st_jobs s' = st_jobs s \<and> st_events s' = st_events s"
proof (induction ls arbitrary: s n)
  case (Cons l ls)
  show ?case
  proof (cases "find (same_landing project task l) (st_landings s)")
    case None
    let ?r = "\<lparr>lr_project_id = project, lr_task_id = task, lr_source = lf_source l, lr_target = lf_target l,
      lr_revision = lf_evidence_revision l, lr_fact = landing_to_dict l, lr_recorded_at = now\<rparr>"
    let ?s = "s\<lparr>st_landings := st_landings s @ [?r]\<rparr>"
    have "ledger_key ?r \<notin> ledger_key ` set (st_landings s)"
      using None by (auto simp: find_None_iff same_landing_def ledger_key_def)
    then have "evolves T s ?s" by (intro evolves_write write_landing)
    moreover obtain m where "insert_landings project task now ls ?s = Inr (s', m)"
      using Cons.prems None by (auto simp: ebind_eq_Inr_iff)
    ultimately show ?thesis using Cons.IH[of ?s m] by (auto intro: evolves_trans)
  next
    case (Some r)
    then show ?thesis using Cons by (auto split: if_splits)
  qed
qed simp

lemma row_after_update:
  assumes ok: "store_ok s" and c: "commit_event jid etype payload now (update_rows p f s) = Inr (s', row)"
    and j: "j \<in> set (st_jobs s)" "jb_job_id j = jid" "p j" and m: "jb_job_id (f j) = jb_job_id j"
    and moves: "\<And>j. j \<in> set (st_jobs s) \<Longrightarrow> p j \<Longrightarrow> job_move T j (f j)"
  shows "row = f j \<and> row \<in> set (st_jobs s') \<and> jb_job_id row = jid"
proof -
  have "f j \<in> set (st_jobs (update_rows p f s))" using j by (auto simp: update_rows_def)
  moreover have "store_ok (update_rows p f s)" using ok moves by (auto intro: writes_ok write_rows)
  moreover have row: "row \<in> set (st_jobs (update_rows p f s))" "jb_job_id row = jid" "s' = append_event row etype payload now (update_rows p f s)"
    using commit_eventD[OF c] by auto
  ultimately have "f j = row" using j m row_unique by metis
  with row show ?thesis by simp
qed

text \<open>
  An update of the row that was checked: by its id alone, or guarded by more of the row.
\<close>

lemma guarded_row:
  assumes ok: "store_ok s" and owned: "owned_row jid token now s = Inr owned"
    and c: "commit_event jid etype payload now (update_rows p f s) = Inr (s', row)"
    and id: "\<And>j. p j \<Longrightarrow> jb_job_id j = jid"
    and moves: "jb_state owned = Job_RUNNING \<Longrightarrow> jb_lease_expires_at owned \<noteq> None \<Longrightarrow> job_move T owned (f owned)"
  shows "evolves T s s' \<and> row \<in> set (st_jobs s') \<and> jb_job_id row = py_strip jid \<and> jb_job_id owned = jid
    \<and> (p owned \<longrightarrow> row = f owned)"
proof -
  have m: "job_move T owned (f owned)" using owned_rowD[OF owned] moves by blast
  have move: "job_move T j (f j)" if "j \<in> set (st_jobs s)" "p j" for j
    using owned_move[OF ok owned that(1) id[OF that(2)]] m by simp
  obtain r where "r \<in> set (st_jobs (update_rows p f s))" "jb_job_id r = jid"
    using commit_eventD[OF c] by blast
  then obtain j where "j \<in> set (st_jobs s)" "jb_job_id j = jid"
    using move job_move_identity id by (auto simp: update_rows_def split: if_splits)
  then have j: "owned \<in> set (st_jobs s)" "jb_job_id owned = jid" using owned_move[OF ok owned] by auto
  have f: "jb_job_id (f owned) = jb_job_id owned" using m job_move_identity by (fastforce simp: identity_of_def)
  have "row = f owned" if "p owned" using row_after_update[OF ok c j that f move] by blast
  moreover have "row \<in> set (st_jobs s')" "jb_job_id row = jid" using commit_eventD[OF c] by auto
  moreover have "evolves T s s'" using c move by (rule update_commit_evolves)
  moreover have "py_strip jid = jid" using owned_rowD[OF owned] j(2) by simp
  ultimately show ?thesis using j(2) by simp
qed

lemma written_row:
  assumes "store_ok s" and "owned_row jid token now s = Inr owned"
    and "write_owned jid f etype payload now s = Inr (s', row)"
    and "jb_state owned = Job_RUNNING \<Longrightarrow> jb_lease_expires_at owned \<noteq> None \<Longrightarrow> job_move T owned (f owned)"
  shows "evolves T s s' \<and> row \<in> set (st_jobs s') \<and> jb_job_id row = py_strip jid \<and> row = f owned"
  using guarded_row[OF assms(1,2) assms(3)[unfolded write_owned_def] _ assms(4)] by auto

interpretation cancelling: releasing_operation "cancel_owned reason" for reason
proof
  fix jid token now s s' row
  assume op: "cancel_owned reason jid token now s = Inr (s', row)"
  let ?f = "\<lambda>j. (cancelled_row (py_strip reason) now j)\<lparr>jb_phase := ''complete''\<rparr>"
  from op obtain owned payload where owned: "owned_row (py_strip jid) token now s = Inr owned"
    and w: "write_owned (py_strip jid) ?f ''cancelled'' payload now s = Inr (s', row)"
    by (auto simp: cancel_owned_def succeeds_iff)
  from owned show "\<exists>owned. owned_row jid token now s = Inr owned" by (auto simp: owned_row_def succeeds_iff)
  assume ok: "store_ok s"
  have all: "evolves {} s s' \<and> row \<in> set (st_jobs s') \<and> jb_job_id row = py_strip jid \<and> row = ?f owned"
    using written_row[OF ok owned w move_stopped] unfolding py_strip_idem .
  show "evolves {} s s'" using all by blast
  assume "py_strip token = token"
  have "jb_state row \<noteq> Job_RUNNING" using all by (simp add: cancelled_row_def)
  then show "row \<in> set (st_jobs s') \<and> jb_job_id row = py_strip jid \<and> jb_state row \<noteq> Job_RUNNING"
    using all by blast
qed

interpretation failing: releasing_operation "fail_job category err retryable delay phase"
  for category err retryable delay phase
proof
  fix jid token now s s' row
  assume op: "fail_job category err retryable delay phase jid token now s = Inr (s', row)"
  then obtain owned failure ph etype payload where owned: "owned_row jid token now s = Inr owned"
    and w: "write_owned jid (failed_row failure (py_strip err)
       (retryable \<and> jb_attempts owned < jb_max_attempts owned) delay ph now) etype payload now s = Inr (s', row)"
    by (auto simp: fail_job_def succeeds_iff Let_def)
  from owned show "\<exists>owned. owned_row jid token now s = Inr owned" ..
  assume ok: "store_ok s"
  have all: "evolves {} s s' \<and> row \<in> set (st_jobs s') \<and> jb_job_id row = py_strip jid \<and> row =
      failed_row failure (py_strip err) (retryable \<and> jb_attempts owned < jb_max_attempts owned) delay ph now owned"
    using written_row[OF ok owned w] move_failed by auto
  show "evolves {} s s'" using all by blast
  assume "py_strip token = token"
  have "jb_state row \<noteq> Job_RUNNING" using all by (simp add: failed_row_def)
  then show "row \<in> set (st_jobs s') \<and> jb_job_id row = py_strip jid \<and> jb_state row \<noteq> Job_RUNNING"
    using all by blast
qed

interpretation completing: releasing_operation "complete_job result landings" for result landings
proof
  fix jid token now s s' row
  assume op: "complete_job result landings jid token now s = Inr (s', row)"
  then obtain owned res rows s1 n etype payload where owned: "owned_row jid token now s = Inr owned"
    and l: "insert_landings (jb_project_id owned) (jb_task_id owned) now rows s = Inr (s1, n)"
    and w: "write_owned jid (completed_row res now) etype payload now s1 = Inr (s', row)"
    by (auto simp: complete_job_def succeeds_iff split: prod.splits)
  from owned show "\<exists>owned. owned_row jid token now s = Inr owned" ..
  assume ok: "store_ok s"
  have s1: "evolves {} s s1" "st_jobs s1 = st_jobs s" using landings_evolve[OF l] by auto
  then have owned1: "owned_row jid token now s1 = Inr owned"
    using owned by (simp add: owned_row_def row_locked_def)
  have ok1: "store_ok s1" using evolves_ok s1(1) ok .
  have all: "evolves {} s1 s' \<and> row \<in> set (st_jobs s') \<and> jb_job_id row = py_strip jid
      \<and> row = completed_row res now owned"
    using written_row[OF ok1 owned1 w] move_completed by auto
  show "evolves {} s s'" using s1(1) all evolves_trans by blast
  assume "py_strip token = token"
  have "jb_state row \<noteq> Job_RUNNING" using all by (simp add: completed_row_def)
  then show "row \<in> set (st_jobs s') \<and> jb_job_id row = py_strip jid \<and> jb_state row \<noteq> Job_RUNNING"
    using all by blast
qed

interpretation requeueing: releasing_operation "requeue_owned_without_attempt expected phase reason"
  for expected phase reason
proof
  fix jid token now s s' row
  let ?p = "\<lambda>j. jb_job_id j = jid \<and> jb_state j = Job_RUNNING \<and> jb_lease_token j = Some token
    \<and> jb_phase j = py_strip expected"
  let ?f = "requeued_row (py_strip phase) now"
  assume op: "requeue_owned_without_attempt expected phase reason jid token now s = Inr (s', row)"
  then obtain owned etype payload where owned: "owned_row jid token now s = Inr owned"
    and phase: "jb_phase owned = py_strip expected"
    and c: "commit_event jid etype payload now (update_rows ?p ?f s) = Inr (s', row)"
    by (auto simp: requeue_owned_without_attempt_def succeeds_iff)
  from owned show "\<exists>owned. owned_row jid token now s = Inr owned" ..
  assume ok: "store_ok s"
  have all: "evolves {} s s' \<and> row \<in> set (st_jobs s') \<and> jb_job_id row = py_strip jid \<and> jb_job_id owned = jid
      \<and> (?p owned \<longrightarrow> row = ?f owned)"
    using guarded_row[OF ok owned c] move_requeued by auto
  show "evolves {} s s'" using all by blast
  assume token: "py_strip token = token"
  have "?p owned" using all owned_rowD[OF owned] phase token by simp
  then have "jb_state row \<noteq> Job_RUNNING" using all by (simp add: requeued_row_def)
  then show "row \<in> set (st_jobs s') \<and> jb_job_id row = py_strip jid \<and> jb_state row \<noteq> Job_RUNNING"
    using all by blast
qed

interpretation deferring: releasing_operation "defer_owned_without_attempt reason delay" for reason delay
proof
  fix jid token now s s' row
  assume op: "defer_owned_without_attempt reason delay jid token now s = Inr (s', row)"
  then obtain owned d etype payload where owned: "owned_row jid token now s = Inr owned"
    and c: "commit_event jid etype payload now (update_rows (leased_row jid token) (deferred_row d now) s) = Inr (s', row)"
    by (auto simp: defer_owned_without_attempt_def succeeds_iff Let_def)
  from owned show "\<exists>owned. owned_row jid token now s = Inr owned" ..
  assume ok: "store_ok s"
  have all: "evolves {} s s' \<and> row \<in> set (st_jobs s') \<and> jb_job_id row = py_strip jid \<and> jb_job_id owned = jid
      \<and> (leased_row jid token owned \<longrightarrow> row = deferred_row d now owned)"
    using guarded_row[OF ok owned c] move_deferred by (auto simp: leased_row_def)
  show "evolves {} s s'" using all by blast
  assume token: "py_strip token = token"
  have "leased_row jid token owned" using all owned_rowD[OF owned] token by (simp add: leased_row_def)
  then have "jb_state row \<noteq> Job_RUNNING" using all by (simp add: deferred_row_def)
  then show "row \<in> set (st_jobs s') \<and> jb_job_id row = py_strip jid \<and> jb_state row \<noteq> Job_RUNNING"
    using all by blast
qed

interpretation waiting: releasing_operation "defer_owned_until reason retry_at" for reason retry_at
proof
  fix jid token now s s' row
  assume op: "defer_owned_until reason retry_at jid token now s = Inr (s', row)"
  then obtain owned deadline etype payload where owned: "owned_row jid token now s = Inr owned"
    and c: "commit_event jid etype payload now (update_rows (leased_row jid token)
      (deadline_row (py_strip reason) (deadline \<le> now) deadline
        (if deadline \<le> now then Some (''reassess:'' @ jb_generation owned) else None) now) s) = Inr (s', row)"
    by (auto simp: defer_owned_until_def succeeds_iff Let_def split: option.splits)
  from owned show "\<exists>owned. owned_row jid token now s = Inr owned" ..
  assume ok: "store_ok s"
  let ?f = "deadline_row (py_strip reason) (deadline \<le> now) deadline
        (if deadline \<le> now then Some (''reassess:'' @ jb_generation owned) else None) now"
  have all: "evolves {} s s' \<and> row \<in> set (st_jobs s') \<and> jb_job_id row = py_strip jid \<and> jb_job_id owned = jid
      \<and> (leased_row jid token owned \<longrightarrow> row = ?f owned)"
    using guarded_row[OF ok owned c _ move_deadline[where overdue = "deadline \<le> now"]]
    by (simp add: leased_row_def)
  show "evolves {} s s'" using all by blast
  assume token: "py_strip token = token"
  have "leased_row jid token owned" using all owned_rowD[OF owned] token by (simp add: leased_row_def)
  then have "jb_state row \<noteq> Job_RUNNING" using all by (simp add: deadline_row_def)
  then show "row \<in> set (st_jobs s') \<and> jb_job_id row = py_strip jid \<and> jb_state row \<noteq> Job_RUNNING"
    using all by blast
qed

end
