(* ===== verification/JobSteps.thy ===== *)
theory JobSteps
  imports JobOperations
begin

text \<open>
  The operations that take no token (enqueueing, recovery, claiming, fencing a generation, rearming,
  quarantine), and the store as a state machine: one step is one call of one operation.
\<close>

section \<open>Enqueueing and the landing ledger\<close>

lemma enqueue_evolves:
  assumes "0 < js_max_attempts sp" and "enqueue_locked sp managed fresh now s = Inr (s', row, created)"
  shows "evolves T s s'"
proof (cases "find_key (js_project_id sp) (js_idempotency_key sp) s")
  case (Some existing)
  then have "s' = s \<or> s' = update_rows (\<lambda>j. jb_job_id j = jb_job_id existing) managed_row s"
    using assms(2) by (auto simp: enqueue_locked_def ebind_eq_Inr_iff Let_def split: if_splits)
  then show ?thesis by (auto intro: evolves_write write_rows move_managed)
next
  case None
  let ?s = "s\<lparr>st_jobs := st_jobs s @ [new_job sp (py_strip fresh) managed (st_last_sequence s + 1) now],
    st_last_sequence := st_last_sequence s + 1\<rparr>"
  have fresh: "py_strip fresh \<noteq> []" "\<not> list_ex (\<lambda>j. jb_job_id j = py_strip fresh) (st_jobs s)"
    and commit: "commit_event (py_strip fresh) ''enqueued'' [] now ?s = Inr (s', row)"
    using assms(2) None by (auto simp: enqueue_locked_def ebind_eq_Inr_iff Let_def split: if_splits)
  have "written False T s ?s" using assms(1) fresh None by (intro write_insert) simp_all
  then show ?thesis using commit_evolves[OF commit] evolves_write evolves_trans by blast
qed

section \<open>Recovery\<close>

lemma row_other: "j \<in> set (st_jobs s) \<Longrightarrow> \<not> p j \<Longrightarrow> j \<in> set (st_jobs (update_rows p f s))"
  by (force simp: update_rows_def)

lemma rows_kept:
  assumes "set rows \<subseteq> set (st_jobs s)" and "jb_job_id row \<notin> jb_job_id ` set rows"
    and "\<And>j. p j \<Longrightarrow> jb_job_id j = jb_job_id row"
  shows "set rows \<subseteq> set (st_jobs (update_rows p f s))"
proof
  fix j
  assume j: "j \<in> set rows"
  then have "\<not> p j" using assms(2,3) by (metis image_eqI)
  then show "j \<in> set (st_jobs (update_rows p f s))" using j assms(1) by (auto intro: row_other)
qed

lemma recover_rows_evolves:
  assumes "store_ok s" and "set rows \<subseteq> set (st_jobs s)" and "distinct (map jb_job_id rows)"
    and "recover_rows category err now phase rows s = Inr (s', n)"
  shows "evolves T s s'"
  using assms
proof (induction rows arbitrary: s n)
  case (Cons row rows)
  let ?exhausted = "jb_attempts row \<ge> jb_max_attempts row"
  let ?p = "same_lease row"
  let ?s = "update_rows ?p (recovered_row category err now phase ?exhausted) s"
  have move: "job_move T j (recovered_row category err now phase ?exhausted j)" if "j \<in> set (st_jobs s)" "?p j" for j
  proof -
    have same: "jb_job_id j = jb_job_id row" "jb_state j = Job_RUNNING" using that(2) by (simp_all add: same_lease_def)
    have "row \<in> set (st_jobs s)" using Cons.prems(2) by simp
    then have "j = row" using same(1) row_unique[OF Cons.prems(1) that(1)] by blast
    then show ?thesis using same(2) move_recovered by blast
  qed
  show ?case
  proof (cases "audit_finalizing row \<or> row_count ?p s \<noteq> 1")
    case True
    then show ?thesis using Cons by (auto simp: Let_def split: if_splits)
  next
    case False
    let ?etype = "if ?exhausted then ''exhausted'' else ''recovered''"
    let ?payload = "[(''failure_category'', text_value (failure_category_value category))]"
    have "ebind (commit_event (jb_job_id row) ?etype ?payload now ?s) (\<lambda>(u, _).
        ebind (recover_rows category err now phase rows u) (\<lambda>(v, m). Inr (v, Suc m))) = Inr (s', n)"
      using Cons.prems(4) False by (simp add: Let_def)
    then obtain u r m where c: "commit_event (jb_job_id row) ?etype ?payload now ?s = Inr (u, r)"
      and rest: "recover_rows category err now phase rows u = Inr (s', m)"
      by (elim ebind_InrE) (auto elim!: ebind_InrE split: prod.splits)
    have u: "evolves T s u" using c move by (rule update_commit_evolves)
    have "store_ok u" using u Cons.prems(1) evolves_ok by blast
    moreover have "set rows \<subseteq> set (st_jobs ?s)"
      using Cons.prems(2,3) by (intro rows_kept) (simp_all add: same_lease_def)
    moreover have "st_jobs u = st_jobs ?s" using commit_eventD[OF c] by simp
    ultimately have "evolves T u s'" using Cons.prems(3) rest by (intro Cons.IH) simp_all
    with u show ?thesis by (rule evolves_trans)
  qed
qed simp

lemma selected_rows:
  assumes "store_ok s"
  shows "set (take n (filter p (st_jobs s))) \<subseteq> set (st_jobs s)"
    and "distinct (map jb_job_id (take n (filter p (st_jobs s))))"
    and "set (take n (sort_key k (filter p (st_jobs s)))) \<subseteq> set (st_jobs s)"
    and "distinct (map jb_job_id (take n (sort_key k (filter p (st_jobs s)))))"
proof -
  have inj: "inj_on jb_job_id (set (st_jobs s))" and d: "distinct (st_jobs s)"
    using assms by (auto simp: store_ok_def distinct_map)
  show sub: "set (take n (filter p (st_jobs s))) \<subseteq> set (st_jobs s)"
    "set (take n (sort_key k (filter p (st_jobs s)))) \<subseteq> set (st_jobs s)"
    by (auto dest: in_set_takeD)
  show "distinct (map jb_job_id (take n (filter p (st_jobs s))))"
    using inj d sub(1) by (auto simp: distinct_map intro: inj_on_subset)
  show "distinct (map jb_job_id (take n (sort_key k (filter p (st_jobs s)))))"
    using inj d sub(2) by (auto simp: distinct_map intro: inj_on_subset)
qed

lemma recover_selected:
  assumes "store_ok s"
  shows "recover_rows category err now phase (take n (filter p (st_jobs s))) s = Inr (s', m) \<Longrightarrow> evolves T s s'"
    and "recover_rows category err now phase (take n (sort_key k (filter p (st_jobs s)))) s = Inr (s', m)
      \<Longrightarrow> evolves T s s'"
  by (erule recover_rows_evolves[OF assms selected_rows(1,2)[OF assms]]
    recover_rows_evolves[OF assms selected_rows(3,4)[OF assms]])+

lemma recover_expired_locked_evolves:
  assumes "store_ok s" and "recover_expired_locked now limit project actions phases s = Inr (s', n)"
  shows "evolves T s s'"
  using assms(2) recover_selected(2)[OF assms(1)] by (auto simp: recover_expired_locked_def ebind_eq_Inr_iff)

lemma recover_expired_evolves:
  "store_ok s \<Longrightarrow> recover_expired project actions phases now limit s = Inr (s', n) \<Longrightarrow> evolves T s s'"
  by (auto simp: recover_expired_def ebind_eq_Inr_iff intro: recover_expired_locked_evolves)

lemma recover_abandoned_evolves:
  assumes "store_ok s" and "recover_abandoned lease_owner phase project actions phases now limit s = Inr (s', n)"
  shows "evolves T s s'"
  using assms(2) recover_selected(1)[OF assms(1)] by (auto simp: recover_abandoned_def ebind_eq_Inr_iff)

lemma recover_projects_evolves:
  assumes "store_ok s" and "recover_projects now limit actions ps s = Inr s'"
  shows "evolves T s s'"
  using assms
proof (induction ps arbitrary: s)
  case (Cons p ps)
  then obtain u n where u: "recover_expired_locked now limit p actions None s = Inr (u, n)"
    and rest: "recover_projects now limit actions ps u = Inr s'"
    by (auto simp: ebind_eq_Inr_iff)
  have "evolves T s u" using Cons.prems(1) u by (rule recover_expired_locked_evolves)
  moreover have "store_ok u" using calculation Cons.prems(1) evolves_ok by blast
  ultimately show ?case using Cons.IH rest evolves_trans by blast
qed simp

lemma reclaim_evolves:
  assumes "reclaim_abandoned job_id token owner secs phase fresh now s = Inr (s', row)"
  shows "evolves {fresh} s s'"
proof -
  obtain p etype payload where c: "commit_event (py_strip job_id) etype payload now (update_rows p
      (reclaimed_row (py_strip owner) fresh secs now) s) = Inr (s', row)"
    and p: "p = (\<lambda>j. jb_job_id j = py_strip job_id \<and> jb_state j = Job_RUNNING \<and> jb_lease_token j = Some (py_strip token))"
    using assms by (auto simp: reclaim_abandoned_def succeeds_iff)
  show ?thesis using c by (rule update_commit_evolves) (simp add: p move_reclaimed)
qed

section \<open>Claiming\<close>

lemma claim_selected:
  assumes "claim_candidate r fair owner token secs now s = Inr (s', Some row)"
  obtains selected p where "selected \<in> set (st_jobs s)" and "candidate s r now selected"
    and "\<And>j. j \<in> set (st_jobs s) \<Longrightarrow> candidate s r now j \<Longrightarrow> claim_key s fair selected \<le> claim_key s fair j"
    and "p = (\<lambda>j. jb_job_id j = jb_job_id selected \<and> jb_state j = jb_state selected)"
    and "row_locked (jb_job_id selected) (update_rows p (claimed_row owner token secs now) s) = Inr row"
    and "s' = append_event row ''claimed'' [(''attempt'', Ev_json (PInt (jb_attempts row)))] now
      (if fair then note_fairness (jb_project_id row) (update_rows p (claimed_row owner token secs now) s)
       else update_rows p (claimed_row owner token secs now) s)"
proof -
  let ?sorted = "sort_key (claim_key s fair) (filter (candidate s r now) (st_jobs s))"
  obtain selected rest where sel: "?sorted = selected # rest"
    using assms by (cases ?sorted) (simp_all add: claim_candidate_def)
  have set: "set ?sorted = {j \<in> set (st_jobs s). candidate s r now j}" by simp
  have "sorted (map (claim_key s fair) ?sorted)" by (rule sorted_sort_key)
  then have "claim_key s fair selected \<le> claim_key s fair j"
    if "j \<in> set (st_jobs s)" "candidate s r now j" for j
  proof -
    have "j \<in> set (selected # rest)" using that unfolding sel[symmetric] set by simp
    then show ?thesis using \<open>sorted (map (claim_key s fair) ?sorted)\<close> unfolding sel by auto
  qed
  moreover have "selected \<in> {j \<in> set (st_jobs s). candidate s r now j}"
    unfolding set[symmetric] sel by simp
  ultimately show thesis
    using that[OF _ _ _ refl] assms sel by (auto simp: claim_candidate_def ebind_eq_Inr_iff Let_def)
qed

lemma claim_row:
  assumes ok: "store_ok s" and sel: "selected \<in> set (st_jobs s)"
    and p: "p = (\<lambda>j. jb_job_id j = jb_job_id selected \<and> jb_state j = jb_state selected)"
    and move: "job_move T selected (f selected)"
  shows "written False T s (update_rows p f s) \<and> (\<forall>row. row_locked (jb_job_id selected) (update_rows p f s) = Inr row
    \<longrightarrow> row = f selected)"
proof -
  have same: "j = selected" if "j \<in> set (st_jobs s)" "p j" for j
    using that row_unique[OF ok that(1) sel] by (simp add: p)
  then have w: "written False T s (update_rows p f s)" using move by (intro write_rows) metis
  have "f selected \<in> set (st_jobs (update_rows p f s))" using sel by (force simp: update_rows_def p)
  moreover have "jb_job_id (f selected) = jb_job_id selected"
    using job_move_identity[OF move] by (simp add: identity_of_def)
  ultimately show ?thesis using w writes_ok[OF w ok] row_locked_iff row_unique by metis
qed

lemma candidate_due: "candidate s r now j \<Longrightarrow> jb_state j \<in> {Job_QUEUED, Job_RETRY_WAIT} \<and> jb_attempts j < jb_max_attempts j"
  by (auto simp: candidate_def due_def)

lemma claim_candidate_evolves:
  assumes ok: "store_ok s" and claim: "claim_candidate r fair owner token secs now s = Inr (s', res)"
  shows "evolves {token} s s'"
proof (cases res)
  case None
  then have "s' = s" using claim by (auto simp: claim_candidate_def ebind_eq_Inr_iff Let_def split: list.splits)
  then show ?thesis by simp
next
  case (Some row)
  with claim obtain selected p where sel: "selected \<in> set (st_jobs s)" "candidate s r now selected"
    and p: "p = (\<lambda>j. jb_job_id j = jb_job_id selected \<and> jb_state j = jb_state selected)"
    and row: "row_locked (jb_job_id selected) (update_rows p (claimed_row owner token secs now) s) = Inr row"
    and s': "s' = append_event row ''claimed'' [(''attempt'', Ev_json (PInt (jb_attempts row)))] now
      (if fair then note_fairness (jb_project_id row) (update_rows p (claimed_row owner token secs now) s)
       else update_rows p (claimed_row owner token secs now) s)"
    by (auto elim: claim_selected)
  let ?s = "update_rows p (claimed_row owner token secs now) s"
  let ?t = "if fair then note_fairness (jb_project_id row) ?s else ?s"
  have "job_move {token} selected (claimed_row owner token secs now selected)"
    using candidate_due[OF sel(2)] by (intro move_claimed) auto
  then have "evolves {token} s ?s" using claim_row[OF ok sel(1) p] evolves_write by blast
  also have "evolves {token} ?s ?t" by (auto intro: evolves_write write_fairness)
  also have "row \<in> set (st_jobs ?t)"
    using row_lockedD[OF row] by (simp add: note_fairness_def next_counter_def Let_def)
  then have "evolves {token} ?t s'" unfolding s' by (intro evolves_write write_event)
  finally show ?thesis .
qed

lemma claim_next_evolves:
  assumes ok: "store_ok s" and claim: "claim_next owner secs req fair token now limit s = Inr (s', res)"
  shows "evolves {token} s s'"
proof -
  obtain r u ps acts fair' n where u: "recover_projects now n acts ps s = Inr u"
    and c: "claim_candidate r fair' (py_strip owner) token secs now u = Inr (s', res)"
    using claim by (auto simp: claim_next_def succeeds_iff)
  have "evolves {token} s u" using ok u by (rule recover_projects_evolves)
  moreover have "store_ok u" using calculation ok evolves_ok by blast
  ultimately show ?thesis using claim_candidate_evolves c evolves_trans by blast
qed

section \<open>Fencing, rearming and quarantine\<close>

text \<open>An operation that found a row in one state and updates it by its id.\<close>

lemma found_move:
  assumes ok: "store_ok s" and found: "row_locked jid s = Inr existing"
    and move: "job_move T existing (f existing)"
    and p: "\<And>j. p j \<Longrightarrow> jb_job_id j = jid"
    and c: "commit_event jid etype payload now (update_rows p f s) = Inr (s', row)"
  shows "evolves T s s'"
  using c
proof (rule update_commit_evolves)
  fix j
  assume "j \<in> set (st_jobs s)" and "p j"
  then have "j = existing" using row_lockedD[OF found] p row_unique[OF ok] by metis
  then show "job_move T j (f j)" using move by simp
qed

lemma state_cases: "jb_state j \<notin> set TERMINAL_JOB_STATES \<longleftrightarrow> jb_state j \<in> set ACTIVE_JOB_STATES"
  by (cases "jb_state j") (simp_all add: job_states)

lemma fence_evolves:
  assumes ok: "store_ok s" and call: "fence_generation jid gen f etype payload now s = Inr (s', row)"
    and move: "\<And>j. jb_state j \<in> set ACTIVE_JOB_STATES \<Longrightarrow> job_move T j (f j)"
  shows "evolves T s s'"
proof -
  obtain existing where found: "row_locked jid s = Inr existing"
    and rest: "s' = s \<or> jb_state existing \<in> set ACTIVE_JOB_STATES
      \<and> commit_event jid etype payload now (update_rows (\<lambda>j. jb_job_id j = jid \<and> jb_generation j = gen) f s) = Inr (s', row)"
    using call by (auto simp: fence_generation_def ebind_eq_Inr_iff state_cases split: if_splits)
  from rest show ?thesis
  proof (elim disjE conjE)
    assume "jb_state existing \<in> set ACTIVE_JOB_STATES"
      and c: "commit_event jid etype payload now (update_rows (\<lambda>j. jb_job_id j = jid \<and> jb_generation j = gen) f s) = Inr (s', row)"
    then show ?thesis by (intro found_move[OF ok found move _ c]) auto
  qed simp
qed

lemma supersede_evolves: "store_ok s \<Longrightarrow> supersede jid gen replacement reason now s = Inr (s', row) \<Longrightarrow> evolves T s s'"
  by (auto simp: supersede_def succeeds_iff intro: move_superseded elim!: fence_evolves)

lemma cancel_evolves: "store_ok s \<Longrightarrow> cancel jid gen reason now s = Inr (s', row) \<Longrightarrow> evolves T s s'"
  by (auto simp: cancel_def succeeds_iff intro: move_cancelled elim!: fence_evolves)

lemma supersede_rows_evolves:
  assumes "store_ok s" and "set rows \<subseteq> set (st_jobs s)" and "distinct (map jb_job_id rows)"
    and "\<And>j. j \<in> set rows \<Longrightarrow> jb_state j \<in> set ACTIVE_JOB_STATES"
    and "supersede_rows current message now rows s = Inr (s', n)"
  shows "evolves T s s'"
  using assms
proof (induction rows arbitrary: s n)
  case (Cons selected rows)
  let ?p = "\<lambda>j. jb_job_id j = jb_job_id selected"
  let ?s = "update_rows ?p (superseded_row current message now) s"
  show ?case
  proof (cases "quarantined selected")
    case True
    then show ?thesis using Cons by auto
  next
    case False
    then obtain u r m etype payload where c: "commit_event (jb_job_id selected) etype payload now ?s = Inr (u, r)"
      and rest: "supersede_rows current message now rows u = Inr (s', m)"
      using Cons.prems(5) by (auto simp: ebind_eq_Inr_iff write_owned_def)
    have "row_locked (jb_job_id selected) s = Inr selected"
      using Cons.prems(1,2) row_locked_iff by auto
    then have u: "evolves T s u"
      using c Cons.prems(1,4) by (intro found_move[OF _ _ move_superseded _ c]) auto
    have "set rows \<subseteq> set (st_jobs ?s)"
      using Cons.prems(2,3) by (intro rows_kept) simp_all
    moreover have "st_jobs u = st_jobs ?s" using commit_eventD[OF c] by simp
    ultimately have "evolves T u s'"
      using Cons.prems evolves_ok[OF u] rest by (intro Cons.IH) simp_all
    with u show ?thesis by (rule evolves_trans)
  qed
qed simp

lemma supersede_task_evolves:
  assumes "store_ok s"
    and "supersede_task_generation project task keep reason now limit s = Inr (s', n)"
  shows "evolves T s s'"
proof -
  obtain b where "supersede_rows (py_strip keep) (py_strip reason) now (take b (filter (\<lambda>j.
      jb_project_id j = py_strip project \<and> jb_task_id j = py_strip task \<and> jb_generation j \<noteq> py_strip keep
      \<and> jb_state j \<in> set ACTIVE_JOB_STATES) (st_jobs s))) s = Inr (s', n)"
    using assms(2) by (auto simp: supersede_task_generation_def ebind_eq_Inr_iff)
  then show ?thesis
    by (rule supersede_rows_evolves[OF assms(1) selected_rows(1,2)[OF assms(1)], rotated])
      (auto dest: in_set_takeD)
qed

lemma rearm_evolves:
  assumes ok: "store_ok s" and call: "rearm_exhausted_job jid gen phase reason now s = Inr (s', row)"
  shows "evolves T s s'"
proof -
  let ?p = "\<lambda>j. jb_job_id j = py_strip jid \<and> jb_generation j = py_strip gen"
  let ?s = "update_rows ?p (rearmed_row (py_strip phase) now) s"
  let ?t = "?s\<lparr>st_retired := filter (\<lambda>r. rt_job_id r \<noteq> py_strip jid) (st_retired ?s)\<rparr>"
  obtain existing where found: "row_locked (py_strip jid) s = Inr existing"
    and rest: "s' = s \<or> jb_state existing \<in> {Job_COMPLETED, Job_EXHAUSTED}
      \<and> commit_event (py_strip jid) ''rearmed'' [(''reason'', text_value (py_strip reason))] now ?t = Inr (s', row)"
    using call by (auto simp: rearm_exhausted_job_def ebind_eq_Inr_iff Let_def split: if_splits)
  have "evolves T s s'" if "jb_state existing \<in> {Job_COMPLETED, Job_EXHAUSTED}"
    and c: "commit_event (py_strip jid) ''rearmed'' [(''reason'', text_value (py_strip reason))] now ?t = Inr (s', row)"
  proof -
    have "j = existing" if "j \<in> set (st_jobs s)" "?p j" for j
      using that row_lockedD[OF found] row_unique[OF ok that(1)] by metis
    then have "written False T s ?s" using that(1) move_rearmed by (intro write_rows) blast
    then have "evolves T s ?s" by (rule evolves_write)
    also have "evolves T ?s ?t" by (intro evolves_write write_retired)
    also have "evolves T ?t s'" using c by (rule commit_evolves)
    finally show ?thesis .
  qed
  then show ?thesis using rest by auto
qed

lemma quarantine_evolves:
  assumes "quarantine_owned category err jid token now s = Inr (s', row)"
  shows "evolves T s s'"
proof -
  obtain failure etype payload where c: "commit_event jid etype payload now
      (update_rows (leased_row jid token) (quarantined_row failure (py_strip err) now) s) = Inr (s', row)"
    using assms by (auto simp: quarantine_owned_def succeeds_iff)
  show ?thesis using c by (rule update_commit_evolves) (simp add: leased_row_def move_quarantined)
qed

lemma quarantine_rowD: "quarantine_row jid token s = Inr j \<Longrightarrow> row_locked jid s = Inr j \<and> jb_state j = Job_RUNNING"
  by (auto simp: quarantine_row_def quarantined_def succeeds_iff split: if_splits)

lemma move_settled_row: "jb_state j = Job_RUNNING \<Longrightarrow> (\<not> exhausted \<Longrightarrow> jb_attempts j < jb_max_attempts j)
    \<Longrightarrow> job_move T j (settled_row effect succeeded cat err exhausted delay cp now j)"
  by (auto simp: settled_row_def intro: move_returned move_settled split: option.splits)

lemma settle_evolves:
  assumes ok: "store_ok s"
    and call: "settle_quarantined_call operation receipt category err retryable delay jid token now s = Inr (s', row)"
  shows "evolves T s s'"
proof -
  let ?p = "\<lambda>j. jb_job_id j = py_strip jid \<and> quarantined j \<and> jb_lease_token j = Some (py_strip token)"
  obtain selected effect succeeded failure msg cp etype payload
    where sel: "quarantine_row (py_strip jid) (py_strip token) s = Inr selected"
    and c: "commit_event (py_strip jid) etype payload now (update_rows ?p (settled_row effect succeeded failure msg
        (\<not> retryable \<or> jb_attempts selected \<ge> jb_max_attempts selected) delay cp now) s) = Inr (s', row)"
    using call by (auto simp: settle_quarantined_call_def succeeds_iff Let_def)
  show ?thesis using quarantine_rowD[OF sel]
    by (intro found_move[OF ok _ move_settled_row _ c]) auto
qed

lemma mark_evolves:
  assumes ok: "store_ok s" and call: "mark_quarantine_recycle_requested stamp jid token now s = Inr (s', row)"
  shows "evolves T s s'"
proof -
  let ?p = "\<lambda>j. jb_job_id j = py_strip jid \<and> quarantined j \<and> jb_lease_token j = Some (py_strip token)"
  obtain selected cp etype payload where sel: "quarantine_row (py_strip jid) (py_strip token) s = Inr selected"
    and c: "s' = s \<or> commit_event (py_strip jid) etype payload now (update_rows ?p (marked_row cp now) s) = Inr (s', row)"
    using call by (auto simp: mark_quarantine_recycle_requested_def ebind_eq_Inr_iff Let_def split: if_splits)
  from c show ?thesis
  proof
    assume c: "commit_event (py_strip jid) etype payload now (update_rows ?p (marked_row cp now) s) = Inr (s', row)"
    show ?thesis using quarantine_rowD[OF sel] by (intro found_move[OF ok _ move_marked _ c]) auto
  qed simp
qed

end
