(* ===== verification/SnapshotFences.thy ===== *)
theory SnapshotFences
  imports JobReleases
begin

text \<open>
  The fences of a workflow scan in oompah/workflow_jobs.py: the generations that a scan is allocated, accepted
  and published under, the rotating window over its decisions, and the ordering of semantic events.

  The counters are the rows of \<open>schema_meta\<close>.  A call takes effect in one transaction, so an exception
  leaves the store alone; the exception of \<open>publish_snapshot_generation\<close> is the one that does not, and it
  returns the store beside its outcome.
\<close>

section \<open>Generations\<close>

abbreviation ALLOCATED :: string where
  "ALLOCATED \<equiv> ''workflow_snapshot_generation''"

abbreviation ACCEPTED :: string where
  "ACCEPTED \<equiv> ''workflow_snapshot_accepted_generation''"

abbreviation PUBLISHED :: string where
  "PUBLISHED \<equiv> ''workflow_snapshot_published_generation''"

abbreviation EVENT_GENERATION :: string where
  "EVENT_GENERATION \<equiv> ''workflow_event_generation''"

abbreviation EVENT_SEQUENCE :: string where
  "EVENT_SEQUENCE \<equiv> ''workflow_event_sequence''"

abbreviation WINDOW_OFFSET :: string where
  "WINDOW_OFFSET \<equiv> ''workflow_decision_window_offset''"

text \<open>The value of a counter, 0 when it has no row, and a write to it.\<close>

definition counter :: "string \<Rightarrow> store \<Rightarrow> int" where
  "counter key s = (case st_counters s key of None \<Rightarrow> 0 | Some n \<Rightarrow> n)"

definition set_counter :: "string \<Rightarrow> int \<Rightarrow> store \<Rightarrow> store" where
  "set_counter key n s = s\<lparr>st_counters := (st_counters s)(key := Some n)\<rparr>"

text \<open>\<open>COALESCE(MAX(\<dots>), 0)\<close>.\<close>

definition max_or_zero :: "int list \<Rightarrow> int" where
  "max_or_zero ns = (if ns = [] then 0 else Max (set ns))"

definition next_ordering_generation :: "string \<Rightarrow> store \<Rightarrow> store \<times> int" where
  "next_ordering_generation key s =
     (let counters = List.map_filter (st_counters s) [ALLOCATED, EVENT_GENERATION];
          n = max (max_or_zero counters) (max_or_zero (map (\<lambda>(_, o'). eo_generation o') (st_orderings s))) + 1
      in (set_counter key n s, n))"

definition allocate_snapshot_generation :: "store \<Rightarrow> store \<times> int" where
  "allocate_snapshot_generation s = next_ordering_generation ALLOCATED s"

definition allocate_event_generation :: "store \<Rightarrow> store \<times> int" where
  "allocate_event_generation s = next_ordering_generation EVENT_GENERATION s"

definition accept_snapshot_generation :: "int \<Rightarrow> store \<Rightarrow> (store \<times> bool) stored" where
  "accept_snapshot_generation g s =
     (if g < 1 then Inl (PyExn ValueError)
      else if g \<noteq> counter ALLOCATED s \<or> g \<le> counter ACCEPTED s then Inr (s, False)
      else Inr (set_counter ACCEPTED g s, True))"

text \<open>\<open>_snapshot_generation_is_current_locked\<close> and the two public probes.\<close>

definition generation_current :: "int \<Rightarrow> store \<Rightarrow> bool" where
  "generation_current g s \<longleftrightarrow> st_counters s ALLOCATED = Some g \<and> st_counters s ACCEPTED = Some g"

definition snapshot_generation_is_current :: "int \<Rightarrow> store \<Rightarrow> bool stored" where
  "snapshot_generation_is_current g s =
     (if g < 1 then Inl (PyExn ValueError) else Inr (counter ALLOCATED s = g \<and> counter ACCEPTED s = g))"

definition published_generation_is_current :: "int \<Rightarrow> store \<Rightarrow> bool stored" where
  "published_generation_is_current g s =
     (if g < 1 then Inl (PyExn ValueError) else Inr (counter ACCEPTED s = g \<and> counter PUBLISHED s = g))"

section \<open>Publication\<close>

text \<open>
  What the publisher callback did to the state outside the store: it returned, or it raised, and then perhaps
  with the report that its own rollback failed too.  \<open>repair\<close> is the durable rollback the caller supplies.
\<close>

datatype publisher_call = Publisher_returned | Publisher_raised bool

datatype publish_outcome = Published | Not_current | Publisher_error | Rollback_error | Publish_invalid

definition mark_published :: "int \<Rightarrow> store \<Rightarrow> store" where
  "mark_published g s = (let s' = set_counter PUBLISHED g s in
     if g \<in> set (st_publications s') then s' else s'\<lparr>st_publications := st_publications s' @ [g]\<rparr>)"

definition withdraw_accepted :: "int \<Rightarrow> store \<Rightarrow> store" where
  "withdraw_accepted g s = (if generation_current g s then set_counter ACCEPTED (counter PUBLISHED s) s else s)"

definition publish_snapshot_generation ::
  "int \<Rightarrow> publisher_call \<Rightarrow> (store \<Rightarrow> store stored) option \<Rightarrow> store \<Rightarrow> store \<times> publish_outcome" where
  "publish_snapshot_generation g call repair s =
     (if g < 1 then (s, Publish_invalid)
      else if \<not> generation_current g s \<or> g \<le> counter PUBLISHED s then (s, Not_current)
      else (case call of
        Publisher_returned \<Rightarrow> (mark_published g s, Published)
      | Publisher_raised rollback_failed \<Rightarrow>
          (case (case repair of None \<Rightarrow> Inr s | Some f \<Rightarrow> f s) of
             Inl _ \<Rightarrow> (withdraw_accepted g s, Rollback_error)
           | Inr s' \<Rightarrow> if rollback_failed then (withdraw_accepted g s', Rollback_error)
               else (s', Publisher_error))))"

section \<open>The window over a bounded scan\<close>

definition allocate_decision_window ::
  "int \<Rightarrow> int \<Rightarrow> int option \<Rightarrow> string option \<Rightarrow> store \<Rightarrow> (store \<times> int option) stored" where
  "allocate_decision_window entries limit snapshot scope s =
     (if entries < 1 then Inl (PyExn ValueError) else
      ebind (bounded_limit limit) (\<lambda>bounded.
      if (case snapshot of None \<Rightarrow> False | Some g \<Rightarrow> g < 1) then Inl (PyExn ValueError) else
      ebind (required_opt scope) (\<lambda>suffix.
      let key = (case suffix of None \<Rightarrow> WINDOW_OFFSET | Some t \<Rightarrow> WINDOW_OFFSET @ '':'' @ t) in
      if (case snapshot of None \<Rightarrow> False | Some g \<Rightarrow> \<not> generation_current g s) then Inr (s, None)
      else (let offset = counter key s mod entries in
        Inr (set_counter key ((offset + min (int bounded) entries) mod entries) s, Some offset)))))"

section \<open>The order of events\<close>

text \<open>\<open>activate_event_order\<close>: a slower event of a lane is refused, a repeated one accepted without a write.\<close>

definition order_event :: "lane_key \<Rightarrow> int \<Rightarrow> string \<Rightarrow> store \<Rightarrow> store" where
  "order_event key g revision s =
     s\<lparr>st_orderings := AList.update key \<lparr>eo_generation = g, eo_revision = revision\<rparr> (st_orderings s)\<rparr>"

definition activate_event_order ::
  "string \<Rightarrow> string \<Rightarrow> string \<Rightarrow> int \<Rightarrow> string \<Rightarrow> store \<Rightarrow> (store \<times> bool) stored" where
  "activate_event_order project_id task_id ordering_namespace source_generation decision_revision s =
     ebind (required_str project_id) (\<lambda>project.
     ebind (required_str task_id) (\<lambda>task.
     ebind (required_str ordering_namespace) (\<lambda>namespace.
     ebind (required_str decision_revision) (\<lambda>revision.
     if source_generation < 1 then Inl (PyExn ValueError) else
     let key = (project, task, namespace);
         accepted = Inr (order_event key source_generation revision s, True) in
     case map_of (st_orderings s) key of
       None \<Rightarrow> accepted
     | Some o' \<Rightarrow>
         if source_generation < eo_generation o' then Inr (s, False)
         else if source_generation = eo_generation o' then
           (if eo_revision o' \<noteq> revision then Inl StoreError else Inr (s, True))
         else accepted))))"

end
