(* ===== verification/ReassessDeadline.thy ===== *)
theory ReassessDeadline
  imports JobStore
begin

text \<open>
  The generation text of a scheduled job in oompah/workflow_jobs.py: the decision's revision, the snapshot it
  was activated in and, for a recurring decision, its reassessment deadline in seconds, which later scans read
  back from the text.

  A float is a real: \<open>f"{x:.6f}"\<close> rounds it to six decimals, half to even, and \<open>float(text)\<close> reads Python's
  grammar of decimal literals; a literal outside the range of a double is infinite.
\<close>

section \<open>Formatting\<close>

definition round_half_even :: "real \<Rightarrow> int" where
  "round_half_even x = (let n = \<lfloor>x\<rfloor>; d = x - of_int n in
     if d < 1 / 2 then n else if 1 / 2 < d then n + 1 else if even n then n else n + 1)"

definition fixed6 :: "real \<Rightarrow> string" where
  "fixed6 x = (let n = round_half_even (\<bar>x\<bar> * 1000000) in
     (if x < 0 then ''-'' else []) @ int_str (n div 1000000) @ ''.'' @ pad_int 6 (n mod 1000000))"

section \<open>Parsing\<close>

text \<open>Digits, with single underscores between them; \<open>b\<close> tells that a digit was just read.\<close>

fun digit_run :: "bool \<Rightarrow> string \<Rightarrow> string \<times> string" where
  "digit_run b [] = ([], [])"
| "digit_run b (c # cs) =
     (if is_digit c then (case digit_run True cs of (ds, r) \<Rightarrow> (c # ds, r))
      else if b \<and> c = CHR ''_'' \<and> (case cs of [] \<Rightarrow> False | d # _ \<Rightarrow> is_digit d) then digit_run False cs
      else ([], c # cs))"

definition take_sign :: "string \<Rightarrow> bool \<times> string" where
  "take_sign s = (case s of [] \<Rightarrow> (False, [])
     | c # cs \<Rightarrow> if c = CHR ''-'' then (True, cs) else if c = CHR ''+'' then (False, cs) else (False, s))"

definition parse_exponent :: "string \<Rightarrow> int option" where
  "parse_exponent s = (case s of [] \<Rightarrow> Some 0
     | c # cs \<Rightarrow> if c \<noteq> CHR ''e'' \<and> c \<noteq> CHR ''E'' then None
         else (case take_sign cs of (neg, r) \<Rightarrow>
           (case digit_run False r of (ds, rest) \<Rightarrow>
              if ds = [] \<or> rest \<noteq> [] then None else Some (if neg then - digits_val ds else digits_val ds))))"

definition pow10 :: "int \<Rightarrow> real" where
  "pow10 e = (if 0 \<le> e then 10 ^ nat e else 1 / 10 ^ nat (- e))"

text \<open>\<open>None\<close>: not a literal; \<open>Some None\<close>: infinite or not a number.\<close>

definition parse_float :: "string \<Rightarrow> real option option" where
  "parse_float s = (case take_sign (py_strip s) of (neg, u) \<Rightarrow>
     if py_lower u \<in> {''inf'', ''infinity'', ''nan''} then Some None else
     (case digit_run False u of (whole, r1) \<Rightarrow>
     (case (case r1 of [] \<Rightarrow> ([], []) | c # cs \<Rightarrow> if c = CHR ''.'' then digit_run False cs else ([], r1)) of
        (decimals, r2) \<Rightarrow>
       if whole = [] \<and> decimals = [] then None else
       (case parse_exponent r2 of None \<Rightarrow> None
        | Some e \<Rightarrow>
            let x = of_int (digits_val (whole @ decimals)) * pow10 (e - int (length decimals)) in
            if 2 ^ 1024 - 2 ^ 970 \<le> x then Some None else Some (Some (if neg then - x else x))))))"

section \<open>Generations\<close>

definition REASSESSMENT_GENERATION_MARKER :: string where
  "REASSESSMENT_GENERATION_MARKER = '':reassess=''"

text \<open>\<open>raw.rsplit(marker, 1)[1]\<close>, when the marker occurs.\<close>

fun after_last :: "string \<Rightarrow> string \<Rightarrow> string option" where
  "after_last m [] = (if m = [] then Some [] else None)"
| "after_last m (c # cs) = (case after_last m cs of Some t \<Rightarrow> Some t
     | None \<Rightarrow> if starts_with (c # cs) m then Some (drop (length m) (c # cs)) else None)"

definition schedule_reassessment_deadline :: "string \<Rightarrow> real option" where
  "schedule_reassessment_deadline raw = (case after_last REASSESSMENT_GENERATION_MARKER raw of
       None \<Rightarrow> None
     | Some t \<Rightarrow> (case parse_float t of Some (Some x) \<Rightarrow> Some x | _ \<Rightarrow> None))"

text \<open>The generation that \<open>activate_schedule\<close> makes of a revision, a snapshot and a deadline.\<close>

definition scheduled_generation :: "string \<Rightarrow> int \<Rightarrow> real option \<Rightarrow> string" where
  "scheduled_generation revision snapshot deadline = revision @ '':'' @ int_str snapshot
     @ (case deadline of None \<Rightarrow> [] | Some d \<Rightarrow> REASSESSMENT_GENERATION_MARKER @ fixed6 d)"

section \<open>Live authority\<close>

definition proves_live_authority :: "real \<Rightarrow> real option \<Rightarrow> job \<Rightarrow> bool" where
  "proves_live_authority now completed_until j = (case jb_state j of
       Job_QUEUED \<Rightarrow> True
     | Job_RETRY_WAIT \<Rightarrow> True
     | Job_RUNNING \<Rightarrow> (case jb_lease_owner j of None \<Rightarrow> False | Some o' \<Rightarrow> py_strip o' \<noteq> [])
         \<and> (case jb_lease_expires_at j of None \<Rightarrow> False | Some t \<Rightarrow> now < t)
     | Job_COMPLETED \<Rightarrow> (case completed_until of None \<Rightarrow> False | Some t \<Rightarrow> now < t)
     | _ \<Rightarrow> False)"

end
