(* ===== verification/TaskSchedules.thy ===== *)
theory TaskSchedules
  imports SnapshotFences ReassessDeadline
begin

text \<open>
  The schedule of a task in oompah/workflow_jobs.py: the cursor that holds the latest decision of a scan, the
  membership of the snapshot, the jobs that a cursor materialises, and the retirement records that keep an
  exhausted job from counting once newer authority replaced it.
\<close>

section \<open>Retirement\<close>

abbreviation LIFECYCLE_FINAL :: string where
  "LIFECYCLE_FINAL \<equiv> ''lifecycle_final''"

definition AUTHORITY_RETIREMENT_KINDS :: "string list" where
  "AUTHORITY_RETIREMENT_KINDS =
     [''managed_decision'', ''managed_zero_job'', ''terminal_audit_handoff'', LIFECYCLE_FINAL]"

definition LIFECYCLE_FINAL_AUTHORITY_REVISIONS :: "string list" where
  "LIFECYCLE_FINAL_AUTHORITY_REVISIONS = [''lifecycle-final:Merged'', ''lifecycle-final:Archived'']"

definition terminal_audit_lane :: "string \<Rightarrow> bool" where
  "terminal_audit_lane lane = starts_with (py_lower lane) ''terminal-audit:''"

definition of_task :: "string \<Rightarrow> string \<Rightarrow> job \<Rightarrow> bool" where
  "of_task project task j \<longleftrightarrow> jb_project_id j = project \<and> jb_task_id j = task"

text \<open>\<open>SELECT \<dots> ORDER BY enqueue_sequence DESC LIMIT 1\<close>.\<close>

definition newest_job :: "(job \<Rightarrow> bool) \<Rightarrow> store \<Rightarrow> job option" where
  "newest_job p s = (case filter p (st_jobs s) of [] \<Rightarrow> None | rows \<Rightarrow> Some (last rows))"

text \<open>The authority cut that a retirement names, of the kind and revision it names.\<close>

definition cut_matches :: "store \<Rightarrow> retirement \<Rightarrow> int \<Rightarrow> (string option \<Rightarrow> bool) \<Rightarrow> bool" where
  "cut_matches s r n p = (case map_of (st_cuts s) (n, rt_project_id r, rt_task_id r) of None \<Rightarrow> False
     | Some c \<Rightarrow> ac_kind c = rt_kind r \<and> ac_revision c = rt_revision r \<and> p (ac_job_generation c))"

text \<open>\<open>_DURABLE_RETIREMENT_PROOF_PREDICATE\<close>.\<close>

definition durable_proof :: "store \<Rightarrow> retirement \<Rightarrow> job \<Rightarrow> bool" where
  "durable_proof s r j = (
     if rt_kind r = ''event_handoff'' then rt_snapshot r = None \<and> \<not> jb_workflow_managed j
       \<and> list_ex (\<lambda>h. of_task (rt_project_id r) (rt_task_id r) h
           \<and> (case map_of (st_event_cursors s) (rt_project_id r, rt_task_id r, jb_scheduling_lane h) of
                None \<Rightarrow> False
              | Some c \<Rightarrow> ec_generation c = jb_generation h \<and> ec_generation c = rt_revision r)
           \<and> \<not> jb_workflow_managed h \<and> jb_state h \<notin> {Job_SUPERSEDED, Job_CANCELLED}) (st_jobs s)
     else if rt_kind r = ''terminal_audit_handoff'' then rt_snapshot r = None
       \<and> list_ex (\<lambda>h. of_task (rt_project_id r) (rt_task_id r) h \<and> \<not> jb_workflow_managed h
           \<and> jb_action h = ''terminal_audit'' \<and> terminal_audit_lane (jb_scheduling_lane h)
           \<and> jb_generation h = rt_revision r) (st_jobs s)
     else (case rt_snapshot r of None \<Rightarrow> False
       | Some n \<Rightarrow> n \<in> set (st_publications s)
           \<and> (if rt_kind r \<in> {''managed_decision'', ''managed_zero_job''} then jb_workflow_managed j
                \<and> cut_matches s r n (\<lambda>g. g \<noteq> None \<and> g \<noteq> Some (jb_generation j))
              else rt_kind r = LIFECYCLE_FINAL \<and> rt_revision r \<in> set LIFECYCLE_FINAL_AUTHORITY_REVISIONS
                \<and> cut_matches s r n (\<lambda>g. g = None))))"

definition durably_retired :: "store \<Rightarrow> job \<Rightarrow> bool" where
  "durably_retired s j = list_ex (\<lambda>r. rt_job_id r = jb_job_id j \<and> rt_project_id r = jb_project_id j
     \<and> rt_task_id r = jb_task_id j \<and> durable_proof s r j) (st_retired s)"

definition record_retirement :: "retirement \<Rightarrow> store \<Rightarrow> store" where
  "record_retirement r s =
     s\<lparr>st_retired := filter (\<lambda>x. rt_job_id x \<noteq> rt_job_id r) (st_retired s) @ [r]\<rparr>"

definition retire_job :: "string \<Rightarrow> string \<Rightarrow> int option \<Rightarrow> job \<Rightarrow> store \<Rightarrow> store" where
  "retire_job kind revision snapshot j = record_retirement \<lparr>rt_job_id = jb_job_id j,
     rt_project_id = jb_project_id j, rt_task_id = jb_task_id j, rt_kind = kind, rt_revision = revision,
     rt_snapshot = snapshot\<rparr>"

text \<open>What \<open>_record_job_retirements_locked\<close> demands of the store before it writes: the generation of the cut.\<close>

definition retirement_cut ::
  "string \<Rightarrow> string \<Rightarrow> string \<Rightarrow> string \<Rightarrow> int option \<Rightarrow> bool option \<Rightarrow> store \<Rightarrow> string option stored" where
  "retirement_cut project task kind revision snapshot managed s = (
     if kind = ''terminal_audit_handoff'' then
       if snapshot \<noteq> None \<or> managed \<noteq> Some True then Inl (PyExn ValueError)
       else if list_ex (\<lambda>h. of_task project task h \<and> \<not> jb_workflow_managed h
           \<and> jb_action h = ''terminal_audit'' \<and> terminal_audit_lane (jb_scheduling_lane h)
           \<and> jb_generation h = revision) (st_jobs s) then Inr None else Inl StoreError
     else (case snapshot of None \<Rightarrow> Inl (PyExn ValueError)
     | Some n \<Rightarrow>
         if n < 1 then Inl (PyExn ValueError)
         else if kind \<in> {''managed_decision'', ''managed_zero_job''} then
           if managed \<noteq> Some True then Inl (PyExn ValueError) else
           (case map_of (st_cursors s) (project, task) of None \<Rightarrow> Inl StoreError
            | Some c \<Rightarrow>
                if cu_snapshot_generation c \<noteq> n \<or> cu_decision_revision c \<noteq> revision
                   \<or> (case cu_materialized_job_generation c of None \<Rightarrow> [] | Some g \<Rightarrow> g) \<noteq> cu_job_generation c
                then Inl StoreError
                else if (kind = ''managed_decision'') \<noteq> list_ex (\<lambda>j. of_task project task j
                   \<and> jb_workflow_managed j \<and> jb_generation j = cu_job_generation c) (st_jobs s)
                then Inl StoreError
                else Inr (Some (cu_job_generation c)))
         else if revision \<notin> set LIFECYCLE_FINAL_AUTHORITY_REVISIONS then Inl (PyExn ValueError)
         else if map_of (st_membership s) (project, task) \<noteq> None then Inl StoreError
         else Inr None))"

definition write_cut :: "string \<Rightarrow> string \<Rightarrow> string \<Rightarrow> string \<Rightarrow> string option \<Rightarrow> int \<Rightarrow> store \<Rightarrow> store stored" where
  "write_cut project task kind revision replaced_by n s =
     (let key = (n, project, task);
          written = \<lparr>ac_kind = kind, ac_revision = revision, ac_job_generation = replaced_by\<rparr>;
          s' = (if map_of (st_cuts s) key = None then s\<lparr>st_cuts := AList.update key written (st_cuts s)\<rparr> else s)
      in (case map_of (st_cuts s') key of None \<Rightarrow> Inl StoreError
          | Some c \<Rightarrow> if c\<lparr>ac_job_generation := (case ac_job_generation c of None \<Rightarrow> None
                | Some g \<Rightarrow> if py_strip g = [] then None else Some (py_strip g))\<rparr> = written
              then Inr s' else Inl StoreError))"

definition record_job_retirements ::
  "string \<Rightarrow> string \<Rightarrow> string \<Rightarrow> string \<Rightarrow> int option \<Rightarrow> bool option \<Rightarrow> string list \<Rightarrow> store \<Rightarrow> (store \<times> nat) stored"
  where
  "record_job_retirements project_id task_id kind decision_revision snapshot managed excluded s =
     ebind (required_str project_id) (\<lambda>project.
     ebind (required_str task_id) (\<lambda>task.
     ebind (required_str decision_revision) (\<lambda>revision.
     if kind \<notin> set AUTHORITY_RETIREMENT_KINDS then Inl (PyExn ValueError) else
     ebind (retirement_cut project task kind revision snapshot managed s) (\<lambda>replaced_by.
     ebind (eseq required_str excluded) (\<lambda>kept.
     let rows = filter (\<lambda>j. of_task project task j
           \<and> (case managed of None \<Rightarrow> True | Some m \<Rightarrow> jb_workflow_managed j = m)
           \<and> jb_job_id j \<notin> set kept \<and> \<not> durably_retired s j) (st_jobs s)
     in if rows = [] then Inr (s, 0) else
        ebind (case snapshot of None \<Rightarrow> Inr s | Some n \<Rightarrow> write_cut project task kind revision replaced_by n s) (\<lambda>s'.
        Inr (fold (retire_job kind revision snapshot) rows s', length rows)))))))"

definition record_lifecycle_final_authority ::
  "string \<Rightarrow> string \<Rightarrow> string \<Rightarrow> int \<Rightarrow> store \<Rightarrow> (store \<times> nat) stored" where
  "record_lifecycle_final_authority project_id task_id status snapshot s =
     ebind (required_str project_id) (\<lambda>project.
     ebind (required_str task_id) (\<lambda>task.
     ebind (required_str status) (\<lambda>final_status.
     let final_revision = ''lifecycle-final:'' @ final_status in
     if final_revision \<notin> set LIFECYCLE_FINAL_AUTHORITY_REVISIONS \<or> snapshot < 1 then Inl (PyExn ValueError)
     else if \<not> generation_current snapshot s then Inr (s, 0)
     else record_job_retirements project task LIFECYCLE_FINAL final_revision (Some snapshot) None [] s)))"

section \<open>Snapshot membership\<close>

record membership_write =
  mw_snapshot :: int
  mw_accepted :: bool
  mw_members :: nat
  mw_cursors_retired :: nat
  mw_jobs_superseded :: nat

definition active :: "job \<Rightarrow> bool" where
  "active j \<longleftrightarrow> jb_state j \<in> set ACTIVE_JOB_STATES"

abbreviation ABSENT_MESSAGE :: string where
  "ABSENT_MESSAGE \<equiv> ''task absent from newer authoritative workflow snapshot''"

text \<open>The tasks of a project that the store still knows.\<close>

definition known_tasks :: "string \<Rightarrow> store \<Rightarrow> string list" where
  "known_tasks project s = sort (remdups (
     map (\<lambda>(k, _). snd k) (filter (\<lambda>(k, _). fst k = project) (st_cursors s))
     @ map (\<lambda>(k, _). snd k) (filter (\<lambda>(k, _). fst k = project) (st_membership s))
     @ map jb_task_id (filter (\<lambda>j. jb_project_id j = project \<and> jb_workflow_managed j \<and> active j) (st_jobs s))))"

text \<open>Retire tasks that are absent: fence their active managed jobs and drop their cursors.\<close>

fun retire_tasks :: "string \<Rightarrow> int \<Rightarrow> real \<Rightarrow> string list \<Rightarrow> store \<Rightarrow> (store \<times> nat \<times> nat) stored" where
  "retire_tasks project snapshot now [] s = Inr (s, 0, 0)"
| "retire_tasks project snapshot now (task # tasks) s =
     ebind (supersede_rows (''snapshot:'' @ int_str snapshot) ABSENT_MESSAGE now
         (filter (\<lambda>j. of_task project task j \<and> jb_workflow_managed j \<and> active j) (st_jobs s)) s) (\<lambda>(s1, n).
     let s2 = s1\<lparr>st_cursors := AList.delete (project, task) (st_cursors s1)\<rparr>;
         dropped = length (st_cursors s1) - length (st_cursors s2) in
     ebind (retire_tasks project snapshot now tasks s2) (\<lambda>(s3, cursors, jobs).
     Inr (s3, dropped + cursors, n + jobs)))"

text \<open>The new membership rows of a project.\<close>

definition member_rows ::
  "string \<Rightarrow> int \<Rightarrow> string list \<Rightarrow> task_key list \<Rightarrow> (task_key \<times> int) list \<Rightarrow> (task_key \<times> int) list" where
  "member_rows project snapshot tasks evaluated prior = map (\<lambda>task. ((project, task),
     if (project, task) \<in> set evaluated then snapshot
     else (case map_of prior (project, task) of None \<Rightarrow> snapshot | Some g \<Rightarrow> g))) tasks"

definition replace_members :: "string \<Rightarrow> int \<Rightarrow> string list \<Rightarrow> task_key list \<Rightarrow> store \<Rightarrow> store" where
  "replace_members project snapshot tasks evaluated s = s\<lparr>st_membership :=
     filter (\<lambda>(k, _). fst k \<noteq> project) (st_membership s)
     @ member_rows project snapshot tasks evaluated (st_membership s)\<rparr>"

definition expected_tasks :: "string \<Rightarrow> task_key list \<Rightarrow> string list" where
  "expected_tasks project expected = sort (remdups (map snd (filter (\<lambda>k. fst k = project) expected)))"

fun reconcile_projects ::
  "int \<Rightarrow> task_key list \<Rightarrow> task_key list \<Rightarrow> real \<Rightarrow> string list \<Rightarrow> store \<Rightarrow> (store \<times> nat \<times> nat) stored" where
  "reconcile_projects snapshot expected evaluated now [] s = Inr (s, 0, 0)"
| "reconcile_projects snapshot expected evaluated now (project # projects) s =
     (let tasks = expected_tasks project expected in
      ebind (retire_tasks project snapshot now (filter (\<lambda>t. t \<notin> set tasks) (known_tasks project s)) s)
        (\<lambda>(s1, cursors, jobs).
      ebind (reconcile_projects snapshot expected evaluated now projects
          (replace_members project snapshot tasks evaluated s1)) (\<lambda>(s2, cursors', jobs').
      Inr (s2, cursors + cursors', jobs + jobs'))))"

definition required_pair :: "task_key \<Rightarrow> task_key stored" where
  "required_pair k = ebind (required_str (fst k)) (\<lambda>project. ebind (required_str (snd k)) (\<lambda>task. Inr (project, task)))"

definition reconcile_snapshot_membership ::
  "int \<Rightarrow> string list \<Rightarrow> task_key list \<Rightarrow> task_key list option \<Rightarrow> real \<Rightarrow> store \<Rightarrow> (store \<times> membership_write) stored"
  where
  "reconcile_snapshot_membership snapshot authoritative expected_identities evaluated_identities now s =
     (if snapshot < 1 then Inl (PyExn ValueError) else
      ebind (eseq required_str authoritative) (\<lambda>ps.
      ebind (eseq required_pair expected_identities) (\<lambda>expected.
      ebind (case evaluated_identities of None \<Rightarrow> Inr expected | Some es \<Rightarrow> eseq required_pair es) (\<lambda>evaluated.
      let projects = sort (remdups ps) in
      if \<not> set evaluated \<subseteq> set expected then Inl (PyExn ValueError)
      else if \<not> list_all (\<lambda>k. fst k \<in> set projects) expected then Inl (PyExn ValueError)
      else if \<not> generation_current snapshot s then Inr (s, \<lparr>mw_snapshot = snapshot, mw_accepted = False,
        mw_members = 0, mw_cursors_retired = 0, mw_jobs_superseded = 0\<rparr>)
      else ebind (reconcile_projects snapshot expected evaluated now projects s) (\<lambda>(s', cursors, jobs).
        Inr (s', \<lparr>mw_snapshot = snapshot, mw_accepted = True, mw_members = length (remdups expected),
          mw_cursors_retired = cursors, mw_jobs_superseded = jobs\<rparr>))))))"

section \<open>The cursor of a task\<close>

record cursor_view =
  cv_project_id :: string
  cv_task_id :: string
  cv_snapshot_generation :: int
  cv_decision_revision :: string
  cv_job_generation :: string
  cv_changed :: bool
  cv_accepted :: bool
  cv_materialized :: bool

definition cursor_view_of :: "task_key \<Rightarrow> schedule_cursor \<Rightarrow> bool \<Rightarrow> bool \<Rightarrow> cursor_view" where
  "cursor_view_of key c changed accepted = \<lparr>cv_project_id = fst key, cv_task_id = snd key,
     cv_snapshot_generation = cu_snapshot_generation c, cv_decision_revision = cu_decision_revision c,
     cv_job_generation = cu_job_generation c, cv_changed = changed, cv_accepted = accepted,
     cv_materialized =
       ((case cu_materialized_job_generation c of None \<Rightarrow> [] | Some g \<Rightarrow> g) = cu_job_generation c)\<rparr>"

definition read_schedule_cursor :: "string \<Rightarrow> string \<Rightarrow> store \<Rightarrow> cursor_view option stored" where
  "read_schedule_cursor project_id task_id s =
     ebind (required_str project_id) (\<lambda>project.
     ebind (required_str task_id) (\<lambda>task.
     Inr (map_option (\<lambda>c. cursor_view_of (project, task) c False True) (map_of (st_cursors s) (project, task)))))"

section \<open>Activation\<close>

text \<open>Whether an event of a protected lane still owns the execution that a cursor asks for.\<close>

definition live_replacement :: "string \<Rightarrow> string \<Rightarrow> string option \<Rightarrow> string list \<Rightarrow> real \<Rightarrow> store \<Rightarrow> bool" where
  "live_replacement project task protected_action lanes now s = (case protected_action of None \<Rightarrow> False
     | Some action \<Rightarrow> list_ex (\<lambda>j. of_task project task j \<and> jb_action j = action \<and> \<not> jb_workflow_managed j
         \<and> jb_scheduling_lane j \<in> set lanes \<and> active j
         \<and> (proves_live_authority now None j \<or> quarantined j)) (st_jobs s))"

text \<open>An unchanged decision recurs when its job was superseded, or completed before its deadline passed.\<close>

definition recurrence_due :: "string \<Rightarrow> string \<Rightarrow> string \<Rightarrow> bool \<Rightarrow> real \<Rightarrow> store \<Rightarrow> bool" where
  "recurrence_due project task generation live now s =
     (let states = map jb_state (filter (\<lambda>j. of_task project task j \<and> jb_generation j = generation
            \<and> jb_scheduling_lane j = ''decision'' \<and> jb_workflow_managed j) (st_jobs s))
      in case schedule_reassessment_deadline generation of None \<Rightarrow> False
       | Some deadline \<Rightarrow> \<not> live \<and> (Job_SUPERSEDED \<in> set states
           \<or> set states = {Job_COMPLETED} \<and> deadline \<le> now))"

definition write_cursor :: "task_key \<Rightarrow> int \<Rightarrow> string \<Rightarrow> string \<Rightarrow> store \<Rightarrow> store" where
  "write_cursor key snapshot revision generation s = (let
       kept = (case map_of (st_cursors s) key of None \<Rightarrow> None
         | Some c \<Rightarrow> if cu_job_generation c = generation then cu_materialized_job_generation c else None)
     in s\<lparr>st_cursors := AList.update key \<lparr>cu_snapshot_generation = snapshot, cu_decision_revision = revision,
          cu_job_generation = generation, cu_materialized_job_generation = kept\<rparr> (st_cursors s)\<rparr>)"

text \<open>The cursor a call returns: the one of the store, with the two flags of the call.\<close>

definition stale_cursor :: "task_key \<Rightarrow> int \<Rightarrow> string \<Rightarrow> store \<Rightarrow> cursor_view" where
  "stale_cursor key snapshot revision s = (case map_of (st_cursors s) key of
       Some c \<Rightarrow> cursor_view_of key c False False
     | None \<Rightarrow> \<lparr>cv_project_id = fst key, cv_task_id = snd key, cv_snapshot_generation = snapshot,
         cv_decision_revision = revision, cv_job_generation = ''stale'', cv_changed = False,
         cv_accepted = False, cv_materialized = False\<rparr>)"

definition activated ::
  "task_key \<Rightarrow> int \<Rightarrow> string \<Rightarrow> string \<Rightarrow> bool \<Rightarrow> store \<Rightarrow> (store \<times> cursor_view) stored" where
  "activated key snapshot revision generation changed s =
     (let s' = write_cursor key snapshot revision generation s
      in case map_of (st_cursors s') key of None \<Rightarrow> Inl (PyExn AssertionError)
         | Some c \<Rightarrow> Inr (s', cursor_view_of key c changed True))"

definition activate_schedule ::
  "string \<Rightarrow> string \<Rightarrow> string \<Rightarrow> int \<Rightarrow> real option \<Rightarrow> string option \<Rightarrow> string list \<Rightarrow> real \<Rightarrow> store
   \<Rightarrow> (store \<times> cursor_view) stored" where
  "activate_schedule project_id task_id decision_revision snapshot deadline protected_action protected_lanes now s =
     ebind (required_str project_id) (\<lambda>project.
     ebind (required_str task_id) (\<lambda>task.
     ebind (required_str decision_revision) (\<lambda>revision.
     if snapshot < 1 then Inl (PyExn ValueError) else
     ebind (eseq required_str protected_lanes) (\<lambda>lanes.
     ebind (required_opt protected_action) (\<lambda>action.
     if (action = None) \<noteq> (lanes = []) then Inl (PyExn ValueError) else
     let key = (project, task); fresh = scheduled_generation revision snapshot deadline in
     if \<not> generation_current snapshot s then Inr (s, stale_cursor key snapshot revision s) else
     (case map_of (st_cursors s) key of
        None \<Rightarrow> activated key snapshot revision fresh True s
      | Some c \<Rightarrow>
          if snapshot < cu_snapshot_generation c then Inr (s, cursor_view_of key c False False)
          else if snapshot = cu_snapshot_generation c then
            (if cu_decision_revision c \<noteq> revision then Inl StoreError
             else Inr (s, cursor_view_of key c False True))
          else (let changed = (cu_decision_revision c \<noteq> revision
                  \<or> recurrence_due project task (cu_job_generation c)
                      (live_replacement project task action lanes now s) now s)
            in activated key snapshot revision (if changed then fresh else cu_job_generation c) changed s)))))))"

section \<open>Materialisation\<close>

record schedule_write =
  sw_accepted :: bool
  sw_created :: nat
  sw_replayed :: nat
  sw_superseded :: nat

definition rejected_write :: schedule_write where
  "rejected_write = \<lparr>sw_accepted = False, sw_created = 0, sw_replayed = 0, sw_superseded = 0\<rparr>"

text \<open>Enqueue the specifications in order; \<open>ids\<close> is what the id factory returns at each.\<close>

fun enqueue_specs ::
  "(nat \<Rightarrow> string) \<Rightarrow> real \<Rightarrow> job_spec list \<Rightarrow> store \<Rightarrow> (store \<times> string list \<times> nat \<times> nat) stored" where
  "enqueue_specs ids now [] s = Inr (s, [], 0, 0)"
| "enqueue_specs ids now (sp # specs) s =
     ebind (enqueue_locked sp True (ids 0) now s) (\<lambda>(s1, row, created).
     ebind (enqueue_specs (\<lambda>n. ids (Suc n)) now specs s1) (\<lambda>(s2, jids, c, r).
     Inr (s2, jb_job_id row # jids, (if created then Suc c else c), (if created then r else Suc r))))"

text \<open>The rows of the decision lane that a materialised generation replaces.\<close>

definition replaced :: "string \<Rightarrow> string \<Rightarrow> string \<Rightarrow> string list \<Rightarrow> job \<Rightarrow> bool" where
  "replaced project task generation keys j \<longleftrightarrow> of_task project task j \<and> jb_workflow_managed j \<and> active j
     \<and> jb_scheduling_lane j = ''decision''
     \<and> \<not> (jb_generation j = generation \<and> jb_idempotency_key j \<in> set keys)"

definition materialize_cursor :: "task_key \<Rightarrow> int \<Rightarrow> string \<Rightarrow> store \<Rightarrow> store" where
  "materialize_cursor key snapshot generation s = s\<lparr>st_cursors := map (\<lambda>(k, c).
     if k = key \<and> cu_snapshot_generation c = snapshot \<and> cu_job_generation c = generation
     then (k, c\<lparr>cu_materialized_job_generation := Some generation\<rparr>) else (k, c)) (st_cursors s)\<rparr>"

definition spec_in_scope :: "string \<Rightarrow> string \<Rightarrow> string \<Rightarrow> job_spec \<Rightarrow> bool" where
  "spec_in_scope project task generation sp \<longleftrightarrow> js_project_id sp = project \<and> js_task_id sp = task
     \<and> js_generation sp = generation \<and> js_scheduling_lane sp = ''decision''"

definition managed_kind :: "job_spec list \<Rightarrow> string" where
  "managed_kind specs = (if specs = [] then ''managed_zero_job'' else ''managed_decision'')"

definition record_schedule_cut ::
  "bool \<Rightarrow> string \<Rightarrow> string \<Rightarrow> string \<Rightarrow> string \<Rightarrow> int \<Rightarrow> string list \<Rightarrow> store \<Rightarrow> store stored" where
  "record_schedule_cut record_cut project task kind revision snapshot jids s =
     (if record_cut then ebind (record_job_retirements project task kind revision (Some snapshot) (Some True)
        (sort (remdups jids)) s) (\<lambda>(s', _). Inr s') else Inr s)"

definition reconcile_schedule ::
  "string \<Rightarrow> string \<Rightarrow> int \<Rightarrow> string \<Rightarrow> job_spec list \<Rightarrow> bool \<Rightarrow> string option \<Rightarrow> string \<Rightarrow> (nat \<Rightarrow> string) \<Rightarrow> real
   \<Rightarrow> store \<Rightarrow> (store \<times> schedule_write) stored" where
  "reconcile_schedule project_id task_id snapshot job_generation specs record_cut authority_kind reason ids now s =
     ebind (required_str project_id) (\<lambda>project.
     ebind (required_str task_id) (\<lambda>task.
     ebind (required_str job_generation) (\<lambda>generation.
     ebind (required_str reason) (\<lambda>message.
     if snapshot < 1 then Inl (PyExn ValueError) else
     ebind (required_opt authority_kind) (\<lambda>kind.
     if kind \<noteq> None \<and> kind \<noteq> Some (managed_kind specs) then Inl (PyExn ValueError)
     else if \<not> list_all (spec_in_scope project task generation) specs then Inl StoreError
     else if \<not> distinct (map js_idempotency_key specs) then Inl StoreError else
     (case map_of (st_cursors s) (project, task) of
        None \<Rightarrow> Inr (s, rejected_write)
      | Some c \<Rightarrow>
          if \<not> generation_current snapshot s \<or> cu_snapshot_generation c \<noteq> snapshot
             \<or> cu_job_generation c \<noteq> generation then Inr (s, rejected_write) else
          ebind (enqueue_specs ids now specs s) (\<lambda>(s1, jids, created, replayed_count).
          ebind (supersede_rows generation message now
              (filter (replaced project task generation (map js_idempotency_key specs)) (st_jobs s1)) s1)
            (\<lambda>(s2, superseded).
          let s3 = materialize_cursor (project, task) snapshot generation s2 in
          ebind (record_schedule_cut record_cut project task (managed_kind specs) (cu_decision_revision c) snapshot
              jids s3) (\<lambda>s4.
          Inr (s4, \<lparr>sw_accepted = True, sw_created = created, sw_replayed = replayed_count,
            sw_superseded = superseded\<rparr>))))))))))"

section \<open>Proofs of materialisation\<close>

definition materialized_cursor :: "string \<Rightarrow> string \<Rightarrow> string \<Rightarrow> string \<Rightarrow> store \<Rightarrow> bool" where
  "materialized_cursor project task revision generation s = (case map_of (st_cursors s) (project, task) of
       None \<Rightarrow> False
     | Some c \<Rightarrow> cu_decision_revision c = revision \<and> cu_job_generation c = generation
         \<and> (case cu_materialized_job_generation c of None \<Rightarrow> [] | Some g \<Rightarrow> g) = generation)"

definition schedule_specs_materialized ::
  "string \<Rightarrow> string \<Rightarrow> string \<Rightarrow> string \<Rightarrow> string list \<Rightarrow> real \<Rightarrow> store \<Rightarrow> bool stored" where
  "schedule_specs_materialized project_id task_id decision_revision job_generation keys now s =
     ebind (required_str project_id) (\<lambda>project.
     ebind (required_str task_id) (\<lambda>task.
     ebind (required_str decision_revision) (\<lambda>revision.
     ebind (required_str job_generation) (\<lambda>generation.
     ebind (eseq required_str keys) (\<lambda>ks.
     if \<not> distinct ks \<or> 1 < length ks then Inl (PyExn ValueError)
     else if \<not> materialized_cursor project task revision generation s then Inr False
     else if ks = [] then Inr True
     else (let rows = filter (\<lambda>j. jb_project_id j = project \<and> jb_idempotency_key j \<in> set ks) (st_jobs s)
       in Inr (set (map jb_idempotency_key rows) = set ks
         \<and> list_all (proves_live_authority now (schedule_reassessment_deadline generation)) rows)))))))"

definition schedule_substitute_materialized ::
  "string \<Rightarrow> string \<Rightarrow> string \<Rightarrow> string \<Rightarrow> string \<Rightarrow> string list \<Rightarrow> real \<Rightarrow> store \<Rightarrow> bool stored" where
  "schedule_substitute_materialized project_id task_id decision_revision job_generation action_name lanes now s =
     ebind (required_str project_id) (\<lambda>project.
     ebind (required_str task_id) (\<lambda>task.
     ebind (required_str decision_revision) (\<lambda>revision.
     ebind (required_str job_generation) (\<lambda>generation.
     ebind (required_str action_name) (\<lambda>action.
     ebind (eseq required_str lanes) (\<lambda>ls.
     if ls = [] then Inl (PyExn ValueError)
     else if \<not> materialized_cursor project task revision generation s then Inr False
     else Inr (case newest_job (\<lambda>j. of_task project task j \<and> jb_action j = action \<and> jb_scheduling_lane j \<in> set ls
             \<and> active j) s of
         None \<Rightarrow> False
       | Some j \<Rightarrow> proves_live_authority now None j)))))))"

end
