(* ===== verification/EventLanes.thy ===== *)
theory EventLanes
  imports TaskSchedules
begin

text \<open>
  Semantic events in oompah/workflow_jobs.py: an event is ordered in its lane, gets a generation, enqueues its
  job and fences the work it replaces, in one transaction.  A repeated event replays its job, a slower one is
  refused, and an event that meets live work in a protected lane leaves it alone.
\<close>

section \<open>Equality of JSON values\<close>

text \<open>Python's \<open>==\<close> of two thawed values: True is 1 at every depth; the items of a dictionary are sorted.\<close>

fun json_eq :: "pyval \<Rightarrow> pyval \<Rightarrow> bool"
and json_eqs :: "pyval list \<Rightarrow> pyval list \<Rightarrow> bool"
and json_eq_items :: "(string \<times> pyval) list \<Rightarrow> (string \<times> pyval) list \<Rightarrow> bool" where
  "json_eq (PList xs) (PList ys) = json_eqs xs ys"
| "json_eq (PDict xs) (PDict ys) = json_eq_items xs ys"
| "json_eq a b = py_eq a b"
| "json_eqs [] [] = True"
| "json_eqs (x # xs) (y # ys) = (json_eq x y \<and> json_eqs xs ys)"
| "json_eqs _ _ = False"
| "json_eq_items [] [] = True"
| "json_eq_items ((k, x) # xs) ((l, y) # ys) = (k = l \<and> json_eq x y \<and> json_eq_items xs ys)"
| "json_eq_items _ _ = False"

definition payload_value :: "pyval option \<Rightarrow> pyval" where
  "payload_value p = (case p of None \<Rightarrow> PNone | Some v \<Rightarrow> v)"

section \<open>Retirement by an event\<close>

definition current_event_job :: "store \<Rightarrow> job \<Rightarrow> bool" where
  "current_event_job s j \<longleftrightarrow> \<not> jb_workflow_managed j \<and> jb_state j \<notin> {Job_SUPERSEDED, Job_CANCELLED}
     \<and> (case map_of (st_event_cursors s) (jb_project_id j, jb_task_id j, jb_scheduling_lane j) of
          None \<Rightarrow> False | Some c \<Rightarrow> ec_generation c = jb_generation j)"

definition record_event_handoff_retirements ::
  "string \<Rightarrow> string \<Rightarrow> string \<Rightarrow> string \<Rightarrow> int \<Rightarrow> string list \<Rightarrow> store \<Rightarrow> (store \<times> nat) stored" where
  "record_event_handoff_retirements project_id task_id authority_generation authority_scheduling_lane
     authority_sequence retired_lanes s =
     ebind (required_str project_id) (\<lambda>project.
     ebind (required_str task_id) (\<lambda>task.
     ebind (required_str authority_generation) (\<lambda>generation.
     ebind (required_str authority_scheduling_lane) (\<lambda>lane.
     if authority_sequence < 1 then Inl (PyExn ValueError) else
     ebind (eseq required_str retired_lanes) (\<lambda>lanes.
     if lanes = [] then Inl (PyExn ValueError)
     else if \<not> list_ex (\<lambda>j. of_task project task j \<and> jb_scheduling_lane j = lane
         \<and> jb_generation j = generation \<and> current_event_job s j) (st_jobs s) then Inl StoreError
     else (let rows = filter (\<lambda>j. of_task project task j \<and> \<not> jb_workflow_managed j
             \<and> jb_scheduling_lane j \<in> set lanes \<and> jb_enqueue_sequence j < authority_sequence
             \<and> \<not> (jb_scheduling_lane j = lane \<and> jb_generation j = generation)
             \<and> \<not> durably_retired s j) (st_jobs s)
       in Inr (fold (retire_job ''event_handoff'' generation None) rows s, length rows)))))))"

definition reconcile_event_handoff_retirements ::
  "string \<Rightarrow> string \<Rightarrow> string list \<Rightarrow> string list \<Rightarrow> string list \<Rightarrow> store \<Rightarrow> (store \<times> nat) stored" where
  "reconcile_event_handoff_retirements project_id task_id authority_lanes retired_lanes action_names s =
     ebind (required_str project_id) (\<lambda>project.
     ebind (required_str task_id) (\<lambda>task.
     ebind (eseq required_str authority_lanes) (\<lambda>lanes.
     ebind (eseq required_str retired_lanes) (\<lambda>retired.
     ebind (eseq required_str action_names) (\<lambda>actions.
     if lanes = [] \<or> retired = [] \<or> actions = [] then Inl (PyExn ValueError) else
     (case newest_job (\<lambda>j. of_task project task j \<and> jb_scheduling_lane j \<in> set lanes
             \<and> jb_action j \<in> set actions \<and> current_event_job s j) s of
        None \<Rightarrow> Inr (s, 0)
      | Some j \<Rightarrow> record_event_handoff_retirements project task (jb_generation j) (jb_scheduling_lane j)
          (jb_enqueue_sequence j) retired s))))))"

section \<open>Materialising an event\<close>

record event_write =
  ew_job :: "job option"
  ew_accepted :: bool
  ew_created :: bool
  ew_superseded :: nat

definition refused_event :: event_write where
  "refused_event = \<lparr>ew_job = None, ew_accepted = False, ew_created = False, ew_superseded = 0\<rparr>"

record event_request =
  er_project_id :: string
  er_task_id :: string
  er_decision_revision :: string
  er_action :: string
  er_namespace :: string
  er_scheduling_lane :: "string option"
  er_ordering_namespace :: "string option"
  er_source_generation :: "int option"
  er_source_revision :: "string option"
  er_supersede_lanes :: "string list"
  er_protected_lanes :: "string list"
  er_payload :: pyval
  er_expected_evidence :: pyval
  er_expected_head :: pyval
  er_priority :: pyval
  er_max_attempts :: pyval
  er_reason :: string

text \<open>The texts of a request once they are checked and stripped.\<close>

definition normalized_event :: "event_request \<Rightarrow> event_request stored" where
  "normalized_event e =
     ebind (required_str (er_project_id e)) (\<lambda>project.
     ebind (required_str (er_task_id e)) (\<lambda>task.
     ebind (required_str (er_decision_revision e)) (\<lambda>revision.
     ebind (required_str (er_action e)) (\<lambda>action.
     ebind (required_str (er_namespace e)) (\<lambda>namespace.
     ebind (required_opt (er_scheduling_lane e)) (\<lambda>lane.
     ebind (required_str (er_reason e)) (\<lambda>message.
     if (er_ordering_namespace e = None) \<noteq> (er_source_generation e = None) then Inl (PyExn ValueError) else
     ebind (required_opt (er_ordering_namespace e)) (\<lambda>ordering.
     ebind (required_opt (er_source_revision e)) (\<lambda>source.
     ebind (eseq required_str (er_supersede_lanes e)) (\<lambda>supersede_lanes.
     ebind (eseq required_str (er_protected_lanes e)) (\<lambda>protected_lanes.
     if (case er_source_generation e of None \<Rightarrow> False | Some g \<Rightarrow> g < 1) then Inl (PyExn ValueError) else
     Inr (e\<lparr>er_project_id := project, er_task_id := task, er_decision_revision := revision, er_action := action,
       er_namespace := namespace, er_scheduling_lane := lane, er_ordering_namespace := ordering,
       er_source_revision := source, er_supersede_lanes := supersede_lanes, er_protected_lanes := protected_lanes,
       er_reason := message\<rparr>))))))))))))"

text \<open>The lane and the ordering revision default to the namespace and to the decision.\<close>

definition event_lane :: "event_request \<Rightarrow> string" where
  "event_lane e = (case er_scheduling_lane e of None \<Rightarrow> ''event:'' @ er_namespace e | Some lane \<Rightarrow> lane)"

definition ordering_revision :: "event_request \<Rightarrow> string" where
  "ordering_revision e = (case er_source_revision e of None \<Rightarrow> er_decision_revision e | Some r \<Rightarrow> r)"

definition event_key :: "string \<Rightarrow> string \<Rightarrow> string \<Rightarrow> string" where
  "event_key namespace revision generation = namespace @ '':'' @ revision @ '':'' @ generation"

text \<open>The job of the current activation of an event in its lane.\<close>

definition current_activation :: "event_request \<Rightarrow> store \<Rightarrow> job option" where
  "current_activation e s = (case map_of (st_event_cursors s) (er_project_id e, er_task_id e, event_lane e) of
       None \<Rightarrow> None
     | Some c \<Rightarrow> if ec_revision c = er_decision_revision e
         then find_key (er_project_id e) (event_key (er_namespace e) (er_decision_revision e) (ec_generation c)) s
         else None)"

text \<open>What the ordering of the source says: refuse the event, or go on, perhaps from an advanced source.\<close>

datatype source_order = Source_stale | Source_conflict | Source_current bool

definition order_of_source :: "event_request \<Rightarrow> store \<Rightarrow> source_order" where
  "order_of_source e s = (case (er_ordering_namespace e, er_source_generation e) of
       (Some ns, Some g) \<Rightarrow>
         (case map_of (st_orderings s) (er_project_id e, er_task_id e, ns) of
            None \<Rightarrow> Source_current False
          | Some o' \<Rightarrow> if g < eo_generation o' then Source_stale
              else if g = eo_generation o' \<and> eo_revision o' \<noteq> ordering_revision e then Source_conflict
              else Source_current (eo_generation o' < g))
     | _ \<Rightarrow> Source_current False)"

text \<open>A stale event whose disposition is still the current one gets its job back.\<close>

definition stale_event :: "event_request \<Rightarrow> store \<Rightarrow> event_write" where
  "stale_event e s = (case er_ordering_namespace e of None \<Rightarrow> refused_event | Some ns \<Rightarrow>
     (case map_of (st_orderings s) (er_project_id e, er_task_id e, ns) of None \<Rightarrow> refused_event
      | Some o' \<Rightarrow> if eo_revision o' = ordering_revision e
          then (case current_activation e s of None \<Rightarrow> refused_event
            | Some j \<Rightarrow> \<lparr>ew_job = Some j, ew_accepted = True, ew_created = False, ew_superseded = 0\<rparr>)
          else refused_event))"

definition order_source :: "event_request \<Rightarrow> store \<Rightarrow> store" where
  "order_source e s = (case (er_ordering_namespace e, er_source_generation e) of
       (Some ns, Some g) \<Rightarrow> order_event (er_project_id e, er_task_id e, ns) g (ordering_revision e) s
     | _ \<Rightarrow> s)"

text \<open>The newest active job in a protected lane, and whether it is the same event.\<close>

definition protected_job :: "event_request \<Rightarrow> store \<Rightarrow> job option" where
  "protected_job e s = newest_job (\<lambda>j. of_task (er_project_id e) (er_task_id e) j
     \<and> jb_scheduling_lane j \<in> set (er_protected_lanes e) \<and> active j) s"

definition optional_str :: "string option \<Rightarrow> string option" where
  "optional_str v = (case v of None \<Rightarrow> None | Some t \<Rightarrow> if py_strip t = [] then None else Some (py_strip t))"

definition same_event :: "event_request \<Rightarrow> job \<Rightarrow> bool" where
  "same_event e j \<longleftrightarrow> jb_action j = er_action e
     \<and> json_eq (thaw (payload_value (jb_payload j))) (thaw (er_payload e))
     \<and> optional_str (jb_expected_head_sha j) = optional_text (er_expected_head e)"

text \<open>Whether the event needs a new activation, the generation it then runs under, and its cursor.\<close>

definition event_changed :: "event_request \<Rightarrow> bool \<Rightarrow> store \<Rightarrow> bool" where
  "event_changed e advanced s = (case map_of (st_event_cursors s) (er_project_id e, er_task_id e, event_lane e) of
       None \<Rightarrow> True
     | Some c \<Rightarrow> ec_revision c \<noteq> er_decision_revision e
         \<or> advanced \<and> (case find_key (er_project_id e)
               (event_key (er_namespace e) (er_decision_revision e) (ec_generation c)) s of
             None \<Rightarrow> True | Some j \<Rightarrow> \<not> active j))"

definition event_generation :: "event_request \<Rightarrow> bool \<Rightarrow> int \<Rightarrow> store \<Rightarrow> string" where
  "event_generation e advanced sequence s = (case map_of (st_event_cursors s) (er_project_id e, er_task_id e, event_lane e) of
       None \<Rightarrow> er_decision_revision e @ '':'' @ int_str sequence
     | Some c \<Rightarrow> if event_changed e advanced s then er_decision_revision e @ '':'' @ int_str sequence
         else ec_generation c)"

definition write_event_cursor :: "lane_key \<Rightarrow> string \<Rightarrow> string \<Rightarrow> int \<Rightarrow> store \<Rightarrow> store" where
  "write_event_cursor key revision generation sequence s = s\<lparr>st_event_cursors := AList.update key
     \<lparr>ec_revision = revision, ec_generation = generation, ec_sequence = sequence\<rparr> (st_event_cursors s)\<rparr>"

definition event_spec :: "event_request \<Rightarrow> string \<Rightarrow> job_spec stored" where
  "event_spec e generation = make_spec (PStr (er_project_id e)) (PStr (er_task_id e)) (PStr generation)
     (PStr (er_action e)) (PStr (event_key (er_namespace e) (er_decision_revision e) generation)) (PStr ''intent'')
     (er_expected_evidence e) (er_expected_head e) (er_priority e) (er_max_attempts e) PNone (er_payload e)
     (PStr (event_lane e))"

text \<open>The active rows an activation replaces: of its lane, of the decision lane and of the named lanes.\<close>

definition displaced :: "event_request \<Rightarrow> string \<Rightarrow> string \<Rightarrow> job \<Rightarrow> bool" where
  "displaced e lane generation j \<longleftrightarrow> of_task (er_project_id e) (er_task_id e) j
     \<and> jb_scheduling_lane j \<in> set (lane # ''decision'' # er_supersede_lanes e) \<and> active j
     \<and> \<not> (jb_generation j = generation
          \<and> jb_idempotency_key j = event_key (er_namespace e) (er_decision_revision e) generation)"

definition retire_named_lanes :: "event_request \<Rightarrow> string \<Rightarrow> job \<Rightarrow> store \<Rightarrow> store stored" where
  "retire_named_lanes e generation j s = (if er_supersede_lanes e = [] then Inr s else
     ebind (record_event_handoff_retirements (er_project_id e) (er_task_id e) generation (event_lane e)
       (jb_enqueue_sequence j) (er_supersede_lanes e) s) (\<lambda>(s', _). Inr s'))"

definition activate_event ::
  "event_request \<Rightarrow> bool \<Rightarrow> string \<Rightarrow> real \<Rightarrow> store \<Rightarrow> (store \<times> event_write) stored" where
  "activate_event e advanced fresh_id now s =
     (let (s1, sequence) = next_counter EVENT_SEQUENCE s;
          generation = event_generation e advanced sequence s1;
          s2 = write_event_cursor (er_project_id e, er_task_id e, event_lane e) (er_decision_revision e) generation
            sequence s1 in
      ebind (event_spec e generation) (\<lambda>sp.
      ebind (enqueue_locked sp False fresh_id now s2) (\<lambda>(s3, row, created).
      ebind (supersede_rows generation (er_reason e) now
          (filter (displaced e (js_scheduling_lane sp) generation) (st_jobs s3)) s3) (\<lambda>(s4, superseded).
      ebind (row_locked (jb_job_id row) s4) (\<lambda>result.
      ebind (retire_named_lanes e generation row s4) (\<lambda>s5.
      Inr (s5, \<lparr>ew_job = Some result, ew_accepted = True, ew_created = created, ew_superseded = superseded\<rparr>)))))))"

definition materialize_event ::
  "event_request \<Rightarrow> string \<Rightarrow> real \<Rightarrow> store \<Rightarrow> (store \<times> event_write) stored" where
  "materialize_event request fresh_id now s =
     ebind (normalized_event request) (\<lambda>e.
     case order_of_source e s of
       Source_stale \<Rightarrow> Inr (s, stale_event e s)
     | Source_conflict \<Rightarrow> Inl StoreError
     | Source_current advanced \<Rightarrow>
         (let s1 = order_source e s in
          case protected_job e s1 of
            Some j \<Rightarrow> Inr (s1, \<lparr>ew_job = (if same_event e j then Some j else None), ew_accepted = True,
              ew_created = False, ew_superseded = 0\<rparr>)
          | None \<Rightarrow> activate_event e advanced fresh_id now s1))"

section \<open>Retiring a lane\<close>

text \<open>A queued or waiting row; one that waits with a verification in its checkpoint is kept.\<close>

definition verifying :: "job \<Rightarrow> bool" where
  "verifying j \<longleftrightarrow> (case jb_checkpoint j of None \<Rightarrow> False | Some v \<Rightarrow> (case mapping_of v of None \<Rightarrow> False
     | Some kvs \<Rightarrow> mapping_of (getv kvs ''verification'') \<noteq> None))"

definition retirable_row :: "string \<Rightarrow> string \<Rightarrow> string \<Rightarrow> job \<Rightarrow> bool" where
  "retirable_row project task lane j \<longleftrightarrow> of_task project task j \<and> jb_scheduling_lane j \<in> {lane, ''decision''}
     \<and> (jb_state j = Job_QUEUED \<or> jb_state j = Job_RETRY_WAIT \<and> \<not> verifying j)"

definition retire_event_lane ::
  "string \<Rightarrow> string \<Rightarrow> string \<Rightarrow> string \<Rightarrow> int \<Rightarrow> string \<Rightarrow> string \<Rightarrow> real \<Rightarrow> store \<Rightarrow> (store \<times> event_write) stored"
  where
  "retire_event_lane project_id task_id scheduling_lane ordering_namespace source_generation decision_revision
     reason now s =
     ebind (required_str project_id) (\<lambda>project.
     ebind (required_str task_id) (\<lambda>task.
     ebind (required_str scheduling_lane) (\<lambda>lane.
     ebind (required_str ordering_namespace) (\<lambda>ordering.
     ebind (required_str decision_revision) (\<lambda>revision.
     ebind (required_str reason) (\<lambda>message.
     if source_generation < 1 then Inl (PyExn ValueError) else
     let key = (project, task, ordering);
         retired = (let s1 = order_event key source_generation revision s in
           ebind (supersede_rows (''decision:'' @ int_str source_generation @ '':'' @ revision) message now
             (filter (retirable_row project task lane) (st_jobs s1)) s1) (\<lambda>(s2, n).
           Inr (s2, \<lparr>ew_job = None, ew_accepted = True, ew_created = False, ew_superseded = n\<rparr>))) in
     case map_of (st_orderings s) key of
       None \<Rightarrow> retired
     | Some o' \<Rightarrow>
         if source_generation < eo_generation o' then Inr (s, refused_event)
         else if source_generation = eo_generation o' \<and> eo_revision o' \<noteq> revision then Inl StoreError
         else retired))))))"

section \<open>Replacing the work of one lane\<close>

text \<open>
  \<open>enqueue_replacing_lane\<close>.  A spec of an older source is recorded as superseded at birth; at the same source
  generation other evidence is a conflict, but for one upgrade: a terminal audit that acquires its binding.
\<close>

record lane_request =
  lq_spec :: job_spec
  lq_source_generation :: int
  lq_require_advance :: bool
  lq_retire_managed :: bool
  lq_upgrade_from :: "string option"
  lq_reason :: string

abbreviation STALE_SOURCE :: string where
  "STALE_SOURCE \<equiv> ''stale terminal-audit source generation''"

definition payload_items :: "pyval option \<Rightarrow> (string \<times> pyval) list" where
  "payload_items p = (case p of None \<Rightarrow> [] | Some v \<Rightarrow> (case mapping_of v of None \<Rightarrow> [] | Some kvs \<Rightarrow> kvs))"

definition binding_upgrade :: "lane_request \<Rightarrow> string \<Rightarrow> store \<Rightarrow> bool" where
  "binding_upgrade q observed s = (let sp = lq_spec q; items = payload_items (js_payload sp);
       kept = filter (\<lambda>kv. fst kv \<noteq> ''selected_ref'' \<and> fst kv \<noteq> ''selected_sha'') items in
     optional_str (lq_upgrade_from q) = Some observed
     \<and> optional_text (getv items ''selected_ref'') \<noteq> None \<and> optional_text (getv items ''selected_sha'') \<noteq> None
     \<and> list_ex (\<lambda>j. of_task (js_project_id sp) (js_task_id sp) j \<and> jb_scheduling_lane j = js_scheduling_lane sp
         \<and> jb_action j = js_action sp \<and> jb_generation j = observed
         \<and> jb_expected_evidence_revision j = js_expected_evidence_revision sp
         \<and> json_eq (thaw (PDict (payload_items (jb_payload j)))) (thaw (PDict kept))) (st_jobs s))"

definition retire_managed_work :: "lane_request \<Rightarrow> store \<Rightarrow> store stored" where
  "retire_managed_work q s = (if lq_retire_managed q then
     ebind (record_job_retirements (js_project_id (lq_spec q)) (js_task_id (lq_spec q)) ''terminal_audit_handoff''
       (js_generation (lq_spec q)) None (Some True) [] s) (\<lambda>(s', _). Inr s') else Inr s)"

definition replay_activation :: "lane_request \<Rightarrow> int \<Rightarrow> store \<Rightarrow> (store \<times> event_write) stored" where
  "replay_activation q observed s =
     (case find_key (js_project_id (lq_spec q)) (js_idempotency_key (lq_spec q)) s of
        None \<Rightarrow> Inr (s, refused_event)
      | Some j \<Rightarrow> if lq_source_generation q = observed \<and> jb_spec_revision j = spec_revision (lq_spec q)
          then ebind (retire_managed_work q s) (\<lambda>s'.
            Inr (s', \<lparr>ew_job = Some j, ew_accepted = True, ew_created = False, ew_superseded = 0\<rparr>))
          else Inr (s, refused_event))"

definition stale_write :: "job \<Rightarrow> bool \<Rightarrow> event_write" where
  "stale_write j created = \<lparr>ew_job = Some j, ew_accepted = False, ew_created = created,
     ew_superseded = (if jb_state j = Job_SUPERSEDED then 1 else 0)\<rparr>"

definition stale_activation ::
  "lane_request \<Rightarrow> string \<Rightarrow> string \<Rightarrow> real \<Rightarrow> store \<Rightarrow> (store \<times> event_write) stored" where
  "stale_activation q observed fresh_id now s =
     ebind (enqueue_locked (lq_spec q) False fresh_id now s) (\<lambda>(s1, row, created).
     if active row \<and> jb_phase row \<noteq> ''quarantined'' \<and> jb_generation row \<noteq> observed then
       ebind (write_owned (jb_job_id row) (superseded_row observed STALE_SOURCE now) ''superseded''
         [(''replacement_generation'', text_value observed), (''reason'', text_value STALE_SOURCE)] now s1)
         (\<lambda>(s2, row'). Inr (s2, stale_write row' created))
     else Inr (s1, stale_write row created))"

definition replace_lane ::
  "lane_request \<Rightarrow> string \<Rightarrow> string \<Rightarrow> real \<Rightarrow> store \<Rightarrow> (store \<times> event_write) stored" where
  "replace_lane q message fresh_id now s =
     (let sp = lq_spec q;
          s1 = order_event (js_project_id sp, js_task_id sp, js_scheduling_lane sp) (lq_source_generation q)
            (js_generation sp) s in
      ebind (enqueue_locked sp False fresh_id now s1) (\<lambda>(s2, row, created).
      ebind (supersede_rows (js_generation sp) message now
          (filter (\<lambda>j. of_task (js_project_id sp) (js_task_id sp) j \<and> jb_scheduling_lane j = js_scheduling_lane sp
             \<and> active j \<and> jb_job_id j \<noteq> jb_job_id row) (st_jobs s2)) s2) (\<lambda>(s3, superseded).
      ebind (row_locked (jb_job_id row) s3) (\<lambda>result.
      ebind (retire_managed_work q s3) (\<lambda>s4.
      Inr (s4, \<lparr>ew_job = Some result, ew_accepted = True, ew_created = created, ew_superseded = superseded\<rparr>))))))"

definition enqueue_replacing_lane ::
  "lane_request \<Rightarrow> string \<Rightarrow> real \<Rightarrow> store \<Rightarrow> (store \<times> event_write) stored" where
  "enqueue_replacing_lane q fresh_id now s =
     (let sp = lq_spec q; g = lq_source_generation q in
      if g < 1 then Inl (PyExn ValueError)
      else if optional_str (lq_upgrade_from q) \<noteq> None \<and> js_action sp \<noteq> ''terminal_audit'' then Inl (PyExn ValueError)
      else ebind (required_str (lq_reason q)) (\<lambda>message.
        case map_of (st_orderings s) (js_project_id sp, js_task_id sp, js_scheduling_lane sp) of
          None \<Rightarrow> if lq_require_advance q \<and> g \<le> 1 then Inr (s, refused_event) else replace_lane q message fresh_id now s
        | Some o' \<Rightarrow>
            if lq_require_advance q \<and> g \<le> eo_generation o' then replay_activation q (eo_generation o') s
            else if g < eo_generation o' then stale_activation q (eo_revision o') fresh_id now s
            else if g = eo_generation o' \<and> eo_revision o' \<noteq> js_generation sp \<and> \<not> binding_upgrade q (eo_revision o') s
            then Inl StoreError
            else replace_lane q message fresh_id now s))"

section \<open>Evidence for liveness\<close>

definition ordered_by :: "lane_key \<Rightarrow> string \<Rightarrow> store \<Rightarrow> bool" where
  "ordered_by key revision s = (case map_of (st_orderings s) key of None \<Rightarrow> False
     | Some o' \<Rightarrow> eo_revision o' = revision)"

definition event_lane_materialized ::
  "string \<Rightarrow> string \<Rightarrow> string \<Rightarrow> string \<Rightarrow> string \<Rightarrow> string list \<Rightarrow> real \<Rightarrow> store \<Rightarrow> bool stored" where
  "event_lane_materialized project_id task_id ordering_namespace scheduling_lane source_revision action_names now s =
     ebind (required_str project_id) (\<lambda>project.
     ebind (required_str task_id) (\<lambda>task.
     ebind (required_str ordering_namespace) (\<lambda>ordering.
     ebind (required_str scheduling_lane) (\<lambda>lane.
     ebind (required_str source_revision) (\<lambda>revision.
     ebind (eseq required_str action_names) (\<lambda>names.
     let actions = remdups names in
     if actions = [] then Inl (PyExn ValueError)
     else if \<not> ordered_by (project, task, ordering) revision s then Inr False
     else (case map_of (st_event_cursors s) (project, task, lane) of
         None \<Rightarrow> Inr False
       | Some c \<Rightarrow> (let rows = filter (\<lambda>j. of_task project task j \<and> jb_generation j = ec_generation c
             \<and> jb_scheduling_lane j = lane \<and> jb_action j \<in> set actions) (st_jobs s)
         in Inr (length rows = length actions \<and> set (map jb_action rows) = set actions
           \<and> list_all (proves_live_authority now None) rows)))))))))"

definition protected_event_lane_materialized ::
  "string \<Rightarrow> string \<Rightarrow> string \<Rightarrow> string \<Rightarrow> string list \<Rightarrow> string list \<Rightarrow> real \<Rightarrow> store \<Rightarrow> bool stored" where
  "protected_event_lane_materialized project_id task_id ordering_namespace source_revision scheduling_lanes
     action_names now s =
     ebind (required_str project_id) (\<lambda>project.
     ebind (required_str task_id) (\<lambda>task.
     ebind (required_str ordering_namespace) (\<lambda>ordering.
     ebind (required_str source_revision) (\<lambda>revision.
     ebind (eseq required_str scheduling_lanes) (\<lambda>lanes.
     ebind (eseq required_str action_names) (\<lambda>actions.
     if lanes = [] \<or> actions = [] then Inl (PyExn ValueError)
     else if \<not> ordered_by (project, task, ordering) revision s then Inr False
     else Inr (case newest_job (\<lambda>j. of_task project task j \<and> jb_scheduling_lane j \<in> set lanes
             \<and> jb_action j \<in> set actions \<and> active j) s of
         None \<Rightarrow> False
       | Some j \<Rightarrow> proves_live_authority now None j)))))))"

definition terminal_audit_lane_materialized ::
  "string \<Rightarrow> string \<Rightarrow> string \<Rightarrow> string \<Rightarrow> string \<Rightarrow> string \<Rightarrow> int \<Rightarrow> string \<Rightarrow> real \<Rightarrow> store \<Rightarrow> bool stored" where
  "terminal_audit_lane_materialized project_id task_id audit_id target_state evidence_fingerprint audit_generation
     source_generation obligation_action now s =
     ebind (required_str project_id) (\<lambda>project.
     ebind (required_str task_id) (\<lambda>task.
     ebind (required_str audit_id) (\<lambda>audit.
     ebind (required_str target_state) (\<lambda>target.
     ebind (required_str evidence_fingerprint) (\<lambda>evidence.
     ebind (required_str audit_generation) (\<lambda>generation.
     ebind (required_str obligation_action) (\<lambda>obligation.
     if obligation \<notin> {''terminal_audit'', ''terminal_audit_recovery''} then Inl (PyExn ValueError)
     else if source_generation < 1 then Inl (PyExn ValueError)
     else (let lane = ''terminal-audit:'' @ target in
       case map_of (st_orderings s) (project, task, lane) of
         None \<Rightarrow> Inr False
       | Some o' \<Rightarrow> if eo_generation o' \<noteq> source_generation \<or> eo_revision o' \<noteq> generation then Inr False else
          (case newest_job (\<lambda>j. of_task project task j \<and> jb_scheduling_lane j = lane) s of
             None \<Rightarrow> Inr False
           | Some latest \<Rightarrow> (let
                 items = (case jb_checkpoint latest of None \<Rightarrow> [] | Some v \<Rightarrow> payload_items (Some v)) in
               Inr (jb_action latest = ''terminal_audit'' \<and> jb_generation latest = generation
                 \<and> (case jb_expected_evidence_revision latest of None \<Rightarrow> [] | Some x \<Rightarrow> x) = evidence
                 \<and> (case jb_state latest of Job_QUEUED \<Rightarrow> True | Job_RETRY_WAIT \<Rightarrow> True
                    | Job_RUNNING \<Rightarrow> jb_phase latest \<in> {''running'', ''finalizing''}
                        \<and> str_or (getv items ''audit_id'') [] = audit
                        \<and> (case jb_lease_owner latest of None \<Rightarrow> False | Some o' \<Rightarrow> py_strip o' \<noteq> [])
                        \<and> (case jb_lease_expires_at latest of None \<Rightarrow> False | Some t \<Rightarrow> now < t)
                    | _ \<Rightarrow> False))))))))))))"

section \<open>Exhausted jobs that still count\<close>

definition replacing_states :: "job_state list" where
  "replacing_states = [Job_QUEUED, Job_RUNNING, Job_RETRY_WAIT, Job_COMPLETED, Job_EXHAUSTED]"

text \<open>A job of the task, lane and generation that stands for newer authority.\<close>

definition replacement_exists :: "store \<Rightarrow> job \<Rightarrow> (job \<Rightarrow> bool) \<Rightarrow> string \<Rightarrow> bool" where
  "replacement_exists s j p generation = list_ex (\<lambda>r. of_task (jb_project_id j) (jb_task_id j) r
     \<and> p r \<and> jb_generation r = generation \<and> jb_state r \<in> set replacing_states) (st_jobs s)"

text \<open>\<open>_CURRENT_EXHAUSTION_PREDICATE\<close>.\<close>

definition replaced_exhaustion :: "store \<Rightarrow> job \<Rightarrow> bool" where
  "replaced_exhaustion s j \<longleftrightarrow> durably_retired s j \<or>
     (if jb_workflow_managed j then
        (case map_of (st_cursors s) (jb_project_id j, jb_task_id j) of None \<Rightarrow> False
         | Some c \<Rightarrow> cu_snapshot_generation c \<in> set (st_publications s) \<and> cu_job_generation c \<noteq> jb_generation j
             \<and> cu_materialized_job_generation c = Some (cu_job_generation c)
             \<and> replacement_exists s j jb_workflow_managed (cu_job_generation c))
      else (let lane = (jb_project_id j, jb_task_id j, jb_scheduling_lane j);
                p = (\<lambda>r. \<not> jb_workflow_managed r \<and> jb_scheduling_lane r = jb_scheduling_lane j) in
        case map_of (st_event_cursors s) lane of
          Some c \<Rightarrow> ec_generation c \<noteq> jb_generation j \<and> replacement_exists s j p (ec_generation c)
        | None \<Rightarrow> (case map_of (st_orderings s) lane of None \<Rightarrow> False
            | Some o' \<Rightarrow> eo_revision o' \<noteq> jb_generation j \<and> replacement_exists s j p (eo_revision o'))))"

definition current_exhausted_jobs :: "string \<Rightarrow> string \<Rightarrow> store \<Rightarrow> job list stored" where
  "current_exhausted_jobs project_id task_id s =
     ebind (required_str project_id) (\<lambda>project.
     ebind (required_str task_id) (\<lambda>task.
     Inr (filter (\<lambda>j. of_task project task j \<and> jb_state j = Job_EXHAUSTED \<and> \<not> replaced_exhaustion s j)
       (st_jobs s))))"

end
