(* ===== verification/ScheduleSteps.thy ===== *)
theory ScheduleSteps
  imports JobSteps EventLanes
begin

text \<open>
  The scheduling operations of the job store as transitions: each call is a sequence of writes of the life of
  rows and of the scheduling tables, so what is proved of the job store for any sequence of writes holds
  through scans and publications too.
\<close>

section \<open>Writes to the scheduling tables\<close>

definition tables_only :: "store \<Rightarrow> store \<Rightarrow> bool" where
  "tables_only s s' \<longleftrightarrow> st_jobs s' = st_jobs s \<and> st_last_sequence s' = st_last_sequence s
     \<and> st_events s' = st_events s \<and> st_last_event s' = st_last_event s \<and> st_highwater s' = st_highwater s
     \<and> st_fairness s' = st_fairness s \<and> st_landings s' = st_landings s"

lemma tables_only_refl [simp, intro]: "tables_only s s"
  by (simp add: tables_only_def)

lemma tables_only_trans: "tables_only s u \<Longrightarrow> tables_only u s' \<Longrightarrow> tables_only s s'"
  by (simp add: tables_only_def)

lemma tables_only_steers: "tables_only s s' \<Longrightarrow> steers T s s'"
proof -
  assume "tables_only s s'"
  then have "s' = s\<lparr>st_counters := st_counters s', st_membership := st_membership s', st_cursors := st_cursors s',
      st_event_cursors := st_event_cursors s', st_orderings := st_orderings s',
      st_publications := st_publications s', st_cuts := st_cuts s', st_retired := st_retired s'\<rparr>"
    by (simp add: tables_only_def)
  then show ?thesis using evolves_write[OF write_schedule] by metis
qed

lemma evolves_steers: "evolves T s s' \<Longrightarrow> steers T s s'"
  unfolding evolves_in_def
proof (induction rule: rtranclp_induct)
  case (step u v)
  have "written True T u v" using step(2) by (induction rule: written.induct) (auto intro: written.intros)
  with step.IH show ?case by simp
qed simp

lemma fold_tables_only: "(\<And>x u. tables_only u (f x u)) \<Longrightarrow> tables_only s (fold f xs s)"
  by (induction xs arbitrary: s) (auto intro: tables_only_trans)

lemma set_counter_tables [simp]: "tables_only s (set_counter key n s)"
  by (simp add: tables_only_def set_counter_def)

lemma retire_job_tables [simp]: "tables_only s (retire_job kind revision snapshot j s)"
  by (simp add: tables_only_def retire_job_def record_retirement_def)

lemma write_cut_tables: "write_cut project task kind revision c n s = Inr s' \<Longrightarrow> tables_only s s'"
  by (auto simp: write_cut_def Let_def tables_only_def split: option.splits if_splits)

lemma record_job_retirements_tables:
  "record_job_retirements project task kind revision snapshot managed excluded s = Inr (s', n) \<Longrightarrow> tables_only s s'"
  by (auto simp: record_job_retirements_def succeeds_iff Let_def split: if_splits option.splits
      intro!: fold_tables_only intro: tables_only_trans write_cut_tables)

lemma materialize_cursor_tables [simp]: "tables_only s (materialize_cursor key snapshot generation s)"
  by (simp add: materialize_cursor_def tables_only_def)

lemma write_cursor_tables [simp]: "tables_only s (write_cursor key snapshot revision generation s)"
  by (simp add: write_cursor_def tables_only_def Let_def)

lemma replace_members_tables [simp]: "tables_only s (replace_members project snapshot tasks evaluated s)"
  by (simp add: replace_members_def tables_only_def)

lemma activate_tables:
  "activate_schedule project task revision snapshot deadline action lanes now s = Inr (s', v) \<Longrightarrow> tables_only s s'"
  by (auto simp: activate_schedule_def activated_def succeeds_iff Let_def split: if_splits option.splits)

lemma lifecycle_final_tables:
  "record_lifecycle_final_authority project task status snapshot s = Inr (s', n) \<Longrightarrow> tables_only s s'"
  by (auto simp: record_lifecycle_final_authority_def succeeds_iff Let_def split: if_splits
      dest: record_job_retirements_tables)

section \<open>Superseding and enqueueing\<close>

lemma enqueue_row:
  assumes "enqueue_locked sp managed fresh now s = Inr (s', row, created)"
  shows "row \<in> set (st_jobs s')"
proof (cases "find_key (js_project_id sp) (js_idempotency_key sp) s")
  case (Some existing)
  then have "existing \<in> set (st_jobs s)" by (auto simp: find_key_def find_Some_iff)
  then show ?thesis using Some assms
    by (auto simp: enqueue_locked_def ebind_eq_Inr_iff Let_def split: if_splits dest: row_lockedD)
next
  case None
  then show ?thesis using assms
    by (auto simp: enqueue_locked_def ebind_eq_Inr_iff Let_def split: if_splits dest!: commit_eventD)
qed

lemma filter_supersede_evolves:
  assumes "store_ok s" and "\<And>j. p j \<Longrightarrow> active j"
    and "supersede_rows current message now (filter p (st_jobs s)) s = Inr (s', n)"
  shows "evolves T s s'"
proof (rule supersede_rows_evolves[OF assms(1) _ _ _ assms(3)])
  show "distinct (map jb_job_id (filter p (st_jobs s)))"
    using assms(1) by (auto simp: store_ok_def distinct_map_filter)
  show "jb_state j \<in> set ACTIVE_JOB_STATES" if "j \<in> set (filter p (st_jobs s))" for j
    using that assms(2) by (auto simp: active_def)
qed auto

lemma enqueue_specs_evolves:
  assumes "\<And>sp. sp \<in> set specs \<Longrightarrow> 0 < js_max_attempts sp"
    and "enqueue_specs ids now specs s = Inr (s', jids, c, r)"
  shows "evolves T s s'"
  using assms
proof (induction specs arbitrary: ids s jids c r)
  case (Cons sp specs)
  obtain s1 row created jids' c' r' where "enqueue_locked sp True (ids 0) now s = Inr (s1, row, created)"
    and "enqueue_specs (\<lambda>n. ids (Suc n)) now specs s1 = Inr (s', jids', c', r')"
    using Cons.prems(2) by (auto simp: ebind_eq_Inr_iff split: prod.splits)
  then show ?case using enqueue_evolves Cons.IH Cons.prems(1) evolves_trans by (metis list.set_intros)
qed simp

section \<open>Membership and materialisation\<close>

lemma retire_tasks_steers:
  "store_ok s \<Longrightarrow> retire_tasks project snapshot now tasks s = Inr (s', a, b) \<Longrightarrow> steers T s s'"
proof (induction tasks arbitrary: s a b)
  case (Cons task tasks)
  let ?p = "\<lambda>j. of_task project task j \<and> jb_workflow_managed j \<and> active j"
  obtain s1 n a' b' where sup: "supersede_rows (''snapshot:'' @ int_str snapshot) ABSENT_MESSAGE now
       (filter ?p (st_jobs s)) s = Inr (s1, n)"
    and rest: "retire_tasks project snapshot now tasks
       (s1\<lparr>st_cursors := AList.delete (project, task) (st_cursors s1)\<rparr>) = Inr (s', a', b')"
    using Cons.prems(2) by (auto simp: ebind_eq_Inr_iff Let_def split: prod.splits)
  let ?u = "s1\<lparr>st_cursors := AList.delete (project, task) (st_cursors s1)\<rparr>"
  have "evolves T s s1" using sup by (rule filter_supersede_evolves[OF Cons.prems(1), rotated]) simp
  then have su: "steers T s ?u"
    using evolves_steers tables_only_steers[of s1 ?u] evolves_trans by (fastforce simp: tables_only_def)
  then have "store_ok ?u" using evolves_ok Cons.prems(1) by blast
  then show ?case using Cons.IH rest su evolves_trans by blast
qed simp

lemma reconcile_projects_steers:
  "store_ok s \<Longrightarrow> reconcile_projects snapshot expected evaluated now projects s = Inr (s', a, b) \<Longrightarrow> steers T s s'"
proof (induction projects arbitrary: s a b)
  case (Cons project projects)
  let ?tasks = "expected_tasks project expected"
  obtain s1 c d a' b' where r: "retire_tasks project snapshot now (filter (\<lambda>t. t \<notin> set ?tasks) (known_tasks project s)) s
      = Inr (s1, c, d)"
    and rest: "reconcile_projects snapshot expected evaluated now projects
      (replace_members project snapshot ?tasks evaluated s1) = Inr (s', a', b')"
    using Cons.prems(2) by (auto simp: ebind_eq_Inr_iff Let_def split: prod.splits)
  let ?u = "replace_members project snapshot ?tasks evaluated s1"
  have su: "steers T s ?u"
    using retire_tasks_steers[OF Cons.prems(1) r] tables_only_steers[OF replace_members_tables] evolves_trans by blast
  then have "store_ok ?u" using evolves_ok Cons.prems(1) by blast
  then show ?case using Cons.IH rest su evolves_trans by blast
qed simp

lemma membership_steers:
  "store_ok s \<Longrightarrow> reconcile_snapshot_membership snapshot ps expected evaluated now s = Inr (s', w) \<Longrightarrow> steers T s s'"
  by (auto simp: reconcile_snapshot_membership_def succeeds_iff Let_def dest: reconcile_projects_steers
      split: if_splits)

lemma reconcile_scheduleE:
  assumes "reconcile_schedule project task snapshot generation specs record_cut kind reason ids now s = Inr (s', w)"
  obtains "s' = s" "w = rejected_write"
  | c s1 jids created replays s2 n where
    "map_of (st_cursors s) (py_strip project, py_strip task) = Some c" "generation_current snapshot s"
    "cu_snapshot_generation c = snapshot" "cu_job_generation c = py_strip generation"
    "list_all (spec_in_scope (py_strip project) (py_strip task) (py_strip generation)) specs"
    "distinct (map js_idempotency_key specs)"
    "enqueue_specs ids now specs s = Inr (s1, jids, created, replays)"
    "supersede_rows (py_strip generation) (py_strip reason) now (filter (replaced (py_strip project) (py_strip task)
      (py_strip generation) (map js_idempotency_key specs)) (st_jobs s1)) s1 = Inr (s2, n)"
    "record_schedule_cut record_cut (py_strip project) (py_strip task) (managed_kind specs) (cu_decision_revision c)
      snapshot jids (materialize_cursor (py_strip project, py_strip task) snapshot (py_strip generation) s2) = Inr s'"
    "w = \<lparr>sw_accepted = True, sw_created = created, sw_replayed = replays, sw_superseded = n\<rparr>"
  using assms by (auto simp: reconcile_schedule_def succeeds_iff Let_def split: option.splits if_splits)

lemma record_schedule_cut_tables:
  "record_schedule_cut record_cut project task kind revision snapshot jids s = Inr s' \<Longrightarrow> tables_only s s'"
  by (auto simp: record_schedule_cut_def ebind_eq_Inr_iff split: if_splits dest: record_job_retirements_tables)

lemma reconcile_schedule_steers:
  assumes ok: "store_ok s" and specs: "\<And>sp. sp \<in> set specs \<Longrightarrow> 0 < js_max_attempts sp"
    and call: "reconcile_schedule project task snapshot generation specs record_cut kind reason ids now s = Inr (s', w)"
  shows "steers T s s'"
  using call
proof (rule reconcile_scheduleE)
  fix c s1 jids created replays s2 n
  assume e: "enqueue_specs ids now specs s = Inr (s1, jids, created, replays)"
    and sup: "supersede_rows (py_strip generation) (py_strip reason) now (filter (replaced (py_strip project)
      (py_strip task) (py_strip generation) (map js_idempotency_key specs)) (st_jobs s1)) s1 = Inr (s2, n)"
    and cut: "record_schedule_cut record_cut (py_strip project) (py_strip task) (managed_kind specs)
      (cu_decision_revision c) snapshot jids
      (materialize_cursor (py_strip project, py_strip task) snapshot (py_strip generation) s2) = Inr s'"
  have s1: "evolves T s s1" using enqueue_specs_evolves[OF specs e] by blast
  then have "store_ok s1" using evolves_ok ok by blast
  then have "evolves T s1 s2" by (rule filter_supersede_evolves[OF _ _ sup]) (simp add: replaced_def)
  moreover have "tables_only s2 s'"
    using tables_only_trans[OF materialize_cursor_tables record_schedule_cut_tables[OF cut]] .
  ultimately show "steers T s s'" using s1 evolves_steers evolves_trans tables_only_steers by meson
qed simp

section \<open>Events\<close>

lemma order_event_tables [simp]: "tables_only s (order_event key g revision s)"
  by (simp add: order_event_def tables_only_def)

lemma order_source_tables [simp]: "tables_only s (order_source e s)"
  by (simp add: order_source_def split: option.split)

lemma event_retirement_tables:
  "record_event_handoff_retirements project task generation lane n lanes s = Inr (s', m) \<Longrightarrow> tables_only s s'"
  by (auto simp: record_event_handoff_retirements_def succeeds_iff Let_def split: if_splits intro!: fold_tables_only)

lemma reconcile_handoffs_tables:
  "reconcile_event_handoff_retirements project task lanes retired actions s = Inr (s', m) \<Longrightarrow> tables_only s s'"
  by (auto simp: reconcile_event_handoff_retirements_def succeeds_iff Let_def split: if_splits option.splits
      dest: event_retirement_tables)

lemma retire_named_tables: "retire_named_lanes e generation j s = Inr s' \<Longrightarrow> tables_only s s'"
  by (auto simp: retire_named_lanes_def ebind_eq_Inr_iff split: if_splits dest: event_retirement_tables)

lemma make_spec_attempts: "make_spec a b c d e f g h i k l m n = Inr sp \<Longrightarrow> 0 < js_max_attempts sp"
  by (auto simp: make_spec_def succeeds_iff)

text \<open>An enqueue followed by the fencing of what it replaces.\<close>

lemma enqueue_supersede_evolves:
  assumes ok: "store_ok s" and max: "0 < js_max_attempts sp"
    and e: "enqueue_locked sp managed fresh now s = Inr (s1, row, created)"
    and p: "\<And>j. p j \<Longrightarrow> active j"
    and sup: "supersede_rows current message now' (filter p (st_jobs s1)) s1 = Inr (s2, n)"
  shows "evolves T s s2"
proof -
  have s1: "evolves T s s1" using enqueue_evolves[OF max e] .
  then have "store_ok s1" using evolves_ok ok by blast
  then have "evolves T s1 s2" using p sup by (rule filter_supersede_evolves)
  with s1 show ?thesis by (rule evolves_trans)
qed

lemma activate_event_steers:
  assumes ok: "store_ok s" and call: "activate_event e advanced fresh now s = Inr (s', w)"
  shows "steers T s s'"
proof -
  define s2 where "s2 = write_event_cursor (er_project_id e, er_task_id e, event_lane e) (er_decision_revision e)
    (event_generation e advanced (snd (next_counter EVENT_SEQUENCE s)) (fst (next_counter EVENT_SEQUENCE s)))
    (snd (next_counter EVENT_SEQUENCE s)) (fst (next_counter EVENT_SEQUENCE s))"
  obtain generation sp s3 row created s4 n where sp: "event_spec e generation = Inr sp"
    and e: "enqueue_locked sp False fresh now s2 = Inr (s3, row, created)"
    and sup: "supersede_rows generation (er_reason e) now
      (filter (displaced e (js_scheduling_lane sp) generation) (st_jobs s3)) s3 = Inr (s4, n)"
    and last: "retire_named_lanes e generation row s4 = Inr s'"
    using call unfolding activate_event_def s2_def
    by (auto simp: ebind_eq_Inr_iff Let_def split: prod.splits if_splits)
  have t: "tables_only s s2" unfolding s2_def
    by (simp add: tables_only_def write_event_cursor_def next_counter_def Let_def)
  then have "store_ok s2" using evolves_ok[OF tables_only_steers] ok by blast
  moreover have "0 < js_max_attempts sp" using sp make_spec_attempts by (simp add: event_spec_def)
  ultimately have "evolves T s2 s4" using e
    by (rule enqueue_supersede_evolves[OF _ _ _ _ sup]) (simp add: displaced_def)
  moreover have "tables_only s4 s'" using retire_named_tables[OF last] .
  ultimately show ?thesis using t evolves_steers tables_only_steers evolves_trans by meson
qed

lemma materialize_event_steers:
  assumes ok: "store_ok s" and call: "materialize_event request fresh now s = Inr (s', w)"
  shows "steers T s s'"
proof -
  obtain e where call': "(case order_of_source e s of Source_stale \<Rightarrow> Inr (s, stale_event e s)
     | Source_conflict \<Rightarrow> Inl StoreError
     | Source_current advanced \<Rightarrow> (let s1 = order_source e s in
         case protected_job e s1 of
            Some j \<Rightarrow> Inr (s1, \<lparr>ew_job = (if same_event e j then Some j else None), ew_accepted = True,
              ew_created = False, ew_superseded = 0\<rparr>)
          | None \<Rightarrow> activate_event e advanced fresh now s1)) = Inr (s', w)"
    using call by (auto simp: materialize_event_def ebind_eq_Inr_iff)
  have ordered: "steers T s (order_source e s)" "store_ok (order_source e s)"
    using tables_only_steers[OF order_source_tables] evolves_ok ok by blast+
  show ?thesis using call' ordered activate_event_steers[OF ordered(2)] evolves_trans[OF ordered(1)]
    by (auto simp: Let_def split: source_order.splits option.splits)
qed

lemma retirable_row_active: "retirable_row project task lane j \<Longrightarrow> active j"
  by (auto simp: retirable_row_def active_def job_states)

lemma retire_laneE:
  assumes "retire_event_lane project task lane namespace g revision reason now s = Inr (s', w)"
  obtains "s' = s" "w = refused_event"
  | u n where "u = order_event (py_strip project, py_strip task, py_strip namespace) g (py_strip revision) s"
    "supersede_rows (''decision:'' @ int_str g @ '':'' @ py_strip revision) (py_strip reason) now
      (filter (retirable_row (py_strip project) (py_strip task) (py_strip lane)) (st_jobs u)) u = Inr (s', n)"
    "w = \<lparr>ew_job = None, ew_accepted = True, ew_created = False, ew_superseded = n\<rparr>"
  using assms by (auto simp: retire_event_lane_def succeeds_iff Let_def split: option.splits if_splits)

lemma retire_lane_steers:
  assumes ok: "store_ok s"
    and call: "retire_event_lane project task lane namespace g revision reason now s = Inr (s', w)"
  shows "steers T s s'"
  using call
proof (rule retire_laneE)
  fix u n
  assume u: "u = order_event (py_strip project, py_strip task, py_strip namespace) g (py_strip revision) s"
    and sup: "supersede_rows (''decision:'' @ int_str g @ '':'' @ py_strip revision) (py_strip reason) now
      (filter (retirable_row (py_strip project) (py_strip task) (py_strip lane)) (st_jobs u)) u = Inr (s', n)"
  have su: "steers T s u" "store_ok u"
    using tables_only_steers[OF order_event_tables] evolves_ok ok unfolding u by blast+
  have "evolves T u s'" by (rule filter_supersede_evolves[OF su(2) retirable_row_active sup])
  then show "steers T s s'" using su(1) evolves_steers evolves_trans by blast
qed simp

lemma retire_managed_tables: "retire_managed_work q s = Inr s' \<Longrightarrow> tables_only s s'"
  by (auto simp: retire_managed_work_def ebind_eq_Inr_iff split: if_splits dest: record_job_retirements_tables)

lemma stale_activation_evolves:
  assumes ok: "store_ok s" and max: "0 < js_max_attempts (lq_spec q)"
    and call: "stale_activation q observed fresh now s = Inr (s', w)"
  shows "evolves T s s'"
proof -
  obtain s1 row created where e: "enqueue_locked (lq_spec q) False fresh now s = Inr (s1, row, created)"
    and rest: "s' = s1 \<or> active row \<and> (\<exists>payload row'. write_owned (jb_job_id row)
      (superseded_row observed STALE_SOURCE now) ''superseded'' payload now s1 = Inr (s', row'))"
    using call unfolding stale_activation_def by (elim ebind_InrE) (fastforce simp: ebind_eq_Inr_iff split: if_splits prod.splits)
  have s1: "evolves T s s1" using enqueue_evolves[OF max e] .
  show ?thesis
  proof (cases "s' = s1")
    case False
    then obtain payload row' where act: "active row"
      and w: "write_owned (jb_job_id row) (superseded_row observed STALE_SOURCE now) ''superseded'' payload now s1
        = Inr (s', row')" using rest by blast
    have ok1: "store_ok s1" using evolves_ok[OF s1 ok] .
    have row: "row \<in> set (st_jobs s1)" using enqueue_row[OF e] .
    have "job_move T j (superseded_row observed STALE_SOURCE now j)"
      if "j \<in> set (st_jobs s1)" "jb_job_id j = jb_job_id row" for j
    proof -
      have "j = row" using row_unique[OF ok1 that(1) row that(2)] .
      then show ?thesis using act by (auto simp: active_def intro: move_superseded)
    qed
    then have "evolves T s1 s'" using write_owned_evolves[OF w] by blast
    with s1 show ?thesis by (rule evolves_trans)
  qed (use s1 in simp)
qed

lemma replace_lane_steers:
  assumes ok: "store_ok s" and max: "0 < js_max_attempts (lq_spec q)"
    and call: "replace_lane q message fresh now s = Inr (s', w)"
  shows "steers T s s'"
proof -
  let ?sp = "lq_spec q"
  define s1 where "s1 = order_event (js_project_id ?sp, js_task_id ?sp, js_scheduling_lane ?sp)
    (lq_source_generation q) (js_generation ?sp) s"
  obtain s2 row created s3 n where e: "enqueue_locked ?sp False fresh now s1 = Inr (s2, row, created)"
    and sup: "supersede_rows (js_generation ?sp) message now (filter (\<lambda>j. of_task (js_project_id ?sp) (js_task_id ?sp) j
       \<and> jb_scheduling_lane j = js_scheduling_lane ?sp \<and> active j \<and> jb_job_id j \<noteq> jb_job_id row) (st_jobs s2)) s2
      = Inr (s3, n)"
    and last: "retire_managed_work q s3 = Inr s'"
    using call unfolding replace_lane_def Let_def s1_def by (auto simp: ebind_eq_Inr_iff)
  have s1: "steers T s s1" "store_ok s1"
    using tables_only_steers[OF order_event_tables] evolves_ok ok unfolding s1_def by blast+
  have "evolves T s1 s3" by (rule enqueue_supersede_evolves[OF s1(2) max e _ sup]) simp
  then show ?thesis using s1(1) tables_only_steers[OF retire_managed_tables[OF last]] evolves_steers evolves_trans
    by meson
qed

lemma replacing_lane_steers:
  assumes "store_ok s" and "0 < js_max_attempts (lq_spec q)"
    and "enqueue_replacing_lane q fresh now s = Inr (s', w)"
  shows "steers T s s'"
  using assms replace_lane_steers[OF assms(1,2)] evolves_steers[OF stale_activation_evolves[OF assms(1,2)]]
  by (auto simp: enqueue_replacing_lane_def replay_activation_def succeeds_iff Let_def ebind_eq_Inr_iff
      split: if_splits option.splits dest: retire_managed_tables intro: tables_only_steers)

section \<open>One call\<close>

text \<open>
  A specification that its constructor made.  The calls are those of the module that return; a publication
  whose publisher fails is included, with no durable repair of its own.
\<close>

definition well_made :: "job_spec \<Rightarrow> bool" where
  "well_made sp \<longleftrightarrow> (\<exists>a b c d e f g h i k l m n. make_spec a b c d e f g h i k l m n = Inr sp)"

lemma well_made_attempts: "well_made sp \<Longrightarrow> 0 < js_max_attempts sp"
  by (auto simp: well_made_def dest: make_spec_attempts)

inductive schedule_call :: "store \<Rightarrow> store \<Rightarrow> bool" where
  call_allocate: "allocate_snapshot_generation s = (s', g) \<Longrightarrow> schedule_call s s'"
| call_allocate_event: "allocate_event_generation s = (s', g) \<Longrightarrow> schedule_call s s'"
| call_accept: "accept_snapshot_generation g s = Inr (s', b) \<Longrightarrow> schedule_call s s'"
| call_publish: "publish_snapshot_generation g call None s = (s', outcome) \<Longrightarrow> schedule_call s s'"
| call_window: "allocate_decision_window entries limit snapshot scope s = Inr (s', offset) \<Longrightarrow> schedule_call s s'"
| call_membership: "reconcile_snapshot_membership snapshot ps expected evaluated now s = Inr (s', w)
    \<Longrightarrow> schedule_call s s'"
| call_activate: "activate_schedule project task revision snapshot deadline action lanes now s = Inr (s', v)
    \<Longrightarrow> schedule_call s s'"
| call_reconcile: "(\<And>sp. sp \<in> set specs \<Longrightarrow> well_made sp)
    \<Longrightarrow> reconcile_schedule project task snapshot generation specs record_cut kind reason ids now s = Inr (s', w')
    \<Longrightarrow> schedule_call s s'"
| call_final: "record_lifecycle_final_authority project task status snapshot s = Inr (s', n) \<Longrightarrow> schedule_call s s'"
| call_order: "activate_event_order project task namespace g revision s = Inr (s', b) \<Longrightarrow> schedule_call s s'"
| call_event: "materialize_event e fresh now s = Inr (s', w'') \<Longrightarrow> schedule_call s s'"
| call_retire_lane: "retire_event_lane project task lane namespace g revision reason now s = Inr (s', w'')
    \<Longrightarrow> schedule_call s s'"
| call_replace_lane: "well_made (lq_spec q) \<Longrightarrow> enqueue_replacing_lane q fresh now s = Inr (s', w'')
    \<Longrightarrow> schedule_call s s'"
| call_handoff: "reconcile_event_handoff_retirements project task lanes retired actions s = Inr (s', n)
    \<Longrightarrow> schedule_call s s'"

lemma generation_calls_tables:
  "tables_only s (fst (allocate_snapshot_generation s))"
  "tables_only s (fst (allocate_event_generation s))"
  "accept_snapshot_generation g s = Inr (s', b) \<Longrightarrow> tables_only s s'"
  "tables_only s (fst (publish_snapshot_generation g call None s))"
  "allocate_decision_window entries limit snapshot scope s = Inr (s', offset) \<Longrightarrow> tables_only s s'"
  "activate_event_order project task namespace g revision s = Inr (s', b) \<Longrightarrow> tables_only s s'"
proof -
  show "tables_only s (fst (publish_snapshot_generation g call None s))"
    by (simp add: publish_snapshot_generation_def withdraw_accepted_def mark_published_def tables_only_def
        set_counter_def Let_def split: publisher_call.split)
qed (auto simp: allocate_snapshot_generation_def allocate_event_generation_def next_ordering_generation_def
    accept_snapshot_generation_def allocate_decision_window_def activate_event_order_def succeeds_iff Let_def
    split: if_splits option.splits)

theorem schedule_call_steers: "schedule_call s s' \<Longrightarrow> store_ok s \<Longrightarrow> steers T s s'"
proof (induction rule: schedule_call.induct)
  case (call_allocate s s' g)
  then show ?case using generation_calls_tables(1)[of s] by (simp add: tables_only_steers)
next
  case (call_allocate_event s s' g)
  then show ?case using generation_calls_tables(2)[of s] by (simp add: tables_only_steers)
next
  case (call_publish g call s s' outcome)
  then show ?case using generation_calls_tables(4)[of s g call] by (simp add: tables_only_steers)
next
  case (call_reconcile specs project task snapshot generation record_cut kind reason ids now s s' w')
  then show ?case using reconcile_schedule_steers well_made_attempts by blast
next
  case (call_replace_lane q fresh now s s' w'')
  then show ?case using replacing_lane_steers well_made_attempts by blast
qed (auto intro: tables_only_steers[OF generation_calls_tables(3)] tables_only_steers[OF generation_calls_tables(5)]
    tables_only_steers[OF generation_calls_tables(6)] membership_steers tables_only_steers[OF activate_tables]
    tables_only_steers[OF lifecycle_final_tables] materialize_event_steers retire_lane_steers
    tables_only_steers[OF reconcile_handoffs_tables])

end
