(* ===== verification/Invariants.thy ===== *)
theory Invariants
  imports Main
begin

text \<open>
  Invariants of transition systems: the induction every state machine of the development uses.
\<close>

locale inductive_invariant =
  fixes step :: "'s \<Rightarrow> 's \<Rightarrow> bool" and start :: 's and inv :: "'s \<Rightarrow> bool"
  assumes init: "inv start"
    and keep: "step s s' \<Longrightarrow> inv s \<Longrightarrow> inv s'"
begin

lemma forever: "step\<^sup>*\<^sup>* s s' \<Longrightarrow> inv s \<Longrightarrow> inv s'"
  by (induction rule: rtranclp_induct) (auto intro: keep)

lemma reachable: "step\<^sup>*\<^sup>* start s \<Longrightarrow> inv s"
  using forever init by blast

end

end
