(* ===== verification/JobMachine.thy ===== *)
theory JobMachine
  imports ScheduleSteps Invariants
begin

text \<open>
  The job store as a state machine.  A configuration is the store with the lease tokens handed out so far; a
  step is one call of one operation that returned (a call that raises is rolled back).  The token factory
  hands out a token that was never handed out before, as \<open>uuid4\<close> does.
\<close>

section \<open>Steps\<close>

type_synonym config = "store \<times> string set"

text \<open>\<open>R\<close> restricts the claim requests of a run; \<open>step_schedule\<close> is a call of a scheduling operation.\<close>

inductive job_step :: "claim_request set \<Rightarrow> config \<Rightarrow> config \<Rightarrow> bool" for R where
  step_enqueue: "make_spec project task gen action key phase evidence head priority limit reason payload lane = Inr sp
    \<Longrightarrow> enqueue sp fresh now s = Inr (s', row) \<Longrightarrow> job_step R (s, U) (s', U)"
| step_claim: "req \<in> R \<Longrightarrow> token \<notin> U \<Longrightarrow> claim_next owner secs req fair token now limit s = Inr (s', res)
    \<Longrightarrow> job_step R (s, U) (s', insert token U)"
| step_reclaim: "token \<notin> U \<Longrightarrow> reclaim_abandoned jid old owner secs phase token now s = Inr (s', row)
    \<Longrightarrow> job_step R (s, U) (s', insert token U)"
| step_recover_expired: "recover_expired project actions phases now limit s = Inr (s', n) \<Longrightarrow> job_step R (s, U) (s', U)"
| step_recover_abandoned: "recover_abandoned owner phase project actions phases now limit s = Inr (s', n)
    \<Longrightarrow> job_step R (s, U) (s', U)"
| step_renew: "renew secs jid token now s = Inr (s', row) \<Longrightarrow> job_step R (s, U) (s', U)"
| step_checkpoint: "checkpoint phase v jid token now s = Inr (s', row) \<Longrightarrow> job_step R (s, U) (s', U)"
| step_complete: "complete_job res landings jid token now s = Inr (s', row) \<Longrightarrow> job_step R (s, U) (s', U)"
| step_fail: "fail_job cat err retryable delay ph jid token now s = Inr (s', row) \<Longrightarrow> job_step R (s, U) (s', U)"
| step_requeue: "requeue_owned_without_attempt expected phase reason jid token now s = Inr (s', row)
    \<Longrightarrow> job_step R (s, U) (s', U)"
| step_defer: "defer_owned_without_attempt reason delay jid token now s = Inr (s', row) \<Longrightarrow> job_step R (s, U) (s', U)"
| step_wait: "defer_owned_until reason retry_at jid token now s = Inr (s', row) \<Longrightarrow> job_step R (s, U) (s', U)"
| step_cancel_owned: "cancel_owned reason jid token now s = Inr (s', row) \<Longrightarrow> job_step R (s, U) (s', U)"
| step_cancel: "cancel jid gen reason now s = Inr (s', row) \<Longrightarrow> job_step R (s, U) (s', U)"
| step_supersede: "supersede jid gen replacement reason now s = Inr (s', row) \<Longrightarrow> job_step R (s, U) (s', U)"
| step_supersede_task: "supersede_task_generation project task keep reason now limit s = Inr (s', n)
    \<Longrightarrow> job_step R (s, U) (s', U)"
| step_rearm: "rearm_exhausted_job jid gen phase reason now s = Inr (s', row) \<Longrightarrow> job_step R (s, U) (s', U)"
| step_quarantine: "quarantine_owned cat err jid token now s = Inr (s', row) \<Longrightarrow> job_step R (s, U) (s', U)"
| step_settle: "settle_quarantined_call operation receipt cat err' retryable delay jid token now s = Inr (s', row)
    \<Longrightarrow> job_step R (s, U) (s', U)"
| step_mark: "mark_quarantine_recycle_requested stamp jid token now s = Inr (s', row) \<Longrightarrow> job_step R (s, U) (s', U)"
| step_landings: "record_landing_facts project task facts now s = Inr (s', n) \<Longrightarrow> job_step R (s, U) (s', U)"
| step_schedule: "schedule_call s s' \<Longrightarrow> job_step R (s, U) (s', U)"

inductive_cases job_stepE: "job_step R (s, U) (s', U')"

lemma record_landings_evolve: "record_landing_facts project task facts now s = Inr (s', n) \<Longrightarrow> evolves T s s'"
  by (auto simp: record_landing_facts_def ebind_eq_Inr_iff dest!: landings_evolve)

lemmas operations_evolve = reclaim_evolves recover_expired_evolves recover_abandoned_evolves
  renewing.refines checkpointing.refines completing.refines failing.refines requeueing.refines
  deferring.refines waiting.refines cancelling.refines cancel_evolves supersede_evolves
  supersede_task_evolves rearm_evolves quarantine_evolves settle_evolves mark_evolves record_landings_evolve

text \<open>A step is a sequence of writes that may install only the tokens it hands out.\<close>

lemma job_step_cases:
  assumes "job_step R (s, U) (s', U')" and ok: "store_ok s"
  shows "U \<subseteq> U' \<and> (schedule_call s s' \<or> evolves (U' - U) s s')"
  using assms(1)
proof cases
  case (step_enqueue a b c d e f g h i k l m n sp fresh now row)
  then obtain created where "enqueue_locked sp False fresh now s = Inr (s', row, created)"
    by (auto simp: enqueue_def ebind_eq_Inr_iff)
  then show ?thesis using enqueue_evolves[OF make_spec_attempts] step_enqueue by auto
next
  case (step_claim req token owner secs fair now limit res)
  then have "U' - U = {token}" by auto
  then show ?thesis using claim_next_evolves[OF ok] step_claim by auto
next
  case (step_reclaim token jid old owner secs phase now row)
  then have "U' - U = {token}" by auto
  then show ?thesis using reclaim_evolves step_reclaim by auto
qed (auto intro: operations_evolve ok)

lemma job_step_evolves:
  assumes "job_step R (s, U) (s', U')" and ok: "store_ok s"
  shows "U \<subseteq> U' \<and> steers (U' - U) s s'"
  using job_step_cases[OF assms] schedule_call_steers ok evolves_steers by blast

text \<open>The tokens on the rows were all handed out.\<close>

definition config_ok :: "config \<Rightarrow> bool" where
  "config_ok c \<longleftrightarrow> store_ok (fst c) \<and> (\<forall>j \<in> set (st_jobs (fst c)). \<forall>t. jb_lease_token j = Some t \<longrightarrow> t \<in> snd c)"

lemma job_step_ok: "job_step R c c' \<Longrightarrow> config_ok c \<Longrightarrow> config_ok c'"
proof -
  assume step: "job_step R c c'" and ok: "config_ok c"
  obtain s U s' U' where c: "c = (s, U)" "c' = (s', U')" by fastforce
  have ev: "U \<subseteq> U'" "steers (U' - U) s s'"
    using job_step_evolves step ok unfolding c config_ok_def by auto
  have "t \<in> U'" if "j \<in> set (st_jobs s')" "jb_lease_token j = Some t" for j t
  proof (rule ccontr)
    assume "t \<notin> U'"
    then have "t \<notin> U' - U" and "\<And>i. i \<in> set (st_jobs s) \<Longrightarrow> jb_lease_token i \<noteq> Some t"
      using ok ev(1) unfolding c config_ok_def by auto
    then show False using evolves_token[OF ev(2), of t "jb_job_id j"] that by blast
  qed
  then show ?thesis using ev(2) evolves_ok ok unfolding c config_ok_def by auto
qed

interpretation jobs: inductive_invariant "job_step R" "(empty_store, {})" config_ok for R
proof
  show "config_ok (empty_store, {})" by (simp add: config_ok_def store_ok_empty) (simp add: empty_store_def)
qed (rule job_step_ok)

text \<open>Runs, as the sequence of writes they amount to.\<close>

lemma run_evolves:
  assumes "(job_step R)\<^sup>*\<^sup>* (s, U) (s', U')" and "store_ok s"
  shows "U \<subseteq> U' \<and> steers (U' - U) s s'"
  using assms(1)
proof (induction "(s', U')" arbitrary: s' U' rule: rtranclp_induct)
  case base
  then show ?case by simp
next
  case (step c)
  obtain u V where c: "c = (u, V)" by fastforce
  have IH: "U \<subseteq> V" "steers (V - U) s u" using step.hyps(3)[OF c] by auto
  then have "store_ok u" using assms(2) evolves_ok by blast
  then have "V \<subseteq> U'" "steers (U' - V) u s'" using job_step_evolves step.hyps(2) c by auto
  then show ?case using IH evolves_mono[OF IH(2), of "U' - U"] evolves_mono[of _ "U' - V" u s' "U' - U"] evolves_trans
    by (metis Diff_mono order_refl order_trans)
qed

end
