(* ===== verification/JobExclusion.thy ===== *)
theory JobExclusion
  imports JobMachine
begin

text \<open>
  What a claim does to the other jobs: mutual exclusion of the jobs of one task, the job that a claim picks,
  and that a claim succeeds whenever a job is claimable.
\<close>

section \<open>One running job per task\<close>

definition task_of :: "job \<Rightarrow> string \<times> string" where
  "task_of j = (jb_project_id j, jb_task_id j)"

definition exclusive :: "store \<Rightarrow> bool" where
  "exclusive s \<longleftrightarrow> distinct (map task_of (filter (\<lambda>j. jb_state j = Job_RUNNING) (st_jobs s)))"

text \<open>A row starts running only when a claim hands out its token.\<close>

lemma job_move_running: "job_move {} j j' \<Longrightarrow> jb_state j' = Job_RUNNING \<Longrightarrow> jb_state j = Job_RUNNING"
  by (induction rule: job_move.induct) (auto simp: row_defs job_states split: if_splits)

lemma distinct_filter_map:
  assumes "distinct (map g (filter P xs))" and "\<And>x. x \<in> set xs \<Longrightarrow> g (f x) = g x \<and> (P (f x) \<longrightarrow> P x)"
  shows "distinct (map g (filter P (map f xs)))"
  using assms
proof (induction xs)
  case (Cons x xs)
  have "g ` {y \<in> f ` set xs. P y} \<subseteq> g ` {y \<in> set xs. P y}"
    using Cons.prems(2) by (auto simp: image_iff)
  then show ?case using Cons by (auto split: if_splits)
qed simp

lemma exclusive_update:
  assumes "exclusive s"
    and "\<And>j. j \<in> set (st_jobs s) \<Longrightarrow> p j \<Longrightarrow>
      identity_of (f j) = identity_of j \<and> (jb_state (f j) = Job_RUNNING \<longrightarrow> jb_state j = Job_RUNNING)"
  shows "exclusive (update_rows p f s)"
  using distinct_filter_map[OF assms(1)[unfolded exclusive_def], of "\<lambda>j. if p j then f j else j"] assms(2)
  by (simp add: exclusive_def update_rows_def task_of_def identity_of_def)

lemma exclusive_jobs: "exclusive s \<Longrightarrow> st_jobs s' = st_jobs s \<Longrightarrow> exclusive s'"
  by (simp add: exclusive_def)

lemma writes_exclusive: "written b {} s s' \<Longrightarrow> exclusive s \<Longrightarrow> exclusive s'"
proof (induction rule: written.induct)
  case (write_rows s p f)
  then show ?case
    using job_move_identity job_move_running by (intro exclusive_update) blast+
next
  case (write_insert sp jid s managed now)
  then show ?case by (simp add: exclusive_def new_job_def)
qed (auto elim!: exclusive_jobs simp: note_fairness_def next_counter_def Let_def)

lemma evolves_exclusive: "evolves_in b {} s s' \<Longrightarrow> exclusive s \<Longrightarrow> exclusive s'"
  by (induction rule: evolves_induct) (auto intro: writes_exclusive)

lemma reclaim_exclusive:
  assumes "reclaim_abandoned jid old owner secs phase token now s = Inr (s', row)" and "exclusive s"
  shows "exclusive s'"
proof -
  obtain p etype payload where c: "commit_event (py_strip jid) etype payload now (update_rows p
      (reclaimed_row (py_strip owner) token secs now) s) = Inr (s', row)"
    using assms(1) by (auto simp: reclaim_abandoned_def succeeds_iff)
  have "exclusive (update_rows p (reclaimed_row (py_strip owner) token secs now) s)"
    using assms(2) by (rule exclusive_update) (simp add: reclaimed_row_def identity_of_def)
  then show ?thesis by (rule exclusive_jobs) (use commit_eventD[OF c] in simp)
qed

text \<open>A claim without compatible actions takes a job of an idle task.\<close>

lemma candidate_idle:
  assumes "candidate s r now j" and "cr_compatible r = None"
  shows "task_of j \<notin> task_of ` set (filter (\<lambda>j. jb_state j = Job_RUNNING) (st_jobs s))"
  using assms by (auto simp: candidate_def task_busy_def list_ex_iff task_of_def)

lemma claim_candidate_exclusive:
  assumes ok: "store_ok s" and ex: "exclusive s" and none: "cr_compatible r = None"
    and claim: "claim_candidate r fair owner token secs now s = Inr (s', res)"
  shows "exclusive s'"
proof (cases res)
  case None
  then have "s' = s" using claim by (auto simp: claim_candidate_def ebind_eq_Inr_iff Let_def split: list.splits)
  then show ?thesis using ex by simp
next
  case (Some row)
  with claim obtain selected p where sel: "selected \<in> set (st_jobs s)" "candidate s r now selected"
    and p: "p = (\<lambda>j. jb_job_id j = jb_job_id selected \<and> jb_state j = jb_state selected)"
    and s': "s' = append_event row ''claimed'' [(''attempt'', Ev_json (PInt (jb_attempts row)))] now
      (if fair then note_fairness (jb_project_id row) (update_rows p (claimed_row owner token secs now) s)
       else update_rows p (claimed_row owner token secs now) s)"
    by (auto elim: claim_selected)
  let ?s = "update_rows p (claimed_row owner token secs now) s"
  have jobs: "st_jobs s' = st_jobs ?s" unfolding s' by (simp add: note_fairness_def next_counter_def Let_def)
  obtain xs ys where split: "st_jobs s = xs @ selected # ys" using sel(1) by (meson split_list)
  let ?c = "claimed_row owner token secs now"
  have "\<not> p j" if "j \<in> set xs \<union> set ys" for j
    using that ok unfolding store_ok_def split p by (auto simp: image_iff)
  then have "map (\<lambda>j. if p j then ?c j else j) xs = xs" "map (\<lambda>j. if p j then ?c j else j) ys = ys"
    by (auto intro: map_idI)
  then have "st_jobs ?s = xs @ ?c selected # ys"
    unfolding update_rows_def split by (simp add: p)
  moreover have "task_of (?c selected) = task_of selected" "jb_state (?c selected) = Job_RUNNING"
    by (simp_all add: claimed_row_def task_of_def)
  ultimately show ?thesis
    using ex candidate_idle[OF sel(2) none] unfolding exclusive_def jobs split by (auto split: if_splits)
qed

lemma normalized_none: "normalized_claim req = Inr r \<Longrightarrow> cr_compatible req = None \<Longrightarrow> cr_compatible r = None"
  by (auto simp: normalized_claim_def ebind_eq_Inr_iff split: if_splits)

lemma claim_next_parts:
  assumes "claim_next owner secs req fair token now limit s = Inr (s', res)"
  obtains r n acts ps u where "normalized_claim req = Inr r" and "recover_projects now n acts ps s = Inr u"
    and "claim_candidate r (fair \<and> cr_project_id req = None) (py_strip owner) token secs now u = Inr (s', res)"
  using assms by (auto simp: claim_next_def succeeds_iff)

lemma claim_next_exclusive:
  assumes ok: "store_ok s" and ex: "exclusive s" and none: "cr_compatible req = None"
    and claim: "claim_next owner secs req fair token now limit s = Inr (s', res)"
  shows "exclusive s'"
proof -
  obtain r n acts ps u where r: "normalized_claim req = Inr r" and u: "recover_projects now n acts ps s = Inr u"
    and c: "claim_candidate r (fair \<and> cr_project_id req = None) (py_strip owner) token secs now u = Inr (s', res)"
    using claim by (rule claim_next_parts)
  have ev: "evolves {} s u" using ok u by (rule recover_projects_evolves)
  show ?thesis
    using evolves_ok[OF ev ok] evolves_exclusive[OF ev ex] normalized_none[OF r none] c
    by (rule claim_candidate_exclusive)
qed

text \<open>Requests that declare no compatible actions.\<close>

definition exclusive_requests :: "claim_request set" where
  "exclusive_requests = {req. cr_compatible req = None}"

lemma job_step_exclusive:
  assumes "job_step exclusive_requests (s, U) (s', U')" and ok: "store_ok s" and ex: "exclusive s"
  shows "exclusive s'"
  using assms(1)
proof cases
  case (step_claim req token owner secs fair now limit res)
  then show ?thesis using claim_next_exclusive[OF ok ex] by (simp add: exclusive_requests_def)
next
  case (step_reclaim token jid old owner secs phase now row)
  then show ?thesis using reclaim_exclusive ex by simp
qed (use evolves_exclusive[OF _ ex] job_step_evolves[OF assms(1) ok] in auto)

interpretation exclusion: inductive_invariant "job_step exclusive_requests" "(empty_store, {})"
  "\<lambda>c. store_ok (fst c) \<and> exclusive (fst c)"
proof
  show "store_ok (fst (empty_store, {}::string set)) \<and> exclusive (fst (empty_store, {}::string set))"
    by (simp add: store_ok_empty) (simp add: exclusive_def empty_store_def)
next
  fix c c'
  assume "job_step exclusive_requests c c'" and "store_ok (fst c) \<and> exclusive (fst c)"
  then show "store_ok (fst c') \<and> exclusive (fst c')"
    using job_step_evolves evolves_ok job_step_exclusive by (metis prod.collapse)
qed

section \<open>A claimable job is claimed\<close>

text \<open>What recovery leaves alone: the schedule, and every row that was not running.\<close>

definition recovered :: "store \<Rightarrow> store \<Rightarrow> bool" where
  "recovered s s' \<longleftrightarrow> evolves {} s s' \<and> st_counters s' = st_counters s \<and> st_membership s' = st_membership s
     \<and> st_cursors s' = st_cursors s \<and> (\<forall>j \<in> set (st_jobs s). jb_state j \<noteq> Job_RUNNING \<longrightarrow> j \<in> set (st_jobs s'))"

lemma recovered_refl: "recovered s s"
  by (simp add: recovered_def)

lemma recovered_trans: "recovered s u \<Longrightarrow> recovered u s' \<Longrightarrow> recovered s s'"
  unfolding recovered_def by (metis evolves_trans)

lemma writes_running:
  "written b {} s s' \<Longrightarrow> j' \<in> set (st_jobs s') \<Longrightarrow> jb_state j' = Job_RUNNING
    \<Longrightarrow> \<exists>j \<in> set (st_jobs s). jb_state j = Job_RUNNING \<and> identity_of j' = identity_of j"
proof (induction rule: written.induct)
  case (write_rows s p f)
  then obtain j where "j \<in> set (st_jobs s)" "j' = (if p j then f j else j)" by (auto simp: update_rows_def)
  then show ?case using write_rows job_move_identity job_move_running by (metis (full_types))
qed (auto simp: new_job_def append_event_def note_fairness_def next_counter_def Let_def)

lemma evolves_running:
  assumes "evolves_in b {} s s'"
  shows "j' \<in> set (st_jobs s') \<Longrightarrow> jb_state j' = Job_RUNNING
    \<Longrightarrow> \<exists>j \<in> set (st_jobs s). jb_state j = Job_RUNNING \<and> identity_of j' = identity_of j"
  using assms
proof (induction arbitrary: j' rule: evolves_induct)
  case (step u v)
  then obtain i where "i \<in> set (st_jobs u)" "jb_state i = Job_RUNNING" "identity_of j' = identity_of i"
    using writes_running by blast
  with step.IH show ?case by metis
qed blast

lemma candidate_recovered:
  assumes "recovered s u" and "j \<in> set (st_jobs s)" and "candidate s r now j"
  shows "j \<in> set (st_jobs u) \<and> candidate u r now j"
proof -
  have idle: "task_busy s compatible j" if busy: "task_busy u compatible j" for compatible
  proof -
    obtain i' where i': "i' \<in> set (st_jobs u)" "jb_state i' = Job_RUNNING" "jb_project_id i' = jb_project_id j"
      "jb_task_id i' = jb_task_id j" "case compatible of None \<Rightarrow> True | Some acts \<Rightarrow> jb_action i' \<notin> set acts"
      using busy unfolding task_busy_def list_ex_iff by blast
    then obtain i where "i \<in> set (st_jobs s)" "jb_state i = Job_RUNNING" "identity_of i' = identity_of i"
      using evolves_running assms(1) unfolding recovered_def by blast
    moreover have "jb_project_id i = jb_project_id i'" "jb_task_id i = jb_task_id i'" "jb_action i = jb_action i'"
      using calculation(3) by (simp_all add: identity_of_def)
    ultimately show ?thesis using i'(3-5) unfolding task_busy_def list_ex_iff by metis
  qed
  have "jb_state j \<noteq> Job_RUNNING" using candidate_due[OF assms(3)] by auto
  then have "j \<in> set (st_jobs u)" using assms(1,2) by (simp add: recovered_def)
  moreover have eqs: "st_counters u = st_counters s" "st_membership u = st_membership s" "st_cursors u = st_cursors s"
    using assms(1) by (simp_all add: recovered_def)
  have "managed_current u j = managed_current s j" "snapshot_bound u n = snapshot_bound s n" for n
    by (simp_all only: managed_current_def published_cut_def snapshot_bound_def eqs)
  then have "candidate u r now j" using assms(3) idle by (auto simp: candidate_def)
  ultimately show ?thesis by blast
qed

lemma recovered_event: "commit_event jid etype payload now s = Inr (s', row) \<Longrightarrow> recovered s s'"
  using commit_eventD[of jid etype payload now s s' row] commit_evolves[of jid etype payload now s s' row]
  by (auto simp: recovered_def append_event_def Let_def)

lemma recover_rows_total:
  assumes "store_ok s" and "set rows \<subseteq> set (st_jobs s)" and "distinct (map jb_job_id rows)"
  shows "\<exists>s' n. recover_rows category err now phase rows s = Inr (s', n) \<and> recovered s s'"
  using assms
proof (induction rows arbitrary: s)
  case (Cons row rows)
  let ?p = "same_lease row"
  let ?f = "recovered_row category err now phase (jb_attempts row \<ge> jb_max_attempts row)"
  let ?s = "update_rows ?p ?f s"
  show ?case
  proof (cases "audit_finalizing row \<or> row_count ?p s \<noteq> 1")
    case True
    then show ?thesis using Cons by (auto simp: Let_def)
  next
    case False
    have row: "row \<in> set (st_jobs s)" using Cons.prems(2) by simp
    have same: "j = row" if "j \<in> set (st_jobs s)" "?p j" for j
      using row_unique[OF Cons.prems(1) that(1) row] that(2) by (simp add: same_lease_def)
    have "filter ?p (st_jobs s) \<noteq> []" using False by (auto simp: row_count_def)
    then have p: "?p row" using same by (metis filter_False)
    have move: "job_move {} j (?f j)" if "j \<in> set (st_jobs s)" "?p j" for j
      using same[OF that] that(2) move_recovered by (simp add: same_lease_def)
    then have ev: "written False {} s ?s" by (rule write_rows)
    have "?f row \<in> set (st_jobs ?s)" using row p by (auto simp: update_rows_def)
    moreover have "jb_job_id (?f row) = jb_job_id row" by (simp add: recovered_row_def clear_lease_def)
    ultimately have found: "row_locked (jb_job_id row) ?s = Inr (?f row)"
      using row_locked_iff[OF writes_ok[OF ev Cons.prems(1)]] by simp
    let ?etype = "if jb_attempts row \<ge> jb_max_attempts row then ''exhausted'' else ''recovered''"
    let ?payload = "[(''failure_category'', text_value (failure_category_value category))]"
    let ?u = "append_event (?f row) ?etype ?payload now ?s"
    have c: "commit_event (jb_job_id row) ?etype ?payload now ?s = Inr (?u, ?f row)"
      using found by (simp add: commit_event_def)
    have "recovered s ?s"
      using evolves_write[OF ev] row_other[of _ s ?p ?f]
      by (auto simp: recovered_def same_lease_def) (simp_all add: update_rows_def)
    then have u: "recovered s ?u" using recovered_event[OF c] recovered_trans by blast
    have "store_ok ?u" using u Cons.prems(1) evolves_ok unfolding recovered_def by blast
    moreover have "set rows \<subseteq> set (st_jobs ?s)"
      using Cons.prems(2,3) by (intro rows_kept) (simp_all add: same_lease_def)
    moreover have "distinct (map jb_job_id rows)" using Cons.prems(3) by simp
    ultimately obtain v n where v: "recover_rows category err now phase rows ?u = Inr (v, n)" "recovered ?u v"
      using Cons.IH[of ?u] unfolding append_event_jobs by blast
    have "recover_rows category err now phase (row # rows) s = Inr (v, Suc n)"
      using False c v(1) by (simp add: Let_def)
    then show ?thesis using recovered_trans[OF u v(2)] by blast
  qed
qed (simp add: recovered_refl)

lemma recover_selected_total:
  assumes "store_ok s"
  shows "\<exists>s' n. recover_rows category err now phase (take limit (sort_key k (filter p (st_jobs s)))) s = Inr (s', n)
    \<and> recovered s s'"
  using assms selected_rows(3,4)[OF assms] by (rule recover_rows_total)

lemma eseq_required: "eseq required_str xs = Inr ys \<Longrightarrow> eseq required_str ys = Inr ys"
  unfolding eseq_eq_Inr_iff by (induction xs ys rule: list_all2_induct) auto

lemma eseq_required_mem: "eseq required_str xs = Inr ys \<Longrightarrow> y \<in> set ys \<Longrightarrow> required_str y = Inr y"
  unfolding eseq_eq_Inr_iff by (induction xs ys rule: list_all2_induct) auto

lemma recover_projects_total:
  assumes "store_ok s" and "normalized_filter actions = Inr acts"
    and "\<And>p. p \<in> set ps \<Longrightarrow> \<exists>q. required_opt p = Inr q"
  shows "\<exists>s'. recover_projects now limit actions ps s = Inr s' \<and> recovered s s'"
  using assms(1,3)
proof (induction ps arbitrary: s)
  case (Cons p ps)
  obtain q where q: "required_opt p = Inr q" using Cons.prems(2) by auto
  obtain u n where u: "recover_expired_locked now limit p actions None s = Inr (u, n)" "recovered s u"
    using recover_selected_total[OF Cons.prems(1)] q assms(2)
    by (fastforce simp: recover_expired_locked_def normalized_filter_def)
  have "store_ok u" using u(2) Cons.prems(1) evolves_ok unfolding recovered_def by blast
  then obtain v where "recover_projects now limit actions ps u = Inr v" "recovered u v"
    using Cons.IH Cons.prems(2) by auto
  then show ?case using u recovered_trans by (auto intro!: exI[of _ v])
qed (simp add: recovered_refl)

lemma claim_candidate_some:
  assumes ok: "store_ok s" and j: "j \<in> set (st_jobs s)" "candidate s r now j"
  shows "\<exists>s' row. claim_candidate r fair owner token secs now s = Inr (s', Some row)"
proof -
  let ?sorted = "sort_key (claim_key s fair) (filter (candidate s r now) (st_jobs s))"
  have "j \<in> set ?sorted" using j by simp
  then obtain selected rest where sel: "?sorted = selected # rest" by (cases ?sorted) auto
  have "selected \<in> set ?sorted" unfolding sel by simp
  then have mem: "selected \<in> set (st_jobs s)" "candidate s r now selected" by auto
  let ?p = "\<lambda>j. jb_job_id j = jb_job_id selected \<and> jb_state j = jb_state selected"
  let ?f = "claimed_row owner token secs now"
  have "job_move {token} selected (?f selected)" using candidate_due[OF mem(2)] by (intro move_claimed) auto
  then have "store_ok (update_rows ?p ?f s)" using claim_row[OF ok mem(1) refl] writes_ok ok by blast
  moreover have "?f selected \<in> set (st_jobs (update_rows ?p ?f s))" using mem(1) by (force simp: update_rows_def)
  moreover have "jb_job_id (?f selected) = jb_job_id selected" by (simp add: claimed_row_def)
  ultimately have "row_locked (jb_job_id selected) (update_rows ?p ?f s) = Inr (?f selected)"
    by (simp add: row_locked_iff)
  then show ?thesis by (simp add: claim_candidate_def sel Let_def)
qed

lemma normalized_claim_recovers:
  assumes "normalized_claim req = Inr r"
  shows "normalized_filter (cr_actions r) = Inr (cr_actions r) \<and>
    (\<forall>p \<in> set (case cr_project_ids r of None \<Rightarrow> [cr_project_id req] | Some ps \<Rightarrow> map Some ps).
      \<exists>q. required_opt p = Inr q)"
proof -
  obtain project projects acts where a: "normalized_filter (cr_project_ids req) = Inr projects"
    and p: "required_opt (cr_project_id req) = Inr project"
    and acts: "(case cr_actions req of None \<Rightarrow> Inr [] | Some xs \<Rightarrow> eseq required_str xs) = Inr acts"
    and r: "cr_project_ids r = map_option (\<lambda>ps. sort (remdups ps)) projects" "cr_actions r = (if acts = [] then None else Some acts)"
    using assms by (auto simp: normalized_claim_def ebind_eq_Inr_iff split: if_splits)
  have "normalized_filter (cr_actions r) = Inr (cr_actions r)"
    using acts r(2) eseq_required by (auto simp: normalized_filter_def split: option.splits)
  moreover have "\<exists>q. required_opt p = Inr q"
    if "p \<in> set (case cr_project_ids r of None \<Rightarrow> [cr_project_id req] | Some ps \<Rightarrow> map Some ps)" for p
    using that p a eseq_required_mem unfolding r(1)
    by (auto simp: normalized_filter_def required_opt_def ebind_eq_Inr_iff split: option.splits if_splits)
  ultimately show ?thesis by blast
qed

text \<open>What the probe answers, the claim does.\<close>

lemma claim_available:
  assumes ok: "store_ok s" and probe: "has_claimable req now s = Inr True"
    and args: "py_strip owner \<noteq> []" "0 < secs" "1 \<le> limit" "limit \<le> MAX_SCAN_LIMIT"
  shows "\<exists>s' row. claim_next owner secs req fair token now limit s = Inr (s', Some row)"
proof -
  obtain r j where r: "normalized_claim req = Inr r" and j: "j \<in> set (st_jobs s)" "candidate s r now j"
    using probe by (auto simp: has_claimable_def ebind_eq_Inr_iff list_ex_iff)
  obtain u where u: "recover_projects now (nat limit) (cr_actions r)
      (case cr_project_ids r of None \<Rightarrow> [cr_project_id req] | Some ps \<Rightarrow> map Some ps) s = Inr u" "recovered s u"
    using recover_projects_total[OF ok] normalized_claim_recovers[OF r] by blast
  have "store_ok u" using u(2) ok evolves_ok unfolding recovered_def by blast
  then obtain s' row where "claim_candidate r (fair \<and> cr_project_id req = None) (py_strip owner) token secs now u
      = Inr (s', Some row)"
    using claim_candidate_some candidate_recovered[OF u(2) j] by blast
  moreover have "bounded_limit limit = Inr (nat limit)" using args(3,4) by (simp add: bounded_limit_def)
  ultimately have "claim_next owner secs req fair token now limit s = Inr (s', Some row)"
    using args(1,2) r u(1) by (simp add: claim_next_def required_str_def)
  then show ?thesis by blast
qed

end
