(* ===== verification/JobEffects.thy ===== *)
theory JobEffects
  imports JobClaims FactProofs
begin

text \<open>
  What the single operations of the job store do: the claim picks the best candidate and succeeds whenever
  the probe says so, recovery frees the expired leases, enqueueing is idempotent, an administrative release
  gives the attempt back, and a completion publishes its landing evidence.
\<close>

section \<open>Claiming\<close>

lemma claim_next_recovers:
  assumes ok: "store_ok s" and claim: "claim_next owner secs req fair token now limit s = Inr (s', res)"
  obtains r u where "normalized_claim req = Inr r" and "recovered s u"
    and "claim_candidate r (fair \<and> cr_project_id req = None) (py_strip owner) token secs now u = Inr (s', res)"
proof -
  obtain r n u where r: "normalized_claim req = Inr r"
    and u: "recover_projects now n (cr_actions r)
      (case cr_project_ids r of None \<Rightarrow> [cr_project_id req] | Some ps \<Rightarrow> map Some ps) s = Inr u"
    and c: "claim_candidate r (fair \<and> cr_project_id req = None) (py_strip owner) token secs now u = Inr (s', res)"
    using claim by (auto simp: claim_next_def succeeds_iff)
  have "recovered s u"
    using recover_projects_total[OF ok, of _ _ _ now n] normalized_claim_recovers[OF r] u by (metis Inr_inject)
  then show thesis using that r c by blast
qed

lemma claim_result:
  assumes ok: "store_ok u" and claim: "claim_candidate r fair owner token secs now u = Inr (s', Some row)"
  shows "\<exists>selected \<in> set (st_jobs u). candidate u r now selected
    \<and> (\<forall>j \<in> set (st_jobs u). candidate u r now j \<longrightarrow> claim_key u fair selected \<le> claim_key u fair j)
    \<and> row = claimed_row owner token secs now selected \<and> row \<in> set (st_jobs s')"
  using claim
proof (rule claim_selected)
  fix selected p
  assume sel: "selected \<in> set (st_jobs u)" "candidate u r now selected"
    and best: "\<And>j. j \<in> set (st_jobs u) \<Longrightarrow> candidate u r now j \<Longrightarrow> claim_key u fair selected \<le> claim_key u fair j"
    and p: "p = (\<lambda>j. jb_job_id j = jb_job_id selected \<and> jb_state j = jb_state selected)"
    and row: "row_locked (jb_job_id selected) (update_rows p (claimed_row owner token secs now) u) = Inr row"
    and s': "s' = append_event row ''claimed'' [(''attempt'', Ev_json (PInt (jb_attempts row)))] now
      (if fair then note_fairness (jb_project_id row) (update_rows p (claimed_row owner token secs now) u)
       else update_rows p (claimed_row owner token secs now) u)"
  have "job_move {token} selected (claimed_row owner token secs now selected)"
    using candidate_due[OF sel(2)] by (intro move_claimed) auto
  then have "row = claimed_row owner token secs now selected" using claim_row[OF ok sel(1) p] row by blast
  moreover have "row \<in> set (st_jobs s')"
    using row_lockedD[OF row] unfolding s' by (simp add: note_fairness_def next_counter_def Let_def)
  ultimately show ?thesis using sel best by blast
qed

text \<open>A claim first recovers expired leases and then leases, among the jobs that are due, within
  budget, current and of an idle task and that match the request, one with the least key (fairness of the
  project, priority, due time, age): that row and no other is marked running under the new token, with one
  more attempt and a deadline \<open>lease_seconds\<close> away.\<close>

theorem claim_takes_the_best:
  assumes "store_ok s" and "claim_next owner secs req fair token now limit s = Inr (s', Some row)"
  shows "\<exists>r u. normalized_claim req = Inr r \<and> recovered s u
    \<and> (\<exists>selected \<in> set (st_jobs u). candidate u r now selected
      \<and> (\<forall>j \<in> set (st_jobs u). candidate u r now j \<longrightarrow>
          claim_key u (fair \<and> cr_project_id req = None) selected \<le> claim_key u (fair \<and> cr_project_id req = None) j)
      \<and> row = claimed_row (py_strip owner) token secs now selected \<and> row \<in> set (st_jobs s'))"
proof -
  obtain r u where r: "normalized_claim req = Inr r" "recovered s u"
    and c: "claim_candidate r (fair \<and> cr_project_id req = None) (py_strip owner) token secs now u = Inr (s', Some row)"
    using assms by (rule claim_next_recovers)
  have "store_ok u" using r(2) assms(1) evolves_ok unfolding recovered_def by blast
  then show ?thesis using claim_result[OF _ c] r by blast
qed

lemma sample_queue_ok: "store_ok sample_queue"
  using reachable_ok sample_job_run(1) .

lemma sample_lease_ok: "store_ok sample_lease"
  using reachable_ok sample_job_run(2)[of UNIV] by blast

theorem claim_takes_the_best_witness:
  "\<exists>r u. normalized_claim sample_request = Inr r \<and> recovered sample_queue u
    \<and> (\<exists>selected \<in> set (st_jobs u). candidate u r 20 selected
      \<and> (\<forall>j \<in> set (st_jobs u). candidate u r 20 j \<longrightarrow>
          claim_key u (False \<and> cr_project_id sample_request = None) selected
            \<le> claim_key u (False \<and> cr_project_id sample_request = None) j)
      \<and> sample_leased = claimed_row (py_strip ''w'') ''t'' 60 20 selected
      \<and> sample_leased \<in> set (st_jobs sample_lease))"
  by (rule claim_takes_the_best[OF sample_queue_ok sample_claims])

text \<open>The probe and the claim agree: when \<open>has_claimable\<close> answers yes, a claim with the same request
  at the same time leases a job, whatever is recovered on the way.\<close>

theorem probe_then_claim:
  assumes "(job_step R)\<^sup>*\<^sup>* (empty_store, {}) (s, U)" and "has_claimable req now s = Inr True"
    and "py_strip owner \<noteq> []" and "0 < secs" and "1 \<le> limit" and "limit \<le> MAX_SCAN_LIMIT"
  shows "\<exists>s' row. claim_next owner secs req fair token now limit s = Inr (s', Some row)"
  using claim_available[OF reachable_ok[OF assms(1)] assms(2-)] .

theorem probe_then_claim_witness:
  "\<exists>s' row. claim_next ''w'' 60 sample_request True ''t'' 20 100 sample_queue = Inr (s', Some row)"
proof (rule probe_then_claim[OF sample_job_run(1)[of UNIV]])
  have "normalized_claim sample_request = Inr sample_request"
    by (simp add: normalized_claim_def sample_request_def normalized_filter_def required_opt_def)
  then show "has_claimable sample_request 20 sample_queue = Inr True"
    by (simp add: has_claimable_def sample_store_jobs sample_candidate)
qed (simp_all add: str_eval)

section \<open>Recovery\<close>

lemma row_count_one:
  assumes "store_ok s" and "row \<in> set (st_jobs s)" and "p row" and "\<And>j. j \<in> set (st_jobs s) \<Longrightarrow> p j \<Longrightarrow> j = row"
  shows "row_count p s = 1"
proof -
  have "distinct (st_jobs s)" using assms(1) by (auto simp: store_ok_def distinct_map)
  then have "row_count p s = card ({j. p j} \<inter> set (st_jobs s))" by (simp add: row_count_def distinct_length_filter)
  also have "{j. p j} \<inter> set (st_jobs s) = {row}" using assms(2-) by blast
  finally show ?thesis by simp
qed

lemma recover_rows_done:
  assumes "store_ok s" and "set rows \<subseteq> set (st_jobs s)" and "distinct (map jb_job_id rows)"
    and "\<And>row. row \<in> set rows \<Longrightarrow> jb_state row = Job_RUNNING \<and> \<not> audit_finalizing row"
    and "recover_rows category err now phase rows s = Inr (s', n)"
  shows "n = length rows \<and> (\<forall>j \<in> set (st_jobs s'). jb_state j = Job_RUNNING \<longrightarrow> j \<in> set (st_jobs s) \<and> j \<notin> set rows)"
  using assms
proof (induction rows arbitrary: s n)
  case (Cons row rows)
  let ?p = "same_lease row"
  let ?ex = "jb_attempts row \<ge> jb_max_attempts row"
  let ?f = "recovered_row category err now phase ?ex"
  let ?s = "update_rows ?p ?f s"
  have row: "row \<in> set (st_jobs s)" "jb_state row = Job_RUNNING" "\<not> audit_finalizing row"
    using Cons.prems(2,4) by auto
  have p: "?p row" using row store_ok_jobs[OF Cons.prems(1) row(1)]
    by (auto simp: same_lease_def job_ok_def leased_def)
  have same: "j = row" if "j \<in> set (st_jobs s)" "?p j" for j
    using row_unique[OF Cons.prems(1) that(1) row(1)] that(2) by (simp add: same_lease_def)
  have one: "row_count ?p s = 1" using Cons.prems(1) row(1) p same by (rule row_count_one)
  let ?etype = "if ?ex then ''exhausted'' else ''recovered''"
  let ?payload = "[(''failure_category'', text_value (failure_category_value category))]"
  have "ebind (commit_event (jb_job_id row) ?etype ?payload now ?s) (\<lambda>(u, _).
      ebind (recover_rows category err now phase rows u) (\<lambda>(v, m). Inr (v, Suc m))) = Inr (s', n)"
    using Cons.prems(5) row(3) one by (simp add: Let_def)
  then obtain u r m where c: "commit_event (jb_job_id row) ?etype ?payload now ?s = Inr (u, r)"
    and rest: "recover_rows category err now phase rows u = Inr (s', m)" and n: "n = Suc m"
    by (elim ebind_InrE) (auto elim!: ebind_InrE split: prod.splits)
  have u: "st_jobs u = st_jobs ?s" using commit_eventD[OF c] by simp
  have "job_move {} j (?f j)" if "j \<in> set (st_jobs s)" "?p j" for j
    using same[OF that] row(2) move_recovered by blast
  then have "evolves {} s u" using update_commit_evolves[OF c] by blast
  then have ok: "store_ok u" using evolves_ok Cons.prems(1) by blast
  have "set rows \<subseteq> set (st_jobs u)"
    unfolding u using Cons.prems(2,3) by (intro rows_kept) (simp_all add: same_lease_def)
  then have IH: "m = length rows"
    "\<And>j. j \<in> set (st_jobs s') \<Longrightarrow> jb_state j = Job_RUNNING \<Longrightarrow> j \<in> set (st_jobs u) \<and> j \<notin> set rows"
    using Cons.IH[OF ok _ _ _ rest] Cons.prems(3,4) by auto
  have "j \<in> set (st_jobs s) \<and> j \<noteq> row" if j: "j \<in> set (st_jobs u)" "jb_state j = Job_RUNNING" for j
  proof -
    obtain i where i: "i \<in> set (st_jobs s)" "j = (if ?p i then ?f i else i)"
      using j(1) unfolding u by (auto simp: update_rows_def)
    have "\<not> ?p i" using i(2) j(2) by (auto simp: recovered_row_def split: if_splits)
    then show ?thesis using i p by auto
  qed
  then show ?case using IH n by auto
qed simp

text \<open>Recovering expired leases always returns; with a limit that covers them it frees every expired
  lease (an audit that is finalizing is left to its own recovery) and counts them.\<close>

theorem expired_leases_are_recovered:
  assumes ok: "store_ok s" and limit: "1 \<le> limit" "limit \<le> MAX_SCAN_LIMIT"
    and covered: "length (filter (expired now) (st_jobs s)) \<le> nat limit"
  shows "\<exists>s'. recover_expired None None None now limit s = Inr (s', length (filter (expired now) (st_jobs s)))
    \<and> (\<forall>j \<in> set (st_jobs s'). \<not> expired now j)"
proof -
  let ?rows = "take (nat limit) (sort_key expiry_key (filter (expired now) (st_jobs s)))"
  have rows: "?rows = sort_key expiry_key (filter (expired now) (st_jobs s))" using covered by simp
  let ?err = "''workflow job lease expired before acknowledgement''"
  obtain s' n where r: "recover_rows Fail_LEASE_EXPIRED ?err now None ?rows s = Inr (s', n)" and "recovered s s'"
    using recover_selected_total[OF ok] by blast
  have "jb_state row = Job_RUNNING \<and> \<not> audit_finalizing row" if "row \<in> set ?rows" for row
    using that unfolding rows by (auto simp: expired_def)
  then have freed: "n = length ?rows"
    "\<forall>j \<in> set (st_jobs s'). jb_state j = Job_RUNNING \<longrightarrow> j \<in> set (st_jobs s) \<and> j \<notin> set ?rows"
    using recover_rows_done[OF ok selected_rows(3,4)[OF ok] _ r] by auto
  have "\<not> expired now j" if "j \<in> set (st_jobs s')" for j
    using freed(2) that unfolding rows by (auto simp: expired_def)
  moreover have "recover_expired None None None now limit s = Inr (s', n)"
    using r limit by (simp add: recover_expired_def recover_expired_locked_def bounded_limit_def required_opt_def
        normalized_filter_def matches_def among_def)
  moreover have "n = length (filter (expired now) (st_jobs s))" unfolding freed(1) rows by simp
  ultimately show ?thesis by blast
qed

theorem expired_leases_are_recovered_witness:
  "\<exists>s'. recover_expired None None None 100 10 sample_lease
      = Inr (s', length (filter (expired 100) (st_jobs sample_lease)))
    \<and> (\<forall>j \<in> set (st_jobs s'). \<not> expired 100 j)"
  by (rule expired_leases_are_recovered[OF sample_lease_ok]) (simp_all add: sample_store_jobs)

section \<open>Enqueueing\<close>

lemma find_key_some: "store_ok s \<Longrightarrow> j \<in> set (st_jobs s) \<Longrightarrow> find_key (jb_project_id j) (jb_idempotency_key j) s = Some j"
proof -
  assume ok: "store_ok s" and j: "j \<in> set (st_jobs s)"
  let ?key = "\<lambda>i. (jb_project_id i, jb_idempotency_key i)"
  have inj: "inj_on ?key (set (st_jobs s))" using ok by (simp add: store_ok_def distinct_map)
  show ?thesis
  proof (cases "find_key (jb_project_id j) (jb_idempotency_key j) s")
    case None
    then show ?thesis using j by (auto simp: find_key_def find_None_iff)
  next
    case (Some i)
    then have "i \<in> set (st_jobs s)" "?key i = ?key j" by (auto simp: find_key_def find_Some_iff)
    then have "i = j" using inj j by (simp add: inj_on_def)
    then show ?thesis using Some by simp
  qed
qed

lemma enqueued_row:
  assumes ok: "store_ok s" and max: "0 < js_max_attempts sp" and call: "enqueue sp fresh now s = Inr (s', row)"
  shows "row \<in> set (st_jobs s') \<and> jb_project_id row = js_project_id sp
    \<and> jb_idempotency_key row = js_idempotency_key sp \<and> jb_spec_revision row = spec_revision sp \<and> store_ok s'"
proof -
  obtain created where e: "enqueue_locked sp False fresh now s = Inr (s', row, created)"
    using call by (auto simp: enqueue_def ebind_eq_Inr_iff)
  have ok': "store_ok s'" using enqueue_evolves[OF max e] evolves_ok ok by blast
  show ?thesis
  proof (cases "find_key (js_project_id sp) (js_idempotency_key sp) s")
    case (Some existing)
    then have "existing \<in> set (st_jobs s)" "jb_project_id existing = js_project_id sp"
      "jb_idempotency_key existing = js_idempotency_key sp"
      by (auto simp: find_key_def find_Some_iff)
    then show ?thesis using Some e ok' by (auto simp: enqueue_locked_def split: if_splits)
  next
    case None
    let ?new = "new_job sp (py_strip fresh) False (st_last_sequence s + 1) now"
    let ?s = "s\<lparr>st_jobs := st_jobs s @ [?new], st_last_sequence := st_last_sequence s + 1\<rparr>"
    have c: "commit_event (py_strip fresh) ''enqueued'' [] now ?s = Inr (s', row)"
      using e None by (auto simp: enqueue_locked_def ebind_eq_Inr_iff Let_def split: if_splits)
    have mem: "row \<in> set (st_jobs s')" "jb_job_id row = py_strip fresh" and jobs: "st_jobs s' = st_jobs s @ [?new]"
      using commit_eventD[OF c] by auto
    have "?new \<in> set (st_jobs s')" "jb_job_id ?new = py_strip fresh" unfolding jobs by (simp_all add: new_job_def)
    then have "row = ?new" using row_unique[OF ok' mem(1)] mem(2) by simp
    then show ?thesis using mem(1) ok' by (simp add: new_job_def)
  qed
qed

text \<open>Enqueueing is idempotent on the project and the key: a second request with the same content
  returns the stored job and writes nothing, one with other content under the same key is a conflict.\<close>

theorem enqueue_is_idempotent:
  assumes "(job_step R)\<^sup>*\<^sup>* (empty_store, {}) (s, U)" and "0 < js_max_attempts sp"
    and "enqueue sp fresh now s = Inr (s', row)"
    and "js_project_id sp' = js_project_id sp" and "js_idempotency_key sp' = js_idempotency_key sp"
  shows "enqueue sp' fresh' now' s' =
    (if spec_revision sp' = spec_revision sp then Inr (s', row) else Inl IdempotencyConflict)"
proof -
  have row: "row \<in> set (st_jobs s')" "jb_project_id row = js_project_id sp"
    "jb_idempotency_key row = js_idempotency_key sp" "jb_spec_revision row = spec_revision sp" "store_ok s'"
    using enqueued_row[OF reachable_ok[OF assms(1)] assms(2,3)] by auto
  have "find_key (js_project_id sp') (js_idempotency_key sp') s' = Some row"
    using find_key_some[OF row(5,1)] row(2,3) assms(4,5) by simp
  then show ?thesis using row(4) by (simp add: enqueue_def enqueue_locked_def)
qed

theorem enqueue_is_idempotent_witness:
  "enqueue sample_spec ''other'' 50 sample_queue =
    (if spec_revision sample_spec = spec_revision sample_spec then Inr (sample_queue, sample_queued)
     else Inl IdempotencyConflict)"
  by (rule enqueue_is_idempotent[OF rtranclp.rtrancl_refl[of "job_step UNIV"] _ sample_enqueues])
    (simp_all add: sample_spec_def)

section \<open>Releasing a lease\<close>

lemma owned_commit:
  assumes ok: "store_ok s" and owned: "owned_row jid token now s = Inr owned" and id: "jb_job_id owned = jid"
    and p: "p owned" "\<And>j. p j \<Longrightarrow> jb_job_id j = jid" and move: "job_move T owned (f owned)"
  shows "row_count p s = 1 \<and> commit_event jid etype payload now (update_rows p f s)
    = Inr (append_event (f owned) etype payload now (update_rows p f s), f owned)"
proof -
  have mem: "owned \<in> set (st_jobs s)" using owned_rowD[OF owned] by blast
  have same: "j = owned" if "j \<in> set (st_jobs s)" "p j" for j
    using owned_row_same[OF ok owned that(1) p(2)[OF that(2)]] .
  have "written False T s (update_rows p f s)" using same move by (intro write_rows) blast
  then have ok': "store_ok (update_rows p f s)" using writes_ok ok by blast
  have "f owned \<in> set (st_jobs (update_rows p f s))" using mem p(1) by (auto simp: update_rows_def)
  moreover have "jb_job_id (f owned) = jid" using job_move_identity[OF move] id by (simp add: identity_of_def)
  ultimately have "row_locked jid (update_rows p f s) = Inr (f owned)" using row_locked_iff[OF ok'] by simp
  moreover have "row_count p s = 1" using ok mem p(1) same by (rule row_count_one)
  ultimately show ?thesis by (simp add: commit_event_def)
qed

lemma owned_facts:
  assumes "store_ok s" and "owned_row jid token now s = Inr owned" and "py_strip token = token"
  shows "jb_state owned = Job_RUNNING \<and> jb_lease_token owned = Some token \<and> jb_job_id owned = py_strip jid
    \<and> restored owned = jb_attempts owned - 1"
proof -
  have mem: "owned \<in> set (st_jobs s)" "jb_state owned = Job_RUNNING" using owned_rowD[OF assms(2)] by auto
  have "0 < jb_attempts owned" using store_ok_jobs[OF assms(1) mem(1)] mem(2) by (simp add: job_ok_def)
  then show ?thesis using owned_rowD[OF assms(2)] assms(3) by (simp add: restored_def)
qed

lemma releases_succeed:
  assumes "store_ok s" and "owned_row jid token now s = Inr owned" and "py_strip token = token"
    and "py_strip jid = jid" and "py_strip expected = jb_phase owned" and "jb_phase owned \<noteq> []"
    and "py_strip phase \<noteq> []" and "py_strip reason \<noteq> []" and "0 \<le> delay" and "now < deadline"
  shows "\<exists>s'. requeue_owned_without_attempt expected phase reason jid token now s
      = Inr (s', requeued_row (py_strip phase) now owned)"
    and "\<exists>s'. defer_owned_without_attempt reason delay jid token now s
      = Inr (s', deferred_row (backoff delay (prior_deferrals jid s)) now owned)"
    and "\<exists>s'. defer_owned_until reason (Some deadline) jid token now s
      = Inr (s', deadline_row (py_strip reason) False deadline None now owned)"
proof -
  have o: "jb_state owned = Job_RUNNING" "jb_lease_token owned = Some token" "jb_job_id owned = jid"
    "restored owned = jb_attempts owned - 1"
    using owned_facts[OF assms(1-3)] assms(4) by auto
  let ?p = "\<lambda>j. jb_job_id j = jid \<and> jb_state j = Job_RUNNING \<and> jb_lease_token j = Some token \<and> jb_phase j = py_strip expected"
  have p: "?p owned" "leased_row jid token owned" using o assms(5) by (simp_all add: leased_row_def)
  have l: "\<And>j. leased_row jid token j \<Longrightarrow> jb_job_id j = jid" by (simp add: leased_row_def)
  have "row_count ?p s = 1 \<and> commit_event jid etype payload now (update_rows ?p (requeued_row (py_strip phase) now) s)
      = Inr (append_event (requeued_row (py_strip phase) now owned) etype payload now
          (update_rows ?p (requeued_row (py_strip phase) now) s), requeued_row (py_strip phase) now owned)"
    for etype payload
    using p(1) by (intro owned_commit[where T = "{}", OF assms(1,2) o(3)] move_requeued o(1)) auto
  then have requeue: "\<exists>s'. requeue_owned_without_attempt expected phase reason jid token now s
      = Inr (s', requeued_row (py_strip phase) now owned)"
    using assms(2,5-8) by (simp add: requeue_owned_without_attempt_def required_str_def)
  have leased: "row_count (leased_row jid token) s = 1 \<and> commit_event jid etype payload now (update_rows (leased_row jid token) f s)
      = Inr (append_event (f owned) etype payload now (update_rows (leased_row jid token) f s), f owned)"
    if "job_move {} owned (f owned)" for f etype payload
    using that by (intro owned_commit[where T = "{}", OF assms(1,2) o(3)] p(2) l)
  have put_off: "\<exists>s'. defer_owned_without_attempt reason delay jid token now s
      = Inr (s', deferred_row (backoff delay (prior_deferrals jid s)) now owned)"
    using leased[of "deferred_row (backoff delay (prior_deferrals jid s)) now", OF move_deferred[OF o(1)]]
      assms(2,8,9)
    by (simp add: defer_owned_without_attempt_def required_str_def Let_def)
  have "job_move {} owned (deadline_row (py_strip reason) False deadline None now owned)"
    using o(1) by (intro move_deadline) simp_all
  from leased[of "deadline_row (py_strip reason) False deadline None now", OF this]
  have wait: "\<exists>s'. defer_owned_until reason (Some deadline) jid token now s
      = Inr (s', deadline_row (py_strip reason) False deadline None now owned)"
    using assms(2,8,10)
    by (simp add: defer_owned_until_def required_str_def Let_def)
  from requeue put_off wait show
    "\<exists>s'. requeue_owned_without_attempt expected phase reason jid token now s
      = Inr (s', requeued_row (py_strip phase) now owned)"
    "\<exists>s'. defer_owned_without_attempt reason delay jid token now s
      = Inr (s', deferred_row (backoff delay (prior_deferrals jid s)) now owned)"
    "\<exists>s'. defer_owned_until reason (Some deadline) jid token now s
      = Inr (s', deadline_row (py_strip reason) False deadline None now owned)" .
qed

text \<open>The three administrative releases undo the claim's charge: a holder of a live lease that requeues
  in its phase, defers, or waits for a deadline that is still ahead succeeds, and the row it gives up has one
  attempt less than while it ran and is due again at once, after the backoff, or at the deadline.\<close>

theorem release_gives_the_attempt_back:
  assumes "store_ok s" and "owned_row jid token now s = Inr owned" and "py_strip token = token"
    and "py_strip jid = jid" and "py_strip expected = jb_phase owned" and "jb_phase owned \<noteq> []"
    and "py_strip phase \<noteq> []" and "py_strip reason \<noteq> []" and "0 \<le> delay" and "now < deadline"
  shows "(\<exists>s' row. requeue_owned_without_attempt expected phase reason jid token now s = Inr (s', row)
      \<and> jb_state row = Job_QUEUED \<and> jb_attempts row = jb_attempts owned - 1)
    \<and> (\<exists>s' row. defer_owned_without_attempt reason delay jid token now s = Inr (s', row)
      \<and> jb_state row = Job_RETRY_WAIT \<and> jb_attempts row = jb_attempts owned - 1
      \<and> jb_retry_at row = Some (now + backoff delay (prior_deferrals jid s)))
    \<and> (\<exists>s' row. defer_owned_until reason (Some deadline) jid token now s = Inr (s', row)
      \<and> jb_state row = Job_RETRY_WAIT \<and> jb_attempts row = jb_attempts owned - 1
      \<and> jb_retry_at row = Some deadline)"
  using releases_succeed[OF assms] owned_facts[OF assms(1-3)]
  by (auto simp: requeued_row_def deferred_row_def deadline_row_def)

theorem release_gives_the_attempt_back_witness:
  "(\<exists>s' row. requeue_owned_without_attempt ''queued'' ''again'' ''drain'' ''j'' ''t'' 30 sample_lease = Inr (s', row)
      \<and> jb_state row = Job_QUEUED \<and> jb_attempts row = jb_attempts sample_leased - 1)
    \<and> (\<exists>s' row. defer_owned_without_attempt ''drain'' 5 ''j'' ''t'' 30 sample_lease = Inr (s', row)
      \<and> jb_state row = Job_RETRY_WAIT \<and> jb_attempts row = jb_attempts sample_leased - 1
      \<and> jb_retry_at row = Some (30 + backoff 5 (prior_deferrals ''j'' sample_lease)))
    \<and> (\<exists>s' row. defer_owned_until ''drain'' (Some 45) ''j'' ''t'' 30 sample_lease = Inr (s', row)
      \<and> jb_state row = Job_RETRY_WAIT \<and> jb_attempts row = jb_attempts sample_leased - 1
      \<and> jb_retry_at row = Some 45)"
  by (rule release_gives_the_attempt_back[OF sample_lease_ok sample_owned])
    (simp_all add: str_eval, simp_all add: sample_jobs)

text \<open>C37. The deferral backoff: the delay of the next attempt is the requested one doubled for each earlier
  administrative deferral of the job, at most ten times, and each deferral is counted once.\<close>

theorem deferral_backoff:
  assumes "store_ok s" and "0 \<le> delay" and "py_strip token = token"
    and "defer_owned_without_attempt reason delay jid token now s = Inr (s', row)"
  shows "\<exists>t. jb_retry_at row = Some t \<and> t = now + delay * 2 ^ min (prior_deferrals jid s) 10
    \<and> now + delay \<le> t \<and> t \<le> now + 1024 * delay \<and> prior_deferrals jid s' = Suc (prior_deferrals jid s)"
proof -
  let ?n = "prior_deferrals jid s"
  let ?f = "deferred_row (backoff delay ?n) now"
  obtain owned payload where owned: "owned_row jid token now s = Inr owned"
    and c: "commit_event jid ''administrative_deferred'' payload now (update_rows (leased_row jid token) ?f s) = Inr (s', row)"
    using assms(4) by (auto simp: defer_owned_without_attempt_def succeeds_iff Let_def)
  have g: "jb_job_id owned = jid" "leased_row jid token owned \<longrightarrow> row = ?f owned"
    using guarded_row[where T = "{}", OF assms(1) owned c _ move_deferred] by (auto simp: leased_row_def)
  then have "row = ?f owned" using owned_facts[OF assms(1) owned assms(3)] by (simp add: leased_row_def)
  then have t: "jb_retry_at row = Some (now + delay * 2 ^ min ?n 10)" by (simp add: deferred_row_def backoff_def)
  have "(1::real) \<le> 2 ^ min ?n 10" "(2::real) ^ min ?n 10 \<le> 2 ^ 10"
    by (simp, rule power_increasing) simp_all
  then have "delay * 1 \<le> delay * 2 ^ min ?n 10" "delay * 2 ^ min ?n 10 \<le> delay * 2 ^ 10"
    using assms(2) by (intro mult_left_mono; simp)+
  moreover have "prior_deferrals jid s' = Suc ?n"
    using commit_eventD[OF c] by (auto simp: prior_deferrals_def append_event_def update_rows_def Let_def)
  ultimately show ?thesis using t by auto
qed

theorem deferral_backoff_witness:
  "\<exists>s' row t. defer_owned_without_attempt ''drain'' 5 ''j'' ''t'' 30 sample_lease = Inr (s', row)
    \<and> jb_retry_at row = Some t \<and> t = 30 + 5 * 2 ^ min (prior_deferrals ''j'' sample_lease) 10 \<and> t \<le> 30 + 1024 * 5"
proof -
  obtain s' row where "defer_owned_without_attempt ''drain'' 5 ''j'' ''t'' 30 sample_lease = Inr (s', row)"
    using releases_succeed(2)[OF sample_lease_ok sample_owned, of "''queued''" "''queued''" "''drain''" 5 31]
    by (auto simp: str_eval sample_jobs)
  moreover have "py_strip ''t'' = ''t''" by (simp add: str_eval)
  ultimately show ?thesis using deferral_backoff[OF sample_lease_ok, of 5 "''t''" "''drain''" "''j''" 30 s' row] by auto
qed

text \<open>C36. The defect of the release path: the token is compared after stripping, but the requeue and the
  quarantine update with the token as passed.  A holder whose token carries surrounding space gets its row
  back as if it had been released (or quarantined) and the ledger records it, while no row has changed.\<close>

theorem padded_token_is_reported_released:
  assumes "store_ok s" and "owned_row jid token now s = Inr owned" and "py_strip token \<noteq> token"
    and "py_strip jid = jid" and "py_strip expected = jb_phase owned" and "jb_phase owned \<noteq> []"
    and "py_strip phase \<noteq> []" and "py_strip reason \<noteq> []"
  shows "\<exists>s'. requeue_owned_without_attempt expected phase reason jid token now s = Inr (s', owned)
      \<and> st_jobs s' = st_jobs s \<and> ev_type (last (st_events s')) = ''lifecycle_requeued''
    \<and> (\<exists>s''. quarantine_owned ''timeout'' reason jid token now s = Inr (s'', owned)
      \<and> st_jobs s'' = st_jobs s \<and> ev_type (last (st_events s'')) = ''quarantined'')"
proof -
  have o: "owned \<in> set (st_jobs s)" "jb_state owned = Job_RUNNING" "jb_job_id owned = jid"
    "jb_lease_token owned = Some (py_strip token)"
    using owned_rowD[OF assms(2)] assms(4) by auto
  have none: "\<not> (jb_job_id j = jid \<and> jb_lease_token j = Some token)" if "j \<in> set (st_jobs s)" for j
    using row_unique[OF assms(1) that o(1)] o(3,4) assms(3) by auto
  have same: "update_rows p f s = s" if "\<And>j. p j \<Longrightarrow> jb_job_id j = jid \<and> jb_lease_token j = Some token" for p f
  proof -
    have "map (\<lambda>j. if p j then f j else j) (st_jobs s) = st_jobs s" using that none by (intro map_idI) auto
    then show ?thesis by (simp add: update_rows_def)
  qed
  have found: "row_locked jid s = Inr owned" using row_locked_iff[OF assms(1)] o(1,3) by simp
  have jid: "jid \<noteq> []" using store_ok_jobs[OF assms(1) o(1)] o(3) by (auto simp: job_ok_def)
  have token: "py_strip token \<noteq> []" using assms(2) by (auto simp: owned_row_def succeeds_iff)
  have "failure_category_of ''timeout'' = Inr Fail_TIMEOUT"
    by (simp add: failure_category_of_def enum_of_def FAILURE_CATEGORIES_def)
  moreover have "update_rows (\<lambda>j. jb_job_id j = jid \<and> jb_state j = Job_RUNNING \<and> jb_lease_token j = Some token
      \<and> jb_phase j = py_strip expected) f s = s" "update_rows (leased_row jid token) f s = s" for f
    by (intro same; simp add: leased_row_def)+
  moreover have "commit_event jid etype payload now s = Inr (append_event owned etype payload now s, owned)"
    for etype payload
    using found by (simp add: commit_event_def)
  moreover have "py_strip expected \<noteq> []" using assms(5,6) by simp
  ultimately show ?thesis
    using assms(2,7,8) jid token o(2,4) assms(4) assms(5)[symmetric] found
    by (simp add: requeue_owned_without_attempt_def quarantine_owned_def required_str_def)
      (simp add: append_event_def Let_def)
qed

lemma padded_owned: "owned_row ''j'' '' t'' 30 sample_lease = Inr sample_leased"
  by (simp add: owned_row_def required_str_def str_eval row_locked_def sample_store_jobs) (simp add: sample_jobs)

theorem padded_token_is_reported_released_witness:
  "\<exists>s'. requeue_owned_without_attempt ''queued'' ''again'' ''drain'' ''j'' '' t'' 30 sample_lease = Inr (s', sample_leased)
      \<and> st_jobs s' = st_jobs sample_lease \<and> ev_type (last (st_events s')) = ''lifecycle_requeued''
    \<and> (\<exists>s''. quarantine_owned ''timeout'' ''drain'' ''j'' '' t'' 30 sample_lease = Inr (s'', sample_leased)
      \<and> st_jobs s'' = st_jobs sample_lease \<and> ev_type (last (st_events s'')) = ''quarantined'')"
  by (rule padded_token_is_reported_released[OF sample_lease_ok padded_owned])
    (simp_all add: str_eval, simp_all add: sample_jobs)

section \<open>Completion\<close>

lemma landings_inserted:
  "insert_landings project task now ls s = Inr (s', n) \<Longrightarrow> prefix (st_landings s) (st_landings s')
    \<and> (\<forall>l \<in> set ls. \<exists>r \<in> set (st_landings s'). same_landing project task l r
        \<and> landing_content (lr_fact r) = landing_content (landing_to_dict l))"
proof (induction ls arbitrary: s n)
  case (Cons l ls)
  show ?case
  proof (cases "find (same_landing project task l) (st_landings s)")
    case None
    let ?r = "\<lparr>lr_project_id = project, lr_task_id = task, lr_source = lf_source l, lr_target = lf_target l,
      lr_revision = lf_evidence_revision l, lr_fact = landing_to_dict l, lr_recorded_at = now\<rparr>"
    let ?s = "s\<lparr>st_landings := st_landings s @ [?r]\<rparr>"
    obtain m where "insert_landings project task now ls ?s = Inr (s', m)"
      using Cons.prems None by (auto simp: ebind_eq_Inr_iff)
    from Cons.IH[OF this] have IH: "prefix (st_landings s @ [?r]) (st_landings s')"
      "\<forall>l \<in> set ls. \<exists>r \<in> set (st_landings s'). same_landing project task l r
        \<and> landing_content (lr_fact r) = landing_content (landing_to_dict l)"
      by simp_all
    have "?r \<in> set (st_landings s')" using IH(1) set_mono_prefix by fastforce
    moreover have "same_landing project task l ?r" by (simp add: same_landing_def)
    moreover have "prefix (st_landings s) (st_landings s')" using IH(1) append_prefixD by blast
    ultimately show ?thesis using IH(2) by force
  next
    case (Some r)
    then have r: "r \<in> set (st_landings s)" "same_landing project task l r"
      by (auto simp: find_Some_iff)
    have same: "landing_content (lr_fact r) = landing_content (landing_to_dict l)"
      and rest: "insert_landings project task now ls s = Inr (s', n)"
      using Cons.prems Some by (auto split: if_splits)
    show ?thesis using Cons.IH[OF rest] r same set_mono_prefix by fastforce
  qed
qed simp

text \<open>A completion publishes its landing evidence in the same transaction: when it returns, the job is
  completed, the ledger has only grown, and every fact that was passed is a durable proof of the job's own
  project that the ledger holds under the job's task with the same content.\<close>

theorem completion_publishes_landings:
  assumes "store_ok s" and "py_strip token = token"
    and "complete_job res facts jid token now s = Inr (s', row)"
  shows "jb_state row = Job_COMPLETED \<and> prefix (st_landings s) (st_landings s')
    \<and> (\<forall>f \<in> set facts. \<exists>l. landing_row_of (jb_project_id row) True f = Inr l \<and> truthy (lf_durable l)
      \<and> lf_project_id l = jb_project_id row
      \<and> (\<exists>r \<in> set (st_landings s'). same_landing (jb_project_id row) (jb_task_id row) l r
          \<and> landing_content (lr_fact r) = landing_content (landing_to_dict l)))"
proof -
  obtain owned result rows s1 n etype payload where owned: "owned_row jid token now s = Inr owned"
    and rows: "landing_fact_rows (jb_project_id owned) True facts = Inr rows"
    and l: "insert_landings (jb_project_id owned) (jb_task_id owned) now rows s = Inr (s1, n)"
    and w: "write_owned jid (completed_row result now) etype payload now s1 = Inr (s', row)"
    using assms(3) by (auto simp: complete_job_def succeeds_iff split: prod.splits)
  have s1: "evolves {} s s1" "st_jobs s1 = st_jobs s" using landings_evolve[OF l] by auto
  have "owned_row jid token now s1 = Inr owned" using owned s1(2) by (simp add: owned_row_def row_locked_def)
  then have row: "row = completed_row result now owned"
    using written_row[where T = "{}", OF evolves_ok[OF s1(1) assms(1)] _ w move_completed] by blast
  have s': "st_landings s' = st_landings s1"
    using w by (auto simp: write_owned_def dest!: commit_eventD) (simp add: append_event_def update_rows_def Let_def)
  have cols: "jb_project_id row = jb_project_id owned" "jb_task_id row = jb_task_id owned" "jb_state row = Job_COMPLETED"
    unfolding row by (simp_all add: completed_row_def clear_lease_def)
  have "\<exists>l \<in> set rows. landing_row_of (jb_project_id owned) True f = Inr l" if "f \<in> set facts" for f
    using rows that unfolding landing_fact_rows_def eseq_eq_Inr_iff
    by (auto simp: list_all2_conv_all_nth in_set_conv_nth)
  moreover have "truthy (lf_durable l) \<and> lf_project_id l = project" if "landing_row_of project True f = Inr l" for l f project
    using that by (auto simp: landing_row_of_def elim!: ebind_InrE split: option.splits sum.splits if_splits)
  ultimately show ?thesis using landings_inserted[OF l] unfolding s' cols by metis
qed

lemmas string_order = less_eq_list_code less_list_code less_eq_char_def less_char_def

lemma opt_str_freeze [simp]: "freeze (opt_str v) = opt_str v" "thaw (opt_str v) = opt_str v"
  by (cases v; simp)+

lemma landing_json:
  assumes "lf_durable l = PBool b" and "lf_schema_version l = PInt n"
  shows "freeze (thaw (landing_to_dict l)) = PProxy [
    (''durable'', PBool b), (''error_code'', opt_str (lf_error_code l)),
    (''evidence_revision'', PStr (lf_evidence_revision l)), (''observed_at'', PStr (lf_observed_at l)),
    (''project_id'', PStr (lf_project_id l)), (''proof'', freeze (thaw (thaw (lf_proof l)))),
    (''revision'', opt_str (lf_revision l)), (''schema_version'', PInt n), (''source'', PStr (lf_source l)),
    (''state'', PStr (landing_state_value (lf_state l))), (''target'', PStr (lf_target l))]"
  by (simp add: landing_to_dict_def assms string_order)
lemma landing_row_roundtrip:
  assumes ok: "landing_ok l" and l: "lf_durable l = PBool True" "lf_schema_version l = PInt n"
    and pr: "lf_proof l = PProxy [(''kind'', PStr k)]"
  shows "landing_row_of (lf_project_id l) True (landing_to_dict l) = Inr l"
proof -
  have "optional_text (PStr k) \<noteq> None" using ok pr by (simp add: landing_ok_def)
  then have "landing_from_dict (freeze (thaw (landing_to_dict l))) = Inr l"
    using ok l pr landing_state_of_value[of Landing_LANDED] unfolding landing_json[OF l] landing_ok_def
    by (auto simp add: landing_from_dict_def keywords_ok_def make_landing_def Let_def intro!: landing_fact.equality)
  then show ?thesis using l by (simp add: landing_row_of_def json_object_def landing_to_dict_def)
qed

theorem completion_publishes_landings_witness:
  "\<exists>l s' row. complete_job PNone [landing_to_dict l] ''j'' ''t'' 30 sample_lease = Inr (s', row)
    \<and> jb_state row = Job_COMPLETED \<and> st_landings s' \<noteq> []"
proof -
  obtain l where l: "make_landing (PStr ''work'') (PStr ''main'') PNone (PDict [(''kind'', PStr ''git_ancestry'')])
     (PStr sample_time) (PStr ''p'') PNone (PStr ''landed'') (PBool True) PNone (PInt 1) = Inr l"
    "lf_durable l = PBool True" "lf_schema_version l = PInt 1" "lf_project_id l = ''p''"
    "lf_proof l = PProxy [(''kind'', PStr ''git_ancestry'')]"
    using landing_state_of_value [of Landing_LANDED]
    by (simp add: make_landing_def normal_time_def sample_time_parses required_text_def
        optional_text_def py_strip_def char_eval py_eq_def Let_def)
  have rows: "landing_fact_rows ''p'' True [landing_to_dict l] = Inr [l]"
    using landing_row_roundtrip[OF make_landing_ok[OF l(1)] l(2,3,5)] l(4) by (simp add: landing_fact_rows_def)
  have "st_landings sample_lease = []"
    by (simp add: sample_lease_def sample_queue_def append_event_def Let_def empty_store_def)
  then obtain s1 n where "insert_landings ''p'' ''T'' 30 [l] sample_lease = Inr (s1, n)" "st_jobs s1 = st_jobs sample_lease"
    by simp
  then obtain s' row where c: "complete_job PNone [landing_to_dict l] ''j'' ''t'' 30 sample_lease = Inr (s', row)"
    using rows by (simp add: complete_job_def json_object_def sample_owned)
      (simp add: sample_jobs write_owned_def commit_event_def row_locked_def update_rows_def sample_store_jobs)
  have t: "py_strip ''t'' = ''t''" by (simp add: str_eval)
  from completion_publishes_landings[OF sample_lease_ok t c] have "jb_state row = Job_COMPLETED" "st_landings s' \<noteq> []" by auto
  with c show ?thesis by blast
qed

end
