(* ===== verification/SchedulePlans.thy ===== *)
theory SchedulePlans
  imports JobMachine
begin

text \<open>
  The scheduling tables along a run: the three generations stay in order, no cursor and no member is ahead of
  the newest scan, what a cursor materialised is its own generation, and the generations never go back.
\<close>

section \<open>What the other operations leave alone\<close>

definition same_plan :: "store \<Rightarrow> store \<Rightarrow> bool" where
  "same_plan s s' \<longleftrightarrow> st_membership s' = st_membership s \<and> st_cursors s' = st_cursors s
     \<and> st_event_cursors s' = st_event_cursors s \<and> st_orderings s' = st_orderings s
     \<and> st_publications s' = st_publications s \<and> st_cuts s' = st_cuts s
     \<and> (\<forall>key. key \<noteq> ''workflow_fair_claim_sequence'' \<longrightarrow> st_counters s' key = st_counters s key)"

lemma same_plan_refl [simp, intro]: "same_plan s s"
  by (simp add: same_plan_def)

lemma same_plan_trans: "same_plan s u \<Longrightarrow> same_plan u s' \<Longrightarrow> same_plan s s'"
  by (simp add: same_plan_def)

lemma written_same_plan: "written False T s s' \<Longrightarrow> same_plan s s'"
  by (induction rule: written.induct)
    (auto simp: same_plan_def update_rows_def append_event_def note_fairness_def next_counter_def Let_def)

lemma evolves_same_plan: "evolves T s s' \<Longrightarrow> same_plan s s'"
  by (induction rule: evolves_induct) (auto intro: same_plan_trans written_same_plan)

lemma same_plan_counter: "same_plan s s' \<Longrightarrow> key \<noteq> ''workflow_fair_claim_sequence'' \<Longrightarrow> counter key s' = counter key s"
  by (simp add: same_plan_def counter_def)

lemma same_plan_current: "same_plan s s' \<Longrightarrow> generation_current g s' \<longleftrightarrow> generation_current g s"
  by (simp add: same_plan_def generation_current_def)

section \<open>The invariant\<close>

definition cursor_ok :: "int \<Rightarrow> schedule_cursor \<Rightarrow> bool" where
  "cursor_ok n c \<longleftrightarrow> 1 \<le> cu_snapshot_generation c \<and> cu_snapshot_generation c \<le> n
     \<and> cu_materialized_job_generation c \<in> {None, Some (cu_job_generation c)}"

definition counters_ok :: "store \<Rightarrow> bool" where
  "counters_ok s \<longleftrightarrow> 0 \<le> counter PUBLISHED s \<and> counter PUBLISHED s \<le> counter ACCEPTED s
     \<and> counter ACCEPTED s \<le> counter ALLOCATED s \<and> 0 \<le> counter EVENT_GENERATION s"

definition tables_ok :: "int \<Rightarrow> int \<Rightarrow> (task_key \<times> schedule_cursor) list \<Rightarrow> (task_key \<times> int) list \<Rightarrow> int list \<Rightarrow> bool" where
  "tables_ok n p cs ms ps \<longleftrightarrow> distinct (map fst cs) \<and> distinct (map fst ms)
     \<and> (\<forall>c \<in> snd ` set cs. cursor_ok n c) \<and> (\<forall>g \<in> snd ` set ms. 1 \<le> g \<and> g \<le> n)
     \<and> (\<forall>g \<in> set ps. 1 \<le> g \<and> g \<le> p)"

definition plan_ok :: "store \<Rightarrow> bool" where
  "plan_ok s \<longleftrightarrow> counters_ok s
     \<and> tables_ok (counter ALLOCATED s) (counter PUBLISHED s) (st_cursors s) (st_membership s) (st_publications s)"

lemma tables_ok_mono: "tables_ok n p cs ms ps \<Longrightarrow> n \<le> n' \<Longrightarrow> p \<le> p' \<Longrightarrow> tables_ok n' p' cs ms ps"
  by (force simp: tables_ok_def cursor_ok_def)

lemma plan_ok_empty: "plan_ok empty_store"
  by (simp add: plan_ok_def tables_ok_def counters_ok_def counter_def empty_store_def)

lemma plan_ok_same: "same_plan s s' \<Longrightarrow> plan_ok s \<Longrightarrow> plan_ok s'"
  by (simp add: plan_ok_def counters_ok_def same_plan_counter) (simp add: same_plan_def)

lemma current_counter: "generation_current g s \<Longrightarrow> counter ALLOCATED s = g \<and> counter ACCEPTED s = g"
  by (simp add: generation_current_def counter_def)

lemma plan_okI:
  "plan_ok s \<Longrightarrow> (\<And>key. key \<in> {ALLOCATED, ACCEPTED, PUBLISHED, EVENT_GENERATION} \<Longrightarrow> counter key s' = counter key s)
    \<Longrightarrow> tables_ok (counter ALLOCATED s) (counter PUBLISHED s) (st_cursors s') (st_membership s') (st_publications s')
    \<Longrightarrow> plan_ok s'"
  by (simp add: plan_ok_def counters_ok_def)

lemma snd_update: "snd ` set (AList.update k v al) \<subseteq> insert v (snd ` set al)"
  by (induction al) auto

lemma set_delete_subset: "set (AList.delete k al) \<subseteq> set al"
  by (auto simp: AList.delete_eq)

lemma snd_delete: "snd ` set (AList.delete k al) \<subseteq> snd ` set al"
  by (rule image_mono[OF set_delete_subset])

text \<open>Changes that the invariant does not see: other counters, the order of events, the retirements.\<close>

definition untouched :: "store \<Rightarrow> store \<Rightarrow> bool" where
  "untouched s s' \<longleftrightarrow> st_cursors s' = st_cursors s \<and> st_membership s' = st_membership s
     \<and> st_publications s' = st_publications s
     \<and> (\<forall>key \<in> {ALLOCATED, ACCEPTED, PUBLISHED, EVENT_GENERATION}. st_counters s' key = st_counters s key)"

lemma untouched_refl [simp, intro]: "untouched s s"
  by (simp add: untouched_def)

lemma untouched_trans: "untouched s u \<Longrightarrow> untouched u s' \<Longrightarrow> untouched s s'"
  by (simp add: untouched_def)

lemma untouched_plan: "untouched s s' \<Longrightarrow> plan_ok s \<Longrightarrow> plan_ok s'"
  by (simp add: untouched_def plan_ok_def counters_ok_def counter_def)

lemma same_plan_untouched: "same_plan s s' \<Longrightarrow> untouched s s'"
  by (simp add: same_plan_def untouched_def)

lemma fold_untouched: "(\<And>x u. untouched u (f x u)) \<Longrightarrow> untouched s (fold f xs s)"
  by (induction xs arbitrary: s) (auto intro: untouched_trans)

lemma untouched_writes [simp]:
  "key \<notin> {ALLOCATED, ACCEPTED, PUBLISHED, EVENT_GENERATION} \<Longrightarrow> untouched s (set_counter key n s)"
  "untouched s (order_event k g revision s)"
  "untouched s (order_source e s)"
  "untouched s (retire_job kind revision snapshot j s)"
  "untouched s (write_event_cursor k revision generation n s)"
  "untouched s (fst (next_counter EVENT_SEQUENCE s))"
  by (auto simp: untouched_def set_counter_def order_event_def order_source_def retire_job_def
      record_retirement_def write_event_cursor_def next_counter_def Let_def split: option.split)

lemma write_cut_untouched: "write_cut project task kind revision c n s = Inr s' \<Longrightarrow> untouched s s'"
  by (auto simp: write_cut_def Let_def untouched_def split: option.splits if_splits)

lemma record_job_retirements_untouched:
  "record_job_retirements project task kind revision snapshot managed excluded s = Inr (s', n) \<Longrightarrow> untouched s s'"
  by (auto simp: record_job_retirements_def succeeds_iff Let_def split: if_splits option.splits
      intro!: fold_untouched intro: untouched_trans write_cut_untouched)

lemma lifecycle_final_untouched:
  "record_lifecycle_final_authority project task status snapshot s = Inr (s', n) \<Longrightarrow> untouched s s'"
  by (auto simp: record_lifecycle_final_authority_def succeeds_iff Let_def split: if_splits
      dest: record_job_retirements_untouched)

lemma event_retirement_untouched:
  "record_event_handoff_retirements project task generation lane n lanes s = Inr (s', m) \<Longrightarrow> untouched s s'"
  by (auto simp: record_event_handoff_retirements_def succeeds_iff Let_def split: if_splits intro!: fold_untouched)

lemma event_calls_untouched:
  "reconcile_event_handoff_retirements project task lanes retired actions s = Inr (s', m) \<Longrightarrow> untouched s s'"
  "retire_named_lanes e generation j s = Inr s' \<Longrightarrow> untouched s s'"
  "retire_managed_work q s = Inr s' \<Longrightarrow> untouched s s'"
  "activate_event_order project task namespace g revision s = Inr (s', b) \<Longrightarrow> untouched s s'"
  "allocate_decision_window entries limit snapshot scope s = Inr (s', offset) \<Longrightarrow> untouched s s'"
  by (auto simp: reconcile_event_handoff_retirements_def retire_named_lanes_def retire_managed_work_def
      activate_event_order_def allocate_decision_window_def succeeds_iff Let_def split: if_splits option.splits
      dest: event_retirement_untouched record_job_retirements_untouched)

section \<open>Each operation keeps it\<close>

lemma counter_set_counter: "counter key (set_counter k n s) = (if key = k then n else counter key s)"
  by (simp add: counter_def set_counter_def)

lemma set_counter_tables_simps [simp]:
  "st_cursors (set_counter k n s) = st_cursors s" "st_membership (set_counter k n s) = st_membership s"
  "st_publications (set_counter k n s) = st_publications s" "st_orderings (set_counter k n s) = st_orderings s"
  by (simp_all add: set_counter_def)

lemma max_or_zero_ge: "n \<in> set ns \<Longrightarrow> n \<le> max_or_zero ns"
  by (auto simp: max_or_zero_def)

text \<open>A new ordering generation is beyond every generation handed out and every event ordered.\<close>

lemma ordering_generation_fresh:
  assumes "next_ordering_generation key s = (s', g)"
  shows "s' = set_counter key g s" "st_counters s ALLOCATED = Some n \<Longrightarrow> n < g"
    "st_counters s EVENT_GENERATION = Some n \<Longrightarrow> n < g" "(k, o') \<in> set (st_orderings s) \<Longrightarrow> eo_generation o' < g"
    "counters_ok s \<Longrightarrow> 1 \<le> g \<and> counter ALLOCATED s < g"
proof -
  let ?cs = "List.map_filter (st_counters s) [ALLOCATED, EVENT_GENERATION]"
  let ?os = "map (\<lambda>(_, o'). eo_generation o') (st_orderings s)"
  have g: "g = max (max_or_zero ?cs) (max_or_zero ?os) + 1" and s': "s' = set_counter key g s"
    using assms by (auto simp: next_ordering_generation_def Let_def)
  show "s' = set_counter key g s" by (rule s')
  have cs: "n \<in> set ?cs \<Longrightarrow> n < g" and os: "n \<in> set ?os \<Longrightarrow> n < g" for n
    using max_or_zero_ge[of n ?cs] max_or_zero_ge[of n ?os] g by linarith+
  show "n < g" if "st_counters s ALLOCATED = Some n"
    by (rule cs) (use that in \<open>simp add: map_filter_simps\<close>)
  show "n < g" if "st_counters s EVENT_GENERATION = Some n"
    by (rule cs) (use that in \<open>cases "st_counters s ALLOCATED"; simp add: map_filter_simps\<close>)
  show "eo_generation o' < g" if "(k, o') \<in> set (st_orderings s)"
    by (rule os) (use that in force)
  show "1 \<le> g \<and> counter ALLOCATED s < g" if ok: "counters_ok s"
  proof (cases "st_counters s ALLOCATED")
    case (Some n)
    then have "n < g" by (intro cs) (simp add: map_filter_simps)
    then show ?thesis using ok Some by (simp add: counter_def counters_ok_def)
  next
    case None
    have "0 \<le> max_or_zero ?cs"
      using ok None by (auto simp: map_filter_simps max_or_zero_def counters_ok_def counter_def split: option.splits)
    then show ?thesis using None g by (simp add: counter_def)
  qed
qed

lemma allocate_plan:
  assumes "allocate_snapshot_generation s = (s', g)" and "plan_ok s"
  shows "plan_ok s'" "counter ALLOCATED s < g" "counter ALLOCATED s' = g" "counter PUBLISHED s' = counter PUBLISHED s"
proof -
  have "next_ordering_generation ALLOCATED s = (s', g)" using assms(1) by (simp add: allocate_snapshot_generation_def)
  note f = ordering_generation_fresh[OF this]
  have ok: "counters_ok s" using assms(2) by (simp add: plan_ok_def)
  have s': "s' = set_counter ALLOCATED g s" by (rule f(1))
  show lt: "counter ALLOCATED s < g" using f(5)[OF ok] ..
  show "counter ALLOCATED s' = g" "counter PUBLISHED s' = counter PUBLISHED s"
    unfolding s' by (simp_all add: counter_set_counter)
  have "tables_ok (counter ALLOCATED s) (counter PUBLISHED s) (st_cursors s) (st_membership s) (st_publications s)"
    using assms(2) by (simp add: plan_ok_def)
  then have "tables_ok g (counter PUBLISHED s) (st_cursors s) (st_membership s) (st_publications s)"
    by (rule tables_ok_mono) (use lt in simp_all)
  then show "plan_ok s'"
    using ok lt unfolding s' plan_ok_def counters_ok_def by (simp add: counter_set_counter)
qed

lemma allocate_event_plan: "allocate_event_generation s = (s', g) \<Longrightarrow> plan_ok s \<Longrightarrow> plan_ok s'"
proof -
  assume a: "allocate_event_generation s = (s', g)" and ok: "plan_ok s"
  have "next_ordering_generation EVENT_GENERATION s = (s', g)" using a by (simp add: allocate_event_generation_def)
  note f = ordering_generation_fresh[OF this]
  have "counters_ok s" using ok by (simp add: plan_ok_def)
  then have "1 \<le> g" using f(5) by blast
  then show ?thesis using ok f(1) unfolding plan_ok_def counters_ok_def by (simp add: counter_set_counter)
qed

lemma accept_plan: "accept_snapshot_generation g s = Inr (s', b) \<Longrightarrow> plan_ok s \<Longrightarrow> plan_ok s'"
  by (simp add: accept_snapshot_generation_def plan_ok_def counters_ok_def split: if_splits)
    (auto simp: counter_set_counter)

lemma mark_published_fields:
  "counter key (mark_published g s) = (if key = PUBLISHED then g else counter key s)"
  "st_cursors (mark_published g s) = st_cursors s" "st_membership (mark_published g s) = st_membership s"
  "set (st_publications (mark_published g s)) = insert g (set (st_publications s))"
  by (auto simp: mark_published_def counter_def set_counter_def Let_def)

lemma publishE:
  assumes "publish_snapshot_generation g call None s = (s', outcome)"
  obtains "s' = s" "outcome \<noteq> Published"
  | "s' = mark_published g s" "outcome = Published" "1 \<le> g" "generation_current g s" "counter PUBLISHED s < g"
  | "s' = withdraw_accepted g s" "outcome \<noteq> Published"
  using assms by (auto simp: publish_snapshot_generation_def split: if_splits publisher_call.splits)

lemma publish_plan:
  assumes call: "publish_snapshot_generation g call None s = (s', outcome)" and ok: "plan_ok s"
  shows "plan_ok s'"
  using call
proof (cases rule: publishE)
  case 1
  then show ?thesis using ok by simp
next
  case 2
  let ?T = "\<lambda>p ps. tables_ok (counter ALLOCATED s) p (st_cursors s) (st_membership s) ps"
  have "?T (counter PUBLISHED s) (st_publications s)" using ok by (simp add: plan_ok_def)
  then have "?T g (st_publications s)" by (rule tables_ok_mono) (use 2(5) in simp_all)
  then have "?T g (st_publications s')" using 2 by (simp add: tables_ok_def mark_published_fields)
  then show ?thesis using 2 ok current_counter[OF 2(4)]
    by (simp add: plan_ok_def counters_ok_def mark_published_fields)
next
  case 3
  then show ?thesis using ok
    by (auto simp: withdraw_accepted_def plan_ok_def counters_ok_def counter_set_counter)
qed

section \<open>Cursors and members\<close>

lemma plan_tables: "plan_ok s \<Longrightarrow>
    tables_ok (counter ALLOCATED s) (counter PUBLISHED s) (st_cursors s) (st_membership s) (st_publications s)"
  by (simp add: plan_ok_def)

lemma plan_cursors:
  assumes "plan_ok s" and "distinct (map fst cs)"
    and "\<And>c. c \<in> snd ` set cs \<Longrightarrow> c \<in> snd ` set (st_cursors s) \<or> cursor_ok (counter ALLOCATED s) c"
  shows "plan_ok (s\<lparr>st_cursors := cs\<rparr>)"
proof (rule plan_okI[OF assms(1)])
  note t = plan_tables[OF assms(1), unfolded tables_ok_def]
  have "\<forall>c \<in> snd ` set cs. cursor_ok (counter ALLOCATED s) c"
  proof
    fix c
    assume "c \<in> snd ` set cs"
    from assms(3)[OF this] t show "cursor_ok (counter ALLOCATED s) c" by blast
  qed
  then have "tables_ok (counter ALLOCATED s) (counter PUBLISHED s) cs (st_membership s) (st_publications s)"
    unfolding tables_ok_def using t assms(2) by (intro conjI) simp_all
  then show "tables_ok (counter ALLOCATED s) (counter PUBLISHED s) (st_cursors (s\<lparr>st_cursors := cs\<rparr>))
      (st_membership (s\<lparr>st_cursors := cs\<rparr>)) (st_publications (s\<lparr>st_cursors := cs\<rparr>))" by simp
qed (simp add: counter_def)

lemma plan_members:
  assumes "plan_ok s" and "distinct (map fst ms)"
    and "\<And>g. g \<in> snd ` set ms \<Longrightarrow> g \<in> snd ` set (st_membership s) \<or> 1 \<le> g \<and> g \<le> counter ALLOCATED s"
  shows "plan_ok (s\<lparr>st_membership := ms\<rparr>)"
proof (rule plan_okI[OF assms(1)])
  note t = plan_tables[OF assms(1), unfolded tables_ok_def]
  have "\<forall>g \<in> snd ` set ms. 1 \<le> g \<and> g \<le> counter ALLOCATED s"
  proof
    fix g
    assume "g \<in> snd ` set ms"
    from assms(3)[OF this] t show "1 \<le> g \<and> g \<le> counter ALLOCATED s" by blast
  qed
  then have "tables_ok (counter ALLOCATED s) (counter PUBLISHED s) (st_cursors s) ms (st_publications s)"
    unfolding tables_ok_def using t assms(2) by (intro conjI) simp_all
  then show "tables_ok (counter ALLOCATED s) (counter PUBLISHED s) (st_cursors (s\<lparr>st_membership := ms\<rparr>))
      (st_membership (s\<lparr>st_membership := ms\<rparr>)) (st_publications (s\<lparr>st_membership := ms\<rparr>))" by simp
qed (simp add: counter_def)

lemma plan_cursor_of: "plan_ok s \<Longrightarrow> map_of (st_cursors s) key = Some c \<Longrightarrow> cursor_ok (counter ALLOCATED s) c"
  by (auto simp: plan_ok_def tables_ok_def dest!: map_of_SomeD)

lemma delete_cursor_plan: "plan_ok s \<Longrightarrow> plan_ok (s\<lparr>st_cursors := AList.delete key (st_cursors s)\<rparr>)"
proof (rule plan_cursors)
  assume "plan_ok s"
  then show "distinct (map fst (AList.delete key (st_cursors s)))"
    by (simp add: plan_ok_def tables_ok_def distinct_delete)
qed (assumption, drule subsetD[OF snd_delete], erule disjI1)

lemma write_cursor_plan:
  assumes ok: "plan_ok s" and g: "generation_current snapshot s" "1 \<le> snapshot"
  shows "plan_ok (write_cursor key snapshot revision generation s)"
proof -
  let ?kept = "case map_of (st_cursors s) key of None \<Rightarrow> None
    | Some c \<Rightarrow> if cu_job_generation c = generation then cu_materialized_job_generation c else None"
  let ?c = "\<lparr>cu_snapshot_generation = snapshot, cu_decision_revision = revision,
    cu_job_generation = generation, cu_materialized_job_generation = ?kept\<rparr>"
  have "cursor_ok (counter ALLOCATED s) ?c"
    using current_counter[OF g(1)] g(2) plan_cursor_of[OF ok, of key]
    by (auto simp: cursor_ok_def split: option.split)
  moreover have "distinct (map fst (AList.update key ?c (st_cursors s)))"
    using ok by (simp add: plan_ok_def tables_ok_def distinct_update)
  ultimately have "plan_ok (s\<lparr>st_cursors := AList.update key ?c (st_cursors s)\<rparr>)"
    using snd_update[of key ?c "st_cursors s"] by (intro plan_cursors[OF ok]) auto
  then show ?thesis by (simp add: write_cursor_def Let_def)
qed

lemma materialize_cursor_plan: "plan_ok s \<Longrightarrow> plan_ok (materialize_cursor key snapshot generation s)"
proof -
  assume ok: "plan_ok s"
  let ?f = "\<lambda>(k, c). if k = key \<and> cu_snapshot_generation c = snapshot \<and> cu_job_generation c = generation
     then (k, c\<lparr>cu_materialized_job_generation := Some generation\<rparr>) else (k, c)"
  have "plan_ok (s\<lparr>st_cursors := map ?f (st_cursors s)\<rparr>)"
  proof (rule plan_cursors[OF ok])
    have "map fst (map ?f (st_cursors s)) = map fst (st_cursors s)" by auto
    then show "distinct (map fst (map ?f (st_cursors s)))" using ok by (simp only: plan_ok_def tables_ok_def)
    fix c
    assume "c \<in> snd ` set (map ?f (st_cursors s))"
    then obtain k c' where c': "(k, c') \<in> set (st_cursors s)" "c = snd (?f (k, c'))" by auto
    then have "cursor_ok (counter ALLOCATED s) c'" using ok by (force simp: plan_ok_def tables_ok_def)
    then have "cursor_ok (counter ALLOCATED s) c" using c'(2) by (auto simp: cursor_ok_def split: if_splits)
    then show "c \<in> snd ` set (st_cursors s) \<or> cursor_ok (counter ALLOCATED s) c" ..
  qed
  then show ?thesis by (simp add: materialize_cursor_def)
qed

section \<open>Membership\<close>

definition same_counters :: "store \<Rightarrow> store \<Rightarrow> bool" where
  "same_counters s s' \<longleftrightarrow>
     (\<forall>key \<in> {ALLOCATED, ACCEPTED, PUBLISHED, EVENT_GENERATION}. st_counters s' key = st_counters s key)"

lemma same_counters_refl [simp, intro]: "same_counters s s"
  by (simp add: same_counters_def)

lemma same_counters_trans: "same_counters s u \<Longrightarrow> same_counters u s' \<Longrightarrow> same_counters s s'"
  by (simp add: same_counters_def)

lemma untouched_counters: "untouched s s' \<Longrightarrow> same_counters s s'"
  by (simp add: untouched_def same_counters_def)

lemma table_writes_counters [simp]:
  "same_counters s (write_cursor key snapshot revision generation s)"
  "same_counters s (materialize_cursor key snapshot generation s)"
  "same_counters s (replace_members project snapshot tasks evaluated s)"
  by (simp_all add: same_counters_def write_cursor_def materialize_cursor_def replace_members_def Let_def)

lemma activate_plan:
  assumes "activate_schedule project task revision snapshot deadline action lanes now s = Inr (s', v)" and "plan_ok s"
  shows "plan_ok s' \<and> same_counters s s'"
proof (cases "s' = s")
  case False
  then obtain key rev generation where "1 \<le> snapshot" "generation_current snapshot s"
    "s' = write_cursor key snapshot rev generation s"
    using assms(1) by (auto simp: activate_schedule_def activated_def succeeds_iff Let_def
        split: if_splits option.splits)
  then show ?thesis using write_cursor_plan assms(2) table_writes_counters(1) by blast
qed (use assms(2) in simp)

lemma retire_tasks_plan:
  assumes "store_ok s" and "retire_tasks project snapshot now tasks s = Inr (s', a, b)" and "plan_ok s"
  shows "plan_ok s' \<and> st_membership s' = st_membership s
    \<and> same_counters s s'"
  using assms
proof (induction tasks arbitrary: s a b)
  case (Cons task tasks)
  let ?p = "\<lambda>j. of_task project task j \<and> jb_workflow_managed j \<and> active j"
  obtain s1 n a' b' where sup: "supersede_rows (''snapshot:'' @ int_str snapshot) ABSENT_MESSAGE now
       (filter ?p (st_jobs s)) s = Inr (s1, n)"
    and rest: "retire_tasks project snapshot now tasks
       (s1\<lparr>st_cursors := AList.delete (project, task) (st_cursors s1)\<rparr>) = Inr (s', a', b')"
    using Cons.prems(2) by (auto simp: ebind_eq_Inr_iff Let_def split: prod.splits)
  let ?u = "s1\<lparr>st_cursors := AList.delete (project, task) (st_cursors s1)\<rparr>"
  have ev: "evolves {} s s1" using sup by (rule filter_supersede_evolves[OF Cons.prems(1), rotated]) simp
  have same: "same_plan s s1" using evolves_same_plan[OF ev] .
  have "steers {} s1 ?u" by (rule tables_only_steers) (simp add: tables_only_def)
  then have ok: "store_ok ?u" using ev evolves_ok Cons.prems(1) by blast
  have "plan_ok ?u" using delete_cursor_plan untouched_plan[OF same_plan_untouched[OF same] Cons.prems(3)] by blast
  then show ?case using Cons.IH[OF ok rest] same by (simp add: same_plan_def same_counters_def)
qed simp

lemma replace_members_plan:
  assumes ok: "plan_ok s" and g: "counter ALLOCATED s = snapshot" "1 \<le> snapshot" and d: "distinct tasks"
  shows "plan_ok (replace_members project snapshot tasks evaluated s)"
proof -
  let ?new = "member_rows project snapshot tasks evaluated (st_membership s)"
  let ?old = "filter (\<lambda>(k, _). fst k \<noteq> project) (st_membership s)"
  have "map fst ?new = map (Pair project) tasks" by (simp add: member_rows_def o_def)
  then have "distinct (map fst ?new)" using d by (simp add: distinct_map inj_on_def)
  moreover have "distinct (map fst ?old)" using ok by (simp add: plan_ok_def tables_ok_def distinct_map_filter)
  moreover have "fst ` set ?old \<inter> fst ` set ?new = {}" by (auto simp: member_rows_def)
  ultimately have dist: "distinct (map fst (?old @ ?new))" by simp
  have mem: "g \<in> snd ` set (st_membership s) \<or> g = snapshot" if "g \<in> snd ` set (?old @ ?new)" for g
    using that by (auto simp: member_rows_def image_iff split: if_splits option.splits dest: map_of_SomeD) (metis map_of_SomeD snd_conv)
  have "plan_ok (s\<lparr>st_membership := ?old @ ?new\<rparr>)"
  proof (rule plan_members[OF ok dist])
    fix g
    assume "g \<in> snd ` set (?old @ ?new)"
    from mem[OF this] show "g \<in> snd ` set (st_membership s) \<or> 1 \<le> g \<and> g \<le> counter ALLOCATED s"
      using g by (elim disjE) simp_all
  qed
  then show ?thesis by (simp add: replace_members_def)
qed

lemma reconcile_projects_plan:
  assumes "store_ok s" and "reconcile_projects snapshot expected evaluated now projects s = Inr (s', a, b)"
    and "plan_ok s" and "counter ALLOCATED s = snapshot" "1 \<le> snapshot"
  shows "plan_ok s' \<and> same_counters s s'"
  using assms
proof (induction projects arbitrary: s a b)
  case (Cons project projects)
  let ?tasks = "expected_tasks project expected"
  obtain s1 c d a' b' where r: "retire_tasks project snapshot now (filter (\<lambda>t. t \<notin> set ?tasks) (known_tasks project s)) s
      = Inr (s1, c, d)"
    and rest: "reconcile_projects snapshot expected evaluated now projects
      (replace_members project snapshot ?tasks evaluated s1) = Inr (s', a', b')"
    using Cons.prems(2) by (auto simp: ebind_eq_Inr_iff Let_def split: prod.splits)
  let ?u = "replace_members project snapshot ?tasks evaluated s1"
  have s1: "plan_ok s1" "counter ALLOCATED s1 = snapshot"
    using retire_tasks_plan[OF Cons.prems(1) r Cons.prems(3)] Cons.prems(4)
    by (simp_all add: counter_def same_counters_def)
  have "plan_ok ?u" by (rule replace_members_plan[OF s1 Cons.prems(5)]) (simp add: expected_tasks_def)
  moreover have "counter ALLOCATED ?u = snapshot" using s1(2) by (simp add: replace_members_def counter_def)
  moreover have "steers {} s ?u"
    using retire_tasks_steers[OF Cons.prems(1) r] tables_only_steers[OF replace_members_tables] evolves_trans by blast
  then have "store_ok ?u" using evolves_ok Cons.prems(1) by blast
  ultimately have "plan_ok s' \<and> same_counters ?u s'" using Cons.IH rest Cons.prems(5) by blast
  moreover have "same_counters s ?u"
    using retire_tasks_plan[OF Cons.prems(1) r Cons.prems(3)] same_counters_trans table_writes_counters(3) by blast
  ultimately show ?case using same_counters_trans by blast
qed simp

lemma membership_plan:
  assumes ok: "store_ok s" and call: "reconcile_snapshot_membership snapshot ps expected evaluated now s = Inr (s', w)"
    and plan: "plan_ok s"
  shows "plan_ok s' \<and> same_counters s s'"
proof (cases "s' = s")
  case False
  then obtain ex ev projects a b where "generation_current snapshot s" "1 \<le> snapshot"
    and "reconcile_projects snapshot ex ev now projects s = Inr (s', a, b)"
    using call by (auto simp: reconcile_snapshot_membership_def succeeds_iff Let_def split: if_splits)
  then show ?thesis using reconcile_projects_plan[OF ok _ plan] current_counter by blast
qed (use plan in simp)

section \<open>Materialisation and events\<close>

lemma evolves_plan: "evolves T s s' \<Longrightarrow> plan_ok s \<Longrightarrow> plan_ok s' \<and> same_counters s s'"
  using evolves_same_plan same_plan_untouched untouched_plan untouched_counters by blast

lemma untouched_keeps: "untouched s s' \<Longrightarrow> plan_ok s \<Longrightarrow> plan_ok s' \<and> same_counters s s'"
  using untouched_plan untouched_counters by blast

lemma record_schedule_cut_untouched:
  "record_schedule_cut record_cut project task kind revision snapshot jids s = Inr s' \<Longrightarrow> untouched s s'"
  by (auto simp: record_schedule_cut_def ebind_eq_Inr_iff split: if_splits dest: record_job_retirements_untouched)

lemma reconcile_schedule_plan:
  assumes ok: "store_ok s" and specs: "\<And>sp. sp \<in> set specs \<Longrightarrow> 0 < js_max_attempts sp"
    and call: "reconcile_schedule project task snapshot generation specs record_cut kind reason ids now s = Inr (s', w)"
    and plan: "plan_ok s"
  shows "plan_ok s' \<and> same_counters s s'"
  using call
proof (rule reconcile_scheduleE)
  fix c s1 jids created replays s2 n
  assume e: "enqueue_specs ids now specs s = Inr (s1, jids, created, replays)"
    and sup: "supersede_rows (py_strip generation) (py_strip reason) now (filter (replaced (py_strip project)
      (py_strip task) (py_strip generation) (map js_idempotency_key specs)) (st_jobs s1)) s1 = Inr (s2, n)"
    and cut: "record_schedule_cut record_cut (py_strip project) (py_strip task) (managed_kind specs)
      (cu_decision_revision c) snapshot jids
      (materialize_cursor (py_strip project, py_strip task) snapshot (py_strip generation) s2) = Inr s'"
  have s1: "evolves {} s s1" using enqueue_specs_evolves[OF specs e] by blast
  then have "store_ok s1" using evolves_ok ok by blast
  then have "evolves {} s1 s2" by (rule filter_supersede_evolves[OF _ _ sup]) (simp add: replaced_def)
  then have s2: "plan_ok s2" "same_counters s s2"
    using s1 evolves_plan[OF _ plan] evolves_trans by blast+
  let ?s3 = "materialize_cursor (py_strip project, py_strip task) snapshot (py_strip generation) s2"
  have "plan_ok ?s3" "same_counters s ?s3"
    using s2 materialize_cursor_plan same_counters_trans table_writes_counters(2) by blast+
  then show ?thesis
    using untouched_keeps[OF record_schedule_cut_untouched[OF cut]] same_counters_trans by blast
qed (use plan in simp)

lemma activate_event_plan:
  assumes ok: "store_ok s" and call: "activate_event e advanced fresh now s = Inr (s', w)" and plan: "plan_ok s"
  shows "plan_ok s' \<and> same_counters s s'"
proof -
  define s1 where "s1 = fst (next_counter EVENT_SEQUENCE s)"
  define generation where "generation = event_generation e advanced (snd (next_counter EVENT_SEQUENCE s)) s1"
  define s2 where "s2 = write_event_cursor (er_project_id e, er_task_id e, event_lane e) (er_decision_revision e)
    generation (snd (next_counter EVENT_SEQUENCE s)) s1"
  obtain sp s3 row created s4 n where sp: "event_spec e generation = Inr sp"
    and e: "enqueue_locked sp False fresh now s2 = Inr (s3, row, created)"
    and sup: "supersede_rows generation (er_reason e) now
      (filter (displaced e (js_scheduling_lane sp) generation) (st_jobs s3)) s3 = Inr (s4, n)"
    and last: "retire_named_lanes e generation row s4 = Inr s'"
    using call unfolding activate_event_def s2_def generation_def s1_def
    by (auto simp: ebind_eq_Inr_iff Let_def split: prod.splits)
  have t: "untouched s s2" unfolding s2_def s1_def using untouched_trans untouched_writes(5,6) by blast
  have "tables_only s s2" unfolding s2_def s1_def
    by (simp add: tables_only_def write_event_cursor_def next_counter_def Let_def)
  then have "store_ok s2" using evolves_ok[OF tables_only_steers] ok by blast
  moreover have "0 < js_max_attempts sp" using sp make_spec_attempts by (simp add: event_spec_def)
  ultimately have "evolves {} s2 s4" using e
    by (rule enqueue_supersede_evolves[OF _ _ _ _ sup]) (simp add: displaced_def)
  then have "untouched s2 s4" using evolves_same_plan same_plan_untouched by blast
  then show ?thesis using t event_calls_untouched(2)[OF last] untouched_trans untouched_keeps[OF _ plan] by blast
qed

lemma materialize_event_plan:
  assumes ok: "store_ok s" and call: "materialize_event request fresh now s = Inr (s', w)" and plan: "plan_ok s"
  shows "plan_ok s' \<and> same_counters s s'"
proof -
  obtain e where call': "(case order_of_source e s of Source_stale \<Rightarrow> Inr (s, stale_event e s)
     | Source_conflict \<Rightarrow> Inl StoreError
     | Source_current advanced \<Rightarrow> (let s1 = order_source e s in
         case protected_job e s1 of
            Some j \<Rightarrow> Inr (s1, \<lparr>ew_job = (if same_event e j then Some j else None), ew_accepted = True,
              ew_created = False, ew_superseded = 0\<rparr>)
          | None \<Rightarrow> activate_event e advanced fresh now s1)) = Inr (s', w)"
    using call by (auto simp: materialize_event_def ebind_eq_Inr_iff)
  let ?s = "order_source e s"
  have o': "store_ok ?s" "plan_ok ?s" "same_counters s ?s"
    using tables_only_steers[OF order_source_tables] evolves_ok ok untouched_keeps[OF untouched_writes(3) plan]
    by blast+
  show ?thesis using call' o' plan activate_event_plan[OF o'(1) _ o'(2)] same_counters_trans[OF o'(3)]
    by (auto simp: Let_def split: source_order.splits option.splits)
qed

lemma retire_lane_plan:
  assumes ok: "store_ok s"
    and call: "retire_event_lane project task lane namespace g revision reason now s = Inr (s', w)" and plan: "plan_ok s"
  shows "plan_ok s' \<and> same_counters s s'"
  using call
proof (rule retire_laneE)
  fix u n
  assume u: "u = order_event (py_strip project, py_strip task, py_strip namespace) g (py_strip revision) s"
    and sup: "supersede_rows (''decision:'' @ int_str g @ '':'' @ py_strip revision) (py_strip reason) now
      (filter (retirable_row (py_strip project) (py_strip task) (py_strip lane)) (st_jobs u)) u = Inr (s', n)"
  have "store_ok u" using tables_only_steers[OF order_event_tables] evolves_ok ok unfolding u by blast
  then have "evolves {} u s'" by (rule filter_supersede_evolves[OF _ retirable_row_active sup])
  then have "untouched u s'" using evolves_same_plan same_plan_untouched by blast
  then show ?thesis using untouched_trans[OF untouched_writes(2)] untouched_keeps[OF _ plan] unfolding u by blast
qed (use plan in simp)

lemma replacing_lane_plan:
  assumes ok: "store_ok s" and max: "0 < js_max_attempts (lq_spec q)"
    and call: "enqueue_replacing_lane q fresh now s = Inr (s', w)" and plan: "plan_ok s"
  shows "plan_ok s' \<and> same_counters s s'"
proof -
  have "untouched s s'" if r: "replace_lane q message fresh now s = Inr (s', w)" for message
  proof -
    let ?sp = "lq_spec q"
    define s1 where "s1 = order_event (js_project_id ?sp, js_task_id ?sp, js_scheduling_lane ?sp)
      (lq_source_generation q) (js_generation ?sp) s"
    obtain s2 row created s3 n where e: "enqueue_locked ?sp False fresh now s1 = Inr (s2, row, created)"
      and sup: "supersede_rows (js_generation ?sp) message now (filter (\<lambda>j. of_task (js_project_id ?sp) (js_task_id ?sp) j
         \<and> jb_scheduling_lane j = js_scheduling_lane ?sp \<and> active j \<and> jb_job_id j \<noteq> jb_job_id row) (st_jobs s2)) s2
        = Inr (s3, n)"
      and last: "retire_managed_work q s3 = Inr s'"
      using r unfolding replace_lane_def Let_def s1_def by (auto simp: ebind_eq_Inr_iff)
    have "store_ok s1" using tables_only_steers[OF order_event_tables] evolves_ok ok unfolding s1_def by blast
    then have "evolves {} s1 s3" by (rule enqueue_supersede_evolves[OF _ max e _ sup]) simp
    then have "untouched s1 s3" using evolves_same_plan same_plan_untouched by blast
    then show ?thesis unfolding s1_def
      using untouched_trans[OF untouched_writes(2)] untouched_trans event_calls_untouched(3)[OF last] by blast
  qed
  moreover have "untouched s s'" if "stale_activation q observed fresh now s = Inr (s', w)" for observed
    using stale_activation_evolves[OF ok max that] evolves_same_plan same_plan_untouched by blast
  ultimately have "untouched s s'"
    using call by (auto simp: enqueue_replacing_lane_def replay_activation_def succeeds_iff Let_def ebind_eq_Inr_iff
      split: if_splits option.splits dest: event_calls_untouched(3))
  then show ?thesis using untouched_keeps plan by blast
qed

section \<open>Along a run\<close>

text \<open>The newest scan and the published scan only move forward.\<close>

definition ahead :: "store \<Rightarrow> store \<Rightarrow> bool" where
  "ahead s s' \<longleftrightarrow> counter ALLOCATED s \<le> counter ALLOCATED s' \<and> counter PUBLISHED s \<le> counter PUBLISHED s'"

lemma same_counters_ahead: "same_counters s s' \<Longrightarrow> ahead s s'"
  by (simp add: same_counters_def ahead_def counter_def)

lemma keeps: "plan_ok s' \<and> same_counters s s' \<Longrightarrow> plan_ok s' \<and> ahead s s'"
  using same_counters_ahead by blast

lemma schedule_call_plan: "schedule_call s s' \<Longrightarrow> store_ok s \<Longrightarrow> plan_ok s \<Longrightarrow> plan_ok s' \<and> ahead s s'"
proof (induction rule: schedule_call.induct)
  case (call_allocate s s' g)
  then show ?case using allocate_plan[OF call_allocate(1,3)] by (simp add: ahead_def)
next
  case (call_allocate_event s s' g)
  have "ahead s s'" using call_allocate_event(1)
    by (auto simp: allocate_event_generation_def ahead_def counter_set_counter dest!: ordering_generation_fresh(1))
  then show ?case using allocate_event_plan[OF call_allocate_event(1,3)] by blast
next
  case (call_accept g s s' b)
  have "ahead s s'" using call_accept(1)
    by (auto simp: accept_snapshot_generation_def ahead_def counter_set_counter split: if_splits)
  then show ?case using accept_plan[OF call_accept(1,3)] by blast
next
  case (call_publish g call s s' outcome)
  have "ahead s s'" using call_publish(1)
    by (cases rule: publishE) (auto simp: ahead_def mark_published_fields withdraw_accepted_def counter_set_counter)
  then show ?case using publish_plan[OF call_publish(1,3)] by blast
next
  case (call_reconcile specs project task snapshot generation record_cut kind reason ids now s s' w')
  then show ?case using reconcile_schedule_plan well_made_attempts same_counters_ahead by blast
next
  case (call_replace_lane q fresh now s s' w'')
  then show ?case using replacing_lane_plan well_made_attempts same_counters_ahead by blast
next
  case (call_window entries limit snapshot scope s s' offset)
  then show ?case using keeps[OF untouched_keeps] event_calls_untouched(5) by blast
next
  case (call_membership snapshot ps expected evaluated now s s' w)
  then show ?case using keeps[OF membership_plan] by blast
next
  case (call_activate project task revision snapshot deadline action lanes now s s' v)
  then show ?case using keeps[OF activate_plan] by blast
next
  case (call_final project task status snapshot s s' n)
  then show ?case using keeps[OF untouched_keeps] lifecycle_final_untouched by blast
next
  case (call_order project task namespace g revision s s' b)
  then show ?case using keeps[OF untouched_keeps] event_calls_untouched(4) by blast
next
  case (call_event e fresh now s s' w'')
  then show ?case using keeps[OF materialize_event_plan] by blast
next
  case (call_retire_lane project task lane namespace g revision reason now s s' w'')
  then show ?case using keeps[OF retire_lane_plan] by blast
next
  case (call_handoff project task lanes retired actions s s' n)
  then show ?case using keeps[OF untouched_keeps] event_calls_untouched(1) by blast
qed

text \<open>A step of the store is a scheduling call or leaves the scheduling tables alone.\<close>

lemma job_step_plan:
  assumes step: "job_step R (s, U) (s', U')" and ok: "store_ok s" and plan: "plan_ok s"
  shows "plan_ok s' \<and> ahead s s'"
  using job_step_cases[OF step ok] schedule_call_plan[OF _ ok plan] keeps[OF evolves_plan[OF _ plan]] by blast

text \<open>The configurations of a run, with both invariants.\<close>

definition planned :: "config \<Rightarrow> bool" where
  "planned c \<longleftrightarrow> store_ok (fst c) \<and> plan_ok (fst c)"

interpretation plans: inductive_invariant "job_step R" "(empty_store, {})" planned for R
proof
  show "planned (empty_store, {})" by (simp add: planned_def store_ok_empty plan_ok_empty)
next
  fix c c'
  assume step: "job_step R c c'" and ok: "planned c"
  obtain s U s' U' where c: "c = (s, U)" "c' = (s', U')" by fastforce
  have "store_ok s" "plan_ok s" using ok unfolding c planned_def by simp_all
  then show "planned c'"
    using job_step_evolves[OF step[unfolded c]] evolves_ok job_step_plan[OF step[unfolded c]]
    unfolding c planned_def by auto
qed

lemma run_ahead:
  assumes "(job_step R)\<^sup>*\<^sup>* (s, U) (s', U')" and "planned (s, U)"
  shows "ahead s s' \<and> planned (s', U')"
  using assms(1)
proof (induction "(s', U')" arbitrary: s' U' rule: rtranclp_induct)
  case base
  then show ?case using assms(2) by (simp add: ahead_def)
next
  case (step c)
  obtain u V where c: "c = (u, V)" by fastforce
  have u: "ahead s u" "planned (u, V)" using step.hyps(3)[OF c] by auto
  have "ahead u s'" using job_step_plan[OF step.hyps(2)[unfolded c]] u(2) by (simp add: planned_def)
  moreover have "planned (s', U')" using plans.keep[OF step.hyps(2)[unfolded c] u(2)] .
  ultimately show ?case using u(1) by (auto simp: ahead_def)
qed

text \<open>C16. The scheduling tables stay ordered.  In every state a run reaches, the published generation is at most the
  accepted one and that at most the allocated one; there is one cursor and one membership row per task, both of a
  generation that was allocated; a cursor is materialised for its own job generation only; and every generation
  of the publication log is at most the published one.\<close>

theorem scheduling_tables_ordered:
  assumes "(job_step R)\<^sup>*\<^sup>* (empty_store, {}) (s, U)"
  shows "counter PUBLISHED s \<le> counter ACCEPTED s \<and> counter ACCEPTED s \<le> counter ALLOCATED s
    \<and> distinct (map fst (st_cursors s)) \<and> distinct (map fst (st_membership s))
    \<and> (\<forall>c \<in> snd ` set (st_cursors s). 1 \<le> cu_snapshot_generation c \<and> cu_snapshot_generation c \<le> counter ALLOCATED s
        \<and> cu_materialized_job_generation c \<in> {None, Some (cu_job_generation c)})
    \<and> (\<forall>g \<in> snd ` set (st_membership s). 1 \<le> g \<and> g \<le> counter ALLOCATED s)
    \<and> (\<forall>g \<in> set (st_publications s). 1 \<le> g \<and> g \<le> counter PUBLISHED s)"
  using plans.reachable[OF assms] by (simp add: planned_def plan_ok_def counters_ok_def tables_ok_def cursor_ok_def)

end
