(* ===== verification/WorkflowScheduler.thy ===== *)
theory WorkflowScheduler
  imports EventLanes WorkDecision
begin

text \<open>
  The scheduler of oompah/workflow_scheduler.py: one pass over the decisions of a scan, which stages a cursor
  for every decision and materialises the jobs of a bounded window of them.

  A pass is a sequence of transactions of the store: the acceptance of the generation, the membership, the
  window, the batch of cursors and jobs, the proofs of materialisation, the publication.  Other processes may
  act between them: \<open>env k\<close> is what they did to the store after the \<open>k\<close>-th (the identity when the pass runs
  alone).  Each transaction that reads the clock reads it once: \<open>clock i\<close> is what the \<open>i\<close>-th reading gives;
  \<open>ids i k\<close> is the \<open>k\<close>-th fresh job id of the \<open>i\<close>-th decision.  An exception undoes its own transaction only,
  so a pass returns the store beside its outcome.
\<close>

section \<open>Configuration\<close>

abbreviation MAX_SCHEDULER_LIMIT :: int where
  "MAX_SCHEDULER_LIMIT \<equiv> 1000"

abbreviation MAX_SCHEDULER_CONCURRENCY :: int where
  "MAX_SCHEDULER_CONCURRENCY \<equiv> 64"

record scheduler =
  sd_decision_limit :: int
  sd_job_batch_size :: int
  sd_concurrency :: int
  sd_default_priority :: int
  sd_max_attempts :: int
  sd_policy_epoch :: string
  sd_lane_prefixes :: "string list"

definition bounded_setting :: "pyval \<Rightarrow> int stored" where
  "bounded_setting v = (if is_py_bool v then Inl (PyExn ValueError) else
     ebind (lift_py (py_int v)) (\<lambda>n. if n < 1 \<or> MAX_SCHEDULER_LIMIT < n then Inl (PyExn ValueError) else Inr n))"

definition normalize_policy_epoch :: "pyval \<Rightarrow> string stored" where
  "normalize_policy_epoch v = (if text_of v = [] then Inl (PyExn ValueError) else Inr (text_of v))"

text \<open>\<open>WorkflowJobScheduler.__init__\<close>, the checked settings.\<close>

definition make_scheduler ::
  "pyval \<Rightarrow> pyval \<Rightarrow> pyval \<Rightarrow> pyval \<Rightarrow> pyval \<Rightarrow> pyval \<Rightarrow> pyval list \<Rightarrow> scheduler stored" where
  "make_scheduler decision_limit job_batch_size concurrency default_priority max_attempts policy_epoch prefixes =
     ebind (bounded_setting decision_limit) (\<lambda>limit.
     ebind (bounded_setting job_batch_size) (\<lambda>batch.
     ebind (bounded_setting concurrency) (\<lambda>width.
     if MAX_SCHEDULER_CONCURRENCY < width then Inl (PyExn ValueError) else
     if is_py_bool default_priority then Inl (PyExn ValueError) else
     ebind (lift_py (py_int default_priority)) (\<lambda>priority.
     ebind (bounded_setting max_attempts) (\<lambda>attempts.
     ebind (normalize_policy_epoch policy_epoch) (\<lambda>epoch.
     Inr \<lparr>sd_decision_limit = limit, sd_job_batch_size = batch, sd_concurrency = width,
       sd_default_priority = priority, sd_max_attempts = attempts, sd_policy_epoch = epoch,
       sd_lane_prefixes = sort (remdups (filter (\<lambda>p. p \<noteq> []) (map text_of prefixes)))\<rparr>))))))"

definition configure_policy_epoch :: "pyval \<Rightarrow> scheduler \<Rightarrow> scheduler stored" where
  "configure_policy_epoch v sd = ebind (normalize_policy_epoch v) (\<lambda>epoch. Inr (sd\<lparr>sd_policy_epoch := epoch\<rparr>))"

section \<open>From a decision to its jobs\<close>

definition scheduled_revision :: "scheduler \<Rightarrow> work_decision \<Rightarrow> string stored" where
  "scheduled_revision sd d = lift_py (decision_scheduling_revision d (PStr (sd_policy_epoch sd)))"

definition job_key :: "work_decision \<Rightarrow> cursor_view \<Rightarrow> string \<Rightarrow> int \<Rightarrow> int \<Rightarrow> string" where
  "job_key d v action priority max_attempts = ''workflow-decision:'' @ sha256_hex (json_dumps (PDict [
     (''project_id'', PStr (wd_project_id d)),
     (''task_id'', PStr (wd_task_id d)),
     (''job_generation'', PStr (cv_job_generation v)),
     (''decision_revision'', PStr (cv_decision_revision v)),
     (''evidence_revision'', PStr (wd_evidence_revision d)),
     (''action'', PStr action),
     (''priority'', PInt priority),
     (''max_attempts'', PInt max_attempts)]))"

definition decision_spec :: "scheduler \<Rightarrow> work_decision \<Rightarrow> cursor_view \<Rightarrow> string \<Rightarrow> job_spec stored" where
  "decision_spec sd d v action = make_spec (PStr (wd_project_id d)) (PStr (wd_task_id d))
     (PStr (cv_job_generation v)) (PStr action)
     (PStr (job_key d v action (sd_default_priority sd) (sd_max_attempts sd))) (PStr ''intent'')
     (PStr (wd_evidence_revision d)) PNone (PInt (sd_default_priority sd)) (PInt (sd_max_attempts sd))
     (PStr (wd_reason_code d)) PNone (PStr ''decision'')"

definition decision_specs :: "scheduler \<Rightarrow> work_decision \<Rightarrow> cursor_view \<Rightarrow> job_spec list stored" where
  "decision_specs sd d v = eseq (decision_spec sd d v) (wd_jobs d)"

definition decision_key :: "work_decision \<Rightarrow> task_key" where
  "decision_key d = (wd_project_id d, wd_task_id d)"

text \<open>The last decision of each task; two different ones of a task are a conflict.\<close>

fun decisions_by_task ::
  "(task_key \<times> work_decision) list \<Rightarrow> work_decision list \<Rightarrow> (task_key \<times> work_decision) list stored" where
  "decisions_by_task m [] = Inr m"
| "decisions_by_task m (d # ds) =
     (if (case map_of m (decision_key d) of None \<Rightarrow> False | Some p \<Rightarrow> wd_revision p \<noteq> wd_revision d)
      then Inl (PyExn ValueError) else decisions_by_task (AList.update (decision_key d) d m) ds)"

definition ordered_decisions :: "work_decision list \<Rightarrow> work_decision list stored" where
  "ordered_decisions ds =
     (if \<not> list_all (\<lambda>d. length (wd_jobs d) \<le> 1) ds then Inl (PyExn ValueError)
      else ebind (decisions_by_task [] ds) (\<lambda>m. Inr (map snd (sort_key fst m))))"

text \<open>The deadline of a decision, in seconds since the epoch; a decision's time carries its offset.\<close>

definition decision_deadline :: "work_decision \<Rightarrow> real option stored" where
  "decision_deadline d = (case wd_next_reassessment_at d of None \<Rightarrow> Inr None
     | Some t \<Rightarrow> (case fromisoformat (expand_z t) of
           Some (us, Some offset) \<Rightarrow> Inr (Some (of_int (us - offset) / 1000000))
         | _ \<Rightarrow> Inl (PyExn ValueError)))"

text \<open>The action whose event lanes may stand in for a decision's job, and those lanes.\<close>

definition protected_action :: "scheduler \<Rightarrow> work_decision \<Rightarrow> string option" where
  "protected_action sd d = (case wd_jobs d of [action] \<Rightarrow> if sd_lane_prefixes sd = [] then None else Some action
     | _ \<Rightarrow> None)"

definition protected_lanes :: "scheduler \<Rightarrow> string option \<Rightarrow> string list" where
  "protected_lanes sd action = (case action of None \<Rightarrow> [] | Some a \<Rightarrow> map (\<lambda>p. p @ a) (sd_lane_prefixes sd))"

section \<open>The result of a pass\<close>

record reconcile_result =
  rr_snapshot_generation :: int
  rr_snapshot_accepted :: bool
  rr_decisions_seen :: nat
  rr_decisions_applied :: nat
  rr_stale_rejected :: nat
  rr_jobs_created :: nat
  rr_jobs_replayed :: nat
  rr_jobs_superseded :: nat
  rr_jobs_required :: nat
  rr_jobs_materialized :: nat
  rr_schedules_required :: nat
  rr_schedules_materialized :: nat
  rr_truncated :: bool

definition jobs_required :: "work_decision list \<Rightarrow> nat" where
  "jobs_required ds = sum_list (map (\<lambda>d. length (wd_jobs d)) ds)"

definition rejected_result :: "int \<Rightarrow> work_decision list \<Rightarrow> bool \<Rightarrow> reconcile_result" where
  "rejected_result g ds truncated = \<lparr>rr_snapshot_generation = g, rr_snapshot_accepted = False,
     rr_decisions_seen = 0, rr_decisions_applied = 0, rr_stale_rejected = length ds, rr_jobs_created = 0,
     rr_jobs_replayed = 0, rr_jobs_superseded = 0, rr_jobs_required = jobs_required ds,
     rr_jobs_materialized = 0, rr_schedules_required = length ds, rr_schedules_materialized = 0,
     rr_truncated = truncated\<rparr>"

definition bounded_window :: "scheduler \<Rightarrow> work_decision list \<Rightarrow> bool" where
  "bounded_window sd ds \<longleftrightarrow> sd_decision_limit sd < int (length ds)"

definition rejected_snapshot :: "scheduler \<Rightarrow> int \<Rightarrow> work_decision list \<Rightarrow> reconcile_result stored" where
  "rejected_snapshot sd g decisions = (if g < 1 then Inl (PyExn ValueError) else
     ebind (ordered_decisions decisions) (\<lambda>ds. Inr (rejected_result g ds (bounded_window sd ds))))"

section \<open>The batch\<close>

text \<open>The retirement of the tasks whose lifecycle is final.\<close>

fun record_finals :: "int \<Rightarrow> (string \<times> string \<times> string) list \<Rightarrow> store \<Rightarrow> store stored" where
  "record_finals g [] s = Inr s"
| "record_finals g ((project, task, status) # finals) s =
     ebind (record_lifecycle_final_authority project task status g s) (\<lambda>(s', _). record_finals g finals s')"

text \<open>A cursor for every decision: the accepted ones by task, and how many were stale.\<close>

definition activate_decision ::
  "scheduler \<Rightarrow> int \<Rightarrow> real \<Rightarrow> work_decision \<Rightarrow> store \<Rightarrow> (store \<times> cursor_view) stored" where
  "activate_decision sd g now d s =
     ebind (scheduled_revision sd d) (\<lambda>revision.
     ebind (decision_deadline d) (\<lambda>deadline.
     activate_schedule (wd_project_id d) (wd_task_id d) revision g deadline (protected_action sd d)
       (protected_lanes sd (protected_action sd d)) now s))"

fun activate_decisions ::
  "scheduler \<Rightarrow> int \<Rightarrow> (nat \<Rightarrow> real) \<Rightarrow> work_decision list \<Rightarrow> store
   \<Rightarrow> (store \<times> (task_key \<times> cursor_view) list \<times> nat) stored" where
  "activate_decisions sd g clock [] s = Inr (s, [], 0)"
| "activate_decisions sd g clock (d # ds) s =
     ebind (activate_decision sd g (clock 0) d s) (\<lambda>(s1, v).
     ebind (activate_decisions sd g (\<lambda>i. clock (Suc i)) ds s1) (\<lambda>(s2, m, stale).
     Inr (if cv_accepted v then (s2, (decision_key d, v) # m, stale) else (s2, m, Suc stale))))"

definition SUPERSEDED_REASON :: string where
  "SUPERSEDED_REASON = ''superseded by a newer workflow decision''"

definition UNCUT_REASON_CODES :: "string list" where
  "UNCUT_REASON_CODES = [''retry.exhausted'', ''controller.evaluation_failed'', ''evidence.conflicting_task_facts'']"

definition materialize_decision ::
  "scheduler \<Rightarrow> int \<Rightarrow> (nat \<Rightarrow> string) \<Rightarrow> real \<Rightarrow> work_decision \<Rightarrow> cursor_view \<Rightarrow> store
   \<Rightarrow> (store \<times> schedule_write) stored" where
  "materialize_decision sd g ids now d v s =
     ebind (decision_specs sd d v) (\<lambda>specs.
     reconcile_schedule (wd_project_id d) (wd_task_id d) g (cv_job_generation v) specs
       (wd_reason_code d \<notin> set UNCUT_REASON_CODES) (Some (managed_kind specs)) SUPERSEDED_REASON ids now s)"

record tally =
  ta_applied :: nat
  ta_stale :: nat
  ta_created :: nat
  ta_replayed :: nat
  ta_superseded :: nat

definition count_write :: "schedule_write \<Rightarrow> tally \<Rightarrow> tally" where
  "count_write w n = (if sw_accepted w then n\<lparr>ta_applied := Suc (ta_applied n),
       ta_created := ta_created n + sw_created w, ta_replayed := ta_replayed n + sw_replayed w,
       ta_superseded := ta_superseded n + sw_superseded w\<rparr>
     else n\<lparr>ta_stale := Suc (ta_stale n)\<rparr>)"

fun materialize_decisions ::
  "scheduler \<Rightarrow> int \<Rightarrow> (nat \<Rightarrow> nat \<Rightarrow> string) \<Rightarrow> (nat \<Rightarrow> real) \<Rightarrow> (task_key \<times> cursor_view) list \<Rightarrow> work_decision list
   \<Rightarrow> tally \<Rightarrow> store \<Rightarrow> (store \<times> tally) stored" where
  "materialize_decisions sd g ids clock m [] n s = Inr (s, n)"
| "materialize_decisions sd g ids clock m (d # ds) n s =
     (case map_of m (decision_key d) of
        None \<Rightarrow> materialize_decisions sd g (\<lambda>i. ids (Suc i)) (\<lambda>i. clock (Suc i)) m ds n s
      | Some v \<Rightarrow> ebind (materialize_decision sd g (ids 0) (clock 0) d v s) (\<lambda>(s', w).
          materialize_decisions sd g (\<lambda>i. ids (Suc i)) (\<lambda>i. clock (Suc i)) m ds (count_write w n) s'))"

definition scheduling_batch ::
  "scheduler \<Rightarrow> int \<Rightarrow> (nat \<Rightarrow> nat \<Rightarrow> string) \<Rightarrow> (nat \<Rightarrow> real) \<Rightarrow> (string \<times> string \<times> string) list
   \<Rightarrow> work_decision list \<Rightarrow> work_decision list \<Rightarrow> nat \<Rightarrow> store \<Rightarrow> (store \<times> tally) stored" where
  "scheduling_batch sd g ids clock finals ds selected superseded s =
     ebind (record_finals g finals s) (\<lambda>s1.
     ebind (activate_decisions sd g clock ds s1) (\<lambda>(s2, m, stale).
     materialize_decisions sd g ids (\<lambda>i. clock (length ds + i)) m selected
       \<lparr>ta_applied = 0, ta_stale = stale, ta_created = 0, ta_replayed = 0, ta_superseded = superseded\<rparr> s2))"

section \<open>Proofs of materialisation\<close>

text \<open>Whether the job of a decision is there: its own, or an event of a protected lane in its place.\<close>

definition decision_materialized :: "scheduler \<Rightarrow> real \<Rightarrow> work_decision \<Rightarrow> store \<Rightarrow> (bool \<times> nat) stored" where
  "decision_materialized sd now d s =
     ebind (read_schedule_cursor (wd_project_id d) (wd_task_id d) s) (\<lambda>cursor.
     case cursor of None \<Rightarrow> Inr (False, 0) | Some v \<Rightarrow>
     ebind (scheduled_revision sd d) (\<lambda>revision.
     if cv_decision_revision v \<noteq> revision \<or> \<not> cv_materialized v then Inr (False, 0) else
     ebind (decision_specs sd d v) (\<lambda>specs.
     ebind (schedule_specs_materialized (wd_project_id d) (wd_task_id d) revision (cv_job_generation v)
         (map js_idempotency_key specs) now s) (\<lambda>exact.
     ebind (case specs of
           [sp] \<Rightarrow> if exact \<or> sd_lane_prefixes sd = [] then Inr False
             else schedule_substitute_materialized (wd_project_id d) (wd_task_id d) revision
               (cv_job_generation v) (js_action sp) (protected_lanes sd (Some (js_action sp))) now s
         | _ \<Rightarrow> Inr False) (\<lambda>substitute.
     Inr (exact \<or> substitute, length specs))))))"

fun materialized_totals ::
  "scheduler \<Rightarrow> (nat \<Rightarrow> real) \<Rightarrow> work_decision list \<Rightarrow> store \<Rightarrow> (nat \<times> nat) stored" where
  "materialized_totals sd clock [] s = Inr (0, 0)"
| "materialized_totals sd clock (d # ds) s =
     ebind (decision_materialized sd (clock 0) d s) (\<lambda>(yes, jobs).
     ebind (materialized_totals sd (\<lambda>i. clock (Suc i)) ds s) (\<lambda>(schedules, jobs').
     Inr (if yes then (Suc schedules, jobs + jobs') else (schedules, jobs'))))"

section \<open>A pass\<close>

text \<open>What an exception leaves: the store as the last transaction committed it.\<close>

definition committed ::
  "store \<Rightarrow> 'a stored \<Rightarrow> ('a \<Rightarrow> store \<times> 'b stored) \<Rightarrow> store \<times> 'b stored" where
  "committed s m f = (case m of Inl e \<Rightarrow> (s, Inl e) | Inr x \<Rightarrow> f x)"

record snapshot_scan =
  sn_decisions :: "work_decision list"
  sn_authoritative :: "string list option"
  sn_expected :: "task_key list option"
  sn_finals :: "(string \<times> string \<times> string) list"

definition final_tasks :: "(string \<times> string \<times> string) list \<Rightarrow> (string \<times> string \<times> string) list stored" where
  "final_tasks finals = (let stripped = map (\<lambda>(p, t, x). (py_strip p, py_strip t, py_strip x)) finals in
     if list_ex (\<lambda>(p, t, x). p = [] \<or> t = [] \<or> x = []) stripped then Inl (PyExn ValueError)
     else Inr (sort (remdups stripped)))"

definition scan_membership ::
  "int \<Rightarrow> snapshot_scan \<Rightarrow> work_decision list \<Rightarrow> real \<Rightarrow> store \<Rightarrow> (store \<times> nat option) stored" where
  "scan_membership g sn ds now s = (case (sn_authoritative sn, sn_expected sn) of
       (Some projects, Some expected) \<Rightarrow>
         ebind (reconcile_snapshot_membership g projects expected
           (Some (filter (\<lambda>k. k \<in> set expected) (map decision_key ds))) now s) (\<lambda>(s', w).
         Inr (s', if mw_accepted w then Some (mw_jobs_superseded w) else None))
     | _ \<Rightarrow> Inr (s, Some 0))"

definition scan_window :: "scheduler \<Rightarrow> int \<Rightarrow> work_decision list \<Rightarrow> store \<Rightarrow> (store \<times> work_decision list option) stored"
  where
  "scan_window sd g ds s = (if \<not> bounded_window sd ds then Inr (s, Some ds) else
     ebind (allocate_decision_window (int (length ds)) (sd_decision_limit sd) (Some g) None s) (\<lambda>(s', offset).
     Inr (s', map_option (\<lambda>n. take (nat (sd_decision_limit sd)) (drop (nat n) ds @ take (nat n) ds)) offset)))"

definition pass_result ::
  "scheduler \<Rightarrow> int \<Rightarrow> work_decision list \<Rightarrow> work_decision list \<Rightarrow> tally \<Rightarrow> nat \<Rightarrow> nat \<Rightarrow> reconcile_result" where
  "pass_result sd g ds selected n schedules jobs = \<lparr>rr_snapshot_generation = g, rr_snapshot_accepted = True,
     rr_decisions_seen = length selected, rr_decisions_applied = ta_applied n, rr_stale_rejected = ta_stale n,
     rr_jobs_created = ta_created n, rr_jobs_replayed = ta_replayed n, rr_jobs_superseded = ta_superseded n,
     rr_jobs_required = jobs_required ds, rr_jobs_materialized = jobs, rr_schedules_required = length ds,
     rr_schedules_materialized = schedules,
     rr_truncated = (schedules < length ds \<or> jobs < jobs_required ds)\<rparr>"

definition reconcile_accepted ::
  "scheduler \<Rightarrow> (nat \<Rightarrow> store \<Rightarrow> store) \<Rightarrow> (nat \<Rightarrow> nat \<Rightarrow> string) \<Rightarrow> (nat \<Rightarrow> real) \<Rightarrow> int \<Rightarrow> snapshot_scan \<Rightarrow> store
   \<Rightarrow> store \<times> reconcile_result stored" where
  "reconcile_accepted sd env ids clock g sn s =
     (if g < 1 then (s, Inl (PyExn ValueError)) else
      committed s (ordered_decisions (sn_decisions sn)) (\<lambda>ds.
      let rejected = rejected_result g ds (bounded_window sd ds) in
      if \<not> generation_current g s then (s, Inr rejected)
      else if (sn_authoritative sn = None) \<noteq> (sn_expected sn = None) then (s, Inl (PyExn ValueError)) else
      committed s (final_tasks (sn_finals sn)) (\<lambda>finals.
      let s0 = env 0 s in
      committed s0 (scan_membership g sn ds (clock 0) s0) (\<lambda>(s1, superseded).
      case superseded of None \<Rightarrow> (s1, Inr rejected) | Some n \<Rightarrow>
      let s1' = env 1 s1 in
      committed s1' (scan_window sd g ds s1') (\<lambda>(s2, window).
      case window of None \<Rightarrow> (s2, Inr (rejected_result g ds True)) | Some selected \<Rightarrow>
      let s2' = env 2 s2 in
      committed s2' (scheduling_batch sd g ids (\<lambda>i. clock (Suc i)) finals ds selected n s2') (\<lambda>(s3, counts).
      let s3' = env 3 s3 in
      if \<not> generation_current g s3' then (s3', Inr rejected) else
      let s4 = env 4 s3' in
      committed s4 (materialized_totals sd (\<lambda>i. clock (Suc (2 * length ds + i))) ds s4) (\<lambda>(schedules, jobs).
      let s5 = env 5 s4 in
      if \<not> generation_current g s5 then (s5, Inr rejected)
      else (s5, Inr (pass_result sd g ds selected counts schedules jobs)))))))))"

text \<open>\<open>reconcile\<close>: claim the generation, run the pass, publish it; \<open>env\<close> goes on at 6.\<close>

definition default_scan :: "work_decision list \<Rightarrow> snapshot_scan \<Rightarrow> snapshot_scan" where
  "default_scan ds sn = (let expected = (case sn_expected sn of None \<Rightarrow> map decision_key ds | Some ks \<Rightarrow> ks) in
     sn\<lparr>sn_decisions := ds, sn_expected := Some expected, sn_authoritative := Some (case sn_authoritative sn of
        None \<Rightarrow> sort (remdups (map fst expected)) | Some ps \<Rightarrow> ps)\<rparr>)"

definition publish_pass ::
  "(nat \<Rightarrow> store \<Rightarrow> store) \<Rightarrow> int \<Rightarrow> work_decision list \<Rightarrow> store \<times> reconcile_result stored
   \<Rightarrow> store \<times> reconcile_result stored" where
  "publish_pass env g ds pass = (case pass of
       (s, Inl e) \<Rightarrow> (s, Inl e)
     | (s, Inr result) \<Rightarrow>
         if \<not> rr_snapshot_accepted result then (s, Inr result) else
         (case publish_snapshot_generation g Publisher_returned None (env 8 s) of (s', outcome) \<Rightarrow>
            (s', Inr (if outcome = Published then result else rejected_result g ds (rr_truncated result)))))"

definition reconcile ::
  "scheduler \<Rightarrow> (nat \<Rightarrow> store \<Rightarrow> store) \<Rightarrow> (nat \<Rightarrow> nat \<Rightarrow> string) \<Rightarrow> (nat \<Rightarrow> real) \<Rightarrow> int option \<Rightarrow> snapshot_scan \<Rightarrow> store
   \<Rightarrow> store \<times> reconcile_result stored" where
  "reconcile sd env ids clock snapshot sn s =
     (let (s0, g) = (case snapshot of None \<Rightarrow> allocate_snapshot_generation s | Some n \<Rightarrow> (s, n)) in
      if g < 1 then (s0, Inl (PyExn ValueError)) else
      committed s0 (ordered_decisions (sn_decisions sn)) (\<lambda>ds.
      committed (env 6 s0) (accept_snapshot_generation g (env 6 s0)) (\<lambda>(s1, accepted).
      if \<not> accepted then (s1, Inr (rejected_result g ds (bounded_window sd ds)))
      else publish_pass env g ds (reconcile_accepted sd env ids clock g (default_scan ds sn) (env 7 s1)))))"

section \<open>Counters\<close>

record metrics =
  me_reconciled_decisions :: nat
  me_stale_decisions :: nat
  me_wakeups :: nat
  me_coalesced_wakeups :: nat
  me_wake_pending :: bool
  me_full_syncs :: nat
  me_last_error :: "store_exn option"

definition record_reconcile_metrics :: "reconcile_result \<Rightarrow> metrics \<Rightarrow> metrics" where
  "record_reconcile_metrics r m = (if \<not> rr_snapshot_accepted r then m else
     m\<lparr>me_reconciled_decisions := me_reconciled_decisions m + rr_decisions_applied r,
       me_stale_decisions := me_stale_decisions m + rr_stale_rejected r, me_last_error := None\<rparr>)"

definition wake :: "string \<Rightarrow> metrics \<Rightarrow> metrics stored" where
  "wake reason m = (if py_strip reason = [] then Inl (PyExn ValueError) else
     Inr (m\<lparr>me_wakeups := me_wakeups m + 1,
       me_coalesced_wakeups := me_coalesced_wakeups m + (if me_wake_pending m then 1 else 0),
       me_wake_pending := True\<rparr>))"

end
