(* ===== verification/ScheduleClaims.thy ===== *)
theory ScheduleClaims
  imports SchedulePlans WorkflowScheduler
begin

text \<open>
  What the fences of a scan promise: an overtaken scan writes nothing, generations are published once and in
  order, a materialised cursor leaves one generation of decision work to its task, and the rotating window
  reaches every decision.
\<close>

section \<open>Overtaken scans\<close>

text \<open>A call under a generation that is not current is refused and returns the store it was given.\<close>

lemma stale_calls:
  assumes stale: "\<not> generation_current g s"
  shows "reconcile_snapshot_membership g ps expected evaluated now s = Inr (u, mw) \<Longrightarrow> u = s \<and> \<not> mw_accepted mw"
    and "allocate_decision_window entries limit (Some g) scope s = Inr (u, offset) \<Longrightarrow> u = s \<and> offset = None"
    and "activate_schedule project task revision g deadline action lanes now s = Inr (u, v) \<Longrightarrow> u = s \<and> \<not> cv_accepted v"
    and "reconcile_schedule project task g generation specs record_cut kind reason ids now s = Inr (u, w)
      \<Longrightarrow> u = s \<and> \<not> sw_accepted w"
    and "record_lifecycle_final_authority project task status g s = Inr (u, n) \<Longrightarrow> u = s"
    and "publish_snapshot_generation g call repair s = (u, outcome) \<Longrightarrow> u = s \<and> outcome \<noteq> Published"
proof -
  show "publish_snapshot_generation g call repair s = (u, outcome) \<Longrightarrow> u = s \<and> outcome \<noteq> Published"
    using stale by (auto simp: publish_snapshot_generation_def split: if_splits)
  show "activate_schedule project task revision g deadline action lanes now s = Inr (u, v) \<Longrightarrow> u = s \<and> \<not> cv_accepted v"
    using stale by (auto simp: activate_schedule_def stale_cursor_def cursor_view_of_def succeeds_iff Let_def
        split: if_splits option.splits)
  show "reconcile_schedule project task g generation specs record_cut kind reason ids now s = Inr (u, w)
      \<Longrightarrow> u = s \<and> \<not> sw_accepted w"
    using stale by (elim reconcile_scheduleE) (auto simp: rejected_write_def)
qed (use stale in \<open>auto simp: reconcile_snapshot_membership_def allocate_decision_window_def
    record_lifecycle_final_authority_def succeeds_iff Let_def split: if_splits\<close>)

lemma overtaken:
  assumes "(job_step R)\<^sup>*\<^sup>* (empty_store, {}) (s, U)" and "g < counter ALLOCATED s"
    and "(job_step R)\<^sup>*\<^sup>* (s, U) (s', U')"
  shows "\<not> generation_current g s'" "g \<noteq> counter ALLOCATED s'"
proof -
  have "planned (s, U)" using plans.reachable[OF assms(1)] .
  then have "ahead s s'" using run_ahead[OF assms(3)] by blast
  then show "g \<noteq> counter ALLOCATED s'" using assms(2) by (simp add: ahead_def)
  then show "\<not> generation_current g s'" using current_counter by blast
qed

text \<open>C17. Once a newer scan was allocated, an older one is inert for good: in every later state of the store
  its acceptance, its membership, its window, its cursors, its jobs, its retirements and its publication are all
  refused and leave the store exactly as it is.\<close>

theorem overtaken_scan_is_inert:
  assumes "(job_step R)\<^sup>*\<^sup>* (empty_store, {}) (s, U)" and "g < counter ALLOCATED s"
    and "(job_step R)\<^sup>*\<^sup>* (s, U) (s', U')"
  shows "(accept_snapshot_generation g s' = Inr (u, b) \<longrightarrow> u = s' \<and> \<not> b)
    \<and> (reconcile_snapshot_membership g ps expected evaluated now s' = Inr (u, mw) \<longrightarrow> u = s' \<and> \<not> mw_accepted mw)
    \<and> (allocate_decision_window entries limit (Some g) scope s' = Inr (u, offset) \<longrightarrow> u = s' \<and> offset = None)
    \<and> (activate_schedule project task revision g deadline action lanes now s' = Inr (u, v) \<longrightarrow> u = s' \<and> \<not> cv_accepted v)
    \<and> (reconcile_schedule project task g generation specs record_cut kind reason ids now s' = Inr (u, w)
        \<longrightarrow> u = s' \<and> \<not> sw_accepted w)
    \<and> (record_lifecycle_final_authority project task status g s' = Inr (u, n) \<longrightarrow> u = s')
    \<and> (publish_snapshot_generation g call repair s' = (u, outcome) \<longrightarrow> u = s' \<and> outcome \<noteq> Published)"
proof -
  have stale: "\<not> generation_current g s'" "g \<noteq> counter ALLOCATED s'" using overtaken[OF assms] by blast+
  have "accept_snapshot_generation g s' = Inr (u, b) \<longrightarrow> u = s' \<and> \<not> b"
    using stale(2) by (auto simp: accept_snapshot_generation_def split: if_splits)
  then show ?thesis by (auto dest!: stale_calls[OF stale(1)])
qed

text \<open>Publication is single and ordered: a generation that was published is never published again, and
  whatever is published later is a newer generation.\<close>

theorem published_once_in_order:
  assumes "(job_step R)\<^sup>*\<^sup>* (empty_store, {}) (s, U)"
    and "publish_snapshot_generation g call None s = (s1, Published)"
    and "(job_step R)\<^sup>*\<^sup>* (s1, U) (s2, U')"
    and "publish_snapshot_generation g' call' None s2 = (s3, Published)"
  shows "g < g' \<and> g' \<in> set (st_publications s3) \<and> counter PUBLISHED s3 = g'"
proof -
  have p: "planned (s, U)" using plans.reachable[OF assms(1)] .
  have step: "job_step R (s, U) (s1, U)" using step_schedule[OF call_publish[OF assms(2)]] .
  have "planned (s1, U)" using plans.keep[OF step p] .
  then have ah: "ahead s1 s2" using run_ahead[OF assms(3)] by blast
  have s1: "counter PUBLISHED s1 = g"
    using assms(2) by (cases rule: publishE) (auto simp: mark_published_fields)
  have "s3 = mark_published g' s2" "counter PUBLISHED s2 < g'"
    using assms(4) by (cases rule: publishE; simp)+
  then show ?thesis using ah s1 by (auto simp: ahead_def mark_published_fields)
qed

section \<open>One generation per task\<close>

lemma supersede_rows_active:
  assumes "store_ok s" and "set rows \<subseteq> set (st_jobs s)" and "distinct (map jb_job_id rows)"
    and "\<And>j. j \<in> set rows \<Longrightarrow> active j"
    and "supersede_rows current message now rows s = Inr (s', n)"
  shows "(\<forall>j \<in> set (st_jobs s'). active j \<longrightarrow> j \<in> set (st_jobs s) \<and> (j \<in> set rows \<longrightarrow> quarantined j))
    \<and> (\<forall>j \<in> set (st_jobs s). j \<notin> set rows \<longrightarrow> j \<in> set (st_jobs s'))"
  using assms
proof (induction rows arbitrary: s n)
  case (Cons row rows)
  have row: "row \<in> set (st_jobs s)" "active row" using Cons.prems(2,4) by auto
  show ?case
  proof (cases "quarantined row")
    case True
    then have "supersede_rows current message now rows s = Inr (s', n)" using Cons.prems(5) by simp
    then have "(\<forall>j \<in> set (st_jobs s'). active j \<longrightarrow> j \<in> set (st_jobs s) \<and> (j \<in> set rows \<longrightarrow> quarantined j))
      \<and> (\<forall>j \<in> set (st_jobs s). j \<notin> set rows \<longrightarrow> j \<in> set (st_jobs s'))"
      using Cons.IH[OF Cons.prems(1)] Cons.prems(2-4) by auto
    then show ?thesis using True by auto
  next
    case False
    let ?p = "\<lambda>j. jb_job_id j = jb_job_id row"
    let ?f = "superseded_row current message now"
    let ?s = "update_rows ?p ?f s"
    let ?payload = "[(''replacement_generation'', text_value current), (''reason'', text_value message)]"
    obtain u r m where w: "write_owned (jb_job_id row) ?f ''superseded'' ?payload now s = Inr (u, r)"
      and rest: "supersede_rows current message now rows u = Inr (s', m)"
      using Cons.prems(5) False by (auto simp: ebind_eq_Inr_iff)
    have u: "st_jobs u = st_jobs ?s"
      using w commit_eventD unfolding write_owned_def by fastforce
    have same: "j = row" if "j \<in> set (st_jobs s)" "?p j" for j
      using row_unique[OF Cons.prems(1) that(1) row(1) that(2)] .
    have "job_move {} j (?f j)" if "j \<in> set (st_jobs s)" "?p j" for j
      using same[OF that] row(2) by (auto simp: active_def intro: move_superseded)
    then have "evolves {} s u" using write_owned_evolves[OF w] by blast
    then have ok: "store_ok u" using evolves_ok Cons.prems(1) by blast
    have other: "row \<notin> set rows" using Cons.prems(3) by auto
    have "set rows \<subseteq> set (st_jobs u)"
      unfolding u using Cons.prems(2,3) by (intro rows_kept) simp_all
    then have IH: "(\<forall>j \<in> set (st_jobs s'). active j \<longrightarrow> j \<in> set (st_jobs u) \<and> (j \<in> set rows \<longrightarrow> quarantined j))
      \<and> (\<forall>j \<in> set (st_jobs u). j \<notin> set rows \<longrightarrow> j \<in> set (st_jobs s'))"
      using Cons.IH[OF ok _ _ _ rest] Cons.prems(3,4) by auto
    have old: "j \<in> set (st_jobs s) \<and> j \<noteq> row" if j: "j \<in> set (st_jobs u)" "active j" for j
    proof -
      obtain i where i: "i \<in> set (st_jobs s)" "j = (if ?p i then ?f i else i)"
        using j(1) unfolding u by (auto simp: update_rows_def)
      have "\<not> ?p i" using i(2) j(2) by (auto simp: superseded_row_def active_def job_states clear_lease_def)
      then show ?thesis using i by auto
    qed
    have kept: "j \<in> set (st_jobs u)" if "j \<in> set (st_jobs s)" "j \<noteq> row" for j
      unfolding u using that same by (intro row_other) auto
    have "j \<in> set (st_jobs s) \<and> (j \<in> set (row # rows) \<longrightarrow> quarantined j)" if "j \<in> set (st_jobs s')" "active j" for j
      using IH old[of j] that by (metis set_ConsD)
    moreover have "j \<in> set (st_jobs s')" if "j \<in> set (st_jobs s)" "j \<notin> set (row # rows)" for j
      using IH kept[of j] that by simp
    ultimately show ?thesis by blast
  qed
qed simp

lemma filter_supersede_active:
  assumes ok: "store_ok s" and p: "\<And>j. p j \<Longrightarrow> active j"
    and sup: "supersede_rows current message now (filter p (st_jobs s)) s = Inr (s', n)"
  shows "j \<in> set (st_jobs s') \<Longrightarrow> active j \<Longrightarrow> j \<in> set (st_jobs s) \<and> (p j \<longrightarrow> quarantined j)"
    and "j \<in> set (st_jobs s) \<Longrightarrow> \<not> p j \<Longrightarrow> j \<in> set (st_jobs s')"
proof -
  have "distinct (map jb_job_id (filter p (st_jobs s)))"
    using ok by (auto simp: store_ok_def distinct_map_filter)
  from supersede_rows_active[OF ok _ this _ sup] p
  have all: "(\<forall>j \<in> set (st_jobs s'). active j \<longrightarrow> j \<in> set (st_jobs s) \<and> (j \<in> set (filter p (st_jobs s)) \<longrightarrow> quarantined j))
    \<and> (\<forall>j \<in> set (st_jobs s). j \<notin> set (filter p (st_jobs s)) \<longrightarrow> j \<in> set (st_jobs s'))" by auto
  show "j \<in> set (st_jobs s') \<Longrightarrow> active j \<Longrightarrow> j \<in> set (st_jobs s) \<and> (p j \<longrightarrow> quarantined j)" using all by auto
  show "j \<in> set (st_jobs s) \<Longrightarrow> \<not> p j \<Longrightarrow> j \<in> set (st_jobs s')" using all by auto
qed

text \<open>Enqueued specifications have their rows, under the managed flag.\<close>

lemma enqueue_managed_row:
  assumes "store_ok s" and "0 < js_max_attempts sp" and "enqueue_locked sp True fresh now s = Inr (s', row, created)"
  shows "row \<in> set (st_jobs s') \<and> jb_workflow_managed row \<and> jb_project_id row = js_project_id sp
    \<and> jb_idempotency_key row = js_idempotency_key sp \<and> jb_spec_revision row = spec_revision sp"
proof (cases "find_key (js_project_id sp) (js_idempotency_key sp) s")
  case (Some existing)
  then have ex: "existing \<in> set (st_jobs s)" "jb_project_id existing = js_project_id sp"
    "jb_idempotency_key existing = js_idempotency_key sp"
    by (auto simp: find_key_def find_Some_iff)
  show ?thesis
  proof (cases "jb_workflow_managed existing")
    case True
    then show ?thesis using Some ex assms(3) by (auto simp: enqueue_locked_def split: if_splits)
  next
    case False
    let ?s = "update_rows (\<lambda>j. jb_job_id j = jb_job_id existing) managed_row s"
    have row: "row_locked (jb_job_id existing) ?s = Inr row" and s': "s' = ?s"
      and rev: "jb_spec_revision existing = spec_revision sp"
      using Some False assms(3) by (auto simp: enqueue_locked_def ebind_eq_Inr_iff Let_def split: if_splits)
    obtain i where i: "i \<in> set (st_jobs s)" "row = (if jb_job_id i = jb_job_id existing then managed_row i else i)"
      using row_lockedD[OF row] by (auto simp: update_rows_def)
    have "jb_job_id row = jb_job_id existing" using row_lockedD[OF row] by simp
    then have "jb_job_id i = jb_job_id existing" using i(2) by (auto split: if_splits)
    then have "i = existing" using row_unique[OF assms(1) i(1) ex(1)] by simp
    then have "row = managed_row existing" using i(2) by simp
    then show ?thesis using row_lockedD[OF row] ex rev unfolding s' by (simp add: managed_row_def)
  qed
next
  case None
  let ?new = "new_job sp (py_strip fresh) True (st_last_sequence s + 1) now"
  let ?s = "s\<lparr>st_jobs := st_jobs s @ [?new], st_last_sequence := st_last_sequence s + 1\<rparr>"
  have c: "commit_event (py_strip fresh) ''enqueued'' [] now ?s = Inr (s', row)"
    using assms(3) None by (auto simp: enqueue_locked_def ebind_eq_Inr_iff Let_def split: if_splits)
  have mem: "row \<in> set (st_jobs s')" "jb_job_id row = py_strip fresh" and jobs: "st_jobs s' = st_jobs s @ [?new]"
    using commit_eventD[OF c] by auto
  have "store_ok s'" using enqueue_evolves[OF assms(2,3)] evolves_ok assms(1) by blast
  moreover have "?new \<in> set (st_jobs s')" "jb_job_id ?new = py_strip fresh" unfolding jobs by (simp_all add: new_job_def)
  ultimately have "row = ?new" using row_unique[OF _ mem(1)] mem(2) by simp
  then show ?thesis using mem(1) by (simp add: new_job_def)
qed

text \<open>The row of a specification, wherever its life has got to.\<close>

definition stands_for :: "job_spec \<Rightarrow> job \<Rightarrow> bool" where
  "stands_for sp j \<longleftrightarrow> jb_workflow_managed j \<and> jb_project_id j = js_project_id sp
     \<and> jb_idempotency_key j = js_idempotency_key sp \<and> jb_spec_revision j = spec_revision sp"

lemma job_move_managed: "job_move T j j' \<Longrightarrow> jb_workflow_managed j \<Longrightarrow> jb_workflow_managed j'"
  by (induction rule: job_move.induct) (auto simp: row_defs)

lemma moves_managed: "(job_move T)\<^sup>*\<^sup>* j j' \<Longrightarrow> jb_workflow_managed j \<Longrightarrow> jb_workflow_managed j'"
  by (induction rule: rtranclp_induct) (auto dest: job_move_managed)

lemma stands_for_lives:
  assumes "evolves_in b T s s'" and "j \<in> set (st_jobs s)" and "stands_for sp j"
  shows "\<exists>j' \<in> set (st_jobs s'). stands_for sp j'"
proof -
  obtain j' where j': "j' \<in> set (st_jobs s')" "(job_move T)\<^sup>*\<^sup>* j j'" using evolves_rows[OF assms(1,2)] by blast
  then have "stands_for sp j'"
    using moves_identity[OF j'(2)] moves_managed[OF j'(2)] assms(3) by (simp add: stands_for_def identity_of_def)
  with j'(1) show ?thesis by blast
qed

lemma enqueue_specs_rows:
  assumes "store_ok s" and "\<And>sp. sp \<in> set specs \<Longrightarrow> 0 < js_max_attempts sp"
    and "enqueue_specs ids now specs s = Inr (s', jids, c, r)"
  shows "\<forall>sp \<in> set specs. \<exists>j \<in> set (st_jobs s'). stands_for sp j"
  using assms
proof (induction specs arbitrary: ids s jids c r)
  case (Cons sp specs)
  obtain s1 row created jids' c' r' where e: "enqueue_locked sp True (ids 0) now s = Inr (s1, row, created)"
    and rest: "enqueue_specs (\<lambda>n. ids (Suc n)) now specs s1 = Inr (s', jids', c', r')"
    using Cons.prems(3) by (auto simp: ebind_eq_Inr_iff split: prod.splits)
  have max: "0 < js_max_attempts sp" using Cons.prems(2) by simp
  have row: "row \<in> set (st_jobs s1)" "stands_for sp row"
    using enqueue_managed_row[OF Cons.prems(1) max e] by (simp_all add: stands_for_def)
  have "store_ok s1" using enqueue_evolves[OF max e] evolves_ok Cons.prems(1) by blast
  then have "\<forall>sp \<in> set specs. \<exists>j \<in> set (st_jobs s'). stands_for sp j"
    using Cons.IH rest Cons.prems(2) by simp
  moreover have "evolves {} s1 s'" using enqueue_specs_evolves[OF _ rest] Cons.prems(2) by simp
  then have "\<exists>j \<in> set (st_jobs s'). stands_for sp j" using stands_for_lives row by blast
  ultimately show ?case by simp
qed simp

text \<open>What an accepted materialisation leaves behind.\<close>

lemma map_of_entries: "map_of (map (\<lambda>(k, v). (k, f k v)) xs) k = map_option (f k) (map_of xs k)"
  by (induction xs) auto

lemma map_of_materialize:
  "map_of (st_cursors (materialize_cursor key snapshot generation s)) k = map_option (\<lambda>c.
     if k = key \<and> cu_snapshot_generation c = snapshot \<and> cu_job_generation c = generation
     then c\<lparr>cu_materialized_job_generation := Some generation\<rparr> else c) (map_of (st_cursors s) k)"
  unfolding materialize_cursor_def
  using map_of_entries[of "\<lambda>k c. if k = key \<and> cu_snapshot_generation c = snapshot \<and> cu_job_generation c = generation
     then c\<lparr>cu_materialized_job_generation := Some generation\<rparr> else c" "st_cursors s" k]
  by (simp add: if_distrib[where f = "Pair _"] cong: if_cong)

lemma reconcile_accepted_state:
  assumes ok: "store_ok s" and specs: "\<And>sp. sp \<in> set specs \<Longrightarrow> 0 < js_max_attempts sp"
    and call: "reconcile_schedule project task g generation specs record_cut kind reason ids now s = Inr (s', w)"
    and acc: "sw_accepted w"
  shows "generation_current g s" and "generation_current g s'"
    and "st_membership s' = st_membership s"
    and "\<exists>c. map_of (st_cursors s') (py_strip project, py_strip task) = Some c \<and> cu_snapshot_generation c = g
      \<and> cu_job_generation c = py_strip generation \<and> cu_materialized_job_generation c = Some (py_strip generation)"
    and "\<And>j. j \<in> set (st_jobs s') \<Longrightarrow> of_task (py_strip project) (py_strip task) j \<Longrightarrow> jb_workflow_managed j
      \<Longrightarrow> active j \<Longrightarrow> jb_scheduling_lane j = ''decision'' \<Longrightarrow> \<not> quarantined j
      \<Longrightarrow> jb_generation j = py_strip generation \<and> jb_idempotency_key j \<in> js_idempotency_key ` set specs"
    and "\<forall>sp \<in> set specs. \<exists>j \<in> set (st_jobs s'). stands_for sp j"
proof -
  let ?P = "py_strip project" and ?T = "py_strip task" and ?G = "py_strip generation"
  obtain c s1 jids created replays s2 n where
    c: "map_of (st_cursors s) (?P, ?T) = Some c" "cu_snapshot_generation c = g" "cu_job_generation c = ?G"
    and cur: "generation_current g s"
    and e: "enqueue_specs ids now specs s = Inr (s1, jids, created, replays)"
    and sup: "supersede_rows ?G (py_strip reason) now
      (filter (replaced ?P ?T ?G (map js_idempotency_key specs)) (st_jobs s1)) s1 = Inr (s2, n)"
    and cut: "record_schedule_cut record_cut ?P ?T (managed_kind specs) (cu_decision_revision c) g jids
      (materialize_cursor (?P, ?T) g ?G s2) = Inr s'"
    using call acc by (elim reconcile_scheduleE) (auto simp: rejected_write_def)
  have s1: "evolves {} s s1" using enqueue_specs_evolves[OF specs e] by blast
  then have ok1: "store_ok s1" using evolves_ok ok by blast
  have act: "active j" if "replaced ?P ?T ?G (map js_idempotency_key specs) j" for j using that by (simp add: replaced_def)
  have s2: "evolves {} s1 s2" by (rule filter_supersede_evolves[OF ok1 act sup])
  have same: "same_plan s s2" using evolves_same_plan s1 s2 evolves_trans by blast
  have un: "untouched (materialize_cursor (?P, ?T) g ?G s2) s'" by (rule record_schedule_cut_untouched[OF cut])
  have jobs: "st_jobs s' = st_jobs s2"
    using record_schedule_cut_tables[OF cut] by (simp add: tables_only_def materialize_cursor_def)
  show "generation_current g s" by (rule cur)
  have "generation_current g s2" using cur same_plan_current[OF same] by simp
  then show "generation_current g s'" using un by (simp add: generation_current_def untouched_def materialize_cursor_def)
  show "st_membership s' = st_membership s"
    using un same by (simp add: untouched_def same_plan_def materialize_cursor_def)
  have "map_of (st_cursors s') (?P, ?T) = Some (c\<lparr>cu_materialized_job_generation := Some ?G\<rparr>)"
    using un same c by (simp add: untouched_def same_plan_def map_of_materialize)
  then show "\<exists>c. map_of (st_cursors s') (?P, ?T) = Some c \<and> cu_snapshot_generation c = g
      \<and> cu_job_generation c = ?G \<and> cu_materialized_job_generation c = Some ?G" using c by simp
  show "\<forall>sp \<in> set specs. \<exists>j \<in> set (st_jobs s'). stands_for sp j"
    unfolding jobs using enqueue_specs_rows[OF ok specs e] stands_for_lives[OF s2] by blast
  show "jb_generation j = ?G \<and> jb_idempotency_key j \<in> js_idempotency_key ` set specs"
    if "j \<in> set (st_jobs s')" "of_task ?P ?T j" "jb_workflow_managed j" "active j"
      "jb_scheduling_lane j = ''decision''" "\<not> quarantined j" for j
  proof -
    have "\<not> replaced ?P ?T ?G (map js_idempotency_key specs) j"
      using filter_supersede_active(1)[OF ok1 act sup] that unfolding jobs by blast
    then show ?thesis using that by (simp add: replaced_def)
  qed
qed

text \<open>C18. A decision owns its task alone.  Once its cursor is materialised and its scan published, the managed
  jobs of the task that a worker may claim are those of the cursor's generation and no others; every active job
  of the decision lane that is not quarantined is one of them, under one of the requested keys; and every
  requested job has its row.\<close>

theorem decision_owns_its_task:
  assumes "(job_step R)\<^sup>*\<^sup>* (empty_store, {}) (s, U)" and "\<And>sp. sp \<in> set specs \<Longrightarrow> well_made sp"
    and "map_of (st_membership s) (py_strip project, py_strip task) = Some g"
    and "reconcile_schedule project task g generation specs record_cut kind reason ids now s = Inr (s1, w)"
    and "sw_accepted w" and "publish_snapshot_generation g call None s1 = (s2, Published)"
  shows "(\<forall>j \<in> set (st_jobs s2). of_task (py_strip project) (py_strip task) j \<longrightarrow>
        (managed_current s2 j \<longleftrightarrow> jb_generation j = py_strip generation))
    \<and> (\<forall>j \<in> set (st_jobs s2). of_task (py_strip project) (py_strip task) j \<and> jb_workflow_managed j \<and> active j
        \<and> jb_scheduling_lane j = ''decision'' \<and> \<not> quarantined j \<longrightarrow>
        managed_current s2 j \<and> jb_idempotency_key j \<in> js_idempotency_key ` set specs)
    \<and> (\<forall>sp \<in> set specs. \<exists>j \<in> set (st_jobs s2). stands_for sp j)"
proof -
  have ok: "store_ok s" using plans.reachable[OF assms(1)] by (simp add: planned_def)
  have max: "\<And>sp. sp \<in> set specs \<Longrightarrow> 0 < js_max_attempts sp" using assms(2) well_made_attempts by blast
  note st = reconcile_accepted_state[OF ok max assms(4,5)]
  have s2: "s2 = mark_published g s1" using assms(6) by (cases rule: publishE) auto
  have "st_counters s1 ACCEPTED = Some g" using st(2) by (simp add: generation_current_def)
  then have pub: "published_cut s2" unfolding s2
    by (simp add: published_cut_def mark_published_def set_counter_def Let_def)
  have jobs: "st_jobs s2 = st_jobs s1" unfolding s2 by (simp add: mark_published_def set_counter_def Let_def)
  obtain c where c: "map_of (st_cursors s2) (py_strip project, py_strip task) = Some c" "cu_snapshot_generation c = g"
    "cu_job_generation c = py_strip generation" "cu_materialized_job_generation c = Some (py_strip generation)"
    using st(4) unfolding s2 by (auto simp: mark_published_fields)
  have mem: "map_of (st_membership s2) (py_strip project, py_strip task) = Some g"
    using assms(3) st(3) unfolding s2 by (simp add: mark_published_fields)
  have mc: "managed_current s2 j \<longleftrightarrow> jb_generation j = py_strip generation"
    if "of_task (py_strip project) (py_strip task) j" for j
    using that pub c mem by (auto simp: managed_current_def of_task_def)
  show ?thesis using mc st(5,6) unfolding jobs by blast
qed

end
