(* ===== verification/MembershipClaims.thy ===== *)
theory MembershipClaims
  imports ScheduleClaims
begin

text \<open>
  What an accepted membership leaves: exactly the expected tasks of the authoritative projects are members, and
  nothing of an absent task can still be scheduled.
\<close>

lemma map_of_delete: "map_of (AList.delete k al) k' = (if k' = k then None else map_of al k')"
  by (simp add: delete_conv)

lemma retire_tasks_state:
  assumes "store_ok s" and "retire_tasks project g now tasks s = Inr (s', a, b)"
  shows "st_membership s' = st_membership s
    \<and> (\<forall>k. map_of (st_cursors s') k = (if fst k = project \<and> snd k \<in> set tasks then None else map_of (st_cursors s) k))
    \<and> (\<forall>j \<in> set (st_jobs s'). active j \<longrightarrow> j \<in> set (st_jobs s)
        \<and> (jb_project_id j = project \<and> jb_task_id j \<in> set tasks \<and> jb_workflow_managed j \<longrightarrow> quarantined j))"
  using assms
proof (induction tasks arbitrary: s a b)
  case (Cons task tasks)
  let ?p = "\<lambda>j. of_task project task j \<and> jb_workflow_managed j \<and> active j"
  obtain s1 n a' b' where sup: "supersede_rows (''snapshot:'' @ int_str g) ABSENT_MESSAGE now
       (filter ?p (st_jobs s)) s = Inr (s1, n)"
    and rest: "retire_tasks project g now tasks
       (s1\<lparr>st_cursors := AList.delete (project, task) (st_cursors s1)\<rparr>) = Inr (s', a', b')"
    using Cons.prems(2) by (auto simp: ebind_eq_Inr_iff Let_def split: prod.splits)
  let ?u = "s1\<lparr>st_cursors := AList.delete (project, task) (st_cursors s1)\<rparr>"
  have ev: "evolves {} s s1" using sup by (rule filter_supersede_evolves[OF Cons.prems(1), rotated]) simp
  have "steers {} s1 ?u" by (rule tables_only_steers) (simp add: tables_only_def)
  then have ok: "store_ok ?u" using ev evolves_ok Cons.prems(1) by blast
  have same: "st_membership s1 = st_membership s" "st_cursors s1 = st_cursors s"
    using evolves_same_plan[OF ev] by (simp_all add: same_plan_def)
  note IH = Cons.IH[OF ok rest]
  have mem: "st_membership s' = st_membership s" using IH same(1) by simp
  have cur: "map_of (st_cursors s') k
      = (if fst k = project \<and> snd k \<in> set (task # tasks) then None else map_of (st_cursors s) k)" for k
  proof -
    have "map_of (st_cursors s') k = (if fst k = project \<and> snd k \<in> set tasks then None
        else map_of (st_cursors ?u) k)" using IH by blast
    then show ?thesis using same(2) by (cases k) (auto simp: map_of_delete)
  qed
  have jobs: "j \<in> set (st_jobs s) \<and> (jb_project_id j = project \<and> jb_task_id j \<in> set (task # tasks)
      \<and> jb_workflow_managed j \<longrightarrow> quarantined j)" if j: "j \<in> set (st_jobs s')" "active j" for j
  proof -
    have u: "j \<in> set (st_jobs s1)"
      "jb_project_id j = project \<and> jb_task_id j \<in> set tasks \<and> jb_workflow_managed j \<longrightarrow> quarantined j"
      using IH j by simp_all
    have "j \<in> set (st_jobs s) \<and> (?p j \<longrightarrow> quarantined j)"
      by (rule filter_supersede_active(1)[OF Cons.prems(1) _ sup u(1) j(2)]) simp
    then show ?thesis using u(2) j(2) by (auto simp: of_task_def)
  qed
  show ?case using mem cur jobs by blast
qed simp

lemma map_of_members:
  assumes "distinct tasks"
  shows "map_of (st_membership (replace_members project g tasks evaluated s)) k =
    (if fst k = project then (if snd k \<in> set tasks then Some (if k \<in> set evaluated then g
         else case map_of (st_membership s) k of None \<Rightarrow> g | Some old \<Rightarrow> old) else None)
     else map_of (st_membership s) k)"
proof -
  have new: "map_of (member_rows project g tasks evaluated prior) k = (if fst k = project \<and> snd k \<in> set tasks
      then Some (if k \<in> set evaluated then g else case map_of prior k of None \<Rightarrow> g | Some old \<Rightarrow> old) else None)"
    for prior unfolding member_rows_def by (induction tasks) (cases k; auto)+
  have old: "map_of (filter (\<lambda>(k, _). fst k \<noteq> project) al) k = (if fst k = project then None else map_of al k)"
    for al :: "(task_key \<times> int) list" by (induction al) auto
  show ?thesis by (simp add: replace_members_def map_add_def new old split: option.split)
qed

lemma unknown_task:
  assumes "t \<notin> set (known_tasks project s)"
  shows "map_of (st_cursors s) (project, t) = None"
    and "j \<in> set (st_jobs s) \<Longrightarrow> jb_project_id j = project \<Longrightarrow> jb_task_id j = t \<Longrightarrow> jb_workflow_managed j \<Longrightarrow> \<not> active j"
proof -
  have "t \<notin> snd ` {k \<in> fst ` set (st_cursors s). fst k = project}"
    using assms by (force simp: known_tasks_def)
  then show "map_of (st_cursors s) (project, t) = None" by (force simp: map_of_eq_None_iff)
qed (use assms in \<open>auto simp: known_tasks_def\<close>)

lemma member_case: "Some (if P then g else case o' of None \<Rightarrow> g | Some h \<Rightarrow> h) \<noteq> None"
  by simp

lemma reconcile_projects_state:
  assumes "store_ok s" and "reconcile_projects g expected evaluated now projects s = Inr (s', a, b)"
    and "distinct projects"
  shows "(\<forall>k. map_of (st_membership s') k = (if fst k \<in> set projects
        then (if k \<in> set expected then Some (if k \<in> set evaluated then g
          else case map_of (st_membership s) k of None \<Rightarrow> g | Some old \<Rightarrow> old) else None)
        else map_of (st_membership s) k))
    \<and> (\<forall>k. map_of (st_cursors s') k = (if fst k \<in> set projects \<and> k \<notin> set expected then None
        else map_of (st_cursors s) k))
    \<and> (\<forall>j \<in> set (st_jobs s'). active j \<longrightarrow> j \<in> set (st_jobs s)
        \<and> (jb_project_id j \<in> set projects \<and> (jb_project_id j, jb_task_id j) \<notin> set expected
           \<and> jb_workflow_managed j \<longrightarrow> quarantined j))"
  using assms
proof (induction projects arbitrary: s a b)
  case (Cons project projects)
  let ?tasks = "expected_tasks project expected"
  let ?absent = "filter (\<lambda>t. t \<notin> set ?tasks) (known_tasks project s)"
  obtain s1 c d a' b' where r: "retire_tasks project g now ?absent s = Inr (s1, c, d)"
    and rest: "reconcile_projects g expected evaluated now projects
      (replace_members project g ?tasks evaluated s1) = Inr (s', a', b')"
    using Cons.prems(2) by (auto simp: ebind_eq_Inr_iff Let_def split: prod.splits)
  let ?u = "replace_members project g ?tasks evaluated s1"
  have tasks: "t \<in> set ?tasks \<longleftrightarrow> (project, t) \<in> set expected" for t
    by (force simp: expected_tasks_def)
  have dist: "distinct ?tasks" by (simp add: expected_tasks_def)
  have "steers {} s ?u"
    using retire_tasks_steers[OF Cons.prems(1) r] tables_only_steers[OF replace_members_tables] evolves_trans by blast
  then have ok: "store_ok ?u" using evolves_ok Cons.prems(1) by blast
  have other: "project \<notin> set projects" "distinct projects" using Cons.prems(3) by simp_all
  note IH = Cons.IH[OF ok rest other(2)]
  note retired = retire_tasks_state[OF Cons.prems(1) r]
  have mem_u: "map_of (st_membership ?u) k = (if fst k = project then (if k \<in> set expected
        then Some (if k \<in> set evaluated then g else case map_of (st_membership s) k of None \<Rightarrow> g | Some old \<Rightarrow> old)
        else None) else map_of (st_membership s) k)" for k
    using retired tasks[of "snd k"] by (cases k) (simp add: map_of_members[OF dist])
  have cur_u: "map_of (st_cursors ?u) k = (if fst k = project \<and> k \<notin> set expected then None
      else map_of (st_cursors s) k)" for k
    using retired tasks[of "snd k"] unknown_task(1)[of "snd k" project s]
    by (cases k) (auto simp: replace_members_def)
  have mem: "map_of (st_membership s') k = (if fst k \<in> set (project # projects)
      then (if k \<in> set expected then Some (if k \<in> set evaluated then g
        else case map_of (st_membership s) k of None \<Rightarrow> g | Some old \<Rightarrow> old) else None)
      else map_of (st_membership s) k)" for k
  proof -
    have "map_of (st_membership s') k = (if fst k \<in> set projects then (if k \<in> set expected then
        Some (if k \<in> set evaluated then g else case map_of (st_membership ?u) k of None \<Rightarrow> g | Some old \<Rightarrow> old) else None)
      else map_of (st_membership ?u) k)" using IH by blast
    then show ?thesis using mem_u[of k] other(1) by (cases "fst k = project") simp_all
  qed
  have cur: "map_of (st_cursors s') k = (if fst k \<in> set (project # projects) \<and> k \<notin> set expected then None
      else map_of (st_cursors s) k)" for k
  proof -
    have "map_of (st_cursors s') k = (if fst k \<in> set projects \<and> k \<notin> set expected then None
      else map_of (st_cursors ?u) k)" using IH by blast
    then show ?thesis using cur_u[of k] by simp
  qed
  have jobs: "j \<in> set (st_jobs s) \<and> (jb_project_id j \<in> set (project # projects)
      \<and> (jb_project_id j, jb_task_id j) \<notin> set expected \<and> jb_workflow_managed j \<longrightarrow> quarantined j)"
    if j: "j \<in> set (st_jobs s')" "active j" for j
  proof -
    have u: "j \<in> set (st_jobs ?u)" "jb_project_id j \<in> set projects \<and> (jb_project_id j, jb_task_id j) \<notin> set expected
        \<and> jb_workflow_managed j \<longrightarrow> quarantined j" using IH j by blast+
    then have s1: "j \<in> set (st_jobs s1)" by (simp add: replace_members_def)
    then have s: "j \<in> set (st_jobs s)" "jb_project_id j = project \<and> jb_task_id j \<in> set ?absent
        \<and> jb_workflow_managed j \<longrightarrow> quarantined j" using retired j(2) by blast+
    have "quarantined j" if "jb_project_id j = project" "(jb_project_id j, jb_task_id j) \<notin> set expected"
      "jb_workflow_managed j"
    proof -
      have "jb_task_id j \<in> set (known_tasks project s)" using unknown_task(2)[OF _ s(1) that(1) refl that(3)] j(2) by blast
      then have "jb_task_id j \<in> set ?absent" using that tasks by simp
      then show ?thesis using s(2) that by blast
    qed
    then show ?thesis using s(1) u(2) by auto
  qed
  show ?case using mem cur jobs by blast
qed simp

lemma stripped_pairs: "eseq required_pair ks = Inr ks' \<Longrightarrow> ks' = map (map_prod py_strip py_strip) ks"
  by (induction ks arbitrary: ks') (auto simp: ebind_eq_Inr_iff required_pair_def required_str_def split: if_splits)

lemma stripped_texts: "eseq required_str xs = Inr ys \<Longrightarrow> ys = map py_strip xs"
  by (induction xs arbitrary: ys) (auto simp: ebind_eq_Inr_iff required_str_def split: if_splits)

text \<open>C21. The membership of a scan is exact.  After an accepted membership the members of the authoritative
  projects are the expected tasks and no others, every evaluated one carries the scan's generation and the rest
  keep theirs; an absent task has no cursor left, and no managed job of it that is active, except one in
  quarantine; the other projects keep their members and their cursors.\<close>

theorem membership_is_exact:
  assumes "(job_step R)\<^sup>*\<^sup>* (empty_store, {}) (s, U)"
    and "reconcile_snapshot_membership g ps expected (Some evaluated) now s = Inr (s', w)" and "mw_accepted w"
    and "P = py_strip ` set ps" and "E = map_prod py_strip py_strip ` set expected"
    and "V = map_prod py_strip py_strip ` set evaluated"
  shows "(\<forall>k. map_of (st_membership s') k = (if fst k \<in> P then (if k \<in> E then Some (if k \<in> V then g
          else case map_of (st_membership s) k of None \<Rightarrow> g | Some old \<Rightarrow> old) else None)
        else map_of (st_membership s) k))
    \<and> (\<forall>k. map_of (st_cursors s') k = (if fst k \<in> P \<and> k \<notin> E then None else map_of (st_cursors s) k))
    \<and> (\<forall>j \<in> set (st_jobs s'). active j \<longrightarrow> j \<in> set (st_jobs s)
        \<and> (jb_project_id j \<in> P \<and> (jb_project_id j, jb_task_id j) \<notin> E \<and> jb_workflow_managed j \<longrightarrow> quarantined j))"
proof -
  have ok: "store_ok s" using plans.reachable[OF assms(1)] by (simp add: planned_def)
  obtain ps' ex ev a b where e: "eseq required_str ps = Inr ps'" "eseq required_pair expected = Inr ex"
      "eseq required_pair evaluated = Inr ev"
    and r: "reconcile_projects g ex ev now (sort (remdups ps')) s = Inr (s', a, b)"
    using assms(2,3) by (auto simp: reconcile_snapshot_membership_def succeeds_iff Let_def split: if_splits)
  have sets: "set (sort (remdups ps')) = P" "set ex = E" "set ev = V"
    using stripped_texts[OF e(1)] stripped_pairs[OF e(2)] stripped_pairs[OF e(3)] assms(4-6) by simp_all
  show ?thesis using reconcile_projects_state[OF ok r] unfolding sets by simp
qed

end
