(* ===== verification/SchedulerLoop.thy ===== *)
theory SchedulerLoop
  imports WorkflowScheduler
begin

text \<open>
  The loops of oompah/workflow_scheduler.py: \<open>run_due\<close>, which drives the worker through a bounded batch, and the
  body of \<open>serve\<close>, which reconciles and runs once per cycle.

  The worker is a parameter: \<open>answer k\<close> is what its \<open>k\<close>-th \<open>run_once\<close> of the batch gives, and \<open>accepting r\<close> is
  the flag that \<open>drain\<close> clears, as the \<open>r\<close>-th round reads it.  When several calls of a round raise, the first
  of the list is the one that propagates.
\<close>

section \<open>Running a batch\<close>

datatype disposition =
    Run_idle
  | Run_completed
  | Run_retry_scheduled
  | Run_superseded
  | Run_action_required
  | Run_lease_lost
  | Run_stopped

fun disposition_value :: "disposition \<Rightarrow> string" where
  "disposition_value Run_idle = ''idle''"
| "disposition_value Run_completed = ''completed''"
| "disposition_value Run_retry_scheduled = ''retry_scheduled''"
| "disposition_value Run_superseded = ''superseded''"
| "disposition_value Run_action_required = ''action_required''"
| "disposition_value Run_lease_lost = ''lease_lost''"
| "disposition_value Run_stopped = ''stopped''"

definition attempt :: "disposition \<Rightarrow> bool" where
  "attempt d \<longleftrightarrow> d \<notin> {Run_idle, Run_stopped}"

function run_rounds ::
  "(nat \<Rightarrow> disposition stored) \<Rightarrow> (nat \<Rightarrow> bool) \<Rightarrow> nat \<Rightarrow> nat \<Rightarrow> nat \<Rightarrow> nat \<Rightarrow> disposition list
   \<Rightarrow> (nat \<times> disposition list) stored" where
  "run_rounds answer accepting width requested turn attempted results =
     (if attempted < requested \<and> accepting turn then
        (case eseq answer [length results ..< length results + min width (requested - attempted)] of
           Inl e \<Rightarrow> Inl e
         | Inr batch \<Rightarrow>
             (let n = length (filter attempt batch) in
              if n = 0 \<or> Run_stopped \<in> set batch then Inr (attempted + n, results @ batch)
              else run_rounds answer accepting width requested (Suc turn) (attempted + n) (results @ batch)))
      else Inr (attempted, results))"
  by pat_completeness auto

termination
  by (relation "measure (\<lambda>(_, _, _, requested, _, attempted, _). requested - attempted)")
    (auto simp flip: length_greater_0_conv)

declare run_rounds.simps [simp del]

record run_batch =
  rb_requested :: nat
  rb_attempted :: nat
  rb_idle :: nat
  rb_dispositions :: "(string \<times> nat) list"
  rb_results :: "disposition list"

definition dispositions_of :: "disposition list \<Rightarrow> (string \<times> nat) list" where
  "dispositions_of results = map (\<lambda>v. (v, length (filter (\<lambda>d. disposition_value d = v) results)))
     (sort (remdups (map disposition_value results)))"

definition run_due ::
  "scheduler \<Rightarrow> (nat \<Rightarrow> disposition stored) option \<Rightarrow> (nat \<Rightarrow> bool) \<Rightarrow> pyval \<Rightarrow> run_batch stored" where
  "run_due sd worker accepting limit =
     ebind (if limit = PNone then Inr (sd_job_batch_size sd) else bounded_setting limit) (\<lambda>requested.
     case worker of
       None \<Rightarrow> Inr \<lparr>rb_requested = nat requested, rb_attempted = 0, rb_idle = 0, rb_dispositions = [], rb_results = []\<rparr>
     | Some answer \<Rightarrow>
         if \<not> accepting 0 then
           Inr \<lparr>rb_requested = nat requested, rb_attempted = 0, rb_idle = 0, rb_dispositions = [], rb_results = []\<rparr>
         else
           ebind (run_rounds answer accepting (nat (sd_concurrency sd)) (nat requested) 1 0 []) (\<lambda>(attempted, results).
           Inr \<lparr>rb_requested = nat requested, rb_attempted = attempted,
             rb_idle = (case map_of (dispositions_of results) ''idle'' of None \<Rightarrow> 0 | Some n \<Rightarrow> n),
             rb_dispositions = dispositions_of results, rb_results = results\<rparr>))"

section \<open>A cycle of the service\<close>

text \<open>
  The body of the loop: it clears the pending wake, allocates the fence before it reads the decisions, and
  records an exception of any part as the last error; the loop goes on with the next cycle either way.
  \<open>source\<close> is the decision source and \<open>work\<close> what \<open>run_due\<close> does to the store with this worker.
\<close>

definition serve_cycle ::
  "scheduler \<Rightarrow> (nat \<Rightarrow> store \<Rightarrow> store) \<Rightarrow> (nat \<Rightarrow> nat \<Rightarrow> string) \<Rightarrow> (nat \<Rightarrow> real) \<Rightarrow> work_decision list stored
   \<Rightarrow> (store \<Rightarrow> store \<times> run_batch stored) \<Rightarrow> store \<times> metrics \<Rightarrow> store \<times> metrics" where
  "serve_cycle sd env ids clock source work = (\<lambda>(s, m).
     let m0 = m\<lparr>me_wake_pending := False\<rparr>; (s1, g) = allocate_snapshot_generation s in
     case source of
       Inl e \<Rightarrow> (s1, m0\<lparr>me_last_error := Some e\<rparr>)
     | Inr ds \<Rightarrow>
         (case reconcile sd env ids clock (Some g)
             \<lparr>sn_decisions = ds, sn_authoritative = None, sn_expected = None, sn_finals = []\<rparr> s1 of
            (s2, Inl e) \<Rightarrow> (s2, m0\<lparr>me_last_error := Some e\<rparr>)
          | (s2, Inr result) \<Rightarrow>
              let m1 = record_reconcile_metrics result m0 in
              (case work s2 of
                 (s3, Inl e) \<Rightarrow> (s3, m1\<lparr>me_last_error := Some e\<rparr>)
               | (s3, Inr _) \<Rightarrow> (s3, m1\<lparr>me_full_syncs := me_full_syncs m1 + 1, me_last_error := None\<rparr>))))"

text \<open>\<open>recover_startup\<close>, the counts it returns: expired leases first, then abandoned ones on request.\<close>

definition recover_startup :: "scheduler \<Rightarrow> bool \<Rightarrow> real \<Rightarrow> real \<Rightarrow> store \<Rightarrow> store \<times> (nat \<times> nat) stored" where
  "recover_startup sd abandoned now now' s =
     committed s (recover_expired None None None now (sd_job_batch_size sd) s) (\<lambda>(s1, n).
     if \<not> abandoned then (s1, Inr (n, 0)) else
     committed s1 (recover_abandoned None None None None None now' (sd_job_batch_size sd) s1) (\<lambda>(s2, k). (s2, Inr (n, k))))"

end
