(* ===== verification/PassRuns.thy ===== *)
theory PassRuns
  imports SchedulePlans SchedulerLoop
begin

text \<open>
  A pass of the scheduler is a run of the store: whatever its outcome and whatever the other processes do to
  the store between its transactions, the store it leaves is one the steps of the job machine lead to.
\<close>

section \<open>Reaching a store\<close>

definition reaches :: "claim_request set \<Rightarrow> store \<Rightarrow> store \<Rightarrow> bool" where
  "reaches R s s' \<longleftrightarrow> (\<forall>U. \<exists>U'. (job_step R)\<^sup>*\<^sup>* (s, U) (s', U'))"

lemma reaches_refl [simp, intro]: "reaches R s s"
  by (auto simp: reaches_def)

lemma reaches_trans [trans]: "reaches R s u \<Longrightarrow> reaches R u s' \<Longrightarrow> reaches R s s'"
  unfolding reaches_def by (meson rtranclp_trans)

lemma reaches_call: "schedule_call s s' \<Longrightarrow> reaches R s s'"
  unfolding reaches_def by (meson r_into_rtranclp step_schedule)

lemma reaches_planned: "reaches R s s' \<Longrightarrow> planned (s, U) \<Longrightarrow> ahead s s' \<and> planned (s', U)"
  unfolding reaches_def using run_ahead by (fastforce simp: planned_def)

lemma committed_reaches:
  assumes "reaches R s u" and "\<And>x. m = Inr x \<Longrightarrow> reaches R u (fst (f x))"
  shows "reaches R s (fst (committed u m f))"
  using assms reaches_trans by (cases m) (auto simp: committed_def)

section \<open>The transactions of a pass\<close>

lemma eseq_well_made:
  "(\<And>x sp. f x = Inr sp \<Longrightarrow> well_made sp) \<Longrightarrow> eseq f xs = Inr specs \<Longrightarrow> sp \<in> set specs \<Longrightarrow> well_made sp"
  by (induction xs arbitrary: specs) (auto simp: ebind_eq_Inr_iff)

lemma decision_spec_well_made: "decision_spec sd d v action = Inr sp \<Longrightarrow> well_made sp"
  unfolding decision_spec_def well_made_def by (intro exI)

lemma decision_specs_well_made: "decision_specs sd d v = Inr specs \<Longrightarrow> sp \<in> set specs \<Longrightarrow> well_made sp"
  unfolding decision_specs_def by (rule eseq_well_made[OF decision_spec_well_made])

lemma record_finals_reaches: "record_finals g finals s = Inr s' \<Longrightarrow> reaches R s s'"
proof (induction g finals s arbitrary: s' rule: record_finals.induct)
  case (2 g project task status finals s)
  obtain s1 n where e: "record_lifecycle_final_authority project task status g s = Inr (s1, n)"
    and rest: "record_finals g finals s1 = Inr s'" using 2(2) by (auto simp: ebind_eq_Inr_iff)
  show ?case using reaches_trans[OF reaches_call[OF call_final[OF e]] 2(1)[OF rest]]
    by blast
qed simp

lemma activate_decisions_reaches: "activate_decisions sd g clock ds s = Inr (s', m, stale) \<Longrightarrow> reaches R s s'"
proof (induction ds arbitrary: clock s m stale)
  case (Cons d ds)
  obtain s1 v m' stale' where e: "activate_decision sd g (clock 0) d s = Inr (s1, v)"
    and rest: "activate_decisions sd g (\<lambda>i. clock (Suc i)) ds s1 = Inr (s', m', stale')"
    using Cons.prems by (auto simp: ebind_eq_Inr_iff split: if_splits)
  have "schedule_call s s1" using e by (auto simp: activate_decision_def ebind_eq_Inr_iff intro: call_activate)
  then show ?case using Cons.IH[OF rest] reaches_call reaches_trans by blast
qed simp

lemma materialize_decision_reaches: "materialize_decision sd g ids now d v s = Inr (s', w) \<Longrightarrow> reaches R s s'"
  by (auto simp: materialize_decision_def ebind_eq_Inr_iff intro!: reaches_call intro: call_reconcile
      dest: decision_specs_well_made)

lemma materialize_decisions_reaches: "materialize_decisions sd g ids clock m ds n s = Inr (s', n') \<Longrightarrow> reaches R s s'"
proof (induction sd g ids clock m ds n s rule: materialize_decisions.induct)
  case (2 sd g ids clock m d ds n s)
  show ?case
  proof (cases "map_of m (decision_key d)")
    case None
    then show ?thesis using 2 by simp
  next
    case (Some v)
    obtain s1 w where e: "materialize_decision sd g (ids 0) (clock 0) d v s = Inr (s1, w)"
      and rest: "materialize_decisions sd g (\<lambda>i. ids (Suc i)) (\<lambda>i. clock (Suc i)) m ds (count_write w n) s1 = Inr (s', n')"
      using 2(3) Some by (auto simp: ebind_eq_Inr_iff)
    show ?thesis
      using reaches_trans[OF materialize_decision_reaches[OF e] 2(2)[OF Some rest]] .
  qed
qed simp

lemma scheduling_batch_reaches:
  assumes "scheduling_batch sd g ids clock finals ds selected superseded s = Inr (s', n)"
  shows "reaches R s s'"
proof -
  obtain s1 s2 m stale where "record_finals g finals s = Inr s1"
    "activate_decisions sd g clock ds s1 = Inr (s2, m, stale)"
    "materialize_decisions sd g ids (\<lambda>i. clock (length ds + i)) m selected
       \<lparr>ta_applied = 0, ta_stale = stale, ta_created = 0, ta_replayed = 0, ta_superseded = superseded\<rparr> s2 = Inr (s', n)"
    using assms by (auto simp: scheduling_batch_def ebind_eq_Inr_iff)
  then show ?thesis
    using record_finals_reaches activate_decisions_reaches materialize_decisions_reaches reaches_trans by metis
qed

lemma scan_membership_reaches: "scan_membership g sn ds now s = Inr (s', n) \<Longrightarrow> reaches R s s'"
  by (auto simp: scan_membership_def ebind_eq_Inr_iff intro!: reaches_call intro: call_membership
      split: option.splits)

lemma scan_window_reaches: "scan_window sd g ds s = Inr (s', w) \<Longrightarrow> reaches R s s'"
  by (auto simp: scan_window_def ebind_eq_Inr_iff intro!: reaches_call intro: call_window split: if_splits)

section \<open>The pass\<close>

lemma reconcile_accepted_reaches:
  assumes env: "\<And>k u. reaches R u (env k u)"
  shows "reaches R s (fst (reconcile_accepted sd env ids clock g sn s))"
proof -
  have hop: "reaches R s u \<Longrightarrow> reaches R s (env k u)" for s k u using env reaches_trans by blast
  show ?thesis
    unfolding reconcile_accepted_def
    by (auto simp: Let_def intro!: committed_reaches split: option.split prod.split)
      (erule scan_membership_reaches scan_window_reaches scheduling_batch_reaches | rule reaches_refl | rule hop)+
qed

lemma publish_pass_reaches:
  assumes env: "\<And>k u. reaches R u (env k u)" and pass: "reaches R s (fst pass)"
  shows "reaches R s (fst (publish_pass env g ds pass))"
proof -
  obtain s' r where r: "pass = (s', r)" by fastforce
  obtain s'' outcome where p: "publish_snapshot_generation g Publisher_returned None (env 8 s') = (s'', outcome)"
    by fastforce
  have "reaches R s s''" using pass env reaches_call[OF call_publish[OF p]] reaches_trans unfolding r fst_conv by blast
  then show ?thesis using pass unfolding r publish_pass_def by (simp add: p split: sum.split)
qed

lemma reconcile_reaches:
  assumes env: "\<And>k u. reaches R u (env k u)"
  shows "reaches R s (fst (reconcile sd env ids clock snapshot sn s))"
proof -
  obtain s0 g where s0: "(case snapshot of None \<Rightarrow> allocate_snapshot_generation s | Some n \<Rightarrow> (s, n)) = (s0, g)"
    by fastforce
  then have start: "reaches R s s0" by (auto intro: reaches_call call_allocate split: option.splits)
  have taken: "reaches R u s1" if "accept_snapshot_generation g u = Inr (s1, b)" for u s1 b
    using that by (rule reaches_call[OF call_accept])
  have pass: "reaches R s1 (fst (publish_pass env g ds (reconcile_accepted sd env ids clock g sn' (env 7 s1))))"
    for s1 ds sn'
    by (rule publish_pass_reaches[OF env reaches_trans[OF env reconcile_accepted_reaches[OF env]]])
  show ?thesis unfolding reconcile_def s0 Let_def prod.case
    by (auto intro!: committed_reaches start env split: prod.split)
      (metis taken pass reaches_trans)+
qed

lemma committed_returns: "committed u m f = (s', Inr r) \<Longrightarrow> \<exists>x. m = Inr x \<and> f x = (s', Inr r)"
  by (cases m) (auto simp: committed_def)

lemma accepted_generation:
  assumes "reconcile_accepted sd env ids clock g sn s = (s', Inr r)"
  shows "rr_snapshot_generation r = g"
  using assms by (auto simp: reconcile_accepted_def Let_def rejected_result_def pass_result_def
      dest!: committed_returns split: if_splits prod.splits option.splits)

section \<open>What an accepted pass proves\<close>



text \<open>A small instance: an empty scan, while another process hands out an event generation.\<close>

definition sample_scheduler :: scheduler where
  "sample_scheduler = \<lparr>sd_decision_limit = 10, sd_job_batch_size = 3, sd_concurrency = 2, sd_default_priority = 100,
     sd_max_attempts = 5, sd_policy_epoch = ''e'', sd_lane_prefixes = []\<rparr>"

definition empty_scan :: snapshot_scan where
  "empty_scan = \<lparr>sn_decisions = [], sn_authoritative = None, sn_expected = None, sn_finals = []\<rparr>"

definition busy :: "nat \<Rightarrow> store \<Rightarrow> store" where
  "busy k u = (if k = 6 then fst (allocate_event_generation u) else u)"

definition scanned_store :: store where
  "scanned_store = fst (allocate_snapshot_generation empty_store)"

lemma busy_reaches: "reaches R u (busy k u)"
  unfolding busy_def by (auto intro: reaches_call[OF call_allocate_event] prod.collapse[symmetric])

lemma scanned_reached: "(job_step R)\<^sup>*\<^sup>* (empty_store, {}) (scanned_store, {})"
  unfolding scanned_store_def
  by (rule r_into_rtranclp, rule step_schedule, rule call_allocate) (rule prod.collapse[symmetric])

definition sample_pass :: "store \<times> reconcile_result stored" where
  "sample_pass = reconcile sample_scheduler busy (\<lambda>_ _. []) (\<lambda>_. 0) (Some 1) empty_scan scanned_store"

lemma sample_pass_accepted: "case snd sample_pass of Inl _ \<Rightarrow> False | Inr r \<Rightarrow> rr_snapshot_accepted r"
  by code_simp

lemma accepted_outcome:
  assumes "case snd pass of Inl _ \<Rightarrow> False | Inr r \<Rightarrow> rr_snapshot_accepted r"
  obtains r where "pass = (fst pass, Inr r)" "rr_snapshot_accepted r"
  using assms by (cases pass) (auto split: sum.splits)



end
