(* ===== verification/WindowClaims.thy ===== *)
theory WindowClaims
  imports PassRuns
begin

text \<open>
  The rotating window over a scan that is larger than the decision limit: every decision is selected within a
  bounded number of passes.
\<close>

section \<open>Rotations\<close>

lemma rotation_window:
  assumes "o' \<le> length xs" and "i < length xs" and "r < n" and "(o' + r) mod length xs = i" and "r < length xs"
  shows "xs ! i \<in> set (take n (drop o' xs @ take o' xs))"
proof -
  let ?ys = "drop o' xs @ take o' xs"
  have len: "length ?ys = length xs" using assms(1) by simp
  have "?ys ! r = xs ! i"
  proof (cases "o' + r < length xs")
    case True
    then have "i = o' + r" "r < length xs - o'" using assms(4) by auto
    then show ?thesis using assms(1) by (simp add: nth_append)
  next
    case False
    then have "(o' + r) mod length xs = (o' + r - length xs) mod length xs" by (simp add: le_mod_geq)
    moreover have "o' + r - length xs < length xs" using assms(1,5) by linarith
    ultimately have "i = o' + r - length xs" using assms(4) by simp
    moreover have "\<not> r < length xs - o'" using False assms(1) by linarith
    moreover have "o' + r - length xs < o'" using False assms(5) by linarith
    ultimately show ?thesis using assms(1) by (simp add: nth_append add.commute)
  qed
  then show ?thesis using assms(3,5) len by (metis in_set_conv_nth length_take min_less_iff_conj nth_take)
qed

text \<open>A window that moves on by \<open>m\<close> reaches every position within \<open>n\<close> moves, when \<open>n * m\<close> covers the list.\<close>

lemma rotations_cover:
  fixes N m n i :: nat and off :: "nat \<Rightarrow> nat"
  assumes "0 < m" and "N \<le> n * m" and "i < N" and "off 0 < N"
    and "\<And>k. Suc k < n \<Longrightarrow> off (Suc k) = (off k + m) mod N"
  shows "\<exists>k r. k < n \<and> r < m \<and> r < N \<and> (off k + r) mod N = i"
proof -
  define d where "d = (i + N - off 0) mod N"
  have d: "d < N" "(off 0 + d) mod N = i"
    using assms(3,4) by (simp_all add: d_def mod_add_right_eq)
  have k: "d div m < n" using d(1) assms(1,2) by (metis less_le_trans less_mult_imp_div_less)
  have "off k = (off 0 + k * m) mod N" if "k < n" for k
    using that
  proof (induction k)
    case (Suc k)
    have "off (Suc k) = ((off 0 + k * m) mod N + m) mod N" using Suc assms(5) by simp
    also have "\<dots> = (off 0 + k * m + m) mod N" by (rule mod_add_left_eq)
    finally show ?case by (simp add: algebra_simps)
  qed (use assms(4) in simp)
  from this[OF k] have "(off (d div m) + d mod m) mod N = (off 0 + (d div m * m + d mod m)) mod N"
    by (simp only: mod_add_left_eq add.assoc)
  then have "(off (d div m) + d mod m) mod N = i" using d(2) by (simp only: div_mult_mod_eq)
  moreover have "d mod m < m" using assms(1) by (rule mod_less_divisor)
  moreover have "d mod m < N" by (rule le_less_trans[OF mod_less_eq_dividend d(1)])
  ultimately show ?thesis using k by blast
qed

section \<open>The window of the store\<close>

lemma window_move:
  assumes "scan_window sd g ds s = Inr (s', Some selected)" and "bounded_window sd ds" and "1 \<le> sd_decision_limit sd"
    and "sd_decision_limit sd \<le> 1000"
  shows "\<exists>off. off < length ds \<and> int off = counter WINDOW_OFFSET s mod int (length ds)
    \<and> counter WINDOW_OFFSET s' mod int (length ds) = int ((off + nat (sd_decision_limit sd)) mod length ds)
    \<and> selected = take (nat (sd_decision_limit sd)) (drop off ds @ take off ds)"
proof -
  let ?N = "int (length ds)" and ?L = "sd_decision_limit sd"
  obtain offset where w: "allocate_decision_window ?N ?L (Some g) None s = Inr (s', Some offset)"
    and sel: "selected = take (nat ?L) (drop (nat offset) ds @ take (nat offset) ds)"
    using assms(1,2) by (auto simp: scan_window_def ebind_eq_Inr_iff)
  have N: "?L < ?N" using assms(2) by (simp add: bounded_window_def)
  have lim: "bounded_limit ?L = Inr (nat ?L)" using assms(3,4) by (simp add: bounded_limit_def)
  have moves: "offset = counter WINDOW_OFFSET s mod ?N" "s' = set_counter WINDOW_OFFSET ((offset + min ?L ?N) mod ?N) s"
    using w lim assms(3) by (auto simp: allocate_decision_window_def required_opt_def Let_def split: if_splits)
  have range: "0 \<le> offset" "offset < ?N" unfolding moves(1)
    using N assms(3) pos_mod_sign[of ?N "counter WINDOW_OFFSET s"] pos_mod_bound[of ?N "counter WINDOW_OFFSET s"] by linarith+
  have moved: "counter WINDOW_OFFSET s' = (offset + ?L) mod ?N"
    using moves(2) N by (simp add: counter_def set_counter_def)
  have "counter WINDOW_OFFSET s' mod ?N = (offset + ?L) mod ?N" unfolding moved by (rule mod_mod_trivial)
  also have "\<dots> = int ((nat offset + nat ?L) mod length ds)" using range(1) assms(3) by (simp add: zmod_int)
  finally have "counter WINDOW_OFFSET s' mod ?N = int ((nat offset + nat ?L) mod length ds)" .
  moreover have "nat offset < length ds" "int (nat offset) = counter WINDOW_OFFSET s mod ?N"
    using range unfolding moves(1)[symmetric] by simp_all
  ultimately show ?thesis using sel by blast
qed

text \<open>C22. The window is fair.  Take the passes of a scan larger than the limit: when nothing else moves the window
  between them, then any decision of the scan is selected in one of the first \<open>n\<close> passes, as soon as \<open>n\<close> windows
  add up to the size of the scan, wherever the window stood before.\<close>

theorem window_reaches_every_decision:
  assumes "bounded_window sd ds" and "1 \<le> sd_decision_limit sd" and "sd_decision_limit sd \<le> 1000"
    and "\<And>k. k < n \<Longrightarrow> scan_window sd (g k) ds (st k) = Inr (u k, Some (selected k))"
    and "\<And>k. Suc k < n \<Longrightarrow> counter WINDOW_OFFSET (st (Suc k)) = counter WINDOW_OFFSET (u k)"
    and "length ds \<le> n * nat (sd_decision_limit sd)" and "d \<in> set ds"
  shows "\<exists>k < n. d \<in> set (selected k)"
proof -
  let ?N = "length ds" and ?m = "nat (sd_decision_limit sd)"
  define off where "off k = nat (counter WINDOW_OFFSET (st k) mod int ?N)" for k
  have N: "0 < ?N" using assms(7) by (cases ds) auto
  have move: "off k < ?N \<and> counter WINDOW_OFFSET (u k) mod int ?N = int ((off k + ?m) mod ?N)
      \<and> selected k = take ?m (drop (off k) ds @ take (off k) ds)" if k: "k < n" for k
  proof -
    obtain o' where "o' < ?N" "int o' = counter WINDOW_OFFSET (st k) mod int ?N"
      "counter WINDOW_OFFSET (u k) mod int ?N = int ((o' + ?m) mod ?N)" "selected k = take ?m (drop o' ds @ take o' ds)"
      using window_move[OF assms(4)[OF k] assms(1-3)] by blast
    moreover from this(2) have "o' = off k" unfolding off_def by linarith
    ultimately show ?thesis by blast
  qed
  have step: "off (Suc k) = (off k + ?m) mod ?N" if "Suc k < n" for k
    using move[of k] assms(5)[OF that] that by (simp add: off_def)
  obtain i where i: "i < ?N" "d = ds ! i" using assms(7) by (auto simp: in_set_conv_nth)
  have "0 < n" using N assms(6) by (cases n) auto
  then have "off 0 < ?N" using move by blast
  then obtain k r where k: "k < n" "r < ?m" "r < ?N" "(off k + r) mod ?N = i"
    using rotations_cover[of ?m ?N n i off] assms(2,6) i(1) step by auto
  then have "ds ! i \<in> set (selected k)"
    using rotation_window[of "off k" ds i r ?m] move[OF k(1)] i(1) by (simp add: less_imp_le)
  then show ?thesis using k(1) i(2) by blast
qed

end
