(* ===== verification/LoopClaims.thy ===== *)
theory LoopClaims
  imports SchedulerLoop
begin

text \<open>
  The batch loop ends, within a bound, and gives the worker's capacity away only when there is nothing to run.
\<close>

lemma eseq_total_map: "(\<And>k. answer k = Inr (out k)) \<Longrightarrow> eseq answer ks = Inr (map out ks)"
  by (induction ks) simp_all

lemma width_times: "0 < k \<Longrightarrow> min w x \<le> w * (k :: nat)"
  by (rule order_trans[OF min.cobounded1], cases k) simp_all

lemma room_sum: "l \<le> a + w + x \<Longrightarrow> w + x \<le> y \<Longrightarrow> l \<le> a + (y :: nat)"
  by simp

lemma run_rounds_end:
  assumes "\<And>k. answer k = Inr (out k)" and "0 < width"
    and "results = map out [0..<length results]" and "attempted = length (filter attempt results)"
    and "attempted \<le> requested"
  shows "\<exists>n rs. run_rounds answer accepting width requested turn attempted results = Inr (n, rs)
    \<and> rs = map out [0..<length rs] \<and> n = length (filter attempt rs) \<and> n \<le> requested
    \<and> length rs \<le> length results + width * (requested - attempted)
    \<and> (n < requested \<longrightarrow> (\<exists>r. \<not> accepting r) \<or> (\<exists>d \<in> set rs. \<not> attempt d))"
  using assms
proof (induction answer accepting width requested turn attempted results rule: run_rounds.induct)
  case (1 answer accepting width requested turn attempted results)
  show ?case
  proof (cases "attempted < requested \<and> accepting turn")
    case False
    then show ?thesis using 1(4-) by (subst run_rounds.simps) auto
  next
    case True
    let ?w = "min width (requested - attempted)"
    let ?batch = "map out [length results ..< length results + ?w]"
    let ?n = "length (filter attempt ?batch)"
    have batch: "eseq answer [length results ..< length results + ?w] = Inr ?batch"
      by (rule eseq_total_map) (rule 1(2))
    have n: "?n \<le> ?w" using length_filter_le[of attempt ?batch] by simp
    have joined: "results @ ?batch = map out [0..<length (results @ ?batch)]"
    proof -
      have "map out [0..<length results + ?w] = map out [0..<length results] @ ?batch"
        by (simp only: upt_add_eq_append[OF le0] map_append)
      moreover have "length (results @ ?batch) = length results + ?w" by simp
      ultimately show ?thesis by (simp only: 1(4)[symmetric])
    qed
    have room: "?w + width * (requested - attempted - k) \<le> width * (requested - attempted)"
      if k: "0 < k" "k \<le> ?w" for k
    proof -
      have "width * (requested - attempted - k) + width * k = width * (requested - attempted)"
        proof -
        have "requested - attempted - k + k = requested - attempted" using k(2) by (meson le_add_diff_inverse2 min.boundedE)
        then show ?thesis by (simp only: flip: distrib_left)
      qed
      moreover have "?w \<le> width * k" by (rule width_times[OF k(1)])
      ultimately show ?thesis by simp
    qed
    have count: "attempted + ?n = length (filter attempt (results @ ?batch))" by (simp add: 1(5))
    have bound: "attempted + ?n \<le> requested" using n True by linarith
    show ?thesis
    proof (cases "?n = 0 \<or> Run_stopped \<in> set ?batch")
      case stop: True
      have batch': "?batch \<noteq> []" using True 1(3) by simp
      have idle: "\<exists>d \<in> set (results @ ?batch). \<not> attempt d"
      proof (cases "?n = 0")
        case True
        then have "\<forall>d \<in> set ?batch. \<not> attempt d" by (simp only: length_0_conv filter_empty_conv)
        moreover have "hd ?batch \<in> set ?batch" using batch' by (rule hd_in_set)
        ultimately show ?thesis by (metis UnI2 set_append)
      next
        case False
        then have "Run_stopped \<in> set (results @ ?batch)" using stop by simp
        moreover have "\<not> attempt Run_stopped" by (simp add: attempt_def)
        ultimately show ?thesis by blast
      qed
      have run: "run_rounds answer accepting width requested turn attempted results
          = Inr (attempted + ?n, results @ ?batch)"
        using True batch stop by (subst run_rounds.simps) (simp add: Let_def)
      have "?w \<le> width * (requested - attempted)" by (rule width_times) (use True in simp)
      then have "length (results @ ?batch) \<le> length results + width * (requested - attempted)" by simp
      then show ?thesis using run joined count bound idle by blast
    next
      case go: False
      have run: "run_rounds answer accepting width requested turn attempted results
          = run_rounds answer accepting width requested (Suc turn) (attempted + ?n) (results @ ?batch)"
        using True batch go by (subst run_rounds.simps) (simp add: Let_def)
      obtain m rs where
        rest: "run_rounds answer accepting width requested (Suc turn) (attempted + ?n) (results @ ?batch) = Inr (m, rs)"
        and rs: "rs = map out [0..<length rs]" "m = length (filter attempt rs)" "m \<le> requested"
        and len: "length rs \<le> length (results @ ?batch) + width * (requested - (attempted + ?n))"
        and stop: "m < requested \<longrightarrow> (\<exists>r. \<not> accepting r) \<or> (\<exists>d \<in> set rs. \<not> attempt d)"
        using 1(1)[OF True batch refl go 1(2,3) joined count bound] by blast
      have "length rs \<le> length results + width * (requested - attempted)"
      proof (rule room_sum[OF _ room])
        show "length rs \<le> length results + ?w + width * (requested - attempted - ?n)"
          using len by (simp only: length_append length_map length_upt diff_diff_left add_diff_cancel_left')
        show "0 < ?n" using go by (simp only: de_Morgan_disj) (metis gr0I)
      qed (rule n)
      then show ?thesis unfolding run by (intro exI[of _ m] exI[of _ rs] conjI rest rs stop)
    qed
  qed
qed

lemma sum_dispositions: "sum_list (map snd (dispositions_of results)) = length results"
proof -
  let ?vs = "sort (remdups (map disposition_value results))"
  have count: "sum_list (map (\<lambda>v. length (filter (\<lambda>d. f d = v) xs)) vs) = length xs"
    if "distinct vs" "f ` set xs \<subseteq> set vs" for f :: "disposition \<Rightarrow> string" and vs xs
    using that
  proof (induction xs)
    case (Cons x xs)
    have "sum_list (map (\<lambda>v. length (filter (\<lambda>d. f d = v) (x # xs))) vs)
        = sum_list (map (\<lambda>v. (if f x = v then 1 else 0) + length (filter (\<lambda>d. f d = v) xs)) vs)"
      by (rule arg_cong[where f = sum_list]) simp
    also have "\<dots> = sum_list (map (\<lambda>v. if f x = v then 1 else 0) vs) + length xs"
      using Cons by (simp add: sum_list_addf)
    also have "sum_list (map (\<lambda>v. if f x = v then 1 else 0) vs) = (1 :: nat)"
      using Cons.prems by (simp add: sum_list_distinct_conv_sum_set sum.delta)
    finally show ?case by simp
  qed simp
  show ?thesis unfolding dispositions_of_def using count[of ?vs disposition_value results]
    by (simp add: comp_def)
qed

text \<open>C23. A batch ends.  Whatever a worker whose calls return does, \<open>run_due\<close> returns: it made at most
  \<open>requested * concurrency\<close> calls, started at most the requested number of jobs, counted every answer once, and
  fell short of the requested number only when the service was closed or a call found nothing to run.\<close>

theorem run_due_ends:
  assumes "\<And>k. answer k = Inr (out k)" and "0 < sd_concurrency sd" and "0 \<le> sd_job_batch_size sd"
    and "limit = PNone \<or> bounded_setting limit = Inr n"
  shows "\<exists>b. run_due sd (Some answer) accepting limit = Inr b
    \<and> length (rb_results b) \<le> rb_requested b * nat (sd_concurrency sd)
    \<and> rb_results b = map out [0..<length (rb_results b)]
    \<and> rb_attempted b = length (filter attempt (rb_results b)) \<and> rb_attempted b \<le> rb_requested b
    \<and> sum_list (map snd (rb_dispositions b)) = length (rb_results b)
    \<and> (rb_attempted b < rb_requested b \<longrightarrow> (\<exists>r. \<not> accepting r) \<or> (\<exists>d \<in> set (rb_results b). \<not> attempt d))"
proof -
  obtain q where q: "(if limit = PNone then Inr (sd_job_batch_size sd) else bounded_setting limit) = Inr q"
    using assms(4) by (cases "limit = PNone") auto
  show ?thesis
  proof (cases "accepting 0")
    case True
    obtain k rs where r: "run_rounds answer accepting (nat (sd_concurrency sd)) (nat q) 1 0 [] = Inr (k, rs)"
      "rs = map out [0..<length rs]" "k = length (filter attempt rs)" "k \<le> nat q"
      "length rs \<le> nat (sd_concurrency sd) * nat q"
      "k < nat q \<longrightarrow> (\<exists>r. \<not> accepting r) \<or> (\<exists>d \<in> set rs. \<not> attempt d)"
      using run_rounds_end[of answer out "nat (sd_concurrency sd)" "[]" 0 "nat q" accepting 1, OF assms(1)] assms(2)
      by auto
    then show ?thesis using True unfolding run_due_def q
      by (auto simp: sum_dispositions mult.commute)
  next
    case False
    then show ?thesis unfolding run_due_def q by auto
  qed
qed

theorem run_due_ends_witness:
  "\<exists>b. run_due \<lparr>sd_decision_limit = 10, sd_job_batch_size = 3, sd_concurrency = 2, sd_default_priority = 100,
        sd_max_attempts = 5, sd_policy_epoch = ''e'', sd_lane_prefixes = []\<rparr>
      (Some (\<lambda>k. Inr (if k < 2 then Run_completed else Run_idle))) (\<lambda>_. True) PNone = Inr b
    \<and> rb_attempted b \<le> rb_requested b \<and> length (rb_results b) \<le> rb_requested b * 2"
  using run_due_ends[of "\<lambda>k. Inr (if k < 2 then Run_completed else Run_idle)"
      "\<lambda>k. if k < 2 then Run_completed else Run_idle"
      "\<lparr>sd_decision_limit = 10, sd_job_batch_size = 3, sd_concurrency = 2, sd_default_priority = 100,
        sd_max_attempts = 5, sd_policy_epoch = ''e'', sd_lane_prefixes = []\<rparr>" PNone 3 "\<lambda>_. True"] by auto

end
