(* ===== verification/EventOrder.thy ===== *)
theory EventOrder
  imports SchedulePlans
begin

text \<open>
  The order of the event sources: in every run the generation that a lane last accepted only moves forward, and
  an event of an older source finds the store as it was.
\<close>

section \<open>Orders that move forward\<close>

definition orders_forward :: "store \<Rightarrow> store \<Rightarrow> bool" where
  "orders_forward s s' \<longleftrightarrow> (\<forall>k o'. map_of (st_orderings s) k = Some o' \<longrightarrow>
     (\<exists>o''. map_of (st_orderings s') k = Some o'' \<and> eo_generation o' \<le> eo_generation o''))"

lemma forward_refl [simp, intro]: "orders_forward s s"
  by (simp add: orders_forward_def)

lemma forward_trans: "orders_forward s u \<Longrightarrow> orders_forward u s' \<Longrightarrow> orders_forward s s'"
  unfolding orders_forward_def by (meson order_trans)

lemma forward_same: "st_orderings s' = st_orderings s \<Longrightarrow> orders_forward s s'"
  by (simp add: orders_forward_def)

lemma evolves_forward: "evolves T s s' \<Longrightarrow> orders_forward s s'"
  using evolves_same_plan by (auto simp: same_plan_def intro!: forward_same)

lemma fold_forward: "(\<And>x u. orders_forward u (f x u)) \<Longrightarrow> orders_forward s (fold f xs s)"
  by (induction xs arbitrary: s) (auto intro: forward_trans)

lemma forward_writes [simp]:
  "orders_forward s (set_counter key n s)"
  "orders_forward s (retire_job kind revision snapshot j s)"
  "orders_forward s (write_event_cursor k revision generation n s)"
  "orders_forward s (fst (next_counter key s))"
  "orders_forward s (materialize_cursor key2 n2 generation s)"
  "orders_forward s (write_cursor key2 n2 revision generation s)"
  "orders_forward s (replace_members project n2 tasks evaluated s)"
  "orders_forward s (s\<lparr>st_cursors := cs\<rparr>)"
  by (auto simp: set_counter_def retire_job_def record_retirement_def write_event_cursor_def next_counter_def
      materialize_cursor_def write_cursor_def replace_members_def Let_def intro!: forward_same)

lemma order_event_forward:
  "(\<And>o'. map_of (st_orderings s) k = Some o' \<Longrightarrow> eo_generation o' \<le> g) \<Longrightarrow> orders_forward s (order_event k g revision s)"
  by (auto simp: orders_forward_def order_event_def update_conv')

lemma write_cut_forward: "write_cut project task kind revision c n s = Inr s' \<Longrightarrow> orders_forward s s'"
  by (auto simp: write_cut_def Let_def split: option.splits if_splits intro!: forward_same)

lemma record_job_retirements_forward:
  "record_job_retirements project task kind revision snapshot managed excluded s = Inr (s', n) \<Longrightarrow> orders_forward s s'"
  by (auto simp: record_job_retirements_def succeeds_iff Let_def split: if_splits option.splits
      intro!: fold_forward intro: forward_trans write_cut_forward)

lemma lifecycle_final_forward:
  "record_lifecycle_final_authority project task status snapshot s = Inr (s', n) \<Longrightarrow> orders_forward s s'"
  by (auto simp: record_lifecycle_final_authority_def succeeds_iff Let_def split: if_splits
      dest: record_job_retirements_forward)

lemma event_retirement_forward:
  "record_event_handoff_retirements project task generation lane n lanes s = Inr (s', m) \<Longrightarrow> orders_forward s s'"
  by (auto simp: record_event_handoff_retirements_def succeeds_iff Let_def split: if_splits intro!: fold_forward)

lemma calls_forward:
  "reconcile_event_handoff_retirements project task lanes retired actions s = Inr (s', m) \<Longrightarrow> orders_forward s s'"
  "retire_named_lanes e generation j s = Inr s' \<Longrightarrow> orders_forward s s'"
  "retire_managed_work q s = Inr s' \<Longrightarrow> orders_forward s s'"
  "allocate_decision_window entries limit snapshot scope s = Inr (s', offset) \<Longrightarrow> orders_forward s s'"
  "accept_snapshot_generation g s = Inr (s', b) \<Longrightarrow> orders_forward s s'"
  "activate_schedule project task revision n2 deadline action names now s = Inr (s', v) \<Longrightarrow> orders_forward s s'"
  "record_schedule_cut record_cut project task kind revision n2 jids s = Inr s' \<Longrightarrow> orders_forward s s'"
  by (auto simp: reconcile_event_handoff_retirements_def retire_named_lanes_def retire_managed_work_def
      allocate_decision_window_def accept_snapshot_generation_def activate_schedule_def activated_def
      record_schedule_cut_def ebind_eq_Inr_iff succeeds_iff Let_def split: if_splits option.splits
      dest: event_retirement_forward record_job_retirements_forward)

lemma publish_forward: "publish_snapshot_generation g call None s = (s', outcome) \<Longrightarrow> orders_forward s s'"
  by (cases rule: publishE, assumption)
    (auto simp: mark_published_def withdraw_accepted_def set_counter_def Let_def intro!: forward_same)

lemma allocation_forward:
  "allocate_snapshot_generation s = (s', g) \<Longrightarrow> orders_forward s s'"
  "allocate_event_generation s = (s', g) \<Longrightarrow> orders_forward s s'"
  by (auto simp: allocate_snapshot_generation_def allocate_event_generation_def next_ordering_generation_def Let_def)

lemma activate_order_forward:
  "activate_event_order project task namespace g revision s = Inr (s', b) \<Longrightarrow> orders_forward s s'"
  by (auto simp: activate_event_order_def succeeds_iff Let_def split: if_splits option.splits
      intro!: order_event_forward)

section \<open>Membership and materialisation\<close>

lemma retire_tasks_forward:
  assumes "store_ok s" and "retire_tasks project snapshot now tasks s = Inr (s', a, b)"
  shows "orders_forward s s'"
  using assms
proof (induction tasks arbitrary: s a b)
  case (Cons task tasks)
  let ?p = "\<lambda>j. of_task project task j \<and> jb_workflow_managed j \<and> active j"
  obtain s1 n a' b' where sup: "supersede_rows (''snapshot:'' @ int_str snapshot) ABSENT_MESSAGE now
       (filter ?p (st_jobs s)) s = Inr (s1, n)"
    and rest: "retire_tasks project snapshot now tasks
       (s1\<lparr>st_cursors := AList.delete (project, task) (st_cursors s1)\<rparr>) = Inr (s', a', b')"
    using Cons.prems(2) by (auto simp: ebind_eq_Inr_iff Let_def split: prod.splits)
  let ?u = "s1\<lparr>st_cursors := AList.delete (project, task) (st_cursors s1)\<rparr>"
  have ev: "evolves {} s s1" using sup by (rule filter_supersede_evolves[OF Cons.prems(1), rotated]) simp
  have "steers {} s1 ?u" by (rule tables_only_steers) (simp add: tables_only_def)
  then have "store_ok ?u" using ev evolves_ok Cons.prems(1) by blast
  from Cons.IH[OF this rest] show ?case using evolves_forward[OF ev] forward_writes(8) forward_trans by blast
qed simp

lemma reconcile_projects_forward:
  assumes "store_ok s" and "reconcile_projects snapshot expected evaluated now projects s = Inr (s', a, b)"
  shows "orders_forward s s'"
  using assms
proof (induction projects arbitrary: s a b)
  case (Cons project projects)
  let ?tasks = "expected_tasks project expected"
  obtain s1 c d a' b' where r: "retire_tasks project snapshot now (filter (\<lambda>t. t \<notin> set ?tasks) (known_tasks project s)) s
      = Inr (s1, c, d)"
    and rest: "reconcile_projects snapshot expected evaluated now projects
      (replace_members project snapshot ?tasks evaluated s1) = Inr (s', a', b')"
    using Cons.prems(2) by (auto simp: ebind_eq_Inr_iff Let_def split: prod.splits)
  let ?u = "replace_members project snapshot ?tasks evaluated s1"
  have "steers {} s ?u"
    using retire_tasks_steers[OF Cons.prems(1) r] tables_only_steers[OF replace_members_tables] evolves_trans by blast
  then have "store_ok ?u" using evolves_ok Cons.prems(1) by blast
  from Cons.IH[OF this rest] show ?case
    using retire_tasks_forward[OF Cons.prems(1) r] forward_writes(7) forward_trans by blast
qed simp

lemma membership_forward:
  "store_ok s \<Longrightarrow> reconcile_snapshot_membership snapshot ps expected evaluated now s = Inr (s', w) \<Longrightarrow> orders_forward s s'"
  by (auto simp: reconcile_snapshot_membership_def succeeds_iff Let_def split: if_splits
      dest: reconcile_projects_forward)

lemma reconcile_schedule_forward:
  assumes ok: "store_ok s" and specs: "\<And>sp. sp \<in> set specs \<Longrightarrow> 0 < js_max_attempts sp"
    and call: "reconcile_schedule project task snapshot generation specs record_cut kind reason ids now s = Inr (s', w)"
  shows "orders_forward s s'"
  using call
proof (rule reconcile_scheduleE)
  fix c s1 jids created replays s2 n
  assume e: "enqueue_specs ids now specs s = Inr (s1, jids, created, replays)"
    and sup: "supersede_rows (py_strip generation) (py_strip reason) now (filter (replaced (py_strip project)
      (py_strip task) (py_strip generation) (map js_idempotency_key specs)) (st_jobs s1)) s1 = Inr (s2, n)"
    and cut: "record_schedule_cut record_cut (py_strip project) (py_strip task) (managed_kind specs)
      (cu_decision_revision c) snapshot jids
      (materialize_cursor (py_strip project, py_strip task) snapshot (py_strip generation) s2) = Inr s'"
  have s1: "evolves {} s s1" using enqueue_specs_evolves[OF specs e] by blast
  then have "store_ok s1" using evolves_ok ok by blast
  then have "evolves {} s1 s2" by (rule filter_supersede_evolves[OF _ _ sup]) (simp add: replaced_def)
  with s1 have "orders_forward s s2" using evolves_forward forward_trans by blast
  then show ?thesis using calls_forward(7)[OF cut] forward_writes(5) forward_trans by blast
qed simp

section \<open>Events\<close>

lemma order_source_forward: "order_of_source e s = Source_current advanced \<Longrightarrow> orders_forward s (order_source e s)"
  by (auto simp: order_source_def order_of_source_def split: option.splits if_splits intro!: order_event_forward)

lemma activate_event_forward:
  assumes ok: "store_ok s" and call: "activate_event e advanced fresh now s = Inr (s', w)"
  shows "orders_forward s s'"
proof -
  define s1 where "s1 = fst (next_counter EVENT_SEQUENCE s)"
  define generation where "generation = event_generation e advanced (snd (next_counter EVENT_SEQUENCE s)) s1"
  define s2 where "s2 = write_event_cursor (er_project_id e, er_task_id e, event_lane e) (er_decision_revision e)
    generation (snd (next_counter EVENT_SEQUENCE s)) s1"
  obtain sp s3 row created s4 n where sp: "event_spec e generation = Inr sp"
    and e: "enqueue_locked sp False fresh now s2 = Inr (s3, row, created)"
    and sup: "supersede_rows generation (er_reason e) now
      (filter (displaced e (js_scheduling_lane sp) generation) (st_jobs s3)) s3 = Inr (s4, n)"
    and named: "retire_named_lanes e generation row s4 = Inr s'"
    using call unfolding activate_event_def s2_def generation_def s1_def
    by (auto simp: ebind_eq_Inr_iff Let_def split: prod.splits)
  have s2: "orders_forward s s2" unfolding s2_def s1_def using forward_trans forward_writes(3,4) by blast
  have "tables_only s s2" unfolding s2_def s1_def
    by (simp add: tables_only_def write_event_cursor_def next_counter_def Let_def)
  then have "store_ok s2" using evolves_ok[OF tables_only_steers] ok by blast
  moreover have "0 < js_max_attempts sp" using sp make_spec_attempts by (simp add: event_spec_def)
  ultimately have "evolves {} s2 s4" using e
    by (rule enqueue_supersede_evolves[OF _ _ _ _ sup]) (simp add: displaced_def)
  then show ?thesis using s2 calls_forward(2)[OF named] evolves_forward forward_trans by blast
qed

lemma materialize_event_forward:
  assumes ok: "store_ok s" and call: "materialize_event request fresh now s = Inr (s', w)"
  shows "orders_forward s s'"
proof -
  obtain e where call': "(case order_of_source e s of Source_stale \<Rightarrow> Inr (s, stale_event e s)
     | Source_conflict \<Rightarrow> Inl StoreError
     | Source_current advanced \<Rightarrow> (let s1 = order_source e s in
         case protected_job e s1 of
            Some j \<Rightarrow> Inr (s1, \<lparr>ew_job = (if same_event e j then Some j else None), ew_accepted = True,
              ew_created = False, ew_superseded = 0\<rparr>)
          | None \<Rightarrow> activate_event e advanced fresh now s1)) = Inr (s', w)"
    using call by (auto simp: materialize_event_def ebind_eq_Inr_iff)
  have "store_ok (order_source e s)" using tables_only_steers[OF order_source_tables] evolves_ok ok by blast
  then show ?thesis using call'
    by (auto simp: Let_def split: source_order.splits option.splits
        dest: activate_event_forward intro: order_source_forward forward_trans)
qed

lemma retire_lane_forward:
  assumes ok: "store_ok s"
    and call: "retire_event_lane project task lane namespace g revision reason now s = Inr (s', w)"
  shows "orders_forward s s'"
proof (cases "s' = s")
  case False
  let ?k = "(py_strip project, py_strip task, py_strip namespace)"
  let ?u = "order_event ?k g (py_strip revision) s"
  have older: "eo_generation o' \<le> g" if "map_of (st_orderings s) ?k = Some o'" for o'
    using call that False by (auto simp: retire_event_lane_def succeeds_iff Let_def split: if_splits option.splits)
  obtain n where sup: "supersede_rows (''decision:'' @ int_str g @ '':'' @ py_strip revision) (py_strip reason) now
      (filter (retirable_row (py_strip project) (py_strip task) (py_strip lane)) (st_jobs ?u)) ?u = Inr (s', n)"
    using call False by (auto elim: retire_laneE)
  have "store_ok ?u" using tables_only_steers[OF order_event_tables] evolves_ok ok by blast
  then have "evolves {} ?u s'" by (rule filter_supersede_evolves[OF _ retirable_row_active sup])
  then show ?thesis using order_event_forward[OF older] evolves_forward forward_trans by blast
qed simp

lemma replace_lane_forward:
  assumes ok: "store_ok s" and max: "0 < js_max_attempts (lq_spec q)"
    and older: "\<And>o'. map_of (st_orderings s)
      (js_project_id (lq_spec q), js_task_id (lq_spec q), js_scheduling_lane (lq_spec q)) = Some o'
      \<Longrightarrow> eo_generation o' \<le> lq_source_generation q"
    and call: "replace_lane q message fresh now s = Inr (s', w)"
  shows "orders_forward s s'"
proof -
  let ?sp = "lq_spec q"
  define s1 where "s1 = order_event (js_project_id ?sp, js_task_id ?sp, js_scheduling_lane ?sp)
    (lq_source_generation q) (js_generation ?sp) s"
  obtain s2 row created s3 n where e: "enqueue_locked ?sp False fresh now s1 = Inr (s2, row, created)"
    and sup: "supersede_rows (js_generation ?sp) message now (filter (\<lambda>j. of_task (js_project_id ?sp) (js_task_id ?sp) j
       \<and> jb_scheduling_lane j = js_scheduling_lane ?sp \<and> active j \<and> jb_job_id j \<noteq> jb_job_id row) (st_jobs s2)) s2
      = Inr (s3, n)"
    and managed: "retire_managed_work q s3 = Inr s'"
    using call unfolding replace_lane_def Let_def s1_def by (auto simp: ebind_eq_Inr_iff)
  have "store_ok s1" using tables_only_steers[OF order_event_tables] evolves_ok ok unfolding s1_def by blast
  then have "evolves {} s1 s3" by (rule enqueue_supersede_evolves[OF _ max e _ sup]) simp
  moreover have "orders_forward s s1" unfolding s1_def by (rule order_event_forward[OF older])
  ultimately show ?thesis using calls_forward(3)[OF managed] evolves_forward forward_trans by blast
qed

lemma replacing_lane_forward:
  assumes ok: "store_ok s" and max: "0 < js_max_attempts (lq_spec q)"
    and call: "enqueue_replacing_lane q fresh now s = Inr (s', w)"
  shows "orders_forward s s'"
proof -
  have stale: "orders_forward s s'" if "stale_activation q observed fresh now s = Inr (s', w)" for observed
    using stale_activation_evolves[OF ok max that] evolves_forward by blast
  have replay: "orders_forward s s'" if "replay_activation q observed s = Inr (s', w)" for observed
    using that by (auto simp: replay_activation_def ebind_eq_Inr_iff split: if_splits option.splits
        dest: calls_forward(3))
  show ?thesis using call
    by (auto simp: enqueue_replacing_lane_def Let_def ebind_eq_Inr_iff split: if_splits option.splits
        intro: stale replay replace_lane_forward[OF ok max])
qed

section \<open>Along a run\<close>

lemma schedule_call_forward: "schedule_call s s' \<Longrightarrow> store_ok s \<Longrightarrow> orders_forward s s'"
proof (induction rule: schedule_call.induct)
  case (call_reconcile specs project task snapshot generation record_cut kind reason ids now s s' w')
  then show ?case using reconcile_schedule_forward well_made_attempts by blast
next
  case (call_replace_lane q fresh now s s' w'')
  then show ?case using replacing_lane_forward well_made_attempts by blast
qed (auto intro: allocation_forward calls_forward publish_forward membership_forward lifecycle_final_forward
    activate_order_forward materialize_event_forward retire_lane_forward)

lemma run_forward:
  assumes "(job_step R)\<^sup>*\<^sup>* (s, U) (s', U')" and "planned (s, U)"
  shows "orders_forward s s'"
  using assms(1)
proof (induction "(s', U')" arbitrary: s' U' rule: rtranclp_induct)
  case (step c)
  obtain u V where c: "c = (u, V)" by fastforce
  have u: "orders_forward s u" "store_ok u"
    using step.hyps(3)[OF c] run_ahead[OF step.hyps(1)[unfolded c] assms(2)] by (auto simp: planned_def)
  then show ?case using job_step_cases[OF step.hyps(2)[unfolded c] u(2)] schedule_call_forward evolves_forward
      forward_trans by blast
qed simp

text \<open>Event sources only move forward.  Once a lane was ordered at a source generation, then in every later
  state the lane is ordered at that generation or a later one, and everything an older source asks for is
  refused there without a write: its activation, its event and the retirement of the lane.\<close>

theorem older_source_is_refused:
  assumes "(job_step R)\<^sup>*\<^sup>* (empty_store, {}) (s, U)" and "(job_step R)\<^sup>*\<^sup>* (s, U) (s', U')"
    and "map_of (st_orderings s) (project, task, lane) = Some o'" and "g < eo_generation o'"
    and "py_strip project = project" and "py_strip task = task" and "py_strip lane = lane"
  shows "(\<exists>o''. map_of (st_orderings s') (project, task, lane) = Some o'' \<and> eo_generation o' \<le> eo_generation o'')
    \<and> (activate_event_order project task lane g revision s' = Inr (u, b) \<longrightarrow> u = s' \<and> \<not> b)
    \<and> (retire_event_lane project task name lane g revision reason now s' = Inr (u, w) \<longrightarrow> u = s' \<and> w = refused_event)
    \<and> (normalized_event request = Inr e \<longrightarrow> er_project_id e = project \<longrightarrow> er_task_id e = task
        \<longrightarrow> er_ordering_namespace e = Some lane \<longrightarrow> er_source_generation e = Some g
        \<longrightarrow> materialize_event request fresh now s' = Inr (s', stale_event e s') \<and> \<not> ew_created (stale_event e s'))"
proof -
  have "orders_forward s s'" using run_forward[OF assms(2)] plans.reachable[OF assms(1)] by blast
  then obtain o'' where o'': "map_of (st_orderings s') (project, task, lane) = Some o''" "eo_generation o' \<le> eo_generation o''"
    using assms(3) unfolding orders_forward_def by blast
  then have older: "g < eo_generation o''" using assms(4) by simp
  have "activate_event_order project task lane g revision s' = Inr (u, b) \<longrightarrow> u = s' \<and> \<not> b"
    using o''(1) older assms(5-7) by (auto simp: activate_event_order_def succeeds_iff Let_def split: if_splits)
  moreover have "retire_event_lane project task name lane g revision reason now s' = Inr (u, w) \<longrightarrow> u = s' \<and> w = refused_event"
    using o''(1) older assms(5-7) by (auto simp: retire_event_lane_def succeeds_iff Let_def split: if_splits)
  moreover have "materialize_event request fresh now s' = Inr (s', stale_event e s') \<and> \<not> ew_created (stale_event e s')"
    if e: "normalized_event request = Inr e" "er_project_id e = project" "er_task_id e = task"
      "er_ordering_namespace e = Some lane" "er_source_generation e = Some g"
  proof -
    have "order_of_source e s' = Source_stale" using e o''(1) older by (simp add: order_of_source_def)
    moreover have "\<not> ew_created (stale_event e s')"
      by (simp add: stale_event_def refused_event_def split: option.split)
    ultimately show ?thesis using e(1) by (simp add: materialize_event_def)
  qed
  ultimately show ?thesis using o'' by blast
qed

end
