(* ===== verification/ScheduleSamples.thy ===== *)
theory ScheduleSamples
  imports MembershipClaims WindowClaims LoopClaims EventOrder
begin

text \<open>
  A concrete run of the scheduling operations, for the instances of the theorems: a scan is allocated and
  accepted, its membership taken, the cursor of its one decision activated and materialised with one job, and
  the generation published; a second scan is then allocated.
\<close>

section \<open>The calls\<close>

definition scheduled_spec :: job_spec where
  "scheduled_spec = \<lparr>js_project_id = ''p'', js_task_id = ''T'', js_generation = ''r:1'', js_action = ''work'',
     js_idempotency_key = ''k'', js_phase = ''intent'', js_expected_evidence_revision = None, js_expected_head_sha = None,
     js_priority = 5, js_max_attempts = 2, js_reason_code = None, js_payload = None, js_scheduling_lane = ''decision''\<rparr>"

definition accepted_store :: store where
  "accepted_store = empty_store\<lparr>st_counters := (\<lambda>_. None)(ALLOCATED \<mapsto> 1, ACCEPTED \<mapsto> 1)\<rparr>"

definition member_store :: store where
  "member_store = accepted_store\<lparr>st_membership := [((''p'', ''T''), 1)]\<rparr>"

definition planned_store :: store where
  "planned_store = member_store\<lparr>st_cursors := [((''p'', ''T''), \<lparr>cu_snapshot_generation = 1,
     cu_decision_revision = ''r'', cu_job_generation = ''r:1'', cu_materialized_job_generation = None\<rparr>)]\<rparr>"

definition scheduled_row :: job where
  "scheduled_row = new_job scheduled_spec ''j'' True 1 12"

definition scheduled_store :: store where
  "scheduled_store = materialize_cursor (''p'', ''T'') 1 ''r:1'' (append_event scheduled_row ''enqueued'' [] 12
     (planned_store\<lparr>st_jobs := [scheduled_row], st_last_sequence := 1\<rparr>))"

lemma sample_accepts: "accept_snapshot_generation 1 scanned_store = Inr (accepted_store, True)"
  by (simp add: scanned_store_def allocate_snapshot_generation_def next_ordering_generation_def accepted_store_def
      accept_snapshot_generation_def set_counter_def counter_def empty_store_def max_or_zero_def Let_def)

lemma sample_members: "reconcile_snapshot_membership 1 [''p''] [(''p'', ''T'')] (Some [(''p'', ''T'')]) 10 accepted_store
   = Inr (member_store, \<lparr>mw_snapshot = 1, mw_accepted = True, mw_members = 1, mw_cursors_retired = 0,
       mw_jobs_superseded = 0\<rparr>)"
  by (simp add: reconcile_snapshot_membership_def required_pair_def required_str_def str_eval member_store_def
      generation_current_def known_tasks_def expected_tasks_def replace_members_def member_rows_def empty_store_def
      accepted_store_def Let_def)

lemma int_str_1: "int_str 1 = ''1''"
  by code_simp

lemma sample_activates: "\<exists>v. activate_schedule ''p'' ''T'' ''r'' 1 None None [] 11 member_store = Inr (planned_store, v)"
  by (simp add: activate_schedule_def required_str_def required_opt_def str_eval generation_current_def
      activated_def write_cursor_def scheduled_generation_def int_str_1 planned_store_def member_store_def accepted_store_def
      empty_store_def Let_def)

lemma scheduled_fields: "jb_job_id scheduled_row = ''j''" "\<not> replaced ''p'' ''T'' ''r:1'' [''k''] scheduled_row"
  by (simp_all add: scheduled_row_def new_job_def scheduled_spec_def replaced_def)

lemma sample_scheduled: "reconcile_schedule ''p'' ''T'' 1 ''r:1'' [scheduled_spec] False (Some ''managed_decision'')
     ''superseded'' (\<lambda>_. ''j'') 12 planned_store
   = Inr (scheduled_store, \<lparr>sw_accepted = True, sw_created = 1, sw_replayed = 0, sw_superseded = 0\<rparr>)"
  by (simp add: reconcile_schedule_def required_str_def required_opt_def str_eval generation_current_def
      managed_kind_def spec_in_scope_def enqueue_locked_def find_key_def commit_event_def row_locked_def
      scheduled_row_def[symmetric] planned_store_def member_store_def accepted_store_def
      empty_store_def Let_def)
    (simp add: scheduled_spec_def scheduled_fields record_schedule_cut_def scheduled_store_def planned_store_def
      member_store_def accepted_store_def empty_store_def)

lemma scheduled_spec_made: "well_made scheduled_spec"
proof -
  have "make_spec (PStr ''p'') (PStr ''T'') (PStr ''r:1'') (PStr ''work'') (PStr ''k'')
      (PStr ''intent'') PNone PNone (PInt 5) (PInt 2) PNone PNone (PStr ''decision'') = Inr scheduled_spec"
    by (simp add: make_spec_def required_text_def str_eval json_object_def optional_text_def scheduled_spec_def)
  then show ?thesis unfolding well_made_def by blast
qed

section \<open>Reached\<close>

lemma accepted_reached: "(job_step R)\<^sup>*\<^sup>* (empty_store, {}) (accepted_store, {})"
  by (rule rtranclp.rtrancl_into_rtrancl[OF scanned_reached step_schedule[OF call_accept[OF sample_accepts]]])

lemma planned_reached: "(job_step R)\<^sup>*\<^sup>* (empty_store, {}) (planned_store, {})"
proof -
  have "job_step R (accepted_store, {}) (member_store, {})"
    by (rule step_schedule[OF call_membership[OF sample_members]])
  moreover obtain v where "activate_schedule ''p'' ''T'' ''r'' 1 None None [] 11 member_store = Inr (planned_store, v)"
    using sample_activates by blast
  then have "job_step R (member_store, {}) (planned_store, {})" by (rule step_schedule[OF call_activate])
  ultimately show ?thesis using accepted_reached by (meson rtranclp.rtrancl_into_rtrancl)
qed

lemma scheduled_reached: "(job_step R)\<^sup>*\<^sup>* (empty_store, {}) (scheduled_store, {})"
  by (rule rtranclp.rtrancl_into_rtrancl[OF planned_reached step_schedule[OF call_reconcile[OF _ sample_scheduled]]])
    (use scheduled_spec_made in simp)

lemma scheduled_publishes: "publish_snapshot_generation 1 Publisher_returned None scheduled_store
    = (mark_published 1 scheduled_store, Published)"
  by (simp add: publish_snapshot_generation_def scheduled_store_def materialize_cursor_def append_event_def Let_def
      planned_store_def member_store_def accepted_store_def empty_store_def generation_current_def counter_def)

section \<open>Instances\<close>

theorem decision_owns_its_task_witness:
  "\<exists>j \<in> set (st_jobs (mark_published 1 scheduled_store)). stands_for scheduled_spec j"
  using decision_owns_its_task[OF planned_reached, of "[scheduled_spec]", OF _ _ sample_scheduled _ scheduled_publishes]
    scheduled_spec_made
    by (simp add: planned_store_def member_store_def str_eval)

theorem membership_is_exact_witness: "map_of (st_membership member_store) (''p'', ''T'') = Some 1"
  using membership_is_exact[OF accepted_reached sample_members _ refl refl refl] by (auto simp: str_eval)

text \<open>A second scan overtakes the first and is published after it.\<close>

definition published_store :: store where
  "published_store = mark_published 1 scheduled_store"

definition overtaking_store :: store where
  "overtaking_store = fst (allocate_snapshot_generation published_store)"

definition second_store :: store where
  "second_store = set_counter ACCEPTED 2 overtaking_store"

lemma published_reached: "(job_step R)\<^sup>*\<^sup>* (empty_store, {}) (published_store, {})"
  unfolding published_store_def
  by (rule rtranclp.rtrancl_into_rtrancl[OF scheduled_reached step_schedule[OF call_publish[OF scheduled_publishes]]])

lemma overtaking_step: "job_step R (published_store, {}) (overtaking_store, {})"
  unfolding overtaking_store_def by (rule step_schedule[OF call_allocate]) (rule prod.collapse[symmetric])

lemma overtaking_counters: "counter ALLOCATED overtaking_store = 2" "counter ACCEPTED overtaking_store = 1"
  "counter PUBLISHED overtaking_store = 1"
  by (simp_all add: overtaking_store_def published_store_def mark_published_def allocate_snapshot_generation_def
      next_ordering_generation_def scheduled_store_def materialize_cursor_def append_event_def planned_store_def
      member_store_def accepted_store_def empty_store_def set_counter_def counter_def max_or_zero_def Let_def)

lemma second_accepts: "accept_snapshot_generation 2 overtaking_store = Inr (second_store, True)"
  by (simp add: accept_snapshot_generation_def overtaking_counters second_store_def)

lemma second_publishes: "publish_snapshot_generation 2 Publisher_returned None second_store
    = (mark_published 2 second_store, Published)"
  using overtaking_counters
  by (simp add: publish_snapshot_generation_def generation_current_def second_store_def set_counter_def counter_def
      split: option.splits)

theorem overtaken_scan_is_inert_witness:
  "accept_snapshot_generation 1 overtaking_store = Inr (overtaking_store, False)
   \<and> fst (publish_snapshot_generation 1 Publisher_returned None overtaking_store) = overtaking_store"
proof -
  have run: "(job_step UNIV)\<^sup>*\<^sup>* (empty_store, {}) (overtaking_store, {})"
    by (rule rtranclp.rtrancl_into_rtrancl[OF published_reached overtaking_step])
  have old: "1 < counter ALLOCATED overtaking_store" by (simp add: overtaking_counters)
  note inert = overtaken_scan_is_inert[OF run old rtranclp.rtrancl_refl]
  obtain u b where accept: "accept_snapshot_generation 1 overtaking_store = Inr (u, b)"
    by (cases "accept_snapshot_generation 1 overtaking_store") (auto simp: accept_snapshot_generation_def split: if_splits)
  obtain v outcome where publish: "publish_snapshot_generation 1 Publisher_returned None overtaking_store = (v, outcome)"
    by fastforce
  have "u = overtaking_store \<and> \<not> b" by (rule inert[THEN conjunct1, THEN mp, OF accept])
  moreover have "v = overtaking_store \<and> outcome \<noteq> Published"
    by (rule inert[THEN conjunct2, THEN conjunct2, THEN conjunct2, THEN conjunct2, THEN conjunct2, THEN conjunct2,
        THEN mp, OF publish])
  ultimately show ?thesis using accept publish by simp
qed

theorem published_once_in_order_witness:
  "2 \<in> set (st_publications (mark_published 2 second_store)) \<and> counter PUBLISHED (mark_published 2 second_store) = 2"
proof -
  have "(job_step UNIV)\<^sup>*\<^sup>* (published_store, {}) (second_store, {})"
    using overtaking_step step_schedule[OF call_accept[OF second_accepts]]
    by (meson r_into_rtranclp rtranclp.rtrancl_into_rtrancl)
  from published_once_in_order[OF scheduled_reached scheduled_publishes this[unfolded published_store_def] second_publishes]
  show ?thesis by blast
qed

section \<open>The window\<close>

definition sample_decision :: "string \<Rightarrow> work_decision" where
  "sample_decision task = \<lparr>wd_project_id = ''p'', wd_task_id = task, wd_status = ''Open'', wd_disposition = Disp_RUNNABLE,
     wd_reason_code = ''ready'', wd_owner = Owner_DISPATCHER, wd_unmet = [], wd_evidence_revision = ''e'',
     wd_next_reassessment_at = None, wd_actions = [], wd_action_required = PNone, wd_alert = Sev_NONE,
     wd_jobs = [], wd_recommended = None, wd_revision = ''r'', wd_schema_version = PInt 1\<rparr>"

definition sample_scan :: "work_decision list" where
  "sample_scan = map sample_decision [''A'', ''B'', ''C'']"

definition narrow_scheduler :: scheduler where
  "narrow_scheduler = sample_scheduler\<lparr>sd_decision_limit := 2\<rparr>"

definition window_store :: "nat \<Rightarrow> store" where
  "window_store k = (if k = 0 then accepted_store else set_counter WINDOW_OFFSET (if k = 1 then 2 else 1) accepted_store)"

definition sample_windows :: "nat \<Rightarrow> work_decision list" where
  "sample_windows k = map sample_decision (if k = 0 then [''A'', ''B''] else [''C'', ''A''])"

lemma sample_window: "k < 2 \<Longrightarrow> scan_window narrow_scheduler 1 sample_scan (window_store k)
    = Inr (window_store (Suc k), Some (sample_windows k))"
  by (auto simp: less_2_cases_iff scan_window_def bounded_window_def allocate_decision_window_def bounded_limit_def
      required_opt_def generation_current_def counter_def set_counter_def accepted_store_def narrow_scheduler_def
      sample_scheduler_def sample_scan_def sample_windows_def window_store_def empty_store_def Let_def)

theorem window_reaches_every_decision_witness:
  "\<exists>k < 2. sample_decision ''C'' \<in> set (sample_windows k)"
  by (rule window_reaches_every_decision[where sd = narrow_scheduler and ds = sample_scan and st = window_store
      and u = "\<lambda>k. window_store (Suc k)" and g = "\<lambda>_. 1", OF _ _ _ sample_window])
    (simp_all add: bounded_window_def sample_scan_def narrow_scheduler_def sample_scheduler_def)

section \<open>The order of events\<close>

definition ordered_store :: store where
  "ordered_store = order_event (''p'', ''T'', ''src'') 5 ''r'' empty_store"

lemma sample_orders: "activate_event_order ''p'' ''T'' ''src'' 5 ''r'' empty_store = Inr (ordered_store, True)"
  by (simp add: activate_event_order_def required_str_def str_eval ordered_store_def empty_store_def Let_def)

theorem older_source_is_refused_witness:
  "activate_event_order ''p'' ''T'' ''src'' 3 ''r'' ordered_store = Inr (ordered_store, False)"
proof -
  have run: "(job_step UNIV)\<^sup>*\<^sup>* (empty_store, {}) (ordered_store, {})"
    by (rule r_into_rtranclp, rule step_schedule, rule call_order[OF sample_orders])
  have row: "map_of (st_orderings ordered_store) (''p'', ''T'', ''src'') = Some \<lparr>eo_generation = 5, eo_revision = ''r''\<rparr>"
    by (simp add: ordered_store_def order_event_def empty_store_def)
  obtain u b where call: "activate_event_order ''p'' ''T'' ''src'' 3 ''r'' ordered_store = Inr (u, b)"
    by (auto simp: activate_event_order_def required_str_def str_eval row Let_def)
  have "u = ordered_store \<and> \<not> b"
    by (rule older_source_is_refused[OF run rtranclp.rtrancl_refl row, of 3, THEN conjunct2, THEN conjunct1, THEN mp,
          OF _ _ _ _ call]) (simp_all add: str_eval)
  then show ?thesis using call by simp
qed

theorem scheduling_tables_ordered_witness:
  "counter PUBLISHED published_store \<le> counter ACCEPTED published_store \<and> distinct (map fst (st_cursors published_store))"
  using scheduling_tables_ordered[OF published_reached] by blast

end
