(* ===== verification/DeadlineRoundtrip.thy ===== *)
theory DeadlineRoundtrip
  imports TimeRoundtrip ReassessDeadline
begin

text \<open>
  A deadline survives its generation text: what \<open>activate_schedule\<close> writes after the marker,
  \<open>schedule_reassessment_deadline\<close> reads back, to the microsecond.
\<close>

section \<open>The marker\<close>

lemma starts_with_append: "starts_with (m @ t) m"
  by (induction m) simp_all

lemma after_last_no_colon: "CHR '':'' \<notin> set t \<Longrightarrow> after_last (CHR '':'' # m) t = None"
  by (induction t) auto

lemma after_last_marker:
  assumes "CHR '':'' \<notin> set t" and "CHR '':'' \<notin> set m"
  shows "after_last (CHR '':'' # m) (p @ CHR '':'' # m @ t) = Some t"
proof (induction p)
  case Nil
  have "after_last (CHR '':'' # m) (m @ t) = None" using assms by (intro after_last_no_colon) simp
  then show ?case by (simp add: starts_with_append)
qed simp

section \<open>Reading decimals\<close>

lemma digit_run_stop:
  assumes "list_all is_digit ds" and "r = [] \<or> (\<exists>c cs. r = c # cs \<and> \<not> is_digit c \<and> c \<noteq> CHR ''_'')"
  shows "digit_run b (ds @ r) = (ds, r)"
  using assms
proof (induction ds arbitrary: b)
  case Nil
  then show ?case by (cases r) auto
qed simp

lemma digit_lower: "is_digit c \<Longrightarrow> lower_char c = c"
  by (auto simp: is_digit_def lower_char_def Let_def)

lemma no_special:
  assumes "is_digit c"
  shows "py_lower (c # s) \<notin> {''inf'', ''infinity'', ''nan''}"
proof -
  have "c \<noteq> CHR ''i''" "c \<noteq> CHR ''n''" using assms by (auto simp: is_digit_def)
  then show ?thesis by (simp add: py_lower_def digit_lower[OF assms])
qed

lemma parse_decimal:
  assumes whole: "list_all is_digit whole" "whole \<noteq> []" and decimals: "list_all is_digit decimals"
    and range: "of_int (digits_val (whole @ decimals)) * pow10 (- int (length decimals)) < 2 ^ 1024 - 2 ^ 970"
  shows "parse_float (whole @ CHR ''.'' # decimals)
    = Some (Some (of_int (digits_val (whole @ decimals)) * pow10 (- int (length decimals))))"
proof -
  let ?t = "whole @ CHR ''.'' # decimals"
  obtain c w where c: "whole = c # w" "is_digit c" using whole by (cases whole) auto
  have "list_all (\<lambda>c. \<not> is_space c) ?t"
    using whole(1) decimals is_digit_neq(8) by (auto simp: list_all_iff is_space_def)
  then have strip: "py_strip ?t = ?t" by (rule py_strip_id)
  have sign: "take_sign ?t = (False, ?t)" using c is_digit_neq(1,3) by (simp add: take_sign_def)
  have word: "py_lower ?t \<notin> {''inf'', ''infinity'', ''nan''}" using no_special[OF c(2)] c(1) by simp
  have point: "\<not> is_digit (CHR ''.'')" by (simp add: is_digit_def)
  have r1: "digit_run False ?t = (whole, CHR ''.'' # decimals)"
    by (rule digit_run_stop[OF whole(1)]) (simp add: point)
  have r2: "digit_run False decimals = (decimals, [])" using digit_run_stop[OF decimals, of "[]"] by simp
  show ?thesis unfolding parse_float_def strip sign prod.case
    using word whole(2) range by (simp add: r1 r2 parse_exponent_def Let_def)
qed

lemma digits_val_append: "list_all is_digit b \<Longrightarrow> digits_val (a @ b) = digits_val a * 10 ^ length b + digits_val b"
proof (induction b rule: rev_induct)
  case (snoc x b)
  then show ?case using digits_val_snoc[of "a @ b" x] digits_val_snoc[of b x] by (simp add: algebra_simps)
qed (simp add: digits_val_def)

section \<open>Deadlines\<close>

text \<open>A time to the microsecond, as the text keeps it.\<close>

definition to_micros :: "real \<Rightarrow> real" where
  "to_micros d = of_int (round_half_even (d * 1000000)) / 1000000"

lemma round_half_even_bounds: "\<bar>of_int (round_half_even x) - x\<bar> \<le> 1 / 2"
  using of_int_floor_le[of x] real_of_int_floor_add_one_gt[of x] by (simp add: round_half_even_def Let_def)

lemma to_micros_close: "\<bar>to_micros d - d\<bar> \<le> 1 / 2000000"
proof -
  have "to_micros d * 1000000 = of_int (round_half_even (d * 1000000))" by (simp add: to_micros_def)
  then show ?thesis using round_half_even_bounds[of "d * 1000000"] unfolding abs_le_iff by linarith
qed

lemma round_half_even_nonneg: "0 \<le> x \<Longrightarrow> 0 \<le> round_half_even x"
  unfolding round_half_even_def Let_def by (simp split: if_splits)

lemma int_str_digits: "0 \<le> i \<Longrightarrow> list_all is_digit (int_str i) \<and> digits_val (int_str i) = i \<and> int_str i \<noteq> []"
  using digits_val_nat_str[of "nat i"] by (subst (3) int_str_def) (simp add: int_str_def, subst nat_str_rec, simp)

lemma parse_fixed6:
  assumes "0 \<le> d" and "d \<le> 10 ^ 300"
  shows "parse_float (fixed6 d) = Some (Some (to_micros d))" and "CHR '':'' \<notin> set (fixed6 d)"
proof -
  let ?n = "round_half_even (d * 1000000)"
  have n: "0 \<le> ?n" using assms(1) by (intro round_half_even_nonneg) simp
  let ?w = "int_str (?n div 1000000)" and ?f = "pad_int (Suc 5) (?n mod 1000000)"
  have fixed: "fixed6 d = ?w @ CHR ''.'' # ?f"
    using assms(1) by (simp add: fixed6_def Let_def numeral_eq_Suc)
  have w: "list_all is_digit ?w" "digits_val ?w = ?n div 1000000" "?w \<noteq> []"
    using int_str_digits[of "?n div 1000000"] n by (simp_all add: pos_imp_zdiv_nonneg_iff)
  have f: "length ?f = 6" "list_all is_digit ?f" "digits_val ?f = ?n mod 1000000"
    using pad_int_digits[of "?n mod 1000000" 5] by simp_all
  have "digits_val (?w @ ?f) = ?n div 1000000 * 1000000 + ?n mod 1000000"
    using digits_val_append[OF f(2)] w(2) f(1,3) by simp
  then have all: "digits_val (?w @ ?f) = ?n" by simp
  have scale: "of_int (digits_val (?w @ ?f)) * pow10 (- int (length ?f)) = to_micros d"
    unfolding all f(1) by (simp add: pow10_def to_micros_def)
  have "to_micros d \<le> 10 ^ 300 + 1" using to_micros_close[of d] assms(2) by linarith
  also have "\<dots> < (2 :: real) ^ 1024 - 2 ^ 970" by simp
  finally show "parse_float (fixed6 d) = Some (Some (to_micros d))"
    unfolding fixed using parse_decimal[OF w(1,3) f(2)] unfolding scale by blast
  show "CHR '':'' \<notin> set (fixed6 d)" unfolding fixed
    using w(1) f(2) is_digit_neq(4) by (auto simp: list_all_iff)
qed

text \<open>The deadline of a generation is read back: for every revision, snapshot and deadline up to \<open>10 ^ 300\<close>
  seconds, the text the activation makes gives the deadline rounded to the microsecond, even when the revision
  itself contains a marker.\<close>

theorem deadline_roundtrip:
  assumes "0 \<le> d" and "d \<le> 10 ^ 300"
  shows "schedule_reassessment_deadline (scheduled_generation revision snapshot (Some d)) = Some (to_micros d)
    \<and> \<bar>to_micros d - d\<bar> \<le> 1 / 2000000"
proof -
  have marker: "REASSESSMENT_GENERATION_MARKER = CHR '':'' # ''reassess=''"
    by (simp add: REASSESSMENT_GENERATION_MARKER_def)
  have "after_last REASSESSMENT_GENERATION_MARKER (scheduled_generation revision snapshot (Some d)) = Some (fixed6 d)"
    using after_last_marker[OF parse_fixed6(2)[OF assms], of "''reassess=''" "revision @ '':'' @ int_str snapshot"]
    unfolding scheduled_generation_def marker by simp
  then show ?thesis
    using parse_fixed6(1)[OF assms] to_micros_close by (simp add: schedule_reassessment_deadline_def)
qed

theorem deadline_roundtrip_witness:
  "schedule_reassessment_deadline (scheduled_generation ''r'' 7 (Some (3 / 2))) = Some (to_micros (3 / 2))"
  using deadline_roundtrip[of "3 / 2" "''r''" 7] by simp

end
