(* ===== verification/DependencyGraph.thy ===== *)
theory DependencyGraph
  imports WorkflowContract "HOL-Library.List_Lexorder" "HOL-Library.Char_ord"
begin

text \<open>
  The dependency graph of the tracker's issues (oompah/dependency_graph.py): effective and inherited
  dependencies, the finish-order projection used by integration, and the breadth-first search that rejects
  an edge which would close a cycle.

  An issue keeps the columns these functions read (oompah/models.py).  A dictionary is the list of its items
  in insertion order; a Python set whose order is never observed is a list, and \<open>sorted\<close> sorts it.
\<close>

section \<open>Issues\<close>

record blocker_ref =
  br_id :: "string option"
  br_identifier :: "string option"

record graph_issue =
  gi_id :: string
  gi_identifier :: string
  gi_state :: string
  gi_parent_id :: "string option"
  gi_project_id :: "string option"
  gi_blocked_by :: "blocker_ref list"
  gi_start_blocked_by :: "blocker_ref list"

text \<open>\<open>str(a or b or '').strip()\<close> of optional texts.\<close>

fun name_text :: "string option list \<Rightarrow> string" where
  "name_text [] = []"
| "name_text (None # vs) = name_text vs"
| "name_text (Some s # vs) = (if s = [] then name_text vs else py_strip s)"

definition ref_identifier :: "blocker_ref \<Rightarrow> string" where
  "ref_identifier r = name_text [br_identifier r, br_id r]"

definition canonical_id :: "graph_issue \<Rightarrow> string" where
  "canonical_id i = name_text [Some (gi_identifier i), Some (gi_id i)]"

definition parent_alias :: "graph_issue \<Rightarrow> string" where
  "parent_alias i = name_text [gi_parent_id i]"

definition issue_aliases :: "graph_issue \<Rightarrow> string list" where
  "issue_aliases i = filter (\<lambda>s. s \<noteq> []) (map py_strip [gi_id i, gi_identifier i])"

text \<open>\<open>d[k] = v\<close>.\<close>

fun put :: "string \<Rightarrow> 'a \<Rightarrow> (string \<times> 'a) list \<Rightarrow> (string \<times> 'a) list" where
  "put k v [] = [(k, v)]"
| "put k v ((k', x) # d) = (if k' = k then (k, v) # d else (k', x) # put k v d)"

lemma map_of_put [simp]: "map_of (put k v d) = (map_of d)(k \<mapsto> v)"
  by (induction k v d rule: put.induct) (auto simp: fun_eq_iff)

definition put_all :: "string list \<Rightarrow> 'a \<Rightarrow> (string \<times> 'a) list \<Rightarrow> (string \<times> 'a) list" where
  "put_all ks v d = fold (\<lambda>k. put k v) ks d"

definition issue_index :: "graph_issue list \<Rightarrow> (string \<times> graph_issue) list" where
  "issue_index issues = fold (\<lambda>i. put_all (issue_aliases i) i) issues []"

definition dependency_parent_has_landed :: "graph_issue \<Rightarrow> (string \<times> graph_issue) list \<Rightarrow> bool" where
  "dependency_parent_has_landed i index = (
     if parent_alias i = [] then False
     else (case map_of index (parent_alias i) of None \<Rightarrow> False
       | Some p \<Rightarrow> canonicalize_status (PStr (gi_state p)) \<in> {''Merged'', ''Archived''}))"

section \<open>Effective dependencies\<close>

definition refs_of :: "bool \<Rightarrow> graph_issue \<Rightarrow> blocker_ref list" where
  "refs_of hard_start i = (if hard_start then gi_start_blocked_by i else gi_blocked_by i)"

text \<open>Appending what is new; the code's \<open>seen_dependencies\<close> is the set of the result.\<close>

definition add_new :: "string \<Rightarrow> string list \<Rightarrow> string list" where
  "add_new d result = (if d \<noteq> [] \<and> d \<notin> set result then result @ [d] else result)"

definition add_refs :: "blocker_ref list \<Rightarrow> string list \<Rightarrow> string list" where
  "add_refs refs result = fold (\<lambda>r. add_new (ref_identifier r)) refs result"

function effective_loop ::
  "bool \<Rightarrow> (string \<times> graph_issue) list \<Rightarrow> graph_issue \<Rightarrow> string list \<Rightarrow> string list \<Rightarrow> string list" where
  "effective_loop hard_start index current result seen = (
     let result' = add_refs (refs_of hard_start current) result; parent = parent_alias current
     in if parent = [] \<or> parent \<in> set seen then result'
        else (case map_of index parent of None \<Rightarrow> result'
          | Some p \<Rightarrow> effective_loop hard_start index p result' (parent # seen)))"
  by pat_completeness auto

lemma unseen_decreases:
  assumes "map_of index k = Some v" and "k \<notin> set seen"
  shows "card (fst ` set index - set (k # seen)) < card (fst ` set index - set seen)"
proof (rule psubset_card_mono)
  have "k \<in> fst ` set index" using assms(1) map_of_SomeD by force
  then show "fst ` set index - set (k # seen) \<subset> fst ` set index - set seen" using assms(2) by auto
qed simp

termination effective_loop
proof (relation "measure (\<lambda>(_, index, _, _, seen). card (fst ` set index - set seen))")
  fix hard_start :: bool and index :: "(string \<times> graph_issue) list" and current p :: graph_issue
    and result result' seen :: "string list" and parent :: string
  assume "\<not> (parent = [] \<or> parent \<in> set seen)" and "map_of index parent = Some p"
  then show "((hard_start, index, p, result', parent # seen), hard_start, index, current, result, seen)
      \<in> measure (\<lambda>(_, index, _, _, seen). card (fst ` set index - set seen))"
    using unseen_decreases[of index parent p seen] by simp
qed simp

definition effective_dependencies :: "graph_issue \<Rightarrow> (string \<times> graph_issue) list \<Rightarrow> bool \<Rightarrow> string list" where
  "effective_dependencies i index hard_start = effective_loop hard_start index i [] []"

section \<open>Integration order\<close>

definition resolve :: "(string \<times> string) list \<Rightarrow> string \<Rightarrow> string" where
  "resolve aliases s = (case map_of aliases s of None \<Rightarrow> s | Some c \<Rightarrow> c)"

definition named_issues :: "(string \<times> graph_issue) list \<Rightarrow> graph_issue list" where
  "named_issues index = filter (\<lambda>i. canonical_id i \<noteq> []) (map snd index)"

definition unique_issues :: "(string \<times> graph_issue) list \<Rightarrow> (string \<times> graph_issue) list" where
  "unique_issues index = fold (\<lambda>i. put (canonical_id i) i) (named_issues index) []"

definition index_aliases :: "(string \<times> graph_issue) list \<Rightarrow> (string \<times> string) list" where
  "index_aliases index = fold (\<lambda>i. put_all (issue_aliases i) (canonical_id i)) (named_issues index) []"

definition canonical_ref :: "(string \<times> graph_issue) list \<Rightarrow> blocker_ref \<Rightarrow> string" where
  "canonical_ref index r = resolve (index_aliases index) (ref_identifier r)"

text \<open>\<open>issues_by_id.get(parent_alias) or unique_issues.get(parent_id)\<close>.\<close>

definition parent_issue :: "(string \<times> graph_issue) list \<Rightarrow> string \<Rightarrow> graph_issue option" where
  "parent_issue index a = (case map_of index a of Some p \<Rightarrow> Some p
     | None \<Rightarrow> map_of (unique_issues index) (resolve (index_aliases index) a))"

function descends_loop :: "(string \<times> graph_issue) list \<Rightarrow> string \<Rightarrow> graph_issue \<Rightarrow> string list \<Rightarrow> bool" where
  "descends_loop index ancestor_id current visited = (
     let parent_id = resolve (index_aliases index) (parent_alias current)
     in if parent_alias current = [] then False
        else if parent_id \<in> set visited then False
        else if parent_id = ancestor_id then True
        else (case parent_issue index (parent_alias current) of None \<Rightarrow> False
          | Some p \<Rightarrow> descends_loop index ancestor_id p (parent_id # visited)))"
  by pat_completeness auto

definition parent_ids :: "(string \<times> graph_issue) list \<Rightarrow> string set" where
  "parent_ids index = resolve (index_aliases index) ` fst ` set index \<union> fst ` set (unique_issues index)"

lemma parent_ids_decrease:
  assumes "parent_issue index a = Some p" and "resolve (index_aliases index) a \<notin> set seen"
  shows "card (parent_ids index - set (resolve (index_aliases index) a # seen)) < card (parent_ids index - set seen)"
proof (rule psubset_card_mono)
  have "resolve (index_aliases index) a \<in> parent_ids index"
  proof (cases "map_of index a")
    case None
    then have "map_of (unique_issues index) (resolve (index_aliases index) a) = Some p"
      using assms(1) by (simp add: parent_issue_def)
    then show ?thesis unfolding parent_ids_def by (force dest: map_of_SomeD)
  next
    case (Some q)
    then show ?thesis unfolding parent_ids_def by (force dest: map_of_SomeD)
  qed
  then show "parent_ids index - set (resolve (index_aliases index) a # seen) \<subset> parent_ids index - set seen"
    using assms(2) by auto
qed (simp add: parent_ids_def)

termination descends_loop
proof (relation "measure (\<lambda>(index, _, _, visited). card (parent_ids index - set visited))")
  fix index :: "(string \<times> graph_issue) list" and ancestor_id parent_id :: string and current p :: graph_issue
    and visited :: "string list"
  assume "parent_id = resolve (index_aliases index) (parent_alias current)" and "parent_id \<notin> set visited"
    and "parent_issue index (parent_alias current) = Some p"
  then show "((index, ancestor_id, p, parent_id # visited), index, ancestor_id, current, visited)
      \<in> measure (\<lambda>(index, _, _, visited). card (parent_ids index - set visited))"
    using parent_ids_decrease[of index "parent_alias current" p visited] by simp
qed simp

definition is_descendant :: "(string \<times> graph_issue) list \<Rightarrow> graph_issue \<Rightarrow> string \<Rightarrow> bool" where
  "is_descendant index candidate ancestor_id = (
     let candidate_project = name_text [gi_project_id candidate];
         ancestor_project = (case map_of (unique_issues index) ancestor_id of None \<Rightarrow> []
           | Some a \<Rightarrow> name_text [gi_project_id a])
     in if candidate_project \<noteq> [] \<and> ancestor_project \<noteq> [] \<and> candidate_project \<noteq> ancestor_project then False
        else descends_loop index ancestor_id candidate [])"

definition container_rollup :: "(string \<times> graph_issue) list \<Rightarrow> string \<Rightarrow> string \<Rightarrow> bool" where
  "container_rollup index current_id dependency = (case map_of (unique_issues index) dependency of
       None \<Rightarrow> False
     | Some i \<Rightarrow> dependency = current_id \<or> is_descendant index i current_id)"

definition add_dependency :: "(string \<times> graph_issue) list \<Rightarrow> string \<Rightarrow> string \<Rightarrow> blocker_ref \<Rightarrow> string list \<Rightarrow> string list" where
  "add_dependency index issue_id current_id r result = (
     let dependency = canonical_ref index r
     in if dependency = [] \<or> dependency = issue_id then result
        else if container_rollup index current_id dependency \<or> dependency \<in> set result then result
        else result @ [dependency])"

function integration_loop ::
  "(string \<times> graph_issue) list \<Rightarrow> string \<Rightarrow> graph_issue \<Rightarrow> string list \<Rightarrow> string list \<Rightarrow> string list" where
  "integration_loop index issue_id current result seen = (
     let result' = fold (add_dependency index issue_id (canonical_id current)) (gi_blocked_by current) result;
         parent_id = resolve (index_aliases index) (parent_alias current)
     in if parent_alias current = [] then result'
        else if parent_id \<in> set seen then result'
        else (case parent_issue index (parent_alias current) of None \<Rightarrow> result'
          | Some p \<Rightarrow> integration_loop index issue_id p result' (parent_id # seen)))"
  by pat_completeness auto

termination integration_loop
proof (relation "measure (\<lambda>(index, _, _, _, seen). card (parent_ids index - set seen))")
  fix index :: "(string \<times> graph_issue) list" and issue_id parent_id :: string and current p :: graph_issue
    and result result' seen :: "string list"
  assume "parent_id = resolve (index_aliases index) (parent_alias current)" and "parent_id \<notin> set seen"
    and "parent_issue index (parent_alias current) = Some p"
  then show "((index, issue_id, p, result', parent_id # seen), index, issue_id, current, result, seen)
      \<in> measure (\<lambda>(index, _, _, _, seen). card (parent_ids index - set seen))"
    using parent_ids_decrease[of index "parent_alias current" p seen] by simp
qed simp

definition integration_dependencies :: "graph_issue \<Rightarrow> (string \<times> graph_issue) list \<Rightarrow> string list" where
  "integration_dependencies i index = (
     if canonical_id i = [] then [] else integration_loop index (canonical_id i) i [] [])"

section \<open>The combined graph\<close>

type_synonym adjacency = "(string \<times> string list) list"

definition setdefault :: "string \<Rightarrow> adjacency \<Rightarrow> adjacency" where
  "setdefault k d = (case map_of d k of None \<Rightarrow> put k [] d | Some _ \<Rightarrow> d)"

definition add_edge :: "string \<Rightarrow> string \<Rightarrow> adjacency \<Rightarrow> adjacency" where
  "add_edge a b d = put a (case map_of d a of None \<Rightarrow> [b] | Some bs \<Rightarrow> List.insert b bs) d"

definition all_refs :: "graph_issue \<Rightarrow> blocker_ref list" where
  "all_refs i = gi_blocked_by i @ gi_start_blocked_by i"

definition combined_dependency_adjacency :: "graph_issue list \<Rightarrow> adjacency \<times> (string \<times> string) list" where
  "combined_dependency_adjacency issues = (
     let named = filter (\<lambda>i. canonical_id i \<noteq> []) issues;
         nodes = fold (\<lambda>i. setdefault (canonical_id i)) named [];
         aliases = fold (\<lambda>i. put_all (issue_aliases i) (canonical_id i)) named []
     in (fold (\<lambda>i d. fold (\<lambda>r d. if ref_identifier r = [] then d
            else add_edge (canonical_id i) (resolve aliases (ref_identifier r)) d) (all_refs i) d) named nodes,
         aliases))"

section \<open>The search for a cycle\<close>

definition targets :: "adjacency \<Rightarrow> string \<Rightarrow> string list" where
  "targets d n = (case map_of d n of None \<Rightarrow> [] | Some bs \<Rightarrow> sort (remdups bs))"

type_synonym frontier = "(string \<times> string list) list"

text \<open>The dependencies of one node: the cycle that one of them closes, or the new frontier and visited set.\<close>

fun scan :: "string \<Rightarrow> string list \<Rightarrow> string list \<Rightarrow> frontier \<Rightarrow> string list \<Rightarrow> string list + frontier \<times> string list" where
  "scan blocked path [] queue visited = Inr (queue, visited)"
| "scan blocked path (d # ds) queue visited =
     (if d = blocked then Inl (blocked # path @ [d])
      else if d \<in> set visited then scan blocked path ds queue visited
      else scan blocked path ds (queue @ [(d, path @ [d])]) (d # visited))"

definition graph_nodes :: "adjacency \<Rightarrow> string set" where
  "graph_nodes d = (\<Union>n \<in> fst ` set d. set (targets d n))"

lemma finite_graph_nodes [simp]: "finite (graph_nodes d)"
  by (simp add: graph_nodes_def)

lemma targets_nodes: "set (targets d n) \<subseteq> graph_nodes d"
proof (cases "map_of d n")
  case (Some bs)
  then have "n \<in> fst ` set d" by (force dest: map_of_SomeD)
  then show ?thesis by (auto simp: graph_nodes_def)
qed (simp add: targets_def)

lemma scan_progress:
  "scan blocked path ds queue visited = Inr (queue', visited') \<Longrightarrow> set ds \<subseteq> N \<Longrightarrow>
     queue' = queue \<and> visited' = visited \<or> (\<exists>d \<in> N - set visited. d \<in> set visited') \<and> set visited \<subseteq> set visited'"
proof (induction blocked path ds queue visited rule: scan.induct)
  case (2 blocked path d ds queue visited)
  show ?case
  proof (cases "d \<in> set visited")
    case True
    then show ?thesis using 2 by (simp split: if_splits)
  next
    case False
    have "d \<noteq> blocked" and rest: "scan blocked path ds (queue @ [(d, path @ [d])]) (d # visited) = Inr (queue', visited')"
      using 2(3) False by (simp_all split: if_splits)
    then have "set (d # visited) \<subseteq> set visited'" using 2(2)[OF _ False rest] 2(4) by auto
    then show ?thesis using False 2(4) by auto
  qed
qed simp

function search :: "adjacency \<Rightarrow> string \<Rightarrow> frontier \<Rightarrow> string list \<Rightarrow> string list option" where
  "search d blocked [] visited = None"
| "search d blocked ((node, path) # queue) visited = (
     case scan blocked path (targets d node) queue visited of
       Inl cycle \<Rightarrow> Some cycle
     | Inr (queue', visited') \<Rightarrow> search d blocked queue' visited')"
  by pat_completeness auto

termination search
proof (relation "measures [\<lambda>(d, _, _, visited). card (graph_nodes d - set visited), \<lambda>(_, _, queue, _). length queue]")
  fix d blocked node path queue visited r queue' visited'
  assume "scan blocked path (targets d node) queue visited = Inr r" and "(queue', visited') = r"
  then have "queue' = queue \<and> visited' = visited
      \<or> (\<exists>n \<in> graph_nodes d - set visited. n \<in> set visited') \<and> set visited \<subseteq> set visited'"
    using scan_progress[OF _ targets_nodes] by simp
  then consider "queue' = queue" "visited' = visited"
    | "graph_nodes d - set visited' \<subset> graph_nodes d - set visited" by blast
  then show "((d, blocked, queue', visited'), d, blocked, (node, path) # queue, visited)
      \<in> measures [\<lambda>(d, _, _, visited). card (graph_nodes d - set visited), \<lambda>(_, _, queue, _). length queue]"
    by cases (auto intro: psubset_card_mono)
qed simp

definition dependency_cycle_for_new_edge :: "graph_issue list \<Rightarrow> string \<Rightarrow> string \<Rightarrow> string list option" where
  "dependency_cycle_for_new_edge issues blocked_identifier blocker_identifier = (
     let (adj, aliases) = combined_dependency_adjacency issues;
         blocked = resolve aliases blocked_identifier; blocker = resolve aliases blocker_identifier
     in if blocked = blocker then Some [blocked, blocked]
        else search (setdefault blocker (setdefault blocked adj)) blocked [(blocker, [blocker])] [blocker])"

declare effective_loop.simps [simp del] descends_loop.simps [simp del] integration_loop.simps [simp del]

section \<open>The declared edges\<close>

text \<open>What the issues say: a named issue depends on every issue it names, by canonical name where it has one.\<close>

definition alias_table :: "graph_issue list \<Rightarrow> (string \<times> string) list" where
  "alias_table issues = snd (combined_dependency_adjacency issues)"

definition declared_edges :: "graph_issue list \<Rightarrow> (string \<times> string) set" where
  "declared_edges issues = {(canonical_id i, resolve (alias_table issues) (ref_identifier r)) | i r.
     i \<in> set issues \<and> canonical_id i \<noteq> [] \<and> r \<in> set (all_refs i) \<and> ref_identifier r \<noteq> []}"

definition edges_of :: "adjacency \<Rightarrow> (string \<times> string) set" where
  "edges_of d = {(a, b). \<exists>bs. map_of d a = Some bs \<and> b \<in> set bs}"

lemma edges_targets: "(a, b) \<in> edges_of d \<longleftrightarrow> b \<in> set (targets d a)"
  by (cases "map_of d a") (simp_all add: edges_of_def targets_def)

lemma edges_setdefault [simp]: "edges_of (setdefault k d) = edges_of d"
  by (auto simp: edges_of_def setdefault_def split: option.splits if_splits)

lemma edges_add [simp]: "edges_of (add_edge a b d) = insert (a, b) (edges_of d)"
  by (auto simp: edges_of_def add_edge_def split: option.splits if_splits)

lemma edges_fold_setdefault: "edges_of (fold (\<lambda>i. setdefault (k i)) is d) = edges_of d"
  by (induction "is" arbitrary: d) simp_all

lemma edges_fold_refs:
  "edges_of (fold (\<lambda>r d. if ref_identifier r = [] then d else add_edge a (f r) d) rs d)
    = edges_of d \<union> {(a, f r) | r. r \<in> set rs \<and> ref_identifier r \<noteq> []}"
  by (induction rs arbitrary: d) auto

lemma edges_fold_issues:
  "edges_of (fold (\<lambda>i d. fold (\<lambda>r d. if ref_identifier r = [] then d else add_edge (canonical_id i) (f r) d)
      (all_refs i) d) is d)
    = edges_of d \<union> {(canonical_id i, f r) | i r. i \<in> set is \<and> r \<in> set (all_refs i) \<and> ref_identifier r \<noteq> []}"
  by (induction "is" arbitrary: d) (auto simp: edges_fold_refs)

lemma adjacency_edges: "edges_of (fst (combined_dependency_adjacency issues)) = declared_edges issues"
  unfolding combined_dependency_adjacency_def alias_table_def declared_edges_def Let_def fst_conv snd_conv
    edges_fold_issues edges_fold_setdefault
  by (auto simp: edges_of_def)

section \<open>The search is exact\<close>

text \<open>A path of edges, as the search builds it.\<close>

fun path_from :: "(string \<times> string) set \<Rightarrow> string \<Rightarrow> string list \<Rightarrow> string \<Rightarrow> bool" where
  "path_from r a [] b \<longleftrightarrow> False"
| "path_from r a [x] b \<longleftrightarrow> x = a \<and> x = b"
| "path_from r a (x # y # xs) b \<longleftrightarrow> x = a \<and> (x, y) \<in> r \<and> path_from r y (y # xs) b"

lemma path_from_snoc: "path_from r a xs b \<Longrightarrow> (b, c) \<in> r \<Longrightarrow> path_from r a (xs @ [c]) c"
  by (induction r a xs b rule: path_from.induct) auto

lemma path_from_rtrancl: "path_from r a xs b \<Longrightarrow> (a, b) \<in> r\<^sup>*"
  by (induction r a xs b rule: path_from.induct) (auto intro: converse_rtrancl_into_rtrancl)

lemma scan_cycle:
  "scan blocked path ds queue visited = Inl c \<Longrightarrow> blocked \<in> set ds \<and> c = blocked # path @ [blocked]"
  by (induction blocked path ds queue visited rule: scan.induct) (auto split: if_splits)

lemma scan_frontier:
  assumes "scan blocked path ds queue visited = Inr (queue', visited')"
  shows "blocked \<notin> set ds \<and> set ds \<subseteq> set visited' \<and> set queue \<subseteq> set queue' \<and> set visited \<subseteq> set visited'
    \<and> set queue' \<subseteq> set queue \<union> {(d, path @ [d]) | d. d \<in> set ds}
    \<and> set visited' \<subseteq> set visited \<union> (fst ` set queue' \<inter> set ds)"
  using assms
proof (induction blocked path ds queue visited rule: scan.induct)
  case (2 blocked path d ds queue visited)
  show ?case
  proof (cases "d \<in> set visited")
    case True
    then have "d \<noteq> blocked" and rest: "scan blocked path ds queue visited = Inr (queue', visited')"
      using 2(3) by (simp_all split: if_splits)
    then show ?thesis using 2(1)[OF _ True rest] True by auto
  next
    case False
    then have "d \<noteq> blocked" and rest: "scan blocked path ds (queue @ [(d, path @ [d])]) (d # visited) = Inr (queue', visited')"
      using 2(3) by (simp_all split: if_splits)
    note ih = 2(2)[OF \<open>d \<noteq> blocked\<close> False rest]
    have "set queue' \<subseteq> set queue \<union> {(d', path @ [d']) | d'. d' \<in> set (d # ds)}" using ih by auto
    moreover have "(d, path @ [d]) \<in> set queue'" using ih by auto
    then have "d \<in> fst ` set queue'" by force
    ultimately show ?thesis using ih \<open>d \<noteq> blocked\<close> by auto
  qed
qed simp

lemma search_sound:
  assumes "search d blocked queue visited = Some c"
    and "\<forall>(n, path) \<in> set queue. path_from (edges_of d) start path n"
  shows "\<exists>path. path_from (edges_of d) start path blocked \<and> c = blocked # path"
  using assms
proof (induction d blocked queue visited rule: search.induct)
  case (2 d blocked node path queue visited)
  have p: "path_from (edges_of d) start path node" using 2(3) by simp
  have step: "path_from (edges_of d) start (path @ [t]) t" if "t \<in> set (targets d node)" for t
    using path_from_snoc[OF p] that by (simp add: edges_targets)
  show ?case
  proof (cases "scan blocked path (targets d node) queue visited")
    case (Inl c')
    then show ?thesis using 2(2) scan_cycle[OF Inl] step by auto
  next
    case (Inr r)
    obtain queue' visited' where r: "r = (queue', visited')" by fastforce
    have "\<forall>(n, path) \<in> set queue'. path_from (edges_of d) start path n"
      using scan_frontier[OF Inr[unfolded r]] 2(3) step by fastforce
    then show ?thesis using 2(1)[OF Inr r[symmetric]] 2(2) Inr r by simp
  qed
qed simp

lemma search_complete:
  assumes "search d blocked queue visited = None"
    and "\<forall>n \<in> set visited. n \<in> fst ` set queue \<or> (set (targets d n) \<subseteq> set visited \<and> blocked \<notin> set (targets d n))"
    and "fst ` set queue \<subseteq> set visited"
  shows "\<exists>closed. set visited \<subseteq> closed \<and> (\<forall>n \<in> closed. set (targets d n) \<subseteq> closed \<and> blocked \<notin> set (targets d n))"
  using assms
proof (induction d blocked queue visited rule: search.induct)
  case (1 d blocked visited)
  then show ?case by (intro exI[of _ "set visited"]) auto
next
  case (2 d blocked node path queue visited)
  obtain queue' visited' where r: "scan blocked path (targets d node) queue visited = Inr (queue', visited')"
    and rest: "search d blocked queue' visited' = None"
    using 2(2) by (auto split: sum.splits)
  note f = scan_frontier[OF r]
  have "n \<in> fst ` set queue' \<or> (set (targets d n) \<subseteq> set visited' \<and> blocked \<notin> set (targets d n))"
    if n: "n \<in> set visited'" for n
  proof (cases "n \<in> set visited")
    case True
    then consider "n = node" | "n \<in> fst ` set queue" | "set (targets d n) \<subseteq> set visited" "blocked \<notin> set (targets d n)"
      using 2(3) by auto
    then show ?thesis by cases (use f in \<open>blast+\<close>)
  next
    case False
    then show ?thesis using n f by auto
  qed
  moreover have "fst ` set queue' \<subseteq> set visited'"
  proof
    fix n assume "n \<in> fst ` set queue'"
    then obtain q where "(n, q) \<in> set queue'" by auto
    then have "(n, q) \<in> set queue \<or> n \<in> set (targets d node)" using f by blast
    moreover have "set queue \<subseteq> set queue \<and> fst ` set queue \<subseteq> set visited" using 2(4) by simp
    ultimately have "n \<in> set visited \<or> n \<in> set (targets d node)" by force
    then show "n \<in> set visited'" using f by blast
  qed
  ultimately have "\<exists>closed. set visited' \<subseteq> closed
      \<and> (\<forall>n \<in> closed. set (targets d n) \<subseteq> closed \<and> blocked \<notin> set (targets d n))"
    by (intro 2(1)[OF r refl rest]) blast
  then show ?case using f by (meson order.trans)
qed

lemma cycle_check:
  fixes issues :: "graph_issue list" and x y :: string
  defines "blocked \<equiv> resolve (alias_table issues) x" and "blocker \<equiv> resolve (alias_table issues) y"
  shows "dependency_cycle_for_new_edge issues x y = (if blocked = blocker then Some [blocked, blocked]
    else search (setdefault blocker (setdefault blocked (fst (combined_dependency_adjacency issues)))) blocked
      [(blocker, [blocker])] [blocker])"
  unfolding blocked_def blocker_def alias_table_def dependency_cycle_for_new_edge_def
  by (simp only: Let_def split_beta)

lemma search_finds:
  assumes "search d blocked [(blocker, [blocker])] [blocker] = None" and "blocked \<noteq> blocker"
  shows "(blocker, blocked) \<notin> (edges_of d)\<^sup>*"
proof
  assume path: "(blocker, blocked) \<in> (edges_of d)\<^sup>*"
  obtain closed where b: "blocker \<in> closed"
    and c: "\<forall>n \<in> closed. set (targets d n) \<subseteq> closed \<and> blocked \<notin> set (targets d n)"
    using search_complete[OF assms(1)] by auto
  have "n \<in> closed \<and> n \<noteq> blocked" if "(blocker, n) \<in> (edges_of d)\<^sup>*" for n
    using that
  proof induction
    case base
    then show ?case using b assms(2) by simp
  next
    case (step n m)
    then have "m \<in> set (targets d n)" by (simp add: edges_targets)
    then show ?case using c step.IH by blast
  qed
  then show False using path by blast
qed

lemma cycle_check_case:
  "case dependency_cycle_for_new_edge issues x y of
     None \<Rightarrow> (resolve (alias_table issues) y, resolve (alias_table issues) x) \<notin> (declared_edges issues)\<^sup>*
   | Some c \<Rightarrow> \<exists>path. c = resolve (alias_table issues) x # path
       \<and> path_from (declared_edges issues) (resolve (alias_table issues) y) path (resolve (alias_table issues) x)"
proof -
  let ?x = "resolve (alias_table issues) x" and ?y = "resolve (alias_table issues) y"
  let ?d = "setdefault ?y (setdefault ?x (fst (combined_dependency_adjacency issues)))"
  have e: "edges_of ?d = declared_edges issues" by (simp add: adjacency_edges)
  show ?thesis
  proof (cases "?x = ?y")
    case True
    then show ?thesis by (simp add: cycle_check)
  next
    case ne: False
    then have s: "dependency_cycle_for_new_edge issues x y = search ?d ?x [(?y, [?y])] [?y]"
      by (simp add: cycle_check del: search.simps)
    show ?thesis
    proof (cases "search ?d ?x [(?y, [?y])] [?y]")
      case None
      then show ?thesis using search_finds[OF None ne] s e by simp
    next
      case (Some c)
      then have "\<exists>path. path_from (edges_of ?d) ?y path ?x \<and> c = ?x # path"
        by (intro search_sound[OF Some]) simp
      then show ?thesis unfolding s Some e by auto
    qed
  qed
qed

lemma cycle_check_iff: "dependency_cycle_for_new_edge issues x y = None
    \<longleftrightarrow> (resolve (alias_table issues) y, resolve (alias_table issues) x) \<notin> (declared_edges issues)\<^sup>*"
  using cycle_check_case[where issues = issues and x = x and y = y] path_from_rtrancl by (auto split: option.splits)

text \<open>C29. The check of a new dependency edge is exact: when it answers no cycle, the blocker does not reach
  the blocked issue over the declared finish-order and hard-start edges; when it answers one, what it names is
  the blocked issue followed by a path of declared edges from the blocker back to it.\<close>

theorem cycle_check_exact:
  "case dependency_cycle_for_new_edge issues x y of
     None \<Rightarrow> (resolve (alias_table issues) y, resolve (alias_table issues) x) \<notin> (declared_edges issues)\<^sup>*
   | Some c \<Rightarrow> \<exists>path. c = resolve (alias_table issues) x # path
       \<and> path_from (declared_edges issues) (resolve (alias_table issues) y) path (resolve (alias_table issues) x)"
  by (rule cycle_check_case)


section \<open>Inherited dependencies\<close>

text \<open>The parent relation the loops follow.\<close>

definition parent_rel :: "(string \<times> graph_issue) list \<Rightarrow> (graph_issue \<times> graph_issue) set" where
  "parent_rel index = {(c, p). parent_alias c \<noteq> [] \<and> map_of index (parent_alias c) = Some p}"

definition named_refs :: "bool \<Rightarrow> graph_issue \<Rightarrow> string set" where
  "named_refs hard_start i = ref_identifier ` set (refs_of hard_start i) - {[]}"

lemma set_add_refs: "set (add_refs rs result) = set result \<union> (ref_identifier ` set rs - {[]})"
  unfolding add_refs_def by (induction rs arbitrary: result) (auto simp: add_new_def)

lemma distinct_add_refs: "distinct result \<Longrightarrow> distinct (add_refs rs result)"
  unfolding add_refs_def by (induction rs arbitrary: result) (auto simp: add_new_def)

lemma effective_loop_set:
  assumes "\<And>p. p \<in> D \<Longrightarrow> named_refs hard_start p \<subseteq> set result"
    and "\<And>p q. p \<in> D \<Longrightarrow> (p, q) \<in> parent_rel index \<Longrightarrow> q \<in> insert current D"
    and "\<And>k p. k \<in> set seen \<Longrightarrow> map_of index k = Some p \<Longrightarrow> p \<in> insert current D"
  shows "set (effective_loop hard_start index current result seen)
    = set result \<union> (\<Union>a \<in> (parent_rel index)\<^sup>* `` {current}. named_refs hard_start a)"
  using assms
proof (induction hard_start index current result seen arbitrary: D rule: effective_loop.induct)
  case (1 hard_start index current result seen)
  let ?r = "add_refs (refs_of hard_start current) result" and ?a = "parent_alias current"
  let ?up = "\<lambda>i. (parent_rel index)\<^sup>* `` {i}"
  have r: "set ?r = set result \<union> named_refs hard_start current" by (simp add: set_add_refs named_refs_def)
  have stop: "set ?r = set result \<union> (\<Union>a \<in> ?up current. named_refs hard_start a)"
    if closed: "\<And>q. (current, q) \<in> parent_rel index \<Longrightarrow> q \<in> insert current D"
  proof -
    have "a \<in> insert current D" if "(current, a) \<in> (parent_rel index)\<^sup>*" for a
      using that by induction (use closed 1(3) in blast)+
    then have "(\<Union>a \<in> ?up current. named_refs hard_start a) \<subseteq> set ?r" using r 1(2) by blast
    then show ?thesis using r by blast
  qed
  show ?case
  proof (cases "?a = [] \<or> ?a \<in> set seen \<or> map_of index ?a = None")
    case True
    then have "(current, q) \<in> parent_rel index \<Longrightarrow> q \<in> insert current D" for q
      using 1(4) by (auto simp: parent_rel_def)
    from stop[OF this] show ?thesis
      using True by (subst effective_loop.simps) (auto simp: Let_def)
  next
    case False
    then obtain p where p: "map_of index ?a = Some p" by blast
    then have edge: "(current, q) \<in> parent_rel index \<longleftrightarrow> q = p" for q using False by (auto simp: parent_rel_def)
    have "set (effective_loop hard_start index p ?r (?a # seen))
      = set ?r \<union> (\<Union>a \<in> ?up p. named_refs hard_start a)"
    proof (rule 1(1)[OF refl refl _ p, of "insert current D"])
      show "named_refs hard_start q \<subseteq> set ?r" if "q \<in> insert current D" for q using that r 1(2) by blast
      show "q' \<in> insert p (insert current D)" if "q \<in> insert current D" "(q, q') \<in> parent_rel index" for q q'
        using that edge 1(3) by blast
      show "q \<in> insert p (insert current D)" if "k \<in> set (?a # seen)" "map_of index k = Some q" for k q
        using that p 1(4) by auto
    qed (use False in blast)
    moreover have "?up current = insert current (?up p)"
      using edge by (auto elim: converse_rtranclE intro: converse_rtrancl_into_rtrancl)
    ultimately show ?thesis using False p r by (subst effective_loop.simps) (auto simp: Let_def)
  qed
qed

lemma effective_loop_distinct: "distinct result \<Longrightarrow> distinct (effective_loop hard_start index current result seen)"
proof (induction hard_start index current result seen rule: effective_loop.induct)
  case (1 hard_start index current result seen)
  then show ?case
    by (subst effective_loop.simps) (auto simp: Let_def distinct_add_refs split: option.splits)
qed

text \<open>C31. The effective dependencies of an issue are exactly what it or one of its ancestors names, each
  once, although the walk stops at the first parent it has seen before.\<close>

theorem effective_dependencies_exact:
  "set (effective_dependencies i index hard_start)
      = (\<Union>a \<in> (parent_rel index)\<^sup>* `` {i}. named_refs hard_start a)
    \<and> distinct (effective_dependencies i index hard_start)"
  using effective_loop_set[of "{}" hard_start "[]" index i "[]"] effective_loop_distinct[of "[]"]
  by (simp add: effective_dependencies_def)

section \<open>Integration dependencies\<close>

definition walk_rel :: "(string \<times> graph_issue) list \<Rightarrow> (graph_issue \<times> graph_issue) set" where
  "walk_rel index = {(c, p). parent_alias c \<noteq> [] \<and> parent_issue index (parent_alias c) = Some p}"

text \<open>What one issue contributes to the finish order of another.\<close>

definition delivery_refs :: "(string \<times> graph_issue) list \<Rightarrow> string \<Rightarrow> graph_issue \<Rightarrow> string set" where
  "delivery_refs index issue_id a = {d \<in> canonical_ref index ` set (gi_blocked_by a).
     d \<noteq> [] \<and> d \<noteq> issue_id \<and> \<not> container_rollup index (canonical_id a) d}"

lemma set_add_dependencies:
  "set (fold (add_dependency index issue_id (canonical_id a)) (gi_blocked_by a) result)
    = set result \<union> delivery_refs index issue_id a"
proof -
  have "set (fold (add_dependency index issue_id (canonical_id a)) rs result) = set result
      \<union> {d \<in> canonical_ref index ` set rs. d \<noteq> [] \<and> d \<noteq> issue_id \<and> \<not> container_rollup index (canonical_id a) d}" for rs
    by (induction rs arbitrary: result) (auto simp: add_dependency_def Let_def)
  then show ?thesis by (simp add: delivery_refs_def)
qed

lemma distinct_add_dependencies:
  "distinct result \<Longrightarrow> distinct (fold (add_dependency index issue_id current_id) rs result)"
  by (induction rs arbitrary: result) (auto simp: add_dependency_def Let_def)

lemma integration_loop_bounds:
  "set result \<union> delivery_refs index issue_id current \<subseteq> set (integration_loop index issue_id current result seen)
    \<and> set (integration_loop index issue_id current result seen)
      \<subseteq> set result \<union> (\<Union>a \<in> (walk_rel index)\<^sup>* `` {current}. delivery_refs index issue_id a)
    \<and> (distinct result \<longrightarrow> distinct (integration_loop index issue_id current result seen))"
proof (induction index issue_id current result seen rule: integration_loop.induct)
  case (1 index issue_id current result seen)
  let ?r = "fold (add_dependency index issue_id (canonical_id current)) (gi_blocked_by current) result"
  let ?a = "parent_alias current"
  let ?id = "resolve (index_aliases index) ?a"
  note r = set_add_dependencies[of index issue_id current result]
  show ?case
  proof (cases "?a = [] \<or> ?id \<in> set seen \<or> parent_issue index ?a = None")
    case True
    then have "integration_loop index issue_id current result seen = ?r"
      by (subst integration_loop.simps) (auto simp: Let_def)
    then show ?thesis using r distinct_add_dependencies[of result] by auto
  next
    case False
    then obtain p where p: "parent_issue index ?a = Some p" by blast
    then have "(current, p) \<in> walk_rel index" using False by (simp add: walk_rel_def)
    then have up: "(walk_rel index)\<^sup>* `` {p} \<subseteq> (walk_rel index)\<^sup>* `` {current}"
      by (auto intro: converse_rtrancl_into_rtrancl)
    have "integration_loop index issue_id current result seen
      = integration_loop index issue_id p ?r (?id # seen)"
      using False p by (subst integration_loop.simps) (simp add: Let_def)
    define L where "L = integration_loop index issue_id p ?r (?id # seen)"
    define up_p where "up_p = (\<Union>a \<in> (walk_rel index)\<^sup>* `` {p}. delivery_refs index issue_id a)"
    define up_c where "up_c = (\<Union>a \<in> (walk_rel index)\<^sup>* `` {current}. delivery_refs index issue_id a)"
    have "up_p \<subseteq> up_c" and "delivery_refs index issue_id current \<subseteq> up_c"
      using up unfolding up_p_def up_c_def by blast+
    moreover have "set ?r \<union> delivery_refs index issue_id p \<subseteq> set L" "set L \<subseteq> set ?r \<union> up_p"
      "distinct ?r \<longrightarrow> distinct L"
      using 1[OF refl refl _ _ p] False unfolding L_def up_p_def by blast+
    moreover have "distinct result \<longrightarrow> distinct ?r" by (simp add: distinct_add_dependencies)
    ultimately have "set result \<union> delivery_refs index issue_id current \<subseteq> set L
        \<and> set L \<subseteq> set result \<union> up_c \<and> (distinct result \<longrightarrow> distinct L)"
      unfolding r by blast
    then show ?thesis using \<open>integration_loop index issue_id current result seen = _\<close>
      unfolding L_def up_c_def by simp
  qed
qed

lemma descends_sound: "descends_loop index ancestor_id c visited
    \<Longrightarrow> \<exists>a. (c, a) \<in> (walk_rel index)\<^sup>* \<and> parent_alias a \<noteq> [] \<and> resolve (index_aliases index) (parent_alias a) = ancestor_id"
proof (induction index ancestor_id c visited rule: descends_loop.induct)
  case (1 index ancestor_id c visited)
  show ?case
  proof (cases "resolve (index_aliases index) (parent_alias c) = ancestor_id")
    case True
    then show ?thesis using 1(2) by (subst (asm) descends_loop.simps) (auto simp: Let_def split: if_splits)
  next
    case False
    then obtain p where p: "parent_alias c \<noteq> []" "resolve (index_aliases index) (parent_alias c) \<notin> set visited"
      "parent_issue index (parent_alias c) = Some p"
      "descends_loop index ancestor_id p (resolve (index_aliases index) (parent_alias c) # visited)"
      using 1(2) by (subst (asm) descends_loop.simps) (auto simp: Let_def split: if_splits option.splits)
    then have "(c, p) \<in> walk_rel index" by (simp add: walk_rel_def)
    obtain a where a: "(p, a) \<in> (walk_rel index)\<^sup>*" "parent_alias a \<noteq> []"
      "resolve (index_aliases index) (parent_alias a) = ancestor_id"
      using 1(1)[OF refl p(1,2) False p(3,4)] by blast
    have "(c, a) \<in> (walk_rel index)\<^sup>*" using \<open>(c, p) \<in> walk_rel index\<close> a(1) by (rule converse_rtrancl_into_rtrancl)
    then show ?thesis using a by blast
  qed
qed

lemma child_is_rollup:
  assumes "map_of (unique_issues index) d = Some c" and "parent_alias c \<noteq> []"
    and "resolve (index_aliases index) (parent_alias c) = canonical_id a"
    and "map_of (unique_issues index) (canonical_id a) = Some a" and "gi_project_id c = gi_project_id a"
  shows "container_rollup index (canonical_id a) d"
  using assms by (auto simp: container_rollup_def is_descendant_def Let_def descends_loop.simps[of _ _ c])

text \<open>The integration order of a named issue: it keeps every outside dependency the issue itself
  declares, takes no other than those it or an ancestor declares outside its own container, never
  the issue itself, and each once.\<close>

theorem integration_dependencies_bounded:
  assumes "canonical_id i \<noteq> []"
  shows "delivery_refs index (canonical_id i) i \<subseteq> set (integration_dependencies i index)
    \<and> set (integration_dependencies i index)
      \<subseteq> (\<Union>a \<in> (walk_rel index)\<^sup>* `` {i}. delivery_refs index (canonical_id i) a)
    \<and> canonical_id i \<notin> set (integration_dependencies i index)
    \<and> distinct (integration_dependencies i index)"
proof -
  have "integration_dependencies i index = integration_loop index (canonical_id i) i [] []"
    using assms by (simp add: integration_dependencies_def)
  then show ?thesis using integration_loop_bounds[of "[]" index "canonical_id i" i "[]"]
    by (auto simp: delivery_refs_def)
qed

definition sample_issue :: "string \<Rightarrow> string option \<Rightarrow> string list \<Rightarrow> graph_issue" where
  "sample_issue name parent blockers = \<lparr>gi_id = name, gi_identifier = name, gi_state = ''Open'',
     gi_parent_id = parent, gi_project_id = None,
     gi_blocked_by = map (\<lambda>b. \<lparr>br_id = None, br_identifier = Some b\<rparr>) blockers, gi_start_blocked_by = []\<rparr>"

definition sample_tree :: "graph_issue list" where
  "sample_tree = [sample_issue ''E'' None [''X'', ''A''], sample_issue ''A'' (Some ''E'') [''B''],
     sample_issue ''B'' (Some ''E'') [], sample_issue ''X'' None []]"

lemma sample_tree_runs:
  "integration_dependencies (sample_issue ''A'' (Some ''E'') [''B'']) (issue_index sample_tree) = [''B'', ''X'']"
  by code_simp

theorem integration_dependencies_bounded_witness:
  "delivery_refs (issue_index sample_tree) ''A'' (sample_issue ''A'' (Some ''E'') [''B'']) \<subseteq> {''B'', ''X''}
    \<and> distinct (integration_dependencies (sample_issue ''A'' (Some ''E'') [''B'']) (issue_index sample_tree))"
proof -
  have "canonical_id (sample_issue ''A'' (Some ''E'') [''B'']) = ''A''" by code_simp
  then show ?thesis
    using integration_dependencies_bounded[of "sample_issue ''A'' (Some ''E'') [''B'']" "issue_index sample_tree"]
    by (simp add: sample_tree_runs)
qed

section \<open>Adding accepted edges\<close>

definition with_blocker :: "blocker_ref \<Rightarrow> graph_issue \<Rightarrow> graph_issue" where
  "with_blocker r i = i\<lparr>gi_blocked_by := gi_blocked_by i @ [r]\<rparr>"

lemma with_blocker_names [simp]: "canonical_id (with_blocker r i) = canonical_id i"
  "issue_aliases (with_blocker r i) = issue_aliases i" "set (all_refs (with_blocker r i)) = insert r (set (all_refs i))"
  by (auto simp: with_blocker_def canonical_id_def issue_aliases_def all_refs_def)

lemma alias_table_eq: "alias_table issues = fold (\<lambda>i. put_all (issue_aliases i) (canonical_id i))
    (filter (\<lambda>i. canonical_id i \<noteq> []) issues) []"
  by (simp add: alias_table_def combined_dependency_adjacency_def Let_def)

lemma alias_table_with_blocker: "alias_table (xs @ with_blocker r i # ys) = alias_table (xs @ i # ys)"
  by (simp add: alias_table_eq)

definition issue_edges :: "(string \<times> string) list \<Rightarrow> graph_issue \<Rightarrow> (string \<times> string) list" where
  "issue_edges aliases i = map (\<lambda>r. (canonical_id i, resolve aliases (ref_identifier r)))
     (filter (\<lambda>r. ref_identifier r \<noteq> []) (all_refs i))"

lemma declared_edges_list: "declared_edges issues
    = set (concat (map (issue_edges (alias_table issues)) (filter (\<lambda>i. canonical_id i \<noteq> []) issues)))"
  by (auto simp: declared_edges_def issue_edges_def)

lemma declared_with_blocker:
  assumes "canonical_id i \<noteq> []" and "ref_identifier r \<noteq> []"
  shows "declared_edges (xs @ with_blocker r i # ys)
    = insert (canonical_id i, resolve (alias_table (xs @ i # ys)) (ref_identifier r)) (declared_edges (xs @ i # ys))"
proof -
  have "set (issue_edges t (with_blocker r i)) = insert (canonical_id i, resolve t (ref_identifier r)) (set (issue_edges t i))"
    for t using assms(2) by (auto simp: issue_edges_def)
  then show ?thesis using assms(1) by (auto simp: declared_edges_list alias_table_with_blocker)
qed

text \<open>C30. Adding a dependency the check accepts keeps the graph acyclic, for an issue whose own name is not
  shadowed by an alias of another issue.\<close>

theorem accepted_edge_keeps_acyclic:
  assumes "acyclic (declared_edges (xs @ i # ys))"
    and "canonical_id i \<noteq> []" and "ref_identifier r \<noteq> []"
    and "resolve (alias_table (xs @ i # ys)) (canonical_id i) = canonical_id i"
    and "dependency_cycle_for_new_edge (xs @ i # ys) (canonical_id i) (ref_identifier r) = None"
  shows "acyclic (declared_edges (xs @ with_blocker r i # ys))"
  using assms(1,5) cycle_check_iff[of "xs @ i # ys" "canonical_id i" "ref_identifier r"] assms(4)
  by (simp add: declared_with_blocker[OF assms(2,3)] acyclic_insert)

definition ref_to :: "string \<Rightarrow> blocker_ref" where
  "ref_to b = \<lparr>br_id = None, br_identifier = Some b\<rparr>"

lemma acyclic_empty: "acyclic {}"
  by (simp add: acyclic_def)

lemma sample_tree_edges: "declared_edges sample_tree = {(''E'', ''X''), (''E'', ''A''), (''A'', ''B'')}"
proof -
  have "concat (map (issue_edges (alias_table sample_tree)) (filter (\<lambda>i. canonical_id i \<noteq> []) sample_tree))
    = [(''E'', ''X''), (''E'', ''A''), (''A'', ''B'')]" by code_simp
  then show ?thesis by (simp add: declared_edges_list)
qed

theorem accepted_edge_keeps_acyclic_witness:
  "acyclic (declared_edges (take 3 sample_tree @ with_blocker (ref_to ''B'') (sample_issue ''X'' None []) # []))"
proof (rule accepted_edge_keeps_acyclic)
  have tree: "take 3 sample_tree @ sample_issue ''X'' None [] # [] = sample_tree" by (simp add: sample_tree_def)
  show "dependency_cycle_for_new_edge (take 3 sample_tree @ sample_issue ''X'' None [] # [])
      (canonical_id (sample_issue ''X'' None [])) (ref_identifier (ref_to ''B'')) = None"
    unfolding tree by code_simp
  show "resolve (alias_table (take 3 sample_tree @ sample_issue ''X'' None [] # []))
      (canonical_id (sample_issue ''X'' None [])) = canonical_id (sample_issue ''X'' None [])"
    unfolding tree by code_simp
  show "acyclic (declared_edges (take 3 sample_tree @ sample_issue ''X'' None [] # []))"
    unfolding tree sample_tree_edges by (simp add: acyclic_insert acyclic_empty) (auto elim: converse_rtranclE)
qed (simp_all add: sample_issue_def canonical_id_def ref_to_def ref_identifier_def str_eval)

end
