(* ===== verification/IntegrationQueue.thy ===== *)
theory IntegrationQueue
  imports FactModel Complex_Main "HOL-Library.Product_Lexorder"
begin

text \<open>
  The integration queue of oompah/integration_queue.py: one row for each submission (project and task), claimed
  under an expiring lease or advanced by compare-and-swap on the digest of the whole row.

  The table is the list of its rows in insertion order, with the counter of the integration history; a call
  is a function from the store to the new store and its value, and a branch that rolls back returns the store
  it was given.  The clock (\<open>now\<close>, in seconds) and its ISO rendering (\<open>stamp\<close>) are arguments.  Floats are
  reals; how \<open>json.dumps\<close> writes one is the argument \<open>float_text\<close>, on which no property depends.
\<close>

section \<open>Rows\<close>

record queue_item =
  iq_project_id :: string
  iq_epic_id :: string
  iq_task_id :: string
  iq_task_branch :: string
  iq_head_sha :: string
  iq_base_sha :: "string option"
  iq_priority :: int
  iq_submitted_at :: string
  iq_state :: string
  iq_attempts :: int
  iq_lease_owner :: "string option"
  iq_lease_expires_at :: "real option"
  iq_updated_at :: string
  iq_base_branch :: "string option"
  iq_candidate_head_sha :: "string option"
  iq_candidate_base_sha :: "string option"
  iq_last_error :: "string option"
  iq_retry_forced :: bool
  iq_next_retry_at :: "real option"
  iq_rebased_from_head_sha :: "string option"
  iq_integrated_sha :: "string option"
  iq_rebase_intent_pending :: bool
  iq_rebased_publication_pending :: bool
  iq_history_sequence :: nat
  iq_claimed_retry_forced :: bool

record queue =
  qu_rows :: "queue_item list"
  qu_history :: nat

definition empty_queue :: queue where
  "empty_queue = \<lparr>qu_rows = [], qu_history = 0\<rparr>"

text \<open>The digest of the row: canonical JSON of every column but the ephemeral flag, in the order of the keys.\<close>

definition item_json :: "(real \<Rightarrow> string) \<Rightarrow> queue_item \<Rightarrow> string" where
  "item_json float_text i = (
     let text = (\<lambda>s. json_dumps (PStr s)); opt = (\<lambda>s. json_dumps (opt_str s));
         flag = (\<lambda>b. json_dumps (PBool b));
         time = (\<lambda>t. case t of None \<Rightarrow> ''null'' | Some x \<Rightarrow> float_text x);
         columns = [(''attempts'', json_dumps (PInt (iq_attempts i))), (''base_branch'', opt (iq_base_branch i)),
           (''base_sha'', opt (iq_base_sha i)), (''candidate_base_sha'', opt (iq_candidate_base_sha i)),
           (''candidate_head_sha'', opt (iq_candidate_head_sha i)), (''epic_id'', text (iq_epic_id i)),
           (''head_sha'', text (iq_head_sha i)), (''history_sequence'', json_dumps (PInt (int (iq_history_sequence i)))),
           (''integrated_sha'', opt (iq_integrated_sha i)), (''last_error'', opt (iq_last_error i)),
           (''lease_expires_at'', time (iq_lease_expires_at i)), (''lease_owner'', opt (iq_lease_owner i)),
           (''next_retry_at'', time (iq_next_retry_at i)), (''priority'', json_dumps (PInt (iq_priority i))),
           (''project_id'', text (iq_project_id i)),
           (''rebase_intent_pending'', flag (iq_rebase_intent_pending i)),
           (''rebased_from_head_sha'', opt (iq_rebased_from_head_sha i)),
           (''rebased_publication_pending'', flag (iq_rebased_publication_pending i)),
           (''retry_forced'', flag (iq_retry_forced i)), (''state'', text (iq_state i)),
           (''submitted_at'', text (iq_submitted_at i)), (''task_branch'', text (iq_task_branch i)),
           (''task_id'', text (iq_task_id i)), (''updated_at'', text (iq_updated_at i))]
     in ''{'' @ join '','' (map (\<lambda>kv. json_string (fst kv) @ '':'' @ snd kv) columns) @ ''}'')"

definition authority_generation :: "(real \<Rightarrow> string) \<Rightarrow> queue_item \<Rightarrow> string" where
  "authority_generation float_text i = sha256_hex (item_json float_text i)"

text \<open>\<open>_from_row\<close>: the columns as they are, but for the space around two of them.\<close>

definition from_row :: "queue_item \<Rightarrow> queue_item" where
  "from_row r = r\<lparr>iq_rebased_from_head_sha := map_option py_strip (iq_rebased_from_head_sha r),
     iq_integrated_sha := map_option py_strip (iq_integrated_sha r)\<rparr>"

section \<open>Statements\<close>

text \<open>\<open>WHERE project_id = ? AND task_id = ?\<close>, the primary key.\<close>

definition at_key :: "string \<Rightarrow> string \<Rightarrow> queue_item \<Rightarrow> bool" where
  "at_key project task r \<longleftrightarrow> iq_project_id r = project \<and> iq_task_id r = task"

definition find_item :: "string \<Rightarrow> string \<Rightarrow> queue \<Rightarrow> queue_item option" where
  "find_item project task s = find (at_key project task) (qu_rows s)"

definition queue_get :: "string \<Rightarrow> string \<Rightarrow> queue \<Rightarrow> queue_item option" where
  "queue_get project task s = map_option from_row (find_item project task s)"

definition update_items :: "(queue_item \<Rightarrow> bool) \<Rightarrow> (queue_item \<Rightarrow> queue_item) \<Rightarrow> queue \<Rightarrow> queue" where
  "update_items p f s = s\<lparr>qu_rows := map (\<lambda>r. if p r then f r else r) (qu_rows s)\<rparr>"

definition item_count :: "(queue_item \<Rightarrow> bool) \<Rightarrow> queue \<Rightarrow> nat" where
  "item_count p s = length (filter p (qu_rows s))"

text \<open>\<open>a or b\<close> of texts, and \<open>str(v or '').strip() or None\<close>.\<close>

definition or_text :: "string option \<Rightarrow> string \<Rightarrow> string" where
  "or_text a b = (case a of None \<Rightarrow> b | Some s \<Rightarrow> if s = [] then b else s)"

definition stripped_or_none :: "string option \<Rightarrow> string option" where
  "stripped_or_none v = (let t = py_strip (or_text v []) in if t = [] then None else Some t)"

definition or_else_text :: "string option \<Rightarrow> string option \<Rightarrow> string option" where
  "or_else_text a b = (case a of None \<Rightarrow> b | Some s \<Rightarrow> if s = [] then b else Some s)"

definition next_history_sequence :: "queue \<Rightarrow> queue \<times> nat" where
  "next_history_sequence s = (s\<lparr>qu_history := qu_history s + 1\<rparr>, qu_history s + 1)"

text \<open>Opening the store: the history counter covers every row, and an integrated row from before the history
  had positions gets the next ones, in the order of its key.\<close>

definition reopen_queue :: "queue \<Rightarrow> queue" where
  "reopen_queue s = (
     let counter = max (foldr max (map iq_history_sequence (qu_rows s)) 0) (qu_history s);
         legacy = sort_key (\<lambda>r. (iq_project_id r, iq_task_id r))
           (filter (\<lambda>r. iq_state r = ''integrated'' \<and> iq_history_sequence r = 0) (qu_rows s))
     in fold (\<lambda>l s. let (s, history) = next_history_sequence s
          in update_items (at_key (iq_project_id l) (iq_task_id l)) (\<lambda>r. r\<lparr>iq_history_sequence := history\<rparr>) s)
        legacy (s\<lparr>qu_history := counter\<rparr>))"

section \<open>Submissions\<close>

record submission =
  su_project_id :: string
  su_epic_id :: string
  su_task_id :: string
  su_task_branch :: string
  su_head_sha :: string
  su_base_branch :: "string option"
  su_base_sha :: "string option"
  su_priority :: "int option"
  su_submitted_at :: "string option"

text \<open>The texts of the key are stripped and must not be blank.\<close>

definition normalized_submission :: "submission \<Rightarrow> submission result" where
  "normalized_submission a = (
     let v = a\<lparr>su_project_id := py_strip (su_project_id a), su_epic_id := py_strip (su_epic_id a),
       su_task_id := py_strip (su_task_id a), su_task_branch := py_strip (su_task_branch a),
       su_head_sha := py_strip (su_head_sha a)\<rparr>
     in if [] \<in> set [su_project_id v, su_epic_id v, su_task_id v, su_task_branch v, su_head_sha v]
        then Inl ValueError else Inr v)"

definition submitted_row :: "submission \<Rightarrow> int \<Rightarrow> bool \<Rightarrow> real option \<Rightarrow> string \<Rightarrow> queue_item" where
  "submitted_row v attempts retry_forced next_retry stamp = \<lparr>iq_project_id = su_project_id v,
     iq_epic_id = su_epic_id v, iq_task_id = su_task_id v, iq_task_branch = su_task_branch v,
     iq_head_sha = su_head_sha v, iq_base_sha = stripped_or_none (su_base_sha v),
     iq_priority = (case su_priority v of None \<Rightarrow> 999 | Some p \<Rightarrow> p),
     iq_submitted_at = or_text (su_submitted_at v) stamp, iq_state = ''ready'', iq_attempts = attempts,
     iq_lease_owner = None, iq_lease_expires_at = None, iq_updated_at = stamp,
     iq_base_branch = stripped_or_none (su_base_branch v), iq_candidate_head_sha = None,
     iq_candidate_base_sha = None, iq_last_error = None, iq_retry_forced = retry_forced,
     iq_next_retry_at = next_retry, iq_rebased_from_head_sha = None, iq_integrated_sha = None,
     iq_rebase_intent_pending = False, iq_rebased_publication_pending = False, iq_history_sequence = 0,
     iq_claimed_retry_forced = False\<rparr>"

definition identical_submission :: "submission \<Rightarrow> queue_item \<Rightarrow> bool" where
  "identical_submission v r \<longleftrightarrow> iq_epic_id r = su_epic_id v
     \<and> or_text (iq_candidate_head_sha r) (iq_head_sha r) = su_head_sha v
     \<and> iq_task_branch r = su_task_branch v
     \<and> py_strip (or_text (iq_base_branch r) []) = py_strip (or_text (su_base_branch v) [])
     \<and> py_lower (py_strip (or_text (iq_candidate_base_sha r) (or_text (iq_base_sha r) [])))
        = py_lower (py_strip (or_text (su_base_sha v) []))"

definition queue_enqueue ::
  "submission \<Rightarrow> bool \<Rightarrow> bool \<Rightarrow> real option \<Rightarrow> bool \<Rightarrow> string \<Rightarrow> queue \<Rightarrow> (queue \<times> queue_item) result" where
  "queue_enqueue a explicit_retry rearm_integrated retry_at preserve_attempts stamp s =
     ebind (normalized_submission a) (\<lambda>v.
       let existing = find_item (su_project_id v) (su_task_id v) s;
           identical = (case existing of None \<Rightarrow> False | Some r \<Rightarrow> identical_submission v r);
           state_in = (\<lambda>states. case existing of None \<Rightarrow> False | Some r \<Rightarrow> iq_state r \<in> states);
           retry_inactive = (identical \<and> explicit_retry \<and> state_in {''blocked'', ''cancelled''});
           retry_integrated = (identical \<and> explicit_retry \<and> rearm_integrated \<and> state_in {''integrated''});
           attempts = (case existing of None \<Rightarrow> 0 | Some r \<Rightarrow> if preserve_attempts then iq_attempts r else 0);
           next_retry = (case retry_at of Some t \<Rightarrow> Some t
             | None \<Rightarrow> (case existing of None \<Rightarrow> None
                 | Some r \<Rightarrow> if preserve_attempts then iq_next_retry_at r else None));
           row = submitted_row v attempts retry_inactive next_retry stamp
       in case existing of
            None \<Rightarrow> Inr (s\<lparr>qu_rows := qu_rows s @ [row]\<rparr>, from_row row)
          | Some r \<Rightarrow>
              if identical \<and> \<not> retry_inactive \<and> \<not> retry_integrated then Inr (s, from_row r)
              else Inr (update_items (at_key (su_project_id v) (su_task_id v)) (\<lambda>_. row) s, from_row row))"

definition enqueue_if_absent :: "submission \<Rightarrow> string \<Rightarrow> queue \<Rightarrow> (queue \<times> queue_item option) result" where
  "enqueue_if_absent a stamp s = ebind (normalized_submission a) (\<lambda>v.
     case find_item (su_project_id v) (su_task_id v) s of
       Some _ \<Rightarrow> Inr (s, None)
     | None \<Rightarrow> let row = submitted_row v 0 False None stamp
         in Inr (s\<lparr>qu_rows := qu_rows s @ [row]\<rparr>, Some (from_row row)))"

definition record_candidate ::
  "string \<Rightarrow> string \<Rightarrow> string \<Rightarrow> string \<Rightarrow> string option \<Rightarrow> string \<Rightarrow> string \<Rightarrow> string \<Rightarrow> queue \<Rightarrow> queue \<times> queue_item option" where
  "record_candidate project task owner expected_head expected_candidate candidate_head candidate_base stamp s = (
     let candidate = py_lower (py_strip candidate_head); base = py_lower (py_strip candidate_base);
         p = (\<lambda>r. at_key project task r \<and> iq_state r = ''integrating'' \<and> iq_lease_owner r = Some owner
           \<and> iq_head_sha r = expected_head \<and> iq_candidate_head_sha r = expected_candidate)
     in if candidate = [] \<or> base = [] then (s, None)
        else if item_count p s \<noteq> 1 then (s, None)
        else (let s' = update_items p (\<lambda>r. r\<lparr>iq_candidate_head_sha := Some candidate,
                iq_candidate_base_sha := Some base, iq_updated_at := stamp\<rparr>) s
              in (s', queue_get project task s')))"

section \<open>Compare-and-swap on the generation of a row\<close>

text \<open>
  The shape these operations share: read the row inside the transaction, roll back unless its digest is
  the expected one and the guard holds, then write and read back.
\<close>

definition cas_item :: "(real \<Rightarrow> string) \<Rightarrow> string \<Rightarrow> string \<Rightarrow> string \<Rightarrow> (queue_item \<Rightarrow> bool)
    \<Rightarrow> (queue_item \<Rightarrow> queue \<Rightarrow> queue) \<Rightarrow> queue \<Rightarrow> queue \<times> queue_item option" where
  "cas_item float_text project task expected guard write s = (
     case queue_get project task s of
       None \<Rightarrow> (s, None)
     | Some item \<Rightarrow>
         if authority_generation float_text item \<noteq> expected \<or> \<not> guard item then (s, None)
         else (let s' = write item s in (s', queue_get project task s')))"

definition idle_ready :: "queue_item \<Rightarrow> bool" where
  "idle_ready i \<longleftrightarrow> iq_state i = ''ready'' \<and> iq_lease_owner i = None"

definition generation_text :: "string \<Rightarrow> string" where
  "generation_text expected = py_lower (py_strip expected)"

definition replace_task_identity :: "(real \<Rightarrow> string) \<Rightarrow> string \<Rightarrow> string \<Rightarrow> string \<Rightarrow> string \<Rightarrow> string \<Rightarrow> string
    \<Rightarrow> string option \<Rightarrow> string option \<Rightarrow> int option \<Rightarrow> string option \<Rightarrow> string \<Rightarrow> queue \<Rightarrow> queue \<times> queue_item option" where
  "replace_task_identity float_text project task expected_generation epic_id task_branch head_sha base_branch
       base_sha priority submitted_at stamp s = (
     let expected = generation_text expected_generation; parent = py_strip epic_id;
         branch = py_strip task_branch; head = py_strip head_sha
     in if [] \<in> set [expected, parent, branch, head] then (s, None)
        else cas_item float_text project task expected
          (\<lambda>i. iq_lease_owner i = None \<and> iq_task_branch i = branch \<and> iq_head_sha i = head)
          (\<lambda>i. update_items (\<lambda>r. at_key project task r \<and> iq_lease_owner r = None)
             (\<lambda>r. r\<lparr>iq_epic_id := parent, iq_base_branch := stripped_or_none base_branch,
                iq_base_sha := stripped_or_none base_sha,
                iq_priority := (case priority of None \<Rightarrow> 999 | Some p \<Rightarrow> p),
                iq_submitted_at := or_text submitted_at (iq_submitted_at i), iq_state := ''ready'',
                iq_attempts := 0, iq_lease_owner := None, iq_lease_expires_at := None, iq_updated_at := stamp,
                iq_last_error := None, iq_retry_forced := False, iq_next_retry_at := None,
                iq_rebased_from_head_sha := None, iq_integrated_sha := None,
                iq_rebase_intent_pending := False, iq_rebased_publication_pending := False,
                iq_history_sequence := 0\<rparr>)) s)"

text \<open>The callback of a retirement decides whether the row may go; it runs after the generation check.\<close>

definition retirable :: "string \<Rightarrow> (queue_item \<Rightarrow> bool) option \<Rightarrow> queue_item \<Rightarrow> bool" where
  "retirable message action i \<longleftrightarrow>
     (iq_state i = ''ready'' \<or> iq_state i = ''cancelled'' \<and> iq_last_error i = Some message)
     \<and> iq_lease_owner i = None \<and> \<not> iq_rebase_intent_pending i \<and> \<not> iq_rebased_publication_pending i
     \<and> (case action of None \<Rightarrow> True | Some f \<Rightarrow> f i)"

definition retire_item :: "string \<Rightarrow> string \<Rightarrow> string \<Rightarrow> string \<Rightarrow> queue \<Rightarrow> queue" where
  "retire_item project task message stamp =
     update_items (\<lambda>r. at_key project task r \<and> iq_state r \<in> {''ready'', ''cancelled''} \<and> iq_lease_owner r = None)
       (\<lambda>r. r\<lparr>iq_state := ''cancelled'', iq_lease_owner := None, iq_lease_expires_at := None,
          iq_updated_at := stamp, iq_last_error := Some message, iq_retry_forced := False,
          iq_next_retry_at := None, iq_rebase_intent_pending := False, iq_rebased_publication_pending := False\<rparr>)"

definition retire_task_generation :: "(real \<Rightarrow> string) \<Rightarrow> string \<Rightarrow> string \<Rightarrow> string \<Rightarrow> string
    \<Rightarrow> (queue_item \<Rightarrow> bool) option \<Rightarrow> string \<Rightarrow> queue \<Rightarrow> queue \<times> queue_item option" where
  "retire_task_generation float_text project task expected_generation reason action stamp s = (
     let expected = generation_text expected_generation; message = py_strip reason
     in if expected = [] \<or> message = [] then (s, None)
        else (case cas_item float_text project task expected (retirable message action)
              (\<lambda>_. retire_item project task message stamp) s of
          (s', None) \<Rightarrow> (s', None)
        | (s', Some retired) \<Rightarrow>
            (s', if iq_state retired \<noteq> ''cancelled'' \<or> iq_last_error retired \<noteq> Some message then None
                 else Some retired)))"

definition prepare_task_rebase :: "(real \<Rightarrow> string) \<Rightarrow> string \<Rightarrow> string \<Rightarrow> string \<Rightarrow> string \<Rightarrow> string
    \<Rightarrow> queue \<Rightarrow> queue \<times> queue_item option" where
  "prepare_task_rebase float_text project task expected_generation base_sha stamp s = (
     let expected = generation_text expected_generation; base = py_lower (py_strip base_sha)
     in if expected = [] \<or> base = [] then (s, None)
        else cas_item float_text project task expected
          (\<lambda>i. idle_ready i \<and> \<not> iq_rebased_publication_pending i)
          (\<lambda>i s. if iq_rebase_intent_pending i then s
             else update_items (\<lambda>r. at_key project task r \<and> idle_ready r \<and> \<not> iq_rebase_intent_pending r
                 \<and> \<not> iq_rebased_publication_pending r)
               (\<lambda>r. r\<lparr>iq_base_sha := Some base, iq_rebased_from_head_sha := Some (iq_head_sha i),
                  iq_rebase_intent_pending := True, iq_updated_at := stamp\<rparr>) s) s)"

definition abort_task_rebase ::
  "(real \<Rightarrow> string) \<Rightarrow> string \<Rightarrow> string \<Rightarrow> string \<Rightarrow> string \<Rightarrow> queue \<Rightarrow> queue \<times> queue_item option" where
  "abort_task_rebase float_text project task expected_generation stamp s = (
     let expected = generation_text expected_generation
     in if expected = [] then (s, None)
        else cas_item float_text project task expected
          (\<lambda>i. idle_ready i \<and> iq_rebase_intent_pending i \<and> \<not> iq_rebased_publication_pending i)
          (\<lambda>i. update_items (\<lambda>r. at_key project task r \<and> idle_ready r \<and> iq_rebase_intent_pending r
              \<and> \<not> iq_rebased_publication_pending r)
            (\<lambda>r. r\<lparr>iq_rebase_intent_pending := False, iq_rebased_from_head_sha := None,
               iq_updated_at := stamp\<rparr>)) s)"

text \<open>A publication already prepared for the same head is returned as it is; another one is refused.\<close>

definition prepare_task_publication :: "(real \<Rightarrow> string) \<Rightarrow> string \<Rightarrow> string \<Rightarrow> string \<Rightarrow> string \<Rightarrow> string option
    \<Rightarrow> string \<Rightarrow> queue \<Rightarrow> queue \<times> queue_item option" where
  "prepare_task_publication float_text project task expected_generation head_sha base_sha stamp s = (
     let expected = generation_text expected_generation; replacement = py_lower (py_strip head_sha);
         prepared = (\<lambda>i. py_lower (iq_head_sha i) = replacement \<and> iq_rebased_publication_pending i)
     in if expected = [] \<or> replacement = [] then (s, None)
        else cas_item float_text project task expected
          (\<lambda>i. idle_ready i \<and> (prepared i \<or> \<not> iq_rebased_publication_pending i))
          (\<lambda>i s. if prepared i then s
             else update_items (\<lambda>r. at_key project task r \<and> idle_ready r)
               (\<lambda>r. r\<lparr>iq_head_sha := replacement,
                  iq_base_sha := or_else_text (stripped_or_none base_sha) (iq_base_sha i), iq_updated_at := stamp,
                  iq_rebased_from_head_sha := Some (or_text (iq_rebased_from_head_sha i) (iq_head_sha i)),
                  iq_rebase_intent_pending := False, iq_rebased_publication_pending := True\<rparr>) s) s)"

definition complete_task_publication :: "(real \<Rightarrow> string) \<Rightarrow> string \<Rightarrow> string \<Rightarrow> string \<Rightarrow> string \<Rightarrow> string
    \<Rightarrow> queue \<Rightarrow> queue \<times> queue_item option" where
  "complete_task_publication float_text project task expected_generation head_sha stamp s = (
     let expected = generation_text expected_generation; published = py_lower (py_strip head_sha)
     in if expected = [] \<or> published = [] then (s, None)
        else cas_item float_text project task expected
          (\<lambda>i. idle_ready i \<and> iq_rebased_publication_pending i \<and> \<not> iq_rebase_intent_pending i
             \<and> py_lower (iq_head_sha i) = published \<and> or_text (iq_rebased_from_head_sha i) [] \<noteq> [])
          (\<lambda>i. update_items (\<lambda>r. at_key project task r \<and> idle_ready r \<and> iq_head_sha r = iq_head_sha i
              \<and> iq_rebased_publication_pending r)
            (\<lambda>r. r\<lparr>iq_rebased_publication_pending := False, iq_updated_at := stamp\<rparr>)) s)"

text \<open>The forced retry is consumed at most once: the flag of the returned pair is the one the row had.\<close>

definition consume_retry_generation :: "(real \<Rightarrow> string) \<Rightarrow> string \<Rightarrow> string \<Rightarrow> string \<Rightarrow> string
    \<Rightarrow> queue \<Rightarrow> queue \<times> queue_item option \<times> bool" where
  "consume_retry_generation float_text project task expected_generation stamp s = (
     let expected = generation_text expected_generation
     in if expected = [] then (s, None, False)
        else (case cas_item float_text project task expected
            (\<lambda>i. idle_ready i \<and> \<not> iq_rebased_publication_pending i \<and> \<not> iq_rebase_intent_pending i)
            (\<lambda>i s. if \<not> iq_retry_forced i then s
               else update_items (\<lambda>r. at_key project task r \<and> idle_ready r)
                 (\<lambda>r. r\<lparr>iq_retry_forced := False, iq_updated_at := stamp\<rparr>) s) s of
          (s', None) \<Rightarrow> (s', None, False)
        | (s', Some row) \<Rightarrow>
            (s', Some row, case queue_get project task s of None \<Rightarrow> False | Some item \<Rightarrow> iq_retry_forced item)))"

definition recover_task_generation :: "(real \<Rightarrow> string) \<Rightarrow> string \<Rightarrow> string \<Rightarrow> string \<Rightarrow> real \<Rightarrow> string
    \<Rightarrow> queue \<Rightarrow> queue \<times> queue_item option" where
  "recover_task_generation float_text project task expected_generation now stamp s = (
     let expected = generation_text expected_generation
     in if expected = [] then (s, None)
        else cas_item float_text project task expected
          (\<lambda>i. iq_state i = ''integrating''
             \<and> (case iq_lease_expires_at i of None \<Rightarrow> False | Some t \<Rightarrow> \<not> now < t))
          (\<lambda>i. update_items (\<lambda>r. at_key project task r \<and> iq_state r = ''integrating''
              \<and> iq_lease_owner r = iq_lease_owner i \<and> iq_lease_owner i \<noteq> None)
            (\<lambda>r. r\<lparr>iq_state := ''ready'', iq_lease_owner := None, iq_lease_expires_at := None,
               iq_updated_at := stamp\<rparr>)) s)"

definition finish_task_generation :: "(real \<Rightarrow> string) \<Rightarrow> string \<Rightarrow> string \<Rightarrow> string \<Rightarrow> string \<Rightarrow> string option
    \<Rightarrow> real option \<Rightarrow> string option \<Rightarrow> string \<Rightarrow> queue \<Rightarrow> queue \<times> queue_item option" where
  "finish_task_generation float_text project task expected_generation state error_text retry_at integrated_sha stamp s = (
     let expected = generation_text expected_generation; normalized = py_lower (py_strip state);
         landed = (normalized = ''integrated'')
     in if expected = [] \<or> normalized \<notin> {''ready'', ''blocked'', ''integrated'', ''cancelled''} then (s, None)
        else cas_item float_text project task expected
          (\<lambda>i. idle_ready i \<and> \<not> iq_rebased_publication_pending i \<and> \<not> iq_rebase_intent_pending i)
          (\<lambda>i s. let (s, history) = (if landed then next_history_sequence s else (s, 0))
             in update_items (\<lambda>r. at_key project task r \<and> idle_ready r)
               (\<lambda>r. r\<lparr>iq_state := normalized, iq_lease_owner := None, iq_lease_expires_at := None,
                  iq_attempts := iq_attempts r + 1, iq_updated_at := stamp, iq_last_error := error_text,
                  iq_retry_forced := False, iq_next_retry_at := retry_at,
                  iq_integrated_sha := (if landed then stripped_or_none integrated_sha else None),
                  iq_rebase_intent_pending := False, iq_rebased_publication_pending := False,
                  iq_history_sequence := history\<rparr>) s) s)"

definition normalize_legacy_tracker_checkpoint :: "(real \<Rightarrow> string) \<Rightarrow> string \<Rightarrow> string \<Rightarrow> string \<Rightarrow> string \<Rightarrow> string
    \<Rightarrow> string \<Rightarrow> string option \<Rightarrow> string \<Rightarrow> queue \<Rightarrow> queue \<times> queue_item option" where
  "normalize_legacy_tracker_checkpoint float_text project task expected_generation task_branch head_sha
       integrated_sha base_sha stamp s = (
     let expected = py_strip expected_generation; branch = py_strip task_branch;
         replacement = py_strip head_sha; landed = py_strip integrated_sha
     in if [] \<in> set [expected, branch, replacement, landed] then (s, None)
        else cas_item float_text project task expected
          (\<lambda>i. iq_state i \<in> {''ready'', ''integrated''} \<and> iq_lease_owner i = None \<and> iq_task_branch i = branch
             \<and> \<not> iq_rebased_publication_pending i \<and> \<not> iq_rebase_intent_pending i)
          (\<lambda>i s. let (s, history) = next_history_sequence s
             in update_items (\<lambda>r. at_key project task r \<and> iq_state r \<in> {''ready'', ''integrated''}
                 \<and> iq_lease_owner r = None)
               (\<lambda>r. r\<lparr>iq_state := ''integrated'', iq_head_sha := replacement,
                  iq_base_sha := or_else_text (stripped_or_none base_sha) (iq_base_sha i),
                  iq_rebased_from_head_sha := (if iq_head_sha i \<noteq> replacement then Some (iq_head_sha i)
                    else iq_rebased_from_head_sha i),
                  iq_integrated_sha := Some landed, iq_history_sequence := history, iq_updated_at := stamp,
                  iq_last_error := None, iq_retry_forced := False, iq_next_retry_at := None,
                  iq_rebase_intent_pending := False, iq_rebased_publication_pending := False\<rparr>) s) s)"

section \<open>Leases\<close>

definition lease_expired :: "real \<Rightarrow> queue_item \<Rightarrow> bool" where
  "lease_expired now r \<longleftrightarrow> iq_state r = ''integrating''
     \<and> (case iq_lease_expires_at r of None \<Rightarrow> False | Some t \<Rightarrow> t \<le> now)"

definition released_row :: "string \<Rightarrow> queue_item \<Rightarrow> queue_item" where
  "released_row stamp r = r\<lparr>iq_state := ''ready'', iq_lease_owner := None, iq_lease_expires_at := None,
     iq_updated_at := stamp\<rparr>"

definition expire_leases :: "real \<Rightarrow> string \<Rightarrow> queue \<Rightarrow> queue" where
  "expire_leases now stamp = update_items (lease_expired now) (released_row stamp)"

definition queue_recover_expired :: "real \<Rightarrow> string \<Rightarrow> queue \<Rightarrow> queue \<times> nat" where
  "queue_recover_expired now stamp s =
     (expire_leases now stamp s, item_count (lease_expired now) s)"

definition queue_recover_abandoned :: "string \<Rightarrow> queue \<Rightarrow> queue \<times> nat" where
  "queue_recover_abandoned stamp s = (
     let p = (\<lambda>r. iq_state r = ''integrating'') in (update_items p (released_row stamp) s, item_count p s))"

record queue_claim =
  qc_project_id :: string
  qc_epic_id :: string
  qc_lease_owner :: string
  qc_dependency_map :: "(string \<times> string list) list"
  qc_satisfied :: "string list"
  qc_lease_seconds :: int
  qc_max_attempts :: "int option"

definition due_item :: "queue_claim \<Rightarrow> real \<Rightarrow> queue_item \<Rightarrow> bool" where
  "due_item c now r \<longleftrightarrow> iq_project_id r = qc_project_id c \<and> iq_epic_id r = qc_epic_id c \<and> iq_state r = ''ready''
     \<and> (case iq_next_retry_at r of None \<Rightarrow> True | Some t \<Rightarrow> t \<le> now)"

definition item_order :: "queue_item \<Rightarrow> int \<times> string \<times> string" where
  "item_order r = (iq_priority r, iq_submitted_at r, iq_task_id r)"

definition unblocked :: "queue_claim \<Rightarrow> queue_item \<Rightarrow> bool" where
  "unblocked c r \<longleftrightarrow> (case qc_max_attempts c of None \<Rightarrow> True | Some m \<Rightarrow> iq_attempts r < max 1 m)
     \<and> set (case map_of (qc_dependency_map c) (iq_task_id r) of None \<Rightarrow> [] | Some ds \<Rightarrow> ds) \<subseteq> set (qc_satisfied c)"

definition claimed_item :: "queue_claim \<Rightarrow> real \<Rightarrow> string \<Rightarrow> queue_item \<Rightarrow> queue_item" where
  "claimed_item c now stamp r = r\<lparr>iq_state := ''integrating'', iq_lease_owner := Some (qc_lease_owner c),
     iq_lease_expires_at := Some (now + of_int (max 1 (qc_lease_seconds c))), iq_attempts := iq_attempts r + 1,
     iq_updated_at := stamp, iq_retry_forced := False, iq_next_retry_at := None\<rparr>"

definition queue_claim_next :: "queue_claim \<Rightarrow> real \<Rightarrow> string \<Rightarrow> queue \<Rightarrow> queue \<times> queue_item option" where
  "queue_claim_next c now stamp s = (
     let s1 = expire_leases now stamp s;
         rows = sort_key item_order (filter (due_item c now) (qu_rows s1))
     in case find (unblocked c) rows of
          None \<Rightarrow> (s1, None)
        | Some selected \<Rightarrow>
            (let p = (\<lambda>r. at_key (qc_project_id c) (iq_task_id selected) r \<and> iq_state r = ''ready'')
             in if item_count p s1 \<noteq> 1 then (s, None)
                else (let s2 = update_items p (claimed_item c now stamp) s1
                      in (s2, map_option (\<lambda>row. if iq_retry_forced selected
                                then row\<lparr>iq_claimed_retry_forced := True\<rparr> else row)
                              (queue_get (qc_project_id c) (iq_task_id selected) s2)))))"

definition owned_by :: "string \<Rightarrow> string \<Rightarrow> string \<Rightarrow> queue_item \<Rightarrow> bool" where
  "owned_by project task owner r \<longleftrightarrow> at_key project task r \<and> iq_state r = ''integrating''
     \<and> iq_lease_owner r = Some owner"

text \<open>\<open>_finish\<close> with \<open>complete\<close> and \<open>fail\<close>.\<close>

definition finish_item :: "string \<Rightarrow> string \<Rightarrow> string \<Rightarrow> string \<Rightarrow> string option \<Rightarrow> real option \<Rightarrow> string
    \<Rightarrow> queue \<Rightarrow> queue \<times> bool" where
  "finish_item project task owner state last_error next_retry stamp s = (
     let p = owned_by project task owner
     in if item_count p s = 0 then (s, False)
        else (let (s1, history) = (if state = ''integrated'' then next_history_sequence s else (s, 0))
              in (update_items p (\<lambda>r. r\<lparr>iq_state := state, iq_lease_owner := None, iq_lease_expires_at := None,
                    iq_updated_at := stamp, iq_last_error := last_error, iq_next_retry_at := next_retry,
                    iq_history_sequence := history\<rparr>) s1, item_count p s1 \<noteq> 0)))"

definition queue_complete :: "string \<Rightarrow> string \<Rightarrow> string \<Rightarrow> string \<Rightarrow> queue \<Rightarrow> queue \<times> bool" where
  "queue_complete project task owner stamp s = finish_item project task owner ''integrated'' None None stamp s"

definition queue_fail :: "string \<Rightarrow> string \<Rightarrow> string \<Rightarrow> string \<Rightarrow> bool \<Rightarrow> real option \<Rightarrow> string \<Rightarrow> queue \<Rightarrow> queue \<times> bool" where
  "queue_fail project task owner error_text retryable retry_at stamp s =
     finish_item project task owner (if retryable then ''ready'' else ''blocked'') (Some error_text)
       (if retryable then retry_at else None) stamp s"

definition checkpoint_legacy_integration :: "string \<Rightarrow> string \<Rightarrow> string \<Rightarrow> string \<Rightarrow> string \<Rightarrow> string \<Rightarrow> string
    \<Rightarrow> string option \<Rightarrow> string \<Rightarrow> queue \<Rightarrow> queue \<times> queue_item option" where
  "checkpoint_legacy_integration project task lease_owner expected_task_branch expected_head_sha
       rebased_head_sha integrated_sha base_sha stamp s = (
     let owner = py_strip lease_owner; branch = py_strip expected_task_branch;
         predecessor = py_strip expected_head_sha; rebased = py_strip rebased_head_sha;
         landed = py_strip integrated_sha
     in if [] \<in> set [owner, branch, predecessor, rebased, landed] then (s, None)
        else (case queue_get project task s of
            None \<Rightarrow> (s, None)
          | Some item \<Rightarrow>
              if iq_state item \<noteq> ''integrating'' \<or> iq_lease_owner item \<noteq> Some owner
                \<or> iq_task_branch item \<noteq> branch \<or> iq_head_sha item \<noteq> predecessor then (s, None)
              else (let (s1, history) = next_history_sequence s;
                  s2 = update_items (\<lambda>r. owned_by project task owner r \<and> iq_task_branch r = branch
                      \<and> iq_head_sha r = predecessor)
                    (\<lambda>r. r\<lparr>iq_state := ''integrated'', iq_head_sha := rebased,
                       iq_base_sha := or_else_text (stripped_or_none base_sha) (iq_base_sha item),
                       iq_rebased_from_head_sha := (if predecessor \<noteq> rebased then Some predecessor
                         else iq_rebased_from_head_sha item),
                       iq_integrated_sha := Some landed, iq_history_sequence := history,
                       iq_lease_owner := None, iq_lease_expires_at := None, iq_updated_at := stamp,
                       iq_last_error := None, iq_retry_forced := False, iq_next_retry_at := None,
                       iq_rebase_intent_pending := False, iq_rebased_publication_pending := False\<rparr>) s1
                in (s2, queue_get project task s2))))"

definition owns_active_lease :: "string \<Rightarrow> string \<Rightarrow> string \<Rightarrow> string \<Rightarrow> string option \<Rightarrow> string option \<Rightarrow> real
    \<Rightarrow> queue \<Rightarrow> bool" where
  "owns_active_lease project task branch head lease_owner candidate now s = (
     let project = py_strip project; task = py_strip task; branch = py_strip branch; head = py_strip head;
         owner = py_strip (or_text lease_owner [])
     in if [] \<in> set [project, task, branch, head, owner] then False
        else (case find (\<lambda>r. owned_by project task owner r \<and> iq_task_branch r = branch \<and> iq_head_sha r = head
              \<and> (candidate = None \<or> iq_candidate_head_sha r = candidate)) (qu_rows s) of
            None \<Rightarrow> False
          | Some r \<Rightarrow> (case iq_lease_expires_at r of None \<Rightarrow> False | Some t \<Rightarrow> now < t)))"

section \<open>Fencing and rearming\<close>

definition expects :: "string option \<Rightarrow> string option \<Rightarrow> bool" where
  "expects expected actual \<longleftrightarrow> expected = None \<or> actual = expected"

definition block_preflight :: "string \<Rightarrow> string \<Rightarrow> string \<Rightarrow> string option \<Rightarrow> string \<Rightarrow> queue \<Rightarrow> queue \<times> bool" where
  "block_preflight project task reason expected_head stamp s = (
     let p = (\<lambda>r. at_key project task r \<and> iq_state r \<in> {''ready'', ''blocked''}
           \<and> expects expected_head (Some (iq_head_sha r)))
     in (update_items p (\<lambda>r. r\<lparr>iq_state := ''blocked'', iq_lease_owner := None, iq_lease_expires_at := None,
           iq_updated_at := stamp, iq_last_error := Some reason, iq_next_retry_at := None\<rparr>) s,
         item_count p s \<noteq> 0))"

definition queue_cancel :: "string \<Rightarrow> string \<Rightarrow> string option \<Rightarrow> string option \<Rightarrow> string option \<Rightarrow> string option
    \<Rightarrow> string option \<Rightarrow> string option \<Rightarrow> string \<Rightarrow> queue \<Rightarrow> queue \<times> bool" where
  "queue_cancel project task reason expected_head expected_state expected_epic expected_branch expected_base stamp s = (
     let p = (\<lambda>r. at_key project task r \<and> iq_state r \<in> {''ready'', ''integrating'', ''blocked''}
           \<and> expects expected_head (Some (iq_head_sha r)) \<and> expects expected_state (Some (iq_state r))
           \<and> expects expected_epic (Some (iq_epic_id r)) \<and> expects expected_branch (Some (iq_task_branch r))
           \<and> expects expected_base (iq_base_branch r))
     in (update_items p (\<lambda>r. r\<lparr>iq_state := ''cancelled'', iq_lease_owner := None, iq_lease_expires_at := None,
           iq_updated_at := stamp, iq_last_error := stripped_or_none reason, iq_next_retry_at := None\<rparr>) s,
         item_count p s \<noteq> 0))"

definition restore_cancelled :: "(real \<Rightarrow> string) \<Rightarrow> string \<Rightarrow> string \<Rightarrow> string \<Rightarrow> string \<Rightarrow> string option
    \<Rightarrow> string option \<Rightarrow> string option \<Rightarrow> string option \<Rightarrow> string \<Rightarrow> queue \<Rightarrow> queue \<times> bool" where
  "restore_cancelled float_text project task expected_head expected_branch expected_epic restored_base_branch
       restored_base_sha expected_generation stamp s = (
     case queue_get project task s of
       None \<Rightarrow> (s, False)
     | Some item \<Rightarrow>
         if iq_state item \<noteq> ''cancelled'' \<or> iq_task_branch item \<noteq> expected_branch
           \<or> iq_head_sha item \<noteq> expected_head \<or> \<not> expects expected_epic (Some (iq_epic_id item))
           \<or> \<not> expects expected_generation (Some (authority_generation float_text item)) then (s, False)
         else (let p = (\<lambda>r. at_key project task r \<and> iq_state r = ''cancelled''
                   \<and> iq_task_branch r = expected_branch \<and> iq_head_sha r = expected_head);
                 coalesce = (\<lambda>a b. case a of None \<Rightarrow> b | Some x \<Rightarrow> Some x)
               in (update_items p (\<lambda>r. r\<lparr>iq_state := ''ready'', iq_lease_owner := None, iq_lease_expires_at := None,
                     iq_updated_at := stamp, iq_last_error := None, iq_retry_forced := False,
                     iq_next_retry_at := None,
                     iq_base_branch := coalesce (stripped_or_none restored_base_branch) (iq_base_branch r),
                     iq_base_sha := coalesce (stripped_or_none restored_base_sha) (iq_base_sha r),
                     iq_candidate_base_sha := (if iq_candidate_head_sha r = None then None
                       else coalesce (stripped_or_none restored_base_sha) (iq_candidate_base_sha r))\<rparr>) s,
                   item_count p s \<noteq> 0)))"

definition retry_integrated_after_tracker_failure :: "string \<Rightarrow> string \<Rightarrow> string \<Rightarrow> string option \<Rightarrow> string \<Rightarrow> string
    \<Rightarrow> queue \<Rightarrow> queue \<times> bool" where
  "retry_integrated_after_tracker_failure project task expected_head expected_candidate error_text stamp s = (
     let p = (\<lambda>r. at_key project task r \<and> iq_state r = ''integrated'' \<and> iq_head_sha r = expected_head
           \<and> iq_candidate_head_sha r = expected_candidate)
     in (update_items p (\<lambda>r. r\<lparr>iq_state := ''ready'', iq_lease_owner := None, iq_lease_expires_at := None,
           iq_updated_at := stamp, iq_last_error := Some error_text, iq_next_retry_at := None,
           iq_attempts := max (iq_attempts r - 1) 0\<rparr>) s,
         item_count p s \<noteq> 0))"

section \<open>Listing\<close>

text \<open>\<open>after\<close> is the keyset cursor: absent, present but not decodable (no bound), or decoded.\<close>

definition listing_order :: "queue_item \<Rightarrow> string \<times> string \<times> int \<times> string \<times> string" where
  "listing_order r = (iq_project_id r, iq_epic_id r, iq_priority r, iq_submitted_at r, iq_task_id r)"

definition history_order :: "queue_item \<Rightarrow> nat \<times> string \<times> string" where
  "history_order r = (iq_history_sequence r, iq_project_id r, iq_task_id r)"

definition queue_items :: "string option \<Rightarrow> string option \<Rightarrow> string list option \<Rightarrow> int option \<Rightarrow> nat option option
    \<Rightarrow> queue \<Rightarrow> queue_item list" where
  "queue_items project epic states limit after s = (
     let by_history = (after \<noteq> None \<or> (case states of None \<Rightarrow> False
           | Some v \<Rightarrow> v \<noteq> [] \<and> set (map (\<lambda>x. py_lower (py_strip x)) v) = {''integrated''}));
         rows = filter (\<lambda>r. expects project (Some (iq_project_id r)) \<and> expects epic (Some (iq_epic_id r))
           \<and> (case states of None \<Rightarrow> True | Some v \<Rightarrow> iq_state r \<in> set v)
           \<and> (case after of Some (Some c) \<Rightarrow> c < iq_history_sequence r | _ \<Rightarrow> True)) (qu_rows s);
         sorted_rows = (if by_history then sort_key history_order rows else sort_key listing_order rows)
     in if states = Some [] then []
        else map from_row (case limit of None \<Rightarrow> sorted_rows | Some n \<Rightarrow> take (nat n) sorted_rows))"

end
