(* ===== verification/QueueInvariant.thy ===== *)
theory QueueInvariant
  imports IntegrationQueue Invariants
begin

text \<open>
  The invariant of the integration queue: what every row and the history counter satisfy, and the lemmas by
  which an update, an insertion and a compare-and-swap keep it.
\<close>

section \<open>Stripping and lowering\<close>

lemma is_space_lower [simp]: "is_space (lower_char c) = is_space c"
proof -
  have "(of_char c :: nat) < 256" by (metis nat_of_char_less_256)
  then show ?thesis by (auto simp: lower_char_def is_space_def Let_def of_char_of)
qed

lemma py_strip_lower: "py_strip (py_lower s) = py_lower (py_strip s)"
proof -
  have "dropWhile is_space (map lower_char xs) = map lower_char (dropWhile is_space xs)" for xs
    by (simp add: dropWhile_map comp_def)
  then show ?thesis by (simp add: py_strip_def py_lower_def rev_map)
qed

definition plain_text :: "string \<Rightarrow> bool" where
  "plain_text t \<longleftrightarrow> t \<noteq> [] \<and> py_strip t = t"

lemma plain_text_strip: "py_strip t \<noteq> [] \<Longrightarrow> plain_text (py_strip t)"
  and plain_text_lower: "py_strip t \<noteq> [] \<Longrightarrow> plain_text (py_lower (py_strip t))"
  by (simp_all add: plain_text_def py_strip_lower)

lemma stripped_or_none_plain: "stripped_or_none v = Some t \<Longrightarrow> plain_text t"
  by (auto simp: stripped_or_none_def Let_def plain_text_strip split: if_splits)

section \<open>The invariant\<close>

definition item_ok :: "nat \<Rightarrow> queue_item \<Rightarrow> bool" where
  "item_ok h r \<longleftrightarrow> iq_state r \<in> {''ready'', ''integrating'', ''blocked'', ''integrated'', ''cancelled''}
     \<and> (iq_lease_owner r \<noteq> None \<longleftrightarrow> iq_state r = ''integrating'')
     \<and> (iq_lease_expires_at r \<noteq> None \<longleftrightarrow> iq_state r = ''integrating'')
     \<and> 0 \<le> iq_attempts r
     \<and> plain_text (iq_head_sha r)
     \<and> pred_option plain_text (iq_rebased_from_head_sha r) \<and> pred_option plain_text (iq_integrated_sha r)
     \<and> (iq_rebase_intent_pending r \<or> iq_rebased_publication_pending r \<longrightarrow> iq_rebased_from_head_sha r \<noteq> None)
     \<and> \<not> (iq_rebase_intent_pending r \<and> iq_rebased_publication_pending r)
     \<and> (iq_state r = ''integrated'' \<longrightarrow> 0 < iq_history_sequence r) \<and> iq_history_sequence r \<le> h
     \<and> \<not> iq_claimed_retry_forced r"

definition key_of :: "queue_item \<Rightarrow> string \<times> string" where
  "key_of r = (iq_project_id r, iq_task_id r)"

text \<open>A position of the history belongs to one row.\<close>

definition owned_positions :: "(nat \<Rightarrow> string \<times> string) \<Rightarrow> queue \<Rightarrow> bool" where
  "owned_positions owner s \<longleftrightarrow>
     (\<forall>r \<in> set (qu_rows s). iq_history_sequence r \<noteq> 0 \<longrightarrow> owner (iq_history_sequence r) = key_of r)"

definition queue_ok :: "queue \<Rightarrow> bool" where
  "queue_ok s \<longleftrightarrow> distinct (map key_of (qu_rows s)) \<and> (\<forall>r \<in> set (qu_rows s). item_ok (qu_history s) r)
     \<and> (\<exists>owner. owned_positions owner s)"

lemma at_key_iff: "at_key project task r \<longleftrightarrow> key_of r = (project, task)"
  by (auto simp: at_key_def key_of_def)

lemma item_ok_mono: "item_ok h r \<Longrightarrow> h \<le> h' \<Longrightarrow> item_ok h' r"
  by (auto simp: item_ok_def)

lemma from_row_id: "item_ok h r \<Longrightarrow> from_row r = r"
  by (cases "iq_rebased_from_head_sha r"; cases "iq_integrated_sha r") (auto simp: item_ok_def from_row_def plain_text_def)

lemma row_key_unique:
  assumes "queue_ok s" and "q \<in> set (qu_rows s)" and "r \<in> set (qu_rows s)" and "key_of q = key_of r"
  shows "q = r"
  using assms by (auto simp: queue_ok_def distinct_map inj_on_def)

lemma find_item_iff:
  assumes "queue_ok s"
  shows "find_item project task s = Some r \<longleftrightarrow> r \<in> set (qu_rows s) \<and> key_of r = (project, task)"
proof
  assume "find_item project task s = Some r"
  then show "r \<in> set (qu_rows s) \<and> key_of r = (project, task)"
    unfolding find_item_def by (auto simp: find_Some_iff at_key_iff)
next
  assume r: "r \<in> set (qu_rows s) \<and> key_of r = (project, task)"
  then obtain q where q: "find_item project task s = Some q"
    by (cases "find_item project task s") (auto simp: find_item_def find_None_iff at_key_iff)
  then have "q \<in> set (qu_rows s) \<and> key_of q = (project, task)"
    unfolding find_item_def by (auto simp: find_Some_iff at_key_iff)
  then show "find_item project task s = Some r" using q r row_key_unique[OF assms] by metis
qed

lemma queue_get_iff:
  assumes "queue_ok s"
  shows "queue_get project task s = Some r \<longleftrightarrow> r \<in> set (qu_rows s) \<and> key_of r = (project, task)"
proof -
  have "from_row q = q" if "q \<in> set (qu_rows s)" for q
    using that assms from_row_id by (auto simp: queue_ok_def)
  then show ?thesis using find_item_iff[OF assms, of project task] by (auto simp: queue_get_def)
qed

section \<open>Writes keep it\<close>

lemma update_rows_set: "set (qu_rows (update_items p f s)) = (\<lambda>r. if p r then f r else r) ` set (qu_rows s)"
  by (simp add: update_items_def)

lemma update_history [simp]: "qu_history (update_items p f s) = qu_history s"
  by (simp add: update_items_def)

lemma update_keys:
  assumes "\<And>r. r \<in> set (qu_rows s) \<Longrightarrow> p r \<Longrightarrow> key_of (f r) = key_of r"
  shows "map key_of (qu_rows (update_items p f s)) = map key_of (qu_rows s)"
  using assms by (simp add: update_items_def)

lemma queue_okD:
  assumes "queue_ok s"
  shows "distinct (map key_of (qu_rows s))" and "r \<in> set (qu_rows s) \<Longrightarrow> item_ok (qu_history s) r"
    and "\<exists>owner. owned_positions owner s"
  using assms by (simp_all add: queue_ok_def)

lemma update_ok:
  assumes ok: "queue_ok s"
    and f: "\<And>r. r \<in> set (qu_rows s) \<Longrightarrow> p r \<Longrightarrow> item_ok (qu_history s) r \<Longrightarrow>
      item_ok (qu_history s) (f r) \<and> key_of (f r) = key_of r \<and> iq_history_sequence (f r) \<in> {iq_history_sequence r, 0}"
  shows "queue_ok (update_items p f s)"
proof -
  note rows = queue_okD(2)[OF ok]
  have keys: "distinct (map key_of (qu_rows (update_items p f s)))"
    using queue_okD(1)[OF ok] update_keys[of s p f] f rows by simp
  have items: "\<forall>r \<in> set (qu_rows (update_items p f s)). item_ok (qu_history s) r"
    using f rows by (auto simp: update_rows_set)
  obtain owner where owner: "owned_positions owner s" using queue_okD(3)[OF ok] by blast
  have "owned_positions owner (update_items p f s)"
    unfolding owned_positions_def update_rows_set
  proof (intro ballI impI)
    fix r assume "r \<in> (\<lambda>r. if p r then f r else r) ` set (qu_rows s)" and seq: "iq_history_sequence r \<noteq> 0"
    then obtain q where q: "q \<in> set (qu_rows s)" "r = (if p q then f q else q)" by blast
    have "iq_history_sequence r = iq_history_sequence q \<and> key_of r = key_of q"
      using f[OF q(1) _ rows[OF q(1)]] q(2) seq by (cases "p q") auto
    then show "owner (iq_history_sequence r) = key_of r" using owner q(1) seq by (simp add: owned_positions_def)
  qed
  then show ?thesis using keys items unfolding queue_ok_def update_history by blast
qed

text \<open>The effect of a landing gives the one row of the key the next position of the history.\<close>

lemma landing_ok:
  assumes ok: "queue_ok s"
    and one: "\<And>r. p r \<Longrightarrow> key_of r = k"
    and f: "\<And>r. r \<in> set (qu_rows s) \<Longrightarrow> p r \<Longrightarrow> item_ok (qu_history s) r \<Longrightarrow>
      item_ok (qu_history s + 1) (f r) \<and> key_of (f r) = key_of r \<and> iq_history_sequence (f r) = qu_history s + 1"
  shows "queue_ok (update_items p f (s\<lparr>qu_history := qu_history s + 1\<rparr>))"
proof -
  let ?s = "s\<lparr>qu_history := qu_history s + 1\<rparr>"
  note rows = queue_okD(2)[OF ok]
  have keys: "distinct (map key_of (qu_rows (update_items p f ?s)))"
    using queue_okD(1)[OF ok] update_keys[of ?s p f] f rows by simp
  have items: "\<forall>r \<in> set (qu_rows (update_items p f ?s)). item_ok (qu_history s + 1) r"
    using f rows item_ok_mono[of "qu_history s" _ "qu_history s + 1"] by (auto simp: update_rows_set)
  obtain owner where owner: "owned_positions owner s" using queue_okD(3)[OF ok] by blast
  have "owned_positions (owner(qu_history s + 1 := k)) (update_items p f ?s)"
    unfolding owned_positions_def update_rows_set
  proof (intro ballI impI)
    fix r assume "r \<in> (\<lambda>r. if p r then f r else r) ` set (qu_rows ?s)" and seq: "iq_history_sequence r \<noteq> 0"
    then obtain q where q: "q \<in> set (qu_rows s)" "r = (if p q then f q else q)" by auto
    show "(owner(qu_history s + 1 := k)) (iq_history_sequence r) = key_of r"
    proof (cases "p q")
      case True
      then show ?thesis using f[OF q(1) True rows[OF q(1)]] one[OF True] q(2) by simp
    next
      case False
      have "iq_history_sequence q \<le> qu_history s" using rows[OF q(1)] by (simp add: item_ok_def)
      then show ?thesis using False q owner seq by (simp add: owned_positions_def)
    qed
  qed
  then show ?thesis using keys items unfolding queue_ok_def update_history by auto
qed

lemma insert_ok:
  assumes "queue_ok s" and "find_item (iq_project_id row) (iq_task_id row) s = None"
    and "item_ok (qu_history s) row" and "iq_history_sequence row = 0"
  shows "queue_ok (s\<lparr>qu_rows := qu_rows s @ [row]\<rparr>)"
proof -
  have "key_of row \<notin> key_of ` set (qu_rows s)"
    using assms(2) by (auto simp: find_item_def find_None_iff at_key_iff) (auto simp: key_of_def)
  then show ?thesis using assms(1,3,4) by (simp add: queue_ok_def owned_positions_def)
qed

text \<open>A compare-and-swap writes to the row it has read.\<close>

lemma cas_item_cases:
  assumes "queue_ok s" and "cas_item ft project task expected guard effect s = (s', res)"
  shows "s' = s \<and> res = None \<or> (\<exists>i \<in> set (qu_rows s). key_of i = (project, task)
    \<and> authority_generation ft i = expected \<and> guard i \<and> s' = effect i s \<and> res = queue_get project task s')"
  using assms queue_get_iff[OF assms(1), of project task]
  by (auto simp: cas_item_def Let_def split: option.splits if_splits)

lemma cas_item_ok:
  assumes ok: "queue_ok s" and cas: "cas_item ft project task expected guard effect s = (s', res)"
    and keep: "\<And>i. i \<in> set (qu_rows s) \<Longrightarrow> key_of i = (project, task) \<Longrightarrow> item_ok (qu_history s) i \<Longrightarrow> guard i
      \<Longrightarrow> queue_ok (effect i s)"
  shows "queue_ok s'"
  using cas_item_cases[OF ok cas] keep ok by (auto simp: queue_ok_def)

end
