(* ===== verification/QueueMachine.thy ===== *)
theory QueueMachine
  imports QueueInvariant
begin

text \<open>
  The integration queue as a state machine: the calls on the generation of a row, the steps, and the
  invariant each of them keeps.
\<close>

named_theorems queue_ops \<open>the operations of the queue\<close>

declare update_history [queue_ops]

section \<open>Submissions keep the invariant\<close>

lemma normalized_plain:
  assumes "normalized_submission a = Inr v"
  shows "plain_text (su_head_sha v)" and "plain_text (su_project_id v)" and "plain_text (su_task_id v)"
  using assms by (auto simp: normalized_submission_def Let_def plain_text_def split: if_splits)

lemma submitted_row_ok:
  assumes "normalized_submission a = Inr v" and "0 \<le> attempts"
  shows "item_ok h (submitted_row v attempts forced retry stamp)"
    and "key_of (submitted_row v attempts forced retry stamp) = (su_project_id v, su_task_id v)"
    and "iq_history_sequence (submitted_row v attempts forced retry stamp) = 0"
  using normalized_plain[OF assms(1)] assms(2) by (simp_all add: item_ok_def submitted_row_def key_of_def)

lemma enqueue_cases:
  assumes "queue_enqueue a explicit_retry rearm_integrated retry_at preserve stamp s = Inr (s', row)"
  obtains v forced retry attempts where "normalized_submission a = Inr v"
    and "find_item (su_project_id v) (su_task_id v) s = None" and "attempts = 0"
    and "s' = s\<lparr>qu_rows := qu_rows s @ [submitted_row v attempts forced retry stamp]\<rparr>"
  | v r where "normalized_submission a = Inr v" and "find_item (su_project_id v) (su_task_id v) s = Some r"
    and "identical_submission v r" and "s' = s" and "row = from_row r"
  | v r forced retry attempts where "normalized_submission a = Inr v"
    and "find_item (su_project_id v) (su_task_id v) s = Some r" and "attempts \<in> {0, iq_attempts r}"
    and "\<not> identical_submission v r \<or> iq_state r \<in> {''blocked'', ''cancelled'', ''integrated''}"
    and "s' = update_items (at_key (su_project_id v) (su_task_id v))
      (\<lambda>_. submitted_row v attempts forced retry stamp) s"
proof -
  obtain v where v: "normalized_submission a = Inr v"
    using assms by (auto simp: queue_enqueue_def ebind_eq_Inr_iff)
  show thesis
  proof (cases "find_item (su_project_id v) (su_task_id v) s")
    case None
    then show ?thesis using assms v that(1)[OF v None refl] by (auto simp: queue_enqueue_def Let_def)
  next
    case (Some r)
    show ?thesis
    proof (cases "s' = s \<and> row = from_row r \<and> identical_submission v r")
      case True
      then show ?thesis using that(2)[OF v Some] by blast
    next
      case False
      then show ?thesis using assms v Some
        by (intro that(3)[OF v Some, of "if preserve then iq_attempts r else 0"
              "identical_submission v r \<and> explicit_retry \<and> iq_state r \<in> {''blocked'', ''cancelled''}"
              "case retry_at of Some t \<Rightarrow> Some t | None \<Rightarrow> if preserve then iq_next_retry_at r else None"])
          (auto simp: queue_enqueue_def Let_def split: if_splits option.splits)
    qed
  qed
qed

lemma enqueue_ok:
  assumes ok: "queue_ok s"
    and e: "queue_enqueue a explicit_retry rearm_integrated retry_at preserve stamp s = Inr (s', row)"
  shows "queue_ok s'"
  using e
proof (cases rule: enqueue_cases)
  case (1 v forced retry attempts)
  have "find_item (iq_project_id (submitted_row v attempts forced retry stamp))
      (iq_task_id (submitted_row v attempts forced retry stamp)) s = None"
    using 1(2) by (simp add: submitted_row_def)
  then show ?thesis using insert_ok[OF ok] submitted_row_ok[OF 1(1), of attempts] 1(3,4) by simp
next
  case (2 v r)
  then show ?thesis using ok by simp
next
  case (3 v r forced retry attempts)
  have "item_ok (qu_history s) r" using 3(2) find_item_iff[OF ok] queue_okD(2)[OF ok] by blast
  then have "0 \<le> attempts" using 3(3) by (auto simp: item_ok_def)
  note row = submitted_row_ok[OF 3(1) this]
  show ?thesis unfolding 3(5)
    by (rule update_ok[OF ok]) (simp add: row at_key_iff)
qed

lemma enqueue_if_absent_ok:
  assumes ok: "queue_ok s" and e: "enqueue_if_absent a stamp s = Inr (s', res)"
  shows "queue_ok s'"
proof -
  obtain v where v: "normalized_submission a = Inr v" using e by (auto simp: enqueue_if_absent_def ebind_eq_Inr_iff)
  show ?thesis
  proof (cases "find_item (su_project_id v) (su_task_id v) s")
    case None
    let ?row = "submitted_row v 0 False None stamp"
    have "s' = s\<lparr>qu_rows := qu_rows s @ [?row]\<rparr>" using e v None by (auto simp: enqueue_if_absent_def Let_def)
    moreover have "find_item (iq_project_id ?row) (iq_task_id ?row) s = None" using None by (simp add: submitted_row_def)
    ultimately show ?thesis using insert_ok[OF ok] submitted_row_ok[OF v, of 0] by simp
  next
    case (Some r)
    then show ?thesis using e v ok by (auto simp: enqueue_if_absent_def)
  qed
qed

section \<open>Compare-and-swap calls\<close>

text \<open>What a call may write: a row without a lease, and a landing only at a new position of the history.\<close>

definition later :: "queue \<Rightarrow> queue \<Rightarrow> bool" where
  "later s s' \<longleftrightarrow> qu_history s \<le> qu_history s' \<and> (\<forall>r \<in> set (qu_rows s'). r \<in> set (qu_rows s)
     \<or> iq_lease_owner r = None \<and> (iq_state r = ''integrated'' \<longrightarrow> qu_history s < iq_history_sequence r))"

lemma later_refl [simp]: "later s s"
  by (simp add: later_def)

lemma later_update:
  assumes "\<And>r. r \<in> set (qu_rows s) \<Longrightarrow> p r \<Longrightarrow> iq_lease_owner (f r) = None \<and> iq_state (f r) \<noteq> ''integrated''"
  shows "later s (update_items p f s)"
  using assms by (auto simp: later_def update_rows_set)

lemma later_landing:
  assumes "\<And>r. r \<in> set (qu_rows s) \<Longrightarrow> p r \<Longrightarrow> iq_lease_owner (f r) = None \<and> iq_history_sequence (f r) = qu_history s + 1"
  shows "later s (update_items p f (s\<lparr>qu_history := qu_history s + 1\<rparr>))"
  using assms by (auto simp: later_def update_rows_set)

text \<open>
  The contract of a call that names the generation it expects: it writes only to the row of its key, and only
  when that row carries the expected digest; what it returns is the row as it is now stored.
\<close>

locale generation_swap =
  fixes ft :: "real \<Rightarrow> string" and project task :: string and token :: "string \<Rightarrow> string"
    and op :: "string \<Rightarrow> queue \<Rightarrow> queue \<times> queue_item option"
  assumes stale: "queue_ok s \<Longrightarrow> op e s = (s, None) \<or> (\<exists>i \<in> set (qu_rows s). key_of i = (project, task)
      \<and> authority_generation ft i = token e)"
    and keeps: "queue_ok s \<Longrightarrow> queue_ok (fst (op e s))"
    and others: "queue_ok s \<Longrightarrow> r \<in> set (qu_rows s) \<Longrightarrow> key_of r \<noteq> (project, task) \<Longrightarrow> r \<in> set (qu_rows (fst (op e s)))"
    and result: "op e s = (s', Some row) \<Longrightarrow> queue_get project task s' = Some row"
    and lands: "queue_ok s \<Longrightarrow> later s (fst (op e s))"
begin

lemma loses:
  assumes "queue_ok s" and "queue_get project task s = Some i" and "authority_generation ft i \<noteq> token e"
  shows "op e s = (s, None)"
  using assms stale queue_get_iff row_key_unique by metis

lemma absent:
  assumes "queue_ok s" and "queue_get project task s = None"
  shows "op e s = (s, None)"
  using assms stale[of s e] queue_get_iff[OF assms(1), of project task] by auto

end

text \<open>A call that leaves every leased row alone.\<close>

locale unleased_swap = generation_swap +
  assumes unleased: "queue_ok s \<Longrightarrow> r \<in> set (qu_rows s) \<Longrightarrow> key_of r = (project, task) \<Longrightarrow> iq_lease_owner r \<noteq> None
    \<Longrightarrow> op e s = (s, None)"
begin

lemma leased_rows_kept:
  assumes "queue_ok s" and "r \<in> set (qu_rows s)" and "iq_lease_owner r \<noteq> None"
  shows "r \<in> set (qu_rows (fst (op e s)))"
  using assms others unleased[OF assms(1,2) _ assms(3)] by (cases "key_of r = (project, task)") auto

end

text \<open>How a guarded compare-and-swap meets the contract.\<close>

definition swaps :: "(real \<Rightarrow> string) \<Rightarrow> string \<Rightarrow> string \<Rightarrow> string \<Rightarrow> (queue_item \<Rightarrow> bool) \<Rightarrow> (queue_item \<Rightarrow> queue \<Rightarrow> queue)
    \<Rightarrow> queue \<Rightarrow> queue \<times> queue_item option \<Rightarrow> bool" where
  "swaps ft project task expected guard effect s out \<longleftrightarrow>
     (\<exists>res. cas_item ft project task expected guard effect s = (fst out, res) \<and> (snd out = None \<or> snd out = res))"

definition safe_write :: "string \<Rightarrow> string \<Rightarrow> (queue_item \<Rightarrow> bool) \<Rightarrow> (queue_item \<Rightarrow> queue \<Rightarrow> queue) \<Rightarrow> bool" where
  "safe_write project task guard effect \<longleftrightarrow> (\<forall>s i. queue_ok s \<longrightarrow> i \<in> set (qu_rows s) \<longrightarrow> key_of i = (project, task)
     \<longrightarrow> item_ok (qu_history s) i \<longrightarrow> guard i \<longrightarrow> queue_ok (effect i s) \<and> later s (effect i s)
       \<and> (\<forall>r \<in> set (qu_rows s). key_of r \<noteq> (project, task) \<longrightarrow> r \<in> set (qu_rows (effect i s))))"

lemma swap_contract:
  assumes op: "\<And>e s. op e s = (s, None) \<or> safe_write project task (guard e) (effect e)
      \<and> swaps ft project task (token e) (guard e) (effect e) s (op e s)"
  shows "generation_swap ft project task token op"
proof
  fix s e r s' row
  have result: "queue_get project task s' = Some row"
    if "cas_item ft project task x g w s = (s', Some row)" for x g w s
    using that by (auto simp: cas_item_def Let_def split: option.splits if_splits)
  show "op e s = (s', Some row) \<Longrightarrow> queue_get project task s' = Some row"
    using op[of e s] by (auto simp: swaps_def dest: result)
  assume ok: "queue_ok s"
  consider "op e s = (s, None)" | i where "i \<in> set (qu_rows s)" "key_of i = (project, task)"
      "authority_generation ft i = token e" "guard e i" "fst (op e s) = effect e i s" "safe_write project task (guard e) (effect e)"
  proof (cases "op e s = (s, None)")
    case False
    then obtain res where safe: "safe_write project task (guard e) (effect e)"
      and res: "cas_item ft project task (token e) (guard e) (effect e) s = (fst (op e s), res)"
      and out: "snd (op e s) = None \<or> snd (op e s) = res"
      using op[of e s] by (auto simp: swaps_def)
    then show ?thesis using cas_item_cases[OF ok res] False that by (cases "op e s") auto
  qed
  note c = this
  show "op e s = (s, None) \<or> (\<exists>i \<in> set (qu_rows s). key_of i = (project, task) \<and> authority_generation ft i = token e)"
    using c by cases blast+
  show "later s (fst (op e s))"
    using c ok queue_okD(2)[OF ok] by cases (auto simp: safe_write_def)
  show "queue_ok (fst (op e s))"
    using c ok queue_okD(2)[OF ok] by cases (auto simp: safe_write_def)
  show "r \<in> set (qu_rows (fst (op e s)))" if "r \<in> set (qu_rows s)" "key_of r \<noteq> (project, task)"
    using c that ok queue_okD(2)[OF ok] by cases (auto simp: safe_write_def)
qed

lemma guarded_contract:
  assumes "\<And>e s. op e s = (if blank e then (s, None) else cas_item ft project task (token e) guard effect s)"
    and "\<And>e. \<not> blank e \<Longrightarrow> safe_write project task guard effect"
  shows "generation_swap ft project task token op"
proof (rule swap_contract[where guard = "\<lambda>_. guard" and effect = "\<lambda>_. effect"])
  fix e s
  show "op e s = (s, None) \<or> safe_write project task guard effect
      \<and> swaps ft project task (token e) guard effect s (op e s)"
  proof (cases "blank e")
    case False
    then have "swaps ft project task (token e) guard effect s (op e s)"
      unfolding swaps_def by (intro exI[of _ "snd (op e s)"]) (simp add: assms(1))
    then show ?thesis using assms(2) False by blast
  qed (simp add: assms(1))
qed

lemma cas_refuses:
  assumes "queue_ok s" and "r \<in> set (qu_rows s)" and "key_of r = (project, task)" and "\<not> guard r"
  shows "cas_item ft project task x guard effect s = (s, None)"
proof -
  have "queue_get project task s = Some r" using queue_get_iff[OF assms(1), of project task r] assms(2,3) by simp
  then show ?thesis using assms(4) by (simp add: cas_item_def)
qed

lemma unleased_contract:
  assumes "\<And>e s. op e s = (if blank e then (s, None) else cas_item ft project task (token e) guard effect s)"
    and "\<And>e. \<not> blank e \<Longrightarrow> safe_write project task guard effect"
    and "\<And>i. guard i \<Longrightarrow> iq_lease_owner i = None"
  shows "unleased_swap ft project task token op"
proof (rule unleased_swap.intro[OF guarded_contract[OF assms(1,2)]])
  show "unleased_swap_axioms project task op"
    using cas_refuses assms(1,3) by unfold_locales metis
qed

lemma safe_update:
  assumes "\<And>s i r. queue_ok s \<Longrightarrow> i \<in> set (qu_rows s) \<Longrightarrow> key_of i = (project, task) \<Longrightarrow> item_ok (qu_history s) i \<Longrightarrow> guard i
      \<Longrightarrow> p i r \<Longrightarrow> item_ok (qu_history s) r \<Longrightarrow> item_ok (qu_history s) (f i r) \<and> key_of (f i r) = key_of r
        \<and> iq_history_sequence (f i r) \<in> {iq_history_sequence r, 0} \<and> iq_lease_owner (f i r) = None
        \<and> iq_state (f i r) \<noteq> ''integrated''"
    and "\<And>i r. p i r \<Longrightarrow> at_key project task r"
  shows "safe_write project task guard (\<lambda>i. update_items (p i) (f i))"
  unfolding safe_write_def
proof (intro allI impI conjI)
  fix s i
  assume a: "queue_ok s" "i \<in> set (qu_rows s)" "key_of i = (project, task)" "item_ok (qu_history s) i" "guard i"
  show "queue_ok (update_items (p i) (f i) s)" using assms(1)[OF a] by (intro update_ok[OF a(1)]) blast
  show "later s (update_items (p i) (f i) s)"
    using assms(1)[OF a] queue_okD(2)[OF a(1)] by (intro later_update) blast
  show "\<forall>r \<in> set (qu_rows s). key_of r \<noteq> (project, task) \<longrightarrow> r \<in> set (qu_rows (update_items (p i) (f i) s))"
    using assms(2) by (force simp: update_rows_set at_key_iff)
qed

lemma safe_if:
  assumes "safe_write project task guard effect"
  shows "safe_write project task guard (\<lambda>i s. if skip i then s else effect i s)"
  using assms by (auto simp: safe_write_def)

lemma safe_landing:
  assumes "\<And>s i r. queue_ok s \<Longrightarrow> i \<in> set (qu_rows s) \<Longrightarrow> key_of i = (project, task) \<Longrightarrow> item_ok (qu_history s) i \<Longrightarrow> guard i
      \<Longrightarrow> p i r \<Longrightarrow> item_ok (qu_history s) r \<Longrightarrow> item_ok (qu_history s + 1) (f i (qu_history s + 1) r)
        \<and> key_of (f i (qu_history s + 1) r) = key_of r
        \<and> iq_history_sequence (f i (qu_history s + 1) r) = qu_history s + 1
        \<and> iq_lease_owner (f i (qu_history s + 1) r) = None"
    and "\<And>i r. p i r \<Longrightarrow> at_key project task r"
  shows "safe_write project task guard
    (\<lambda>i s. let (s, history) = next_history_sequence s in update_items (p i) (f i history) s)"
  unfolding safe_write_def next_history_sequence_def Let_def case_prod_conv
proof (intro allI impI conjI)
  fix s :: queue and i
  let ?s = "s\<lparr>qu_history := qu_history s + 1\<rparr>"
  assume a: "queue_ok s" "i \<in> set (qu_rows s)" "key_of i = (project, task)" "item_ok (qu_history s) i" "guard i"
  show "queue_ok (update_items (p i) (f i (qu_history s + 1)) ?s)"
    using assms(1)[OF a] assms(2) by (intro landing_ok[OF a(1), where k = "(project, task)"]) (auto simp: at_key_iff)
  show "later s (update_items (p i) (f i (qu_history s + 1)) ?s)"
    using assms(1)[OF a] queue_okD(2)[OF a(1)] by (intro later_landing) blast
  show "\<forall>r \<in> set (qu_rows s). key_of r \<noteq> (project, task)
      \<longrightarrow> r \<in> set (qu_rows (update_items (p i) (f i (qu_history s + 1)) ?s))"
    using assms(2) by (force simp: update_rows_set at_key_iff)
qed

lemma safe_cases:
  assumes "b \<Longrightarrow> safe_write project task guard e1" and "\<not> b \<Longrightarrow> safe_write project task guard e2"
  shows "safe_write project task guard (\<lambda>i s. if b then e1 i s else e2 i s)"
  using assms by (cases b) simp_all

lemma or_text_plain: "pred_option plain_text a \<Longrightarrow> plain_text b \<Longrightarrow> plain_text (or_text a b)"
  by (cases a) (auto simp: or_text_def)

lemmas item_facts = item_ok_def key_of_def idle_ready_def plain_text_strip plain_text_lower stripped_or_none_plain

section \<open>The calls meet it\<close>

interpretation replacing: unleased_swap ft project task generation_text
  "\<lambda>e. replace_task_identity ft project task e epic branch head base_branch base_sha priority submitted stamp"
  by (rule unleased_contract[OF replace_task_identity_def[unfolded Let_def]], rule safe_update)
    (auto simp: item_facts)

interpretation rebasing: unleased_swap ft project task generation_text
  "\<lambda>e. prepare_task_rebase ft project task e base stamp"
  by (rule unleased_contract[OF prepare_task_rebase_def[unfolded Let_def]], rule safe_if, rule safe_update)
    (auto simp: item_facts)

interpretation aborting: unleased_swap ft project task generation_text
  "\<lambda>e. abort_task_rebase ft project task e stamp"
  by (rule unleased_contract[OF abort_task_rebase_def[unfolded Let_def]], rule safe_update)
    (auto simp: item_facts)

lemma published_row_ok:
  assumes "item_ok h r" and "idle_ready r" and "plain_text replacement" and "plain_text predecessor"
  shows "item_ok h (r\<lparr>iq_head_sha := replacement, iq_base_sha := base, iq_updated_at := stamp,
    iq_rebased_from_head_sha := Some predecessor, iq_rebase_intent_pending := False,
    iq_rebased_publication_pending := True\<rparr>)"
  using assms by (simp add: item_ok_def idle_ready_def)

lemma predecessor_plain: "item_ok h i \<Longrightarrow> plain_text (or_text (iq_rebased_from_head_sha i) (iq_head_sha i))"
  by (simp add: item_ok_def or_text_plain)

lemma publishing_contract: "unleased_swap ft project task generation_text
  (\<lambda>e. prepare_task_publication ft project task e head base_sha stamp)"
  apply (rule unleased_contract[OF prepare_task_publication_def[unfolded Let_def]])
   apply (rule safe_if, rule safe_update, intro conjI)
      apply (rule published_row_ok; (assumption | simp add: plain_text_lower predecessor_plain)?)
     apply (simp_all add: key_of_def)
  apply (simp_all add: idle_ready_def)
  done

interpretation publishing: unleased_swap ft project task generation_text
  "\<lambda>e. prepare_task_publication ft project task e head base_sha stamp"
  by (rule publishing_contract)

lemma observable_row_ok: "item_ok h r \<Longrightarrow> item_ok h (r\<lparr>iq_rebased_publication_pending := False, iq_updated_at := stamp\<rparr>)"
  by (simp add: item_ok_def)

lemma published_contract: "unleased_swap ft project task generation_text
  (\<lambda>e. complete_task_publication ft project task e head stamp)"
  apply (rule unleased_contract[OF complete_task_publication_def[unfolded Let_def]])
   apply (rule safe_update, intro conjI)
      apply (erule observable_row_ok)
     apply (simp_all add: key_of_def)
  apply (simp_all add: idle_ready_def)
  done

interpretation published: unleased_swap ft project task generation_text
  "\<lambda>e. complete_task_publication ft project task e head stamp"
  by (rule published_contract)

lemma normalized_row_ok:
  assumes "item_ok h r" and "iq_lease_owner r = None" and "plain_text head" and "plain_text landed"
    and "pred_option plain_text predecessor"
  shows "item_ok (h + 1) (r\<lparr>iq_state := ''integrated'', iq_head_sha := head, iq_base_sha := base,
    iq_rebased_from_head_sha := predecessor, iq_integrated_sha := Some landed, iq_history_sequence := h + 1,
    iq_updated_at := stamp, iq_last_error := None, iq_retry_forced := False, iq_next_retry_at := None,
    iq_rebase_intent_pending := False, iq_rebased_publication_pending := False\<rparr>)"
  using assms by (auto simp: item_ok_def)

lemma landed_predecessor: "item_ok h i \<Longrightarrow> pred_option plain_text
    (if iq_head_sha i \<noteq> head then Some (iq_head_sha i) else iq_rebased_from_head_sha i)"
  by (simp add: item_ok_def)

lemma normalizing_contract: "unleased_swap ft project task py_strip
  (\<lambda>e. normalize_legacy_tracker_checkpoint ft project task e branch head integrated_sha base_sha stamp)"
  apply (rule unleased_contract[OF normalize_legacy_tracker_checkpoint_def[unfolded Let_def]])
   apply (rule safe_landing[unfolded Let_def], intro conjI)
      apply (rule normalized_row_ok)
          apply assumption
         apply blast
        apply (rule plain_text_strip, force)
       apply (rule plain_text_strip, force)
      apply (erule landed_predecessor)
     apply (simp_all add: key_of_def)
  done

interpretation normalizing: unleased_swap ft project task py_strip
  "\<lambda>e. normalize_legacy_tracker_checkpoint ft project task e branch head integrated_sha base_sha stamp"
  by (rule normalizing_contract)

interpretation consuming: unleased_swap ft project task generation_text
  "\<lambda>e s. (fst (consume_retry_generation ft project task e stamp s),
     fst (snd (consume_retry_generation ft project task e stamp s)))"
proof (rule unleased_contract)
  show "(fst (consume_retry_generation ft project task e stamp s),
      fst (snd (consume_retry_generation ft project task e stamp s)))
    = (if generation_text e = [] then (s, None)
       else cas_item ft project task (generation_text e)
            (\<lambda>i. idle_ready i \<and> \<not> iq_rebased_publication_pending i \<and> \<not> iq_rebase_intent_pending i)
            (\<lambda>i s. if \<not> iq_retry_forced i then s
               else update_items (\<lambda>r. at_key project task r \<and> idle_ready r)
                 (\<lambda>r. r\<lparr>iq_retry_forced := False, iq_updated_at := stamp\<rparr>) s) s)" for e s
    by (simp add: consume_retry_generation_def Let_def split: prod.split option.split)
qed ((rule safe_if, rule safe_update)?, auto simp: item_facts)

interpretation recovering: generation_swap ft project task generation_text
  "\<lambda>e. recover_task_generation ft project task e now stamp"
  by (rule guarded_contract[OF recover_task_generation_def[unfolded Let_def]], rule safe_update)
    (auto simp: item_facts)

lemma finish_safe:
  assumes "normalized \<in> {''ready'', ''blocked'', ''integrated'', ''cancelled''}"
  shows "safe_write project task (\<lambda>i. idle_ready i \<and> \<not> iq_rebased_publication_pending i \<and> \<not> iq_rebase_intent_pending i)
    (\<lambda>i s. let (s, history) = (if normalized = ''integrated'' then next_history_sequence s else (s, 0))
       in update_items (\<lambda>r. at_key project task r \<and> idle_ready r)
         (\<lambda>r. r\<lparr>iq_state := normalized, iq_lease_owner := None, iq_lease_expires_at := None,
            iq_attempts := iq_attempts r + 1, iq_updated_at := stamp, iq_last_error := error_text,
            iq_retry_forced := False, iq_next_retry_at := retry_at,
            iq_integrated_sha := (if normalized = ''integrated'' then stripped_or_none integrated_sha else None),
            iq_rebase_intent_pending := False, iq_rebased_publication_pending := False,
            iq_history_sequence := history\<rparr>) s)"
proof -
  have sha: "pred_option plain_text (stripped_or_none integrated_sha)"
    by (cases "stripped_or_none integrated_sha") (auto dest: stripped_or_none_plain)
  show ?thesis
  proof (cases "normalized = ''integrated''")
    case True
    show ?thesis unfolding if_P[OF True]
      by (rule safe_landing) (auto simp: item_facts sha True)
  next
    case False
    show ?thesis unfolding if_not_P[OF False] Let_def case_prod_conv
      using assms False by (intro safe_update) (auto simp: item_facts)
  qed
qed

interpretation finishing: unleased_swap ft project task generation_text
  "\<lambda>e. finish_task_generation ft project task e state error_text retry_at integrated_sha stamp"
  by (rule unleased_contract[OF finish_task_generation_def[unfolded Let_def]], rule finish_safe[unfolded Let_def])
    (auto simp: item_facts)

text \<open>A retirement returns the row only when it is the retired one.\<close>

lemma retire_safe: "safe_write project task (retirable message action) (\<lambda>_. retire_item project task message stamp)"
  unfolding retire_item_def by (rule safe_update) (auto simp: item_facts)

interpretation retiring: unleased_swap ft project task generation_text
  "\<lambda>e. retire_task_generation ft project task e reason action stamp"
proof (rule unleased_swap.intro[OF swap_contract])
  fix e s
  let ?cas = "cas_item ft project task (generation_text e) (retirable (py_strip reason) action)
    (\<lambda>_. retire_item project task (py_strip reason) stamp) s"
  have "retire_task_generation ft project task e reason action stamp s = (s, None)
      \<or> fst (retire_task_generation ft project task e reason action stamp s) = fst ?cas
        \<and> snd (retire_task_generation ft project task e reason action stamp s) \<in> {None, snd ?cas}"
    by (cases ?cas; cases "snd ?cas") (auto simp: retire_task_generation_def Let_def)
  then show "retire_task_generation ft project task e reason action stamp s = (s, None)
    \<or> safe_write project task (retirable (py_strip reason) action) (\<lambda>_. retire_item project task (py_strip reason) stamp)
      \<and> swaps ft project task (generation_text e) (retirable (py_strip reason) action)
        (\<lambda>_. retire_item project task (py_strip reason) stamp) s (retire_task_generation ft project task e reason action stamp s)"
    using retire_safe by (auto simp: swaps_def intro!: exI[of _ "snd ?cas"])
next
  show "unleased_swap_axioms project task (\<lambda>e. retire_task_generation ft project task e reason action stamp)"
  proof
    fix s r e
    assume r: "queue_ok s" "r \<in> set (qu_rows s)" "key_of r = (project, task)" "iq_lease_owner r \<noteq> None"
    then have "\<not> retirable (py_strip reason) action r" by (auto simp: retirable_def)
    from cas_refuses[where guard = "retirable (py_strip reason) action", OF r(1-3) this]
    show "retire_task_generation ft project task e reason action stamp s = (s, None)"
      by (simp add: retire_task_generation_def Let_def)
  qed
qed

end
