(* ===== verification/QueueRuns.thy ===== *)
theory QueueRuns
  imports QueueMachine
begin

text \<open>
  The steps of the integration queue, the invariant of every run, and what a step of one caller may do to
  the lease of another.
\<close>

section \<open>The other calls keep the invariant\<close>

lemma released_row_ok: "item_ok h r \<Longrightarrow> iq_state r = ''integrating'' \<Longrightarrow> item_ok h (released_row stamp r)"
  by (simp add: item_ok_def released_row_def)

lemma released_row_same: "key_of (released_row stamp r) = key_of r"
  "iq_history_sequence (released_row stamp r) = iq_history_sequence r"
  by (simp_all add: released_row_def key_of_def)

lemma release_ok:
  assumes "queue_ok s" and "\<And>r. p r \<Longrightarrow> iq_state r = ''integrating''"
  shows "queue_ok (update_items p (released_row stamp) s)"
  using assms by (intro update_ok) (auto simp: released_row_ok released_row_same)

lemma lease_expired_running: "lease_expired now r \<Longrightarrow> iq_state r = ''integrating''"
  by (simp add: lease_expired_def)

lemma expired_ok: "queue_ok s \<Longrightarrow> queue_ok (expire_leases now stamp s)"
  unfolding expire_leases_def by (rule release_ok) (simp_all add: lease_expired_running)

lemma record_candidate_ok:
  assumes "queue_ok s"
  shows "queue_ok (fst (record_candidate project task owner head candidate c b stamp s))"
  using update_ok[OF assms, of _ "\<lambda>r. r\<lparr>iq_candidate_head_sha := Some (py_lower (py_strip c)),
      iq_candidate_base_sha := Some (py_lower (py_strip b)), iq_updated_at := stamp\<rparr>"] assms
  by (simp add: record_candidate_def Let_def) (auto simp: item_ok_def key_of_def)

lemma claimed_item_ok:
  "item_ok h r \<Longrightarrow> iq_state r = ''ready'' \<Longrightarrow> item_ok h (claimed_item c now stamp r)"
  by (simp add: item_ok_def claimed_item_def)

lemma claimed_item_same: "key_of (claimed_item c now stamp r) = key_of r"
  "iq_history_sequence (claimed_item c now stamp r) = iq_history_sequence r"
  by (simp_all add: claimed_item_def key_of_def)

text \<open>Under the invariant the guarded update of a claim hits exactly the selected row.\<close>

definition choice :: "queue_claim \<Rightarrow> real \<Rightarrow> queue \<Rightarrow> queue_item option" where
  "choice c now s = find (unblocked c) (sort_key item_order (filter (due_item c now) (qu_rows s)))"

lemma find_member: "find p xs = Some x \<Longrightarrow> x \<in> set xs \<and> p x"
  by (induction xs) (auto split: if_splits)

lemma choice_some:
  assumes "choice c now s = Some sel"
  shows "sel \<in> set (qu_rows s)" and "due_item c now sel" and "unblocked c sel"
  using assms find_member[of "unblocked c" "sort_key item_order (filter (due_item c now) (qu_rows s))" sel]
  by (simp_all add: choice_def)

lemma count_one:
  assumes "queue_ok s" and "r \<in> set (qu_rows s)" and "p r" and "\<And>q. p q \<Longrightarrow> key_of q = key_of r"
  shows "item_count p s = 1"
proof -
  have "distinct (qu_rows s)" using queue_okD(1)[OF assms(1)] by (simp add: distinct_map)
  then have "item_count p s = card (set (filter p (qu_rows s)))"
    by (simp add: item_count_def distinct_card del: set_filter)
  also have "set (filter p (qu_rows s)) = {r}"
    using assms(2,3,4) row_key_unique[OF assms(1)] by auto
  finally show ?thesis by simp
qed

lemma get_after_update:
  assumes ok: "queue_ok (update_items p f s)" and r: "r \<in> set (qu_rows s)" "p r" and k: "key_of (f r) = (project, task)"
  shows "queue_get project task (update_items p f s) = Some (f r)"
  using queue_get_iff[OF ok, of project task "f r"] r k by (force simp: update_rows_set)

lemma claim_write_ok: "queue_ok s \<Longrightarrow>
    queue_ok (update_items (\<lambda>r. at_key project task r \<and> iq_state r = ''ready'') (claimed_item c now stamp) s)"
  by (intro update_ok) (auto simp: claimed_item_ok claimed_item_same)

lemma claim_next_eq:
  assumes ok: "queue_ok s" and s1: "s1 = expire_leases now stamp s"
  shows "queue_claim_next c now stamp s = (case choice c now s1 of None \<Rightarrow> (s1, None)
    | Some sel \<Rightarrow> (update_items (\<lambda>r. at_key (qc_project_id c) (iq_task_id sel) r \<and> iq_state r = ''ready'')
          (claimed_item c now stamp) s1,
        Some ((claimed_item c now stamp sel)\<lparr>iq_claimed_retry_forced := iq_retry_forced sel\<rparr>)))"
proof (cases "choice c now s1")
  case None
  then show ?thesis by (simp add: queue_claim_next_def Let_def choice_def s1)
next
  case (Some sel)
  have ok1: "queue_ok s1" using expired_ok[OF ok] by (simp add: s1)
  note sel = choice_some[OF Some]
  let ?p = "\<lambda>r. at_key (qc_project_id c) (iq_task_id sel) r \<and> iq_state r = ''ready''"
  have k: "key_of sel = (qc_project_id c, iq_task_id sel)" "iq_state sel = ''ready''"
    using sel(2) by (simp_all add: due_item_def key_of_def)
  have one: "item_count ?p s1 = 1" using k by (intro count_one[OF ok1 sel(1)]) (auto simp: at_key_iff)
  have get: "queue_get (qc_project_id c) (iq_task_id sel) (update_items ?p (claimed_item c now stamp) s1)
      = Some (claimed_item c now stamp sel)"
    using k by (intro get_after_update[OF claim_write_ok[OF ok1] sel(1)]) (simp_all add: at_key_iff claimed_item_same)
  have flag: "\<not> iq_claimed_retry_forced (claimed_item c now stamp sel)"
    using queue_okD(2)[OF ok1 sel(1)] by (simp add: item_ok_def claimed_item_def)
  have found: "find (unblocked c) (sort_key item_order (filter (due_item c now) (qu_rows (expire_leases now stamp s)))) = Some sel"
    using Some by (simp add: choice_def s1)
  show ?thesis
    unfolding queue_claim_next_def Let_def found using one get flag Some by (auto simp: s1)
qed

lemma claim_next_ok:
  assumes ok: "queue_ok s"
  shows "queue_ok (fst (queue_claim_next c now stamp s))"
proof (cases "choice c now (expire_leases now stamp s)")
  case None
  then show ?thesis using expired_ok[OF ok] by (simp add: claim_next_eq[OF ok refl])
next
  case (Some sel)
  then show ?thesis using claim_write_ok[OF expired_ok[OF ok]] by (simp add: claim_next_eq[OF ok refl])
qed

lemma finish_item_ok:
  assumes ok: "queue_ok s" and "state \<in> {''ready'', ''blocked'', ''integrated''}"
  shows "queue_ok (fst (finish_item project task owner state err retry stamp s))"
proof (cases "state = ''integrated''")
  case True
  let ?f = "\<lambda>r. r\<lparr>iq_state := state, iq_lease_owner := None, iq_lease_expires_at := None, iq_updated_at := stamp,
    iq_last_error := err, iq_next_retry_at := retry, iq_history_sequence := qu_history s + 1\<rparr>"
  have "queue_ok (update_items (owned_by project task owner) ?f (s\<lparr>qu_history := qu_history s + 1\<rparr>))"
    by (rule landing_ok[OF ok, where k = "(project, task)"])
      (simp_all add: owned_by_def at_key_iff True, simp add: item_ok_def key_of_def)
  then show ?thesis using ok by (simp add: finish_item_def Let_def True next_history_sequence_def)
next
  case False
  let ?f = "\<lambda>r. r\<lparr>iq_state := state, iq_lease_owner := None, iq_lease_expires_at := None, iq_updated_at := stamp,
    iq_last_error := err, iq_next_retry_at := retry, iq_history_sequence := 0\<rparr>"
  have "queue_ok (update_items (owned_by project task owner) ?f s)"
    using assms(2) False by (intro update_ok[OF ok]) (auto simp: item_ok_def key_of_def)
  then show ?thesis using ok False by (simp add: finish_item_def Let_def)
qed

lemma checkpoint_ok:
  assumes ok: "queue_ok s"
  shows "queue_ok (fst (checkpoint_legacy_integration project task owner branch head rebased landed base stamp s))"
proof (cases "[] \<in> set [py_strip owner, py_strip branch, py_strip head, py_strip rebased, py_strip landed]")
  case False
  show ?thesis
  proof (cases "queue_get project task s")
    case (Some item)
    then have item: "item_ok (qu_history s) item" using queue_get_iff[OF ok] queue_okD(2)[OF ok] by blast
    have texts: "plain_text (py_strip head)" "plain_text (py_strip rebased)" "plain_text (py_strip landed)"
      using False by (auto intro: plain_text_strip)
    define pred where "pred = (if py_strip head \<noteq> py_strip rebased then Some (py_strip head)
      else iq_rebased_from_head_sha item)"
    have p: "pred_option plain_text pred" using item texts by (simp add: pred_def item_ok_def)
    let ?f = "\<lambda>r. r\<lparr>iq_state := ''integrated'', iq_head_sha := py_strip rebased,
       iq_base_sha := or_else_text (stripped_or_none base) (iq_base_sha item), iq_rebased_from_head_sha := pred,
       iq_integrated_sha := Some (py_strip landed), iq_history_sequence := qu_history s + 1,
       iq_lease_owner := None, iq_lease_expires_at := None, iq_updated_at := stamp, iq_last_error := None,
       iq_retry_forced := False, iq_next_retry_at := None, iq_rebase_intent_pending := False,
       iq_rebased_publication_pending := False\<rparr>"
    have "queue_ok (update_items (\<lambda>r. owned_by project task (py_strip owner) r \<and> iq_task_branch r = py_strip branch
        \<and> iq_head_sha r = py_strip head) ?f (s\<lparr>qu_history := qu_history s + 1\<rparr>))"
      by (rule landing_ok[OF ok, where k = "(project, task)"])
        (simp_all add: owned_by_def at_key_iff, simp add: item_ok_def key_of_def texts p)
    then show ?thesis using ok False Some
      by (simp add: checkpoint_legacy_integration_def Let_def next_history_sequence_def pred_def)
  next
    case None
    then show ?thesis using ok by (simp add: checkpoint_legacy_integration_def Let_def)
  qed
next
  case True
  then show ?thesis using ok by (auto simp: checkpoint_legacy_integration_def Let_def)
qed

lemma preflight_ok:
  assumes "queue_ok s"
  shows "queue_ok (fst (block_preflight project task reason head stamp s))"
  unfolding block_preflight_def Let_def fst_conv
  by (rule update_ok[OF assms]) (simp add: item_ok_def key_of_def)

lemma queue_cancel_ok:
  assumes "queue_ok s"
  shows "queue_ok (fst (queue_cancel project task reason head state epic branch base stamp s))"
  unfolding queue_cancel_def Let_def fst_conv
  by (rule update_ok[OF assms]) (simp add: item_ok_def key_of_def)

lemma restore_ok:
  assumes "queue_ok s"
  shows "queue_ok (fst (restore_cancelled ft project task head branch epic base_branch base gen stamp s))"
proof (cases "queue_get project task s")
  case (Some item)
  then show ?thesis
    unfolding restore_cancelled_def Some Let_def option.case(2)
    by (split if_split) (auto intro!: update_ok[OF assms] simp: assms, auto simp: item_ok_def key_of_def)
qed (simp add: restore_cancelled_def assms)

lemma tracker_failure_ok:
  assumes "queue_ok s"
  shows "queue_ok (fst (retry_integrated_after_tracker_failure project task head candidate err stamp s))"
  unfolding retry_integrated_after_tracker_failure_def Let_def fst_conv
  by (rule update_ok[OF assms]) (simp add: item_ok_def key_of_def)

section \<open>Steps\<close>

text \<open>
  What a step is to the lease of a row: a claim or a recovery at some time, the work of an owner, a call
  that names no lease, or one that is meant to take leases away (a replacement, a cancellation, a restart).
\<close>

datatype queue_event =
    Claims string real
  | Sweeps real
  | Works string
  | Swaps
  | Overrides

inductive unleased_call :: "(real \<Rightarrow> string) \<Rightarrow> string \<Rightarrow> string \<Rightarrow> (string \<Rightarrow> queue \<Rightarrow> queue \<times> queue_item option) \<Rightarrow> bool"
  for ft project task where
  call_replace: "unleased_call ft project task
    (\<lambda>e. replace_task_identity ft project task e epic branch head base_branch base_sha priority submitted stamp)"
| call_retire: "unleased_call ft project task (\<lambda>e. retire_task_generation ft project task e reason action stamp)"
| call_rebase: "unleased_call ft project task (\<lambda>e. prepare_task_rebase ft project task e base stamp)"
| call_abort: "unleased_call ft project task (\<lambda>e. abort_task_rebase ft project task e stamp)"
| call_publish: "unleased_call ft project task (\<lambda>e. prepare_task_publication ft project task e head base_sha stamp)"
| call_published: "unleased_call ft project task (\<lambda>e. complete_task_publication ft project task e head stamp)"
| call_consume: "unleased_call ft project task
    (\<lambda>e s. (fst (consume_retry_generation ft project task e stamp s),
       fst (snd (consume_retry_generation ft project task e stamp s))))"
| call_finish: "unleased_call ft project task
    (\<lambda>e. finish_task_generation ft project task e state error_text retry_at integrated_sha stamp)"
| call_normalize: "unleased_call ft project task
    (\<lambda>e. normalize_legacy_tracker_checkpoint ft project task e branch head integrated_sha base_sha stamp)"

inductive queue_step :: "(real \<Rightarrow> string) \<Rightarrow> queue_event \<Rightarrow> queue \<Rightarrow> queue \<Rightarrow> bool" for ft where
  step_enqueue: "queue_enqueue a explicit_retry rearm_integrated retry_at preserve stamp s = Inr (s', row)
    \<Longrightarrow> queue_step ft Overrides s s'"
| step_enqueue_if_absent: "enqueue_if_absent a stamp s = Inr (s', res) \<Longrightarrow> queue_step ft Swaps s s'"
| step_swap: "unleased_call ft project task call \<Longrightarrow> queue_step ft Swaps s (fst (call e s))"
| step_recover_task: "queue_step ft (Sweeps now) s (fst (recover_task_generation ft project task e now stamp s))"
| step_recover_expired: "queue_step ft (Sweeps now) s (fst (queue_recover_expired now stamp s))"
| step_recover_abandoned: "queue_step ft Overrides s (fst (queue_recover_abandoned stamp s))"
| step_claim: "queue_step ft (Claims (qc_lease_owner c) now) s (fst (queue_claim_next c now stamp s))"
| step_candidate: "queue_step ft (Works owner) s
    (fst (record_candidate project task owner head candidate c b stamp s))"
| step_complete: "queue_step ft (Works owner) s (fst (queue_complete project task owner stamp s))"
| step_fail: "queue_step ft (Works owner) s (fst (queue_fail project task owner err retryable retry_at stamp s))"
| step_checkpoint: "queue_step ft (Works (py_strip owner)) s
    (fst (checkpoint_legacy_integration project task owner branch head rebased landed base stamp s))"
| step_preflight: "queue_step ft Swaps s (fst (block_preflight project task reason expected stamp s))"
| step_cancel: "queue_step ft Overrides s (fst (queue_cancel project task why head state epic branch base stamp s))"
| step_restore: "queue_step ft Swaps s
    (fst (restore_cancelled ft project task head branch epic base_branch base generation stamp s))"
| step_tracker_failure: "queue_step ft Swaps s
    (fst (retry_integrated_after_tracker_failure project task head candidate err stamp s))"

lemma finish_calls_ok:
  assumes "queue_ok s"
  shows "queue_ok (fst (queue_complete project task owner stamp s))"
    and "queue_ok (fst (queue_fail project task owner err retryable retry_at stamp s))"
  using finish_item_ok[OF assms] by (simp_all add: queue_complete_def queue_fail_def)

lemma recoveries_ok:
  assumes "queue_ok s"
  shows "queue_ok (fst (queue_recover_expired now stamp s))" and "queue_ok (fst (queue_recover_abandoned stamp s))"
  using expired_ok[OF assms] release_ok[OF assms]
  by (simp_all add: queue_recover_expired_def queue_recover_abandoned_def Let_def)

lemma unleased_call_ok: "unleased_call ft project task call \<Longrightarrow> queue_ok s \<Longrightarrow> queue_ok (fst (call e s))"
  by (induction rule: unleased_call.induct)
    (erule replacing.keeps retiring.keeps rebasing.keeps aborting.keeps publishing.keeps published.keeps
      consuming.keeps finishing.keeps normalizing.keeps)+

lemma queue_step_ok:
  assumes "queue_step ft ev s s'" and ok: "queue_ok s"
  shows "queue_ok s'"
  using assms(1)
proof cases
  case (step_swap project task call e)
  then show ?thesis using unleased_call_ok ok by blast
qed (simp_all add: enqueue_ok[OF ok] enqueue_if_absent_ok[OF ok] recovering.keeps[OF ok] recoveries_ok[OF ok]
    claim_next_ok[OF ok] record_candidate_ok[OF ok] finish_calls_ok[OF ok] checkpoint_ok[OF ok] preflight_ok[OF ok]
    queue_cancel_ok[OF ok] restore_ok[OF ok] tracker_failure_ok[OF ok])

lemma empty_queue_ok: "queue_ok empty_queue"
  by (simp add: queue_ok_def empty_queue_def owned_positions_def)

interpretation queue_runs: inductive_invariant "\<lambda>s s'. \<exists>ev. queue_step ft ev s s'" empty_queue queue_ok
  by unfold_locales (auto intro: queue_step_ok empty_queue_ok)

text \<open>Opening the store again changes nothing that a run has built.\<close>

lemma reopen_id:
  assumes "queue_ok s"
  shows "reopen_queue s = s"
proof -
  have rows: "iq_history_sequence r \<le> qu_history s" "\<not> (iq_state r = ''integrated'' \<and> iq_history_sequence r = 0)"
    if "r \<in> set (qu_rows s)" for r
    using queue_okD(2)[OF assms that] by (auto simp: item_ok_def)
  have "foldr max (map iq_history_sequence rs) 0 \<le> qu_history s" if "set rs \<subseteq> set (qu_rows s)" for rs
    using that rows(1) by (induction rs) auto
  then have "max (foldr max (map iq_history_sequence (qu_rows s)) 0) (qu_history s) = qu_history s" by (simp add: max_absorb2)
  moreover have "filter (\<lambda>r. iq_state r = ''integrated'' \<and> iq_history_sequence r = 0) (qu_rows s) = []"
    using rows(2) by (simp add: filter_empty_conv)
  ultimately show ?thesis unfolding reopen_queue_def by (simp only: Let_def) simp
qed

end
