(* ===== verification/QueueLeases.thy ===== *)
theory QueueLeases
  imports QueueRuns
begin

text \<open>
  What a step may do to a lease: whom each event spares, that a lease appears only by a claim, and that
  landings take increasing positions of the history.
\<close>

section \<open>Whom a step spares\<close>

fun spares :: "queue_event \<Rightarrow> queue_item \<Rightarrow> bool" where
  "spares (Claims owner now) r = (\<exists>t. iq_lease_expires_at r = Some t \<and> now < t)"
| "spares (Sweeps now) r = (\<exists>t. iq_lease_expires_at r = Some t \<and> now < t)"
| "spares (Works owner) r = (iq_lease_owner r \<noteq> Some owner)"
| "spares Swaps r = True"
| "spares Overrides r = False"

lemma kept_update: "r \<in> set (qu_rows s) \<Longrightarrow> \<not> p r \<Longrightarrow> r \<in> set (qu_rows (update_items p f s))"
  by (force simp: update_rows_set)

lemma kept_history [simp]: "qu_rows (s\<lparr>qu_history := n\<rparr>) = qu_rows s"
  by simp

lemma leased_integrating: "queue_ok s \<Longrightarrow> r \<in> set (qu_rows s) \<Longrightarrow> iq_lease_owner r \<noteq> None
    \<Longrightarrow> iq_state r = ''integrating'' \<and> (\<exists>t. iq_lease_expires_at r = Some t)"
  using queue_okD(2)[of s r] by (auto simp: item_ok_def)

lemma finish_item_kept: "r \<in> set (qu_rows s) \<Longrightarrow> iq_lease_owner r \<noteq> Some owner
    \<Longrightarrow> r \<in> set (qu_rows (fst (finish_item project task owner state err retry stamp s)))"
  by (auto simp: finish_item_def Let_def next_history_sequence_def owned_by_def intro: kept_update)

lemma unleased_call_kept: "unleased_call ft project task call \<Longrightarrow> queue_ok s \<Longrightarrow> r \<in> set (qu_rows s) \<Longrightarrow> iq_lease_owner r \<noteq> None
    \<Longrightarrow> r \<in> set (qu_rows (fst (call e s)))"
  by (induction rule: unleased_call.induct)
    (erule (2) replacing.leased_rows_kept retiring.leased_rows_kept rebasing.leased_rows_kept aborting.leased_rows_kept
      publishing.leased_rows_kept published.leased_rows_kept consuming.leased_rows_kept finishing.leased_rows_kept
      normalizing.leased_rows_kept)+

lemma expire_kept:
  assumes "r \<in> set (qu_rows s)" and "iq_lease_expires_at r = Some t" and "now < t"
  shows "r \<in> set (qu_rows (expire_leases now stamp s))"
  unfolding expire_leases_def using assms by (intro kept_update) (auto simp: lease_expired_def)

lemma claim_kept:
  assumes ok: "queue_ok s" and r: "r \<in> set (qu_rows s)" "iq_lease_owner r \<noteq> None" "iq_lease_expires_at r = Some t" "now < t"
  shows "r \<in> set (qu_rows (fst (queue_claim_next c now stamp s)))"
proof -
  have "r \<in> set (qu_rows (expire_leases now stamp s))" using expire_kept r by blast
  moreover have "iq_state r \<noteq> ''ready''" using leased_integrating[OF ok r(1,2)] by simp
  ultimately show ?thesis
    by (cases "choice c now (expire_leases now stamp s)")
      (simp_all add: claim_next_eq[OF ok refl] kept_update)
qed

lemma recover_task_kept:
  assumes ok: "queue_ok s" and r: "r \<in> set (qu_rows s)" "iq_lease_expires_at r = Some t" "now < t"
  shows "r \<in> set (qu_rows (fst (recover_task_generation ft project task e now stamp s)))"
proof (cases "key_of r = (project, task)")
  case True
  let ?g = "\<lambda>i. iq_state i = ''integrating'' \<and> (case iq_lease_expires_at i of None \<Rightarrow> False | Some t \<Rightarrow> \<not> now < t)"
  have "\<not> ?g r" using r by simp
  from cas_refuses[where guard = ?g, OF ok r(1) True this]
  show ?thesis using r(1) by (simp add: recover_task_generation_def Let_def)
next
  case False
  then show ?thesis using recovering.others[OF ok r(1)] by blast
qed

lemma enqueue_if_absent_kept:
  "enqueue_if_absent a stamp s = Inr (s', res) \<Longrightarrow> r \<in> set (qu_rows s) \<Longrightarrow> r \<in> set (qu_rows s')"
  by (auto simp: enqueue_if_absent_def ebind_eq_Inr_iff Let_def split: option.splits)

lemma restore_kept:
  assumes "r \<in> set (qu_rows s)" and "iq_state r = ''integrating''"
  shows "r \<in> set (qu_rows (fst (restore_cancelled ft project task head branch epic base_branch base generation stamp s)))"
proof (cases "queue_get project task s")
  case (Some item)
  then show ?thesis using assms
    by (simp add: restore_cancelled_def Let_def kept_update)
qed (simp add: restore_cancelled_def assms)

lemma step_keeps_lease:
  assumes "queue_step ft ev s s'" and ok: "queue_ok s" and r: "r \<in> set (qu_rows s)" "iq_lease_owner r \<noteq> None"
    and spared: "spares ev r"
  shows "r \<in> set (qu_rows s')"
  using assms(1)
proof cases
  case (step_swap project task call e)
  then show ?thesis using unleased_call_kept ok r by blast
next
  case (step_enqueue_if_absent a stamp res)
  then show ?thesis using enqueue_if_absent_kept r by blast
next
  case (step_recover_task now project task e stamp)
  then show ?thesis using recover_task_kept[OF ok r(1)] spared by auto
next
  case (step_recover_expired now stamp)
  then show ?thesis using expire_kept[OF r(1)] spared by (auto simp: queue_recover_expired_def)
next
  case (step_claim c now stamp)
  then show ?thesis using claim_kept[OF ok r] spared by auto
next
  case (step_candidate owner project task head candidate c b stamp)
  then show ?thesis using r spared by (auto simp: record_candidate_def Let_def intro: kept_update)
next
  case (step_checkpoint owner project task branch head rebased landed base stamp)
  then show ?thesis using r spared
    by (auto simp: checkpoint_legacy_integration_def Let_def next_history_sequence_def owned_by_def
        split: option.splits intro: kept_update)
next
  case (step_complete owner project task stamp)
  then show ?thesis using r spared finish_item_kept by (simp add: queue_complete_def)
next
  case (step_fail owner project task err retryable retry_at stamp)
  then show ?thesis using r spared finish_item_kept by (simp add: queue_fail_def)
next
  case (step_preflight project task reason expected stamp)
  then show ?thesis using r leased_integrating[OF ok r]
    by (auto simp: block_preflight_def Let_def intro: kept_update)
next
  case (step_restore project task head branch epic base_branch base generation stamp)
  then show ?thesis using restore_kept r(1) leased_integrating[OF ok r] by simp
next
  case (step_tracker_failure project task head candidate err stamp)
  then show ?thesis using r leased_integrating[OF ok r]
    by (auto simp: retry_integrated_after_tracker_failure_def Let_def intro: kept_update)
qed (use spared in simp_all)

section \<open>What a step writes\<close>

definition written_by :: "queue_event \<Rightarrow> queue \<Rightarrow> queue_item \<Rightarrow> bool" where
  "written_by ev s r \<longleftrightarrow> r \<in> set (qu_rows s)
     \<or> iq_lease_owner r = None \<and> (iq_state r = ''integrated'' \<longrightarrow> qu_history s < iq_history_sequence r)
     \<or> iq_state r = ''integrating'' \<and> ((\<exists>owner now. ev = Claims owner now \<and> iq_lease_owner r = Some owner)
         \<or> (\<exists>q \<in> set (qu_rows s). key_of q = key_of r \<and> iq_lease_owner q = iq_lease_owner r))"

lemma later_written: "later s s' \<Longrightarrow> r \<in> set (qu_rows s') \<Longrightarrow> qu_history s \<le> qu_history s' \<and> written_by ev s r"
  by (auto simp: later_def written_by_def)

lemma unleased_call_later: "unleased_call ft project task call \<Longrightarrow> queue_ok s \<Longrightarrow> later s (fst (call e s))"
  by (induction rule: unleased_call.induct)
    (erule replacing.lands retiring.lands rebasing.lands aborting.lands publishing.lands published.lands
      consuming.lands finishing.lands normalizing.lands)+

lemma release_later: "later s (update_items p (released_row stamp) s)"
  by (rule later_update) (simp add: released_row_def)

lemma submitted_later: "later s (update_items p (\<lambda>_. submitted_row v a f t stamp) s)"
  by (rule later_update) (simp add: submitted_row_def)

lemma inserted_later: "later s (s\<lparr>qu_rows := qu_rows s @ [submitted_row v a f t stamp]\<rparr>)"
  by (auto simp: later_def submitted_row_def)

lemma enqueue_later:
  assumes "queue_enqueue a explicit_retry rearm_integrated retry_at preserve stamp s = Inr (s', row)"
  shows "later s s'"
  using assms by (cases rule: enqueue_cases) (auto simp: submitted_later inserted_later)

lemma enqueue_if_absent_later: "enqueue_if_absent a stamp s = Inr (s', res) \<Longrightarrow> later s s'"
  by (auto simp: enqueue_if_absent_def ebind_eq_Inr_iff Let_def inserted_later split: option.splits)

lemma finish_item_later: "later s (fst (finish_item project task owner state err retry stamp s))"
proof (cases "state = ''integrated''")
  case True
  then show ?thesis
    by (auto simp: finish_item_def Let_def next_history_sequence_def intro!: later_landing[simplified])
next
  case False
  then show ?thesis by (auto simp: finish_item_def Let_def intro!: later_update)
qed

lemma checkpoint_later:
  "later s (fst (checkpoint_legacy_integration project task owner branch head rebased landed base stamp s))"
  by (auto simp: checkpoint_legacy_integration_def Let_def next_history_sequence_def split: option.splits
      intro!: later_landing[simplified])

lemma fencing_later:
  "later s (fst (block_preflight project task reason expected stamp s))"
  "later s (fst (queue_cancel project task why head0 state epic branch base stamp s))"
  "later s (fst (retry_integrated_after_tracker_failure project task head candidate err stamp s))"
  by (simp_all add: block_preflight_def queue_cancel_def retry_integrated_after_tracker_failure_def Let_def later_update)

lemma restore_later:
  "later s (fst (restore_cancelled ft project task head branch epic base_branch base generation stamp s))"
  by (cases "queue_get project task s") (simp_all add: restore_cancelled_def Let_def later_update)

lemma claim_written:
  assumes ok: "queue_ok s" and r: "r \<in> set (qu_rows (fst (queue_claim_next c now stamp s)))"
  shows "written_by (Claims (qc_lease_owner c) now) s r"
proof -
  let ?s1 = "expire_leases now stamp s"
  have later: "later s ?s1" by (simp add: expire_leases_def release_later)
  show ?thesis
  proof (cases "r \<in> set (qu_rows ?s1)")
    case True
    then show ?thesis using later_written[OF later] by blast
  next
    case False
    then obtain q where "r = claimed_item c now stamp q"
      using r by (cases "choice c now ?s1") (auto simp: claim_next_eq[OF ok refl] update_rows_set split: if_splits)
    then show ?thesis by (simp add: written_by_def claimed_item_def)
  qed
qed

lemma candidate_written:
  assumes "r \<in> set (qu_rows (fst (record_candidate project task owner head candidate c b stamp s)))"
  shows "written_by ev s r"
  using assms
  by (auto simp: record_candidate_def Let_def update_rows_set written_by_def key_of_def split: if_splits)

lemma claim_history: "queue_ok s \<Longrightarrow> qu_history (fst (queue_claim_next c now stamp s)) = qu_history s"
  by (cases "choice c now (expire_leases now stamp s)") (simp_all add: claim_next_eq[OF _ refl] expire_leases_def)

lemma step_writes:
  assumes "queue_step ft ev s s'" and ok: "queue_ok s"
  shows "qu_history s \<le> qu_history s' \<and> (\<forall>r \<in> set (qu_rows s'). written_by ev s r)"
proof -
  have by_later: ?thesis if "later s s'"
    using that later_written[OF that] by (auto simp: later_def)
  show ?thesis using assms(1)
  proof cases
    case (step_claim c now stamp)
    then show ?thesis using claim_written[OF ok] claim_history[OF ok] by auto
  next
    case (step_candidate owner project task head candidate c b stamp)
    then show ?thesis using candidate_written by (auto simp: record_candidate_def Let_def)
  next
    case (step_swap project task call e)
    then show ?thesis using by_later unleased_call_later ok by blast
  next
    case (step_enqueue a er ri ra pa stamp row)
    then show ?thesis using by_later enqueue_later by blast
  next
    case (step_enqueue_if_absent a stamp res)
    then show ?thesis using by_later enqueue_if_absent_later by blast
  qed (intro by_later, simp add: recovering.lands[OF ok] fencing_later restore_later checkpoint_later
      finish_item_later queue_complete_def queue_fail_def release_later queue_recover_expired_def
      queue_recover_abandoned_def expire_leases_def Let_def)+
qed

section \<open>Runs\<close>

inductive queue_run :: "(real \<Rightarrow> string) \<Rightarrow> queue \<Rightarrow> queue_event list \<Rightarrow> queue \<Rightarrow> bool" for ft where
  run_start: "queue_run ft s [] s"
| run_step: "queue_run ft s evs s' \<Longrightarrow> queue_step ft ev s' s'' \<Longrightarrow> queue_run ft s (evs @ [ev]) s''"

lemma run_ok: "queue_run ft s evs s' \<Longrightarrow> queue_ok s \<Longrightarrow> queue_ok s'"
  by (induction rule: queue_run.induct) (auto intro: queue_step_ok)

lemma run_keeps_lease:
  assumes "queue_run ft s evs s'" and "queue_ok s" and "r \<in> set (qu_rows s)" and "iq_lease_owner r \<noteq> None"
    and "\<forall>ev \<in> set evs. spares ev r"
  shows "r \<in> set (qu_rows s')"
  using assms by (induction rule: queue_run.induct) (auto dest: run_ok intro: step_keeps_lease)

text \<open>Nobody holds a lease it has not claimed.\<close>

definition holds :: "string \<Rightarrow> string \<times> string \<Rightarrow> queue \<Rightarrow> bool" where
  "holds owner key s \<longleftrightarrow> (\<exists>r \<in> set (qu_rows s). key_of r = key \<and> iq_lease_owner r = Some owner)"

lemma step_holds:
  assumes "queue_step ft ev s s'" and "queue_ok s" and "holds owner key s'" and "\<And>now. ev \<noteq> Claims owner now"
  shows "holds owner key s"
  using step_writes[OF assms(1,2)] assms(3,4) by (fastforce simp: holds_def written_by_def)

lemma run_holds:
  assumes "queue_run ft s evs s'" and "queue_ok s" and "\<not> holds owner key s" and "\<forall>ev \<in> set evs. \<forall>now. ev \<noteq> Claims owner now"
  shows "\<not> holds owner key s'"
  using assms by (induction rule: queue_run.induct) (auto dest: run_ok step_holds)

end
