(* ===== verification/QueueClaims.thy ===== *)
theory QueueClaims
  imports QueueLeases
begin

text \<open>
  The properties of the integration queue and the concrete runs that witness them.
\<close>

section \<open>The calls over the invariant\<close>

lemma digest_tokens: "generation_text (authority_generation ft i) = authority_generation ft i"
  "py_strip (authority_generation ft i) = authority_generation ft i"
proof -
  have hex: "\<forall>c \<in> set ''0123456789abcdef''. \<not> is_space c \<and> lower_char c = c"
    by (simp add: char_eval)
  have "list_all (\<lambda>c. c \<in> set ''0123456789abcdef'') (authority_generation ft i)"
    using lower_hex_sha256_hex[of "item_json ft i"] by (simp only: lower_hex_def authority_generation_def)
  then have c: "\<forall>c \<in> set (authority_generation ft i). \<not> is_space c \<and> lower_char c = c"
    using hex unfolding list_all_iff by blast
  then show "py_strip (authority_generation ft i) = authority_generation ft i"
    by (intro py_strip_id) (simp add: list_all_iff)
  then show "generation_text (authority_generation ft i) = authority_generation ft i"
    using c by (simp add: generation_text_def py_lower_def map_idI)
qed

lemma owns_iff:
  assumes ok: "queue_ok s"
  shows "owns_active_lease project task branch head (Some owner) candidate now s \<longleftrightarrow>
    [] \<notin> set [py_strip project, py_strip task, py_strip branch, py_strip head, py_strip owner]
    \<and> (\<exists>r \<in> set (qu_rows s). key_of r = (py_strip project, py_strip task) \<and> iq_lease_owner r = Some (py_strip owner)
        \<and> iq_task_branch r = py_strip branch \<and> iq_head_sha r = py_strip head
        \<and> (candidate = None \<or> iq_candidate_head_sha r = candidate)
        \<and> (\<exists>t. iq_lease_expires_at r = Some t \<and> now < t))"
  (is "?l \<longleftrightarrow> ?texts \<and> (\<exists>r \<in> _. ?q r)")
proof -
  let ?p = "\<lambda>r. owned_by (py_strip project) (py_strip task) (py_strip owner) r \<and> iq_task_branch r = py_strip branch
    \<and> iq_head_sha r = py_strip head \<and> (candidate = None \<or> iq_candidate_head_sha r = candidate)"
  have owner: "py_strip (or_text (Some owner) []) = py_strip owner" by (simp add: or_text_def)
  have l: "?l \<longleftrightarrow> ?texts \<and> (case find ?p (qu_rows s) of None \<Rightarrow> False
      | Some r \<Rightarrow> (case iq_lease_expires_at r of None \<Rightarrow> False | Some t \<Rightarrow> now < t))"
    by (simp only: owns_active_lease_def Let_def owner) simp
  have p: "?q r \<longleftrightarrow> ?p r \<and> (case iq_lease_expires_at r of None \<Rightarrow> False | Some t \<Rightarrow> now < t)"
    if "r \<in> set (qu_rows s)" for r
    using leased_integrating[OF ok that] by (auto simp: owned_by_def at_key_iff split: option.splits)
  show ?thesis
  proof (cases "find ?p (qu_rows s)")
    case None
    then have "\<forall>r \<in> set (qu_rows s). \<not> ?p r" by (auto simp: find_None_iff)
    then show ?thesis unfolding l None using p by simp
  next
    case (Some r)
    have r: "r \<in> set (qu_rows s)" "?p r"
      by (rule conjunct1[OF find_member[OF Some]], rule conjunct2[OF find_member[OF Some]])
    have "q = r" if "q \<in> set (qu_rows s)" "?p q" for q
    proof (rule row_key_unique[OF ok that(1) r(1)])
      have "key_of x = (py_strip project, py_strip task)" if "?p x" for x
        using that by (simp only: owned_by_def at_key_iff)
      from this[OF that(2)] this[OF r(2)] show "key_of q = key_of r" by simp
    qed
    note unique = this
    have "(\<exists>q \<in> set (qu_rows s). ?q q) \<longleftrightarrow> (case iq_lease_expires_at r of None \<Rightarrow> False | Some t \<Rightarrow> now < t)" (is "_ \<longleftrightarrow> ?live")
    proof
      assume "\<exists>q \<in> set (qu_rows s). ?q q"
      then obtain q where q: "q \<in> set (qu_rows s)" "?q q" by blast
      from p[OF q(1)] q(2) have "?p q \<and> (case iq_lease_expires_at q of None \<Rightarrow> False | Some t \<Rightarrow> now < t)"
        by (rule iffD1)
      then show ?live using unique[OF q(1)] by metis
    next
      assume ?live
      then have "?q r" using r(2) p[OF r(1)] by blast
      then show "\<exists>q \<in> set (qu_rows s). ?q q" using r(1) by (rule bexI)
    qed
    then show ?thesis unfolding l Some by simp
  qed
qed

lemma not_holding:
  assumes "queue_ok s" and "\<not> holds owner (project, task) s"
  shows "item_count (owned_by project task owner) s = 0"
  using assms(2) by (auto simp: item_count_def holds_def owned_by_def at_key_iff filter_empty_conv)

lemma find_sorted_min: "find p (sort_key k xs) = Some x \<Longrightarrow> y \<in> set xs \<Longrightarrow> p y \<Longrightarrow> k x \<le> k y"
proof -
  have sorted_case: "find p ys = Some x \<Longrightarrow> sorted (map k ys) \<Longrightarrow> y \<in> set ys \<Longrightarrow> p y \<Longrightarrow> k x \<le> k y" for ys
    by (induction ys) (auto split: if_splits)
  assume "find p (sort_key k xs) = Some x" "y \<in> set xs" "p y"
  then show "k x \<le> k y" using sorted_case[of "sort_key k xs"] by simp
qed

lemma choice_least:
  assumes "choice c now s = Some sel" and "q \<in> set (qu_rows s)" and "due_item c now q" and "unblocked c q"
  shows "item_order sel \<le> item_order q"
  using find_sorted_min[of "unblocked c" item_order "filter (due_item c now) (qu_rows s)" sel q] assms
  by (simp add: choice_def)

lemma choice_none: "choice c now s = None \<longleftrightarrow> (\<forall>q \<in> set (qu_rows s). due_item c now q \<longrightarrow> \<not> unblocked c q)"
  by (auto simp: choice_def find_None_iff)

section \<open>The invariant\<close>

text \<open>C25. In every state the queue can reach there is one row for each project and task; a row has a lease
  exactly while it integrates; an integrated row has a position of the history, which the counter covers
  and no other row shares; the intent of a rebase and of a publication exclude each other and name the head
  they started from; heads are never blank and attempts never negative.\<close>

theorem reachable_queue_ok:
  assumes "queue_run ft empty_queue evs s"
  shows "queue_ok s"
  using run_ok[OF assms empty_queue_ok] .

section \<open>Leases\<close>

text \<open>An event that is not the work of the owner and happens no later than \<open>now\<close>.\<close>

fun bystander :: "string \<Rightarrow> real \<Rightarrow> queue_event \<Rightarrow> bool" where
  "bystander owner now (Claims other t) = (t \<le> now)"
| "bystander owner now (Sweeps t) = (t \<le> now)"
| "bystander owner now (Works other) = (other \<noteq> owner)"
| "bystander owner now Swaps = True"
| "bystander owner now Overrides = False"

lemma bystander_spares:
  assumes "bystander owner now ev" and "iq_lease_owner r = Some owner" and "iq_lease_expires_at r = Some t" and "now < t"
  shows "spares ev r"
  using assms by (cases ev) auto

text \<open>C26. A live lease survives everybody else: claims and recoveries up to the observed time, the work of
  other owners, and every compare-and-swap, preflight, restoration or recovery insert leave the holder
  its row; only the holder, a replacement, a cancellation or a restart can end it.\<close>

theorem live_lease_survives:
  assumes "queue_run ft empty_queue before s"
    and "owns_active_lease project task branch head (Some owner) candidate now s"
    and "queue_run ft s evs s'" and "\<forall>ev \<in> set evs. bystander (py_strip owner) now ev"
  shows "owns_active_lease project task branch head (Some owner) candidate now s'"
proof -
  have ok: "queue_ok s" using reachable_queue_ok[OF assms(1)] .
  obtain r t where r: "r \<in> set (qu_rows s)" "iq_lease_owner r = Some (py_strip owner)" "iq_lease_expires_at r = Some t" "now < t"
    and match: "key_of r = (py_strip project, py_strip task)" "iq_task_branch r = py_strip branch"
      "iq_head_sha r = py_strip head" "candidate = None \<or> iq_candidate_head_sha r = candidate"
    and texts: "[] \<notin> set [py_strip project, py_strip task, py_strip branch, py_strip head, py_strip owner]"
    using assms(2) unfolding owns_iff[OF ok] by blast
  have "r \<in> set (qu_rows s')"
    using run_keeps_lease[OF assms(3) ok r(1)] bystander_spares[OF _ r(2-4)] r(2) assms(4) by simp
  then show ?thesis unfolding owns_iff[OF run_ok[OF assms(3) ok]] using r match texts by blast
qed

text \<open>A lease that is gone stays gone: an owner that holds no lease on a row can neither complete nor
  fail it, record a candidate or a landing on it, nor be told that it owns it, in any later state in which
  it has not claimed again.\<close>

theorem lost_lease_is_fenced:
  assumes "queue_run ft empty_queue before s" and "\<not> holds owner (project, task) s"
    and "queue_run ft s evs s'" and "\<forall>ev \<in> set evs. \<forall>t. ev \<noteq> Claims owner t"
    and "py_strip owner = owner" and "py_strip project = project" and "py_strip task = task"
  shows "queue_complete project task owner stamp s' = (s', False)
    \<and> queue_fail project task owner err retryable retry_at stamp s' = (s', False)
    \<and> record_candidate project task owner head candidate c b stamp s' = (s', None)
    \<and> checkpoint_legacy_integration project task owner branch head rebased landed base stamp s' = (s', None)
    \<and> \<not> owns_active_lease project task branch head (Some owner) candidate now s'"
proof -
  have ok: "queue_ok s" using reachable_queue_ok[OF assms(1)] .
  have ok': "queue_ok s'" using run_ok[OF assms(3) ok] .
  have gone: "\<not> holds owner (project, task) s'" using run_holds[OF assms(3) ok assms(2,4)] .
  note none = not_holding[OF ok' gone]
  have "item_count (\<lambda>r. at_key project task r \<and> iq_state r = ''integrating'' \<and> iq_lease_owner r = Some owner
      \<and> iq_head_sha r = head \<and> iq_candidate_head_sha r = candidate) s' = 0"
    using gone by (auto simp: item_count_def holds_def at_key_iff filter_empty_conv)
  moreover have "iq_lease_owner i \<noteq> Some owner" if "queue_get project task s' = Some i" for i
    using gone that queue_get_iff[OF ok'] by (auto simp: holds_def)
  moreover have "\<not> owns_active_lease project task branch head (Some owner) candidate now s'"
    using gone unfolding owns_iff[OF ok'] assms(5-7) by (auto simp: holds_def)
  ultimately show ?thesis using none
    by (auto simp: queue_complete_def queue_fail_def finish_item_def record_candidate_def
        checkpoint_legacy_integration_def Let_def assms(5) split: option.splits)
qed

section \<open>Claims\<close>

text \<open>A claim takes the first row, by priority, submission time and task, among the due rows of its
  epic whose dependencies are all satisfied and whose attempts are within the budget, after the expired leases
  are back; it takes none exactly when there is no such row.\<close>

theorem claim_takes_the_first:
  assumes "queue_run ft empty_queue evs s" and "rows = set (qu_rows (expire_leases now stamp s))"
  shows "case snd (queue_claim_next c now stamp s) of
      None \<Rightarrow> (\<forall>q \<in> rows. due_item c now q \<longrightarrow> \<not> unblocked c q)
    | Some item \<Rightarrow> \<exists>sel \<in> rows. due_item c now sel \<and> unblocked c sel
        \<and> (\<forall>q \<in> rows. due_item c now q \<longrightarrow> unblocked c q \<longrightarrow> item_order sel \<le> item_order q)
        \<and> item = (claimed_item c now stamp sel)\<lparr>iq_claimed_retry_forced := iq_retry_forced sel\<rparr>
        \<and> claimed_item c now stamp sel \<in> set (qu_rows (fst (queue_claim_next c now stamp s)))"
proof -
  have ok: "queue_ok s" using reachable_queue_ok[OF assms(1)] .
  show ?thesis
  proof (cases "choice c now (expire_leases now stamp s)")
    case None
    then have "\<forall>q \<in> rows. due_item c now q \<longrightarrow> \<not> unblocked c q" by (simp add: choice_none assms(2))
    then show ?thesis by (simp add: claim_next_eq[OF ok refl] None)
  next
    case (Some sel)
    note sel = choice_some[OF Some]
    have "claimed_item c now stamp sel \<in> set (qu_rows (fst (queue_claim_next c now stamp s)))"
      using sel Some by (force simp: claim_next_eq[OF ok refl] update_rows_set due_item_def at_key_def)
    then show ?thesis
      using sel choice_least[OF Some] Some by (auto simp: claim_next_eq[OF ok refl] assms(2))
  qed
qed

section \<open>Progress\<close>

definition waits_for :: "queue_claim \<Rightarrow> queue_item set \<Rightarrow> (string \<times> string) set" where
  "waits_for c rows = {(d, iq_task_id r) | r d. r \<in> rows
     \<and> d \<in> set (case map_of (qc_dependency_map c) (iq_task_id r) of None \<Rightarrow> [] | Some ds \<Rightarrow> ds) - set (qc_satisfied c)}"

text \<open>An epic never deadlocks: when the due rows of an epic have attempts left, wait only for satisfied
  tasks or for one another, and do not wait in a circle, a claim leases one of them.\<close>

theorem claim_makes_progress:
  assumes "queue_run ft empty_queue evs s"
    and due: "rows = {r \<in> set (qu_rows (expire_leases now stamp s)). due_item c now r}" and "rows \<noteq> {}"
    and budget: "\<forall>r \<in> rows. \<forall>m. qc_max_attempts c = Some m \<longrightarrow> iq_attempts r < max 1 m"
    and inside: "Domain (waits_for c rows) \<subseteq> iq_task_id ` rows" and "acyclic (waits_for c rows)"
  shows "\<exists>row. snd (queue_claim_next c now stamp s) = Some row"
proof -
  have ok: "queue_ok s" using reachable_queue_ok[OF assms(1)] .
  have "finite rows" using due by simp
  have "waits_for c rows \<subseteq> iq_task_id ` rows \<times> iq_task_id ` rows"
  proof (rule subrelI)
    fix d t assume w: "(d, t) \<in> waits_for c rows"
    then have "d \<in> iq_task_id ` rows" using inside by (meson Domain.intros subsetD)
    moreover have "t \<in> iq_task_id ` rows" using w by (auto simp: waits_for_def)
    ultimately show "(d, t) \<in> iq_task_id ` rows \<times> iq_task_id ` rows" by simp
  qed
  then have "finite (waits_for c rows)" using \<open>finite rows\<close> finite_subset by blast
  then have "wf (waits_for c rows)" using assms(6) by (rule finite_acyclic_wf)
  then obtain t where "t \<in> iq_task_id ` rows" and least: "\<And>d. (d, t) \<in> waits_for c rows \<Longrightarrow> d \<notin> iq_task_id ` rows"
    using assms(3) wfE_min[of "waits_for c rows" _ "iq_task_id ` rows"] by (metis all_not_in_conv image_is_empty)
  then obtain r where r: "r \<in> rows" "iq_task_id r = t" by blast
  have "(d, t) \<notin> waits_for c rows" for d using least inside by (meson Domain.intros subsetD)
  then have "unblocked c r" using r budget by (auto simp: unblocked_def waits_for_def split: option.splits)
  then have "choice c now (expire_leases now stamp s) \<noteq> None"
    using r(1) due by (auto simp: choice_none)
  then show ?thesis by (auto simp: claim_next_eq[OF ok refl])
qed

section \<open>History\<close>

lemma run_history: "queue_run ft s evs s' \<Longrightarrow> queue_ok s \<Longrightarrow> qu_history s \<le> qu_history s'"
  by (induction rule: queue_run.induct) (auto dest: run_ok step_writes)

lemma run_landings:
  assumes "queue_run ft s evs s'" and "queue_ok s" and "r \<in> set (qu_rows s')" and "iq_state r = ''integrated''"
  shows "r \<in> set (qu_rows s) \<or> qu_history s < iq_history_sequence r"
  using assms
proof (induction arbitrary: r rule: queue_run.induct)
  case (run_step s evs s' ev s'')
  note w = step_writes[OF run_step(2) run_ok[OF run_step(1,4)]]
  have "written_by ev s' r" using w run_step(5) by blast
  then have "r \<in> set (qu_rows s') \<or> qu_history s' < iq_history_sequence r"
    using run_step(6) by (auto simp: written_by_def)
  then show ?case using run_step.IH[OF run_step(4)] run_step(6) run_history[OF run_step(1,4)] by auto
qed simp

lemma take_before: "sorted (map k xs) \<Longrightarrow> x \<in> set (take n xs) \<Longrightarrow> y \<in> set xs - set (take n xs) \<Longrightarrow> k x \<le> k y"
proof -
  assume "sorted (map k xs)" and x: "x \<in> set (take n xs)" and "y \<in> set xs - set (take n xs)"
  then have "sorted (map k (take n xs) @ map k (drop n xs))" "y \<in> set (drop n xs)"
    by (simp_all flip: map_append) (metis Un_iff append_take_drop_id set_append)
  then show "k x \<le> k y" using x by (auto simp: sorted_append)
qed

definition landing_page :: "nat \<Rightarrow> nat \<Rightarrow> queue \<Rightarrow> queue_item list" where
  "landing_page n cursor s = queue_items None None (Some [''integrated'']) (Some (int n)) (Some (Some cursor)) s"

lemma landing_page_eq:
  assumes ok: "queue_ok s"
  shows "landing_page n cursor s = take n (sort_key history_order
    (filter (\<lambda>r. iq_state r = ''integrated'' \<and> cursor < iq_history_sequence r) (qu_rows s)))"
proof -
  have "from_row r = r" if "r \<in> set (qu_rows s)" for r
    using queue_okD(2)[OF ok that] from_row_id by blast
  then have "map from_row xs = xs" if "set xs \<subseteq> set (qu_rows s)" for xs using that by (intro map_idI) blast
  moreover have "set (take n (sort_key history_order
      (filter (\<lambda>r. iq_state r = ''integrated'' \<and> cursor < iq_history_sequence r) (qu_rows s)))) \<subseteq> set (qu_rows s)"
    using set_take_subset by fastforce
  ultimately show ?thesis by (simp add: landing_page_def queue_items_def Let_def expects_def)
qed

text \<open>C27. The replay of landings misses nothing.  A page after a cursor holds only landings after it, in the
  order of the history; a landing it leaves out comes after everything on it, and only because the page
  is full; and whatever lands later comes after every position there was when the page was read.\<close>

theorem replay_misses_nothing:
  assumes "queue_run ft empty_queue before s" and "page = landing_page n cursor s"
    and "queue_run ft s evs s'" and "r \<in> set (qu_rows s')" and "iq_state r = ''integrated''"
    and "cursor < iq_history_sequence r"
  shows "(\<forall>q \<in> set page. q \<in> set (qu_rows s) \<and> iq_state q = ''integrated'' \<and> cursor < iq_history_sequence q)
    \<and> sorted (map iq_history_sequence page)
    \<and> (r \<in> set page \<or> (\<forall>q \<in> set page. iq_history_sequence q \<le> iq_history_sequence r)
        \<and> (length page = n \<or> qu_history s < iq_history_sequence r))"
proof -
  let ?rows = "filter (\<lambda>r. iq_state r = ''integrated'' \<and> cursor < iq_history_sequence r) (qu_rows s)"
  let ?sorted = "sort_key history_order ?rows"
  have ok: "queue_ok s" using reachable_queue_ok[OF assms(1)] .
  have page: "page = take n ?sorted" using assms(2) landing_page_eq[OF ok] by simp
  have "set page \<subseteq> set ?sorted" unfolding page by (rule set_take_subset)
  then have members: "set page \<subseteq> set ?rows" by simp
  have key: "history_order q \<le> history_order q' \<Longrightarrow> iq_history_sequence q \<le> iq_history_sequence q'" for q q'
    by (auto simp: history_order_def)
  have s1: "sorted (map history_order ?sorted)" by simp
  then have "sorted (map history_order page)" unfolding page take_map[symmetric] by (rule sorted_wrt_take)
  then have s2: "sorted (map iq_history_sequence page)"
    by (induction page) (auto intro: key)
  have rest: "r \<in> set page \<or> (\<forall>q \<in> set page. iq_history_sequence q \<le> iq_history_sequence r) \<and> length page = n"
    if "r \<in> set (qu_rows s)"
  proof -
    have r: "r \<in> set ?sorted" using that assms(5,6) by simp
    have full: "length page = n" if "r \<notin> set page"
      using that r unfolding page by (cases "n \<le> length ?sorted") (simp_all add: min_def)
    have "iq_history_sequence q \<le> iq_history_sequence r" if "r \<notin> set page" "q \<in> set page" for q
      using take_before[OF s1, of q n r] that r key unfolding page by blast
    then show ?thesis using full by blast
  qed
  have later: "iq_history_sequence q \<le> iq_history_sequence r" if "qu_history s < iq_history_sequence r" "q \<in> set page" for q
    using that members queue_okD(2)[OF ok, of q] by (auto simp: item_ok_def)
  show ?thesis using members s2 rest later run_landings[OF assms(3) ok assms(4,5)] by auto
qed

section \<open>Compare-and-swap\<close>

lemma unleased_call_loses:
  assumes "unleased_call ft project task call" and "queue_ok s" and "queue_get project task s = Some i"
    and "authority_generation ft i \<noteq> authority_generation ft seen"
  shows "call (authority_generation ft seen) s = (s, None)"
proof -
  have ne: "authority_generation ft i \<noteq> generation_text (authority_generation ft seen)"
    "authority_generation ft i \<noteq> py_strip (authority_generation ft seen)"
    using assms(4) by (simp_all add: digest_tokens)
  show ?thesis using assms(1)
    by cases (simp_all only: replacing.loses[OF assms(2,3) ne(1)] retiring.loses[OF assms(2,3) ne(1)]
      rebasing.loses[OF assms(2,3) ne(1)] aborting.loses[OF assms(2,3) ne(1)]
      publishing.loses[OF assms(2,3) ne(1)] published.loses[OF assms(2,3) ne(1)]
      consuming.loses[OF assms(2,3) ne(1)] finishing.loses[OF assms(2,3) ne(1)]
      normalizing.loses[OF assms(2,3) ne(2)])
qed

lemma unleased_call_result:
  "unleased_call ft project task call \<Longrightarrow> call e s = (s', Some row) \<Longrightarrow> queue_get project task s' = Some row"
  by (induction rule: unleased_call.induct)
    (erule replacing.result retiring.result rebasing.result aborting.result publishing.result published.result
      consuming.result finishing.result normalizing.result)+


section \<open>A concrete run\<close>

definition queued_submission :: submission where
  "queued_submission = \<lparr>su_project_id = ''p'', su_epic_id = ''e'', su_task_id = ''t'', su_task_branch = ''b'',
     su_head_sha = ''h'', su_base_branch = None, su_base_sha = None, su_priority = None, su_submitted_at = None\<rparr>"

definition queued_row :: queue_item where
  "queued_row = submitted_row queued_submission 0 False None ''now''"

definition queue_0 :: queue where
  "queue_0 = \<lparr>qu_rows = [queued_row], qu_history = 0\<rparr>"

definition worker_claim :: "string \<Rightarrow> queue_claim" where
  "worker_claim owner = \<lparr>qc_project_id = ''p'', qc_epic_id = ''e'', qc_lease_owner = owner, qc_dependency_map = [],
     qc_satisfied = [], qc_lease_seconds = 60, qc_max_attempts = None\<rparr>"

definition queue_1 :: queue where
  "queue_1 = \<lparr>qu_rows = [claimed_item (worker_claim ''w'') 10 ''now'' queued_row], qu_history = 0\<rparr>"

definition landed_row :: queue_item where
  "landed_row = (claimed_item (worker_claim ''w'') 10 ''now'' queued_row)\<lparr>iq_state := ''integrated'',
     iq_lease_owner := None, iq_lease_expires_at := None, iq_updated_at := ''now'', iq_last_error := None,
     iq_next_retry_at := None, iq_history_sequence := 1\<rparr>"

definition queue_2 :: queue where
  "queue_2 = \<lparr>qu_rows = [landed_row], qu_history = 1\<rparr>"

lemmas sample_rows = queued_submission_def queued_row_def submitted_row_def worker_claim_def claimed_item_def landed_row_def
lemmas sample_queues = queue_0_def queue_1_def queue_2_def empty_queue_def

lemma enqueues_0: "queue_enqueue queued_submission False False None False ''now'' empty_queue = Inr (queue_0, queued_row)"
  by (simp add: queue_enqueue_def normalized_submission_def Let_def find_item_def from_row_def str_eval
      sample_rows sample_queues stripped_or_none_def or_text_def)

lemma expires_none: "expire_leases 10 ''now'' queue_0 = queue_0" "expire_leases 20 ''now'' queue_1 = queue_1"
  by (simp_all add: expire_leases_def update_items_def lease_expired_def sample_rows sample_queues)

lemma claims_1: "queue_claim_next (worker_claim ''w'') 10 ''now'' queue_0
    = (queue_1, Some (claimed_item (worker_claim ''w'') 10 ''now'' queued_row))"
  unfolding queue_claim_next_def expires_none Let_def
  by (simp add: due_item_def unblocked_def item_count_def update_items_def at_key_def queue_get_def find_item_def from_row_def sample_queues sample_rows)

lemma claims_nothing: "queue_claim_next (worker_claim ''v'') 20 ''now'' queue_1 = (queue_1, None)"
  unfolding queue_claim_next_def expires_none Let_def
  by (simp add: due_item_def sample_queues sample_rows)

lemma completes_2: "queue_complete ''p'' ''t'' ''w'' ''now'' queue_1 = (queue_2, True)"
  by (simp add: queue_complete_def finish_item_def owned_by_def at_key_def item_count_def update_items_def Let_def
      next_history_sequence_def sample_queues sample_rows)

lemma run_0: "queue_run ft empty_queue [Overrides] queue_0"
  using run_step[OF run_start step_enqueue[OF enqueues_0]] by simp

lemma run_1: "queue_run ft queue_0 [Claims ''w'' 10] queue_1"
  using run_step[OF run_start step_claim[of ft "worker_claim ''w''" 10 queue_0 "''now''"]]
  by (simp add: claims_1) (simp add: worker_claim_def)

lemma run_01: "queue_run ft empty_queue [Overrides, Claims ''w'' 10] queue_1"
  using run_step[OF run_0 step_claim[of ft "worker_claim ''w''" 10 queue_0 "''now''"]]
  by (simp add: claims_1) (simp add: worker_claim_def)

lemma run_other: "queue_run ft queue_1 [Claims ''v'' 20] queue_1"
  using run_step[OF run_start step_claim[of ft "worker_claim ''v''" 20 queue_1 "''now''"]]
  by (simp add: claims_nothing) (simp add: worker_claim_def)

lemma run_2: "queue_run ft queue_1 [Works ''w''] queue_2"
  using run_step[OF run_start step_complete[of ft "''w''" queue_1 "''p''" "''t''" "''now''"]]
  by (simp add: completes_2)

lemma run_02: "queue_run ft empty_queue [Overrides, Claims ''w'' 10, Works ''w''] queue_2"
  using run_step[OF run_01 step_complete[of ft "''w''" queue_1 "''p''" "''t''" "''now''"]]
  by (simp add: completes_2)

theorem reachable_queue_ok_witness: "queue_ok queue_2"
  by (rule reachable_queue_ok[OF run_02[of "\<lambda>_. []"]])

theorem live_lease_survives_witness: "owns_active_lease ''p'' ''t'' ''b'' ''h'' (Some ''w'') None 20 queue_1"
proof (rule live_lease_survives[OF run_01[of "\<lambda>_. []"] _ run_other[of "\<lambda>_. []"]])
  show "owns_active_lease ''p'' ''t'' ''b'' ''h'' (Some ''w'') None 20 queue_1"
    by (simp add: owns_active_lease_def Let_def str_eval or_text_def owned_by_def at_key_def sample_queues sample_rows)
qed simp

theorem lost_lease_is_fenced_witness: "queue_complete ''p'' ''t'' ''w'' ''later'' queue_2 = (queue_2, False)"
  using lost_lease_is_fenced[OF run_02[of "\<lambda>_. []"] _ run_start,
    where owner = "''w''" and project = "''p''" and task = "''t''" and stamp = "''later''"]
  by (simp add: holds_def sample_queues sample_rows str_eval)

theorem claim_takes_the_first_witness: "unblocked (worker_claim ''w'') queued_row"
  using claim_takes_the_first[OF run_0[of "\<lambda>_. []"] refl,
    where c = "worker_claim ''w''" and now = 10 and stamp = "''now''"]
  unfolding expires_none by (simp add: claims_1) (simp add: sample_queues)

theorem claim_makes_progress_witness: "\<exists>row. snd (queue_claim_next (worker_claim ''w'') 10 ''now'' queue_0) = Some row"
proof (rule claim_makes_progress[OF run_0[of "\<lambda>_. []"] refl])
  have rows: "{r \<in> set (qu_rows (expire_leases 10 ''now'' queue_0)). due_item (worker_claim ''w'') 10 r} = {queued_row}"
    unfolding expires_none by (auto simp: due_item_def sample_queues) (simp_all add: sample_rows)
  have none: "waits_for (worker_claim ''w'') {queued_row} = {}" by (auto simp: waits_for_def worker_claim_def)
  show "acyclic (waits_for (worker_claim ''w'') {r \<in> set (qu_rows (expire_leases 10 ''now'' queue_0)). due_item (worker_claim ''w'') 10 r})"
    unfolding rows none by (simp add: acyclic_def)
  show "Domain (waits_for (worker_claim ''w'') {r \<in> set (qu_rows (expire_leases 10 ''now'' queue_0)). due_item (worker_claim ''w'') 10 r})
      \<subseteq> iq_task_id ` {r \<in> set (qu_rows (expire_leases 10 ''now'' queue_0)). due_item (worker_claim ''w'') 10 r}"
    unfolding rows none by simp
  show "{r \<in> set (qu_rows (expire_leases 10 ''now'' queue_0)). due_item (worker_claim ''w'') 10 r} \<noteq> {}"
    unfolding rows by simp
qed (simp add: worker_claim_def)

theorem replay_misses_nothing_witness: "landed_row \<in> set (landing_page 5 0 queue_2) \<or> length (landing_page 5 0 queue_2) = 5"
  using replay_misses_nothing[OF run_02[of "\<lambda>_. []"] refl run_start, of landed_row 0 5]
  by (auto simp: queue_2_def landed_row_def)


end
