(* ===== verification/IssueEvidence.thy ===== *)
theory IssueEvidence
  imports Integration
begin

text \<open>
  The evidence a task carries: the columns of oompah/models.py's \<open>Issue\<close> that the lifecycle reads, the
  stored form of the integration record (oompah/integration.py), and the canonical fingerprint of the
  terminal audit (\<open>compute_issue_evidence_fingerprint\<close> and \<open>EvidenceFingerprint.from_evidence\<close> of
  oompah/terminal_audit.py).

  The issue is the record of oompah/models.py, so an attribute that this class does not declare
  (\<open>contributors\<close>, \<open>source_sha\<close>, \<open>review_id\<close> and the like) has the default of its \<open>getattr\<close>.
\<close>

section \<open>Issues\<close>

record tracked_issue = issue +
  ti_description :: "string option"
  ti_labels :: "string list"
  ti_lifecycle_revision :: "int option"
  ti_assignment_id :: "string option"
  ti_review_number :: "string option"
  ti_review_head :: "string option"
  ti_branch_name :: "string option"

text \<open>\<open>str(a or b or '')\<close> of optional texts.\<close>

fun text_choice :: "string option list \<Rightarrow> string" where
  "text_choice [] = []"
| "text_choice (None # vs) = text_choice vs"
| "text_choice (Some s # vs) = (if s = [] then text_choice vs else s)"

section \<open>The stored integration record\<close>

text \<open>\<open>IntegrationRecord.to_dict\<close>; \<open>opt_entry\<close> is an entry written only when its value is there.\<close>

definition opt_entry :: "string \<Rightarrow> string option \<Rightarrow> (string \<times> pyval) list" where
  "opt_entry k v = (case v of None \<Rightarrow> [] | Some s \<Rightarrow> [(k, PStr s)])"

definition text_dict :: "(string \<times> string) list \<Rightarrow> pyval" where
  "text_dict kvs = PDict (map (\<lambda>(k, v). (k, PStr v)) kvs)"

definition integration_to_dict :: "integration_record \<Rightarrow> (string \<times> pyval) list" where
  "integration_to_dict r =
     [(''version'', PInt (ir_version r)), (''state'', PStr (ir_state r)), (''attempts'', PInt (ir_attempts r))]
     @ opt_entry ''mode'' (ir_mode r)
     @ opt_entry ''post_landed_parent_id'' (ir_post_landed_parent_id r)
     @ opt_entry ''task_branch'' (ir_task_branch r)
     @ opt_entry ''base_branch'' (ir_base_branch r)
     @ opt_entry ''base_sha'' (ir_base_sha r)
     @ opt_entry ''head_sha'' (ir_head_sha r)
     @ opt_entry ''integrated_sha'' (ir_integrated_sha r)
     @ opt_entry ''submitted_at'' (ir_submitted_at r)
     @ opt_entry ''updated_at'' (ir_updated_at r)
     @ opt_entry ''last_error'' (ir_last_error r)
     @ opt_entry ''backoff_until'' (ir_backoff_until r)
     @ opt_entry ''repair_failure_reason'' (ir_repair_failure_reason r)
     @ opt_entry ''gate_outcome'' (ir_gate_outcome r)
     @ opt_entry ''wait_reason'' (ir_wait_reason r)
     @ opt_entry ''wait_generation'' (ir_wait_generation r)
     @ (if ir_maintenance_publication_proven r then [(''maintenance_publication_proven'', PBool True)] else [])
     @ (if ir_dependency_heads r \<noteq> [] then [(''dependency_heads'', text_dict (ir_dependency_heads r))] else [])
     @ (case ir_canonical_landing_evidence r of None \<Rightarrow> [] | Some e \<Rightarrow> [(''canonical_landing_evidence'', PDict e)])
     @ (case ir_gate_cancellation r of None \<Rightarrow> [] | Some c \<Rightarrow> [(''gate_cancellation'', text_dict c)])
     @ (if ir_required_base_missing r \<noteq> [] then [(''required_base_missing'', PList (map PStr (ir_required_base_missing r)))]
        else [])"

text \<open>\<open>_optional_text\<close> and \<open>accepted_submission_branch\<close> of oompah/integration.py.\<close>

definition branch_text :: "string option \<Rightarrow> string option" where
  "branch_text v = (let t = text_of (opt_str v) in if t = [] then None else Some t)"

definition accepted_submission_branch :: "tracked_issue \<Rightarrow> string option" where
  "accepted_submission_branch i = (case iss_integration i of None \<Rightarrow> None | Some r \<Rightarrow>
     (case (branch_text (ir_task_branch r), branch_text (ir_head_sha r)) of
        (Some branch, Some head) \<Rightarrow>
          if py_lower (py_strip (ir_state r)) \<in> set ACCEPTED_SUBMISSION_STATES then Some branch else None
      | _ \<Rightarrow> None))"

section \<open>The evidence fingerprint\<close>

text \<open>
  \<open>' '.join(value.split())\<close>.  The NFKC form of a text is the text itself but for thirteen compatibility
  characters of Latin-1 (0xa8, 0xaa, 0xaf, 0xb2 to 0xb5, 0xb8 to 0xba, 0xbc to 0xbe), which are outside the
  model, and the no-break space, which \<open>split\<close> drops in either form.
\<close>

fun split_words :: "string \<Rightarrow> string \<Rightarrow> string list" where
  "split_words w [] = (if w = [] then [] else [rev w])"
| "split_words w (c # cs) = (if is_space c then (if w = [] then split_words [] cs else rev w # split_words [] cs)
     else split_words (c # w) cs)"

definition normalize_text :: "string \<Rightarrow> string" where
  "normalize_text s = join '' '' (split_words [] s)"

text \<open>\<open>json.dumps(v, ensure_ascii=False, sort_keys=True, separators=(',', ':'))\<close> of the payload's shape.\<close>

definition json_raw_char :: "char \<Rightarrow> string" where
  "json_raw_char c = (if 127 \<le> (of_char c :: nat) then [c] else json_char c)"

definition json_raw_string :: "string \<Rightarrow> string" where
  "json_raw_string s = dq # concat (map json_raw_char s) @ [dq]"

fun json_raw :: "pyval \<Rightarrow> string" where
  "json_raw (PStr s) = json_raw_string s"
| "json_raw (PList xs) = ''['' @ join '','' (map json_raw xs) @ '']''"
| "json_raw (PDict kvs) = ''{'' @ join '','' (map snd (sort_key fst
     (map (\<lambda>kv. (fst kv, json_raw_string (fst kv) @ '':'' @ json_raw (snd kv))) kvs))) @ ''}''"
| "json_raw v = json_dumps v"

text \<open>A contributor is its identity and its optional source.\<close>

type_synonym contributor = "string \<times> string option"

definition contributor_entry :: "contributor \<Rightarrow> (string \<times> string)" where
  "contributor_entry c = (normalize_text (case snd c of None \<Rightarrow> [] | Some s \<Rightarrow> s), normalize_text (fst c))"

definition from_evidence ::
  "string \<Rightarrow> string \<Rightarrow> string \<Rightarrow> string \<Rightarrow> string \<Rightarrow> string \<Rightarrow> string \<Rightarrow> string \<Rightarrow> string \<Rightarrow> string list \<Rightarrow> contributor list \<Rightarrow>
   string result" where
  "from_evidence requirements project task source_branch source_sha target_branch target_sha review_id review_state
     child_digests contributors =
     (if py_strip project = [] \<or> py_strip task = [] then Inl ValueError
      else if list_ex (\<lambda>c. py_strip (fst c) = []) contributors then Inl ValueError
      else Inr (sha256_hex (json_raw (PDict [
        (''format'', PStr ''oompah-terminal-audit-evidence-v1''),
        (''requirements'', PStr (normalize_text requirements)),
        (''project_id'', PStr (normalize_text project)),
        (''task_id'', PStr (normalize_text task)),
        (''source_branch'', PStr (normalize_text source_branch)),
        (''source_sha'', PStr (normalize_text source_sha)),
        (''target_branch'', PStr (normalize_text target_branch)),
        (''target_sha'', PStr (normalize_text target_sha)),
        (''review_id'', PStr (normalize_text review_id)),
        (''review_state'', PStr (normalize_text review_state)),
        (''child_audit_digests'', PList (map PStr (sort (map normalize_text child_digests)))),
        (''contributors'', PList (map (\<lambda>(source, identity). PDict [(''identity'', PStr identity), (''source'', PStr source)])
           (sort_key id (map contributor_entry contributors))))]))))"

definition resolve_epic_branch_names :: "string \<Rightarrow> string option \<Rightarrow> string \<Rightarrow> string list" where
  "resolve_epic_branch_names identifier parent issue_type =
     (if identifier = [] \<or> py_lower (py_strip issue_type) \<noteq> ''epic'' then []
      else (case parent of
          Some (c # p) \<Rightarrow> [''epic-'' @ (c # p), ''epic-'' @ identifier]
        | _ \<Rightarrow> [''epic-'' @ identifier]))"

text \<open>\<open>getattr(integration, name, None)\<close> of an optional record.\<close>

definition integration_text :: "(integration_record \<Rightarrow> string option) \<Rightarrow> tracked_issue \<Rightarrow> string option" where
  "integration_text f i = (case iss_integration i of None \<Rightarrow> None | Some r \<Rightarrow> f r)"

text \<open>The branches, the revisions and the contributor of \<open>compute_issue_evidence_fingerprint\<close>.\<close>

definition evidence_revisions :: "tracked_issue \<Rightarrow> string \<times> string \<times> string \<times> string \<times> contributor list" where
  "evidence_revisions i = (
     let integrated_sha = text_choice [integration_text ir_integrated_sha i];
         integrated_branch = text_choice [integration_text ir_base_branch i]
     in if py_lower (text_choice [integration_text (\<lambda>r. Some (ir_state r)) i]) = ''integrated'' \<and> integrated_sha \<noteq> []
        then (integrated_branch, integrated_sha, integrated_branch, integrated_sha,
          (case integration_text ir_task_branch i of Some (c # b) \<Rightarrow> [(c # b, Some ''git-branch'')] | _ \<Rightarrow> []))
        else (case accepted_submission_branch i of
          Some branch \<Rightarrow> (branch, text_choice [integration_text ir_head_sha i],
            text_choice [integration_text ir_base_branch i, iss_target_branch i],
            text_choice [integration_text ir_base_sha i], [])
        | None \<Rightarrow> (text_choice [iss_work_branch i, integration_text ir_task_branch i, ti_branch_name i],
            text_choice [integration_text ir_head_sha i],
            text_choice [iss_target_branch i, integration_text ir_base_branch i],
            text_choice [Some integrated_sha, integration_text ir_base_sha i], [])))"

definition evidence_task_id :: "tracked_issue \<Rightarrow> string" where
  "evidence_task_id i = text_choice [Some (iss_identifier i), Some (iss_id i)]"

definition issue_evidence_fingerprint :: "tracked_issue \<Rightarrow> string \<Rightarrow> string result" where
  "issue_evidence_fingerprint i project = (case evidence_revisions i of
     (branch, source_sha, target_branch, target_sha, contributors) \<Rightarrow>
       let source_branch = (if branch \<noteq> [] then branch
         else (case resolve_epic_branch_names (evidence_task_id i) (iss_parent_id i) (iss_issue_type i) of
             [] \<Rightarrow> branch | b # _ \<Rightarrow> b))
       in from_evidence (text_choice [ti_description i]) project (evidence_task_id i) source_branch source_sha
            target_branch target_sha (text_choice [ti_review_number i]) [] [] contributors)"

lemma issue_evidence_total:
  assumes "py_strip project \<noteq> []" and "py_strip (evidence_task_id i) \<noteq> []"
    and "\<And>b. integration_text ir_task_branch i = Some b \<Longrightarrow> b = [] \<or> py_strip b \<noteq> []"
  shows "\<exists>d. issue_evidence_fingerprint i project = Inr d"
proof -
  obtain branch source_sha target_branch target_sha contributors
    where e: "evidence_revisions i = (branch, source_sha, target_branch, target_sha, contributors)"
    by (cases "evidence_revisions i") auto
  have "\<not> list_ex (\<lambda>c. py_strip (fst c) = []) contributors"
    using e assms(3) by (auto simp: evidence_revisions_def Let_def split: if_splits option.splits list.splits)
  then show ?thesis using assms(1,2) by (simp add: issue_evidence_fingerprint_def e from_evidence_def Let_def)
qed

end
