(* ===== verification/TransitionIntents.thy ===== *)
theory TransitionIntents
  imports IssueEvidence WorkflowContract
begin

text \<open>
  The data of oompah/task_transition_service.py: authorities, journal phases, dispositions, the immutable
  intent with its revision, the outcome, and the authority projections of an issue that an intent is
  compared with.
\<close>

section \<open>Enumerations\<close>

datatype transition_authority =
    Auth_PROJECT_OWNER
  | Auth_ORCHESTRATOR
  | Auth_WORKER
  | Auth_AUDITOR
  | Auth_INTEGRATOR
  | Auth_WATCHDOG
  | Auth_API
  | Auth_SYSTEM

fun authority_value :: "transition_authority \<Rightarrow> string" where
  "authority_value Auth_PROJECT_OWNER = ''project_owner''"
| "authority_value Auth_ORCHESTRATOR = ''orchestrator''"
| "authority_value Auth_WORKER = ''worker''"
| "authority_value Auth_AUDITOR = ''auditor''"
| "authority_value Auth_INTEGRATOR = ''integrator''"
| "authority_value Auth_WATCHDOG = ''watchdog''"
| "authority_value Auth_API = ''api''"
| "authority_value Auth_SYSTEM = ''system''"

definition AUTHORITIES :: "transition_authority list" where
  "AUTHORITIES = [Auth_PROJECT_OWNER, Auth_ORCHESTRATOR, Auth_WORKER, Auth_AUDITOR, Auth_INTEGRATOR, Auth_WATCHDOG,
     Auth_API, Auth_SYSTEM]"

datatype transition_phase =
    Tp_REQUESTED
  | Tp_WAITING
  | Tp_APPLYING
  | Tp_VERIFY_PENDING
  | Tp_RETRY_SCHEDULED
  | Tp_APPLIED
  | Tp_RECOVERED
  | Tp_STAGED
  | Tp_REJECTED

fun phase_value :: "transition_phase \<Rightarrow> string" where
  "phase_value Tp_REQUESTED = ''requested''"
| "phase_value Tp_WAITING = ''waiting''"
| "phase_value Tp_APPLYING = ''applying''"
| "phase_value Tp_VERIFY_PENDING = ''verify_pending''"
| "phase_value Tp_RETRY_SCHEDULED = ''retry_scheduled''"
| "phase_value Tp_APPLIED = ''applied''"
| "phase_value Tp_RECOVERED = ''recovered''"
| "phase_value Tp_STAGED = ''staged''"
| "phase_value Tp_REJECTED = ''rejected''"

definition FINAL_PHASES :: "transition_phase list" where
  "FINAL_PHASES = [Tp_APPLIED, Tp_RECOVERED, Tp_STAGED, Tp_REJECTED]"

datatype transition_disposition =
    Td_APPLIED
  | Td_ALREADY_APPLIED
  | Td_STAGED
  | Td_RECOVERED
  | Td_WAITING
  | Td_RETRYABLE
  | Td_REJECTED

fun transition_disposition_value :: "transition_disposition \<Rightarrow> string" where
  "transition_disposition_value Td_APPLIED = ''applied''"
| "transition_disposition_value Td_ALREADY_APPLIED = ''already_applied''"
| "transition_disposition_value Td_STAGED = ''staged''"
| "transition_disposition_value Td_RECOVERED = ''recovered''"
| "transition_disposition_value Td_WAITING = ''waiting''"
| "transition_disposition_value Td_RETRYABLE = ''retryable''"
| "transition_disposition_value Td_REJECTED = ''rejected''"

definition TRANSITION_DISPOSITIONS :: "transition_disposition list" where
  "TRANSITION_DISPOSITIONS = [Td_APPLIED, Td_ALREADY_APPLIED, Td_STAGED, Td_RECOVERED, Td_WAITING, Td_RETRYABLE, Td_REJECTED]"

definition TERMINAL_TARGETS :: "string list" where
  "TERMINAL_TARGETS = [DONE, MERGED, ARCHIVED]"

lemma enum_of_value:
  assumes "m \<in> set members" and "inj_on val (set members)"
  shows "enum_of val members (PStr (val m)) = Inr m"
proof (cases "find (\<lambda>x. PStr (val m) = PStr (val x)) members")
  case None
  then show ?thesis using assms(1) by (auto simp: find_None_iff)
next
  case (Some x)
  then have "x \<in> set members" "val x = val m" by (auto simp: find_Some_iff)
  then have "x = m" using assms inj_onD by fastforce
  then show ?thesis using Some by (simp add: enum_of_def)
qed

lemma authority_of_value: "enum_of authority_value AUTHORITIES (PStr (authority_value a)) = Inr a"
  by (cases a) (simp_all add: enum_of_def AUTHORITIES_def)

lemma transition_disposition_of_value: "enum_of transition_disposition_value TRANSITION_DISPOSITIONS (PStr (transition_disposition_value d)) = Inr d"
  by (cases d) (simp_all add: enum_of_def TRANSITION_DISPOSITIONS_def)

section \<open>Intents\<close>

text \<open>The schema version is compared with 1 and kept as it was given.\<close>

record transition_intent =
  tn_project_id :: string
  tn_task_id :: string
  tn_expected_status :: string
  tn_expected_version :: string
  tn_requested_status :: string
  tn_actor :: string
  tn_authority :: transition_authority
  tn_reason_code :: string
  tn_idempotency_key :: string
  tn_originating_job :: string
  tn_evidence_generation :: "string option"
  tn_exact_head :: "string option"
  tn_precondition_revision :: "string option"
  tn_schema_version :: pyval

text \<open>\<open>[a-z][a-z0-9_]*(?:\.[a-z][a-z0-9_]*)+\<close> and \<open>[0-9a-f]{40,64}\<close>, matched in full.\<close>

definition lower_alpha :: "char \<Rightarrow> bool" where
  "lower_alpha c = (let n = (of_char c :: nat) in 97 \<le> n \<and> n \<le> 122)"

definition code_char :: "char \<Rightarrow> bool" where
  "code_char c \<longleftrightarrow> lower_alpha c \<or> (let n = (of_char c :: nat) in 48 \<le> n \<and> n \<le> 57) \<or> c = CHR ''_''"

fun code_segments :: "nat \<Rightarrow> bool \<Rightarrow> string \<Rightarrow> bool" where
  "code_segments dots fresh [] \<longleftrightarrow> \<not> fresh \<and> 0 < dots"
| "code_segments dots True (c # cs) \<longleftrightarrow> lower_alpha c \<and> code_segments dots False cs"
| "code_segments dots False (c # cs) \<longleftrightarrow>
     (if c = CHR ''.'' then code_segments (Suc dots) True cs else code_char c \<and> code_segments dots False cs)"

definition stable_reason_code :: "string \<Rightarrow> bool" where
  "stable_reason_code s \<longleftrightarrow> code_segments 0 True s"

definition head_text :: "string \<Rightarrow> bool" where
  "head_text s \<longleftrightarrow> lower_hex s \<and> 40 \<le> length s \<and> length s \<le> 64"

text \<open>\<open>TransitionIntent.__post_init__\<close>.\<close>

definition make_intent ::
  "pyval \<Rightarrow> pyval \<Rightarrow> pyval \<Rightarrow> pyval \<Rightarrow> pyval \<Rightarrow> pyval \<Rightarrow> pyval \<Rightarrow> pyval \<Rightarrow> pyval \<Rightarrow> pyval \<Rightarrow> pyval \<Rightarrow> pyval \<Rightarrow>
   pyval \<Rightarrow> pyval \<Rightarrow> transition_intent result" where
  "make_intent project task expected version requested actor authority code key job generation head precondition
     schema =
     ebind (required_text project) (\<lambda>pid.
     ebind (required_text task) (\<lambda>tid.
     let ex = canonicalize_status expected; rq = canonicalize_status requested in
     if ex \<notin> set CANONICAL_STATUSES then Inl ValueError
     else if rq \<notin> set CANONICAL_STATUSES then Inl ValueError
     else ebind (required_text version) (\<lambda>ver.
     ebind (required_text actor) (\<lambda>act.
     ebind (enum_of authority_value AUTHORITIES authority) (\<lambda>auth.
     ebind (required_text code) (\<lambda>rc.
     if \<not> stable_reason_code rc then Inl ValueError
     else ebind (required_text key) (\<lambda>k.
     ebind (required_text job) (\<lambda>oj.
     let hd = map_option py_lower (optional_text head) in
     if (case hd of None \<Rightarrow> False | Some h \<Rightarrow> \<not> head_text h) then Inl ValueError
     else if \<not> py_eq schema (PInt 1) then Inl ValueError
     else Inr \<lparr>tn_project_id = pid, tn_task_id = tid, tn_expected_status = ex, tn_expected_version = ver,
       tn_requested_status = rq, tn_actor = act, tn_authority = auth, tn_reason_code = rc,
       tn_idempotency_key = k, tn_originating_job = oj, tn_evidence_generation = optional_text generation,
       tn_exact_head = hd, tn_precondition_revision = optional_text precondition,
       tn_schema_version = schema\<rparr>))))))))"

definition intent_to_dict :: "transition_intent \<Rightarrow> (string \<times> pyval) list" where
  "intent_to_dict i =
     [(''schema_version'', tn_schema_version i),
      (''project_id'', PStr (tn_project_id i)),
      (''task_id'', PStr (tn_task_id i)),
      (''expected_status'', PStr (tn_expected_status i)),
      (''expected_version'', PStr (tn_expected_version i)),
      (''requested_status'', PStr (tn_requested_status i)),
      (''actor'', PStr (tn_actor i)),
      (''authority'', PStr (authority_value (tn_authority i))),
      (''reason_code'', PStr (tn_reason_code i)),
      (''idempotency_key'', PStr (tn_idempotency_key i)),
      (''originating_job'', PStr (tn_originating_job i)),
      (''evidence_generation'', opt_str (tn_evidence_generation i)),
      (''exact_head'', opt_str (tn_exact_head i))]
     @ (case tn_precondition_revision i of None \<Rightarrow> [] | Some r \<Rightarrow> [(''precondition_revision'', PStr r)])"

definition intent_revision :: "transition_intent \<Rightarrow> string" where
  "intent_revision i = sha256_hex (canonical_json (PDict (intent_to_dict i)))"

text \<open>\<open>TransitionIntent.from_dict\<close>: keyword arguments from a mapping.\<close>

definition intent_required :: "string list" where
  "intent_required = [''project_id'', ''task_id'', ''expected_status'', ''expected_version'', ''requested_status'',
     ''actor'', ''authority'', ''reason_code'', ''idempotency_key'', ''originating_job'']"

definition intent_optional :: "string list" where
  "intent_optional = [''evidence_generation'', ''exact_head'', ''precondition_revision'', ''schema_version'']"

definition intent_from_dict :: "pyval \<Rightarrow> transition_intent result" where
  "intent_from_dict v = (case mapping_of v of None \<Rightarrow> Inl ValueError | Some raw \<Rightarrow>
     if \<not> keywords_ok intent_required intent_optional raw then Inl TypeError
     else make_intent (getv raw ''project_id'') (getv raw ''task_id'') (getv raw ''expected_status'')
       (getv raw ''expected_version'') (getv raw ''requested_status'') (getv raw ''actor'')
       (getv raw ''authority'') (getv raw ''reason_code'') (getv raw ''idempotency_key'')
       (getv raw ''originating_job'') (getv raw ''evidence_generation'') (getv raw ''exact_head'')
       (getv raw ''precondition_revision'') (get_or raw ''schema_version'' (PInt 1)))"

section \<open>Outcomes\<close>

text \<open>Only the disposition and the replay flag are converted; every other field is kept as it was given.\<close>

record transition_outcome =
  to_transition_id :: pyval
  to_project_id :: pyval
  to_task_id :: pyval
  to_disposition :: transition_disposition
  to_reason_code :: pyval
  to_observed_status :: pyval
  to_observed_version :: pyval
  to_requested_status :: pyval
  to_applied_status :: pyval
  to_audit_id :: pyval
  to_retryable :: pyval
  to_replayed :: bool
  to_details :: pyval

text \<open>\<open>dict(self.details or {})\<close>; a value that is no mapping does not reach a journal.\<close>

definition details_of :: "transition_outcome \<Rightarrow> (string \<times> pyval) list" where
  "details_of t = (case mapping_of (to_details t) of Some d \<Rightarrow> d | None \<Rightarrow> [])"

definition outcome_to_dict :: "transition_outcome \<Rightarrow> (string \<times> pyval) list" where
  "outcome_to_dict t =
     [(''transition_id'', to_transition_id t),
      (''project_id'', to_project_id t),
      (''task_id'', to_task_id t),
      (''disposition'', PStr (transition_disposition_value (to_disposition t))),
      (''reason_code'', to_reason_code t),
      (''observed_status'', to_observed_status t),
      (''observed_version'', to_observed_version t),
      (''requested_status'', to_requested_status t),
      (''applied_status'', to_applied_status t),
      (''audit_id'', to_audit_id t),
      (''retryable'', to_retryable t),
      (''replayed'', PBool (to_replayed t)),
      (''details'', PDict (details_of t))]"

definition outcome_required :: "string list" where
  "outcome_required = [''transition_id'', ''project_id'', ''task_id'', ''disposition'', ''reason_code'',
     ''observed_status'', ''observed_version'', ''requested_status'']"

definition outcome_optional :: "string list" where
  "outcome_optional = [''applied_status'', ''audit_id'', ''retryable'', ''replayed'', ''details'']"

definition outcome_from_dict :: "bool \<Rightarrow> (string \<times> pyval) list \<Rightarrow> transition_outcome result" where
  "outcome_from_dict replayed raw =
     (if \<not> keywords_ok outcome_required outcome_optional raw then Inl TypeError
      else ebind (enum_of transition_disposition_value TRANSITION_DISPOSITIONS (getv raw ''disposition'')) (\<lambda>d.
        Inr \<lparr>to_transition_id = getv raw ''transition_id'', to_project_id = getv raw ''project_id'',
          to_task_id = getv raw ''task_id'', to_disposition = d, to_reason_code = getv raw ''reason_code'',
          to_observed_status = getv raw ''observed_status'', to_observed_version = getv raw ''observed_version'',
          to_requested_status = getv raw ''requested_status'', to_applied_status = getv raw ''applied_status'',
          to_audit_id = getv raw ''audit_id'', to_retryable = get_or raw ''retryable'' (PBool False),
          to_replayed = replayed \<or> truthy (getv raw ''replayed''), to_details = getv raw ''details''\<rparr>))"

section \<open>Authority of an issue\<close>

definition status_of :: "tracked_issue \<Rightarrow> string" where
  "status_of i = canonicalize_status (PStr (iss_state i))"

text \<open>\<open>_integration_projection\<close>: the authority columns of the stored record that are there.\<close>

definition integration_projection :: "tracked_issue \<Rightarrow> pyval" where
  "integration_projection i = (case iss_integration i of None \<Rightarrow> PNone
     | Some r \<Rightarrow> PDict (concat (map (\<lambda>k. case map_of (integration_to_dict r) k of None \<Rightarrow> [] | Some v \<Rightarrow> [(k, v)])
         [''version'', ''state'', ''mode'', ''task_branch'', ''base_branch'', ''head_sha'', ''base_sha'',
          ''integrated_sha'', ''maintenance_publication_proven''])))"

definition maintenance_labels :: "string list \<Rightarrow> string list" where
  "maintenance_labels labels = sort (filter (\<lambda>l. l \<in> {''merge-conflict'', ''ci-fix''})
     (map (\<lambda>l. py_lower (py_strip l)) labels))"

definition authority_projection :: "string \<Rightarrow> tracked_issue \<Rightarrow> pyval" where
  "authority_projection evidence i = PDict
     [(''identifier'', PStr (iss_identifier i)),
      (''project_id'', PStr (text_choice [iss_project_id i])),
      (''parent_id'', opt_str (optional_text (opt_str (iss_parent_id i)))),
      (''issue_type'', opt_str (optional_text (PStr (iss_issue_type i)))),
      (''title'', opt_str (optional_text (PStr (iss_title i)))),
      (''maintenance_labels'', PList (map PStr (maintenance_labels (ti_labels i)))),
      (''status'', PStr (status_of i)),
      (''lifecycle_revision'', case ti_lifecycle_revision i of None \<Rightarrow> PNone | Some n \<Rightarrow> PInt n),
      (''assignment_id'', opt_str (optional_text (opt_str (ti_assignment_id i)))),
      (''head_sha'', opt_str (optional_text (opt_str (iss_head_sha i)))),
      (''review_number'', opt_str (optional_text (opt_str (ti_review_number i)))),
      (''review_head'', opt_str (optional_text (opt_str (ti_review_head i)))),
      (''work_branch'', opt_str (optional_text (opt_str (iss_work_branch i)))),
      (''target_branch'', opt_str (optional_text (opt_str (iss_target_branch i)))),
      (''integration'', integration_projection i),
      (''terminal_evidence'', PStr evidence)]"

definition issue_authority_version :: "tracked_issue \<Rightarrow> string result" where
  "issue_authority_version i =
     ebind (issue_evidence_fingerprint i (text_choice [iss_project_id i, Some ''legacy''])) (\<lambda>evidence.
       Inr (sha256_hex (canonical_json (authority_projection evidence i))))"

definition rollup_authority_generation :: "tracked_issue \<Rightarrow> tracked_issue list \<Rightarrow> string result" where
  "rollup_authority_generation parent children =
     ebind (eseq (\<lambda>c. ebind (issue_authority_version c) (\<lambda>v. Inr (text_choice [Some (iss_id c), Some (iss_identifier c)], v)))
       children) (\<lambda>versions.
     ebind (issue_authority_version parent) (\<lambda>version.
     Inr (sha256_hex (canonical_json (PDict
       [(''parent'', PStr version),
        (''children'', PList (map (\<lambda>(k, v). PList [PStr k, PStr v]) (sort versions)))])))))"

definition issue_exact_head :: "tracked_issue \<Rightarrow> string option" where
  "issue_exact_head i = (case optional_text (opt_str (iss_head_sha i)) of
     Some d \<Rightarrow> Some (py_lower d)
   | None \<Rightarrow> (case optional_text (opt_str (integration_text ir_head_sha i)) of
       Some v \<Rightarrow> Some (py_lower v)
     | None \<Rightarrow> map_option py_lower (optional_text (opt_str (ti_review_head i)))))"

section \<open>Lanes\<close>

text \<open>\<open>_is_authorized_recovery_intent\<close>.\<close>

definition authorized_recovery_intent :: "transition_intent \<Rightarrow> bool" where
  "authorized_recovery_intent i \<longleftrightarrow>
     (tn_authority i = Auth_AUDITOR \<and> starts_with (tn_reason_code i) ''audit.''
        \<and> tn_reason_code i \<noteq> ''audit.owner_override_recovered'')
   \<or> (tn_authority i = Auth_PROJECT_OWNER
        \<and> tn_reason_code i \<in> {''audit.owner_override_recovered'', ''provenance.owner_revision_authorized''})
   \<or> (tn_authority i = Auth_SYSTEM
        \<and> (starts_with (tn_reason_code i) ''intake.''
          \<or> (tn_reason_code i = ''maintenance.container_cycle_restored''
             \<and> canonicalize_status (PStr (tn_expected_status i)) = NEEDS_HUMAN
             \<and> canonicalize_status (PStr (tn_requested_status i)) = READY_TO_INTEGRATE)
          \<or> (tn_reason_code i = ''maintenance.unlanded_done_child_recovered''
             \<and> canonicalize_status (PStr (tn_expected_status i)) = DONE
             \<and> canonicalize_status (PStr (tn_requested_status i)) = NEEDS_HUMAN)
          \<or> (tn_reason_code i = ''maintenance.landed_done_child_restored''
             \<and> canonicalize_status (PStr (tn_expected_status i)) = NEEDS_HUMAN
             \<and> canonicalize_status (PStr (tn_requested_status i)) = DONE)))"

datatype landing_lane = Composed_child | Root_epic

text \<open>\<open>_guarded_landing_revision_lane\<close>.\<close>

definition guarded_landing_lane :: "transition_intent \<Rightarrow> tracked_issue \<Rightarrow> landing_lane option" where
  "guarded_landing_lane n i = (
     if tn_exact_head n = None \<or> issue_exact_head i \<noteq> None \<or> tn_requested_status n \<noteq> MERGED
        \<or> tn_reason_code n \<noteq> ''terminal.immediate_target_landing_proven''
        \<or> tn_precondition_revision n = None \<or> tn_evidence_generation n = None then None
     else (let parent_id = py_strip (text_choice [iss_parent_id i]) in
       if status_of i = DONE \<and> tn_authority n = Auth_INTEGRATOR \<and> parent_id \<noteq> [] then Some Composed_child
       else if status_of i = IN_PROGRESS \<and> tn_authority n = Auth_ORCHESTRATOR \<and> parent_id = []
          \<and> py_lower (py_strip (iss_issue_type i)) = ''epic'' then Some Root_epic
       else None))"

end
