(* ===== verification/TransitionJournal.thy ===== *)
theory TransitionJournal
  imports TransitionIntents Complex_Main
begin

text \<open>
  The transition journal of oompah/task_transition_service.py: immutable requests, an append-only event
  ledger, and one durable claim per task.

  A SQLite table is the list of its rows in insertion order, a JSON column holds the value that its text
  parses to, and a call is a function of the journal to the new journal and its value, or to the exception
  (the transaction is rolled back and the journal is unchanged).  The clock, the timestamp text and the
  fresh identifiers of a call are arguments.  Every call runs alone, which is what the lock ensures.
\<close>

section \<open>Tables\<close>

datatype journal_exn = JournalPy py_exn | JournalError | JournalCorruption | JournalIntegrity

type_synonym 'a journaled = "journal_exn + 'a"

definition lift_corrupt :: "'a result \<Rightarrow> 'a journaled" where
  "lift_corrupt m = (case m of Inl e \<Rightarrow> Inl JournalCorruption | Inr x \<Rightarrow> Inr x)"

definition journal_py :: "'a result \<Rightarrow> 'a journaled" where
  "journal_py m = (case m of Inl e \<Rightarrow> Inl (JournalPy e) | Inr x \<Rightarrow> Inr x)"

lemma lift_journal_simps [simp]:
  "lift_corrupt (Inl e) = Inl JournalCorruption" "lift_corrupt (Inr x) = Inr x"
  "journal_py (Inl e) = Inl (JournalPy e)" "journal_py (Inr x) = Inr x"
  by (simp_all add: lift_corrupt_def journal_py_def)

lemma lift_corrupt_iff [simp]: "lift_corrupt m = Inr x \<longleftrightarrow> m = Inr x" "journal_py m = Inr x \<longleftrightarrow> m = Inr x"
  by (auto simp: lift_corrupt_def journal_py_def split: sum.split)

record request_row =
  rq_transition_id :: string
  rq_project_id :: string
  rq_task_id :: string
  rq_idempotency_key :: string
  rq_intent_revision :: string
  rq_intent :: pyval
  rq_created_at :: string

record event_row =
  ev_sequence :: int
  ev_transition_id :: string
  ev_project_id :: string
  ev_task_id :: string
  ev_phase :: transition_phase
  ev_reason_code :: string
  ev_outcome :: "pyval option"
  ev_created_at :: string

record task_claim =
  cl_project_id :: string
  cl_task_id :: string
  cl_transition_id :: string
  cl_claim_token :: string
  cl_claimed_at :: real
  cl_lease_expires_at :: real

record journal =
  jn_requests :: "request_row list"
  jn_events :: "event_row list"
  jn_claims :: "task_claim list"
  jn_last_sequence :: int

definition empty_journal :: journal where
  "empty_journal = \<lparr>jn_requests = [], jn_events = [], jn_claims = [], jn_last_sequence = 0\<rparr>"

text \<open>Rows by primary key and by the unique pair.\<close>

definition request_of :: "string \<Rightarrow> journal \<Rightarrow> request_row option" where
  "request_of tid j = find (\<lambda>r. rq_transition_id r = tid) (jn_requests j)"

definition request_by_key :: "string \<Rightarrow> string \<Rightarrow> journal \<Rightarrow> request_row option" where
  "request_by_key project key j = find (\<lambda>r. rq_project_id r = project \<and> rq_idempotency_key r = key) (jn_requests j)"

definition claim_of :: "string \<Rightarrow> string \<Rightarrow> journal \<Rightarrow> task_claim option" where
  "claim_of project task j = find (\<lambda>c. cl_project_id c = project \<and> cl_task_id c = task) (jn_claims j)"

section \<open>Events\<close>

record journal_event =
  je_sequence :: int
  je_transition_id :: string
  je_project_id :: string
  je_task_id :: string
  je_phase :: transition_phase
  je_reason_code :: string
  je_outcome :: "transition_outcome option"
  je_created_at :: string

definition decode_outcome :: "pyval option \<Rightarrow> transition_outcome option journaled" where
  "decode_outcome raw = (case raw of None \<Rightarrow> Inr None
     | Some v \<Rightarrow> (case mapping_of v of None \<Rightarrow> Inl JournalCorruption
         | Some m \<Rightarrow> ebind (lift_corrupt (outcome_from_dict False m)) (\<lambda>t. Inr (Some t))))"

definition event_from_row :: "event_row \<Rightarrow> journal_event journaled" where
  "event_from_row r = ebind (decode_outcome (ev_outcome r)) (\<lambda>t.
     Inr \<lparr>je_sequence = ev_sequence r, je_transition_id = ev_transition_id r, je_project_id = ev_project_id r,
       je_task_id = ev_task_id r, je_phase = ev_phase r, je_reason_code = ev_reason_code r, je_outcome = t,
       je_created_at = ev_created_at r\<rparr>)"

text \<open>The ledger is in the order of its sequence, so the newest row comes last.\<close>

definition events_of :: "string \<Rightarrow> journal \<Rightarrow> event_row list" where
  "events_of tid j = filter (\<lambda>e. ev_transition_id e = tid) (jn_events j)"

definition latest_event :: "string \<Rightarrow> journal \<Rightarrow> journal_event option journaled" where
  "latest_event tid j = (if events_of tid j = [] then Inr None
     else ebind (event_from_row (last (events_of tid j))) (\<lambda>e. Inr (Some e)))"

definition transition_events :: "string \<Rightarrow> journal \<Rightarrow> journal_event list journaled" where
  "transition_events tid j = eseq event_from_row (events_of tid j)"

definition load_intent :: "string \<Rightarrow> journal \<Rightarrow> transition_intent journaled" where
  "load_intent tid j = (case request_of tid j of None \<Rightarrow> Inl (JournalPy KeyError)
     | Some r \<Rightarrow> lift_corrupt (intent_from_dict (rq_intent r)))"

text \<open>The committed transitions of a task, newest first, and the newest one.\<close>

definition event_committed :: "journal_event \<Rightarrow> bool" where
  "event_committed e \<longleftrightarrow> (case je_outcome e of None \<Rightarrow> False
     | Some t \<Rightarrow> to_disposition t \<in> {Td_APPLIED, Td_RECOVERED, Td_STAGED})"

definition task_event_rows :: "string \<Rightarrow> string \<Rightarrow> journal \<Rightarrow> (event_row \<times> request_row) list" where
  "task_event_rows project task j = rev (concat (map (\<lambda>e. case request_of (ev_transition_id e) j of
       None \<Rightarrow> []
     | Some r \<Rightarrow> if rq_project_id r = project \<and> rq_task_id r = task \<and> ev_outcome e \<noteq> None then [(e, r)] else [])
     (jn_events j)))"

fun committed_rows :: "(event_row \<times> request_row) list \<Rightarrow> (transition_intent \<times> journal_event \<times> string) list journaled"
where
  "committed_rows [] = Inr []"
| "committed_rows ((e, r) # rows) = ebind (event_from_row e) (\<lambda>v.
     if event_committed v then ebind (lift_corrupt (intent_from_dict (rq_intent r))) (\<lambda>i.
       ebind (committed_rows rows) (\<lambda>vs. Inr ((i, v, rq_created_at r) # vs)))
     else committed_rows rows)"

fun newest_committed :: "(event_row \<times> request_row) list \<Rightarrow> (transition_intent \<times> journal_event) option journaled" where
  "newest_committed [] = Inr None"
| "newest_committed ((e, r) # rows) = ebind (event_from_row e) (\<lambda>v.
     if event_committed v then ebind (lift_corrupt (intent_from_dict (rq_intent r))) (\<lambda>i. Inr (Some (i, v)))
     else newest_committed rows)"

definition journal_text :: "string \<Rightarrow> string journaled" where
  "journal_text s = journal_py (required_text (PStr s))"

definition committed_task_transitions ::
  "string \<Rightarrow> string \<Rightarrow> journal \<Rightarrow> (transition_intent \<times> journal_event \<times> string) list journaled" where
  "committed_task_transitions project task j =
     ebind (journal_text project) (\<lambda>p. ebind (journal_text task) (\<lambda>t. committed_rows (task_event_rows p t j)))"

definition latest_committed_task_transition ::
  "string \<Rightarrow> string \<Rightarrow> journal \<Rightarrow> (transition_intent \<times> journal_event) option journaled" where
  "latest_committed_task_transition project task j =
     ebind (journal_text project) (\<lambda>p. ebind (journal_text task) (\<lambda>t. newest_committed (task_event_rows p t j)))"

section \<open>Appending\<close>

definition append_locked ::
  "string \<Rightarrow> string \<Rightarrow> string \<Rightarrow> transition_phase \<Rightarrow> string \<Rightarrow> transition_outcome option \<Rightarrow> string \<Rightarrow> journal \<Rightarrow> journal"
where
  "append_locked tid project task phase code outcome stamp j = (let n = jn_last_sequence j + 1 in
     j\<lparr>jn_events := jn_events j @ [\<lparr>ev_sequence = n, ev_transition_id = tid, ev_project_id = project,
         ev_task_id = task, ev_phase = phase, ev_reason_code = code,
         ev_outcome = map_option (\<lambda>t. PDict (outcome_to_dict t)) outcome, ev_created_at = stamp\<rparr>],
       jn_last_sequence := n\<rparr>)"

definition append_event_row ::
  "string \<Rightarrow> transition_phase \<Rightarrow> pyval \<Rightarrow> transition_outcome option \<Rightarrow> string \<Rightarrow> journal \<Rightarrow> journal journaled" where
  "append_event_row tid phase code outcome stamp j = (case request_of tid j of
     None \<Rightarrow> Inl (JournalPy KeyError)
   | Some r \<Rightarrow> ebind (journal_py (required_text code)) (\<lambda>c.
       Inr (append_locked tid (rq_project_id r) (rq_task_id r) phase c outcome stamp j)))"

section \<open>Beginning a transition\<close>

record begin_result =
  bg_transition_id :: string
  bg_claim_token :: "string option"
  bg_replay :: "transition_outcome option"
  bg_waiting :: "transition_outcome option"
  bg_previous_phase :: "transition_phase option"
  bg_recovery :: "(string \<times> transition_intent \<times> transition_phase) option"

definition begin_answer :: "string \<Rightarrow> begin_result" where
  "begin_answer tid = \<lparr>bg_transition_id = tid, bg_claim_token = None, bg_replay = None, bg_waiting = None,
     bg_previous_phase = None, bg_recovery = None\<rparr>"

text \<open>\<open>TransitionOutcome\<close> of an intent that observed nothing.\<close>

definition blind_outcome ::
  "string \<Rightarrow> transition_intent \<Rightarrow> transition_disposition \<Rightarrow> string \<Rightarrow> bool \<Rightarrow> (string \<times> pyval) list option \<Rightarrow>
   transition_outcome" where
  "blind_outcome tid i d code retryable details = \<lparr>to_transition_id = PStr tid, to_project_id = PStr (tn_project_id i),
     to_task_id = PStr (tn_task_id i), to_disposition = d, to_reason_code = PStr code, to_observed_status = PStr [],
     to_observed_version = PNone, to_requested_status = PStr (tn_requested_status i), to_applied_status = PNone,
     to_audit_id = PNone, to_retryable = PBool retryable, to_replayed = False,
     to_details = (case details of None \<Rightarrow> PNone | Some d \<Rightarrow> PDict d)\<rparr>"

definition insert_request :: "string \<Rightarrow> transition_intent \<Rightarrow> string \<Rightarrow> journal \<Rightarrow> journal journaled" where
  "insert_request tid i stamp j = (if request_of tid j \<noteq> None then Inl JournalIntegrity
     else Inr (append_locked tid (tn_project_id i) (tn_task_id i) Tp_REQUESTED (tn_reason_code i) None stamp
       (j\<lparr>jn_requests := jn_requests j @ [\<lparr>rq_transition_id = tid, rq_project_id = tn_project_id i,
          rq_task_id = tn_task_id i, rq_idempotency_key = tn_idempotency_key i,
          rq_intent_revision = intent_revision i, rq_intent = PDict (intent_to_dict i),
          rq_created_at = stamp\<rparr>]\<rparr>)))"

definition insert_claim :: "transition_intent \<Rightarrow> string \<Rightarrow> string \<Rightarrow> real \<Rightarrow> real \<Rightarrow> journal \<Rightarrow> journal journaled" where
  "insert_claim i tid token now ttl j =
     (if claim_of (tn_project_id i) (tn_task_id i) j \<noteq> None then Inl JournalIntegrity
      else Inr (j\<lparr>jn_claims := jn_claims j @ [\<lparr>cl_project_id = tn_project_id i, cl_task_id = tn_task_id i,
        cl_transition_id = tid, cl_claim_token = token, cl_claimed_at = now, cl_lease_expires_at = now + ttl\<rparr>]\<rparr>))"

text \<open>The claim of a task is removed when it is the one that was read.\<close>

definition exact_claim :: "transition_intent \<Rightarrow> task_claim \<Rightarrow> task_claim \<Rightarrow> bool" where
  "exact_claim i active c \<longleftrightarrow> cl_project_id c = tn_project_id i \<and> cl_task_id c = tn_task_id i
     \<and> cl_transition_id c = cl_transition_id active \<and> cl_claim_token c = cl_claim_token active
     \<and> cl_lease_expires_at c = cl_lease_expires_at active"

definition drop_claim :: "transition_intent \<Rightarrow> task_claim \<Rightarrow> journal \<Rightarrow> journal journaled" where
  "drop_claim i active j = (if length (filter (exact_claim i active) (jn_claims j)) \<noteq> 1 then Inl JournalError
     else Inr (j\<lparr>jn_claims := filter (\<lambda>c. \<not> exact_claim i active c) (jn_claims j)\<rparr>))"

definition take_over_claim :: "transition_intent \<Rightarrow> task_claim \<Rightarrow> string \<Rightarrow> real \<Rightarrow> real \<Rightarrow> journal \<Rightarrow> journal journaled" where
  "take_over_claim i active token now ttl j =
     (if length (filter (exact_claim i active) (jn_claims j)) \<noteq> 1 then Inl JournalError
      else Inr (j\<lparr>jn_claims := map (\<lambda>c. if exact_claim i active c
        then c\<lparr>cl_claim_token := token, cl_claimed_at := now, cl_lease_expires_at := now + ttl\<rparr> else c) (jn_claims j)\<rparr>))"

text \<open>The immutable intent behind an expired claim, with its last event.\<close>

definition expired_owner :: "transition_intent \<Rightarrow> task_claim \<Rightarrow> journal \<Rightarrow> (transition_intent \<times> journal_event) journaled"
where
  "expired_owner i active j = (case request_of (cl_transition_id active) j of
     None \<Rightarrow> Inl JournalCorruption
   | Some r \<Rightarrow> if rq_project_id r \<noteq> tn_project_id i \<or> rq_task_id r \<noteq> tn_task_id i then Inl JournalCorruption
       else ebind (latest_event (cl_transition_id active) j) (\<lambda>le. case le of
         None \<Rightarrow> Inl JournalCorruption
       | Some e \<Rightarrow> ebind (lift_corrupt (intent_from_dict (rq_intent r))) (\<lambda>n.
           if intent_revision n \<noteq> rq_intent_revision r \<or> tn_project_id n \<noteq> tn_project_id i \<or> tn_task_id n \<noteq> tn_task_id i
           then Inl JournalCorruption
           else if je_phase e \<in> set FINAL_PHASES \<and> je_outcome e = None then Inl JournalCorruption
           else Inr (n, e))))"

text \<open>
  An expired claim of an unfinished transition is taken over to recover that transition first: the events
  record the handover and the waiting of the new intent.  The lease deadline of the details is the text of
  a float, an argument.
\<close>

definition begin_recovery ::
  "(real \<Rightarrow> pyval) \<Rightarrow> transition_intent \<Rightarrow> string \<Rightarrow> string \<Rightarrow> task_claim \<Rightarrow> transition_intent \<Rightarrow> transition_phase \<Rightarrow> real \<Rightarrow> real \<Rightarrow>
   string \<Rightarrow> journal \<Rightarrow> (journal \<times> begin_result) journaled" where
  "begin_recovery number i tid token active owner phase now ttl stamp j = (
     let owner_id = cl_transition_id active;
         j1 = append_locked owner_id (tn_project_id owner) (tn_task_id owner) Tp_RETRY_SCHEDULED
           ''transition.claim_expired''
           (Some (blind_outcome owner_id owner Td_RETRYABLE ''transition.claim_expired'' True
             (Some [(''replacement_transition_id'', PStr tid),
                    (''lease_expires_at'', number (cl_lease_expires_at active))]))) stamp j;
         j2 = append_locked tid (tn_project_id i) (tn_task_id i) Tp_WAITING ''transition.recovery_in_progress''
           (Some (blind_outcome tid i Td_WAITING ''transition.recovery_in_progress'' True
             (Some [(''recover_transition_id'', PStr owner_id)]))) stamp j1
     in ebind (take_over_claim i active token now ttl j2) (\<lambda>j3.
        Inr (j3, (begin_answer tid)\<lparr>bg_claim_token := Some token, bg_recovery := Some (owner_id, owner, phase)\<rparr>)))"

text \<open>The claim step of \<open>begin\<close>, for a request that is registered and not final.\<close>

definition acquire_claim ::
  "(real \<Rightarrow> pyval) \<Rightarrow> transition_intent \<Rightarrow> string \<Rightarrow> transition_phase option \<Rightarrow> string \<Rightarrow> real \<Rightarrow> real \<Rightarrow> string \<Rightarrow> journal \<Rightarrow>
   (journal \<times> begin_result) journaled" where
  "acquire_claim number i tid previous token now ttl stamp j = (
     let grant = (\<lambda>j. ebind (insert_claim i tid token now ttl j) (\<lambda>j'.
       Inr (j', (begin_answer tid)\<lparr>bg_claim_token := Some token, bg_previous_phase := previous\<rparr>)))
     in case claim_of (tn_project_id i) (tn_task_id i) j of
       None \<Rightarrow> grant j
     | Some active \<Rightarrow>
         if now < cl_lease_expires_at active then
           let w = blind_outcome tid i Td_WAITING ''transition.owner_active'' True
                 (Some [(''active_transition_id'', PStr (cl_transition_id active))])
           in Inr (append_locked tid (tn_project_id i) (tn_task_id i) Tp_WAITING ''transition.owner_active'' (Some w) stamp j,
                (begin_answer tid)\<lparr>bg_waiting := Some w\<rparr>)
         else if cl_transition_id active \<noteq> tid then
           ebind (expired_owner i active j) (\<lambda>(owner, e).
             if je_phase e \<in> set FINAL_PHASES then ebind (drop_claim i active j) grant
             else begin_recovery number i tid token active owner (je_phase e) now ttl stamp j)
         else ebind (drop_claim i active j) grant)"

definition begin_transition ::
  "(real \<Rightarrow> pyval) \<Rightarrow> transition_intent \<Rightarrow> real \<Rightarrow> string \<Rightarrow> string \<Rightarrow> real \<Rightarrow> string \<Rightarrow> journal \<Rightarrow>
   (journal \<times> begin_result) journaled" where
  "begin_transition number i ttl fresh token now stamp j = (
     if ttl \<le> 0 then Inl (JournalPy ValueError)
     else (case request_by_key (tn_project_id i) (tn_idempotency_key i) j of
       Some row \<Rightarrow> let tid = rq_transition_id row in
         ebind (latest_event tid j) (\<lambda>previous.
         if rq_intent_revision row \<noteq> intent_revision i then
           Inr (j, (begin_answer tid)\<lparr>bg_replay := Some (blind_outcome tid i Td_REJECTED
             ''transition.idempotency_conflict'' False (Some [(''existing_task_id'', PStr (rq_task_id row)),
               (''existing_phase'', case previous of None \<Rightarrow> PNone | Some e \<Rightarrow> PStr (phase_value (je_phase e)))]))\<rparr>)
         else (case previous of
             Some e \<Rightarrow> (case je_outcome e of
                 Some t \<Rightarrow> if je_phase e \<in> set FINAL_PHASES
                   then ebind (journal_py (outcome_from_dict True (outcome_to_dict t))) (\<lambda>replay.
                     Inr (j\<lparr>jn_claims := filter (\<lambda>c. \<not> (cl_project_id c = tn_project_id i
                         \<and> cl_task_id c = tn_task_id i \<and> cl_transition_id c = tid)) (jn_claims j)\<rparr>,
                       (begin_answer tid)\<lparr>bg_replay := Some replay\<rparr>))
                   else acquire_claim number i tid (Some (je_phase e)) token now ttl stamp j
               | None \<Rightarrow> acquire_claim number i tid (Some (je_phase e)) token now ttl stamp j)
           | None \<Rightarrow> acquire_claim number i tid None token now ttl stamp j))
     | None \<Rightarrow> ebind (insert_request fresh i stamp j) (acquire_claim number i fresh None token now ttl stamp)))"

section \<open>Releasing\<close>

definition holds_claim :: "string \<Rightarrow> string \<Rightarrow> string \<Rightarrow> task_claim \<Rightarrow> bool" where
  "holds_claim project task token c \<longleftrightarrow> cl_project_id c = project \<and> cl_task_id c = task \<and> cl_claim_token c = token"

definition release_claim :: "string \<Rightarrow> string \<Rightarrow> string \<Rightarrow> journal \<Rightarrow> journal \<times> bool" where
  "release_claim project task token j =
     (j\<lparr>jn_claims := filter (\<lambda>c. \<not> holds_claim project task token c) (jn_claims j)\<rparr>,
      length (filter (holds_claim project task token) (jn_claims j)) = 1)"

definition expire_for_retry :: "string \<Rightarrow> string \<Rightarrow> string \<Rightarrow> real \<Rightarrow> journal \<Rightarrow> journal \<times> bool" where
  "expire_for_retry project task token now j =
     (j\<lparr>jn_claims := map (\<lambda>c. if holds_claim project task token c then c\<lparr>cl_lease_expires_at := now\<rparr> else c) (jn_claims j)\<rparr>,
      length (filter (holds_claim project task token) (jn_claims j)) = 1)"

definition active_claims_for_tasks :: "string \<Rightarrow> string list \<Rightarrow> real \<Rightarrow> journal \<Rightarrow> string list" where
  "active_claims_for_tasks project tasks now j = (
     let identifiers = sort (remdups (map py_strip (filter (\<lambda>t. t \<noteq> []) tasks)))
     in remdups (map cl_task_id (filter (\<lambda>c. cl_project_id c = project \<and> now < cl_lease_expires_at c
          \<and> cl_task_id c \<in> set identifiers) (jn_claims j))))"

text \<open>\<open>integrity_check\<close>, of the rows: SQLite's own check is not modelled.\<close>

definition check_request :: "request_row \<Rightarrow> unit journaled" where
  "check_request r = ebind (lift_corrupt (intent_from_dict (rq_intent r))) (\<lambda>i.
     if intent_revision i \<noteq> rq_intent_revision r then Inl JournalCorruption else Inr ())"

definition integrity_check :: "journal \<Rightarrow> unit journaled" where
  "integrity_check j = ebind (eseq check_request (jn_requests j)) (\<lambda>_.
     ebind (eseq event_from_row (jn_events j)) (\<lambda>_. Inr ()))"

end
