(* ===== verification/SagaMonad.thy ===== *)
theory SagaMonad
  imports OompahPrelude
begin

text \<open>
  Sagas: computations that keep a state and may raise.  Unlike a transaction, a saga that raises keeps what it
  has done, so the state comes back in either case.  The sequencing operators follow Python's statements:
  \<open>andthen\<close> is sequencing, \<open>recovering\<close> is \<open>try ... except\<close> and \<open>finally\<close> is \<open>try ... finally\<close>.  The Hoare
  triples below have one postcondition for a normal return and one for an exception.
\<close>

section \<open>Sequencing\<close>

type_synonym ('s, 'e, 'a) saga = "'s \<Rightarrow> 's \<times> ('e + 'a)"

definition give :: "'a \<Rightarrow> ('s, 'e, 'a) saga" where
  "give x = (\<lambda>s. (s, Inr x))"

definition throw :: "'e \<Rightarrow> ('s, 'e, 'a) saga" where
  "throw e = (\<lambda>s. (s, Inl e))"

definition andthen :: "('s, 'e, 'a) saga \<Rightarrow> ('a \<Rightarrow> ('s, 'e, 'b) saga) \<Rightarrow> ('s, 'e, 'b) saga" where
  "andthen m f = (\<lambda>s. case m s of (s', Inl e) \<Rightarrow> (s', Inl e) | (s', Inr x) \<Rightarrow> f x s')"

definition recovering :: "('s, 'e, 'a) saga \<Rightarrow> ('e \<Rightarrow> ('s, 'e, 'a) saga) \<Rightarrow> ('s, 'e, 'a) saga" where
  "recovering m h = (\<lambda>s. case m s of (s', Inl e) \<Rightarrow> h e s' | (s', Inr x) \<Rightarrow> (s', Inr x))"

text \<open>\<open>try: m finally: c\<close>; \<open>c\<close> sees what \<open>m\<close> did, and an exception of \<open>c\<close> replaces it.\<close>

definition finishing :: "('s, 'e, 'a) saga \<Rightarrow> ('e + 'a \<Rightarrow> ('s, 'e, unit) saga) \<Rightarrow> ('s, 'e, 'a) saga" where
  "finishing m c = (\<lambda>s. case m s of (s', r) \<Rightarrow> (case c r s' of (s'', Inl e) \<Rightarrow> (s'', Inl e) | (s'', Inr _) \<Rightarrow> (s'', r)))"

definition reading :: "('s \<Rightarrow> 'a) \<Rightarrow> ('s, 'e, 'a) saga" where
  "reading f = (\<lambda>s. (s, Inr (f s)))"

definition doing :: "('s \<Rightarrow> 's) \<Rightarrow> ('s, 'e, unit) saga" where
  "doing f = (\<lambda>s. (f s, Inr ()))"

definition lifting :: "('x \<Rightarrow> 'e) \<Rightarrow> 'x + 'a \<Rightarrow> ('s, 'e, 'a) saga" where
  "lifting g m = (\<lambda>s. (s, case m of Inl e \<Rightarrow> Inl (g e) | Inr x \<Rightarrow> Inr x))"

definition guarding :: "bool \<Rightarrow> ('s, 'e, unit) saga \<Rightarrow> ('s, 'e, unit) saga" where
  "guarding b m = (if b then m else give ())"

named_theorems saga_simps \<open>equations that run the sequencing operators on a state\<close>

lemma saga_run [saga_simps]:
  "give x s = (s, Inr x)"
  "throw e s = (s, Inl e)"
  "reading f s = (s, Inr (f s))"
  "doing g s = (g s, Inr ())"
  "guarding True c = c"
  "guarding False c = give ()"
  "lifting h (Inl y) s = (s, Inl (h y))"
  "lifting h (Inr z) s = (s, Inr z)"
  by (simp_all add: give_def throw_def reading_def doing_def guarding_def lifting_def)

lemma andthen_run [saga_simps]: "andthen m f s = (case m s of (s', Inl e) \<Rightarrow> (s', Inl e) | (s', Inr x) \<Rightarrow> f x s')"
  by (simp add: andthen_def)

lemma andthen_assoc: "andthen (andthen m f) g = andthen m (\<lambda>x. andthen (f x) g)"
  by (rule ext) (simp add: andthen_def split: prod.split sum.split)

lemma andthen_give [simp]: "andthen (give x) f = f x" "andthen m give = m"
  by (auto simp: andthen_def give_def fun_eq_iff split: prod.split sum.split)

lemma andthen_returns:
  "andthen m f s = (s', Inr y) \<longleftrightarrow> (\<exists>u x. m s = (u, Inr x) \<and> f x u = (s', Inr y))"
  by (auto simp: andthen_def split: prod.split sum.split)

lemma andthen_raises:
  "andthen m f s = (s', Inl e) \<longleftrightarrow> m s = (s', Inl e) \<or> (\<exists>u x. m s = (u, Inr x) \<and> f x u = (s', Inl e))"
  by (auto simp: andthen_def split: prod.split sum.split)

section \<open>Triples\<close>

text \<open>From \<open>P\<close>, a return satisfies \<open>Q\<close> and an exception satisfies \<open>E\<close>.\<close>

definition triple :: "('s \<Rightarrow> bool) \<Rightarrow> ('s, 'e, 'a) saga \<Rightarrow> ('a \<Rightarrow> 's \<Rightarrow> bool) \<Rightarrow> ('e \<Rightarrow> 's \<Rightarrow> bool) \<Rightarrow> bool" where
  "triple P m Q E \<longleftrightarrow> (\<forall>s. P s \<longrightarrow> (case m s of (s', Inl e) \<Rightarrow> E e s' | (s', Inr x) \<Rightarrow> Q x s'))"

named_theorems triple_rules \<open>Hoare rules of the sequencing operators\<close>

lemma tripleI:
  assumes "\<And>s s' x. P s \<Longrightarrow> m s = (s', Inr x) \<Longrightarrow> Q x s'" and "\<And>s s' e. P s \<Longrightarrow> m s = (s', Inl e) \<Longrightarrow> E e s'"
  shows "triple P m Q E"
  using assms by (auto simp: triple_def split: prod.split sum.split)

lemma triple_returns: "triple P m Q E \<Longrightarrow> P s \<Longrightarrow> m s = (s', Inr x) \<Longrightarrow> Q x s'"
  by (fastforce simp: triple_def)

lemma triple_raises: "triple P m Q E \<Longrightarrow> P s \<Longrightarrow> m s = (s', Inl e) \<Longrightarrow> E e s'"
  by (fastforce simp: triple_def)

lemma triple_weaken:
  assumes "triple P m Q E" and "\<And>s. P' s \<Longrightarrow> P s" and "\<And>x s. Q x s \<Longrightarrow> Q' x s" and "\<And>e s. E e s \<Longrightarrow> E' e s"
  shows "triple P' m Q' E'"
  using assms(2-4) triple_returns[OF assms(1)] triple_raises[OF assms(1)] by (intro tripleI) blast+

lemma triple_give [triple_rules]: "(\<And>s. P s \<Longrightarrow> Q x s) \<Longrightarrow> triple P (give x) Q E"
  by (simp add: triple_def give_def)

lemma triple_throw [triple_rules]: "(\<And>s. P s \<Longrightarrow> E e s) \<Longrightarrow> triple P (throw e) Q E"
  by (simp add: triple_def throw_def)

lemma triple_reading [triple_rules]: "(\<And>s. P s \<Longrightarrow> Q (f s) s) \<Longrightarrow> triple P (reading f) Q E"
  by (simp add: triple_def reading_def)

lemma triple_doing [triple_rules]: "(\<And>s. P s \<Longrightarrow> Q () (f s)) \<Longrightarrow> triple P (doing f) Q E"
  by (simp add: triple_def doing_def)

lemma triple_lifting [triple_rules]:
  "(\<And>s x. P s \<Longrightarrow> m = Inr x \<Longrightarrow> Q x s) \<Longrightarrow> (\<And>s e. P s \<Longrightarrow> m = Inl e \<Longrightarrow> E (g e) s) \<Longrightarrow> triple P (lifting g m) Q E"
  by (cases m) (auto simp: triple_def lifting_def)

lemma triple_andthen [triple_rules]:
  assumes "triple P m R E" and "\<And>x. triple (R x) (f x) Q E"
  shows "triple P (andthen m f) Q E"
proof (rule tripleI)
  fix s s' y assume "P s" "andthen m f s = (s', Inr y)"
  then show "Q y s'" using triple_returns[OF assms(1)] triple_returns[OF assms(2)] unfolding andthen_returns by blast
next
  fix s s' e assume "P s" "andthen m f s = (s', Inl e)"
  then show "E e s'" using triple_returns[OF assms(1)] triple_raises[OF assms(1)] triple_raises[OF assms(2)]
    unfolding andthen_raises by blast
qed

lemma triple_recovering [triple_rules]:
  assumes "triple P m Q R" and "\<And>e. triple (R e) (h e) Q E"
  shows "triple P (recovering m h) Q E"
  unfolding triple_def
proof (intro allI impI)
  fix s assume P: "P s"
  show "case recovering m h s of (s', Inl e) \<Rightarrow> E e s' | (s', Inr x) \<Rightarrow> Q x s'"
  proof (cases "m s")
    case (Pair u r)
    then show ?thesis
      using triple_returns[OF assms(1) P] triple_raises[OF assms(1) P] assms(2)
      by (cases r) (auto simp: recovering_def triple_def)
  qed
qed

lemma triple_finishing:
  assumes "triple P m Q E" and "\<And>x. triple (Q x) (c (Inr x)) (\<lambda>_. Q' x) E'"
    and "\<And>e. triple (E e) (c (Inl e)) (\<lambda>_. E' e) E'"
  shows "triple P (finishing m c) Q' E'"
  unfolding triple_def
proof (intro allI impI)
  fix s assume P: "P s"
  show "case finishing m c s of (s', Inl e) \<Rightarrow> E' e s' | (s', Inr x) \<Rightarrow> Q' x s'"
  proof (cases "m s")
    case (Pair u r)
    show ?thesis
    proof (cases r)
      case (Inl e)
      then have "E e u" using triple_raises[OF assms(1) P] Pair by simp
      then show ?thesis using assms(3)[of e] Pair Inl unfolding triple_def finishing_def
        by (cases "c (Inl e) u") (auto split: sum.splits)
    next
      case (Inr x)
      then have "Q x u" using triple_returns[OF assms(1) P] Pair by simp
      then show ?thesis using assms(2)[of x] Pair Inr unfolding triple_def finishing_def
        by (cases "c (Inr x) u") (auto split: sum.splits)
    qed
  qed
qed

lemma triple_if [triple_rules]:
  "(b \<Longrightarrow> triple P m Q E) \<Longrightarrow> (\<not> b \<Longrightarrow> triple P m' Q E) \<Longrightarrow> triple P (if b then m else m') Q E"
  by simp

lemma triple_guarding [triple_rules]:
  "(b \<Longrightarrow> triple P m Q E) \<Longrightarrow> (\<And>s. \<not> b \<Longrightarrow> P s \<Longrightarrow> Q () s) \<Longrightarrow> triple P (guarding b m) Q E"
  by (auto simp: guarding_def triple_give)

lemma triple_option [triple_rules]:
  "(x = None \<Longrightarrow> triple P m Q E) \<Longrightarrow> (\<And>y. x = Some y \<Longrightarrow> triple P (f y) Q E)
    \<Longrightarrow> triple P (case x of None \<Rightarrow> m | Some y \<Rightarrow> f y) Q E"
  by (cases x) auto

lemma triple_conj:
  "triple P m Q E \<Longrightarrow> triple P' m Q' E'
    \<Longrightarrow> triple (\<lambda>s. P s \<and> P' s) m (\<lambda>x s. Q x s \<and> Q' x s) (\<lambda>e s. E e s \<and> E' e s)"
  unfolding triple_def by (fastforce split: prod.split sum.split)

text \<open>A relation that every step extends and that is a preorder is an invariant of the whole saga.\<close>

definition advances :: "('s \<Rightarrow> 's \<Rightarrow> bool) \<Rightarrow> ('s, 'e, 'a) saga \<Rightarrow> bool" where
  "advances R m \<longleftrightarrow> (\<forall>s. R s (fst (m s)))"

locale saga_relation =
  fixes R :: "'s \<Rightarrow> 's \<Rightarrow> bool"
  assumes R_refl: "R s s" and R_trans: "R s t \<Longrightarrow> R t u \<Longrightarrow> R s u"
begin

lemma advances_still: "advances R (give x)" "advances R (throw e)" "advances R (reading f)" "advances R (lifting g m)"
  by (auto simp: advances_def give_def throw_def reading_def lifting_def R_refl)

lemma advances_doing: "(\<And>s. R s (f s)) \<Longrightarrow> advances R (doing f)"
  by (simp add: advances_def doing_def)

lemma advances_andthen:
  assumes "advances R m" and "\<And>x. advances R (f x)"
  shows "advances R (andthen m f)"
  unfolding advances_def
proof
  fix s
  obtain u r where m: "m s = (u, r)" by fastforce
  then have "R s u" using assms(1) unfolding advances_def by (metis fst_conv)
  then show "R s (fst (andthen m f s))"
    using assms(2) R_trans unfolding advances_def by (cases r) (auto simp: andthen_def m)
qed

lemma advances_recovering:
  assumes "advances R m" and "\<And>e. advances R (h e)"
  shows "advances R (recovering m h)"
  unfolding advances_def
proof
  fix s
  obtain u r where m: "m s = (u, r)" by fastforce
  then have "R s u" using assms(1) unfolding advances_def by (metis fst_conv)
  then show "R s (fst (recovering m h s))"
    using assms(2) R_trans unfolding advances_def by (cases r) (auto simp: recovering_def m)
qed

lemma advances_finishing:
  assumes "advances R m" and "\<And>r. advances R (c r)"
  shows "advances R (finishing m c)"
  unfolding advances_def
proof
  fix s
  obtain u r where m: "m s = (u, r)" by fastforce
  obtain v q where c: "c r u = (v, q)" by fastforce
  have "R s u" "R u v" using assms m c unfolding advances_def by (metis fst_conv)+
  then show "R s (fst (finishing m c s))" using R_trans by (cases q) (auto simp: finishing_def m c)
qed

lemma advances_if: "advances R m \<Longrightarrow> advances R m' \<Longrightarrow> advances R (if b then m else m')"
  by simp

lemma advances_guarding: "advances R m \<Longrightarrow> advances R (guarding b m)"
  by (simp add: guarding_def advances_still)

lemma advances_option:
  "advances R m \<Longrightarrow> (\<And>y. advances R (f y)) \<Longrightarrow> advances R (case x of None \<Rightarrow> m | Some y \<Rightarrow> f y)"
  by (cases x) auto

lemma advances_sum:
  "(\<And>y. advances R (f y)) \<Longrightarrow> (\<And>z. advances R (g z)) \<Longrightarrow> advances R (case x of Inl y \<Rightarrow> f y | Inr z \<Rightarrow> g z)"
  by (cases x) auto

lemmas advances_rules = advances_still advances_andthen advances_recovering advances_finishing advances_if
  advances_guarding advances_option advances_sum

end

end
