(* ===== verification/TransitionService.thy ===== *)
theory TransitionService
  imports TransitionJournal SagaMonad
begin

text \<open>
  The executor of oompah/task_transition_service.py (\<open>TaskTransitionService\<close>): every status change is
  journalled, claimed, checked against the live issue, written to the tracker, and verified.

  The tracker, the terminal coordinator and the guards are outside: they answer a call with a reply that may
  depend on the time of the call (the tick).  Between two journal calls other services may have changed the
  journal (\<open>sw_others\<close>).  The trace records the calls to the outside and the committed journal appends.
  Cancellation, the write locks and the lifetime of the journal's connection are not modelled.
\<close>

section \<open>World, service and state\<close>

datatype detail_reply = Detail_issue tracked_issue | Detail_none | Detail_other | Detail_raised string

text \<open>A point read answers a list whose entries may not be issues.\<close>

datatype point_reply = Points "tracked_issue option list" | Point_raised string

datatype children_reply = Children "tracked_issue option list" | Children_raised string

record stage_result =
  sr_success :: bool
  sr_audit_id :: "string option"
  sr_reason_code :: string
  sr_detail :: "string option"

datatype stage_reply = Staged_as stage_result | Stage_raised string

datatype guard_reply = Guard_says "string option" | Guard_raised

record service_world =
  sw_number :: "real \<Rightarrow> pyval"
  sw_clock :: "nat \<Rightarrow> real"
  sw_stamp :: "nat \<Rightarrow> string"
  sw_fresh :: "nat \<Rightarrow> string"
  sw_token :: "nat \<Rightarrow> string"
  sw_detail :: "nat \<Rightarrow> string \<Rightarrow> detail_reply"
  sw_point :: "(nat \<Rightarrow> string \<Rightarrow> point_reply) option"
  sw_children :: "(nat \<Rightarrow> string \<Rightarrow> children_reply) option"
  sw_update :: "nat \<Rightarrow> string \<Rightarrow> string \<Rightarrow> string option"
  sw_others :: "nat \<Rightarrow> journal \<Rightarrow> journal"

record service =
  ts_project_id :: string
  ts_terminal_adapter :: "(nat \<Rightarrow> transition_intent \<Rightarrow> tracked_issue \<Rightarrow> stage_reply) option"
  ts_claim_guard :: "(nat \<Rightarrow> transition_intent \<Rightarrow> tracked_issue \<Rightarrow> guard_reply) option"
  ts_mutation_guard :: "(nat \<Rightarrow> transition_intent \<Rightarrow> tracked_issue \<Rightarrow> guard_reply) option"
  ts_retirement_guard :: "(nat \<Rightarrow> transition_intent \<Rightarrow> tracked_issue \<Rightarrow> guard_reply) option"
  ts_claim_ttl :: real

definition make_service ::
  "pyval \<Rightarrow> (nat \<Rightarrow> transition_intent \<Rightarrow> tracked_issue \<Rightarrow> stage_reply) option
   \<Rightarrow> (nat \<Rightarrow> transition_intent \<Rightarrow> tracked_issue \<Rightarrow> guard_reply) option
   \<Rightarrow> (nat \<Rightarrow> transition_intent \<Rightarrow> tracked_issue \<Rightarrow> guard_reply) option
   \<Rightarrow> (nat \<Rightarrow> transition_intent \<Rightarrow> tracked_issue \<Rightarrow> guard_reply) option \<Rightarrow> real \<Rightarrow> service result" where
  "make_service project adapter claim_guard mutation_guard retirement_guard ttl =
     ebind (required_text project) (\<lambda>p. if ttl \<le> 0 then Inl ValueError else
       Inr \<lparr>ts_project_id = p, ts_terminal_adapter = adapter, ts_claim_guard = claim_guard,
         ts_mutation_guard = mutation_guard, ts_retirement_guard = retirement_guard, ts_claim_ttl = ttl\<rparr>)"

datatype service_event =
    Fetched string "tracked_issue option"
  | Wrote string string
  | Staged transition_intent tracked_issue
  | Logged string transition_phase

text \<open>\<open>sv_outcome\<close> is the local variable \<open>outcome\<close> that the release of the claim looks at.\<close>

record service_state =
  sv_journal :: journal
  sv_tick :: nat
  sv_outcome :: "transition_outcome option"
  sv_trace :: "service_event list"

datatype service_exn = Svc_journal journal_exn | Svc_py py_exn | Svc_raised string

fun py_exn_name :: "py_exn \<Rightarrow> string" where
  "py_exn_name ValueError = ''ValueError''"
| "py_exn_name TypeError = ''TypeError''"
| "py_exn_name KeyError = ''KeyError''"
| "py_exn_name OverflowError = ''OverflowError''"
| "py_exn_name AssertionError = ''AssertionError''"
| "py_exn_name StopIteration = ''StopIteration''"

text \<open>\<open>type(exc).__name__\<close>.\<close>

fun service_exn_name :: "service_exn \<Rightarrow> string" where
  "service_exn_name (Svc_journal (JournalPy e)) = py_exn_name e"
| "service_exn_name (Svc_journal JournalError) = ''TransitionJournalError''"
| "service_exn_name (Svc_journal JournalCorruption) = ''TransitionJournalCorruptionError''"
| "service_exn_name (Svc_journal JournalIntegrity) = ''IntegrityError''"
| "service_exn_name (Svc_py e) = py_exn_name e"
| "service_exn_name (Svc_raised n) = n"

type_synonym 'a service_saga = "(service_state, service_exn, 'a) saga"

definition tick :: "service_state \<Rightarrow> service_state" where
  "tick s = s\<lparr>sv_tick := Suc (sv_tick s)\<rparr>"

definition noting :: "service_event \<Rightarrow> 'a service_saga \<Rightarrow> 'a service_saga" where
  "noting e m = andthen (doing (\<lambda>s. s\<lparr>sv_trace := sv_trace s @ [e]\<rparr>)) (\<lambda>_. m)"

text \<open>A call of the journal, after what the others did to it.\<close>

definition journal_call ::
  "service_world \<Rightarrow> (nat \<Rightarrow> journal \<Rightarrow> (journal \<times> 'a) journaled) \<Rightarrow> 'a service_saga" where
  "journal_call w f = (\<lambda>s. let j = sw_others w (sv_tick s) (sv_journal s) in
     case f (sv_tick s) j of
       Inl e \<Rightarrow> (tick (s\<lparr>sv_journal := j\<rparr>), Inl (Svc_journal e))
     | Inr (j', x) \<Rightarrow> (tick (s\<lparr>sv_journal := j'\<rparr>), Inr x))"

definition append_call ::
  "service_world \<Rightarrow> string \<Rightarrow> transition_phase \<Rightarrow> pyval \<Rightarrow> transition_outcome option \<Rightarrow> unit service_saga" where
  "append_call w tid phase code outcome =
     andthen (journal_call w (\<lambda>n j. ebind (append_event_row tid phase code outcome (sw_stamp w n) j) (\<lambda>j'. Inr (j', ()))))
       (\<lambda>_. noting (Logged tid phase) (give ()))"

section \<open>Reading the tracker\<close>

definition adopt_project :: "service \<Rightarrow> tracked_issue \<Rightarrow> tracked_issue" where
  "adopt_project sv i = (if text_choice [iss_project_id i] = [] then i\<lparr>iss_project_id := Some (ts_project_id sv)\<rparr> else i)"

definition detail_call :: "service_world \<Rightarrow> string \<Rightarrow> detail_reply service_saga" where
  "detail_call w task = (\<lambda>s. (tick s, case sw_detail w (sv_tick s) task of
     Detail_raised n \<Rightarrow> Inl (Svc_raised n) | r \<Rightarrow> Inr r))"

definition point_call :: "service_world \<Rightarrow> string \<Rightarrow> tracked_issue option service_saga" where
  "point_call w task = (case sw_point w of None \<Rightarrow> give None
     | Some read \<Rightarrow> (\<lambda>s. (tick s, case read (sv_tick s) task of
         Point_raised n \<Rightarrow> Inl (Svc_raised n)
       | Points candidates \<Rightarrow> Inr (find (\<lambda>i. task = iss_id i \<or> task = iss_identifier i) (List.map_filter id candidates)))))"

definition fetch :: "service \<Rightarrow> service_world \<Rightarrow> string \<Rightarrow> tracked_issue option service_saga" where
  "fetch sv w task =
     andthen (detail_call w task) (\<lambda>r.
     andthen (case r of Detail_issue i \<Rightarrow> give (Some i) | Detail_other \<Rightarrow> point_call w task | _ \<Rightarrow> give None) (\<lambda>found.
     let issue = map_option (adopt_project sv) found in noting (Fetched task issue) (give issue)))"

definition try_fetch :: "service \<Rightarrow> service_world \<Rightarrow> string \<Rightarrow> (string + tracked_issue option) service_saga" where
  "try_fetch sv w task = recovering (andthen (fetch sv w task) (\<lambda>i. give (Inr i))) (\<lambda>e. give (Inl (service_exn_name e)))"

definition parent_key :: "tracked_issue \<Rightarrow> string" where
  "parent_key i = text_choice [Some (iss_id i), Some (iss_identifier i)]"

definition try_fetch_children :: "service_world \<Rightarrow> tracked_issue \<Rightarrow> (string + tracked_issue list) service_saga" where
  "try_fetch_children w parent = (case sw_children w of None \<Rightarrow> give (Inl ''RuntimeError'')
     | Some read \<Rightarrow> (\<lambda>s. (tick s, Inr (case read (sv_tick s) (parent_key parent) of
         Children_raised n \<Rightarrow> Inl n
       | Children observed \<Rightarrow> if None \<in> set observed then Inl ''TypeError'' else Inr (List.map_filter id observed)))))"

definition update_call :: "service_world \<Rightarrow> string \<Rightarrow> string \<Rightarrow> unit service_saga" where
  "update_call w task status = noting (Wrote task status)
     (\<lambda>s. (tick s, case sw_update w (sv_tick s) task status of None \<Rightarrow> Inr () | Some n \<Rightarrow> Inl (Svc_raised n)))"

section \<open>Outcomes\<close>

text \<open>What a branch decided: the outcome's own fields and the phase under which it is journalled.\<close>

record verdict =
  vd_disposition :: transition_disposition
  vd_phase :: transition_phase
  vd_code :: string
  vd_retryable :: bool
  vd_applied :: "string option"
  vd_audit :: "string option"
  vd_details :: "(string \<times> pyval) list option"

definition plain_verdict :: "transition_disposition \<Rightarrow> transition_phase \<Rightarrow> string \<Rightarrow> verdict" where
  "plain_verdict d p code = \<lparr>vd_disposition = d, vd_phase = p, vd_code = code, vd_retryable = False, vd_applied = None,
     vd_audit = None, vd_details = None\<rparr>"

definition reject :: "string \<Rightarrow> verdict" where
  "reject code = plain_verdict Td_REJECTED Tp_REJECTED code"

definition reject_with :: "string \<Rightarrow> string \<Rightarrow> pyval \<Rightarrow> verdict" where
  "reject_with code k v = (reject code)\<lparr>vd_details := Some [(k, v)]\<rparr>"

definition retry :: "string \<Rightarrow> verdict" where
  "retry code = (plain_verdict Td_RETRYABLE Tp_RETRY_SCHEDULED code)\<lparr>vd_retryable := True\<rparr>"

definition retry_with :: "string \<Rightarrow> string \<Rightarrow> pyval \<Rightarrow> verdict" where
  "retry_with code k v = (retry code)\<lparr>vd_details := Some [(k, v)]\<rparr>"

definition reached :: "transition_disposition \<Rightarrow> transition_phase \<Rightarrow> string \<Rightarrow> string \<Rightarrow> verdict" where
  "reached d p code status = (plain_verdict d p code)\<lparr>vd_applied := Some status\<rparr>"

definition verify_pending :: "string \<Rightarrow> verdict" where
  "verify_pending code = (plain_verdict Td_RETRYABLE Tp_VERIFY_PENDING code)\<lparr>vd_retryable := True\<rparr>"

text \<open>\<open>_outcome\<close>.\<close>

definition outcome_of :: "string \<Rightarrow> transition_intent \<Rightarrow> verdict \<Rightarrow> tracked_issue option \<Rightarrow> transition_outcome result" where
  "outcome_of tid n v issue =
     ebind (case issue of None \<Rightarrow> Inr PNone | Some i \<Rightarrow> ebind (issue_authority_version i) (\<lambda>x. Inr (PStr x))) (\<lambda>version.
     Inr \<lparr>to_transition_id = PStr tid, to_project_id = PStr (tn_project_id n), to_task_id = PStr (tn_task_id n),
       to_disposition = vd_disposition v, to_reason_code = PStr (vd_code v),
       to_observed_status = PStr (case issue of None \<Rightarrow> [] | Some i \<Rightarrow> status_of i), to_observed_version = version,
       to_requested_status = PStr (tn_requested_status n), to_applied_status = opt_str (vd_applied v),
       to_audit_id = opt_str (vd_audit v), to_retryable = PBool (vd_retryable v), to_replayed = False,
       to_details = (case vd_details v of None \<Rightarrow> PNone | Some d \<Rightarrow> PDict d)\<rparr>)"

text \<open>The tail of every branch: build the outcome, journal it, return it.\<close>

definition conclude ::
  "service_world \<Rightarrow> string \<Rightarrow> transition_intent \<Rightarrow> verdict \<Rightarrow> tracked_issue option \<Rightarrow> transition_outcome service_saga" where
  "conclude w tid n v issue =
     andthen (lifting Svc_py (outcome_of tid n v issue)) (\<lambda>t.
     andthen (doing (\<lambda>s. s\<lparr>sv_outcome := Some t\<rparr>)) (\<lambda>_.
     andthen (append_call w tid (vd_phase v) (PStr (vd_code v)) (Some t)) (\<lambda>_. give t)))"

section \<open>Checks\<close>

text \<open>The checks of \<open>_execute_claimed\<close> up to the epic rollup, on the issue and its version.\<close>

definition observed_verdict ::
  "transition_intent \<Rightarrow> transition_phase option \<Rightarrow> tracked_issue \<Rightarrow> string \<Rightarrow> verdict option" where
  "observed_verdict n previous i ver = (
     if status_of i = tn_requested_status n then
       Some (reached Td_ALREADY_APPLIED Tp_RECOVERED ''transition.already_applied'' (status_of i))
     else if tn_requested_status n \<in> set TERMINAL_TARGETS \<and> status_of i = IN_VALIDATION
         \<and> previous \<in> {Some Tp_APPLYING, Some Tp_VERIFY_PENDING, Some Tp_RETRY_SCHEDULED} then
       Some (reached Td_RECOVERED Tp_RECOVERED ''transition.terminal_stage_recovered'' IN_VALIDATION)
     else if status_of i \<noteq> tn_expected_status n then
       Some (reject_with ''transition.stale_status'' ''expected_status'' (PStr (tn_expected_status n)))
     else if ver \<noteq> tn_expected_version n then
       Some (reject_with ''transition.stale_version'' ''expected_version'' (PStr (tn_expected_version n)))
     else if tn_requested_status n = IN_VALIDATION then Some (reject ''transition.audit_staging_required'')
     else if transition_rule_of (PStr (status_of i)) (PStr (tn_requested_status n)) = None
         \<and> (tn_requested_status n \<notin> set TERMINAL_TARGETS
            \<or> transition_rule_of (PStr (status_of i)) (PStr IN_VALIDATION) = None) then
       Some (reject ''transition.illegal_edge'')
     else if tn_reason_code n = ''rollup.epic_children_reconciled'' \<and> tn_authority n \<noteq> Auth_SYSTEM then
       Some (reject ''transition.rollup_authority_required'')
     else None)"

definition system_epic_rollup :: "transition_intent \<Rightarrow> bool" where
  "system_epic_rollup n \<longleftrightarrow> tn_reason_code n = ''rollup.epic_children_reconciled'' \<and> tn_authority n = Auth_SYSTEM"

text \<open>The lineage check of a system rollup.\<close>

definition rollup_verdict :: "service_world \<Rightarrow> transition_intent \<Rightarrow> tracked_issue \<Rightarrow> verdict option service_saga" where
  "rollup_verdict w n i = (if \<not> system_epic_rollup n then give None
     else andthen (try_fetch_children w i) (\<lambda>r. case r of
         Inl name \<Rightarrow> give (Some (retry_with ''transition.rollup_lineage_unavailable'' ''error_type'' (PStr name)))
       | Inr [] \<Rightarrow> give (Some (reject ''transition.rollup_authority_required''))
       | Inr children \<Rightarrow> andthen (lifting Svc_py (rollup_authority_generation i children)) (\<lambda>g.
           if tn_evidence_generation n \<noteq> Some g then
             give (Some (reject_with ''transition.rollup_generation_mismatch'' ''observed_rollup_generation'' (PStr g)))
           else give None)))"

definition is_direct_owner_claim :: "transition_intent \<Rightarrow> bool" where
  "is_direct_owner_claim n \<longleftrightarrow> tn_expected_status n = BACKLOG \<and> tn_requested_status n = IN_PROGRESS"

definition is_validation_submission :: "transition_intent \<Rightarrow> bool" where
  "is_validation_submission n \<longleftrightarrow> tn_expected_status n \<in> {OPEN, IN_PROGRESS, NEEDS_CI_FIX, NEEDS_REBASE}
     \<and> tn_requested_status n = READY_TO_INTEGRATE \<and> tn_reason_code n = ''implementation.validation_submission''"

text \<open>The requirements of the direct edge and of the staging edge together.\<close>

definition edge_requirements :: "string \<Rightarrow> string \<Rightarrow> transition_requirement list" where
  "edge_requirements src tgt = concat (map (\<lambda>r. case r of None \<Rightarrow> [] | Some x \<Rightarrow> tr_requirements x)
     [transition_rule_of (PStr src) (PStr tgt),
      if tgt \<in> set TERMINAL_TARGETS then transition_rule_of (PStr src) (PStr IN_VALIDATION) else None])"

definition maintenance_audit_ready :: "transition_intent \<Rightarrow> tracked_issue \<Rightarrow> bool result" where
  "maintenance_audit_ready n i = (
     if tn_authority n \<noteq> Auth_AUDITOR \<or> tn_reason_code n \<noteq> ''maintenance.publication_proven'' then Inr False
     else direct_epic_maintenance_handoff_ready (Task_issue (issue.truncate i)) None)"

definition head_verdict :: "transition_intent \<Rightarrow> tracked_issue \<Rightarrow> verdict option" where
  "head_verdict n i = (case tn_exact_head n of None \<Rightarrow> None
     | Some h \<Rightarrow> if issue_exact_head i \<noteq> Some h \<and> guarded_landing_lane n i = None then
         Some (reject_with (if issue_exact_head i = None then ''transition.head_missing'' else ''transition.head_mismatch'')
           ''observed_head'' (opt_str (issue_exact_head i)))
       else None)"

definition generation_mismatch :: "transition_intent \<Rightarrow> tracked_issue \<Rightarrow> bool" where
  "generation_mismatch n i = (case (tn_evidence_generation n, optional_text (opt_str (ti_assignment_id i))) of
     (Some g, Some observed) \<Rightarrow> g \<noteq> observed | _ \<Rightarrow> False)"

text \<open>The authority and evidence checks that follow the rollup.\<close>

definition evidence_verdict :: "transition_intent \<Rightarrow> tracked_issue \<Rightarrow> verdict option" where
  "evidence_verdict n i = (
     let src = status_of i; tgt = tn_requested_status n; required = set (edge_requirements src tgt) in
     if src = BACKLOG \<and> tgt = IN_PROGRESS \<and> tn_authority n \<notin> {Auth_PROJECT_OWNER, Auth_API} then
       Some (reject ''transition.project_owner_authority_required'')
     else if src = OPEN \<and> tgt = READY_TO_INTEGRATE
         \<and> (tn_authority n \<noteq> Auth_ORCHESTRATOR \<or> \<not> is_validation_submission n) then
       Some (reject ''transition.validation_submission_authority_required'')
     else if Req_IMPLEMENTATION_GENERATION \<in> required \<and> tn_evidence_generation n = None then
       Some (reject ''transition.generation_required'')
     else if generation_mismatch n i \<and> \<not> system_epic_rollup n then
       Some (reject_with ''transition.generation_mismatch'' ''observed_generation''
         (opt_str (optional_text (opt_str (ti_assignment_id i)))))
     else if required \<inter> {Req_ACCEPTED_SUBMISSION, Req_LANDING_EVIDENCE} \<noteq> {} \<and> tn_exact_head n = None then
       Some (reject ''transition.head_required'')
     else head_verdict n i)"

definition authority_verdict :: "transition_intent \<Rightarrow> tracked_issue \<Rightarrow> verdict option result" where
  "authority_verdict n i = (
     if status_of i = OPEN \<and> tn_requested_status n = DONE then
       ebind (maintenance_audit_ready n i) (\<lambda>ready.
         if \<not> ready then Inr (Some (reject ''transition.maintenance_audit_authority_required''))
         else Inr (evidence_verdict n i))
     else Inr (evidence_verdict n i))"

section \<open>Committing\<close>

text \<open>\<open>str(conflict or '').strip()\<close> of a guard.\<close>

definition guard_text :: "string option \<Rightarrow> string" where
  "guard_text v = py_strip (text_choice [v])"

text \<open>A conflict that stops a commit: the code, whether it may be retried, and a detail.\<close>

type_synonym conflict = "string \<times> bool \<times> string option"

text \<open>The checks both commit lanes repeat on the issue they read under the lock.\<close>

definition stale_conflict :: "transition_intent \<Rightarrow> tracked_issue option \<Rightarrow> (conflict + tracked_issue) result" where
  "stale_conflict n issue = (case issue of
     None \<Rightarrow> Inr (Inl (''transition.task_missing'', False, None))
   | Some i \<Rightarrow>
       if text_choice [iss_project_id i] \<noteq> [] \<and> text_choice [iss_project_id i] \<noteq> tn_project_id n then
         Inr (Inl (''transition.project_mismatch'', False, None))
       else if status_of i \<noteq> tn_expected_status n then Inr (Inl (''transition.stale_status'', False, None))
       else ebind (issue_authority_version i) (\<lambda>version.
         if version \<noteq> tn_expected_version n then Inr (Inl (''transition.stale_version'', False, None))
         else Inr (Inr i)))"

definition direct_owner_conflict :: "service \<Rightarrow> nat \<Rightarrow> transition_intent \<Rightarrow> tracked_issue \<Rightarrow> conflict option" where
  "direct_owner_conflict sv t n i = (
     if tn_authority n \<notin> {Auth_PROJECT_OWNER, Auth_API} then
       Some (''transition.project_owner_authority_required'', False, None)
     else if tn_authority n = Auth_PROJECT_OWNER \<and> tn_reason_code n \<noteq> ''implementation.direct_owner_claim'' then
       Some (''transition.direct_owner_claim_authority_required'', False, None)
     else if py_strip (text_choice [ti_description i]) = [] then
       Some (''transition.actionable_description_required'', False, None)
     else if tn_authority n = Auth_PROJECT_OWNER then
       (case ts_claim_guard sv of
          None \<Rightarrow> Some (''transition.owner_claim_authority_unavailable'', False, None)
        | Some guard \<Rightarrow> (case guard t n i of
            Guard_raised \<Rightarrow> Some (''transition.owner_claim_validation_failed'', True, None)
          | Guard_says v \<Rightarrow> if guard_text v = [] then None else Some (guard_text v, False, None)))
     else None)"

definition retirement_conflict :: "service \<Rightarrow> nat \<Rightarrow> transition_intent \<Rightarrow> tracked_issue \<Rightarrow> conflict option" where
  "retirement_conflict sv t n i = (case ts_retirement_guard sv of None \<Rightarrow> None
     | Some guard \<Rightarrow> (case guard t n i of
         Guard_raised \<Rightarrow> Some (''transition.owner_retirement_persistence_failed'', True, None)
       | Guard_says v \<Rightarrow> if guard_text v = [] then None else Some (guard_text v, False, None)))"

definition guarded_conflict :: "service \<Rightarrow> nat \<Rightarrow> transition_intent \<Rightarrow> tracked_issue \<Rightarrow> conflict option" where
  "guarded_conflict sv t n i = (
     if generation_mismatch n i then Some (''transition.generation_mismatch'', False, None)
     else (case head_verdict n i of Some v \<Rightarrow> Some (vd_code v, False, None)
     | None \<Rightarrow> (case ts_mutation_guard sv of
         None \<Rightarrow> retirement_conflict sv t n i
       | Some guard \<Rightarrow> (case guard t n i of
           Guard_raised \<Rightarrow> Some (''transition.mutation_guard_failed'', True, None)
         | Guard_says v \<Rightarrow> if guard_text v \<noteq> [] then Some (''transition.stale_precondition'', False, Some (guard_text v))
             else retirement_conflict sv t n i))))"

text \<open>
  The two commit lanes read, check and write under one lock; \<open>None\<close> is a commit.  The read is the detail
  read alone.
\<close>

definition commit_update ::
  "service \<Rightarrow> service_world \<Rightarrow> (nat \<Rightarrow> transition_intent \<Rightarrow> tracked_issue \<Rightarrow> conflict option) \<Rightarrow> transition_intent \<Rightarrow>
   (tracked_issue option \<times> conflict option) service_saga" where
  "commit_update sv w check n =
     andthen (detail_call w (tn_task_id n)) (\<lambda>r.
     let issue = (case r of Detail_issue i \<Rightarrow> Some (adopt_project sv i) | _ \<Rightarrow> None) in
     noting (Fetched (tn_task_id n) issue)
       (andthen (lifting Svc_py (stale_conflict n issue)) (\<lambda>c. case c of
          Inl conflict \<Rightarrow> give (issue, Some conflict)
        | Inr i \<Rightarrow> andthen (reading sv_tick) (\<lambda>t. case check t n i of
            Some conflict \<Rightarrow> give (issue, Some conflict)
          | None \<Rightarrow> andthen (update_call w (tn_task_id n) (tn_requested_status n)) (\<lambda>_. give (issue, None))))))"

definition commit_direct_owner_update ::
  "service \<Rightarrow> service_world \<Rightarrow> transition_intent \<Rightarrow> (tracked_issue option \<times> conflict option) service_saga" where
  "commit_direct_owner_update sv w = commit_update sv w (direct_owner_conflict sv)"

definition commit_guarded_update ::
  "service \<Rightarrow> service_world \<Rightarrow> transition_intent \<Rightarrow> (tracked_issue option \<times> conflict option) service_saga" where
  "commit_guarded_update sv w = commit_update sv w (guarded_conflict sv)"

definition or_fallback :: "'a option \<Rightarrow> 'a option \<Rightarrow> 'a option" where
  "or_fallback a b = (case a of None \<Rightarrow> b | Some x \<Rightarrow> Some x)"

text \<open>The outcome of a conflict; the guarded lane passes its detail on.\<close>

definition conflict_verdict :: "bool \<Rightarrow> conflict \<Rightarrow> verdict" where
  "conflict_verdict guarded c = (case c of (code, retryable, detail) \<Rightarrow>
     (if retryable then retry code else reject code)\<lparr>vd_details :=
       (if guarded then Some (case detail of None \<Rightarrow> [] | Some d \<Rightarrow> [(''detail'', PStr d)]) else None)\<rparr>)"

text \<open>After a write: what the tracker shows decides.\<close>

definition shows_status :: "string \<Rightarrow> tracked_issue option \<Rightarrow> bool" where
  "shows_status status issue \<longleftrightarrow> (case issue of None \<Rightarrow> False | Some i \<Rightarrow> status_of i = status)"

definition latest_of :: "string + tracked_issue option \<Rightarrow> tracked_issue option" where
  "latest_of r = (case r of Inl _ \<Rightarrow> None | Inr i \<Rightarrow> i)"

definition verify_write ::
  "service \<Rightarrow> service_world \<Rightarrow> string \<Rightarrow> transition_intent \<Rightarrow> tracked_issue \<Rightarrow> transition_outcome service_saga" where
  "verify_write sv w tid n issue =
     andthen (try_fetch sv w (tn_task_id n)) (\<lambda>r.
     if shows_status (tn_requested_status n) (latest_of r) then
       conclude w tid n (reached Td_APPLIED Tp_APPLIED ''transition.applied'' (tn_requested_status n)) (latest_of r)
     else conclude w tid n (verify_pending ''transition.verify_pending'') (or_fallback (latest_of r) (Some issue)))"

definition recover_write ::
  "service \<Rightarrow> service_world \<Rightarrow> string \<Rightarrow> transition_intent \<Rightarrow> tracked_issue \<Rightarrow> string \<Rightarrow> transition_outcome service_saga" where
  "recover_write sv w tid n issue name =
     andthen (try_fetch sv w (tn_task_id n)) (\<lambda>r.
     if shows_status (tn_requested_status n) (latest_of r) then
       conclude w tid n (reached Td_RECOVERED Tp_RECOVERED ''transition.effect_recovered'' (tn_requested_status n))
         (latest_of r)
     else conclude w tid n (retry_with ''transition.tracker_write_failed'' ''error_type'' (PStr name))
       (or_fallback (latest_of r) (Some issue)))"

text \<open>
  The \<open>try\<close> block of the ordinary lanes: it ends with a verdict, with a plain return, or with an exception,
  which is caught together with one of the journal append of a conflict.
\<close>

definition commit_lane ::
  "service \<Rightarrow> service_world \<Rightarrow> string \<Rightarrow> transition_intent \<Rightarrow> tracked_issue \<Rightarrow> transition_outcome option service_saga" where
  "commit_lane sv w tid n issue = (
     if is_direct_owner_claim n then
       andthen (commit_direct_owner_update sv w n) (\<lambda>(seen, c). case c of None \<Rightarrow> give None
         | Some conflict \<Rightarrow> andthen (conclude w tid n (conflict_verdict False conflict) (or_fallback seen (Some issue)))
             (\<lambda>t. give (Some t)))
     else if is_validation_submission n \<and> (ts_mutation_guard sv \<noteq> None \<or> ts_retirement_guard sv \<noteq> None) then
       andthen (commit_guarded_update sv w n) (\<lambda>(seen, c). case c of None \<Rightarrow> give None
         | Some conflict \<Rightarrow> andthen (conclude w tid n (conflict_verdict True conflict) (or_fallback seen (Some issue)))
             (\<lambda>t. give (Some t)))
     else andthen (update_call w (tn_task_id n) (tn_requested_status n)) (\<lambda>_. give None))"

definition attempting :: "'a service_saga \<Rightarrow> (string + 'a) service_saga" where
  "attempting m = recovering (andthen m (\<lambda>x. give (Inr x))) (\<lambda>e. give (Inl (service_exn_name e)))"

definition write_status ::
  "service \<Rightarrow> service_world \<Rightarrow> string \<Rightarrow> transition_intent \<Rightarrow> tracked_issue \<Rightarrow> transition_outcome service_saga" where
  "write_status sv w tid n issue =
     andthen (attempting (commit_lane sv w tid n issue)) (\<lambda>r. case r of
       Inl name \<Rightarrow> recover_write sv w tid n issue name
     | Inr (Some t) \<Rightarrow> give t
     | Inr None \<Rightarrow> verify_write sv w tid n issue)"

section \<open>Staging a terminal audit\<close>

definition stage_call ::
  "(nat \<Rightarrow> transition_intent \<Rightarrow> tracked_issue \<Rightarrow> stage_reply) \<Rightarrow> transition_intent \<Rightarrow> tracked_issue \<Rightarrow> stage_result service_saga"
where
  "stage_call adapter n i = noting (Staged n i)
     (\<lambda>s. (tick s, case adapter (sv_tick s) n i of Stage_raised e \<Rightarrow> Inl (Svc_raised e) | Staged_as r \<Rightarrow> Inr r))"

definition staged_verdict :: "stage_result \<Rightarrow> bool \<Rightarrow> verdict" where
  "staged_verdict r validating = (
     if \<not> sr_success r then
       (if sr_reason_code r = ''transition.delivery_mutation_in_progress'' then retry (sr_reason_code r)
        else reject (sr_reason_code r))\<lparr>vd_details := Some [(''detail'', opt_str (sr_detail r))]\<rparr>
     else if \<not> validating then (verify_pending ''transition.terminal_verify_pending'')\<lparr>vd_audit := sr_audit_id r\<rparr>
     else (reached Td_STAGED Tp_STAGED (sr_reason_code r) IN_VALIDATION)\<lparr>vd_audit := sr_audit_id r\<rparr>)"

definition stage_terminal ::
  "service \<Rightarrow> service_world \<Rightarrow> string \<Rightarrow> transition_intent \<Rightarrow> tracked_issue \<Rightarrow> transition_outcome service_saga" where
  "stage_terminal sv w tid n issue = (case ts_terminal_adapter sv of
     None \<Rightarrow> conclude w tid n (retry ''transition.terminal_service_unavailable'') (Some issue)
   | Some adapter \<Rightarrow>
       andthen (attempting (stage_call adapter n issue)) (\<lambda>staged.
       andthen (try_fetch sv w (tn_task_id n)) (\<lambda>r.
       let validating = shows_status IN_VALIDATION (latest_of r) in
       case staged of
         Inl name \<Rightarrow>
           if validating then conclude w tid n
             (reached Td_RECOVERED Tp_RECOVERED ''transition.terminal_stage_recovered'' IN_VALIDATION) (latest_of r)
           else conclude w tid n (retry_with ''transition.terminal_stage_failed'' ''error_type'' (PStr name))
             (or_fallback (latest_of r) (Some issue))
       | Inr result \<Rightarrow> conclude w tid n (staged_verdict result validating) (or_fallback (latest_of r) (Some issue)))))"

section \<open>Executing a claimed intent\<close>

text \<open>The \<open>finally\<close> block: the claim is released, or kept expired when a recovery must be retried.\<close>

definition finish_claim :: "service_world \<Rightarrow> bool \<Rightarrow> transition_intent \<Rightarrow> string \<Rightarrow> unit service_saga" where
  "finish_claim w retain n token = andthen (reading sv_outcome) (\<lambda>outcome.
     if retain \<and> (case outcome of None \<Rightarrow> False | Some t \<Rightarrow> truthy (to_retryable t)) then
       andthen (journal_call w (\<lambda>t j. Inr (expire_for_retry (tn_project_id n) (tn_task_id n) token (sw_clock w t) j)))
         (\<lambda>retained. if retained then give () else throw (Svc_journal JournalError))
     else andthen (journal_call w (\<lambda>t j. Inr (release_claim (tn_project_id n) (tn_task_id n) token j))) (\<lambda>_. give ()))"

definition project_conflict :: "transition_intent \<Rightarrow> tracked_issue \<Rightarrow> bool" where
  "project_conflict n i \<longleftrightarrow> text_choice [iss_project_id i] \<noteq> [] \<and> text_choice [iss_project_id i] \<noteq> tn_project_id n"

text \<open>The head both lanes share: read the issue, or conclude.\<close>

definition with_issue ::
  "service \<Rightarrow> service_world \<Rightarrow> string \<Rightarrow> transition_intent \<Rightarrow> (tracked_issue \<Rightarrow> string \<Rightarrow> transition_outcome service_saga) \<Rightarrow>
   transition_outcome service_saga" where
  "with_issue sv w tid n body =
     andthen (try_fetch sv w (tn_task_id n)) (\<lambda>r. case r of
       Inl name \<Rightarrow> conclude w tid n (retry_with ''transition.tracker_read_failed'' ''error_type'' (PStr name)) None
     | Inr None \<Rightarrow> conclude w tid n (reject ''transition.task_missing'') None
     | Inr (Some i) \<Rightarrow>
         if project_conflict n i then conclude w tid n (reject ''transition.project_mismatch'') (Some i)
         else andthen (lifting Svc_py (issue_authority_version i)) (\<lambda>version. body i version))"

definition claimed_body ::
  "service \<Rightarrow> service_world \<Rightarrow> transition_intent \<Rightarrow> string \<Rightarrow> transition_phase option \<Rightarrow> tracked_issue \<Rightarrow> string \<Rightarrow>
   transition_outcome service_saga" where
  "claimed_body sv w n tid previous i version = (case observed_verdict n previous i version of
     Some v \<Rightarrow> conclude w tid n v (Some i)
   | None \<Rightarrow> andthen (rollup_verdict w n i) (\<lambda>r. case r of
       Some v \<Rightarrow> conclude w tid n v (Some i)
     | None \<Rightarrow> andthen (lifting Svc_py (authority_verdict n i)) (\<lambda>a. case a of
         Some v \<Rightarrow> conclude w tid n v (Some i)
       | None \<Rightarrow> andthen (append_call w tid Tp_APPLYING (PStr (tn_reason_code n)) None) (\<lambda>_.
           if tn_requested_status n \<in> set TERMINAL_TARGETS then stage_terminal sv w tid n i
           else write_status sv w tid n i))))"

definition execute_claimed ::
  "service \<Rightarrow> service_world \<Rightarrow> bool \<Rightarrow> transition_intent \<Rightarrow> string \<Rightarrow> string option \<Rightarrow> transition_phase option \<Rightarrow>
   transition_outcome service_saga" where
  "execute_claimed sv w retain n tid claim previous = (case claim of
     None \<Rightarrow> throw (Svc_journal JournalError)
   | Some token \<Rightarrow> andthen (doing (\<lambda>s. s\<lparr>sv_outcome := None\<rparr>)) (\<lambda>_.
       finishing (with_issue sv w tid n (claimed_body sv w n tid previous)) (\<lambda>_. finish_claim w retain n token)))"

text \<open>The compensation lane: the same journal, claim, comparison and verification, without lifecycle policy.\<close>

definition recovery_verdict :: "transition_intent \<Rightarrow> tracked_issue \<Rightarrow> string \<Rightarrow> verdict option" where
  "recovery_verdict n i version = (
     if status_of i = tn_requested_status n then
       Some (reached Td_ALREADY_APPLIED Tp_RECOVERED ''transition.already_applied'' (status_of i))
     else if status_of i \<noteq> tn_expected_status n then
       Some (reject_with ''transition.stale_status'' ''expected_status'' (PStr (tn_expected_status n)))
     else if version \<noteq> tn_expected_version n then
       Some (reject_with ''transition.stale_version'' ''expected_version'' (PStr (tn_expected_version n)))
     else None)"

definition recovery_body ::
  "service \<Rightarrow> service_world \<Rightarrow> transition_intent \<Rightarrow> string \<Rightarrow> tracked_issue \<Rightarrow> string \<Rightarrow> transition_outcome service_saga" where
  "recovery_body sv w n tid i version = (case recovery_verdict n i version of
     Some v \<Rightarrow> conclude w tid n v (Some i)
   | None \<Rightarrow> andthen (append_call w tid Tp_APPLYING (PStr (tn_reason_code n)) None) (\<lambda>_.
       andthen (attempting (update_call w (tn_task_id n) (tn_requested_status n))) (\<lambda>r. case r of
         Inl name \<Rightarrow> recover_write sv w tid n i name
       | Inr _ \<Rightarrow> verify_write sv w tid n i)))"

definition recover_claimed ::
  "service \<Rightarrow> service_world \<Rightarrow> bool \<Rightarrow> transition_intent \<Rightarrow> string \<Rightarrow> string option \<Rightarrow> transition_outcome service_saga" where
  "recover_claimed sv w retain n tid claim = (case claim of
     None \<Rightarrow> throw (Svc_journal JournalError)
   | Some token \<Rightarrow> andthen (doing (\<lambda>s. s\<lparr>sv_outcome := None\<rparr>)) (\<lambda>_.
       finishing (with_issue sv w tid n (recovery_body sv w n tid)) (\<lambda>_. finish_claim w retain n token)))"

text \<open>\<open>_execute_recovery_claimed\<close>: the lane is chosen from the intent.\<close>

definition execute_recovery_claimed ::
  "service \<Rightarrow> service_world \<Rightarrow> transition_intent \<Rightarrow> string \<Rightarrow> string option \<Rightarrow> transition_phase option \<Rightarrow>
   transition_outcome service_saga" where
  "execute_recovery_claimed sv w n tid claim previous =
     (if authorized_recovery_intent n then recover_claimed sv w True n tid claim
      else execute_claimed sv w True n tid claim previous)"

section \<open>Entry points\<close>

definition begin_call :: "service \<Rightarrow> service_world \<Rightarrow> transition_intent \<Rightarrow> begin_result service_saga" where
  "begin_call sv w n = journal_call w (\<lambda>t j. begin_transition (sw_number w) n (ts_claim_ttl sv) (sw_fresh w t) (sw_token w t)
     (sw_clock w t) (sw_stamp w t) j)"

text \<open>What follows a \<open>begin\<close> that asks for no recovery.\<close>

definition answer_begin ::
  "(string \<Rightarrow> string option \<Rightarrow> transition_phase option \<Rightarrow> transition_outcome service_saga) \<Rightarrow> begin_result \<Rightarrow>
   transition_outcome service_saga" where
  "answer_begin run b = (case bg_replay b of Some t \<Rightarrow> give t
     | None \<Rightarrow> (case bg_waiting b of Some t \<Rightarrow> give t
     | None \<Rightarrow> (case bg_claim_token b of None \<Rightarrow> throw (Svc_journal JournalError)
     | Some token \<Rightarrow> run (bg_transition_id b) (Some token) (bg_previous_phase b))))"

definition recovery_pending :: "service_world \<Rightarrow> transition_intent \<Rightarrow> begin_result \<Rightarrow> transition_outcome \<Rightarrow>
   transition_outcome service_saga" where
  "recovery_pending w n b recovery = (
     let v = (plain_verdict Td_WAITING Tp_WAITING ''transition.recovery_pending'')\<lparr>vd_retryable := True,
           vd_details := Some [(''recover_transition_id'', to_transition_id recovery),
             (''recovery_reason_code'', to_reason_code recovery)]\<rparr>
     in andthen (lifting Svc_py (outcome_of (bg_transition_id b) n v None)) (\<lambda>pending.
        andthen (append_call w (bg_transition_id b) Tp_WAITING (to_reason_code pending) (Some pending)) (\<lambda>_.
        give pending)))"

text \<open>The admitted part of \<open>execute\<close> and of \<open>recover_authorized\<close>, which differ in the lane they run.\<close>

definition run_admitted ::
  "service \<Rightarrow> service_world \<Rightarrow> transition_intent \<Rightarrow>
   (string \<Rightarrow> string option \<Rightarrow> transition_phase option \<Rightarrow> transition_outcome service_saga) \<Rightarrow> transition_outcome service_saga"
where
  "run_admitted sv w n run =
     andthen (begin_call sv w n) (\<lambda>b. case bg_recovery b of
       None \<Rightarrow> answer_begin run b
     | Some (owner_id, owner, phase) \<Rightarrow>
         andthen (lifting Svc_py (required_text (PStr owner_id))) (\<lambda>oid.
         andthen (execute_recovery_claimed sv w owner oid (bg_claim_token b) (Some phase)) (\<lambda>recovery.
         if truthy (to_retryable recovery) then recovery_pending w n b recovery
         else andthen (begin_call sv w n) (answer_begin run))))"

definition mismatch_outcome :: "string \<Rightarrow> transition_intent \<Rightarrow> transition_outcome" where
  "mismatch_outcome code n = blind_outcome [] n Td_REJECTED code False None"

definition execute :: "service \<Rightarrow> service_world \<Rightarrow> transition_intent \<Rightarrow> transition_outcome service_saga" where
  "execute sv w n = (if tn_project_id n \<noteq> ts_project_id sv then give (mismatch_outcome ''transition.project_mismatch'' n)
     else run_admitted sv w n (execute_claimed sv w False n))"

definition recover_authorized :: "service \<Rightarrow> service_world \<Rightarrow> transition_intent \<Rightarrow> transition_outcome service_saga" where
  "recover_authorized sv w n = (
     if \<not> authorized_recovery_intent n then give (mismatch_outcome ''transition.recovery_authority_rejected'' n)
     else if tn_project_id n \<noteq> ts_project_id sv then give (mismatch_outcome ''transition.project_mismatch'' n)
     else run_admitted sv w n (\<lambda>tid claim _. recover_claimed sv w False n tid claim))"

text \<open>
  \<open>CoordinatorTerminalAdapter.stage\<close>: the intent it refuses without asking the coordinator, and its reading of the
  coordinator's answer.
\<close>

definition coordinator_refusal :: "transition_intent \<Rightarrow> stage_result option" where
  "coordinator_refusal n = (
     if tn_reason_code n = ''terminal.immediate_target_landing_proven'' \<and> tn_precondition_revision n = None then
       Some \<lparr>sr_success = False, sr_audit_id = None, sr_reason_code = ''transition.stale_precondition'',
         sr_detail = Some ''workflow completion authority is missing''\<rparr>
     else None)"

definition coordinator_answer :: "bool \<Rightarrow> string option \<Rightarrow> string option \<Rightarrow> stage_result" where
  "coordinator_answer success reason audit = (let why = optional_text (opt_str reason) in
     \<lparr>sr_success = success, sr_audit_id = optional_text (opt_str audit),
       sr_reason_code = (if success then ''transition.terminal_staged''
         else (case why of Some r \<Rightarrow>
             if starts_with r ''workflow_precondition_changed:'' then ''transition.stale_precondition''
             else if r = ''delivery_mutation_in_progress'' then ''transition.delivery_mutation_in_progress''
             else ''transition.terminal_rejected''
           | None \<Rightarrow> ''transition.terminal_rejected'')),
       sr_detail = why\<rparr>)"

end
