(* ===== verification/IntentProofs.thy ===== *)
theory IntentProofs
  imports TransitionJournal
begin

text \<open>
  What the constructor of an intent guarantees, and that intents and outcomes survive the trip through the
  dictionaries that the journal and the job checkpoints store.
\<close>

section \<open>Well-formed intents\<close>

definition stripped_text :: "string \<Rightarrow> bool" where
  "stripped_text s \<longleftrightarrow> s \<noteq> [] \<and> py_strip s = s"

definition intent_ok :: "transition_intent \<Rightarrow> bool" where
  "intent_ok i \<longleftrightarrow> stripped_text (tn_project_id i) \<and> stripped_text (tn_task_id i)
     \<and> tn_expected_status i \<in> set CANONICAL_STATUSES \<and> tn_requested_status i \<in> set CANONICAL_STATUSES
     \<and> stripped_text (tn_expected_version i) \<and> stripped_text (tn_actor i)
     \<and> stripped_text (tn_reason_code i) \<and> stable_reason_code (tn_reason_code i)
     \<and> stripped_text (tn_idempotency_key i) \<and> stripped_text (tn_originating_job i)
     \<and> (\<forall>t. tn_evidence_generation i = Some t \<longrightarrow> stripped_text t)
     \<and> (\<forall>h. tn_exact_head i = Some h \<longrightarrow> head_text h)
     \<and> (\<forall>t. tn_precondition_revision i = Some t \<longrightarrow> stripped_text t)
     \<and> py_eq (tn_schema_version i) (PInt 1)"

lemma plain_text_of [simp]: "text_of v \<noteq> [] \<Longrightarrow> stripped_text (text_of v)"
  by (simp add: stripped_text_def)

lemma required_plain: "stripped_text s \<Longrightarrow> required_text (PStr s) = Inr s"
  by (simp add: stripped_text_def required_text_def Let_def)

lemma optional_plain: "stripped_text s \<Longrightarrow> optional_text (PStr s) = Some s"
  by (simp add: stripped_text_def optional_text_def Let_def)

lemma optional_text_plain: "optional_text v = Some t \<Longrightarrow> stripped_text t"
  using optional_text_nonempty by (auto simp: stripped_text_def)

lemma optional_opt_stripped: "(\<forall>t. v = Some t \<longrightarrow> stripped_text t) \<Longrightarrow> optional_text (opt_str v) = v"
  by (cases v) (auto simp: optional_plain optional_text_def[of PNone])

text \<open>A revision is made of hexadecimal digits: it has no spaces and no capitals.\<close>

lemma hex_digits: "c \<in> set ''0123456789abcdef'' \<Longrightarrow> \<not> is_space c \<and> lower_char c = c"
  by (auto simp: is_space_def lower_char_def Let_def)

lemma lower_hex_fixed:
  assumes "lower_hex s"
  shows "py_strip s = s" "py_lower s = s"
proof -
  have d: "dropWhile is_space t = t" if "set t \<subseteq> set s" for t
    using that assms hex_digits by (cases t) (auto simp: lower_hex_def list_all_iff)
  show "py_strip s = s" by (simp add: py_strip_def d)
  show "py_lower s = s" using assms hex_digits
    by (auto simp: lower_hex_def list_all_iff py_lower_def intro!: map_idI)
qed

lemma head_text_fixed: "head_text h \<Longrightarrow> map_option py_lower (optional_text (PStr h)) = Some h"
  by (auto simp: head_text_def optional_text_def Let_def lower_hex_fixed)

lemma canonical_fixed_all: "list_all (\<lambda>s. canonicalize_status (PStr s) = s) CANONICAL_STATUSES"
  by code_simp

lemma canonical_fixed: "s \<in> set CANONICAL_STATUSES \<Longrightarrow> canonicalize_status (PStr s) = s"
  using canonical_fixed_all by (simp add: list_all_iff)

lemma make_intent_ok:
  assumes "make_intent project task expected version requested actor authority code key job generation head precondition
    schema = Inr i"
  shows "intent_ok i"
  using assms
  by (auto simp: make_intent_def intent_ok_def ebind_eq_Inr_iff required_text_eq_Inr_iff Let_def optional_text_plain
      split: if_splits option.splits)

lemma intent_keywords: "keywords_ok intent_required intent_optional (intent_to_dict i)"
  by (auto simp: keywords_ok_def intent_required_def intent_optional_def intent_to_dict_def split: option.split)

lemma getv_tail: "getv (xs @ (case r of None \<Rightarrow> [] | Some v \<Rightarrow> [(''precondition_revision'', PStr v)])) k
  = (if k \<in> set (map fst xs) then getv xs k else if k = ''precondition_revision'' then opt_str r else PNone)"
proof (cases "k \<in> set (map fst xs)")
  case True
  then obtain v where "map_of xs k = Some v" by (metis map_of_eq_None_iff not_None_eq set_map)
  then show ?thesis using True by (simp add: getv_def get_or_def map_of_append map_add_def split: option.split)
next
  case False
  then have "map_of xs k = None" by (simp add: map_of_eq_None_iff)
  then show ?thesis using False by (auto simp: getv_def get_or_def map_of_append map_add_def split: option.split)
qed

lemma intent_lookup:
  "getv (intent_to_dict i) ''project_id'' = PStr (tn_project_id i)"
  "getv (intent_to_dict i) ''task_id'' = PStr (tn_task_id i)"
  "getv (intent_to_dict i) ''expected_status'' = PStr (tn_expected_status i)"
  "getv (intent_to_dict i) ''expected_version'' = PStr (tn_expected_version i)"
  "getv (intent_to_dict i) ''requested_status'' = PStr (tn_requested_status i)"
  "getv (intent_to_dict i) ''actor'' = PStr (tn_actor i)"
  "getv (intent_to_dict i) ''authority'' = PStr (authority_value (tn_authority i))"
  "getv (intent_to_dict i) ''reason_code'' = PStr (tn_reason_code i)"
  "getv (intent_to_dict i) ''idempotency_key'' = PStr (tn_idempotency_key i)"
  "getv (intent_to_dict i) ''originating_job'' = PStr (tn_originating_job i)"
  "getv (intent_to_dict i) ''evidence_generation'' = opt_str (tn_evidence_generation i)"
  "getv (intent_to_dict i) ''exact_head'' = opt_str (tn_exact_head i)"
  "getv (intent_to_dict i) ''precondition_revision'' = opt_str (tn_precondition_revision i)"
  "get_or (intent_to_dict i) ''schema_version'' (PInt 1) = tn_schema_version i"
  unfolding intent_to_dict_def getv_tail by (simp_all add: get_or_def)

lemma intent_rebuilt:
  assumes "intent_ok i"
  shows "make_intent (PStr (tn_project_id i)) (PStr (tn_task_id i)) (PStr (tn_expected_status i))
    (PStr (tn_expected_version i)) (PStr (tn_requested_status i)) (PStr (tn_actor i))
    (PStr (authority_value (tn_authority i))) (PStr (tn_reason_code i)) (PStr (tn_idempotency_key i))
    (PStr (tn_originating_job i)) (opt_str (tn_evidence_generation i)) (opt_str (tn_exact_head i))
    (opt_str (tn_precondition_revision i)) (tn_schema_version i) = Inr i"
proof -
  have head: "map_option py_lower (optional_text (opt_str (tn_exact_head i))) = tn_exact_head i"
    using assms head_text_fixed by (cases "tn_exact_head i") (auto simp: intent_ok_def optional_text_def[of PNone])
  have opts: "optional_text (opt_str (tn_evidence_generation i)) = tn_evidence_generation i"
    "optional_text (opt_str (tn_precondition_revision i)) = tn_precondition_revision i"
    using assms by (auto simp: intent_ok_def intro!: optional_opt_stripped)
  have hd: "\<not> (case tn_exact_head i of None \<Rightarrow> False | Some h \<Rightarrow> \<not> head_text h)"
    using assms by (auto simp: intent_ok_def split: option.split)
  have r: "required_text (PStr (tn_project_id i)) = Inr (tn_project_id i)"
    "required_text (PStr (tn_task_id i)) = Inr (tn_task_id i)"
    "required_text (PStr (tn_expected_version i)) = Inr (tn_expected_version i)"
    "required_text (PStr (tn_actor i)) = Inr (tn_actor i)"
    "required_text (PStr (tn_reason_code i)) = Inr (tn_reason_code i)"
    "required_text (PStr (tn_idempotency_key i)) = Inr (tn_idempotency_key i)"
    "required_text (PStr (tn_originating_job i)) = Inr (tn_originating_job i)"
    using assms by (auto simp: intent_ok_def intro: required_plain)
  have c: "canonicalize_status (PStr (tn_expected_status i)) = tn_expected_status i"
    "canonicalize_status (PStr (tn_requested_status i)) = tn_requested_status i"
    "tn_expected_status i \<in> set CANONICAL_STATUSES" "tn_requested_status i \<in> set CANONICAL_STATUSES"
    "stable_reason_code (tn_reason_code i)" "py_eq (tn_schema_version i) (PInt 1)"
    using assms by (auto simp: intent_ok_def canonical_fixed)
  show ?thesis unfolding make_intent_def r ebind_simps Let_def c(1,2) authority_of_value head opts using c(3-) hd by simp
qed

lemma intent_roundtrip_ok: "intent_ok i \<Longrightarrow> intent_from_dict (PDict (intent_to_dict i)) = Inr i"
  by (simp add: intent_from_dict_def intent_keywords intent_lookup intent_rebuilt)

lemma outcome_roundtrip_details:
  "outcome_from_dict replayed (outcome_to_dict t)
    = Inr (t\<lparr>to_replayed := replayed \<or> to_replayed t, to_details := PDict (details_of t)\<rparr>)"
  by (simp add: outcome_from_dict_def outcome_to_dict_def keywords_ok_def outcome_required_def outcome_optional_def
      transition_disposition_of_value get_or_def)

lemma decode_outcome_total: "\<exists>t'. decode_outcome (map_option (\<lambda>t. PDict (outcome_to_dict t)) o') = Inr t'
  \<and> (t' = None \<longleftrightarrow> o' = None)"
  by (cases o') (auto simp: decode_outcome_def outcome_roundtrip_details lift_corrupt_def)

end
