(* ===== verification/JournalInvariant.thy ===== *)
theory JournalInvariant
  imports IntentProofs Invariants
begin

text \<open>
  The invariant of the transition journal, the append-only order between its states, and the journal as a
  state machine: every call keeps the invariant and extends the tables.
\<close>

section \<open>The invariant\<close>

text \<open>
  A run is over a set of intents \<open>I\<close> whose revisions differ, as SHA-256 digests of different intents do.
\<close>

definition intents_ok :: "transition_intent set \<Rightarrow> bool" where
  "intents_ok I \<longleftrightarrow> (\<forall>i \<in> I. intent_ok i) \<and> inj_on intent_revision I"

definition request_ok :: "transition_intent set \<Rightarrow> request_row \<Rightarrow> bool" where
  "request_ok I r \<longleftrightarrow> (\<exists>i \<in> I. rq_intent r = PDict (intent_to_dict i) \<and> rq_intent_revision r = intent_revision i
     \<and> rq_project_id r = tn_project_id i \<and> rq_task_id r = tn_task_id i \<and> rq_idempotency_key r = tn_idempotency_key i)"

definition registered :: "journal \<Rightarrow> string \<Rightarrow> string \<Rightarrow> string \<Rightarrow> bool" where
  "registered j tid project task \<longleftrightarrow>
     (\<exists>r \<in> set (jn_requests j). rq_transition_id r = tid \<and> rq_project_id r = project \<and> rq_task_id r = task)"

definition stored_outcome :: "transition_outcome option \<Rightarrow> pyval option" where
  "stored_outcome t = map_option (\<lambda>t. PDict (outcome_to_dict t)) t"

definition event_ok :: "journal \<Rightarrow> event_row \<Rightarrow> bool" where
  "event_ok j e \<longleftrightarrow> registered j (ev_transition_id e) (ev_project_id e) (ev_task_id e)
     \<and> (\<exists>t. ev_outcome e = stored_outcome t \<and> (ev_phase e \<in> set FINAL_PHASES \<longrightarrow> t \<noteq> None))"

definition journal_ok :: "transition_intent set \<Rightarrow> journal \<Rightarrow> bool" where
  "journal_ok I j \<longleftrightarrow> distinct (map rq_transition_id (jn_requests j))
     \<and> distinct (map (\<lambda>r. (rq_project_id r, rq_idempotency_key r)) (jn_requests j))
     \<and> distinct (map (\<lambda>c. (cl_project_id c, cl_task_id c)) (jn_claims j))
     \<and> (\<forall>r \<in> set (jn_requests j). request_ok I r \<and> events_of (rq_transition_id r) j \<noteq> [])
     \<and> (\<forall>e \<in> set (jn_events j). event_ok j e \<and> ev_sequence e \<le> jn_last_sequence j)
     \<and> (\<forall>c \<in> set (jn_claims j). registered j (cl_transition_id c) (cl_project_id c) (cl_task_id c))
     \<and> sorted_wrt (<) (map ev_sequence (jn_events j))"

lemma empty_journal_ok: "journal_ok I empty_journal"
  by (simp add: journal_ok_def empty_journal_def)

text \<open>The tables only grow.\<close>

definition journal_extends :: "journal \<Rightarrow> journal \<Rightarrow> bool" where
  "journal_extends j j' \<longleftrightarrow> (\<exists>rs es. jn_requests j' = jn_requests j @ rs \<and> jn_events j' = jn_events j @ es)"

lemma journal_extends_refl [simp]: "journal_extends j j"
  by (simp add: journal_extends_def)

lemma journal_extends_trans: "journal_extends j k \<Longrightarrow> journal_extends k l \<Longrightarrow> journal_extends j l"
  by (auto simp: journal_extends_def)

text \<open>A change of the claims alone.\<close>

lemma journal_extends_claims [simp]: "journal_extends j (j\<lparr>jn_claims := cs\<rparr>)"
  by (simp add: journal_extends_def)

section \<open>Lookups\<close>

lemma request_of_SomeD: "request_of tid j = Some r \<Longrightarrow> r \<in> set (jn_requests j) \<and> rq_transition_id r = tid"
  by (auto simp: request_of_def find_Some_iff)

lemma request_of_NoneD: "request_of tid j = None \<Longrightarrow> tid \<notin> rq_transition_id ` set (jn_requests j)"
  by (auto simp: request_of_def find_None_iff)

lemma request_by_key_SomeD: "request_by_key project key j = Some r
  \<Longrightarrow> r \<in> set (jn_requests j) \<and> rq_project_id r = project \<and> rq_idempotency_key r = key"
  by (auto simp: request_by_key_def find_Some_iff)

lemma request_by_key_NoneD: "request_by_key project key j = None \<Longrightarrow> r \<in> set (jn_requests j)
  \<Longrightarrow> \<not> (rq_project_id r = project \<and> rq_idempotency_key r = key)"
  by (auto simp: request_by_key_def find_None_iff)

lemma claim_of_SomeD: "claim_of project task j = Some c
  \<Longrightarrow> c \<in> set (jn_claims j) \<and> cl_project_id c = project \<and> cl_task_id c = task"
  by (auto simp: claim_of_def find_Some_iff)

lemma claim_of_None_iff: "claim_of project task j = None
  \<longleftrightarrow> (\<forall>c \<in> set (jn_claims j). (cl_project_id c, cl_task_id c) \<noteq> (project, task))"
  by (auto simp: claim_of_def find_None_iff)

lemma request_unique:
  assumes "journal_ok I j" and "r \<in> set (jn_requests j)" and "q \<in> set (jn_requests j)"
    and "rq_transition_id r = rq_transition_id q"
  shows "r = q"
  using assms by (auto simp: journal_ok_def distinct_map dest: inj_onD)

lemma request_of_mem: "journal_ok I j \<Longrightarrow> r \<in> set (jn_requests j) \<Longrightarrow> request_of (rq_transition_id r) j = Some r"
  using request_unique request_of_SomeD request_of_NoneD by (cases "request_of (rq_transition_id r) j") blast+

lemma request_by_key_mem:
  assumes "journal_ok I j" and "r \<in> set (jn_requests j)"
  shows "request_by_key (rq_project_id r) (rq_idempotency_key r) j = Some r"
proof (cases "request_by_key (rq_project_id r) (rq_idempotency_key r) j")
  case None
  then show ?thesis using request_by_key_NoneD assms(2) by blast
next
  case (Some q)
  then have "q \<in> set (jn_requests j)" "rq_project_id q = rq_project_id r" "rq_idempotency_key q = rq_idempotency_key r"
    using request_by_key_SomeD by blast+
  then have "q = r" using assms by (auto simp: journal_ok_def distinct_map dest: inj_onD)
  then show ?thesis using Some by simp
qed

lemma claim_unique:
  assumes "journal_ok I j" and "c \<in> set (jn_claims j)" and "d \<in> set (jn_claims j)"
    and "cl_project_id c = cl_project_id d" and "cl_task_id c = cl_task_id d"
  shows "c = d"
  using assms by (auto simp: journal_ok_def distinct_map dest: inj_onD)

lemma claim_of_mem: "journal_ok I j \<Longrightarrow> c \<in> set (jn_claims j) \<Longrightarrow> claim_of (cl_project_id c) (cl_task_id c) j = Some c"
  using claim_unique claim_of_SomeD by (cases "claim_of (cl_project_id c) (cl_task_id c) j")
    (auto simp: claim_of_None_iff)

lemma journal_ok_request:
  assumes "journal_ok I j" and "r \<in> set (jn_requests j)"
  obtains i where "i \<in> I" and "rq_intent r = PDict (intent_to_dict i)" and "rq_intent_revision r = intent_revision i"
    and "rq_project_id r = tn_project_id i" and "rq_task_id r = tn_task_id i"
    and "rq_idempotency_key r = tn_idempotency_key i"
proof -
  have "request_ok I r" using assms by (auto simp: journal_ok_def)
  then show thesis using that unfolding request_ok_def by blast
qed

section \<open>Events decode\<close>

definition event_view :: "event_row \<Rightarrow> journal_event \<Rightarrow> bool" where
  "event_view e v \<longleftrightarrow> event_from_row e = Inr v \<and> je_phase v = ev_phase e
     \<and> (je_phase v \<in> set FINAL_PHASES \<longrightarrow> je_outcome v \<noteq> None)
     \<and> (\<forall>t. je_outcome v = Some t \<longrightarrow> to_details t = PDict (details_of t))"

lemma event_row_decodes:
  assumes "event_ok j e"
  shows "\<exists>v. event_view e v"
proof -
  obtain t where t: "ev_outcome e = stored_outcome t" "ev_phase e \<in> set FINAL_PHASES \<longrightarrow> t \<noteq> None"
    using assms by (auto simp: event_ok_def)
  have "decode_outcome (ev_outcome e) = Inr (map_option (\<lambda>t. t\<lparr>to_details := PDict (details_of t)\<rparr>) t)"
    using t(1) by (cases t) (simp_all add: stored_outcome_def decode_outcome_def outcome_roundtrip_details)
  then show ?thesis using t(2) by (cases t) (simp_all add: event_view_def event_from_row_def details_of_def)
qed

lemma latest_event_some:
  assumes "journal_ok I j" and "registered j tid project task"
  shows "\<exists>v. latest_event tid j = Inr (Some v) \<and> event_view (last (events_of tid j)) v"
proof -
  have ne: "events_of tid j \<noteq> []" using assms by (auto simp: registered_def journal_ok_def)
  then have "last (events_of tid j) \<in> set (events_of tid j)" by (rule last_in_set)
  then have "event_ok j (last (events_of tid j))" using assms(1) by (auto simp: journal_ok_def events_of_def)
  then obtain v where "event_view (last (events_of tid j)) v" using event_row_decodes by blast
  then show ?thesis using ne by (auto simp: latest_event_def event_view_def)
qed

section \<open>Writes\<close>

lemma events_of_append_locked: "events_of tid (append_locked t p k ph c out st j)
  = (if tid = t then events_of tid j @ [last (jn_events (append_locked t p k ph c out st j))] else events_of tid j)"
  by (simp add: events_of_def append_locked_def Let_def)

lemma append_locked_tables [simp]:
  "jn_requests (append_locked t p k ph c out st j) = jn_requests j"
  "jn_claims (append_locked t p k ph c out st j) = jn_claims j"
  "journal_extends j (append_locked t p k ph c out st j)"
  by (simp_all add: append_locked_def Let_def journal_extends_def)

lemma registered_requests: "jn_requests j' = jn_requests j \<Longrightarrow> registered j' = registered j"
  by (simp add: registered_def fun_eq_iff)

lemma registered_append [simp]: "registered (append_locked t p k ph c out st j) = registered j"
  by (rule registered_requests) simp

lemma append_locked_ok:
  assumes ok: "journal_ok I j" and reg: "registered j tid project task"
    and final: "phase \<in> set FINAL_PHASES \<Longrightarrow> outcome \<noteq> None"
  shows "journal_ok I (append_locked tid project task phase code outcome stamp j)" (is "journal_ok I ?j")
proof -
  have r: "registered ?j = registered j" by (rule registered_requests) simp
  have e: "event_ok ?j = event_ok j" by (simp add: event_ok_def r fun_eq_iff)
  let ?e = "\<lparr>ev_sequence = jn_last_sequence j + 1, ev_transition_id = tid, ev_project_id = project, ev_task_id = task,
    ev_phase = phase, ev_reason_code = code, ev_outcome = stored_outcome outcome, ev_created_at = stamp\<rparr>"
  have j: "jn_events ?j = jn_events j @ [?e]" "jn_last_sequence ?j = jn_last_sequence j + 1"
    by (simp_all add: append_locked_def Let_def stored_outcome_def)
  have new: "event_ok j ?e" using reg final by (auto simp: event_ok_def)
  have "ev_sequence x < jn_last_sequence j + 1" if "x \<in> set (jn_events j)" for x
    using ok that by (auto simp: journal_ok_def)
  then show ?thesis using ok new unfolding journal_ok_def r e j
    by (auto simp: sorted_wrt_append events_of_append_locked intro: less_imp_le)
qed

lemma claims_ok:
  assumes "journal_ok I j" and "distinct (map (\<lambda>c. (cl_project_id c, cl_task_id c)) cs)"
    and "\<And>c. c \<in> set cs \<Longrightarrow> registered j (cl_transition_id c) (cl_project_id c) (cl_task_id c)"
  shows "journal_ok I (j\<lparr>jn_claims := cs\<rparr>)"
proof -
  have r: "registered (j\<lparr>jn_claims := cs\<rparr>) = registered j" by (rule registered_requests) simp
  have "event_ok (j\<lparr>jn_claims := cs\<rparr>) = event_ok j" by (simp add: event_ok_def r fun_eq_iff)
  then show ?thesis using assms unfolding journal_ok_def r by (simp add: events_of_def)
qed

lemma filter_claims_ok: "journal_ok I j \<Longrightarrow> journal_ok I (j\<lparr>jn_claims := filter p (jn_claims j)\<rparr>)"
  by (rule claims_ok) (auto simp: journal_ok_def intro: distinct_map_filter)

lemma map_claims_ok:
  assumes "journal_ok I j"
    and "\<And>c. cl_project_id (f c) = cl_project_id c \<and> cl_task_id (f c) = cl_task_id c
      \<and> cl_transition_id (f c) = cl_transition_id c"
  shows "journal_ok I (j\<lparr>jn_claims := map f (jn_claims j)\<rparr>)"
proof (rule claims_ok[OF assms(1)])
  have "map (\<lambda>c. (cl_project_id c, cl_task_id c)) (map f (jn_claims j))
    = map (\<lambda>c. (cl_project_id c, cl_task_id c)) (jn_claims j)" using assms(2) by (simp add: comp_def)
  then show "distinct (map (\<lambda>c. (cl_project_id c, cl_task_id c)) (map f (jn_claims j)))"
    using assms(1) unfolding journal_ok_def by metis
next
  fix c assume "c \<in> set (map f (jn_claims j))"
  then show "registered j (cl_transition_id c) (cl_project_id c) (cl_task_id c)"
    using assms by (auto simp: journal_ok_def)
qed

lemma insert_claim_ok:
  assumes "journal_ok I j" and "registered j tid (tn_project_id i) (tn_task_id i)"
    and "insert_claim i tid token now ttl j = Inr j'"
  shows "journal_ok I j' \<and> journal_extends j j'"
proof -
  have none: "claim_of (tn_project_id i) (tn_task_id i) j = None"
    and j': "j' = j\<lparr>jn_claims := jn_claims j @ [\<lparr>cl_project_id = tn_project_id i, cl_task_id = tn_task_id i,
        cl_transition_id = tid, cl_claim_token = token, cl_claimed_at = now, cl_lease_expires_at = now + ttl\<rparr>]\<rparr>"
    using assms(3) by (auto simp: insert_claim_def split: if_splits)
  have "journal_ok I j'" unfolding j'
    using assms(1,2) none by (intro claims_ok) (auto simp: journal_ok_def claim_of_None_iff)
  then show ?thesis by (simp add: j')
qed

lemma drop_claim_ok: "journal_ok I j \<Longrightarrow> drop_claim i active j = Inr j' \<Longrightarrow> journal_ok I j' \<and> journal_extends j j'"
  by (auto simp: drop_claim_def filter_claims_ok split: if_splits)

lemma take_over_ok:
  "journal_ok I j \<Longrightarrow> take_over_claim i active token now ttl j = Inr j' \<Longrightarrow> journal_ok I j' \<and> journal_extends j j'"
  by (auto simp: take_over_claim_def intro!: map_claims_ok split: if_splits)

lemma drop_claim_requests: "drop_claim i active j = Inr j' \<Longrightarrow> jn_requests j' = jn_requests j"
  by (auto simp: drop_claim_def split: if_splits)

lemma insert_request_ok:
  assumes ok: "journal_ok I j" and i: "i \<in> I"
    and new: "request_by_key (tn_project_id i) (tn_idempotency_key i) j = None"
    and ins: "insert_request tid i stamp j = Inr j'"
  shows "journal_ok I j' \<and> journal_extends j j' \<and> registered j' tid (tn_project_id i) (tn_task_id i)
    \<and> jn_claims j' = jn_claims j"
proof -
  let ?r = "\<lparr>rq_transition_id = tid, rq_project_id = tn_project_id i, rq_task_id = tn_task_id i,
     rq_idempotency_key = tn_idempotency_key i, rq_intent_revision = intent_revision i,
     rq_intent = PDict (intent_to_dict i), rq_created_at = stamp\<rparr>"
  let ?k = "j\<lparr>jn_requests := jn_requests j @ [?r]\<rparr>"
  have free: "request_of tid j = None"
    and j': "j' = append_locked tid (tn_project_id i) (tn_task_id i) Tp_REQUESTED (tn_reason_code i) None stamp ?k"
    using ins by (auto simp: insert_request_def split: if_splits)
  have r: "registered ?k t p q \<longleftrightarrow> registered j t p q \<or> (t, p, q) = (tid, tn_project_id i, tn_task_id i)" for t p q
    by (auto simp: registered_def)
  have r': "registered j' = registered ?k" by (rule registered_requests) (simp add: j')
  have ev: "jn_events j' = jn_events j @ [\<lparr>ev_sequence = jn_last_sequence j + 1, ev_transition_id = tid,
      ev_project_id = tn_project_id i, ev_task_id = tn_task_id i, ev_phase = Tp_REQUESTED,
      ev_reason_code = tn_reason_code i, ev_outcome = None, ev_created_at = stamp\<rparr>]"
    "jn_last_sequence j' = jn_last_sequence j + 1"
    by (simp_all add: j' append_locked_def Let_def)
  have tables: "jn_requests j' = jn_requests j @ [?r]" "jn_claims j' = jn_claims j" by (simp_all add: j')
  have "request_ok I ?r" using i by (auto simp: request_ok_def)
  moreover have "event_ok j' e" if "event_ok j e" for e using that by (auto simp: event_ok_def r' r)
  moreover have "ev_sequence x < jn_last_sequence j + 1" if "x \<in> set (jn_events j)" for x
    using ok that by (auto simp: journal_ok_def)
  moreover have "tid \<notin> rq_transition_id ` set (jn_requests j)" using free by (rule request_of_NoneD)
  moreover have "(tn_project_id i, tn_idempotency_key i) \<notin> (\<lambda>r. (rq_project_id r, rq_idempotency_key r)) ` set (jn_requests j)"
    (is "?key \<notin> ?keys")
  proof
    assume "?key \<in> ?keys"
    then obtain r where "r \<in> set (jn_requests j)" "rq_project_id r = tn_project_id i" "rq_idempotency_key r = tn_idempotency_key i"
      by auto
    then show False using request_by_key_NoneD[OF new] by blast
  qed
  moreover have "event_ok j' (last (jn_events j'))" by (simp add: event_ok_def r' r ev stored_outcome_def FINAL_PHASES_def)
  ultimately have "journal_ok I j'" using ok unfolding journal_ok_def tables ev
    by (auto simp: sorted_wrt_append events_of_def ev r' r less_imp_le)
  then show ?thesis by (simp add: journal_extends_def tables ev r' r)
qed

section \<open>Calls\<close>

lemma same_revision:
  assumes "journal_ok I j" and I: "intents_ok I" and i: "i \<in> I" and row: "row \<in> set (jn_requests j)"
    and "rq_intent_revision row = intent_revision i"
  shows "rq_project_id row = tn_project_id i \<and> rq_task_id row = tn_task_id i \<and> rq_intent row = PDict (intent_to_dict i)"
proof -
  have "request_ok I row" using assms(1) row by (auto simp: journal_ok_def)
  then obtain i' where i': "i' \<in> I" "rq_intent row = PDict (intent_to_dict i')"
    "rq_intent_revision row = intent_revision i'" "rq_project_id row = tn_project_id i'" "rq_task_id row = tn_task_id i'"
    unfolding request_ok_def by blast
  then have "i' = i" using I i assms(5) unfolding intents_ok_def by (metis inj_onD)
  then show ?thesis using i' by simp
qed

lemma expired_owner_registered:
  assumes "expired_owner i active j = Inr (owner, e)"
  shows "registered j (cl_transition_id active) (tn_project_id owner) (tn_task_id owner)"
proof (cases "request_of (cl_transition_id active) j")
  case None
  then show ?thesis using assms by (simp add: expired_owner_def)
next
  case (Some r)
  then show ?thesis using assms request_of_SomeD[OF Some]
    by (auto simp: expired_owner_def registered_def ebind_eq_Inr_iff split: option.splits if_splits)
qed

lemma begin_recoveryE:
  assumes "begin_recovery number i tid token active owner phase now ttl stamp j = Inr (j', b)"
  obtains out out' where "take_over_claim i active token now ttl
    (append_locked tid (tn_project_id i) (tn_task_id i) Tp_WAITING ''transition.recovery_in_progress'' out' stamp
      (append_locked (cl_transition_id active) (tn_project_id owner) (tn_task_id owner) Tp_RETRY_SCHEDULED
        ''transition.claim_expired'' out stamp j)) = Inr j'"
    and "b = (begin_answer tid)\<lparr>bg_claim_token := Some token, bg_recovery := Some (cl_transition_id active, owner, phase)\<rparr>"
  using assms unfolding begin_recovery_def Let_def
proof (elim ebind_InrE)
  fix k
  assume t: "\<And>out' out. take_over_claim i active token now ttl
      (append_locked tid (tn_project_id i) (tn_task_id i) Tp_WAITING ''transition.recovery_in_progress'' out' stamp
        (append_locked (cl_transition_id active) (tn_project_id owner) (tn_task_id owner) Tp_RETRY_SCHEDULED
          ''transition.claim_expired'' out stamp j)) = Inr j' \<Longrightarrow> b = (begin_answer tid)\<lparr>bg_claim_token := Some token,
            bg_recovery := Some (cl_transition_id active, owner, phase)\<rparr> \<Longrightarrow> thesis"
    and k: "take_over_claim i active token now ttl
      (append_locked tid (tn_project_id i) (tn_task_id i) Tp_WAITING ''transition.recovery_in_progress''
        (Some (blind_outcome tid i Td_WAITING ''transition.recovery_in_progress'' True
          (Some [(''recover_transition_id'', PStr (cl_transition_id active))]))) stamp
        (append_locked (cl_transition_id active) (tn_project_id owner) (tn_task_id owner) Tp_RETRY_SCHEDULED
          ''transition.claim_expired''
          (Some (blind_outcome (cl_transition_id active) owner Td_RETRYABLE ''transition.claim_expired'' True
            (Some [(''replacement_transition_id'', PStr tid),
              (''lease_expires_at'', number (cl_lease_expires_at active))]))) stamp j)) = Inr k"
    and r: "Inr (k, (begin_answer tid)\<lparr>bg_claim_token := Some token,
      bg_recovery := Some (cl_transition_id active, owner, phase)\<rparr>) = Inr (j', b)"
  show thesis by (rule t) (use k r in \<open>simp_all only: sum.inject prod.inject\<close>)
qed

lemma recovery_takes_over:
  assumes ok: "journal_ok I j" and reg: "registered j tid (tn_project_id i) (tn_task_id i)"
    and o: "expired_owner i active j = Inr (owner, e)"
    and c: "begin_recovery number i tid token active owner phase now ttl stamp j = Inr (j', b)"
  shows "\<exists>k. journal_ok I k \<and> journal_extends j k \<and> jn_claims k = jn_claims j
    \<and> take_over_claim i active token now ttl k = Inr j' \<and> bg_claim_token b = Some token"
proof -
  let ?owner = "cl_transition_id active"
  have own: "registered j ?owner (tn_project_id owner) (tn_task_id owner)" using o by (rule expired_owner_registered)
  obtain out out' where t: "take_over_claim i active token now ttl
    (append_locked tid (tn_project_id i) (tn_task_id i) Tp_WAITING ''transition.recovery_in_progress'' out' stamp
      (append_locked ?owner (tn_project_id owner) (tn_task_id owner) Tp_RETRY_SCHEDULED ''transition.claim_expired''
        out stamp j)) = Inr j'" (is "take_over_claim _ _ _ _ _ ?k = _")
    and b: "b = (begin_answer tid)\<lparr>bg_claim_token := Some token, bg_recovery := Some (?owner, owner, phase)\<rparr>"
    using c by (rule begin_recoveryE)
  have "journal_ok I ?k" using own reg ok
    by (intro append_locked_ok) (simp_all add: FINAL_PHASES_def)
  moreover have "journal_extends j ?k" using append_locked_tables(3) journal_extends_trans by blast
  ultimately show ?thesis using t b by (intro exI[of _ ?k]) simp
qed

lemma acquire_claim_ok:
  assumes ok: "journal_ok I j" and reg: "registered j tid (tn_project_id i) (tn_task_id i)"
    and call: "acquire_claim number i tid previous token now ttl stamp j = Inr (j', b)"
  shows "journal_ok I j' \<and> journal_extends j j'"
proof (cases "claim_of (tn_project_id i) (tn_task_id i) j")
  case None
  then show ?thesis using call insert_claim_ok[OF ok reg] by (auto simp: acquire_claim_def ebind_eq_Inr_iff)
next
  case (Some active)
  have grant: "journal_ok I j' \<and> journal_extends j j'"
    if d: "drop_claim i active j = Inr k" and c: "insert_claim i tid token now ttl k = Inr j'" for k
  proof -
    have k: "journal_ok I k" "journal_extends j k" using drop_claim_ok[OF ok d] by auto
    have "registered k tid (tn_project_id i) (tn_task_id i)"
      using reg registered_requests[OF drop_claim_requests[OF d]] by simp
    then show ?thesis using insert_claim_ok[OF k(1) _ c] k(2) journal_extends_trans by blast
  qed
  have recovery: "journal_ok I j' \<and> journal_extends j j'"
    if o: "expired_owner i active j = Inr (owner, e)"
      and c: "begin_recovery number i tid token active owner phase now ttl stamp j = Inr (j', b)" for owner e phase
  proof -
    obtain k where k: "journal_ok I k" "journal_extends j k" "take_over_claim i active token now ttl k = Inr j'"
      using recovery_takes_over[OF ok reg o c] by blast
    then show ?thesis using take_over_ok[OF k(1,3)] journal_extends_trans by blast
  qed
  have w: "journal_ok I (append_locked tid (tn_project_id i) (tn_task_id i) Tp_WAITING c out stamp j)" for c out
    using ok reg by (intro append_locked_ok) (simp_all add: FINAL_PHASES_def)
  show ?thesis
    using call Some w
    by (auto simp: acquire_claim_def ebind_eq_Inr_iff Let_def split: if_splits prod.splits
        intro: grant[THEN conjunct1] grant[THEN conjunct2] recovery[THEN conjunct1] recovery[THEN conjunct2])
qed

lemma begin_ok:
  assumes ok: "journal_ok I j" and I: "intents_ok I" and i: "i \<in> I"
    and call: "begin_transition number i ttl fresh token now stamp j = Inr (j', b)"
  shows "journal_ok I j' \<and> journal_extends j j'"
proof (cases "request_by_key (tn_project_id i) (tn_idempotency_key i) j")
  case None
  then obtain k where k: "insert_request fresh i stamp j = Inr k"
    "acquire_claim number i fresh None token now ttl stamp k = Inr (j', b)"
    using call by (auto simp: begin_transition_def ebind_eq_Inr_iff split: if_splits)
  then show ?thesis using insert_request_ok[OF ok i None k(1)] acquire_claim_ok[of I k] journal_extends_trans by blast
next
  case (Some row)
  have row: "row \<in> set (jn_requests j)" using request_by_key_SomeD[OF Some] by auto
  show ?thesis
  proof (cases "rq_intent_revision row = intent_revision i")
    case False
    then show ?thesis using call Some ok by (auto simp: begin_transition_def ebind_eq_Inr_iff Let_def split: if_splits)
  next
    case True
    have reg: "registered j (rq_transition_id row) (tn_project_id i) (tn_task_id i)"
      using same_revision[OF ok I i row True] row by (auto simp: registered_def)
    then obtain v where v: "latest_event (rq_transition_id row) j = Inr (Some v)" using latest_event_some[OF ok] by blast
    show ?thesis
      using call Some True v acquire_claim_ok[OF ok reg] filter_claims_ok[OF ok]
      by (auto simp: begin_transition_def ebind_eq_Inr_iff Let_def split: if_splits option.splits)
  qed
qed

end
