(* ===== verification/JournalMachine.thy ===== *)
theory JournalMachine
  imports JournalInvariant
begin

text \<open>
  The journal as a state machine, and what \<open>begin\<close> promises on a reachable journal: it never finds the
  journal corrupt, it grants a task to one owner at a time, and a finished transition is replayed.
\<close>

section \<open>Steps\<close>

inductive journal_step :: "transition_intent set \<Rightarrow> journal \<Rightarrow> journal \<Rightarrow> bool" for I where
  begins: "i \<in> I \<Longrightarrow> begin_transition number i ttl fresh token now stamp j = Inr (j', b) \<Longrightarrow> journal_step I j j'"
| appends: "append_event_row tid phase code outcome stamp j = Inr j' \<Longrightarrow> (phase \<in> set FINAL_PHASES \<Longrightarrow> outcome \<noteq> None)
    \<Longrightarrow> journal_step I j j'"
| releases: "release_claim project task token j = (j', ok) \<Longrightarrow> journal_step I j j'"
| expires: "expire_for_retry project task token now j = (j', ok) \<Longrightarrow> journal_step I j j'"

inductive_cases journal_stepE: "journal_step I j j'"

lemma append_event_row_ok:
  assumes "journal_ok I j" and "append_event_row tid phase code outcome stamp j = Inr j'"
    and "phase \<in> set FINAL_PHASES \<Longrightarrow> outcome \<noteq> None"
  shows "journal_ok I j' \<and> journal_extends j j'"
proof -
  obtain r c where r: "request_of tid j = Some r"
    and j': "j' = append_locked tid (rq_project_id r) (rq_task_id r) phase c outcome stamp j"
    using assms(2) by (auto simp: append_event_row_def succeeds_iff)
  have "registered j tid (rq_project_id r) (rq_task_id r)" using request_of_SomeD[OF r] by (auto simp: registered_def)
  then show ?thesis unfolding j' using append_locked_ok[OF assms(1) _ assms(3)] by simp
qed

lemma journal_step_ok:
  assumes "intents_ok I" and "journal_step I j j'" and "journal_ok I j"
  shows "journal_ok I j' \<and> journal_extends j j'"
  using assms(2)
proof cases
  case (begins i number ttl fresh token now stamp b)
  then show ?thesis using begin_ok assms by blast
next
  case appends
  then show ?thesis using append_event_row_ok assms by blast
next
  case releases
  then show ?thesis using filter_claims_ok assms by (auto simp: release_claim_def)
next
  case expires
  then show ?thesis using assms by (auto simp: expire_for_retry_def intro!: map_claims_ok)
qed

interpretation journals: inductive_invariant "journal_step I" empty_journal "\<lambda>j. intents_ok I \<longrightarrow> journal_ok I j" for I
  by standard (use empty_journal_ok journal_step_ok in blast)+

abbreviation journal_runs :: "transition_intent set \<Rightarrow> journal \<Rightarrow> bool" where
  "journal_runs I j \<equiv> (journal_step I)\<^sup>*\<^sup>* empty_journal j"

lemma journal_runs_ok: "intents_ok I \<Longrightarrow> journal_runs I j \<Longrightarrow> journal_ok I j"
  using journals.reachable by blast

lemma journal_run_extends:
  assumes "intents_ok I" and "(journal_step I)\<^sup>*\<^sup>* j j'" and "journal_ok I j"
  shows "journal_ok I j' \<and> journal_extends j j'"
  using assms(2)
proof (induction rule: rtranclp_induct)
  case base
  then show ?case using assms(3) by simp
next
  case (step k l)
  then show ?case using journal_step_ok[OF assms(1)] journal_extends_trans by blast
qed

section \<open>Decoding never fails\<close>

lemma journal_integrity:
  assumes I: "intents_ok I" and ok: "journal_ok I j"
  shows "integrity_check j = Inr ()"
proof -
  have "check_request r = Inr ()" if r: "r \<in> set (jn_requests j)" for r
  proof -
    obtain i where i: "i \<in> I" "rq_intent r = PDict (intent_to_dict i)" "rq_intent_revision r = intent_revision i"
      using journal_ok_request[OF ok r] by metis
    have "intent_ok i" using I i(1) by (simp add: intents_ok_def)
    then have "lift_corrupt (intent_from_dict (rq_intent r)) = Inr i" unfolding i(2) by (simp add: intent_roundtrip_ok)
    then show ?thesis unfolding check_request_def i(3) by simp
  qed
  then have "\<And>r. r \<in> set (jn_requests j) \<Longrightarrow> \<exists>u. check_request r = Inr u" by simp
  from eseq_total[OF this] obtain us where "eseq check_request (jn_requests j) = Inr us" by fast
  moreover have "\<exists>v. event_from_row e = Inr v" if "e \<in> set (jn_events j)" for e
  proof -
    have "event_ok j e" using ok that by (auto simp: journal_ok_def)
    then show ?thesis using event_row_decodes unfolding event_view_def by blast
  qed
  from eseq_total[OF this] obtain vs where "eseq event_from_row (jn_events j) = Inr vs" by fast
  ultimately show ?thesis by (simp add: integrity_check_def)
qed

lemma expired_owner_total:
  assumes I: "intents_ok I" and ok: "journal_ok I j"
    and c: "claim_of (tn_project_id i) (tn_task_id i) j = Some active"
  shows "\<exists>owner e. expired_owner i active j = Inr (owner, e) \<and> owner \<in> I"
proof -
  have act: "active \<in> set (jn_claims j)" "cl_project_id active = tn_project_id i" "cl_task_id active = tn_task_id i"
    using claim_of_SomeD[OF c] by auto
  then have reg: "registered j (cl_transition_id active) (tn_project_id i) (tn_task_id i)"
    using ok by (auto simp: journal_ok_def)
  then obtain r where r: "r \<in> set (jn_requests j)" "rq_transition_id r = cl_transition_id active"
    "rq_project_id r = tn_project_id i" "rq_task_id r = tn_task_id i" by (auto simp: registered_def)
  have found: "request_of (cl_transition_id active) j = Some r" using request_of_mem[OF ok r(1)] r(2) by simp
  obtain n where n: "n \<in> I" "rq_intent r = PDict (intent_to_dict n)" "rq_intent_revision r = intent_revision n"
    "tn_project_id n = tn_project_id i" "tn_task_id n = tn_task_id i"
    using journal_ok_request[OF ok r(1)] r(3,4) by metis
  have "intent_from_dict (rq_intent r) = Inr n" using I n(1,2) intent_roundtrip_ok by (simp add: intents_ok_def)
  moreover obtain v where "latest_event (cl_transition_id active) j = Inr (Some v)"
    "je_phase v \<in> set FINAL_PHASES \<Longrightarrow> je_outcome v \<noteq> None"
    using latest_event_some[OF ok reg] unfolding event_view_def by blast
  ultimately show ?thesis using found r(3,4) n by (auto simp: expired_owner_def lift_corrupt_def)
qed

lemma claim_of_same:
  assumes ok: "journal_ok I j" and c: "claim_of project task j = Some active"
    and d: "d \<in> set (jn_claims j)" "cl_project_id d = project" "cl_task_id d = task"
  shows "d = active"
  using claim_of_mem[OF ok d(1)] c d(2,3) by simp

lemma exact_claim_iff:
  assumes ok: "journal_ok I j" and c: "claim_of (tn_project_id i) (tn_task_id i) j = Some active"
    and d: "d \<in> set (jn_claims j)"
  shows "exact_claim i active d \<longleftrightarrow> d = active"
proof
  assume "exact_claim i active d"
  then show "d = active" using claim_of_same[OF ok c d] by (simp add: exact_claim_def)
next
  assume "d = active"
  then show "exact_claim i active d" using claim_of_SomeD[OF c] by (simp add: exact_claim_def)
qed

lemma exact_claim_unique:
  assumes ok: "journal_ok I j" and c: "claim_of (tn_project_id i) (tn_task_id i) j = Some active"
  shows "length (filter (exact_claim i active) (jn_claims j)) = 1"
proof -
  have act: "active \<in> set (jn_claims j)" using claim_of_SomeD[OF c] by blast
  have "distinct (jn_claims j)" using ok by (auto simp: journal_ok_def distinct_map)
  then have "length (filter (exact_claim i active) (jn_claims j)) = card ({c. exact_claim i active c} \<inter> set (jn_claims j))"
    by (simp add: distinct_length_filter)
  also have "{c. exact_claim i active c} \<inter> set (jn_claims j) = {active}"
    using exact_claim_iff[OF ok c] act by blast
  finally show ?thesis by simp
qed

text \<open>A grant after an expired claim was dropped.\<close>

lemma drop_then_insert:
  assumes ok: "journal_ok I j" and c: "claim_of (tn_project_id i) (tn_task_id i) j = Some active"
  shows "\<exists>k. drop_claim i active j = Inr k \<and> claim_of (tn_project_id i) (tn_task_id i) k = None"
proof -
  let ?k = "j\<lparr>jn_claims := filter (\<lambda>c. \<not> exact_claim i active c) (jn_claims j)\<rparr>"
  have "drop_claim i active j = Inr ?k" using exact_claim_unique[OF ok c] by (simp add: drop_claim_def)
  moreover have "claim_of (tn_project_id i) (tn_task_id i) ?k = None"
    using claim_of_same[OF ok c] exact_claim_iff[OF ok c] by (force simp: claim_of_None_iff)
  ultimately show ?thesis by blast
qed

lemma acquire_claim_total:
  assumes I: "intents_ok I" and ok: "journal_ok I j"
  shows "\<exists>j' b. acquire_claim number i tid previous token now ttl stamp j = Inr (j', b)"
proof (cases "claim_of (tn_project_id i) (tn_task_id i) j")
  case None
  then show ?thesis by (simp add: acquire_claim_def insert_claim_def Let_def)
next
  case (Some active)
  obtain k where k: "drop_claim i active j = Inr k" "claim_of (tn_project_id i) (tn_task_id i) k = None"
    using drop_then_insert[OF ok Some] by blast
  obtain owner e where o: "expired_owner i active j = Inr (owner, e)" using expired_owner_total[OF I ok Some] by blast
  have "\<exists>j' b. begin_recovery number i tid token active owner (je_phase e) now ttl stamp j = Inr (j', b)"
    using exact_claim_unique[OF ok Some] by (simp add: begin_recovery_def take_over_claim_def Let_def)
  then show ?thesis using Some k o
    by (auto simp: acquire_claim_def insert_claim_def Let_def)
qed

lemma begin_total_ok:
  assumes I: "intents_ok I" and ok: "journal_ok I j" and i: "i \<in> I" and ttl: "0 < ttl"
    and fresh: "request_of fresh j = None"
  shows "\<exists>j' b. begin_transition number i ttl fresh token now stamp j = Inr (j', b)"
proof (cases "request_by_key (tn_project_id i) (tn_idempotency_key i) j")
  case None
  obtain k where k: "insert_request fresh i stamp j = Inr k" using fresh by (simp add: insert_request_def)
  then have "journal_ok I k" using insert_request_ok[OF ok i None] by blast
  then show ?thesis using None k ttl acquire_claim_total[OF I] by (simp add: begin_transition_def)
next
  case (Some row)
  have row: "row \<in> set (jn_requests j)" using request_by_key_SomeD[OF Some] by auto
  then have "registered j (rq_transition_id row) (rq_project_id row) (rq_task_id row)" by (auto simp: registered_def)
  then obtain v where v: "latest_event (rq_transition_id row) j = Inr (Some v)" using latest_event_some[OF ok] by blast
  show ?thesis using Some v ttl acquire_claim_total[OF I ok]
    by (auto simp: begin_transition_def Let_def outcome_roundtrip_details journal_py_def split: option.split)
qed

section \<open>Grants\<close>

text \<open>What a grant says: the task had no live claim, and it has the new one.\<close>

definition claimed_by :: "transition_intent \<Rightarrow> string \<Rightarrow> real \<Rightarrow> journal \<Rightarrow> bool" where
  "claimed_by i token deadline j \<longleftrightarrow> (case claim_of (tn_project_id i) (tn_task_id i) j of None \<Rightarrow> False
     | Some c \<Rightarrow> cl_claim_token c = token \<and> cl_lease_expires_at c = deadline)"

definition idle_task :: "transition_intent \<Rightarrow> real \<Rightarrow> journal \<Rightarrow> bool" where
  "idle_task i now j \<longleftrightarrow> (case claim_of (tn_project_id i) (tn_task_id i) j of None \<Rightarrow> True
     | Some c \<Rightarrow> cl_lease_expires_at c \<le> now)"

lemma insert_claim_owned: "insert_claim i tid token now ttl j = Inr j' \<Longrightarrow> claimed_by i token (now + ttl) j'"
proof -
  assume "insert_claim i tid token now ttl j = Inr j'"
  then have none: "claim_of (tn_project_id i) (tn_task_id i) j = None"
    and j': "j' = j\<lparr>jn_claims := jn_claims j @ [\<lparr>cl_project_id = tn_project_id i, cl_task_id = tn_task_id i,
        cl_transition_id = tid, cl_claim_token = token, cl_claimed_at = now, cl_lease_expires_at = now + ttl\<rparr>]\<rparr>"
    by (auto simp: insert_claim_def split: if_splits)
  have "find p (xs @ [x]) = (case find p xs of None \<Rightarrow> if p x then Some x else None | Some y \<Rightarrow> Some y)" for p xs and x :: task_claim
    by (induction xs) auto
  then show ?thesis using none by (simp add: claimed_by_def claim_of_def j')
qed

lemma take_over_owned:
  assumes ok: "journal_ok I j" and c: "claim_of (tn_project_id i) (tn_task_id i) j = Some active"
    and t: "take_over_claim i active token now ttl j = Inr j'"
  shows "claimed_by i token (now + ttl) j'"
proof -
  let ?new = "active\<lparr>cl_claim_token := token, cl_claimed_at := now, cl_lease_expires_at := now + ttl\<rparr>"
  have act: "active \<in> set (jn_claims j)" "exact_claim i active active"
    using claim_of_SomeD[OF c] by (auto simp: exact_claim_def)
  have "journal_ok I j'" using take_over_ok[OF ok t] by blast
  moreover have "?new \<in> set (jn_claims j')" using t act by (force simp: take_over_claim_def split: if_splits)
  ultimately have "claim_of (cl_project_id ?new) (cl_task_id ?new) j' = Some ?new" by (rule claim_of_mem)
  then show ?thesis using claim_of_SomeD[OF c] by (simp add: claimed_by_def)
qed

lemma acquire_grants:
  assumes ok: "journal_ok I j" and reg: "registered j tid (tn_project_id i) (tn_task_id i)"
    and call: "acquire_claim number i tid previous token now ttl stamp j = Inr (j', b)" and t: "bg_claim_token b = Some tok"
  shows "tok = token \<and> idle_task i now j \<and> claimed_by i token (now + ttl) j'"
proof (cases "claim_of (tn_project_id i) (tn_task_id i) j")
  case None
  then show ?thesis using call t insert_claim_owned
    by (auto simp: acquire_claim_def ebind_eq_Inr_iff idle_task_def Let_def begin_answer_def)
next
  case (Some active)
  have rec: "tok = token \<and> claimed_by i token (now + ttl) j'"
    if r: "begin_recovery number i tid token active owner phase now ttl stamp j = Inr (j', b)"
      and o: "expired_owner i active j = Inr (owner, e)" for owner phase e
  proof -
    obtain k where k: "journal_ok I k" "jn_claims k = jn_claims j" "take_over_claim i active token now ttl k = Inr j'"
      "bg_claim_token b = Some token" using recovery_takes_over[OF ok reg o r] by blast
    have "claim_of (tn_project_id i) (tn_task_id i) k = Some active" using Some k(2) by (simp add: claim_of_def)
    then show ?thesis using take_over_owned[OF k(1) _ k(3)] k(4) t by simp
  qed
  have grant: "tok = token \<and> claimed_by i token (now + ttl) j'"
    if "insert_claim i u token now ttl k = Inr j'"
      and "b = (begin_answer u)\<lparr>bg_claim_token := Some token, bg_previous_phase := previous\<rparr>" for k u
    using insert_claim_owned that t by simp
  have "\<not> now < cl_lease_expires_at active"
    using call t Some by (auto simp: acquire_claim_def Let_def begin_answer_def)
  then show ?thesis using call Some
    by (auto simp: acquire_claim_def ebind_eq_Inr_iff idle_task_def Let_def split: if_splits prod.splits
        dest: rec grant)
qed

lemma begin_grants:
  assumes ok: "journal_ok I j" and I: "intents_ok I" and i: "i \<in> I"
    and call: "begin_transition number i ttl fresh token now stamp j = Inr (j', b)" and t: "bg_claim_token b = Some tok"
  shows "tok = token \<and> idle_task i now j \<and> claimed_by i token (now + ttl) j'"
proof (cases "request_by_key (tn_project_id i) (tn_idempotency_key i) j")
  case None
  then obtain k where k: "insert_request fresh i stamp j = Inr k"
    "acquire_claim number i fresh None token now ttl stamp k = Inr (j', b)"
    using call by (auto simp: begin_transition_def ebind_eq_Inr_iff split: if_splits)
  have ins: "journal_ok I k" "registered k fresh (tn_project_id i) (tn_task_id i)" "jn_claims k = jn_claims j"
    using insert_request_ok[OF ok i None k(1)] by auto
  have "idle_task i now k = idle_task i now j" by (simp add: idle_task_def claim_of_def ins(3))
  then show ?thesis using acquire_grants[OF ins(1,2) k(2) t] by simp
next
  case (Some row)
  have row: "row \<in> set (jn_requests j)" using request_by_key_SomeD[OF Some] by auto
  show ?thesis
  proof (cases "rq_intent_revision row = intent_revision i")
    case False
    then show ?thesis using call Some t
      by (auto simp: begin_transition_def ebind_eq_Inr_iff Let_def begin_answer_def split: if_splits)
  next
    case True
    have reg: "registered j (rq_transition_id row) (tn_project_id i) (tn_task_id i)"
      using same_revision[OF ok I i row True] row by (auto simp: registered_def)
    then obtain v where v: "latest_event (rq_transition_id row) j = Inr (Some v)" using latest_event_some[OF ok] by blast
    show ?thesis
      using call Some True v t acquire_grants[OF ok reg]
      by (auto simp: begin_transition_def ebind_eq_Inr_iff Let_def begin_answer_def split: if_splits option.splits)
  qed
qed

end
