(* ===== verification/ServiceProofs.thy ===== *)
theory ServiceProofs
  imports TransitionService JournalMachine
begin

text \<open>
  The transition service keeps the journal well formed, and every write it sends to the tracker is justified
  by what its trace shows before it.
\<close>

section \<open>The world\<close>

text \<open>The other users of the journal are runs of the journal machine over the same intents.\<close>

definition polite :: "transition_intent set \<Rightarrow> service_world \<Rightarrow> bool" where
  "polite I w \<longleftrightarrow> (\<forall>t j. (journal_step I)\<^sup>*\<^sup>* j (sw_others w t j))"

section \<open>Justified writes\<close>

text \<open>The last read of the tracker in a trace.\<close>

fun last_read :: "service_event list \<Rightarrow> (string \<times> tracked_issue option) option" where
  "last_read [] = None"
| "last_read (e # es) = (case last_read es of Some r \<Rightarrow> Some r
     | None \<Rightarrow> (case e of Fetched task i \<Rightarrow> Some (task, i) | _ \<Rightarrow> None))"

lemma last_read_append: "last_read (xs @ ys) = (case last_read ys of Some r \<Rightarrow> Some r | None \<Rightarrow> last_read xs)"
  by (induction xs) (auto split: option.splits service_event.splits)

text \<open>The issue is the one the intent expects: project, status and version.\<close>

definition expected_issue :: "transition_intent \<Rightarrow> tracked_issue \<Rightarrow> bool" where
  "expected_issue n i \<longleftrightarrow> \<not> project_conflict n i \<and> status_of i = tn_expected_status n
     \<and> issue_authority_version i = Inr (tn_expected_version n)"

text \<open>The ordinary lane: a legal edge that is neither terminal nor the audit stage, under the right authority.\<close>

definition ordinary_edge :: "transition_intent \<Rightarrow> bool" where
  "ordinary_edge n \<longleftrightarrow> tn_requested_status n \<notin> set TERMINAL_TARGETS \<and> tn_requested_status n \<noteq> IN_VALIDATION
     \<and> transition_rule_of (PStr (tn_expected_status n)) (PStr (tn_requested_status n)) \<noteq> None
     \<and> (tn_reason_code n = ''rollup.epic_children_reconciled'' \<longrightarrow> tn_authority n = Auth_SYSTEM)
     \<and> (tn_expected_status n = BACKLOG \<and> tn_requested_status n = IN_PROGRESS
          \<longrightarrow> tn_authority n \<in> {Auth_PROJECT_OWNER, Auth_API})
     \<and> (tn_expected_status n = OPEN \<and> tn_requested_status n = READY_TO_INTEGRATE
          \<longrightarrow> tn_authority n = Auth_ORCHESTRATOR \<and> is_validation_submission n)
     \<and> (Req_IMPLEMENTATION_GENERATION \<in> set (edge_requirements (tn_expected_status n) (tn_requested_status n))
          \<longrightarrow> tn_evidence_generation n \<noteq> None)
     \<and> (set (edge_requirements (tn_expected_status n) (tn_requested_status n))
          \<inter> {Req_ACCEPTED_SUBMISSION, Req_LANDING_EVIDENCE} \<noteq> {} \<longrightarrow> tn_exact_head n \<noteq> None)"

definition justified :: "transition_intent set \<Rightarrow> service_event list \<Rightarrow> string \<Rightarrow> string \<Rightarrow> bool" where
  "justified I pre task status \<longleftrightarrow> (\<exists>n \<in> I. \<exists>i. tn_task_id n = task \<and> tn_requested_status n = status
     \<and> last_read pre = Some (task, Some i) \<and> expected_issue n i
     \<and> (\<exists>tid. Logged tid Tp_APPLYING \<in> set pre)
     \<and> (authorized_recovery_intent n \<or> ordinary_edge n))"

definition writes_justified :: "transition_intent set \<Rightarrow> service_event list \<Rightarrow> bool" where
  "writes_justified I tr \<longleftrightarrow> (\<forall>pre post task status. tr = pre @ Wrote task status # post \<longrightarrow> justified I pre task status)"

lemma writes_justified_Nil [simp]: "writes_justified I []"
  by (simp add: writes_justified_def)

lemma writes_justified_snoc:
  assumes "writes_justified I tr" and "\<And>task status. e = Wrote task status \<Longrightarrow> justified I tr task status"
  shows "writes_justified I (tr @ [e])"
  unfolding writes_justified_def
proof (intro allI impI)
  fix pre post task status
  assume split: "tr @ [e] = pre @ Wrote task status # post"
  show "justified I pre task status"
  proof (cases post rule: rev_cases)
    case Nil
    then show ?thesis using split assms(2) by simp
  next
    case (snoc post' x)
    then have "tr = pre @ Wrote task status # post'" using split by simp
    then show ?thesis using assms(1) unfolding writes_justified_def by blast
  qed
qed

section \<open>The invariant of a saga of the service\<close>

definition sound :: "transition_intent set \<Rightarrow> service_state \<Rightarrow> bool" where
  "sound I s \<longleftrightarrow> journal_ok I (sv_journal s) \<and> writes_justified I (sv_trace s)"

text \<open>The steps that write nothing to the tracker keep the trace's reads too.\<close>

definition keeps_sound :: "transition_intent set \<Rightarrow> 'a service_saga \<Rightarrow> bool" where
  "keeps_sound I m \<longleftrightarrow> (\<forall>s s' r. sound I s \<longrightarrow> m s = (s', r) \<longrightarrow> sound I s')"

lemma keepsD: "keeps_sound I m \<Longrightarrow> sound I s \<Longrightarrow> m s = (s', r) \<Longrightarrow> sound I s'"
  unfolding keeps_sound_def by blast

lemma keeps_triple: "keeps_sound I m \<longleftrightarrow> triple (sound I) m (\<lambda>_. sound I) (\<lambda>_. sound I)"
  unfolding keeps_sound_def triple_def by (fastforce split: prod.split sum.split)

text \<open>Keeping the invariant is advancing along a preorder of states, so the sequencing rules are those of sagas.\<close>

interpretation services: saga_relation "\<lambda>s t. sound I s \<longrightarrow> sound I t" for I
  by standard blast+

lemma keeps_advances: "keeps_sound I m \<longleftrightarrow> advances (\<lambda>s t. sound I s \<longrightarrow> sound I t) m"
  unfolding keeps_sound_def advances_def by (metis fst_conv surj_pair)

lemma keeps_pure: "keeps_sound I (give x)" "keeps_sound I (throw e)" "keeps_sound I (reading f)" "keeps_sound I (lifting g v)"
  unfolding keeps_advances by (rule services.advances_still)+

lemma keeps_andthen: "keeps_sound I m \<Longrightarrow> (\<And>x. keeps_sound I (f x)) \<Longrightarrow> keeps_sound I (andthen m f)"
  unfolding keeps_advances by (rule services.advances_andthen)

lemma keeps_recovering: "keeps_sound I m \<Longrightarrow> (\<And>e. keeps_sound I (h e)) \<Longrightarrow> keeps_sound I (recovering m h)"
  unfolding keeps_advances by (rule services.advances_recovering)

lemma keeps_finishing: "keeps_sound I m \<Longrightarrow> (\<And>r. keeps_sound I (c r)) \<Longrightarrow> keeps_sound I (finishing m c)"
  unfolding keeps_advances by (rule services.advances_finishing)

lemma keeps_branches:
  "keeps_sound I m \<Longrightarrow> keeps_sound I m' \<Longrightarrow> keeps_sound I (if b then m else m')"
  "keeps_sound I m \<Longrightarrow> (\<And>y. keeps_sound I (f y)) \<Longrightarrow> keeps_sound I (case x of None \<Rightarrow> m | Some y \<Rightarrow> f y)"
  "(\<And>y. keeps_sound I (g y)) \<Longrightarrow> (\<And>z. keeps_sound I (h z)) \<Longrightarrow> keeps_sound I (case v of Inl y \<Rightarrow> g y | Inr z \<Rightarrow> h z)"
  unfolding keeps_advances
  by (rule services.advances_if services.advances_option services.advances_sum; assumption)+

lemmas keeps_rules = keeps_pure keeps_andthen keeps_recovering keeps_finishing keeps_branches

lemma keeps_outcome: "keeps_sound I (doing (\<lambda>s. s\<lparr>sv_outcome := v\<rparr>))"
  by (simp add: keeps_sound_def doing_def sound_def)

lemma sound_tick [simp]: "sound I (tick s) = sound I s" "sv_trace (tick s) = sv_trace s" "sv_journal (tick s) = sv_journal s"
  by (simp_all add: sound_def tick_def)

text \<open>A note that is no write.\<close>

lemma keeps_noting:
  assumes "keeps_sound I m" and "\<And>task status. e \<noteq> Wrote task status"
  shows "keeps_sound I (noting e m)"
  unfolding noting_def
proof (rule keeps_andthen)
  show "keeps_sound I (doing (\<lambda>s. s\<lparr>sv_trace := sv_trace s @ [e]\<rparr>))"
    unfolding keeps_sound_def
  proof (intro allI impI)
    fix s s' r
    assume s: "sound I s" and call: "doing (\<lambda>s. s\<lparr>sv_trace := sv_trace s @ [e]\<rparr>) s = (s', r)"
    have "writes_justified I (sv_trace s @ [e])"
      by (rule writes_justified_snoc) (use s assms(2) in \<open>simp_all add: sound_def\<close>)
    then show "sound I s'" using s call by (auto simp: doing_def sound_def)
  qed
qed (rule assms(1))

lemma keeps_journal_call:
  assumes I: "intents_ok I" and w: "polite I w"
    and step: "\<And>t j j' x. journal_ok I j \<Longrightarrow> f t j = Inr (j', x) \<Longrightarrow> journal_ok I j'"
  shows "keeps_sound I (journal_call w f)"
  unfolding keeps_sound_def
proof (intro allI impI)
  fix s s' r
  assume s: "sound I s" and call: "journal_call w f s = (s', r)"
  let ?j = "sw_others w (sv_tick s) (sv_journal s)"
  have "(journal_step I)\<^sup>*\<^sup>* (sv_journal s) ?j" using w by (simp add: polite_def)
  then have j: "journal_ok I ?j" using journal_run_extends[OF I] s by (simp add: sound_def)
  show "sound I s'"
  proof (cases "f (sv_tick s) ?j")
    case (Inl e)
    then have "s' = tick (s\<lparr>sv_journal := ?j\<rparr>)" using call by (simp add: journal_call_def Let_def)
    then show ?thesis using s j by (simp add: sound_def)
  next
    case (Inr p)
    obtain k x where p: "p = (k, x)" by fastforce
    then have "s' = tick (s\<lparr>sv_journal := k\<rparr>)" using call Inr by (simp add: journal_call_def Let_def)
    then show ?thesis using s step[OF j] Inr p by (simp add: sound_def)
  qed
qed

lemma keeps_append_call:
  assumes "intents_ok I" and "polite I w" and "phase \<in> set FINAL_PHASES \<Longrightarrow> outcome \<noteq> None"
  shows "keeps_sound I (append_call w tid phase code outcome)"
  unfolding append_call_def
  by (intro keeps_andthen keeps_journal_call keeps_noting keeps_pure assms)
    (use append_event_row_ok assms(3) in \<open>auto simp: ebind_eq_Inr_iff\<close>)

lemma keeps_conclude:
  assumes "intents_ok I" and "polite I w"
  shows "keeps_sound I (conclude w tid n v issue)"
  unfolding conclude_def
  by (intro keeps_rules keeps_outcome keeps_append_call assms) simp

lemma keeps_tick_reply: "keeps_sound I (\<lambda>s. (tick s, f s))"
  by (auto simp: keeps_sound_def)

lemma keeps_detail_call: "keeps_sound I (detail_call w task)"
  unfolding detail_call_def by (rule keeps_tick_reply)

lemma keeps_fetch: "keeps_sound I (fetch sv w task)"
  unfolding fetch_def point_call_def
  by (intro keeps_rules keeps_detail_call)
    (auto simp: Let_def intro!: keeps_noting keeps_rules keeps_tick_reply split: detail_reply.split)

lemma keeps_try_fetch: "keeps_sound I (try_fetch sv w task)"
  unfolding try_fetch_def by (intro keeps_rules keeps_fetch)

lemma keeps_children: "keeps_sound I (try_fetch_children w parent)"
  unfolding try_fetch_children_def by (intro keeps_rules keeps_tick_reply)

lemma keeps_rollup: "keeps_sound I (rollup_verdict w n i)"
  unfolding rollup_verdict_def
  by (intro keeps_rules keeps_children) (auto split: list.split intro!: keeps_rules)

lemma keeps_verify_write: "intents_ok I \<Longrightarrow> polite I w \<Longrightarrow> keeps_sound I (verify_write sv w tid n issue)"
  unfolding verify_write_def by (intro keeps_rules keeps_try_fetch keeps_conclude)

lemma keeps_recover_write: "intents_ok I \<Longrightarrow> polite I w \<Longrightarrow> keeps_sound I (recover_write sv w tid n issue name)"
  unfolding recover_write_def by (intro keeps_rules keeps_try_fetch keeps_conclude)

lemma keeps_stage_terminal: "intents_ok I \<Longrightarrow> polite I w \<Longrightarrow> keeps_sound I (stage_terminal sv w tid n issue)"
  unfolding stage_terminal_def attempting_def stage_call_def Let_def
  by (intro keeps_rules keeps_try_fetch keeps_conclude keeps_noting keeps_tick_reply) simp_all

lemma keeps_finish_claim: "intents_ok I \<Longrightarrow> polite I w \<Longrightarrow> keeps_sound I (finish_claim w retain n token)"
  unfolding finish_claim_def
  by (intro keeps_rules keeps_journal_call)
    (auto simp: expire_for_retry_def release_claim_def intro!: map_claims_ok filter_claims_ok)

lemma keeps_begin_call: "intents_ok I \<Longrightarrow> polite I w \<Longrightarrow> n \<in> I \<Longrightarrow> keeps_sound I (begin_call sv w n)"
  unfolding begin_call_def by (intro keeps_journal_call) (use begin_ok in blast)+

lemma keeps_pending: "intents_ok I \<Longrightarrow> polite I w \<Longrightarrow> keeps_sound I (recovery_pending w n b recovery)"
  unfolding recovery_pending_def Let_def
  by (intro keeps_rules keeps_append_call) simp_all

section \<open>Reads and writes\<close>

definition at_read :: "transition_intent set \<Rightarrow> transition_intent \<Rightarrow> tracked_issue \<Rightarrow> service_state \<Rightarrow> bool" where
  "at_read I n i s \<longleftrightarrow> sound I s \<and> last_read (sv_trace s) = Some (tn_task_id n, Some i)"

definition applying :: "service_state \<Rightarrow> bool" where
  "applying s \<longleftrightarrow> (\<exists>tid. Logged tid Tp_APPLYING \<in> set (sv_trace s))"

definition kept :: "transition_intent set \<Rightarrow> (service_state \<Rightarrow> bool) \<Rightarrow> 'a service_saga \<Rightarrow> bool" where
  "kept I P m \<longleftrightarrow> (\<forall>s s' r. P s \<longrightarrow> m s = (s', r) \<longrightarrow> sound I s')"

lemma kept_keeps: "keeps_sound I m \<Longrightarrow> (\<And>s. P s \<Longrightarrow> sound I s) \<Longrightarrow> kept I P m"
  unfolding keeps_sound_def kept_def by blast

lemma keeps_kept: "kept I (sound I) m \<Longrightarrow> keeps_sound I m"
  unfolding keeps_sound_def kept_def by blast

lemma kept_triple: "kept I P m \<longleftrightarrow> triple P m (\<lambda>_. sound I) (\<lambda>_. sound I)"
  unfolding kept_def triple_def by (fastforce split: prod.split sum.split)

text \<open>Sequencing, with what the first part establishes.\<close>

lemma kept_andthen:
  assumes "kept I P m" and "\<And>s s' x. P s \<Longrightarrow> m s = (s', Inr x) \<Longrightarrow> sound I s' \<Longrightarrow> R x s'" and "\<And>x. kept I (R x) (f x)"
  shows "kept I P (andthen m f)"
  unfolding kept_triple
proof (rule triple_andthen)
  show "triple P m R (\<lambda>_. sound I)" using assms(1,2) unfolding kept_def by (intro tripleI) blast+
  show "triple (R x) (f x) (\<lambda>_. sound I) (\<lambda>_. sound I)" for x using assms(3) by (simp add: kept_triple)
qed

lemma journal_call_trace: "journal_call w f s = (s', r) \<Longrightarrow> sv_trace s' = sv_trace s"
  by (auto simp: journal_call_def Let_def tick_def split: sum.splits prod.splits)

lemma append_call_returns:
  assumes "append_call w tid phase code outcome s = (s', Inr u)"
  shows "sv_trace s' = sv_trace s @ [Logged tid phase]"
  using assms unfolding append_call_def andthen_returns noting_def
  by (auto simp: doing_def give_def dest: journal_call_trace)

lemma fetch_returns:
  assumes "fetch sv w task s = (s', Inr i)"
  shows "last_read (sv_trace s') = Some (task, i)"
  using assms unfolding fetch_def andthen_returns Let_def noting_def
  by (auto simp: doing_def give_def last_read_append)

lemma try_fetch_returns:
  assumes "try_fetch sv w task s = (s', Inr (Inr i))"
  shows "last_read (sv_trace s') = Some (task, i)"
proof -
  obtain u r where f: "fetch sv w task s = (u, r)" by fastforce
  have "r = Inr i \<and> u = s'"
    using assms f by (cases r) (auto simp: try_fetch_def recovering_def andthen_def give_def)
  then show ?thesis using fetch_returns f by simp
qed

text \<open>Writing: the read before it and the journalled start justify it.\<close>

lemma kept_status_write:
  assumes n: "n \<in> I" and i: "expected_issue n i" and lane: "authorized_recovery_intent n \<or> ordinary_edge n"
  shows "kept I (\<lambda>s. at_read I n i s \<and> applying s) (update_call w (tn_task_id n) (tn_requested_status n))"
  unfolding kept_def
proof (intro allI impI)
  fix s s' :: service_state and r :: "service_exn + unit"
  assume s: "at_read I n i s \<and> applying s" and call: "update_call w (tn_task_id n) (tn_requested_status n) s = (s', r)"
  have "justified I (sv_trace s) (tn_task_id n) (tn_requested_status n)"
    using s n i lane unfolding justified_def at_read_def applying_def by blast
  then have "writes_justified I (sv_trace s @ [Wrote (tn_task_id n) (tn_requested_status n)])"
    using s by (intro writes_justified_snoc) (auto simp: at_read_def sound_def)
  moreover have "s' = tick (s\<lparr>sv_trace := sv_trace s @ [Wrote (tn_task_id n) (tn_requested_status n)]\<rparr>)"
    using call by (auto simp: update_call_def noting_def andthen_def doing_def)
  ultimately show "sound I s'" using s by (simp add: at_read_def sound_def)
qed

text \<open>A commit lane reads the issue again under its lock.\<close>

lemma stale_conflict_passed:
  assumes "stale_conflict n issue = Inr (Inr i)"
  shows "issue = Some i \<and> expected_issue n i"
  using assms
  by (auto simp: stale_conflict_def expected_issue_def project_conflict_def ebind_eq_Inr_iff
      split: option.splits if_splits)

lemma detail_call_trace: "detail_call w task s = (s', r) \<Longrightarrow> sv_trace s' = sv_trace s"
  by (auto simp: detail_call_def tick_def)

lemma kept_commit_update:
  assumes n: "n \<in> I" and lane: "authorized_recovery_intent n \<or> ordinary_edge n"
  shows "kept I (\<lambda>s. sound I s \<and> applying s) (commit_update sv w check n)"
  unfolding commit_update_def
proof (rule kept_andthen[where R = "\<lambda>_ s. sound I s \<and> applying s"])
  show "kept I (\<lambda>s. sound I s \<and> applying s) (detail_call w (tn_task_id n))"
    by (rule kept_keeps[OF keeps_detail_call]) simp
  show "sound I s' \<and> applying s'" if "sound I s \<and> applying s" "detail_call w (tn_task_id n) s = (s', Inr x)" "sound I s'"
    for s s' x using that detail_call_trace unfolding applying_def by metis
next
  fix r
  define issue where "issue = (case r of Detail_issue i \<Rightarrow> Some (adopt_project sv i) | _ \<Rightarrow> None)"
  let ?body = "andthen (lifting Svc_py (stale_conflict n issue)) (\<lambda>c. case c of
          Inl conflict \<Rightarrow> give (issue, Some conflict)
        | Inr i \<Rightarrow> andthen (reading sv_tick) (\<lambda>t. case check t n i of
            Some conflict \<Rightarrow> give (issue, Some conflict)
          | None \<Rightarrow> andthen (update_call w (tn_task_id n) (tn_requested_status n)) (\<lambda>_. give (issue, None))))"
  let ?P = "\<lambda>s. sound I s \<and> applying s \<and> last_read (sv_trace s) = Some (tn_task_id n, issue)"
  have sends: "kept I ?P (andthen (update_call w (tn_task_id n) (tn_requested_status n)) (\<lambda>_. give (issue, None)))"
    if "stale_conflict n issue = Inr (Inr i)" for i
  proof (rule kept_andthen[where R = "\<lambda>_. sound I"])
    have i: "issue = Some i" "expected_issue n i" using stale_conflict_passed[OF that] by auto
    show "kept I ?P (update_call w (tn_task_id n) (tn_requested_status n))"
      using kept_status_write[OF n i(2) lane, of w] i(1) unfolding kept_def at_read_def by blast
  qed (auto intro: kept_keeps keeps_pure)
  have body: "kept I ?P ?body"
  proof (cases "stale_conflict n issue")
    case (Inl e)
    then show ?thesis by (auto simp: kept_def andthen_def lifting_def)
  next
    case (Inr c)
    show ?thesis
    proof (cases c)
      case (Inl conflict)
      then show ?thesis using Inr by (auto simp: kept_def andthen_def lifting_def give_def)
    next
      case c: (Inr i)
      have "kept I ?P (case check t n i of Some conflict \<Rightarrow> give (issue, Some conflict)
          | None \<Rightarrow> andthen (update_call w (tn_task_id n) (tn_requested_status n)) (\<lambda>_. give (issue, None)))" for t
        using sends[OF Inr[unfolded c]] by (auto intro: kept_keeps keeps_pure split: option.split)
      then show ?thesis using Inr c by (simp add: kept_def andthen_def lifting_def reading_def)
    qed
  qed
  show "kept I (\<lambda>s. sound I s \<and> applying s)
    (let issue = case r of Detail_issue i \<Rightarrow> Some (adopt_project sv i) | _ \<Rightarrow> None
     in noting (Fetched (tn_task_id n) issue) (andthen (lifting Svc_py (stale_conflict n issue)) (\<lambda>c. case c of
          Inl conflict \<Rightarrow> give (issue, Some conflict)
        | Inr i \<Rightarrow> andthen (reading sv_tick) (\<lambda>t. case check t n i of
            None \<Rightarrow> andthen (update_call w (tn_task_id n) (tn_requested_status n)) (\<lambda>_. give (issue, None))
          | Some conflict \<Rightarrow> give (issue, Some conflict)))))"
    unfolding issue_def[symmetric] Let_def noting_def
  proof (rule kept_andthen[OF _ _ body])
    let ?note = "doing (\<lambda>s. s\<lparr>sv_trace := sv_trace s @ [Fetched (tn_task_id n) issue]\<rparr>) :: unit service_saga"
    have "keeps_sound I (noting (Fetched (tn_task_id n) issue) (give ()))" by (rule keeps_noting) (simp_all add: keeps_pure)
    then have "keeps_sound I ?note" by (simp add: noting_def andthen_def give_def keeps_sound_def doing_def)
    then show "kept I (\<lambda>s. sound I s \<and> applying s) ?note" by (rule kept_keeps) simp
  qed (auto simp: doing_def applying_def last_read_append)
qed

section \<open>The lanes\<close>

definition lane_ok :: "transition_intent set \<Rightarrow> transition_intent \<Rightarrow> bool" where
  "lane_ok I n \<longleftrightarrow> n \<in> I \<and> (authorized_recovery_intent n \<or> ordinary_edge n)"

lemma kept_cases:
  "(\<And>y. kept I P (g y)) \<Longrightarrow> (\<And>z. kept I P (h z)) \<Longrightarrow> kept I P (case v of Inl y \<Rightarrow> g y | Inr z \<Rightarrow> h z)"
  "kept I P m \<Longrightarrow> (\<And>y. kept I P (f y)) \<Longrightarrow> kept I P (case x of None \<Rightarrow> m | Some y \<Rightarrow> f y)"
  by (cases v; cases x; simp)+

lemma kept_then_keeps: "kept I P m \<Longrightarrow> (\<And>x. keeps_sound I (f x)) \<Longrightarrow> kept I P (andthen m f)"
  by (rule kept_andthen[where R = "\<lambda>_. sound I"]) (auto intro: kept_keeps)

lemma kept_recovering: "kept I P m \<Longrightarrow> (\<And>e. keeps_sound I (h e)) \<Longrightarrow> kept I P (recovering m h)"
  unfolding kept_triple keeps_triple by (rule triple_recovering)

lemma kept_commit_lane:
  assumes env: "intents_ok I" "polite I w" and lane: "lane_ok I n" and i: "expected_issue n i"
  shows "kept I (\<lambda>s. at_read I n i s \<and> applying s) (commit_lane sv w tid n i)"
proof -
  let ?P = "\<lambda>s. at_read I n i s \<and> applying s"
  have commit: "kept I ?P (commit_update sv w check n)" for check
    using kept_commit_update[of n I] lane unfolding kept_def lane_ok_def at_read_def by blast
  have update: "kept I ?P (update_call w (tn_task_id n) (tn_requested_status n))"
    by (rule kept_status_write) (use lane i in \<open>auto simp: lane_ok_def\<close>)
  have rest: "keeps_sound I (case c of None \<Rightarrow> give None
      | Some conflict \<Rightarrow> andthen (conclude w tid n (conflict_verdict g conflict) (or_fallback seen (Some i)))
          (\<lambda>t. give (Some t)))" for c g seen
    by (intro keeps_rules keeps_conclude env)
  show ?thesis
    unfolding commit_lane_def commit_direct_owner_update_def commit_guarded_update_def
    by (auto intro!: kept_then_keeps commit update rest keeps_pure simp: case_prod_beta)
qed

lemma kept_write_status:
  assumes env: "intents_ok I" "polite I w" and lane: "lane_ok I n" and i: "expected_issue n i"
  shows "kept I (\<lambda>s. at_read I n i s \<and> applying s) (write_status sv w tid n i)"
  unfolding write_status_def attempting_def
  by (intro kept_then_keeps kept_recovering kept_commit_lane env lane i keeps_rules keeps_recover_write
      keeps_verify_write)

text \<open>The start is journalled between the read and the write.\<close>

lemma kept_after_start:
  assumes env: "intents_ok I" "polite I w" and body: "kept I (\<lambda>s. at_read I n i s \<and> applying s) m"
  shows "kept I (at_read I n i) (andthen (append_call w tid Tp_APPLYING code None) (\<lambda>_. m))"
proof (rule kept_andthen[OF _ _ body])
  show "kept I (at_read I n i) (append_call w tid Tp_APPLYING code None)"
    by (rule kept_keeps[OF keeps_append_call[OF env]]) (simp_all add: FINAL_PHASES_def at_read_def)
next
  fix s s' u assume "at_read I n i s" "append_call w tid Tp_APPLYING code None s = (s', Inr u)" "sound I s'"
  then show "at_read I n i s' \<and> applying s'"
    using append_call_returns by (auto simp: at_read_def applying_def last_read_append)
qed

text \<open>What the checks that did not object establish.\<close>

lemma no_objection_ordinary:
  assumes ob: "observed_verdict n previous i version = None" and v: "issue_authority_version i = Inr version"
    and p: "\<not> project_conflict n i" and a: "authority_verdict n i = Inr None"
    and t: "tn_requested_status n \<notin> set TERMINAL_TARGETS"
  shows "ordinary_edge n \<and> expected_issue n i"
proof -
  have st: "status_of i = tn_expected_status n" "version = tn_expected_version n"
    "tn_requested_status n \<noteq> IN_VALIDATION"
    "transition_rule_of (PStr (status_of i)) (PStr (tn_requested_status n)) \<noteq> None"
    "tn_reason_code n = ''rollup.epic_children_reconciled'' \<longrightarrow> tn_authority n = Auth_SYSTEM"
    using ob t by (auto simp: observed_verdict_def split: if_splits)
  have "evidence_verdict n i = None"
    using a by (auto simp: authority_verdict_def ebind_eq_Inr_iff split: if_splits)
  then show ?thesis
    using st t p v by (auto simp: ordinary_edge_def expected_issue_def evidence_verdict_def Let_def split: if_splits)
qed

lemma try_fetch_children_trace: "sv_trace (fst (try_fetch_children w i s)) = sv_trace s"
  by (simp add: try_fetch_children_def give_def tick_def split: option.split)

lemma rollup_verdict_trace: "sv_trace (fst (rollup_verdict w n i s)) = sv_trace s"
proof (cases "system_epic_rollup n")
  case True
  obtain u r where c: "try_fetch_children w i s = (u, r)" by fastforce
  then have "sv_trace u = sv_trace s" using try_fetch_children_trace by (metis fst_conv)
  then show ?thesis using True c
    by (cases r) (auto simp: rollup_verdict_def andthen_def give_def lifting_def split: sum.split list.split)
qed (simp add: rollup_verdict_def give_def)

lemma rollup_verdict_read:
  assumes "rollup_verdict w n i s = (s', r)" and "at_read I n i s"
  shows "at_read I n i s'"
proof -
  have "keeps_sound I (rollup_verdict w n i)" by (rule keeps_rollup)
  then have "sound I s'" using assms keepsD unfolding at_read_def by blast
  moreover have "sv_trace s' = sv_trace s" using rollup_verdict_trace assms(1) by (metis fst_conv)
  ultimately show ?thesis using assms(2) by (simp add: at_read_def)
qed

lemma kept_claimed_body:
  assumes env: "intents_ok I" "polite I w" and n: "n \<in> I"
    and v: "issue_authority_version i = Inr version" and p: "\<not> project_conflict n i"
  shows "kept I (at_read I n i) (claimed_body sv w n tid previous i version)"
proof (cases "observed_verdict n previous i version")
  case (Some x)
  then show ?thesis by (auto simp: claimed_body_def at_read_def intro!: kept_keeps keeps_conclude env)
next
  case ob: None
  have conclude: "kept I (at_read I n i) (conclude w tid n x (Some i))" for x
    by (rule kept_keeps[OF keeps_conclude[OF env]]) (simp add: at_read_def)
  have act: "kept I (at_read I n i) (andthen (append_call w tid Tp_APPLYING (PStr (tn_reason_code n)) None) (\<lambda>_.
           if tn_requested_status n \<in> set TERMINAL_TARGETS then stage_terminal sv w tid n i else write_status sv w tid n i))"
    if a: "authority_verdict n i = Inr None"
  proof (rule kept_after_start[OF env])
    show "kept I (\<lambda>s. at_read I n i s \<and> applying s)
      (if tn_requested_status n \<in> set TERMINAL_TARGETS then stage_terminal sv w tid n i else write_status sv w tid n i)"
    proof (cases "tn_requested_status n \<in> set TERMINAL_TARGETS")
      case True
      then show ?thesis by (auto simp: at_read_def intro!: kept_keeps keeps_stage_terminal env)
    next
      case False
      then have "ordinary_edge n" "expected_issue n i" using no_objection_ordinary[OF ob v p a] by auto
      then show ?thesis using False n by (auto intro!: kept_write_status env simp: lane_ok_def)
    qed
  qed
  have authority: "kept I (at_read I n i) (andthen (lifting Svc_py (authority_verdict n i)) (\<lambda>a. case a of
         Some x \<Rightarrow> conclude w tid n x (Some i)
       | None \<Rightarrow> andthen (append_call w tid Tp_APPLYING (PStr (tn_reason_code n)) None) (\<lambda>_.
           if tn_requested_status n \<in> set TERMINAL_TARGETS then stage_terminal sv w tid n i
           else write_status sv w tid n i)))"
  proof (cases "authority_verdict n i")
    case (Inl e)
    then show ?thesis by (auto simp: kept_def andthen_def lifting_def at_read_def)
  next
    case (Inr x)
    then show ?thesis using act conclude by (cases x) (simp_all add: kept_def andthen_def lifting_def)
  qed
  show ?thesis
    unfolding claimed_body_def ob option.case
  proof (rule kept_andthen[where R = "\<lambda>_. at_read I n i"])
    show "kept I (at_read I n i) (rollup_verdict w n i)"
      by (rule kept_keeps[OF keeps_rollup]) (simp add: at_read_def)
  qed (use rollup_verdict_read in blast, intro kept_cases conclude authority)
qed

section \<open>Whole calls\<close>

lemma keeps_with_issue:
  assumes env: "intents_ok I" "polite I w"
    and body: "\<And>i version. issue_authority_version i = Inr version \<Longrightarrow> \<not> project_conflict n i
      \<Longrightarrow> kept I (at_read I n i) (body i version)"
  shows "keeps_sound I (with_issue sv w tid n body)"
  unfolding with_issue_def
proof (rule keeps_kept, rule kept_andthen[where R = "\<lambda>r s. sound I s
    \<and> (\<forall>i. r = Inr (Some i) \<longrightarrow> at_read I n i s)"])
  show "kept I (sound I) (try_fetch sv w (tn_task_id n))" by (rule kept_keeps[OF keeps_try_fetch]) simp
next
  fix s s' r assume "try_fetch sv w (tn_task_id n) s = (s', Inr r)" "sound I s'"
  then show "sound I s' \<and> (\<forall>i. r = Inr (Some i) \<longrightarrow> at_read I n i s')"
    using try_fetch_returns unfolding at_read_def by blast
next
  fix r :: "string + tracked_issue option"
  have conclude: "kept I P (conclude w tid n v x)" if "\<And>s. P s \<Longrightarrow> sound I s" for P v x
    using that by (rule kept_keeps[OF keeps_conclude[OF env]])
  show "kept I (\<lambda>s. sound I s \<and> (\<forall>i. r = Inr (Some i) \<longrightarrow> at_read I n i s)) (case r of
       Inl name \<Rightarrow> conclude w tid n (retry_with ''transition.tracker_read_failed'' ''error_type'' (PStr name)) None
     | Inr None \<Rightarrow> conclude w tid n (reject ''transition.task_missing'') None
     | Inr (Some i) \<Rightarrow>
         if project_conflict n i then conclude w tid n (reject ''transition.project_mismatch'') (Some i)
         else andthen (lifting Svc_py (issue_authority_version i)) (\<lambda>version. body i version))"
  proof (cases r)
    case (Inl name)
    then show ?thesis using conclude by simp
  next
    case (Inr x)
    show ?thesis
    proof (cases x)
      case None
      then show ?thesis using Inr by (auto intro: conclude)
    next
      case (Some i)
      show ?thesis
      proof (cases "project_conflict n i")
        case True
        then show ?thesis using Inr Some by (auto intro: conclude)
      next
        case False
        show ?thesis
        proof (cases "issue_authority_version i")
          case (Inl e)
          then show ?thesis using Inr Some False by (auto simp: kept_def andthen_def lifting_def)
        next
          case v: (Inr version)
          then show ?thesis using body[OF v False] Inr Some False
            by (auto simp: kept_def andthen_def lifting_def)
        qed
      qed
    qed
  qed
qed

lemma keeps_execute_claimed:
  assumes "intents_ok I" and "polite I w" and "n \<in> I"
  shows "keeps_sound I (execute_claimed sv w retain n tid claim previous)"
  unfolding execute_claimed_def
  by (intro keeps_rules keeps_outcome keeps_with_issue kept_claimed_body keeps_finish_claim assms)

lemma kept_recovery_body:
  assumes env: "intents_ok I" "polite I w" and n: "n \<in> I" "authorized_recovery_intent n"
    and v: "issue_authority_version i = Inr version" and p: "\<not> project_conflict n i"
  shows "kept I (at_read I n i) (recovery_body sv w n tid i version)"
proof (cases "recovery_verdict n i version")
  case (Some x)
  then show ?thesis by (auto simp: recovery_body_def at_read_def intro!: kept_keeps keeps_conclude env)
next
  case None
  then have i: "expected_issue n i" using v p by (auto simp: recovery_verdict_def expected_issue_def split: if_splits)
  have update: "kept I (\<lambda>s. at_read I n i s \<and> applying s) (update_call w (tn_task_id n) (tn_requested_status n))"
    by (rule kept_status_write) (use n i in auto)
  show ?thesis
    unfolding recovery_body_def None option.case attempting_def
    by (intro kept_after_start kept_then_keeps kept_recovering update env keeps_rules keeps_recover_write
        keeps_verify_write)
qed

lemma keeps_recover_claimed:
  assumes "intents_ok I" and "polite I w" and "n \<in> I" and "authorized_recovery_intent n"
  shows "keeps_sound I (recover_claimed sv w retain n tid claim)"
  unfolding recover_claimed_def
  by (intro keeps_rules keeps_outcome keeps_with_issue kept_recovery_body keeps_finish_claim assms)

lemma keeps_execute_recovery:
  "intents_ok I \<Longrightarrow> polite I w \<Longrightarrow> n \<in> I \<Longrightarrow> keeps_sound I (execute_recovery_claimed sv w n tid claim previous)"
  unfolding execute_recovery_claimed_def using keeps_recover_claimed keeps_execute_claimed by auto

lemma acquire_recovers_submitted:
  assumes I: "intents_ok I" and ok: "journal_ok I j"
    and call: "acquire_claim number i tid previous token now ttl stamp j = Inr (j', b)"
    and r: "bg_recovery b = Some (oid, owner, phase)"
  shows "owner \<in> I"
proof (cases "claim_of (tn_project_id i) (tn_task_id i) j")
  case None
  then show ?thesis using call r by (auto simp: acquire_claim_def ebind_eq_Inr_iff Let_def begin_answer_def)
next
  case (Some active)
  obtain own e where o: "expired_owner i active j = Inr (own, e)" "own \<in> I" using expired_owner_total[OF I ok Some] by blast
  have "owner = own" if b: "begin_recovery number i tid token active own p now ttl stamp j = Inr (j', b)" for p
    by (rule begin_recoveryE[OF b]) (use r in \<open>simp add: begin_answer_def\<close>)
  then show ?thesis using call Some o r
    by (auto simp: acquire_claim_def ebind_eq_Inr_iff Let_def begin_answer_def split: if_splits)
qed

lemma begin_recovers_submitted:
  assumes I: "intents_ok I" and ok: "journal_ok I j" and i: "i \<in> I"
    and call: "begin_transition number i ttl fresh token now stamp j = Inr (j', b)"
    and r: "bg_recovery b = Some (oid, owner, phase)"
  shows "owner \<in> I"
proof (cases "request_by_key (tn_project_id i) (tn_idempotency_key i) j")
  case None
  then obtain k where k: "insert_request fresh i stamp j = Inr k"
    "acquire_claim number i fresh None token now ttl stamp k = Inr (j', b)"
    using call by (auto simp: begin_transition_def ebind_eq_Inr_iff split: if_splits)
  then have "journal_ok I k" using insert_request_ok[OF ok i None] by blast
  then show ?thesis using acquire_recovers_submitted[OF I _ k(2) r] by blast
next
  case (Some row)
  then show ?thesis using call r acquire_recovers_submitted[OF I ok]
    by (auto simp: begin_transition_def ebind_eq_Inr_iff Let_def begin_answer_def split: if_splits option.splits)
qed

lemma begin_call_recovers:
  assumes "intents_ok I" and w: "polite I w" and "n \<in> I" and s: "sound I s"
    and call: "begin_call sv w n s = (s', Inr b)" and r: "bg_recovery b = Some (oid, owner, phase)"
  shows "owner \<in> I"
proof -
  let ?j = "sw_others w (sv_tick s) (sv_journal s)"
  have "(journal_step I)\<^sup>*\<^sup>* (sv_journal s) ?j" using w by (simp add: polite_def)
  then have j: "journal_ok I ?j" using journal_run_extends[OF assms(1)] s by (simp add: sound_def)
  obtain j' where "begin_transition (sw_number w) n (ts_claim_ttl sv) (sw_fresh w (sv_tick s)) (sw_token w (sv_tick s))
      (sw_clock w (sv_tick s)) (sw_stamp w (sv_tick s)) ?j = Inr (j', b)"
    using call by (auto simp: begin_call_def journal_call_def Let_def split: sum.splits)
  then show ?thesis using begin_recovers_submitted[OF assms(1) j assms(3) _ r] by blast
qed

lemma keeps_run_admitted:
  assumes env: "intents_ok I" "polite I w" and n: "n \<in> I" and run: "\<And>tid claim prev. keeps_sound I (run tid claim prev)"
  shows "keeps_sound I (run_admitted sv w n run)"
  unfolding run_admitted_def
proof (rule keeps_kept, rule kept_andthen[where R = "\<lambda>b s. sound I s
    \<and> (\<forall>oid owner phase. bg_recovery b = Some (oid, owner, phase) \<longrightarrow> owner \<in> I)"])
  show "kept I (sound I) (begin_call sv w n)" by (rule kept_keeps[OF keeps_begin_call[OF env n]])
next
  fix s s' b assume "sound I s" "begin_call sv w n s = (s', Inr b)" "sound I s'"
  then show "sound I s' \<and> (\<forall>oid owner phase. bg_recovery b = Some (oid, owner, phase) \<longrightarrow> owner \<in> I)"
    using begin_call_recovers[OF env n] by blast
next
  fix b
  have answer: "keeps_sound I (answer_begin run c)" for c
    unfolding answer_begin_def by (intro keeps_rules run)
  have recover: "keeps_sound I (andthen (lifting Svc_py (required_text (PStr oid))) (\<lambda>oid.
         andthen (execute_recovery_claimed sv w owner oid (bg_claim_token b) (Some phase)) (\<lambda>recovery.
         if truthy (to_retryable recovery) then recovery_pending w n b recovery
         else andthen (begin_call sv w n) (answer_begin run))))" if "owner \<in> I" for oid owner phase
    by (intro keeps_rules keeps_execute_recovery keeps_pending keeps_begin_call answer env n that)
  show "kept I (\<lambda>s. sound I s \<and> (\<forall>oid owner phase. bg_recovery b = Some (oid, owner, phase) \<longrightarrow> owner \<in> I))
    (case bg_recovery b of None \<Rightarrow> answer_begin run b
     | Some (owner_id, owner, phase) \<Rightarrow>
         andthen (lifting Svc_py (required_text (PStr owner_id))) (\<lambda>oid.
         andthen (execute_recovery_claimed sv w owner oid (bg_claim_token b) (Some phase)) (\<lambda>recovery.
         if truthy (to_retryable recovery) then recovery_pending w n b recovery
         else andthen (begin_call sv w n) (answer_begin run))))"
  proof (cases "bg_recovery b")
    case None
    then show ?thesis using answer by (auto intro: kept_keeps)
  next
    case (Some p)
    obtain oid owner phase where p: "p = (oid, owner, phase)" by (cases p) auto
    show ?thesis
    proof (cases "owner \<in> I")
      case True
      then show ?thesis using recover Some p by (auto intro: kept_keeps)
    next
      case False
      then show ?thesis using Some p by (simp add: kept_def)
    qed
  qed
qed

lemma keeps_execute: "intents_ok I \<Longrightarrow> polite I w \<Longrightarrow> n \<in> I \<Longrightarrow> keeps_sound I (execute sv w n)"
  unfolding execute_def by (intro keeps_rules keeps_run_admitted keeps_execute_claimed)

lemma keeps_recover_authorized: "intents_ok I \<Longrightarrow> polite I w \<Longrightarrow> n \<in> I \<Longrightarrow> keeps_sound I (recover_authorized sv w n)"
  by (cases "authorized_recovery_intent n")
    (auto simp: recover_authorized_def intro!: keeps_rules keeps_run_admitted keeps_recover_claimed)

end
