(* ===== verification/ServiceOutcomes.thy ===== *)
theory ServiceOutcomes
  imports ServiceProofs
begin

text \<open>
  What the transition service answers: every outcome of a claimed run is in the journal under the phase that
  fits it, an applied status is the one the last read of the tracker showed, and the claim is given back.
\<close>

section \<open>Answers\<close>

definition fits :: "transition_disposition \<Rightarrow> transition_phase \<Rightarrow> bool \<Rightarrow> bool" where
  "fits d p retryable \<longleftrightarrow> (case d of
     Td_APPLIED \<Rightarrow> p = Tp_APPLIED \<and> \<not> retryable
   | Td_ALREADY_APPLIED \<Rightarrow> p = Tp_RECOVERED \<and> \<not> retryable
   | Td_RECOVERED \<Rightarrow> p = Tp_RECOVERED \<and> \<not> retryable
   | Td_STAGED \<Rightarrow> p = Tp_STAGED \<and> \<not> retryable
   | Td_REJECTED \<Rightarrow> p = Tp_REJECTED \<and> \<not> retryable
   | Td_RETRYABLE \<Rightarrow> p \<in> {Tp_RETRY_SCHEDULED, Tp_VERIFY_PENDING} \<and> retryable
   | Td_WAITING \<Rightarrow> p = Tp_WAITING \<and> retryable)"

lemma fits_final: "fits d p retryable \<Longrightarrow> p \<in> set FINAL_PHASES \<longleftrightarrow> \<not> retryable"
  by (cases d) (auto simp: fits_def FINAL_PHASES_def)

definition recorded :: "string \<Rightarrow> transition_outcome \<Rightarrow> journal \<Rightarrow> bool" where
  "recorded tid t j \<longleftrightarrow> (\<exists>e \<in> set (jn_events j). ev_transition_id e = tid
     \<and> ev_outcome e = Some (PDict (outcome_to_dict t)) \<and> fits (to_disposition t) (ev_phase e) (truthy (to_retryable t)))"

lemma recorded_extends: "recorded tid t j \<Longrightarrow> journal_extends j j' \<Longrightarrow> recorded tid t j'"
  by (auto simp: recorded_def journal_extends_def)

definition shown :: "string \<Rightarrow> transition_outcome \<Rightarrow> service_event list \<Rightarrow> bool" where
  "shown task t tr \<longleftrightarrow> to_applied_status t = PNone
     \<or> (\<exists>i. last_read tr = Some (task, Some i) \<and> to_applied_status t = PStr (status_of i))"

definition answered :: "string \<Rightarrow> string \<Rightarrow> (service_state \<Rightarrow> bool) \<Rightarrow> transition_outcome service_saga \<Rightarrow> bool"
where
  "answered task tid P m \<longleftrightarrow> (\<forall>s s' t. P s \<longrightarrow> m s = (s', Inr t)
     \<longrightarrow> recorded tid t (sv_journal s') \<and> shown task t (sv_trace s'))"

lemma answered_throw: "answered task tid P (throw e)"
  by (simp add: answered_def throw_def)

lemma answered_andthen:
  assumes "\<And>s s' x. P s \<Longrightarrow> m s = (s', Inr x) \<Longrightarrow> R x s'" and "\<And>x. answered task tid (R x) (f x)"
  shows "answered task tid P (andthen m f)"
  using assms unfolding answered_def andthen_returns by blast

lemma answered_weaken: "answered task tid (\<lambda>_. True) m \<Longrightarrow> answered task tid P m"
  by (simp add: answered_def)

lemma answered_given: "(b \<Longrightarrow> answered task tid (\<lambda>_. True) m) \<Longrightarrow> answered task tid (\<lambda>_. b) m"
  by (simp add: answered_def)

lemma answered_cases:
  "answered task tid P m \<Longrightarrow> answered task tid P m' \<Longrightarrow> answered task tid P (if b then m else m')"
  "answered task tid P m \<Longrightarrow> (\<And>y. answered task tid P (f y)) \<Longrightarrow> answered task tid P (case x of None \<Rightarrow> m | Some y \<Rightarrow> f y)"
  "(\<And>y. answered task tid P (g y)) \<Longrightarrow> (\<And>z. answered task tid P (h z))
    \<Longrightarrow> answered task tid P (case v of Inl y \<Rightarrow> g y | Inr z \<Rightarrow> h z)"
  by (cases x; cases v; simp)+

section \<open>Verdicts\<close>

definition fitting :: "verdict \<Rightarrow> bool" where
  "fitting v \<longleftrightarrow> fits (vd_disposition v) (vd_phase v) (vd_retryable v)"

lemma fitting_verdicts [simp]:
  "fitting (reject c)" "fitting (reject_with c k x)" "fitting (retry c)" "fitting (retry_with c k x)"
  "fitting (verify_pending c)" "fitting (conflict_verdict g y)" "fitting (staged_verdict r b)"
  "fitting (reached Td_APPLIED Tp_APPLIED c st)" "fitting (reached Td_RECOVERED Tp_RECOVERED c st)"
  "fitting (reached Td_ALREADY_APPLIED Tp_RECOVERED c st)"
  by (simp_all add: fitting_def fits_def reject_def reject_with_def retry_def retry_with_def verify_pending_def
      conflict_verdict_def staged_verdict_def reached_def plain_verdict_def split: prod.split)

lemma applied_verdicts [simp]:
  "vd_applied (reject c) = None" "vd_applied (reject_with c k x) = None" "vd_applied (retry c) = None"
  "vd_applied (retry_with c k x) = None" "vd_applied (verify_pending c) = None" "vd_applied (conflict_verdict g y) = None"
  "vd_applied (reached d p c st) = Some st"
  "vd_applied (staged_verdict r b) = (if sr_success r \<and> b then Some IN_VALIDATION else None)"
  by (simp_all add: reject_def reject_with_def retry_def retry_with_def verify_pending_def conflict_verdict_def
      staged_verdict_def reached_def plain_verdict_def split: prod.split)

definition seen_status :: "string \<Rightarrow> verdict \<Rightarrow> service_state \<Rightarrow> bool" where
  "seen_status task v s \<longleftrightarrow> (\<forall>st. vd_applied v = Some st
     \<longrightarrow> (\<exists>i. last_read (sv_trace s) = Some (task, Some i) \<and> status_of i = st))"

lemma append_event_row_records:
  assumes "append_event_row tid phase code (Some t) stamp j = Inr j'"
  shows "\<exists>e \<in> set (jn_events j'). ev_transition_id e = tid \<and> ev_phase e = phase
    \<and> ev_outcome e = Some (PDict (outcome_to_dict t))"
  using assms by (auto simp: append_event_row_def append_locked_def Let_def ebind_eq_Inr_iff split: option.splits)

lemma append_call_records:
  assumes "append_call w tid phase code (Some t) s = (s', Inr u)"
  shows "\<exists>e \<in> set (jn_events (sv_journal s')). ev_transition_id e = tid \<and> ev_phase e = phase
    \<and> ev_outcome e = Some (PDict (outcome_to_dict t))"
proof -
  obtain x v where call: "journal_call w (\<lambda>n j. ebind (append_event_row tid phase code (Some t) (sw_stamp w n) j)
      (\<lambda>j'. Inr (j', ()))) s = (x, Inr v)" and s': "sv_journal s' = sv_journal x"
    using assms unfolding append_call_def andthen_returns noting_def by (auto simp: doing_def give_def)
  obtain j where "append_event_row tid phase code (Some t) (sw_stamp w (sv_tick s)) j = Inr (sv_journal x)"
    using call by (auto simp: journal_call_def Let_def ebind_eq_Inr_iff tick_def split: sum.splits)
  then show ?thesis using append_event_row_records s' by simp
qed

lemma answered_conclude:
  assumes fit: "fitting v" and seen: "\<And>s. P s \<Longrightarrow> seen_status task v s"
  shows "answered task tid P (conclude w tid n v issue)"
  unfolding answered_def
proof (intro allI impI)
  fix s s' t assume P: "P s" and "conclude w tid n v issue s = (s', Inr t)"
  then obtain u where t: "outcome_of tid n v issue = Inr t"
    and a: "append_call w tid (vd_phase v) (PStr (vd_code v)) (Some t) (s\<lparr>sv_outcome := Some t\<rparr>) = (s', Inr u)"
    unfolding conclude_def andthen_returns
    by (auto simp: lifting_def doing_def give_def split: sum.splits)
  have f: "to_disposition t = vd_disposition v" "truthy (to_retryable t) = vd_retryable v"
    "to_applied_status t = opt_str (vd_applied v)"
    using t by (auto simp: outcome_of_def ebind_eq_Inr_iff)
  have "recorded tid t (sv_journal s')" using append_call_records[OF a] fit f by (auto simp: recorded_def fitting_def)
  moreover have "last_read (sv_trace s') = last_read (sv_trace s)"
    using append_call_returns[OF a] by (simp add: last_read_append)
  ultimately show "recorded tid t (sv_journal s') \<and> shown task t (sv_trace s')"
    using seen[OF P] f(3) by (cases "vd_applied v") (auto simp: shown_def seen_status_def)
qed

lemma answered_plain: "fitting v \<Longrightarrow> vd_applied v = None \<Longrightarrow> answered task tid P (conclude w tid n v issue)"
  by (rule answered_conclude) (simp_all add: seen_status_def)

section \<open>Bodies\<close>

lemma latest_shows:
  assumes "try_fetch sv w task s = (s', Inr r)" and "shows_status status (latest_of r)"
  shows "\<exists>i. last_read (sv_trace s') = Some (task, Some i) \<and> status_of i = status"
proof -
  obtain i where "r = Inr (Some i)" "status_of i = status"
    using assms(2) by (auto simp: shows_status_def latest_of_def split: sum.splits option.splits)
  then show ?thesis using try_fetch_returns assms(1) by blast
qed

lemma answered_verify:
  "answered (tn_task_id n) tid P (verify_write sv w tid n issue)"
  "answered (tn_task_id n) tid P (recover_write sv w tid n issue name)"
  unfolding verify_write_def recover_write_def
  by (rule answered_andthen[where R = "\<lambda>r s. shows_status (tn_requested_status n) (latest_of r)
        \<longrightarrow> (\<exists>i. last_read (sv_trace s) = Some (tn_task_id n, Some i) \<and> status_of i = tn_requested_status n)"],
      use latest_shows in blast, auto intro!: answered_conclude simp: seen_status_def)+

lemma answered_commit_lane:
  assumes "commit_lane sv w tid n i s = (s', Inr (Some t))"
  shows "recorded tid t (sv_journal s') \<and> shown (tn_task_id n) t (sv_trace s')"
proof -
  obtain u conflict seen g where "conclude w tid n (conflict_verdict g conflict) (or_fallback seen (Some i)) u = (s', Inr t)"
    using assms(1) unfolding commit_lane_def
    by (auto simp: andthen_returns give_def split: if_splits option.splits)
  then obtain x where t: "outcome_of tid n (conflict_verdict g conflict) (or_fallback seen (Some i)) = Inr t"
    and a: "append_call w tid (vd_phase (conflict_verdict g conflict)) (PStr (vd_code (conflict_verdict g conflict))) (Some t)
      (u\<lparr>sv_outcome := Some t\<rparr>) = (s', Inr x)"
    unfolding conclude_def andthen_returns
    by (auto simp: lifting_def doing_def give_def split: sum.splits)
  have f: "to_disposition t = vd_disposition (conflict_verdict g conflict)"
    "truthy (to_retryable t) = vd_retryable (conflict_verdict g conflict)" "to_applied_status t = PNone"
    using t by (auto simp: outcome_of_def ebind_eq_Inr_iff)
  then show ?thesis using append_call_records[OF a] fitting_verdicts(6)[of g conflict]
    by (auto simp: recorded_def shown_def fitting_def)
qed

text \<open>The three bodies and the head they share.\<close>

lemma answered_stage_terminal: "answered (tn_task_id n) tid P (stage_terminal sv w tid n i)"
proof (cases "ts_terminal_adapter sv")
  case None
  then show ?thesis by (simp add: stage_terminal_def answered_plain)
next
  case (Some adapter)
  let ?seen = "\<lambda>r s. shows_status IN_VALIDATION (latest_of r)
        \<longrightarrow> (\<exists>i. last_read (sv_trace s) = Some (tn_task_id n, Some i) \<and> status_of i = IN_VALIDATION)"
  have "answered (tn_task_id n) tid P (andthen (attempting (stage_call adapter n i)) (\<lambda>staged.
       andthen (try_fetch sv w (tn_task_id n)) (\<lambda>r.
       let validating = shows_status IN_VALIDATION (latest_of r) in
       case staged of
         Inl name \<Rightarrow>
           if validating then conclude w tid n
             (reached Td_RECOVERED Tp_RECOVERED ''transition.terminal_stage_recovered'' IN_VALIDATION) (latest_of r)
           else conclude w tid n (retry_with ''transition.terminal_stage_failed'' ''error_type'' (PStr name))
             (or_fallback (latest_of r) (Some i))
       | Inr result \<Rightarrow> conclude w tid n (staged_verdict result validating) (or_fallback (latest_of r) (Some i)))))"
    unfolding Let_def
    by (rule answered_andthen[where R = "\<lambda>_ _. True"], simp,
        rule answered_andthen[where R = ?seen], use latest_shows in blast)
      (auto intro!: answered_conclude simp: seen_status_def split: sum.split)
  then show ?thesis using Some by (simp add: stage_terminal_def)
qed

lemma answered_write_status: "answered (tn_task_id n) tid P (write_status sv w tid n i)"
  unfolding write_status_def
proof (rule answered_andthen[where R = "\<lambda>r s. \<forall>t. r = Inr (Some t)
      \<longrightarrow> recorded tid t (sv_journal s) \<and> shown (tn_task_id n) t (sv_trace s)"])
  fix s s' r assume "attempting (commit_lane sv w tid n i) s = (s', Inr r)"
  then show "\<forall>t. r = Inr (Some t) \<longrightarrow> recorded tid t (sv_journal s') \<and> shown (tn_task_id n) t (sv_trace s')"
    using answered_commit_lane
    by (auto simp: attempting_def recovering_def andthen_def give_def split: prod.splits sum.splits)
next
  fix r
  show "answered (tn_task_id n) tid (\<lambda>s. \<forall>t. r = Inr (Some t)
      \<longrightarrow> recorded tid t (sv_journal s) \<and> shown (tn_task_id n) t (sv_trace s))
    (case r of Inl name \<Rightarrow> recover_write sv w tid n i name
     | Inr (Some t) \<Rightarrow> give t
     | Inr None \<Rightarrow> verify_write sv w tid n i)"
    using answered_verify
    by (cases r) (auto simp: answered_def give_def split: option.split)
qed

text \<open>The issue a body works on is the one the last read showed.\<close>

definition read_issue :: "transition_intent \<Rightarrow> tracked_issue \<Rightarrow> service_state \<Rightarrow> bool" where
  "read_issue n i s \<longleftrightarrow> last_read (sv_trace s) = Some (tn_task_id n, Some i)"

lemma answered_observed:
  assumes "observed_verdict n previous i version = Some v"
  shows "answered (tn_task_id n) tid (read_issue n i) (conclude w tid n v (Some i))"
  using assms
  by (intro answered_conclude) (auto simp: observed_verdict_def seen_status_def read_issue_def split: if_splits)

lemma answered_recovery:
  assumes "recovery_verdict n i version = Some v"
  shows "answered (tn_task_id n) tid (read_issue n i) (conclude w tid n v (Some i))"
  using assms
  by (intro answered_conclude) (auto simp: recovery_verdict_def seen_status_def read_issue_def split: if_splits)

text \<open>A verdict that only reports: it fits, and it applies nothing.\<close>

definition reports :: "verdict \<Rightarrow> bool" where
  "reports v \<longleftrightarrow> fitting v \<and> vd_applied v = None"

lemma reports_verdicts [simp]: "reports (reject c)" "reports (reject_with c k x)" "reports (retry c)" "reports (retry_with c k x)"
  by (simp_all add: reports_def)

lemma reports_head: "head_verdict n i = Some v \<Longrightarrow> reports v"
  by (auto simp: head_verdict_def split: option.splits if_splits)

lemma reports_authority: "authority_verdict n i = Inr (Some v) \<Longrightarrow> reports v"
  by (auto simp: authority_verdict_def evidence_verdict_def Let_def ebind_eq_Inr_iff dest: reports_head split: if_splits)

lemma reports_rollup:
  assumes "rollup_verdict w n i s = (s', Inr (Some v))"
  shows "reports v"
proof -
  obtain u r where r: "try_fetch_children w i s = (u, r)" by fastforce
  have "system_epic_rollup n" using assms by (auto simp: rollup_verdict_def give_def split: if_splits)
  then show ?thesis
    using assms r by (cases r)
      (auto simp: rollup_verdict_def andthen_def lifting_def give_def split: if_splits sum.splits list.splits)
qed

lemma answered_reports: "reports v \<Longrightarrow> answered task tid P (conclude w tid n v issue)"
  by (simp add: reports_def answered_plain)

lemma answered_claimed_body: "answered (tn_task_id n) tid (read_issue n i) (claimed_body sv w n tid previous i version)"
proof (cases "observed_verdict n previous i version")
  case (Some v)
  then show ?thesis by (simp add: claimed_body_def answered_observed)
next
  case None
  have act: "answered (tn_task_id n) tid P (andthen (append_call w tid Tp_APPLYING (PStr (tn_reason_code n)) None) (\<lambda>_.
           if tn_requested_status n \<in> set TERMINAL_TARGETS then stage_terminal sv w tid n i else write_status sv w tid n i))" for P
    by (intro answered_andthen[where R = "\<lambda>_ _. True"] answered_cases answered_stage_terminal answered_write_status) simp
  have authority: "answered (tn_task_id n) tid P (andthen (lifting Svc_py (authority_verdict n i)) (\<lambda>a. case a of
         Some v \<Rightarrow> conclude w tid n v (Some i)
       | None \<Rightarrow> andthen (append_call w tid Tp_APPLYING (PStr (tn_reason_code n)) None) (\<lambda>_.
           if tn_requested_status n \<in> set TERMINAL_TARGETS then stage_terminal sv w tid n i
           else write_status sv w tid n i)))" for P
  proof (rule answered_andthen[where R = "\<lambda>a _. authority_verdict n i = Inr a"])
    fix s s' a assume "lifting Svc_py (authority_verdict n i) s = (s', Inr a)"
    then show "authority_verdict n i = Inr a" by (auto simp: lifting_def split: sum.splits)
  next
    fix a
    show "answered (tn_task_id n) tid (\<lambda>_. authority_verdict n i = Inr a) (case a of
         Some v \<Rightarrow> conclude w tid n v (Some i)
       | None \<Rightarrow> andthen (append_call w tid Tp_APPLYING (PStr (tn_reason_code n)) None) (\<lambda>_.
           if tn_requested_status n \<in> set TERMINAL_TARGETS then stage_terminal sv w tid n i
           else write_status sv w tid n i))"
      by (rule answered_given) (use act in \<open>auto intro!: answered_reports reports_authority split: option.split\<close>)
  qed
  have roll: "answered (tn_task_id n) tid (\<lambda>_. \<forall>v. r = Some v \<longrightarrow> reports v) (case r of
       Some v \<Rightarrow> conclude w tid n v (Some i)
     | None \<Rightarrow> andthen (lifting Svc_py (authority_verdict n i)) (\<lambda>a. case a of
         Some v \<Rightarrow> conclude w tid n v (Some i)
       | None \<Rightarrow> andthen (append_call w tid Tp_APPLYING (PStr (tn_reason_code n)) None) (\<lambda>_.
           if tn_requested_status n \<in> set TERMINAL_TARGETS then stage_terminal sv w tid n i
           else write_status sv w tid n i)))" for r
    by (rule answered_given) (use authority in \<open>auto intro: answered_reports split: option.split\<close>)
  show ?thesis
    unfolding claimed_body_def None option.case
    by (rule answered_andthen[OF _ roll]) (use reports_rollup in blast)
qed

lemma answered_recovery_body: "answered (tn_task_id n) tid (read_issue n i) (recovery_body sv w n tid i version)"
proof (cases "recovery_verdict n i version")
  case (Some v)
  then show ?thesis by (simp add: recovery_body_def answered_recovery)
next
  case None
  then show ?thesis unfolding recovery_body_def None option.case
    by (intro answered_andthen[where R = "\<lambda>_ _. True"] answered_cases answered_verify) simp_all
qed

lemma answered_with_issue:
  assumes body: "\<And>i version. answered (tn_task_id n) tid (read_issue n i) (body i version)"
  shows "answered (tn_task_id n) tid P (with_issue sv w tid n body)"
  unfolding with_issue_def
proof (rule answered_andthen[where R = "\<lambda>r s. \<forall>i. r = Inr (Some i) \<longrightarrow> read_issue n i s"])
  fix s s' r assume "try_fetch sv w (tn_task_id n) s = (s', Inr r)"
  then show "\<forall>i. r = Inr (Some i) \<longrightarrow> read_issue n i s'" using try_fetch_returns by (auto simp: read_issue_def)
next
  fix r :: "string + tracked_issue option"
  have run: "answered (tn_task_id n) tid (read_issue n i) (andthen (lifting Svc_py (issue_authority_version i)) (body i))" for i
    by (rule answered_andthen[OF _ body]) (simp add: lifting_def read_issue_def split: sum.splits)
  show "answered (tn_task_id n) tid (\<lambda>s. \<forall>i. r = Inr (Some i) \<longrightarrow> read_issue n i s) (case r of
       Inl name \<Rightarrow> conclude w tid n (retry_with ''transition.tracker_read_failed'' ''error_type'' (PStr name)) None
     | Inr None \<Rightarrow> conclude w tid n (reject ''transition.task_missing'') None
     | Inr (Some i) \<Rightarrow>
         if project_conflict n i then conclude w tid n (reject ''transition.project_mismatch'') (Some i)
         else andthen (lifting Svc_py (issue_authority_version i)) (\<lambda>version. body i version))"
    using run by (auto simp: answered_reports split: sum.split option.split)
qed

section \<open>Giving the claim back\<close>

text \<open>A run ends without its claim, or, when a recovery must be retried, with the claim already expired.\<close>

definition given_back :: "service_world \<Rightarrow> bool \<Rightarrow> transition_intent \<Rightarrow> string \<Rightarrow> service_state \<Rightarrow> bool" where
  "given_back w retain n token s \<longleftrightarrow> (\<forall>c \<in> set (jn_claims (sv_journal s)). holds_claim (tn_project_id n) (tn_task_id n) token c
     \<longrightarrow> retain \<and> (\<exists>t. sv_outcome s = Some t \<and> truthy (to_retryable t))
       \<and> (\<exists>k < sv_tick s. cl_lease_expires_at c = sw_clock w k))"

definition retaining :: "bool \<Rightarrow> service_state \<Rightarrow> bool" where
  "retaining retain s \<longleftrightarrow> retain \<and> (case sv_outcome s of None \<Rightarrow> False | Some t \<Rightarrow> truthy (to_retryable t))"

lemma finish_claim_run:
  "fst (finish_claim w retain n token s) = tick (s\<lparr>sv_journal := (let j = sw_others w (sv_tick s) (sv_journal s) in
     if retaining retain s then fst (expire_for_retry (tn_project_id n) (tn_task_id n) token (sw_clock w (sv_tick s)) j)
     else fst (release_claim (tn_project_id n) (tn_task_id n) token j))\<rparr>)"
  unfolding finish_claim_def andthen_def reading_def prod.case sum.case retaining_def[symmetric]
  by (cases "retaining retain s") (simp_all add: journal_call_def Let_def give_def throw_def case_prod_beta)

lemma finish_claim_given_back: "given_back w retain n token (fst (finish_claim w retain n token s))"
proof (cases "retaining retain s")
  case True
  then have r: "retain" "\<exists>t. sv_outcome s = Some t \<and> truthy (to_retryable t)"
    by (auto simp: retaining_def split: option.splits)
  let ?s = "fst (finish_claim w retain n token s)"
  let ?js = "jn_claims (sw_others w (sv_tick s) (sv_journal s))"
  have run: "jn_claims (sv_journal ?s) = map (\<lambda>c. if holds_claim (tn_project_id n) (tn_task_id n) token c
      then c\<lparr>cl_lease_expires_at := sw_clock w (sv_tick s)\<rparr> else c) ?js"
    "sv_outcome ?s = sv_outcome s" "sv_tick ?s = Suc (sv_tick s)"
    using True by (simp_all add: finish_claim_run Let_def expire_for_retry_def tick_def)
  have "\<exists>k < Suc (sv_tick s). cl_lease_expires_at c = sw_clock w k"
    if "c \<in> set (jn_claims (sv_journal ?s))" "holds_claim (tn_project_id n) (tn_task_id n) token c" for c
  proof -
    have "cl_lease_expires_at c = sw_clock w (sv_tick s)" using that unfolding run(1) by (auto split: if_splits)
    then show ?thesis by blast
  qed
  then show ?thesis using r run(2,3) unfolding given_back_def by simp
next
  case False
  then have "jn_claims (sv_journal (fst (finish_claim w retain n token s)))
      = filter (\<lambda>c. \<not> holds_claim (tn_project_id n) (tn_task_id n) token c) (jn_claims (sw_others w (sv_tick s) (sv_journal s)))"
    by (simp add: finish_claim_run Let_def release_claim_def)
  then show ?thesis unfolding given_back_def by simp
qed

lemma finish_claim_trace: "finish_claim w retain n token s = (s', r) \<Longrightarrow> sv_trace s' = sv_trace s"
  using finish_claim_run[of w retain n token s] by simp

lemma finish_claim_extends:
  assumes I: "intents_ok I" and w: "polite I w" and s: "sound I s" and call: "finish_claim w retain n token s = (s', r)"
  shows "journal_extends (sv_journal s) (sv_journal s')"
proof -
  let ?j = "sw_others w (sv_tick s) (sv_journal s)"
  have "(journal_step I)\<^sup>*\<^sup>* (sv_journal s) ?j" using w by (simp add: polite_def)
  then have "journal_extends (sv_journal s) ?j" using journal_run_extends[OF I] s by (simp add: sound_def)
  moreover have "jn_requests (sv_journal s') = jn_requests ?j" "jn_events (sv_journal s') = jn_events ?j"
    using finish_claim_run[of w retain n token s] call by (simp_all add: Let_def expire_for_retry_def release_claim_def)
  ultimately show ?thesis by (simp add: journal_extends_def)
qed

lemma finishing_given_back:
  "given_back w retain n token (fst (finishing m (\<lambda>_. finish_claim w retain n token) s))"
proof -
  obtain u r where m: "m s = (u, r)" by fastforce
  obtain v q where f: "finish_claim w retain n token u = (v, q)" by fastforce
  have "given_back w retain n token v" using finish_claim_given_back f by (metis fst_conv)
  then show ?thesis using m f by (cases q) (simp_all add: finishing_def)
qed

lemma finishing_answers:
  assumes I: "intents_ok I" and w: "polite I w" and m: "keeps_sound I m" and a: "answered (tn_task_id n) tid (\<lambda>_. True) m"
    and s: "sound I s" and call: "finishing m (\<lambda>_. finish_claim w retain n token) s = (s', Inr t)"
  shows "recorded tid t (sv_journal s') \<and> shown (tn_task_id n) t (sv_trace s')"
proof -
  obtain u r where r: "m s = (u, r)" by fastforce
  obtain v q where f: "finish_claim w retain n token u = (v, q)" by fastforce
  have "r = Inr t" "s' = v" using call r f by (auto simp: finishing_def split: sum.splits)
  moreover have "sound I u" using keepsD[OF m s r] .
  ultimately show ?thesis
    using a r f finish_claim_trace[OF f] finish_claim_extends[OF I w _ f] recorded_extends unfolding answered_def by metis
qed

lemma keeps_execute_body:
  assumes "intents_ok I" and "polite I w" and "n \<in> I"
  shows "keeps_sound I (with_issue sv w tid n (claimed_body sv w n tid previous))"
  by (intro keeps_with_issue kept_claimed_body assms)

lemma keeps_recover_body:
  assumes "intents_ok I" and "polite I w" and "n \<in> I" and "authorized_recovery_intent n"
  shows "keeps_sound I (with_issue sv w tid n (recovery_body sv w n tid))"
  by (intro keeps_with_issue kept_recovery_body assms)

end
