(* ===== verification/QuietRuns.thy ===== *)
theory QuietRuns
  imports ServiceOutcomes
begin

text \<open>
  Runs of the transition service while nobody else uses the journal: the calls as equations on the state, and
  what a transition leaves behind when the tracker answers.
\<close>

section \<open>Calls as equations\<close>

definition undisturbed :: "service_world \<Rightarrow> bool" where
  "undisturbed w \<longleftrightarrow> (\<forall>t j. sw_others w t j = j)"

definition fresh_state :: "journal \<Rightarrow> service_state" where
  "fresh_state j = \<lparr>sv_journal = j, sv_tick = 0, sv_outcome = None, sv_trace = []\<rparr>"

lemma fresh_state_sound: "journal_ok I j \<Longrightarrow> sound I (fresh_state j)"
  by (simp add: sound_def fresh_state_def)

lemma quiet_append:
  assumes "undisturbed w" and "request_of tid (sv_journal s) = Some r" and "stripped_text code"
  shows "append_call w tid ph (PStr code) out s =
    (s\<lparr>sv_journal := append_locked tid (rq_project_id r) (rq_task_id r) ph code out (sw_stamp w (sv_tick s)) (sv_journal s),
       sv_tick := Suc (sv_tick s), sv_trace := sv_trace s @ [Logged tid ph]\<rparr>, Inr ())"
  using assms by (simp add: append_call_def andthen_def journal_call_def Let_def undisturbed_def append_event_row_def
      required_plain noting_def doing_def give_def tick_def)

lemma quiet_read:
  assumes "sw_detail w (sv_tick s) task = Detail_issue i" and "adopt_project sv i = i"
  shows "try_fetch sv w task s =
    (s\<lparr>sv_tick := Suc (sv_tick s), sv_trace := sv_trace s @ [Fetched task (Some i)]\<rparr>, Inr (Inr (Some i)))"
  using assms by (simp add: try_fetch_def recovering_def fetch_def andthen_def detail_call_def noting_def doing_def
      give_def tick_def Let_def)

lemma quiet_conclude:
  assumes "undisturbed w" and "request_of tid (sv_journal s) = Some r" and "stripped_text (vd_code v)"
    and "outcome_of tid n v issue = Inr t"
  shows "conclude w tid n v issue s =
    (s\<lparr>sv_journal := append_locked tid (rq_project_id r) (rq_task_id r) (vd_phase v) (vd_code v) (Some t)
         (sw_stamp w (sv_tick s)) (sv_journal s),
       sv_tick := Suc (sv_tick s), sv_outcome := Some t, sv_trace := sv_trace s @ [Logged tid (vd_phase v)]\<rparr>, Inr t)"
  using assms quiet_append[of w tid "s\<lparr>sv_outcome := Some t\<rparr>"]
  by (simp add: conclude_def andthen_def lifting_def doing_def give_def)

lemma quiet_update:
  assumes "sw_update w (sv_tick s) task status = None"
  shows "update_call w task status s =
    (s\<lparr>sv_tick := Suc (sv_tick s), sv_trace := sv_trace s @ [Wrote task status]\<rparr>, Inr ())"
  using assms by (simp add: update_call_def noting_def andthen_def doing_def tick_def)

lemma quiet_release:
  assumes "undisturbed w" and "\<not> retaining retain s"
  shows "finish_claim w retain n token s =
    (s\<lparr>sv_journal := fst (release_claim (tn_project_id n) (tn_task_id n) token (sv_journal s)),
       sv_tick := Suc (sv_tick s)\<rparr>, Inr ())"
  using assms unfolding finish_claim_def andthen_def reading_def prod.case sum.case retaining_def[symmetric]
  by (simp add: journal_call_def Let_def undisturbed_def tick_def give_def case_prod_beta)

lemma request_of_append [simp]: "request_of tid (append_locked t p k ph c out st j) = request_of tid j"
  by (simp add: request_of_def)

lemma claim_of_append [simp]: "claim_of project task (append_locked t p k ph c out st j) = claim_of project task j"
  by (simp add: claim_of_def)

definition new_request :: "string \<Rightarrow> transition_intent \<Rightarrow> string \<Rightarrow> request_row" where
  "new_request tid n stamp = \<lparr>rq_transition_id = tid, rq_project_id = tn_project_id n, rq_task_id = tn_task_id n,
     rq_idempotency_key = tn_idempotency_key n, rq_intent_revision = intent_revision n,
     rq_intent = PDict (intent_to_dict n), rq_created_at = stamp\<rparr>"

definition new_claim :: "string \<Rightarrow> transition_intent \<Rightarrow> string \<Rightarrow> real \<Rightarrow> real \<Rightarrow> task_claim" where
  "new_claim tid n token now ttl = \<lparr>cl_project_id = tn_project_id n, cl_task_id = tn_task_id n,
     cl_transition_id = tid, cl_claim_token = token, cl_claimed_at = now, cl_lease_expires_at = now + ttl\<rparr>"

lemma begin_fresh:
  assumes "request_by_key (tn_project_id n) (tn_idempotency_key n) j = None" and "request_of fresh j = None"
    and "claim_of (tn_project_id n) (tn_task_id n) j = None" and "0 < ttl"
  shows "begin_transition number n ttl fresh token now stamp j = Inr
      ((append_locked fresh (tn_project_id n) (tn_task_id n) Tp_REQUESTED (tn_reason_code n) None stamp
         (j\<lparr>jn_requests := jn_requests j @ [new_request fresh n stamp]\<rparr>))
           \<lparr>jn_claims := jn_claims j @ [new_claim fresh n token now ttl]\<rparr>,
       (begin_answer fresh)\<lparr>bg_claim_token := Some token\<rparr>)"
  using assms
  by (simp add: begin_transition_def insert_request_def acquire_claim_def insert_claim_def Let_def
      claim_of_def begin_answer_def new_request_def new_claim_def)

lemma find_append_None: "find p xs = None \<Longrightarrow> find p (xs @ ys) = find p ys"
  by (induction xs) (auto split: if_splits)

lemma unregistered_events: "journal_ok I j \<Longrightarrow> request_of tid j = None \<Longrightarrow> events_of tid j = []"
  by (force simp: events_of_def filter_empty_conv journal_ok_def event_ok_def registered_def dest!: request_of_NoneD)

section \<open>Ordinary transitions\<close>

text \<open>An ordinary transition none of whose checks objects, outside the two lanes that commit under a lock.\<close>

definition unguarded :: "transition_intent \<Rightarrow> tracked_issue \<Rightarrow> bool" where
  "unguarded n i \<longleftrightarrow> ordinary_edge n \<and> expected_issue n i \<and> tn_requested_status n \<noteq> tn_expected_status n
     \<and> \<not> is_direct_owner_claim n \<and> \<not> is_validation_submission n \<and> \<not> system_epic_rollup n
     \<and> \<not> generation_mismatch n i \<and> head_verdict n i = None"

lemma unguarded_passes:
  assumes "unguarded n i"
  shows "observed_verdict n previous i (tn_expected_version n) = None" "rollup_verdict w n i = give None"
    "authority_verdict n i = Inr None" "tn_requested_status n \<notin> set TERMINAL_TARGETS"
    "issue_authority_version i = Inr (tn_expected_version n)" "\<not> project_conflict n i"
proof -
  have o: "ordinary_edge n" "status_of i = tn_expected_status n" "issue_authority_version i = Inr (tn_expected_version n)"
    "\<not> project_conflict n i" "\<not> system_epic_rollup n" "tn_requested_status n \<noteq> tn_expected_status n"
    using assms by (auto simp: unguarded_def expected_issue_def)
  have t: "tn_requested_status n \<notin> set TERMINAL_TARGETS" using o(1) by (simp add: ordinary_edge_def)
  then show "tn_requested_status n \<notin> set TERMINAL_TARGETS" "issue_authority_version i = Inr (tn_expected_version n)"
    "\<not> project_conflict n i" "rollup_verdict w n i = give None" using o by (simp_all add: rollup_verdict_def)
  have "tn_reason_code n = ''rollup.epic_children_reconciled'' \<Longrightarrow> tn_authority n = Auth_SYSTEM"
    using o(1) by (simp add: ordinary_edge_def)
  then show "observed_verdict n previous i (tn_expected_version n) = None"
    using o t by (auto simp: observed_verdict_def ordinary_edge_def)
  have "tn_requested_status n \<noteq> DONE" using t by (auto simp: TERMINAL_TARGETS_def)
  moreover have "evidence_verdict n i = None"
    using assms o by (auto simp: evidence_verdict_def Let_def unguarded_def ordinary_edge_def)
  ultimately show "authority_verdict n i = Inr None" by (simp add: authority_verdict_def)
qed

definition phases :: "string \<Rightarrow> journal \<Rightarrow> transition_phase list" where
  "phases tid j = map ev_phase (events_of tid j)"

lemma phases_append [simp]:
  "phases tid (append_locked t p k ph c out st j) = (if tid = t then phases tid j @ [ph] else phases tid j)"
  by (simp add: phases_def events_of_def append_locked_def Let_def)

lemma phases_tables [simp]: "phases tid (j\<lparr>jn_claims := cs\<rparr>) = phases tid j" "phases tid (j\<lparr>jn_requests := rs\<rparr>) = phases tid j"
  by (simp_all add: phases_def events_of_def)

lemma release_claim_tables [simp]:
  "phases tid (fst (release_claim p k token j)) = phases tid j"
  "jn_claims (fst (release_claim p k token j)) = filter (\<lambda>c. \<not> holds_claim p k token c) (jn_claims j)"
  by (simp_all add: release_claim_def)

lemma quiet_codes [simp]: "stripped_text ''transition.applied''" "stripped_text ''transition.already_applied''"
  by (simp_all add: stripped_text_def py_strip_def is_space_def)

definition applied_outcome :: "string \<Rightarrow> transition_intent \<Rightarrow> tracked_issue \<Rightarrow> transition_outcome \<Rightarrow> bool" where
  "applied_outcome tid n i t \<longleftrightarrow> to_transition_id t = PStr tid \<and> to_disposition t = Td_APPLIED
     \<and> to_applied_status t = PStr (tn_requested_status n) \<and> to_observed_status t = PStr (status_of i)
     \<and> to_retryable t = PBool False"

lemma quiet_claimed:
  assumes w: "undisturbed w" and row: "request_of tid (sv_journal s) = Some r" and code: "stripped_text (tn_reason_code n)"
    and n: "unguarded n i" and own: "adopt_project sv i = i" "adopt_project sv i' = i'"
    and before: "sw_detail w (sv_tick s) (tn_task_id n) = Detail_issue i"
    and accepted: "sw_update w (sv_tick s + 2) (tn_task_id n) (tn_requested_status n) = None"
    and after: "sw_detail w (sv_tick s + 3) (tn_task_id n) = Detail_issue i'"
    and i': "status_of i' = tn_requested_status n" "issue_authority_version i' = Inr v'"
  shows "\<exists>s' t. execute_claimed sv w retain n tid (Some token) previous s = (s', Inr t) \<and> applied_outcome tid n i' t
    \<and> sv_trace s' = sv_trace s @ [Fetched (tn_task_id n) (Some i), Logged tid Tp_APPLYING,
        Wrote (tn_task_id n) (tn_requested_status n), Fetched (tn_task_id n) (Some i'), Logged tid Tp_APPLIED]
    \<and> phases tid (sv_journal s') = phases tid (sv_journal s) @ [Tp_APPLYING, Tp_APPLIED]
    \<and> jn_claims (sv_journal s') = filter (\<lambda>c. \<not> holds_claim (tn_project_id n) (tn_task_id n) token c) (jn_claims (sv_journal s))"
proof -
  let ?v = "reached Td_APPLIED Tp_APPLIED ''transition.applied'' (tn_requested_status n)"
  obtain t where t: "outcome_of tid n ?v (Some i') = Inr t" using i' by (simp add: outcome_of_def)
  have t_ok: "applied_outcome tid n i' t" "\<not> truthy (to_retryable t)"
    using t i' by (auto simp: outcome_of_def applied_outcome_def reached_def plain_verdict_def)
  define s1 where "s1 = s\<lparr>sv_tick := Suc (sv_tick s), sv_outcome := None,
    sv_trace := sv_trace s @ [Fetched (tn_task_id n) (Some i)]\<rparr>"
  define s2 where "s2 = s1\<lparr>sv_journal := append_locked tid (rq_project_id r) (rq_task_id r) Tp_APPLYING (tn_reason_code n) None
      (sw_stamp w (sv_tick s1)) (sv_journal s1), sv_tick := Suc (sv_tick s1), sv_trace := sv_trace s1 @ [Logged tid Tp_APPLYING]\<rparr>"
  define s3 where "s3 = s2\<lparr>sv_tick := Suc (sv_tick s2), sv_trace := sv_trace s2 @ [Wrote (tn_task_id n) (tn_requested_status n)]\<rparr>"
  define s4 where "s4 = s3\<lparr>sv_tick := Suc (sv_tick s3), sv_trace := sv_trace s3 @ [Fetched (tn_task_id n) (Some i')]\<rparr>"
  define s5 where "s5 = s4\<lparr>sv_journal := append_locked tid (rq_project_id r) (rq_task_id r) Tp_APPLIED ''transition.applied'' (Some t)
      (sw_stamp w (sv_tick s4)) (sv_journal s4), sv_tick := Suc (sv_tick s4), sv_outcome := Some t,
      sv_trace := sv_trace s4 @ [Logged tid Tp_APPLIED]\<rparr>"
  have r1: "try_fetch sv w (tn_task_id n) (s\<lparr>sv_outcome := None\<rparr>) = (s1, Inr (Inr (Some i)))"
    using quiet_read[of w "s\<lparr>sv_outcome := None\<rparr>"] before own(1) by (simp add: s1_def)
  have r2: "append_call w tid Tp_APPLYING (PStr (tn_reason_code n)) None s1 = (s2, Inr ())"
    unfolding s2_def by (rule quiet_append[OF w _ code]) (simp add: s1_def row)
  have r3: "update_call w (tn_task_id n) (tn_requested_status n) s2 = (s3, Inr ())"
    unfolding s3_def by (rule quiet_update) (use accepted in \<open>simp add: s1_def s2_def\<close>)
  have r4: "try_fetch sv w (tn_task_id n) s3 = (s4, Inr (Inr (Some i')))"
    unfolding s4_def by (rule quiet_read[OF _ own(2)]) (use after in \<open>simp add: s1_def s2_def s3_def eval_nat_numeral\<close>)
  have r5: "conclude w tid n ?v (Some i') s4 = (s5, Inr t)"
    using quiet_conclude[OF w _ _ t, of s4 r] row
    by (simp add: s1_def s2_def s3_def s4_def s5_def reached_def plain_verdict_def)
  note pass = unguarded_passes[OF n]
  have lane: "\<not> is_direct_owner_claim n" "\<not> is_validation_submission n" using n by (auto simp: unguarded_def)
  have verify: "verify_write sv w tid n i s3 = (s5, Inr t)"
    using r4 r5 i'(1) by (simp add: verify_write_def andthen_def latest_of_def shows_status_def)
  have "write_status sv w tid n i s2 = (s5, Inr t)"
    using r3 verify lane by (simp add: write_status_def attempting_def commit_lane_def recovering_def andthen_def give_def)
  then have "claimed_body sv w n tid previous i (tn_expected_version n) s1 = (s5, Inr t)"
    using r2 pass by (simp add: claimed_body_def andthen_def lifting_def give_def)
  then have body: "with_issue sv w tid n (claimed_body sv w n tid previous) (s\<lparr>sv_outcome := None\<rparr>) = (s5, Inr t)"
    using r1 pass by (simp add: with_issue_def andthen_def lifting_def)
  have "\<not> retaining retain s5" using t_ok(2) by (simp add: s5_def retaining_def)
  then have "execute_claimed sv w retain n tid (Some token) previous s =
      (s5\<lparr>sv_journal := fst (release_claim (tn_project_id n) (tn_task_id n) token (sv_journal s5)), sv_tick := Suc (sv_tick s5)\<rparr>, Inr t)"
    using body quiet_release[OF w] by (simp add: execute_claimed_def andthen_def doing_def finishing_def)
  then show ?thesis using t_ok(1) by (simp add: s1_def s2_def s3_def s4_def s5_def)
qed

text \<open>After a crash the effect may already be there: then it is only recorded.\<close>

definition found_outcome :: "string \<Rightarrow> transition_intent \<Rightarrow> transition_outcome \<Rightarrow> bool" where
  "found_outcome tid n t \<longleftrightarrow> to_transition_id t = PStr tid \<and> to_disposition t = Td_ALREADY_APPLIED
     \<and> to_applied_status t = PStr (tn_requested_status n) \<and> to_retryable t = PBool False"

lemma quiet_found:
  assumes w: "undisturbed w" and row: "request_of tid (sv_journal s) = Some r"
    and own: "adopt_project sv i = i" "\<not> project_conflict n i"
    and reads: "sw_detail w (sv_tick s) (tn_task_id n) = Detail_issue i"
    and i: "status_of i = tn_requested_status n" "issue_authority_version i = Inr v"
  shows "\<exists>s' t. execute_claimed sv w retain n tid (Some token) previous s = (s', Inr t) \<and> found_outcome tid n t
    \<and> sv_trace s' = sv_trace s @ [Fetched (tn_task_id n) (Some i), Logged tid Tp_RECOVERED]
    \<and> phases tid (sv_journal s') = phases tid (sv_journal s) @ [Tp_RECOVERED]
    \<and> jn_claims (sv_journal s') = filter (\<lambda>c. \<not> holds_claim (tn_project_id n) (tn_task_id n) token c) (jn_claims (sv_journal s))"
proof -
  let ?v = "reached Td_ALREADY_APPLIED Tp_RECOVERED ''transition.already_applied'' (status_of i)"
  obtain t where t: "outcome_of tid n ?v (Some i) = Inr t" using i by (simp add: outcome_of_def)
  have t_ok: "found_outcome tid n t" "\<not> truthy (to_retryable t)"
    using t i by (auto simp: outcome_of_def found_outcome_def reached_def plain_verdict_def)
  define s1 where "s1 = s\<lparr>sv_tick := Suc (sv_tick s), sv_outcome := None,
    sv_trace := sv_trace s @ [Fetched (tn_task_id n) (Some i)]\<rparr>"
  define s2 where "s2 = s1\<lparr>sv_journal := append_locked tid (rq_project_id r) (rq_task_id r) Tp_RECOVERED
      ''transition.already_applied'' (Some t) (sw_stamp w (sv_tick s1)) (sv_journal s1), sv_tick := Suc (sv_tick s1),
      sv_outcome := Some t, sv_trace := sv_trace s1 @ [Logged tid Tp_RECOVERED]\<rparr>"
  have r1: "try_fetch sv w (tn_task_id n) (s\<lparr>sv_outcome := None\<rparr>) = (s1, Inr (Inr (Some i)))"
    using quiet_read[of w "s\<lparr>sv_outcome := None\<rparr>"] reads own(1) by (simp add: s1_def)
  have r2: "conclude w tid n ?v (Some i) s1 = (s2, Inr t)"
    using quiet_conclude[OF w _ _ t, of s1 r] row by (simp add: s1_def s2_def reached_def plain_verdict_def)
  have "observed_verdict n previous i v = Some ?v" using i by (simp add: observed_verdict_def)
  then have "with_issue sv w tid n (claimed_body sv w n tid previous) (s\<lparr>sv_outcome := None\<rparr>) = (s2, Inr t)"
    using r1 r2 own(2) i(2) by (simp add: with_issue_def claimed_body_def andthen_def lifting_def)
  moreover have "\<not> retaining retain s2" using t_ok(2) by (simp add: s2_def retaining_def)
  ultimately have "execute_claimed sv w retain n tid (Some token) previous s =
      (s2\<lparr>sv_journal := fst (release_claim (tn_project_id n) (tn_task_id n) token (sv_journal s2)), sv_tick := Suc (sv_tick s2)\<rparr>, Inr t)"
    using quiet_release[OF w] by (simp add: execute_claimed_def andthen_def doing_def finishing_def)
  then show ?thesis using t_ok(1) by (simp add: s1_def s2_def)
qed

section \<open>Whole calls\<close>

lemma run_granted:
  assumes w: "undisturbed w" and begin_ok: "begin_transition (sw_number w) n (ts_claim_ttl sv) (sw_fresh w (sv_tick s))
      (sw_token w (sv_tick s)) (sw_clock w (sv_tick s)) (sw_stamp w (sv_tick s)) (sv_journal s)
      = Inr (j', (begin_answer tid)\<lparr>bg_claim_token := Some token, bg_previous_phase := previous\<rparr>)"
  shows "run_admitted sv w n run s = run tid (Some token) previous (s\<lparr>sv_journal := j', sv_tick := Suc (sv_tick s)\<rparr>)"
  using assms by (simp add: run_admitted_def begin_call_def andthen_def journal_call_def undisturbed_def Let_def answer_begin_def
      begin_answer_def tick_def)

lemma begin_retry:
  assumes ok: "journal_ok I j" and row: "request_by_key (tn_project_id n) (tn_idempotency_key n) j = Some row"
    and same: "rq_intent_revision row = intent_revision n"
    and latest: "latest_event (rq_transition_id row) j = Inr (Some e)" and open_phase: "je_phase e \<notin> set FINAL_PHASES"
    and c: "claim_of (tn_project_id n) (tn_task_id n) j = Some active" "cl_transition_id active = rq_transition_id row"
    and expired: "cl_lease_expires_at active \<le> now" and ttl: "0 < ttl"
  shows "begin_transition number n ttl fresh token now stamp j = Inr
      (j\<lparr>jn_claims := filter (\<lambda>c. \<not> exact_claim n active c) (jn_claims j) @ [new_claim (rq_transition_id row) n token now ttl]\<rparr>,
       (begin_answer (rq_transition_id row))\<lparr>bg_claim_token := Some token, bg_previous_phase := Some (je_phase e)\<rparr>)"
proof -
  have one: "length (filter (exact_claim n active) (jn_claims j)) = 1" using exact_claim_unique[OF ok c(1)] .
  then have "claim_of (tn_project_id n) (tn_task_id n) (j\<lparr>jn_claims := filter (\<lambda>c. \<not> exact_claim n active c) (jn_claims j)\<rparr>) = None"
    using drop_then_insert[OF ok c(1)] by (auto simp: drop_claim_def)
  then have "acquire_claim number n (rq_transition_id row) (Some (je_phase e)) token now ttl stamp j = Inr
      (j\<lparr>jn_claims := filter (\<lambda>c. \<not> exact_claim n active c) (jn_claims j) @ [new_claim (rq_transition_id row) n token now ttl]\<rparr>,
       (begin_answer (rq_transition_id row))\<lparr>bg_claim_token := Some token, bg_previous_phase := Some (je_phase e)\<rparr>)"
    using c expired one by (simp add: acquire_claim_def drop_claim_def insert_claim_def Let_def new_claim_def begin_answer_def)
  then show ?thesis using row same latest open_phase ttl
    by (simp add: begin_transition_def Let_def split: option.split)
qed

end
