(* ===== verification/JournalClaims.thy ===== *)
theory JournalClaims
  imports JournalMachine ContractProofs
begin

text \<open>
  The claims about the transition journal, with a concrete issue, intent and run of the journal that show
  they can hold.
\<close>

section \<open>A concrete issue, intent and run\<close>

definition tracked_sample :: tracked_issue where
  "tracked_sample = \<lparr>iss_id = ''T-1'', iss_identifier = ''T-1'', iss_title = ''Fix'', iss_state = ''Open'',
     iss_target_branch = None, iss_issue_type = ''task'', iss_parent_id = None, iss_project_id = Some ''p'',
     iss_integration = None, iss_epic_rebase_target = PNone, iss_epic_rebase_authority = PNone,
     iss_create_once = PNone, iss_work_branch = None, iss_head_sha = None, ti_description = Some ''Do it'',
     ti_labels = [], ti_lifecycle_revision = None, ti_assignment_id = None, ti_review_number = None,
     ti_review_head = None, ti_branch_name = None\<rparr>"

definition version_of :: "tracked_issue \<Rightarrow> string" where
  "version_of i = (case issue_authority_version i of Inl _ \<Rightarrow> [] | Inr v \<Rightarrow> v)"

lemma tracked_sample_version: "issue_authority_version (tracked_sample\<lparr>iss_state := st\<rparr>) = Inr (version_of (tracked_sample\<lparr>iss_state := st\<rparr>))"
proof -
  have "\<exists>d. issue_evidence_fingerprint (tracked_sample\<lparr>iss_state := st\<rparr>) ''p'' = Inr d"
    by (rule issue_evidence_total) (simp_all add: tracked_sample_def evidence_task_id_def integration_text_def py_strip_def is_space_def)
  then obtain d where "issue_evidence_fingerprint (tracked_sample\<lparr>iss_state := st\<rparr>) ''p'' = Inr d" by blast
  then show ?thesis by (simp add: version_of_def issue_authority_version_def tracked_sample_def)
qed

lemma version_text:
  assumes "issue_authority_version i = Inr (version_of i)"
  shows "stripped_text (version_of i)"
proof -
  obtain s where "version_of i = sha256_hex s"
    using assms unfolding issue_authority_version_def by (elim ebind_InrE) (metis Inr_inject)
  then show ?thesis by (simp add: stripped_text_def lower_hex_fixed)
qed

definition sample_intent :: transition_intent where
  "sample_intent = \<lparr>tn_project_id = ''p'', tn_task_id = ''T-1'', tn_expected_status = OPEN,
     tn_expected_version = version_of tracked_sample, tn_requested_status = NEEDS_HUMAN, tn_actor = ''bot'',
     tn_authority = Auth_ORCHESTRATOR, tn_reason_code = ''dispatch.blocked'', tn_idempotency_key = ''k1'',
     tn_originating_job = ''j1'', tn_evidence_generation = None, tn_exact_head = None,
     tn_precondition_revision = None, tn_schema_version = PInt 1\<rparr>"

lemma sample_intents_ok: "intents_ok {sample_intent}"
proof -
  have "stripped_text (version_of tracked_sample)" using version_text[of tracked_sample] tracked_sample_version[of "''Open''"]
    by (simp add: tracked_sample_def)
  moreover have "stable_reason_code ''dispatch.blocked''" by code_simp
  ultimately show ?thesis
    by (simp add: intents_ok_def intent_ok_def sample_intent_def stripped_text_def py_strip_def is_space_def
        CANONICAL_STATUSES_def py_eq_def)
qed

definition no_number :: "real \<Rightarrow> pyval" where
  "no_number _ = PNone"

definition sample_claim :: task_claim where
  "sample_claim = \<lparr>cl_project_id = ''p'', cl_task_id = ''T-1'', cl_transition_id = ''x1'', cl_claim_token = ''t1'',
     cl_claimed_at = 10, cl_lease_expires_at = 310\<rparr>"

definition sample_journal :: journal where
  "sample_journal = \<lparr>jn_requests = [\<lparr>rq_transition_id = ''x1'', rq_project_id = ''p'', rq_task_id = ''T-1'',
       rq_idempotency_key = ''k1'', rq_intent_revision = intent_revision sample_intent,
       rq_intent = PDict (intent_to_dict sample_intent), rq_created_at = ''now''\<rparr>],
     jn_events = [\<lparr>ev_sequence = 1, ev_transition_id = ''x1'', ev_project_id = ''p'', ev_task_id = ''T-1'',
       ev_phase = Tp_REQUESTED, ev_reason_code = ''dispatch.blocked'', ev_outcome = None, ev_created_at = ''now''\<rparr>],
     jn_claims = [sample_claim], jn_last_sequence = 1\<rparr>"

lemma sample_intent_fields [simp]: "tn_project_id sample_intent = ''p''" "tn_task_id sample_intent = ''T-1''"
  "tn_idempotency_key sample_intent = ''k1''" "tn_reason_code sample_intent = ''dispatch.blocked''"
  "tn_requested_status sample_intent = NEEDS_HUMAN" "tn_expected_status sample_intent = OPEN"
  by (simp_all add: sample_intent_def)

lemma sample_begins: "begin_transition no_number sample_intent 300 ''x1'' ''t1'' 10 ''now'' empty_journal
  = Inr (sample_journal, (begin_answer ''x1'')\<lparr>bg_claim_token := Some ''t1''\<rparr>)"
  by (simp add: begin_transition_def empty_journal_def request_by_key_def insert_request_def request_of_def
      append_locked_def acquire_claim_def claim_of_def insert_claim_def Let_def sample_journal_def sample_claim_def
      begin_answer_def)

lemma sample_journal_runs: "journal_runs {sample_intent} empty_journal" "journal_runs {sample_intent} sample_journal"
proof -
  have "journal_step {sample_intent} empty_journal sample_journal" by (rule begins[OF _ sample_begins]) simp
  then show "journal_runs {sample_intent} sample_journal" by blast
qed blast

section \<open>Claims\<close>

text \<open>An intent survives its dictionary form: whatever the constructor accepted is read back from
  \<open>to_dict\<close> unchanged, so a replayed intent is the one that was persisted.\<close>

theorem intent_roundtrip:
  assumes "make_intent project task expected version requested actor authority code key job generation head precondition
    schema = Inr i"
  shows "intent_from_dict (PDict (intent_to_dict i)) = Inr i"
  using make_intent_ok[OF assms] by (rule intent_roundtrip_ok)

theorem intent_roundtrip_witness:
  "intent_from_dict (PDict (intent_to_dict sample_intent)) = Inr sample_intent"
proof (rule intent_roundtrip)
  have "intent_ok sample_intent" using sample_intents_ok by (simp add: intents_ok_def)
  from intent_rebuilt[OF this] show "make_intent (PStr (tn_project_id sample_intent)) (PStr (tn_task_id sample_intent))
    (PStr (tn_expected_status sample_intent)) (PStr (tn_expected_version sample_intent))
    (PStr (tn_requested_status sample_intent)) (PStr (tn_actor sample_intent))
    (PStr (authority_value (tn_authority sample_intent))) (PStr (tn_reason_code sample_intent))
    (PStr (tn_idempotency_key sample_intent)) (PStr (tn_originating_job sample_intent))
    (opt_str (tn_evidence_generation sample_intent)) (opt_str (tn_exact_head sample_intent))
    (opt_str (tn_precondition_revision sample_intent)) (tn_schema_version sample_intent) = Inr sample_intent" .
qed

text \<open>C14. The journal is append-only: whatever calls run, the registered requests and the events stay as
  they are and only get successors, and the journal stays well formed.\<close>

theorem journal_is_append_only:
  assumes "intents_ok I" and "journal_runs I j" and "(journal_step I)\<^sup>*\<^sup>* j j'"
  shows "(\<exists>rs es. jn_requests j' = jn_requests j @ rs \<and> jn_events j' = jn_events j @ es)
    \<and> journal_ok I j' \<and> integrity_check j' = Inr ()"
  using journal_run_extends[OF assms(1,3) journal_runs_ok[OF assms(1,2)]] journal_integrity[OF assms(1)]
  by (simp add: journal_extends_def)

theorem journal_is_append_only_witness:
  "(\<exists>rs es. jn_requests sample_journal = jn_requests empty_journal @ rs
      \<and> jn_events sample_journal = jn_events empty_journal @ es)
    \<and> journal_ok {sample_intent} sample_journal \<and> integrity_check sample_journal = Inr ()"
  by (rule journal_is_append_only[OF sample_intents_ok sample_journal_runs])

text \<open>C15. On a journal that calls built, \<open>begin\<close> always returns: it never reports a corrupt journal or a
  lost claim, whether the task is idle, owned, expired or already finished.\<close>

theorem begin_always_returns:
  assumes "intents_ok I" and "journal_runs I j" and "i \<in> I" and "0 < ttl" and "request_of fresh j = None"
  shows "\<exists>j' b. begin_transition number i ttl fresh token now stamp j = Inr (j', b)"
  using begin_total_ok[OF assms(1) journal_runs_ok[OF assms(1,2)] assms(3-)] .

theorem begin_always_returns_witness:
  "\<exists>j' b. begin_transition no_number sample_intent 300 ''x2'' ''t2'' 400 ''later'' sample_journal = Inr (j', b)"
  by (rule begin_always_returns[OF sample_intents_ok sample_journal_runs(2)])
    (simp_all add: request_of_def sample_journal_def)

text \<open>C12. A task has one owner: \<open>begin\<close> hands out a claim token only when no live claim of the task
  exists, and afterwards the task's claim carries that token and expires after the time to live.\<close>

theorem claim_is_exclusive:
  assumes "intents_ok I" and "journal_runs I j" and "i \<in> I"
    and "begin_transition number i ttl fresh token now stamp j = Inr (j', b)" and "bg_claim_token b = Some tok"
  shows "tok = token \<and> idle_task i now j \<and> claimed_by i token (now + ttl) j'"
  using begin_grants[OF journal_runs_ok[OF assms(1,2)] assms(1,3-)] .

theorem claim_is_exclusive_witness:
  "''t1'' = ''t1'' \<and> idle_task sample_intent 10 empty_journal \<and> claimed_by sample_intent ''t1'' (10 + 300) sample_journal"
  by (rule claim_is_exclusive[OF sample_intents_ok sample_journal_runs(1) _ sample_begins]) simp_all

text \<open>\<open>begin\<close> on a finished transition, with the same key and content: the answer is the outcome of its last
  event, marked as replayed, and only a claim that a crash left behind is retired.\<close>

lemma begin_replays:
  assumes "intents_ok I" and "journal_runs I j" and "0 < ttl"
    and row: "request_by_key (tn_project_id i) (tn_idempotency_key i) j = Some row"
    and same: "rq_intent_revision row = intent_revision i"
    and latest: "latest_event (rq_transition_id row) j = Inr (Some e)" and final: "je_phase e \<in> set FINAL_PHASES"
  shows "\<exists>t. je_outcome e = Some t \<and> begin_transition number i ttl fresh token now stamp j
    = Inr (j\<lparr>jn_claims := filter (\<lambda>c. \<not> (cl_project_id c = tn_project_id i \<and> cl_task_id c = tn_task_id i
          \<and> cl_transition_id c = rq_transition_id row)) (jn_claims j)\<rparr>,
        (begin_answer (rq_transition_id row))\<lparr>bg_replay := Some (t\<lparr>to_replayed := True\<rparr>)\<rparr>)"
proof -
  have ok: "journal_ok I j" using journal_runs_ok[OF assms(1,2)] .
  have "row \<in> set (jn_requests j)" using request_by_key_SomeD[OF row] by blast
  then have "registered j (rq_transition_id row) (rq_project_id row) (rq_task_id row)" by (auto simp: registered_def)
  then obtain t where t: "je_outcome e = Some t" "to_details t = PDict (details_of t)"
    using latest_event_some[OF ok] latest final unfolding event_view_def by fastforce
  have "t\<lparr>to_replayed := True, to_details := PDict (details_of t)\<rparr> = t\<lparr>to_replayed := True\<rparr>" using t(2) by (cases t) simp
  then show ?thesis using t(1) assms(3) row same latest final
    by (simp add: begin_transition_def outcome_roundtrip_details Let_def)
qed

end
