(* ===== verification/ServiceClaims.thy ===== *)
theory ServiceClaims
  imports QuietRuns JournalClaims
begin

text \<open>
  The claims about the transition service, with a concrete tracker and a concrete service that show they can
  hold.
\<close>

section \<open>A concrete service and tracker\<close>

definition sample_service :: service where
  "sample_service = \<lparr>ts_project_id = ''p'', ts_terminal_adapter = None, ts_claim_guard = None, ts_mutation_guard = None,
     ts_retirement_guard = None, ts_claim_ttl = 300\<rparr>"

definition moved_sample :: tracked_issue where
  "moved_sample = tracked_sample\<lparr>iss_state := ''Needs Human''\<rparr>"

text \<open>A tracker that shows \<open>Open\<close> before the given time and \<open>Needs Human\<close> from then on.\<close>

definition sample_world :: "nat \<Rightarrow> real \<Rightarrow> string \<Rightarrow> service_world" where
  "sample_world change now token = \<lparr>sw_number = no_number, sw_clock = (\<lambda>_. now), sw_stamp = (\<lambda>_. ''now''), sw_fresh = (\<lambda>_. ''x1''),
     sw_token = (\<lambda>_. token), sw_detail = (\<lambda>t _. Detail_issue (if t < change then tracked_sample else moved_sample)),
     sw_point = None, sw_children = None, sw_update = (\<lambda>_ _ _. None), sw_others = (\<lambda>_ j. j)\<rparr>"

lemma sample_world_undisturbed [simp]: "undisturbed (sample_world change now token)" "polite I (sample_world change now token)"
  by (simp_all add: undisturbed_def polite_def sample_world_def)

lemma sample_versions:
  "issue_authority_version tracked_sample = Inr (version_of tracked_sample)"
  "issue_authority_version moved_sample = Inr (version_of moved_sample)"
  using tracked_sample_version[of "''Open''"] tracked_sample_version[of "''Needs Human''"]
  by (simp_all add: tracked_sample_def moved_sample_def)

lemma sample_statuses: "status_of tracked_sample = OPEN" "status_of moved_sample = NEEDS_HUMAN"
  by (code_simp, code_simp)

lemma sample_issue_fields: "iss_project_id tracked_sample = Some ''p''" "iss_project_id moved_sample = Some ''p''"
    "ti_assignment_id tracked_sample = None"
  by (simp_all add: tracked_sample_def moved_sample_def)

lemma sample_unguarded: "unguarded sample_intent tracked_sample"
proof -
  have "transition_rule_of (PStr OPEN) (PStr NEEDS_HUMAN) \<noteq> None" by code_simp
  moreover have "edge_requirements OPEN NEEDS_HUMAN = [Req_EXPECTED_VERSION, Req_OPERATOR_REASON]" by code_simp
  moreover have "NEEDS_HUMAN \<notin> set TERMINAL_TARGETS" by code_simp
  ultimately have "ordinary_edge sample_intent" by (simp add: ordinary_edge_def)
  moreover have "tn_expected_version sample_intent = version_of tracked_sample" by (simp add: sample_intent_def)
  then have "expected_issue sample_intent tracked_sample"
    using sample_versions(1) sample_statuses(1) by (simp add: expected_issue_def project_conflict_def sample_issue_fields)
  moreover have "\<not> generation_mismatch sample_intent tracked_sample" "head_verdict sample_intent tracked_sample = None"
    by (simp_all add: generation_mismatch_def head_verdict_def sample_intent_def)
  ultimately show ?thesis
    by (simp add: unguarded_def is_direct_owner_claim_def is_validation_submission_def system_epic_rollup_def)
qed

text \<open>The sample transition after its start, and after its rejection.\<close>

definition applying_journal :: journal where
  "applying_journal = append_locked ''x1'' ''p'' ''T-1'' Tp_APPLYING ''dispatch.blocked'' None ''now'' sample_journal"

definition sample_rejection :: transition_outcome where
  "sample_rejection = blind_outcome ''x1'' sample_intent Td_REJECTED ''transition.task_missing'' False (Some [])"

definition rejected_journal :: journal where
  "rejected_journal = append_locked ''x1'' ''p'' ''T-1'' Tp_REJECTED ''transition.task_missing'' (Some sample_rejection)
     ''now'' sample_journal"

lemma sample_codes: "stripped_text ''dispatch.blocked''" "stripped_text ''transition.task_missing''"
  by (simp_all add: stripped_text_def py_strip_def is_space_def)

lemma sample_journal_runs_on: "journal_runs {sample_intent} applying_journal" "journal_runs {sample_intent} rejected_journal"
proof -
  have row: "request_of ''x1'' sample_journal = Some (hd (jn_requests sample_journal))"
    by (simp add: request_of_def sample_journal_def)
  have owner: "rq_project_id (hd (jn_requests sample_journal)) = ''p''" "rq_task_id (hd (jn_requests sample_journal)) = ''T-1''"
    by (simp_all add: sample_journal_def)
  have "append_event_row ''x1'' Tp_APPLYING (PStr ''dispatch.blocked'') None ''now'' sample_journal = Inr applying_journal"
    "append_event_row ''x1'' Tp_REJECTED (PStr ''transition.task_missing'') (Some sample_rejection) ''now'' sample_journal
      = Inr rejected_journal"
    using required_plain sample_codes
    by (simp_all add: append_event_row_def row owner applying_journal_def rejected_journal_def)
  then have "journal_step {sample_intent} sample_journal applying_journal" "journal_step {sample_intent} sample_journal rejected_journal"
    by (auto intro: appends simp: FINAL_PHASES_def)
  then show "journal_runs {sample_intent} applying_journal" "journal_runs {sample_intent} rejected_journal"
    using sample_journal_runs(2) by (meson rtranclp.rtrancl_into_rtrancl)+
qed

lemma sample_run_facts:
  "request_of ''x1'' (sv_journal (fresh_state sample_journal)) = Some (hd (jn_requests sample_journal))"
  "stripped_text (tn_reason_code sample_intent)" "unguarded sample_intent tracked_sample"
  "adopt_project sample_service tracked_sample = tracked_sample" "adopt_project sample_service moved_sample = moved_sample"
  "sw_detail (sample_world change now token) t task = Detail_issue (if t < change then tracked_sample else moved_sample)"
  "sw_update (sample_world change now token) t task status = None" "sw_fresh (sample_world change now token) t = ''x1''"
  "sw_clock (sample_world change now token) t = now"
  "status_of moved_sample = tn_requested_status sample_intent" "\<not> project_conflict sample_intent moved_sample"
  "0 < ts_claim_ttl sample_service" "ts_project_id sample_service = ''p''" "sv_tick (fresh_state j) = 0"
  using sample_codes sample_unguarded sample_statuses
  by (simp_all add: fresh_state_def request_of_def sample_journal_def adopt_project_def sample_issue_fields sample_world_def
      sample_service_def project_conflict_def)

lemma sample_lookups:
  "request_by_key ''p'' ''k1'' empty_journal = None" "request_of ''x1'' empty_journal = None"
  "claim_of ''p'' ''T-1'' empty_journal = None"
  "request_by_key ''p'' ''k1'' applying_journal = Some (hd (jn_requests sample_journal))"
  "request_by_key ''p'' ''k1'' rejected_journal = Some (hd (jn_requests sample_journal))"
  "rq_intent_revision (hd (jn_requests sample_journal)) = intent_revision sample_intent"
  "rq_transition_id (hd (jn_requests sample_journal)) = ''x1''"
  "claim_of ''p'' ''T-1'' applying_journal = Some sample_claim" "cl_transition_id sample_claim = ''x1''"
  "cl_lease_expires_at sample_claim = 310"
  "phases ''x1'' applying_journal = [Tp_REQUESTED, Tp_APPLYING]"
  by (simp_all add: request_by_key_def request_of_def claim_of_def empty_journal_def applying_journal_def rejected_journal_def
      sample_journal_def sample_claim_def phases_def events_of_def append_locked_def)

lemma sample_latest:
  "\<exists>e. latest_event ''x1'' applying_journal = Inr (Some e) \<and> je_phase e \<notin> set FINAL_PHASES"
  "\<exists>e. latest_event ''x1'' rejected_journal = Inr (Some e) \<and> je_phase e \<in> set FINAL_PHASES
    \<and> je_outcome e = Some sample_rejection"
  by (simp_all add: latest_event_def events_of_def applying_journal_def rejected_journal_def append_locked_def
      event_from_row_def decode_outcome_def sample_journal_def FINAL_PHASES_def outcome_roundtrip_details
      sample_rejection_def blind_outcome_def details_of_def)

section \<open>Claims\<close>

text \<open>C7. Every status write is justified.  Whatever the tracker, the terminal coordinator, the guards and the
  other users of the journal do, and whether the call returns or raises: each write that \<open>execute\<close> or
  \<open>recover_authorized\<close> sends to the tracker carries the status of a submitted intent, comes after the journalled
  start of a transition, and the last read before it showed the intent's project, expected status and expected
  version; its edge is legal, non-terminal and under the right authority, unless the intent is an authorized
  recovery.  The journal stays well formed.\<close>

theorem writes_are_justified:
  assumes "intents_ok I" and "journal_runs I j" and "polite I w" and "n \<in> I"
    and "call \<in> {execute sv w n, recover_authorized sv w n}" and "call (fresh_state j) = (s', r)"
  shows "writes_justified I (sv_trace s') \<and> journal_ok I (sv_journal s')"
proof -
  have "keeps_sound I call" using assms(5) keeps_execute keeps_recover_authorized assms(1,3,4) by blast
  moreover have "sound I (fresh_state j)" using fresh_state_sound journal_runs_ok[OF assms(1,2)] by blast
  ultimately show ?thesis using keepsD assms(6) unfolding sound_def by blast
qed

theorem writes_are_justified_witness:
  "writes_justified {sample_intent} (sv_trace (fst (execute sample_service (sample_world 4 10 ''t1'') sample_intent (fresh_state empty_journal))))
    \<and> journal_ok {sample_intent} (sv_journal (fst (execute sample_service (sample_world 4 10 ''t1'') sample_intent (fresh_state empty_journal))))"
  by (rule writes_are_justified[where sv = sample_service and w = "sample_world 4 10 ''t1''" and n = sample_intent,
        OF sample_intents_ok sample_journal_runs(1) _ _ _ surjective_pairing]) simp_all

text \<open>C10. The outcome of a claimed run is in the journal before it is returned: an event of the transition holds
  it under the phase that fits its disposition, which is final exactly when the outcome is not retryable, and an
  applied status is the one that the last read of the tracker showed.\<close>

theorem outcome_is_journalled:
  assumes "intents_ok I" and "journal_runs I j" and "polite I w" and "n \<in> I"
    and "call = execute_claimed sv w retain n tid (Some token) previous
      \<or> call = recover_claimed sv w retain n tid (Some token) \<and> authorized_recovery_intent n"
    and "call (fresh_state j) = (s', Inr t)"
  shows "recorded tid t (sv_journal s') \<and> shown (tn_task_id n) t (sv_trace s')"
proof -
  have s: "sound I (fresh_state j\<lparr>sv_outcome := None\<rparr>)"
    using fresh_state_sound journal_runs_ok[OF assms(1,2)] by (simp add: fresh_state_def)
  have run: ?thesis if "keeps_sound I m" and "answered (tn_task_id n) tid (\<lambda>_. True) m"
    and "call = andthen (doing (\<lambda>s. s\<lparr>sv_outcome := None\<rparr>)) (\<lambda>_. finishing m (\<lambda>_. finish_claim w retain n token))" for m
    using finishing_answers[OF assms(1,3) that(1,2) s] assms(6) that(3) by (simp add: andthen_def doing_def)
  show ?thesis
    using assms(5)
  proof
    assume "call = execute_claimed sv w retain n tid (Some token) previous"
    then show ?thesis
      by (intro run[OF keeps_execute_body[OF assms(1,3,4)] answered_with_issue[OF answered_claimed_body]])
        (simp add: execute_claimed_def)
  next
    assume "call = recover_claimed sv w retain n tid (Some token) \<and> authorized_recovery_intent n"
    then show ?thesis
      by (intro run[OF keeps_recover_body[OF assms(1,3,4)] answered_with_issue[OF answered_recovery_body]])
        (simp_all add: recover_claimed_def)
  qed
qed

theorem outcome_is_journalled_witness:
  "\<exists>s t. execute_claimed sample_service (sample_world 3 10 ''t1'') False sample_intent ''x1'' (Some ''t1'') None
      (fresh_state sample_journal) = (s, Inr t)
    \<and> recorded ''x1'' t (sv_journal s) \<and> shown (tn_task_id sample_intent) t (sv_trace s)"
proof -
  obtain s t where run: "execute_claimed sample_service (sample_world 3 10 ''t1'') False sample_intent ''x1'' (Some ''t1'') None
      (fresh_state sample_journal) = (s, Inr t)"
    using quiet_claimed[where w = "sample_world 3 10 ''t1''" and s = "fresh_state sample_journal" and tid = "''x1''"
        and n = sample_intent and i = tracked_sample and i' = moved_sample and sv = sample_service and retain = False
        and token = "''t1''" and previous = None, OF sample_world_undisturbed(1) sample_run_facts(1-5)]
      sample_run_facts sample_versions(2) by auto
  have "recorded ''x1'' t (sv_journal s) \<and> shown (tn_task_id sample_intent) t (sv_trace s)"
    by (rule outcome_is_journalled[where call = "execute_claimed sample_service (sample_world 3 10 ''t1'') False sample_intent
        ''x1'' (Some ''t1'') None" and w = "sample_world 3 10 ''t1''", OF sample_intents_ok sample_journal_runs(2) _ _ _ run]) auto
  then show ?thesis using run by blast
qed

text \<open>C13. A run gives its claim back, whether it returns or raises: afterwards no claim of the task carries its
  token, except that a recovery which must be retried leaves the claim with a lease that has already expired.\<close>

theorem claim_is_given_back:
  "given_back w retain n token (fst (execute_claimed sv w retain n tid (Some token) previous s))
    \<and> given_back w retain n token (fst (recover_claimed sv w retain n tid (Some token) s))"
  by (simp add: execute_claimed_def recover_claimed_def andthen_def doing_def finishing_given_back)

text \<open>C9. A transition that nothing hinders is applied: a new, unguarded transition of a task nobody holds runs
  through to the tracker.  The service reads, journals the start, writes once, reads again, journals the
  result and releases the task.\<close>

theorem transition_is_applied:
  assumes "intents_ok I" and "journal_runs I j" and "n \<in> I" and "undisturbed w" and "0 < ts_claim_ttl sv"
    and "tn_project_id n = ts_project_id sv" and "unguarded n i"
    and "request_by_key (tn_project_id n) (tn_idempotency_key n) j = None" and "request_of (sw_fresh w 0) j = None"
    and "claim_of (tn_project_id n) (tn_task_id n) j = None"
    and "adopt_project sv i = i" and "adopt_project sv i' = i'"
    and "sw_detail w 1 (tn_task_id n) = Detail_issue i" and "sw_update w 3 (tn_task_id n) (tn_requested_status n) = None"
    and "sw_detail w 4 (tn_task_id n) = Detail_issue i'" and "status_of i' = tn_requested_status n"
    and "issue_authority_version i' = Inr v'"
  shows "\<exists>s' t. execute sv w n (fresh_state j) = (s', Inr t) \<and> applied_outcome (sw_fresh w 0) n i' t
    \<and> sv_trace s' = [Fetched (tn_task_id n) (Some i), Logged (sw_fresh w 0) Tp_APPLYING,
        Wrote (tn_task_id n) (tn_requested_status n), Fetched (tn_task_id n) (Some i'), Logged (sw_fresh w 0) Tp_APPLIED]
    \<and> phases (sw_fresh w 0) (sv_journal s') = [Tp_REQUESTED, Tp_APPLYING, Tp_APPLIED]
    \<and> claim_of (tn_project_id n) (tn_task_id n) (sv_journal s') = None"
proof -
  let ?tid = "sw_fresh w 0"
  let ?j = "(append_locked ?tid (tn_project_id n) (tn_task_id n) Tp_REQUESTED (tn_reason_code n) None (sw_stamp w 0)
         (j\<lparr>jn_requests := jn_requests j @ [new_request ?tid n (sw_stamp w 0)]\<rparr>))
           \<lparr>jn_claims := jn_claims j @ [new_claim ?tid n (sw_token w 0) (sw_clock w 0) (ts_claim_ttl sv)]\<rparr>"
  let ?s = "fresh_state j\<lparr>sv_journal := ?j, sv_tick := Suc 0\<rparr>"
  have ok: "journal_ok I j" using journal_runs_ok[OF assms(1,2)] .
  have "execute sv w n (fresh_state j) = execute_claimed sv w False n ?tid (Some (sw_token w 0)) None ?s"
    using run_granted[OF assms(4), where s = "fresh_state j" and sv = sv and n = n and tid = ?tid and token = "sw_token w 0"
        and previous = None and run = "execute_claimed sv w False n" and j' = ?j]
      begin_fresh[OF assms(8-10,5)] assms(6) by (simp add: execute_def fresh_state_def begin_answer_def)
  moreover have "request_of ?tid (sv_journal ?s) = Some (new_request ?tid n (sw_stamp w 0))"
    using assms(9) by (simp add: request_of_def find_append_None new_request_def append_locked_def Let_def)
  moreover have "stripped_text (tn_reason_code n)" using assms(1,3) by (simp add: intents_ok_def intent_ok_def)
  moreover have "phases ?tid j = []" using unregistered_events[OF ok assms(9)] by (simp add: phases_def)
  moreover have "claim_of (tn_project_id n) (tn_task_id n) k = None"
    if "jn_claims k = filter (\<lambda>c. \<not> holds_claim (tn_project_id n) (tn_task_id n) (sw_token w 0) c) (jn_claims ?j)" for k
    using assms(10) that by (auto simp: claim_of_None_iff new_claim_def holds_claim_def)
  ultimately show ?thesis
    using quiet_claimed[OF assms(4), where s = ?s and tid = ?tid and sv = sv and retain = False and n = n and previous = None
        and i = i and i' = i' and token = "sw_token w 0"] assms(7,11-17)
    by (fastforce simp: fresh_state_def eval_nat_numeral)
qed

theorem transition_is_applied_witness:
  "\<exists>s' t. execute sample_service (sample_world 4 10 ''t1'') sample_intent (fresh_state empty_journal) = (s', Inr t)
    \<and> applied_outcome ''x1'' sample_intent moved_sample t
    \<and> sv_trace s' = [Fetched ''T-1'' (Some tracked_sample), Logged ''x1'' Tp_APPLYING, Wrote ''T-1'' ''Needs Human'',
        Fetched ''T-1'' (Some moved_sample), Logged ''x1'' Tp_APPLIED]
    \<and> phases ''x1'' (sv_journal s') = [Tp_REQUESTED, Tp_APPLYING, Tp_APPLIED]
    \<and> claim_of ''p'' ''T-1'' (sv_journal s') = None"
  using transition_is_applied[where w = "sample_world 4 10 ''t1''" and n = sample_intent and i = tracked_sample
      and i' = moved_sample and sv = sample_service and j = empty_journal, OF sample_intents_ok sample_journal_runs(1)]
    sample_run_facts sample_versions(2) sample_statuses(2)
  by (simp add: sample_lookups)

text \<open>C8. A crash between the write and its record is repaired without a second write: when the same intent is
  executed again, its claim has expired and the tracker already shows the requested status, the service reads,
  records the transition as recovered and releases the task.\<close>

theorem interrupted_write_is_found:
  assumes "intents_ok I" and "journal_runs I j" and "undisturbed w" and "0 < ts_claim_ttl sv"
    and "tn_project_id n = ts_project_id sv"
    and "request_by_key (tn_project_id n) (tn_idempotency_key n) j = Some row" and "rq_intent_revision row = intent_revision n"
    and "latest_event (rq_transition_id row) j = Inr (Some e)" and "je_phase e \<notin> set FINAL_PHASES"
    and "claim_of (tn_project_id n) (tn_task_id n) j = Some active" and "cl_transition_id active = rq_transition_id row"
    and "cl_lease_expires_at active \<le> sw_clock w 0"
    and "adopt_project sv i = i" and "\<not> project_conflict n i"
    and "sw_detail w 1 (tn_task_id n) = Detail_issue i" and "status_of i = tn_requested_status n"
    and "issue_authority_version i = Inr v"
  shows "\<exists>s' t. execute sv w n (fresh_state j) = (s', Inr t) \<and> found_outcome (rq_transition_id row) n t
    \<and> sv_trace s' = [Fetched (tn_task_id n) (Some i), Logged (rq_transition_id row) Tp_RECOVERED]
    \<and> phases (rq_transition_id row) (sv_journal s') = phases (rq_transition_id row) j @ [Tp_RECOVERED]
    \<and> claim_of (tn_project_id n) (tn_task_id n) (sv_journal s') = None"
proof -
  let ?tid = "rq_transition_id row"
  let ?j = "j\<lparr>jn_claims := filter (\<lambda>c. \<not> exact_claim n active c) (jn_claims j)
    @ [new_claim ?tid n (sw_token w 0) (sw_clock w 0) (ts_claim_ttl sv)]\<rparr>"
  let ?s = "fresh_state j\<lparr>sv_journal := ?j, sv_tick := Suc 0\<rparr>"
  have ok: "journal_ok I j" using journal_runs_ok[OF assms(1,2)] .
  have "execute sv w n (fresh_state j) = execute_claimed sv w False n ?tid (Some (sw_token w 0)) (Some (je_phase e)) ?s"
    using run_granted[OF assms(3), where s = "fresh_state j" and sv = sv and n = n and tid = ?tid and token = "sw_token w 0"
        and previous = "Some (je_phase e)" and run = "execute_claimed sv w False n" and j' = ?j]
      begin_retry[OF ok assms(6-12,4)] assms(5) by (simp add: execute_def fresh_state_def)
  moreover have "request_of ?tid (sv_journal ?s) = Some row"
    using request_of_mem[OF ok] request_by_key_SomeD[OF assms(6)] by (simp add: request_of_def)
  moreover have "claim_of (tn_project_id n) (tn_task_id n) k = None"
    if "jn_claims k = filter (\<lambda>c. \<not> holds_claim (tn_project_id n) (tn_task_id n) (sw_token w 0) c) (jn_claims ?j)" for k
  proof -
    have "exact_claim n active c" if "c \<in> set (jn_claims j)" "cl_project_id c = tn_project_id n" "cl_task_id c = tn_task_id n" for c
      using claim_of_same[OF ok assms(10) that] exact_claim_iff[OF ok assms(10) that(1)] by blast
    then show ?thesis using that by (auto simp: claim_of_None_iff new_claim_def holds_claim_def)
  qed
  ultimately show ?thesis
    using quiet_found[OF assms(3), where s = ?s and tid = ?tid and sv = sv and retain = False and n = n
        and previous = "Some (je_phase e)" and i = i and token = "sw_token w 0"] assms(13-17)
    by (fastforce simp: fresh_state_def)
qed

theorem interrupted_write_is_found_witness:
  "\<exists>s' t. execute sample_service (sample_world 0 400 ''t2'') sample_intent (fresh_state applying_journal) = (s', Inr t)
    \<and> found_outcome ''x1'' sample_intent t
    \<and> sv_trace s' = [Fetched ''T-1'' (Some moved_sample), Logged ''x1'' Tp_RECOVERED]
    \<and> phases ''x1'' (sv_journal s') = [Tp_REQUESTED, Tp_APPLYING, Tp_RECOVERED]
    \<and> claim_of ''p'' ''T-1'' (sv_journal s') = None"
proof -
  obtain e where e: "latest_event ''x1'' applying_journal = Inr (Some e)" "je_phase e \<notin> set FINAL_PHASES"
    using sample_latest(1) by blast
  show ?thesis
    using interrupted_write_is_found[where w = "sample_world 0 400 ''t2''" and n = sample_intent and i = moved_sample
      and sv = sample_service and j = applying_journal and row = "hd (jn_requests sample_journal)" and active = sample_claim,
      OF sample_intents_ok sample_journal_runs_on(1)]
    sample_run_facts sample_versions(2) sample_statuses(2) e
  by (simp add: sample_lookups)
qed

text \<open>C11. A finished transition is not run again: executing its intent once more returns the outcome of its last
  event, marked as replayed, without a call to the tracker and without a new event.\<close>

theorem finished_transition_is_replayed:
  assumes "intents_ok I" and "journal_runs I j" and "undisturbed w" and "0 < ts_claim_ttl sv"
    and "tn_project_id n = ts_project_id sv"
    and "request_by_key (tn_project_id n) (tn_idempotency_key n) j = Some row" and "rq_intent_revision row = intent_revision n"
    and "latest_event (rq_transition_id row) j = Inr (Some e)" and "je_phase e \<in> set FINAL_PHASES"
  shows "\<exists>s' t. je_outcome e = Some t \<and> execute sv w n (fresh_state j) = (s', Inr (t\<lparr>to_replayed := True\<rparr>))
    \<and> sv_trace s' = [] \<and> jn_events (sv_journal s') = jn_events j"
proof -
  obtain t where t: "je_outcome e = Some t" and b: "begin_transition (sw_number w) n (ts_claim_ttl sv) (sw_fresh w 0)
      (sw_token w 0) (sw_clock w 0) (sw_stamp w 0) j
    = Inr (j\<lparr>jn_claims := filter (\<lambda>c. \<not> (cl_project_id c = tn_project_id n \<and> cl_task_id c = tn_task_id n
          \<and> cl_transition_id c = rq_transition_id row)) (jn_claims j)\<rparr>,
        (begin_answer (rq_transition_id row))\<lparr>bg_replay := Some (t\<lparr>to_replayed := True\<rparr>)\<rparr>)"
    using begin_replays[OF assms(1,2,4,6-9)] by blast
  have "run_admitted sv w n (execute_claimed sv w False n) (fresh_state j) = (tick (fresh_state (j\<lparr>jn_claims :=
      filter (\<lambda>c. \<not> (cl_project_id c = tn_project_id n \<and> cl_task_id c = tn_task_id n
          \<and> cl_transition_id c = rq_transition_id row)) (jn_claims j)\<rparr>)), Inr (t\<lparr>to_replayed := True\<rparr>))"
    using b assms(3) by (simp add: run_admitted_def begin_call_def andthen_def journal_call_def undisturbed_def Let_def
        answer_begin_def begin_answer_def give_def fresh_state_def)
  then show ?thesis using t assms(5) by (simp add: execute_def fresh_state_def tick_def)
qed

theorem finished_transition_is_replayed_witness:
  "\<exists>s'. execute sample_service (sample_world 0 400 ''t2'') sample_intent (fresh_state rejected_journal)
      = (s', Inr (sample_rejection\<lparr>to_replayed := True\<rparr>))
    \<and> sv_trace s' = [] \<and> jn_events (sv_journal s') = jn_events rejected_journal"
proof -
  obtain e where e: "latest_event ''x1'' rejected_journal = Inr (Some e)" "je_phase e \<in> set FINAL_PHASES"
    "je_outcome e = Some sample_rejection"
    using sample_latest(2) by blast
  show ?thesis
    using finished_transition_is_replayed[where w = "sample_world 0 400 ''t2''" and n = sample_intent
      and sv = sample_service and j = rejected_journal and row = "hd (jn_requests sample_journal)",
      OF sample_intents_ok sample_journal_runs_on(2)]
    sample_run_facts e
  by (simp add: sample_lookups)
qed

end
