(* ===== verification/Spec2Isabelle.thy ===== *)
theory Spec2Isabelle
  imports Sha256 PyTime TimeRoundtrip ContractProofs ReasonProofs TaskStatuses FactProofs DecisionClaims
    JobClaims JobEffects ScheduleSamples DeadlineRoundtrip DependencyGraph QueueClaims
    ServiceClaims
begin

text \<open>
  oompah is a task orchestrator: agents implement tracker tasks, and durable workflow code decides, for
  every task and every snapshot of evidence, what happens next.  This library models that core, the part of
  src/oompah that is meant to be pure and that everything else obeys.

  The parts, in the order they are used by the program.

  \<^item> The workflow contract (workflow_contract.py): the canonical statuses and their aliases, one contract
    per status, the graph of allowed transitions with the evidence each needs, and the validator that the
    module runs when it is imported.  Theory WorkflowContract has the data and the lookups, ContractProofs
    the validator, what an accepted contract guarantees, and reachability along \<open>lifecycle_step\<close>.
  \<^item> The reason taxonomy (workflow_reasons.py): liveness objectives and their overrides, 96 reason
    definitions, and reasons as built, validated, written and read.  Theories WorkflowReasons, ReasonProofs.
  \<^item> Status rollup of epics (statuses.py).  Theory TaskStatuses.
  \<^item> The evidence (workflow_fact_model.py): observations of twelve domains, landing facts, landing
    requests and the snapshot, with frozen values, normalised timestamps, content digests and JSON forms.
    Theory FactModel, with the round trips in FactProofs.
  \<^item> Integration records (integration.py, in part) and the evaluator (work_decision.py): theories
    Integration, WorkDecision (data, constructor checks, helpers), DecisionBranches and DeliveryBranches (one
    choice of arguments per branch) and EvaluateTask (the composition, \<open>evaluate_task\<close>).  DecisionProofs,
    BranchProofs and DecisionOrigin prove what every branch may choose, DecisionClaims the properties.
  \<^item> The leased job store (workflow_jobs.py, in part).  JobStore has the specifications, the rows and the event
    ledger, JobLeases and JobReleases one function for each transaction: enqueueing, recovery, claiming,
    heartbeats, checkpoints, completion, failure, requeueing, deferral, cancellation, superseding, rearming,
    quarantine and the landing ledger.  A table is the list of its rows, a transaction a function from the
    store to the store and its value or the exception it raises, and the clock, the fresh id and the fresh
    lease token of a call are arguments.  JobLifecycle states the life of a row and the invariant, JobRefinement
    and JobSteps that every operation refines it (locales \<open>leased_operation\<close> and \<open>releasing_operation\<close>,
    interpreted in JobOperations), JobMachine the runs, JobExclusion mutual exclusion; JobClaims and JobEffects
    have the properties.
  \<^item> The scheduling tables of the same store.  SnapshotFences has the generations of scans (allocated before the
    source is read, accepted, published) and the order of events, TaskSchedules the membership of a scan, the
    cursor of each task, its materialisation into jobs and the proofs that retire jobs, EventLanes the jobs
    that events put into lanes beside the decisions, ReassessDeadline the deadline in the text of a
    generation.  ScheduleSteps makes each call a step of JobMachine (\<open>schedule_call\<close>) and shows that it keeps
    the life of every row, SchedulePlans the invariant of the tables (\<open>plan_ok\<close>, an interpretation of the locale
    of inductive invariants), EventOrder that sources only move forward.
  \<^item> The scheduler (workflow_scheduler.py).  WorkflowScheduler has the settings, the jobs of a decision and the
    pass \<open>reconcile\<close>, a sequence of transactions between which other processes act (\<open>env\<close>); SchedulerLoop the
    batch loop \<open>run_due\<close> and the body of the service loop.  PassRuns proves that a pass is a run of the job machine,
    ScheduleClaims, MembershipClaims, WindowClaims, LoopClaims and DeadlineRoundtrip the properties;
    ScheduleSamples is a concrete run for their instances.
  \<^item> The dependency graph of the tracker (dependency_graph.py): own and inherited dependencies, the order of
    integration, and the search that refuses an edge that closes a cycle.  Theory DependencyGraph.
  \<^item> The integration queue (integration_queue.py): one row for each submission, taken under an expiring lease or
    advanced by compare-and-swap on the SHA-256 of the row.  IntegrationQueue has one function for each
    method of the store, QueueInvariant the invariant, QueueMachine the contract of the compare-and-swap calls
    (locales \<open>generation_swap\<close> and \<open>unleased_swap\<close>, interpreted on each call), QueueRuns the steps, QueueLeases
    what a step may do to a lease and to the history, QueueClaims the properties.  Invariants has the locale of
    inductive invariants that both stores interpret.

  \<^item> The transition service (task_transition_service.py): every change of a task's status is an immutable intent,
    journalled, claimed, compared with the live issue, written to the tracker and verified.  IssueEvidence has the
    fields of an issue (models.py) and the digest of its evidence (terminal_audit.py), TransitionIntents the
    intents, the outcomes and the version of an issue's authority, TransitionJournal the tables and the calls
    of the journal (\<open>begin\<close> first of all, which grants, replays, makes wait or hands an expired transition over),
    TransitionService the executor: \<open>execute\<close> for the ordinary lanes, \<open>recover_authorized\<close> for compensations.
    A run is a saga, a computation that keeps what it did when it raises (SagaMonad, with Hoare triples and the
    locale \<open>saga_relation\<close>).  The tracker, the terminal coordinator and the guards answer as they like, other
    users of the journal act between its calls, and a trace records what was sent to them.  IntentProofs has
    what the constructor guarantees, JournalInvariant and JournalMachine the journal as a state machine,
    ServiceProofs that the service keeps it and justifies its writes, ServiceOutcomes what it answers, QuietRuns
    its runs when nobody interferes, JournalClaims and ServiceClaims the properties.

  How Python is modelled.  OompahPrelude has exceptions as a datatype and fallible code as
  \<open>py_exn + 'a\<close> with \<open>ebind\<close> for sequencing, and the string methods; a \<open>str\<close> is a list of characters with
  code points below 256.  PyValues has the dynamic values that dictionaries hold, their truth value, equality,
  \<open>str\<close>, \<open>repr\<close>, and canonical JSON; Sha256 is the digest over 32-bit words; PyTime is
  \<open>datetime.fromisoformat\<close>, UTC instants in microseconds within years 1 to 9999, and \<open>isoformat\<close>.
  A dataclass is a record and its \<open>__post_init__\<close> a function that returns the record or the exception; an
  enum is a datatype with a function to its values.  Messages of exceptions are not modelled.

  Where a branch function of the evaluator is long, it is split at its early returns: \<open>decision_args\<close> are the
  keyword arguments the code passes to \<open>_decision\<close>, so that \<open>evaluate_choice\<close> picks them and \<open>decision\<close> makes the
  record, as every return of the source does.

  What the properties show.  A task is declared finished, and Merged or Done recommended, only on recorded
  evidence; work is released, merged and delivered only when its dependencies, children, CI and authority
  allow it; a final status never regresses; a waiting decision has a deadline within the objective of its
  status; every decision passes the checks of its constructor, carries the digest of its content and survives
  its JSON form.  In the job store every row follows its life, a lost or spent lease token opens nothing any more,
  two running jobs belong to different tasks, expired leases are recovered, a claim takes the best job there is
  and succeeds when the probe says so, and the ledger only grows.  A scan that a newer one overtook writes nothing any more, generations are published
  once and in order, an accepted pass was never overtaken whatever other processes did meanwhile, a
  materialised cursor leaves the decision lane of a task to one generation, the membership of a scan is exactly
  what it expected, an event of an older source is refused, every decision of a large scan comes into the window
  in a bounded number of passes, and the batch loop ends within a bound.  The check of a new dependency is exact, and the
  edges it accepts keep the graph acyclic.  In the integration queue a live lease survives everybody else and a
  lost one is fenced, a claim takes the first row that is not blocked and an epic cannot deadlock, of two
  workers that saw one generation at most one writes, and the replay of landings misses none.
  The transition service writes a status only after it read the issue that the intent expects and journalled the
  start, along a legal edge or for an authorized recovery; it journals what it answers, gives its claim back on
  every path, applies an unhindered transition, repairs a crash after the write without a second write, and
  never runs a finished transition again; the journal only grows, and a task has one owner.  The contract and
  the taxonomy pass their own validators, and an accepted contract has no dead ends and fences every edge.  Snapshots, landings, reasons and timestamps round trip.

  Fuel.  \<open>nat_digits\<close> takes fuel that \<open>nat_str\<close> sets above the number, which TimeRoundtrip proves enough; the block
  loop of \<open>sha256_words\<close> runs for the number of blocks of the padded message.  The loops of
  \<open>run_due\<close> and of the dependency search are functions with a measure.  Nothing else needs fuel.

  Not modelled: code points above 255; the messages of exceptions; in integration.py the submission messages
  and expected branches, the landing-evidence objects and the classification of
  conflict repairs; in workflow_jobs.py the capture, restore and rollback of the authority of a scan, failures
  of the storage itself while a scan is published, archival, rollouts, listings, health and migrations; in
  workflow_scheduler.py the event loop that waits for the wake event, \<open>drain\<close> and the health report; in
  integration_queue.py the connection, the column migrations and the two calls that only run a callback while a
  row is unchanged or absent; in task_transition_service.py the lifetime of the journal's connection, the write
  locks, cancellation and the coordinator behind the terminal adapter; in the normalisation of evidence the
  compatibility characters that NFKC replaces.  Floats are reals, and how JSON writes one is a parameter on which nothing
  depends; a time without an offset, which the scheduler would read in the local zone, is an error.  The
  collectors, the worker, executors, servers, trackers and the orchestrator are I/O around this core.
\<close>

end
